(* ===== verification/Js_Base.thy ===== *)
theory Js_Base
  imports Main "HOL-Library.Sublist"
begin

text \<open>
  The prelude: the JavaScript values and library functions the components share.

  \<^item> Strings. A JS string is modelled by the bytes of its UTF-8 encoding, one \<open>char\<close> per byte, so
    an ASCII string is its list of characters and a non-ASCII literal of the source is written
    with the byte lists \<open>em_dash\<close>, \<open>not_eq_sign\<close>, ... below. Concatenation, equality, substring
    and prefix tests, splitting at an ASCII character and percent-encoding agree with JS on every
    well-formed string; \<open>length\<close>, \<open>slice\<close> and \<open>toLowerCase\<close> agree on ASCII strings.
  \<^item> Values. \<open>jsval\<close> is a JSON value or \<open>undefined\<close>; an object is the list of its own properties
    in insertion order (a property set again keeps its place, as in JS).
  \<^item> Numbers are integers: no component modelled here depends on a fraction except where the
    rounding is written out.
\<close>

named_theorems str_simps \<open>evaluation of the string library\<close>
named_theorems js_defs \<open>definitions of the small JS operators\<close>

subsection \<open>Values\<close>

datatype jsval =
    JUndef
  | JNull
  | JBool bool
  | JNum int
  | JStr string
  | JArr "jsval list"
  | JObj "(string \<times> jsval) list"

text \<open>\<open>truthy\<close> is JS's ToBoolean; \<open>nullish\<close> is \<open>v == null\<close>.\<close>

fun truthy :: "jsval \<Rightarrow> bool" where
  "truthy JUndef = False"
| "truthy JNull = False"
| "truthy (JBool b) = b"
| "truthy (JNum n) = (n \<noteq> 0)"
| "truthy (JStr s) = (s \<noteq> [])"
| "truthy (JArr _) = True"
| "truthy (JObj _) = True"

fun nullish :: "jsval \<Rightarrow> bool" where
  "nullish JUndef = True"
| "nullish JNull = True"
| "nullish _ = False"

text \<open>
  Field access \<open>o.k\<close> on an object; the optional access \<open>o?.k\<close> is \<open>undefined\<close> on anything without
  such a property.
\<close>

definition jget :: "jsval \<Rightarrow> string \<Rightarrow> jsval" where
  "jget v k = (case v of JObj kvs \<Rightarrow> (case map_of kvs k of Some x \<Rightarrow> x | None \<Rightarrow> JUndef) | _ \<Rightarrow> JUndef)"

lemma jget_simps [simp]:
  "jget (JObj []) k = JUndef"
  "jget (JObj ((a, x) # kvs)) k = (if k = a then x else jget (JObj kvs) k)"
  "jget JUndef k = JUndef" "jget JNull k = JUndef" "jget (JBool b) k = JUndef"
  "jget (JNum n) k = JUndef" "jget (JStr s) k = JUndef" "jget (JArr xs) k = JUndef"
  by (simp_all add: jget_def)

text \<open>Setting a property: an existing key keeps its place.\<close>

fun obj_set :: "(string \<times> jsval) list \<Rightarrow> string \<Rightarrow> jsval \<Rightarrow> (string \<times> jsval) list" where
  "obj_set [] k v = [(k, v)]"
| "obj_set ((a, x) # kvs) k v = (if a = k then (a, v) # kvs else (a, x) # obj_set kvs k v)"

lemma jget_obj_set [simp]: "jget (JObj (obj_set kvs k v)) a = (if a = k then v else jget (JObj kvs) a)"
  by (induction kvs) (auto split: if_splits)

fun is_obj :: "jsval \<Rightarrow> bool" where
  "is_obj (JObj _) = True"
| "is_obj (JArr _) = True"
| "is_obj _ = False"

fun as_num :: "jsval \<Rightarrow> int option" where
  "as_num (JNum n) = Some n"
| "as_num _ = None"

fun as_str :: "jsval \<Rightarrow> string option" where
  "as_str (JStr s) = Some s"
| "as_str _ = None"

text \<open>A nullable string field of an API record: absent, \<open>null\<close> and the empty string are falsy.\<close>

definition str_truthy :: "string option \<Rightarrow> bool" where
  "str_truthy s = (case s of None \<Rightarrow> False | Some x \<Rightarrow> x \<noteq> [])"

definition str_or :: "string option \<Rightarrow> string \<Rightarrow> string" where
  "str_or s d = (case s of None \<Rightarrow> d | Some x \<Rightarrow> (if x = [] then d else x))"

lemma str_truthy_simps [simp]:
  "str_truthy None = False" "str_truthy (Some x) = (x \<noteq> [])"
  by (simp_all add: str_truthy_def)

lemma str_or_simps [simp]:
  "str_or None d = d" "str_or (Some x) d = (if x = [] then d else x)"
  by (simp_all add: str_or_def)

lemma str_truthy_iff: "str_truthy s \<longleftrightarrow> (\<exists>x. s = Some x \<and> x \<noteq> [])"
  by (cases s) auto

subsection \<open>Characters and strings\<close>

definition code_of :: "char \<Rightarrow> nat" where
  "code_of c = of_char c"

definition lower_char :: "char \<Rightarrow> char" where
  "lower_char c = (if 65 \<le> code_of c \<and> code_of c \<le> 90 then char_of (code_of c + 32) else c)"

definition to_lower :: "string \<Rightarrow> string" where
  "to_lower s = map lower_char s"

definition is_digit :: "char \<Rightarrow> bool" where
  "is_digit c \<longleftrightarrow> 48 \<le> code_of c \<and> code_of c \<le> 57"

definition is_alpha :: "char \<Rightarrow> bool" where
  "is_alpha c \<longleftrightarrow> (65 \<le> code_of c \<and> code_of c \<le> 90) \<or> (97 \<le> code_of c \<and> code_of c \<le> 122)"

definition is_hex :: "char \<Rightarrow> bool" where
  "is_hex c \<longleftrightarrow> is_digit c \<or> (65 \<le> code_of c \<and> code_of c \<le> 70) \<or> (97 \<le> code_of c \<and> code_of c \<le> 102)"

definition is_word_char :: "char \<Rightarrow> bool" where
  "is_word_char c \<longleftrightarrow> is_alpha c \<or> is_digit c \<or> code_of c = 95"

definition is_space :: "char \<Rightarrow> bool" where
  "is_space c \<longleftrightarrow> (9 \<le> code_of c \<and> code_of c \<le> 13) \<or> code_of c = 32"

lemma length_to_lower [simp]: "length (to_lower s) = length s"
  by (simp add: to_lower_def)

lemma to_lower_append [simp]: "to_lower (s @ t) = to_lower s @ to_lower t"
  by (simp add: to_lower_def)

lemma to_lower_Nil [simp]: "to_lower [] = []"
  by (simp add: to_lower_def)

lemma to_lower_eq_Nil_iff [simp]: "to_lower s = [] \<longleftrightarrow> s = []"
  by (simp add: to_lower_def)

lemma code_of_char_of [simp]: "n < 256 \<Longrightarrow> code_of (char_of n) = n"
  by (simp add: code_of_def)

lemma code_of_Char [simp]:
  "code_of (Char b0 b1 b2 b3 b4 b5 b6 b7) = horner_sum of_bool 2 [b0, b1, b2, b3, b4, b5, b6, b7]"
  by (simp add: code_of_def)

lemma char_eq_code: "c = d \<longleftrightarrow> code_of c = code_of d"
  by (simp add: code_of_def)

lemma code_lower_char:
  "code_of (lower_char c) = (if 65 \<le> code_of c \<and> code_of c \<le> 90 then code_of c + 32 else code_of c)"
  by (simp add: lower_char_def)

lemma lower_char_idem [simp]: "lower_char (lower_char c) = lower_char c"
  by (auto simp: lower_char_def)

lemma to_lower_idem [simp]: "to_lower (to_lower s) = to_lower s"
  by (simp add: to_lower_def)

text \<open>\<open>String.prototype.trim\<close>, \<open>startsWith\<close>, \<open>str_includes\<close>, \<open>split\<close> at one character, \<open>join\<close>.\<close>

definition trim_left :: "string \<Rightarrow> string" where
  "trim_left s = dropWhile is_space s"

definition trim :: "string \<Rightarrow> string" where
  "trim s = rev (trim_left (rev (trim_left s)))"

definition blank_str :: "string \<Rightarrow> bool" where
  "blank_str s \<longleftrightarrow> trim s = []"

lemma trim_Nil [simp]: "trim [] = []"
  by (simp add: trim_def trim_left_def)

lemma trim_eq_Nil_iff: "trim s = [] \<longleftrightarrow> (\<forall>c \<in> set s. is_space c)"
proof
  assume "trim s = []"
  then have d: "dropWhile is_space (rev (dropWhile is_space s)) = []"
    by (simp add: trim_def trim_left_def)
  then have "\<forall>c \<in> set (dropWhile is_space s). is_space c"
    by (simp add: dropWhile_eq_Nil_conv)
  then have "dropWhile is_space s = []"
    by (metis hd_dropWhile list.set_sel(1))
  then show "\<forall>c \<in> set s. is_space c"
    by (simp add: dropWhile_eq_Nil_conv)
next
  assume "\<forall>c \<in> set s. is_space c"
  then show "trim s = []" by (auto simp: trim_def trim_left_def dest: set_dropWhileD)
qed

definition starts_with :: "string \<Rightarrow> string \<Rightarrow> bool" where
  "starts_with s p \<longleftrightarrow> prefix p s"

fun str_includes :: "string \<Rightarrow> string \<Rightarrow> bool" where
  "str_includes [] p = (p = [])"
| "str_includes (c # s) p = (prefix p (c # s) \<or> str_includes s p)"

lemma str_includes_iff_sublist: "str_includes s p \<longleftrightarrow> sublist p s"
  by (induction s) (auto simp: sublist_Cons_right)

fun split_at :: "char \<Rightarrow> string \<Rightarrow> string list" where
  "split_at d [] = [[]]"
| "split_at d (c # s) =
     (if c = d then [] # split_at d s
      else (case split_at d s of [] \<Rightarrow> [[c]] | w # ws \<Rightarrow> (c # w) # ws))"

fun join :: "string \<Rightarrow> string list \<Rightarrow> string" where
  "join sep [] = []"
| "join sep [w] = w"
| "join sep (w # v # ws) = w @ sep @ join sep (v # ws)"

lemma split_at_nonempty [simp]: "split_at d s \<noteq> []"
  by (induction s) (auto split: list.splits)

lemma join_split_at: "join [d] (split_at d s) = s"
proof (induction s)
  case Nil
  then show ?case by simp
next
  case (Cons c s)
  obtain w ws where ws: "split_at d s = w # ws"
    by (cases "split_at d s") auto
  then show ?case using Cons by (cases ws) auto
qed

lemma split_at_no_sep: "w \<in> set (split_at d s) \<Longrightarrow> d \<notin> set w"
proof (induction s arbitrary: w)
  case Nil
  then show ?case by simp
next
  case (Cons c s)
  obtain v vs where vs: "split_at d s = v # vs"
    by (cases "split_at d s") auto
  with Cons show ?case by (auto split: if_splits)
qed

lemma split_at_join:
  "\<lbrakk>\<forall>w \<in> set ws. d \<notin> set w; ws \<noteq> []\<rbrakk> \<Longrightarrow> split_at d (join [d] ws) = ws"
proof (induction "[d]" ws rule: join.induct)
  case 1
  then show ?case by simp
next
  case (2 w)
  then have "d \<notin> set w" by simp
  then show ?case by (induction w) auto
next
  case (3 w v ws)
  from 3 have IH: "split_at d (join [d] (v # ws)) = v # ws" and w: "d \<notin> set w" by auto
  from w have "split_at d (w @ d # join [d] (v # ws)) = w # split_at d (join [d] (v # ws))"
    by (induction w) auto
  with IH show ?case by simp
qed

text \<open>\<open>s.replace(/c/g, r)\<close> for one character.\<close>

definition replace_char :: "char \<Rightarrow> string \<Rightarrow> string \<Rightarrow> string" where
  "replace_char c r s = concat (map (\<lambda>x. if x = c then r else [x]) s)"

lemma replace_char_simps [simp]:
  "replace_char c r [] = []"
  "replace_char c r (x # s) = (if x = c then r else [x]) @ replace_char c r s"
  "replace_char c r (s @ t) = replace_char c r s @ replace_char c r t"
  by (simp_all add: replace_char_def)

text \<open>\<open>s.slice(0, n)\<close> for a non-negative \<open>n\<close>.\<close>

abbreviation slice0 :: "nat \<Rightarrow> string \<Rightarrow> string" where
  "slice0 n s \<equiv> take n s"

text \<open>\<open>lastIndexOf\<close> a character; \<open>-1\<close> when absent.\<close>

fun last_index_from :: "char \<Rightarrow> int \<Rightarrow> string \<Rightarrow> int" where
  "last_index_from d i [] = -1"
| "last_index_from d i (c # s) =
     (let j = last_index_from d (i + 1) s in if j = -1 \<and> c = d then i else j)"

definition last_index_of :: "string \<Rightarrow> char \<Rightarrow> int" where
  "last_index_of s d = last_index_from d 0 s"

subsection \<open>Decimal numbers\<close>

definition digit_char :: "nat \<Rightarrow> char" where
  "digit_char d = char_of (48 + d)"

fun show_nat :: "nat \<Rightarrow> string" where
  "show_nat n = (if n < 10 then [digit_char n] else show_nat (n div 10) @ [digit_char (n mod 10)])"

declare show_nat.simps [simp del]

definition show_int :: "int \<Rightarrow> string" where
  "show_int z = (if z < 0 then ''-'' @ show_nat (nat (- z)) else show_nat (nat z))"

lemma show_nat_nonempty [simp]: "show_nat n \<noteq> []"
  by (subst show_nat.simps) simp

lemma is_digit_digit_char: "d < 10 \<Longrightarrow> is_digit (digit_char d)"
  by (simp add: is_digit_def digit_char_def)

lemma show_nat_digits: "\<forall>c \<in> set (show_nat n). is_digit c"
proof (induction n rule: show_nat.induct)
  case (1 n)
  then show ?case
    by (subst show_nat.simps) (auto simp: is_digit_digit_char)
qed

definition val_digits :: "string \<Rightarrow> nat" where
  "val_digits s = foldl (\<lambda>n c. 10 * n + (code_of c - 48)) 0 s"

lemma val_digits_snoc: "val_digits (s @ [c]) = 10 * val_digits s + (code_of c - 48)"
  by (simp add: val_digits_def)

lemma val_show_nat [simp]: "val_digits (show_nat n) = n"
proof (induction n rule: show_nat.induct)
  case (1 n)
  show ?case
  proof (cases "n < 10")
    case True
    then show ?thesis by (subst show_nat.simps) (simp add: val_digits_def digit_char_def)
  next
    case False
    with 1 have "val_digits (show_nat (n div 10)) = n div 10" by blast
    with False show ?thesis
      by (subst show_nat.simps) (simp add: val_digits_snoc digit_char_def)
  qed
qed

lemma show_nat_inject [simp]: "show_nat m = show_nat n \<longleftrightarrow> m = n"
  by (metis val_show_nat)

text \<open>\<open>String(n).padStart(2, '0')\<close> and \<open>padStart(4, '0')\<close>.\<close>

definition pad_start :: "nat \<Rightarrow> char \<Rightarrow> string \<Rightarrow> string" where
  "pad_start n c s = replicate (n - length s) c @ s"

definition pad2 :: "nat \<Rightarrow> string" where
  "pad2 n = pad_start 2 (CHR ''0'') (show_nat n)"

text \<open>\<open>String(v)\<close>.\<close>

fun js_string :: "jsval \<Rightarrow> string" where
  "js_string JUndef = ''undefined''"
| "js_string JNull = ''null''"
| "js_string (JBool b) = (if b then ''true'' else ''false'')"
| "js_string (JNum n) = show_int n"
| "js_string (JStr s) = s"
| "js_string (JArr xs) = join '','' (map (\<lambda>x. if nullish x then [] else js_string x) xs)"
| "js_string (JObj _) = ''[object Object]''"

subsection \<open>\<open>Math.round\<close> of a quotient of non-negative integers: half rounds up\<close>

definition round_div :: "nat \<Rightarrow> nat \<Rightarrow> nat" where
  "round_div a b = (2 * a + b) div (2 * b)"

lemma round_div_bound: "0 < b \<Longrightarrow> a \<le> n * b \<Longrightarrow> round_div a b \<le> n"
proof -
  assume b: "0 < b" and a: "a \<le> n * b"
  from a have "2 * a + b < (n + 1) * (2 * b)" using b by (simp add: algebra_simps)
  then have "(2 * a + b) div (2 * b) < n + 1"
    by (rule less_mult_imp_div_less)
  then show ?thesis by (simp add: round_div_def)
qed

lemma round_div_exact: "0 < b \<Longrightarrow> round_div (n * b) b = n"
proof -
  assume b: "0 < b"
  have "2 * (n * b) + b = b + n * (2 * b)" by simp
  then have "(2 * (n * b) + b) div (2 * b) = n + b div (2 * b)"
    using b by (metis div_mult_self1 mult_eq_0_iff not_gr_zero zero_neq_numeral)
  with b show ?thesis by (simp add: round_div_def)
qed

subsection \<open>Non-ASCII characters of the source's literals, as UTF-8\<close>

definition em_dash :: string where "em_dash = [CHR 0xE2, CHR 0x80, CHR 0x94]"
definition not_eq_sign :: string where "not_eq_sign = [CHR 0xE2, CHR 0x89, CHR 0xA0]"
definition section_sign :: string where "section_sign = [CHR 0xC2, CHR 0xA7]"
definition right_arrow :: string where "right_arrow = [CHR 0xE2, CHR 0x86, CHR 0x92]"
definition ellipsis :: string where "ellipsis = [CHR 0xE2, CHR 0x80, CHR 0xA6]"
definition minus_sign :: string where "minus_sign = [CHR 0xE2, CHR 0x88, CHR 0x92]"
definition middle_dot :: string where "middle_dot = [CHR 0xC2, CHR 0xB7]"
definition left_dquote :: string where "left_dquote = [CHR 0xE2, CHR 0x80, CHR 0x9C]"
definition right_dquote :: string where "right_dquote = [CHR 0xE2, CHR 0x80, CHR 0x9D]"
definition right_squote :: string where "right_squote = [CHR 0xE2, CHR 0x80, CHR 0x99]"
definition angle_quote :: string where "angle_quote = [CHR 0xE2, CHR 0x80, CHR 0xBA]"

lemmas utf8_defs = em_dash_def not_eq_sign_def section_sign_def right_arrow_def ellipsis_def
  minus_sign_def middle_dot_def left_dquote_def right_dquote_def right_squote_def angle_quote_def

subsection \<open>Sorting and maps\<close>

text \<open>\<open>xs.sort(cmp)\<close>: stable, for a comparison that is consistent.\<close>

fun insert_by :: "('a \<Rightarrow> 'a \<Rightarrow> int) \<Rightarrow> 'a \<Rightarrow> 'a list \<Rightarrow> 'a list" where
  "insert_by cmp x [] = [x]"
| "insert_by cmp x (y # ys) = (if cmp x y \<le> 0 then x # y # ys else y # insert_by cmp x ys)"

definition sort_by :: "('a \<Rightarrow> 'a \<Rightarrow> int) \<Rightarrow> 'a list \<Rightarrow> 'a list" where
  "sort_by cmp xs = foldr (insert_by cmp) xs []"

lemma set_insert_by [simp]: "set (insert_by cmp x ys) = insert x (set ys)"
  by (induction ys) auto

lemma set_sort_by [simp]: "set (sort_by cmp xs) = set xs"
  unfolding sort_by_def by (induction xs) auto

lemma length_sort_by [simp]: "length (sort_by cmp xs) = length xs"
proof -
  have "length (insert_by cmp x ys) = Suc (length ys)" for x ys by (induction ys) auto
  then show ?thesis unfolding sort_by_def by (induction xs) auto
qed

text \<open>\<open>m.set(k, v)\<close> of a \<open>Map\<close>: a key set again keeps its place.\<close>

fun map_set :: "('k \<times> 'v) list \<Rightarrow> 'k \<Rightarrow> 'v \<Rightarrow> ('k \<times> 'v) list" where
  "map_set [] k v = [(k, v)]"
| "map_set ((a, x) # m) k v = (if a = k then (a, v) # m else (a, x) # map_set m k v)"

end
