(* ===== verification/Js_Regex.thy ===== *)
theory Js_Regex
  imports Js_Base
begin

text \<open>
  JavaScript regular expressions, as far as the sources use them: character classes, sequence,
  alternation, greedy repetition with bounds, the anchors \<open>^\<close> and \<open>$\<close> (no \<open>m\<close> flag), the word
  boundary \<open>\b\<close> and negative lookahead. A pattern is a value of \<open>rx\<close>; the matcher \<open>rx_ends\<close>
  lists the states a backtracking matcher reaches, in the order it tries them; \<open>rx_test\<close> is
  \<open>RegExp.prototype.test\<close>. The reference semantics \<open>rx_rel\<close> is a relation on match states; the
  matcher is proved equal to it, so a rule's verdict does not depend on the search order.
\<close>

subsection \<open>Patterns and match states\<close>

text \<open>A match state: the character just consumed (if any) and the input still to read.\<close>

type_synonym mstate = "char option \<times> string"

datatype rx =
    Eps
  | Cls "char \<Rightarrow> bool"
  | Seq rx rx
  | Alt rx rx
  | Rep nat "nat option" rx   \<comment> \<open>\<open>r{lo,hi}\<close>; \<open>None\<close> is no upper bound\<close>
  | Bos                       \<comment> \<open>\<open>^\<close>\<close>
  | Eos                       \<comment> \<open>\<open>$\<close>\<close>
  | WordB                     \<comment> \<open>\<open>\b\<close>\<close>
  | NotAhead rx               \<comment> \<open>\<open>(?!r)\<close>\<close>

definition word_opt :: "char option \<Rightarrow> bool" where
  "word_opt c = (case c of None \<Rightarrow> False | Some x \<Rightarrow> is_word_char x)"

definition head_opt :: "string \<Rightarrow> char option" where
  "head_opt s = (case s of [] \<Rightarrow> None | c # _ \<Rightarrow> Some c)"

definition at_word_boundary :: "mstate \<Rightarrow> bool" where
  "at_word_boundary st = (word_opt (fst st) \<noteq> word_opt (head_opt (snd st)))"

subsection \<open>The matcher\<close>

text \<open>
  \<open>rep_ends m n lo hi st\<close> repeats the matcher \<open>m\<close> from \<open>st\<close>, greedily: at least \<open>lo\<close> times, at
  most \<open>hi\<close>. Once the minimum is reached an iteration that consumes nothing is refused, as the
  standard's RepeatMatcher does. \<open>n\<close> is fuel: the optional iterations each consume input, so
  \<open>length (snd st) + 1\<close> of them are enough (\<open>rx_ends_iff\<close> below).
\<close>

fun opt_ends :: "(mstate \<Rightarrow> mstate list) \<Rightarrow> nat \<Rightarrow> nat option \<Rightarrow> mstate \<Rightarrow> mstate list" where
  "opt_ends m 0 hi st = [st]"
| "opt_ends m (Suc n) hi st =
     (if hi = Some 0 then [st]
      else concat (map (\<lambda>st'. if length (snd st') < length (snd st)
                              then opt_ends m n (map_option (\<lambda>h. h - 1) hi) st' else []) (m st)) @ [st])"

fun rep_ends :: "(mstate \<Rightarrow> mstate list) \<Rightarrow> nat \<Rightarrow> nat option \<Rightarrow> mstate \<Rightarrow> mstate list" where
  "rep_ends m 0 hi st = opt_ends m (length (snd st)) hi st"
| "rep_ends m (Suc lo) hi st = concat (map (rep_ends m lo (map_option (\<lambda>h. h - 1) hi)) (m st))"

fun rx_ends :: "rx \<Rightarrow> mstate \<Rightarrow> mstate list" where
  "rx_ends Eps st = [st]"
| "rx_ends (Cls p) (q, []) = []"
| "rx_ends (Cls p) (q, c # s) = (if p c then [(Some c, s)] else [])"
| "rx_ends (Seq r1 r2) st = concat (map (rx_ends r2) (rx_ends r1 st))"
| "rx_ends (Alt r1 r2) st = rx_ends r1 st @ rx_ends r2 st"
| "rx_ends (Rep lo hi r) st = rep_ends (rx_ends r) lo hi st"
| "rx_ends Bos st = (if fst st = None then [st] else [])"
| "rx_ends Eos st = (if snd st = [] then [st] else [])"
| "rx_ends WordB st = (if at_word_boundary st then [st] else [])"
| "rx_ends (NotAhead r) st = (if rx_ends r st = [] then [st] else [])"

text \<open>The start states of an unanchored search, leftmost first.\<close>

fun starts_from :: "char option \<Rightarrow> string \<Rightarrow> mstate list" where
  "starts_from q [] = [(q, [])]"
| "starts_from q (c # s) = (q, c # s) # starts_from (Some c) s"

definition rx_test :: "rx \<Rightarrow> string \<Rightarrow> bool" where
  "rx_test r s = list_ex (\<lambda>st. rx_ends r st \<noteq> []) (starts_from None s)"

text \<open>
  \<open>s.match(/pre(cap)post/)\<close> with one group: the text of the whole match and of the group, from the
  leftmost start and, there, the first path in the matcher's order.
\<close>

definition consumed :: "mstate \<Rightarrow> mstate \<Rightarrow> string" where
  "consumed st st' = take (length (snd st) - length (snd st')) (snd st)"

definition exec_from :: "rx \<Rightarrow> rx \<Rightarrow> rx \<Rightarrow> mstate \<Rightarrow> (string \<times> string) list" where
  "exec_from pre cap post st =
     concat (map (\<lambda>a. concat (map (\<lambda>b. map (\<lambda>c. (consumed st c, consumed a b)) (rx_ends post b))
       (rx_ends cap a))) (rx_ends pre st))"

definition rx_match1 :: "rx \<Rightarrow> rx \<Rightarrow> rx \<Rightarrow> string \<Rightarrow> (string \<times> string) option" where
  "rx_match1 pre cap post s =
     (case concat (map (exec_from pre cap post) (starts_from None s)) of [] \<Rightarrow> None | x # _ \<Rightarrow> Some x)"

definition rx_match :: "rx \<Rightarrow> string \<Rightarrow> string option" where
  "rx_match r s = map_option fst (rx_match1 Eps r Eps s)"

subsection \<open>Pattern abbreviations\<close>

fun seqs :: "rx list \<Rightarrow> rx" where
  "seqs [] = Eps"
| "seqs [r] = r"
| "seqs (r # r' # rs) = Seq r (seqs (r' # rs))"

fun alts :: "rx list \<Rightarrow> rx" where
  "alts [] = Cls (\<lambda>_. False)"
| "alts [r] = r"
| "alts (r # r' # rs) = Alt r (alts (r' # rs))"

text \<open>A literal, with the letter case that counts (\<open>lit\<close>) or under the \<open>i\<close> flag (\<open>lit_i\<close>).\<close>

definition lit :: "string \<Rightarrow> rx" where
  "lit w = seqs (map (\<lambda>c. Cls (\<lambda>x. x = c)) w)"

definition lit_i :: "string \<Rightarrow> rx" where
  "lit_i w = seqs (map (\<lambda>c. Cls (\<lambda>x. lower_char x = lower_char c)) w)"

abbreviation star :: "rx \<Rightarrow> rx" where "star r \<equiv> Rep 0 None r"
abbreviation plus1 :: "rx \<Rightarrow> rx" where "plus1 r \<equiv> Rep 1 None r"
abbreviation opt :: "rx \<Rightarrow> rx" where "opt r \<equiv> Rep 0 (Some 1) r"
abbreviation any_char :: rx where "any_char \<equiv> Cls (\<lambda>c. code_of c \<noteq> 10 \<and> code_of c \<noteq> 13)"
abbreviation space_c :: rx where "space_c \<equiv> Cls is_space"
abbreviation nonspace_c :: rx where "nonspace_c \<equiv> Cls (\<lambda>c. \<not> is_space c)"
abbreviation digit_c :: rx where "digit_c \<equiv> Cls is_digit"

subsection \<open>The reference semantics\<close>

text \<open>What a pattern matches, as a relation between the state before and the state after.\<close>

fun rx_rel :: "rx \<Rightarrow> (mstate \<times> mstate) set" where
  "rx_rel Eps = Id"
| "rx_rel (Cls p) = {((q, c # s), (Some c, s)) | q c s. p c}"
| "rx_rel (Seq r1 r2) = rx_rel r1 O rx_rel r2"
| "rx_rel (Alt r1 r2) = rx_rel r1 \<union> rx_rel r2"
| "rx_rel (Rep lo hi r) =
     (\<Union>k \<in> {k. case hi of None \<Rightarrow> True | Some h \<Rightarrow> k \<le> h - lo}. rx_rel r ^^ (lo + k))"
| "rx_rel Bos = {(st, st) | st. fst st = None}"
| "rx_rel Eos = {(st, st) | st. snd st = []}"
| "rx_rel WordB = {(st, st) | st. at_word_boundary st}"
| "rx_rel (NotAhead r) = {(st, st) | st. st \<notin> Domain (rx_rel r)}"

text \<open>A match either stays in its state or shortens the input.\<close>

definition shrinks :: "(mstate \<times> mstate) set \<Rightarrow> bool" where
  "shrinks R \<longleftrightarrow> (\<forall>st st'. (st, st') \<in> R \<longrightarrow> st' = st \<or> length (snd st') < length (snd st))"

lemma shrinksD: "shrinks R \<Longrightarrow> (st, st') \<in> R \<Longrightarrow> st' = st \<or> length (snd st') < length (snd st)"
  unfolding shrinks_def by blast

lemma shrinks_comp: "shrinks R \<Longrightarrow> shrinks S \<Longrightarrow> shrinks (R O S)"
proof (unfold shrinks_def, intro allI impI)
  fix st st'
  assume R: "\<forall>st st'. (st, st') \<in> R \<longrightarrow> st' = st \<or> length (snd st') < length (snd st)"
    and S: "\<forall>st st'. (st, st') \<in> S \<longrightarrow> st' = st \<or> length (snd st') < length (snd st)"
    and "(st, st') \<in> R O S"
  then obtain u where "(st, u) \<in> R" "(u, st') \<in> S" by blast
  with R S have "u = st \<or> length (snd u) < length (snd st)" "st' = u \<or> length (snd st') < length (snd u)"
    by blast+
  then show "st' = st \<or> length (snd st') < length (snd st)" by auto
qed

lemma shrinks_pow: "shrinks R \<Longrightarrow> shrinks (R ^^ n)"
proof (induction n)
  case 0
  then show ?case by (simp add: shrinks_def)
next
  case (Suc n)
  then show ?case by (simp add: shrinks_comp)
qed

lemma shrinks_rx_rel: "shrinks (rx_rel r)"
proof (induction r)
  case (Rep lo hi r)
  then have "\<And>n. shrinks (rx_rel r ^^ n)" by (rule shrinks_pow)
  then show ?case unfolding shrinks_def by (simp del: split_paired_All) blast
qed (auto simp: shrinks_comp, auto simp: shrinks_def)

subsection \<open>The matcher computes the relation\<close>

definition upto_bound :: "nat option \<Rightarrow> nat \<Rightarrow> bool" where
  "upto_bound hi k = (case hi of None \<Rightarrow> True | Some h \<Rightarrow> k \<le> h)"

lemma upto_bound_mono: "upto_bound hi k \<Longrightarrow> j \<le> k \<Longrightarrow> upto_bound hi j"
  by (auto simp: upto_bound_def split: option.splits)

lemma upto_bound_pred: "upto_bound (map_option (\<lambda>h. h - 1) hi) k \<Longrightarrow> hi \<noteq> Some 0 \<Longrightarrow> upto_bound hi (Suc k)"
  by (cases hi) (auto simp: upto_bound_def)

lemma opt_ends_sound:
  assumes m: "\<And>st. set (m st) = R `` {st}"
    and mem: "st' \<in> set (opt_ends m n hi st)"
  shows "\<exists>k. upto_bound hi k \<and> (st, st') \<in> R ^^ k"
  using mem
proof (induction n arbitrary: hi st)
  case 0
  then have "upto_bound hi 0 \<and> (st, st') \<in> R ^^ 0" by (simp add: upto_bound_def split: option.splits)
  then show ?case ..
next
  case (Suc n)
  show ?case
  proof (cases "st' = st")
    case True
    then have "upto_bound hi 0 \<and> (st, st') \<in> R ^^ 0" by (simp add: upto_bound_def split: option.splits)
    then show ?thesis ..
  next
    case False
    with Suc.prems have h0: "hi \<noteq> Some 0" by auto
    with False Suc.prems obtain u where u: "u \<in> set (m st)"
      and rest: "st' \<in> set (opt_ends m n (map_option (\<lambda>h. h - 1) hi) u)"
      by (auto split: if_splits)
    from Suc.IH [OF rest] obtain k where k: "upto_bound (map_option (\<lambda>h. h - 1) hi) k"
      "(u, st') \<in> R ^^ k" by blast
    from u m have "(st, u) \<in> R" by blast
    with k(2) have "(st, st') \<in> R ^^ Suc k" by (metis relpow_Suc_I2)
    with upto_bound_pred [OF k(1) h0] show ?thesis by blast
  qed
qed

lemma opt_ends_complete:
  assumes m: "\<And>st. set (m st) = R `` {st}" and sh: "shrinks R"
    and path: "(st, st') \<in> R ^^ k" and bound: "upto_bound hi k" and fuel: "length (snd st) \<le> n"
  shows "st' \<in> set (opt_ends m n hi st)"
  using path bound fuel
proof (induction k arbitrary: st n hi)
  case 0
  then show ?case by (cases n) auto
next
  case (Suc k)
  from Suc.prems(1) obtain u where u: "(st, u) \<in> R" "(u, st') \<in> R ^^ k"
    by (metis relpow_Suc_D2)
  show ?case
  proof (cases "u = st")
    case True
    with Suc.IH [of st hi n] u Suc.prems upto_bound_mono [of hi "Suc k" k] show ?thesis by simp
  next
    case False
    with sh u(1) have less: "length (snd u) < length (snd st)" by (blast dest: shrinksD)
    with Suc.prems(3) obtain n' where n': "n = Suc n'" by (cases n) auto
    have h0: "hi \<noteq> Some 0" and b: "upto_bound (map_option (\<lambda>h. h - 1) hi) k"
      using Suc.prems(2) by (auto simp: upto_bound_def split: option.splits)
    have "length (snd u) \<le> n'" using less Suc.prems(3) n' by simp
    with Suc.IH [OF u(2) b] have "st' \<in> set (opt_ends m n' (map_option (\<lambda>h. h - 1) hi) u)" .
    moreover have "u \<in> set (m st)" using m u(1) by blast
    ultimately show ?thesis using n' h0 less by auto
  qed
qed

lemma opt_ends_eq:
  assumes "\<And>st. set (m st) = R `` {st}" and "shrinks R"
  shows "set (opt_ends m (length (snd st)) hi st) = {st'. \<exists>k. upto_bound hi k \<and> (st, st') \<in> R ^^ k}"
  using opt_ends_sound [OF assms(1)] opt_ends_complete [OF assms] by blast

lemma rep_ends_eq:
  assumes "\<And>st. set (m st) = R `` {st}" and "shrinks R"
  shows "set (rep_ends m lo hi st)
    = {st'. \<exists>k. upto_bound (map_option (\<lambda>h. h - lo) hi) k \<and> (st, st') \<in> R ^^ (lo + k)}"
proof (induction lo arbitrary: hi st)
  case 0
  have "map_option (\<lambda>h. h - 0) hi = hi" by (cases hi) auto
  then show ?case using opt_ends_eq [OF assms] by simp
next
  case (Suc lo)
  have hi': "map_option (\<lambda>h. h - lo) (map_option (\<lambda>h. h - 1) hi) = map_option (\<lambda>h. h - Suc lo) hi"
    by (cases hi) auto
  have "set (rep_ends m (Suc lo) hi st)
      = {st'. \<exists>u k. (st, u) \<in> R \<and> upto_bound (map_option (\<lambda>h. h - Suc lo) hi) k \<and> (u, st') \<in> R ^^ (lo + k)}"
  proof (rule set_eqI)
    fix st'
    have "st' \<in> set (rep_ends m (Suc lo) hi st) \<longleftrightarrow>
        (\<exists>u. u \<in> set (m st) \<and> st' \<in> set (rep_ends m lo (map_option (\<lambda>h. h - 1) hi) u))"
      by auto
    then show "st' \<in> set (rep_ends m (Suc lo) hi st) \<longleftrightarrow>
        st' \<in> {st'. \<exists>u k. (st, u) \<in> R \<and> upto_bound (map_option (\<lambda>h. h - Suc lo) hi) k
          \<and> (u, st') \<in> R ^^ (lo + k)}"
      unfolding Suc.IH hi' assms(1) by blast
  qed
  also have "\<dots> = {st'. \<exists>k. upto_bound (map_option (\<lambda>h. h - Suc lo) hi) k \<and> (st, st') \<in> R ^^ Suc (lo + k)}"
    by (blast intro: relpow_Suc_I2 dest: relpow_Suc_D2)
  finally show ?case by simp
qed

lemma rx_ends_iff: "set (rx_ends r st) = rx_rel r `` {st}"
proof (induction r arbitrary: st)
  case (Cls p)
  then show ?case by (cases "(Cls p, st)" rule: rx_ends.cases) auto
next
  case (Rep lo hi r)
  have "set (rx_ends (Rep lo hi r) st)
      = {st'. \<exists>k. upto_bound (map_option (\<lambda>h. h - lo) hi) k \<and> (st, st') \<in> rx_rel r ^^ (lo + k)}"
    using rep_ends_eq [OF Rep.IH shrinks_rx_rel] by simp
  also have "\<dots> = rx_rel (Rep lo hi r) `` {st}"
    by (cases hi) (auto simp: upto_bound_def)
  finally show ?case .
next
  case (NotAhead r)
  have "rx_ends r st = [] \<longleftrightarrow> st \<notin> Domain (rx_rel r)"
    using NotAhead [of st] by (metis Domain.DomainI Domain.cases Image_singleton_iff empty_iff
      last_in_set list.set(1))
  then show ?case by auto
qed auto

lemma rx_test_iff:
  "rx_test r s \<longleftrightarrow> (\<exists>st \<in> set (starts_from None s). \<exists>st'. (st, st') \<in> rx_rel r)"
proof -
  have "rx_ends r st \<noteq> [] \<longleftrightarrow> (\<exists>st'. (st, st') \<in> rx_rel r)" for st
    using rx_ends_iff [of r st] by (metis Image_singleton_iff empty_iff ex_in_conv list.set(1) set_empty)
  then show ?thesis by (simp add: rx_test_def list_ex_iff)
qed

subsection \<open>Whole-string tests of one class: \<open>/^[class]+$/\<close>\<close>

lemma cls_pow_all:
  "((q, s), (q', [])) \<in> rx_rel (Cls p) ^^ n \<Longrightarrow> length s = n \<and> list_all p s"
proof (induction n arbitrary: q s)
  case 0
  then show ?case by simp
next
  case (Suc n)
  then obtain u where u: "((q, s), u) \<in> rx_rel (Cls p)" "(u, (q', [])) \<in> rx_rel (Cls p) ^^ n"
    by (metis relpow_Suc_D2)
  from u(1) obtain c s' where s: "s = c # s'" "p c" "u = (Some c, s')" by auto
  with Suc.IH [of "Some c" s'] u(2) show ?case by simp
qed

lemma all_cls_pow: "list_all p s \<Longrightarrow> \<exists>q'. ((q, s), (q', [])) \<in> rx_rel (Cls p) ^^ length s"
proof (induction s arbitrary: q)
  case Nil
  then show ?case by auto
next
  case (Cons c s)
  then obtain q' where "((Some c, s), (q', [])) \<in> rx_rel (Cls p) ^^ length s" by fastforce
  moreover have "((q, c # s), (Some c, s)) \<in> rx_rel (Cls p)" using Cons.prems by simp
  ultimately show ?case by (metis length_Cons relpow_Suc_I2)
qed

lemma starts_from_None: "(None, t) \<in> set (starts_from None s) \<longleftrightarrow> t = s"
proof -
  have "(None, t) \<notin> set (starts_from (Some c) u)" for c u
    by (induction u arbitrary: c) auto
  then show ?thesis by (cases s) auto
qed

lemma rx_test_all: "rx_test (seqs [Bos, plus1 (Cls p), Eos]) s \<longleftrightarrow> s \<noteq> [] \<and> list_all p s"
proof
  assume "rx_test (seqs [Bos, plus1 (Cls p), Eos]) s"
  then obtain st st' where st: "st \<in> set (starts_from None s)"
    "(st, st') \<in> rx_rel (seqs [Bos, plus1 (Cls p), Eos])"
    unfolding rx_test_iff by blast
  then obtain a b where ab: "(st, a) \<in> rx_rel Bos" "(a, b) \<in> rx_rel (plus1 (Cls p))" "(b, st') \<in> rx_rel Eos"
    by (auto simp del: rx_rel.simps(2,5-7))
  from ab(2) obtain n where "(a, b) \<in> rx_rel (Cls p) ^^ (1 + n)" by (auto simp del: rx_rel.simps(2))
  with ab(1,3) have n: "fst st = None" "(st, st') \<in> rx_rel (Cls p) ^^ (1 + n)" "snd st' = []"
    by (auto simp del: rx_rel.simps(2) relpow.simps)
  with st(1) have "st = (None, s)" by (metis prod.collapse starts_from_None)
  with n have "((None, s), (fst st', [])) \<in> rx_rel (Cls p) ^^ (1 + n)" by (metis prod.collapse)
  from cls_pow_all [OF this] show "s \<noteq> [] \<and> list_all p s" by auto
next
  assume s: "s \<noteq> [] \<and> list_all p s"
  then obtain q' where q': "((None, s), (q', [])) \<in> rx_rel (Cls p) ^^ length s"
    using all_cls_pow by blast
  have "length s = 1 + (length s - 1)" using s by (cases s) auto
  with q' have "((None, s), (q', [])) \<in> rx_rel (Cls p) ^^ (1 + (length s - 1))" by metis
  then have "((None, s), (q', [])) \<in> rx_rel (plus1 (Cls p))"
    by (auto simp del: rx_rel.simps(2) relpow.simps)
  moreover have "((None, s), (None, s)) \<in> rx_rel Bos" "((q', []), (q', [])) \<in> rx_rel Eos" by simp_all
  ultimately have "((None, s), (q', [])) \<in> rx_rel Bos O (rx_rel (plus1 (Cls p)) O rx_rel Eos)" by blast
  then have "((None, s), (q', [])) \<in> rx_rel (seqs [Bos, plus1 (Cls p), Eos])" by simp
  then show "rx_test (seqs [Bos, plus1 (Cls p), Eos]) s"
    unfolding rx_test_iff using starts_from_None [of s s] by blast
qed

subsection \<open>The language of a pattern without anchors or assertions\<close>

fun plain :: "rx \<Rightarrow> bool" where
  "plain Eps = True"
| "plain (Cls p) = True"
| "plain (Seq r1 r2) = (plain r1 \<and> plain r2)"
| "plain (Alt r1 r2) = (plain r1 \<and> plain r2)"
| "plain (Rep lo hi r) = plain r"
| "plain _ = False"

definition conc :: "string set \<Rightarrow> string set \<Rightarrow> string set" where
  "conc A B = {u @ v | u v. u \<in> A \<and> v \<in> B}"

fun lang_pow :: "string set \<Rightarrow> nat \<Rightarrow> string set" where
  "lang_pow A 0 = {[]}"
| "lang_pow A (Suc n) = conc A (lang_pow A n)"

fun rx_lang :: "rx \<Rightarrow> string set" where
  "rx_lang Eps = {[]}"
| "rx_lang (Cls p) = {[c] | c. p c}"
| "rx_lang (Seq r1 r2) = conc (rx_lang r1) (rx_lang r2)"
| "rx_lang (Alt r1 r2) = rx_lang r1 \<union> rx_lang r2"
| "rx_lang (Rep lo hi r) =
     (\<Union>k \<in> {k. case hi of None \<Rightarrow> True | Some h \<Rightarrow> k \<le> h - lo}. lang_pow (rx_lang r) (lo + k))"
| "rx_lang _ = {}"

definition after :: "char option \<Rightarrow> string \<Rightarrow> char option" where
  "after q w = (if w = [] then q else Some (last w))"

lemma after_simps [simp]: "after q [] = q" "after q [c] = Some c" "after q (u @ v) = after (after q u) v"
  by (simp_all add: after_def)

lemma concI: "u \<in> A \<Longrightarrow> v \<in> B \<Longrightarrow> u @ v \<in> conc A B"
  by (auto simp: conc_def)

text \<open>The relation \<open>reads L\<close> consumes one word of the set \<open>L\<close>.\<close>

definition reads :: "string set \<Rightarrow> (mstate \<times> mstate) set" where
  "reads L = {((q, w @ t), (after q w, t)) | q w t. w \<in> L}"

lemma reads_iff: "((q, s), (q', t)) \<in> reads L \<longleftrightarrow> (\<exists>w \<in> L. s = w @ t \<and> q' = after q w)"
  by (auto simp: reads_def)

lemma reads_conc: "reads A O reads B = reads (conc A B)"
proof (rule set_eqI)
  fix x :: "mstate \<times> mstate"
  obtain q s q' t where x: "x = ((q, s), (q', t))" by (metis surj_pair)
  have "x \<in> reads A O reads B \<longleftrightarrow>
      (\<exists>p u. (\<exists>v \<in> A. s = v @ u \<and> p = after q v) \<and> (\<exists>w \<in> B. u = w @ t \<and> q' = after p w))"
    unfolding x relcomp_unfold by (auto simp: reads_iff)
  also have "\<dots> \<longleftrightarrow> (\<exists>v \<in> A. \<exists>w \<in> B. s = v @ w @ t \<and> q' = after (after q v) w)" by blast
  also have "\<dots> \<longleftrightarrow> x \<in> reads (conc A B)"
    unfolding x reads_iff by (fastforce simp: conc_def)
  finally show "x \<in> reads A O reads B \<longleftrightarrow> x \<in> reads (conc A B)" .
qed

lemma reads_eps: "reads {[]} = Id"
  by (auto simp: reads_def)

lemma reads_pow: "reads A ^^ n = reads (lang_pow A n)"
proof (induction n)
  case 0
  then show ?case by (simp add: reads_eps)
next
  case (Suc n)
  have "reads A ^^ Suc n = reads A O reads A ^^ n" by (metis relpow_commute relpow.simps(2))
  with Suc reads_conc show ?case by simp
qed

lemma rx_rel_plain: "plain r \<Longrightarrow> rx_rel r = reads (rx_lang r)"
proof (induction r)
  case (Cls p)
  then show ?case by (fastforce simp: reads_def)
next
  case (Rep lo hi r)
  then have "rx_rel r ^^ n = reads (lang_pow (rx_lang r) n)" for n by (simp add: reads_pow)
  then have "rx_rel (Rep lo hi r) =
      (\<Union>k \<in> {k. case hi of None \<Rightarrow> True | Some h \<Rightarrow> k \<le> h - lo}. reads (lang_pow (rx_lang r) (lo + k)))"
    by simp
  also have "\<dots> = reads (rx_lang (Rep lo hi r))" unfolding rx_lang.simps by (fastforce simp: reads_def)
  finally show ?case .
next
  case (Alt r1 r2)
  then show ?case by (auto simp: reads_def)
qed (simp_all add: reads_eps reads_conc)

lemma after_Cons: "after p (c # u) = after (Some c) u"
  by (simp add: after_def)

lemma ex_list: "(\<exists>u. P u) \<longleftrightarrow> P [] \<or> (\<exists>c u. P (c # u))"
  by (metis list.exhaust)

lemma starts_from_iff: "(q, t) \<in> set (starts_from p s) \<longleftrightarrow> (\<exists>u. s = u @ t \<and> q = after p u)"
proof (induction s arbitrary: p)
  case Nil
  then show ?case by auto
next
  case (Cons c s)
  have "(\<exists>u. c # s = u @ t \<and> q = after p u) \<longleftrightarrow>
      t = c # s \<and> q = p \<or> (\<exists>u. s = u @ t \<and> q = after (Some c) u)"
    by (subst ex_list) (auto simp: after_Cons)
  with Cons show ?case by auto
qed

text \<open>An unanchored test finds a factor, \<open>^r\<close> a prefix, \<open>^r$\<close> the whole text.\<close>

lemma ex_reads: "(\<exists>st'. ((q, s), st') \<in> reads L) \<longleftrightarrow> (\<exists>w t. s = w @ t \<and> w \<in> L)"
  by (auto simp: reads_def)

lemma ex_reads_all: "(\<exists>q'. ((q, s), (q', [])) \<in> reads L) \<longleftrightarrow> s \<in> L"
  by (simp add: reads_iff)

lemma rx_test_plain:
  assumes "plain r"
  shows "rx_test r s \<longleftrightarrow> (\<exists>u w t. s = u @ w @ t \<and> w \<in> rx_lang r)"
proof -
  have "rx_test r s \<longleftrightarrow> (\<exists>q x. (q, x) \<in> set (starts_from None s) \<and> (\<exists>st'. ((q, x), st') \<in> reads (rx_lang r)))"
    unfolding rx_test_iff rx_rel_plain [OF assms] by fast
  also have "\<dots> \<longleftrightarrow> (\<exists>u x. s = u @ x \<and> (\<exists>w t. x = w @ t \<and> w \<in> rx_lang r))"
    unfolding ex_reads starts_from_iff by blast
  also have "\<dots> \<longleftrightarrow> (\<exists>u w t. s = u @ w @ t \<and> w \<in> rx_lang r)" by blast
  finally show ?thesis .
qed

lemma rx_test_Bos: "rx_test (Seq Bos r) s \<longleftrightarrow> (\<exists>st'. ((None, s), st') \<in> rx_rel r)"
proof
  assume "rx_test (Seq Bos r) s"
  then obtain st st' where "st \<in> set (starts_from None s)" "fst st = None" "(st, st') \<in> rx_rel r"
    unfolding rx_test_iff by auto
  then show "\<exists>st'. ((None, s), st') \<in> rx_rel r"
    using starts_from_None by (metis prod.collapse)
next
  assume "\<exists>st'. ((None, s), st') \<in> rx_rel r"
  then obtain st' where "((None, s), st') \<in> rx_rel r" by blast
  moreover have "((None, s), (None, s)) \<in> rx_rel Bos" by simp
  ultimately have "((None, s), st') \<in> rx_rel (Seq Bos r)" unfolding rx_rel.simps(3) by blast
  with starts_from_None [of s s] show "rx_test (Seq Bos r) s" unfolding rx_test_iff by blast
qed

lemma rx_test_start:
  "plain r \<Longrightarrow> rx_test (Seq Bos r) s \<longleftrightarrow> (\<exists>w t. s = w @ t \<and> w \<in> rx_lang r)"
  by (simp only: rx_test_Bos rx_rel_plain ex_reads)

lemma rx_test_whole:
  assumes "plain r"
  shows "rx_test (Seq Bos (Seq r Eos)) s \<longleftrightarrow> s \<in> rx_lang r"
proof -
  have "(\<exists>st'. ((None, s), st') \<in> rx_rel (Seq r Eos)) \<longleftrightarrow> (\<exists>q'. ((None, s), (q', [])) \<in> rx_rel r)"
    by (auto simp: relcomp_unfold)
  then show ?thesis unfolding rx_test_Bos rx_rel_plain [OF assms] ex_reads_all .
qed

subsubsection \<open>Languages of the pattern abbreviations\<close>

lemma conc_eps [simp]: "conc {[]} A = A" "conc A {[]} = A"
  by (auto simp: conc_def)

lemma mem_conc: "w \<in> conc A B \<longleftrightarrow> (\<exists>u \<in> A. \<exists>v \<in> B. w = u @ v)"
  by (auto simp: conc_def)

lemma conc_chars: "conc {[c] | c. p c} A = {c # w | c w. p c \<and> w \<in> A}"
proof (rule set_eqI)
  fix x
  show "x \<in> conc {[c] | c. p c} A \<longleftrightarrow> x \<in> {c # w | c w. p c \<and> w \<in> A}"
    unfolding mem_conc by (cases x) auto
qed

lemma rx_lang_seqs_Cons: "rx_lang (seqs (r # rs)) = conc (rx_lang r) (rx_lang (seqs rs))"
  by (cases rs) simp_all

lemma plain_seqs [simp]: "plain (seqs rs) = list_all plain rs"
  by (induction rs rule: seqs.induct) auto

lemma plain_alts [simp]: "plain (alts rs) = list_all plain rs"
  by (induction rs rule: alts.induct) auto

lemma rx_lang_alts: "rx_lang (alts rs) = (\<Union>r \<in> set rs. rx_lang r)"
  by (induction rs rule: alts.induct) auto

lemma plain_lit [simp]: "plain (lit w)" "plain (lit_i w)"
  by (simp_all add: lit_def lit_i_def list_all_iff)

lemma conc_insert_Nil: "conc A (insert [] B) = A \<union> conc A B"
  unfolding set_eq_iff Un_iff mem_conc by simp blast

lemma ex_one_char: "(\<exists>w t. s = w @ t \<and> w \<in> {[c] | c. p c}) \<longleftrightarrow> (\<exists>c t. s = c # t \<and> p c)" (is "?L \<longleftrightarrow> ?R")
proof
  assume ?R
  then obtain c t where "s = [c] @ t \<and> [c] \<in> {[c] | c. p c}" by auto
  then show ?L by blast
qed auto

lemma conc_single: "conc {[d]} A = {d # w | w. w \<in> A}"
  using conc_chars [of "\<lambda>c. c = d" A] by simp

lemma rx_lang_lit [simp]: "rx_lang (lit w) = {w}"
proof (induction w)
  case Nil
  then show ?case by (simp add: lit_def)
next
  case (Cons c w)
  have "rx_lang (lit (c # w)) = conc {[c]} (rx_lang (lit w))"
    unfolding lit_def list.map rx_lang_seqs_Cons by simp
  then show ?case by (simp add: Cons conc_single)
qed

lemma rx_lang_lit_i [simp]: "rx_lang (lit_i w) = {x. to_lower x = to_lower w}"
proof (induction w)
  case Nil
  then show ?case by (auto simp: lit_i_def)
next
  case (Cons c w)
  have "rx_lang (lit_i (c # w)) = conc {[x] | x. lower_char x = lower_char c} (rx_lang (lit_i w))"
    unfolding lit_i_def list.map rx_lang_seqs_Cons by simp
  also have "\<dots> = {x. to_lower x = to_lower (c # w)}"
    unfolding Cons conc_chars by (auto simp: to_lower_def map_eq_Cons_conv)
  finally show ?case .
qed

lemma lang_pow_cls: "lang_pow {[c] | c. p c} n = {w. length w = n \<and> list_all p w}"
proof (induction n)
  case (Suc n)
  show ?case
  proof (rule set_eqI)
    fix x
    show "x \<in> lang_pow {[c] | c. p c} (Suc n) \<longleftrightarrow> x \<in> {w. length w = Suc n \<and> list_all p w}"
      unfolding lang_pow.simps conc_chars Suc.IH by (cases x) auto
  qed
qed auto

lemma rx_lang_star_cls [simp]: "rx_lang (star (Cls p)) = {w. list_all p w}"
  by (auto simp: lang_pow_cls)

lemma rx_lang_plus_cls [simp]: "rx_lang (plus1 (Cls p)) = {w. w \<noteq> [] \<and> list_all p w}"
proof -
  have "rx_lang (plus1 (Cls p)) = (\<Union>k. {w. length w = 1 + k \<and> list_all p w})"
    by (simp only: rx_lang.simps lang_pow_cls) simp
  also have "\<dots> = {w. w \<noteq> [] \<and> list_all p w}"
  proof (intro set_eqI iffI)
    fix w
    assume "w \<in> {w. w \<noteq> [] \<and> list_all p w}"
    then have "length w = 1 + (length w - 1) \<and> list_all p w" by (cases w) auto
    then show "w \<in> (\<Union>k. {w. length w = 1 + k \<and> list_all p w})" by blast
  qed auto
  finally show ?thesis .
qed

lemma rx_lang_opt [simp]: "rx_lang (opt r) = insert [] (rx_lang r)"
proof -
  have "{k. k \<le> 1} = {0, 1 :: nat}" by auto
  then have "rx_lang (opt r) = lang_pow (rx_lang r) 0 \<union> lang_pow (rx_lang r) 1" by simp
  then show ?thesis by simp
qed

text \<open>The same rules in the form the simplifier brings the bounds to.\<close>

lemma rx_lang_Suc_0 [simp]:
  "rx_lang (Rep 0 (Some (Suc 0)) r) = insert [] (rx_lang r)"
  "rx_lang (Rep (Suc 0) None (Cls p)) = {w. w \<noteq> [] \<and> list_all p w}"
  using rx_lang_opt [of r] rx_lang_plus_cls [of p] by (simp_all del: rx_lang.simps(5))

declare rx_lang.simps(5) [simp del]

subsection \<open>What a capture group holds\<close>

lemma pow_suffix:
  fixes R :: "(mstate \<times> mstate) set"
  shows "(\<And>st st'. (st, st') \<in> R \<Longrightarrow> suffix (snd st') (snd st)) \<Longrightarrow> (st, st') \<in> R ^^ n \<Longrightarrow> suffix (snd st') (snd st)"
proof (induction n arbitrary: st')
  case (Suc n)
  then obtain u where "(st, u) \<in> R ^^ n" "(u, st') \<in> R" by auto
  with Suc show ?case by (meson suffix_order.order_trans)
qed simp

lemma rx_rel_suffix: "(st, st') \<in> rx_rel r \<Longrightarrow> suffix (snd st') (snd st)"
proof (induction r arbitrary: st st')
  case (Seq r1 r2)
  then show ?case by (fastforce intro: suffix_order.order_trans)
next
  case (Rep lo hi r)
  then obtain k where "(st, st') \<in> rx_rel r ^^ (lo + k)" by auto
  then show ?case using Rep.IH by (rule pow_suffix [rotated])
qed (auto simp: suffix_ConsI)

lemma rx_match1_from:
  assumes "rx_match1 pre cap post s = Some x"
  shows "\<exists>st \<in> set (starts_from None s). x \<in> set (exec_from pre cap post st)"
proof (cases "concat (map (exec_from pre cap post) (starts_from None s))")
  case Nil
  with assms show ?thesis by (simp add: rx_match1_def)
next
  case (Cons y ys)
  with assms have "y = x" by (simp add: rx_match1_def)
  then have "x \<in> set (concat (map (exec_from pre cap post) (starts_from None s)))" unfolding Cons by simp
  then show ?thesis by simp
qed

lemma exec_from_iff:
  "x \<in> set (exec_from pre cap post st) \<longleftrightarrow>
     (\<exists>a \<in> set (rx_ends pre st). \<exists>b \<in> set (rx_ends cap a). \<exists>c \<in> set (rx_ends post b).
        x = (consumed st c, consumed a b))"
  unfolding exec_from_def set_concat set_map UN_iff image_iff bex_simps by blast

lemma rx_match1_group:
  assumes "rx_match1 pre cap post s = Some (m, g)" and cap: "plain cap"
  shows "g \<in> rx_lang cap \<and> sublist g s"
proof -
  from rx_match1_from [OF assms(1)] obtain st where st: "st \<in> set (starts_from None s)"
    and mg: "(m, g) \<in> set (exec_from pre cap post st)" by blast
  from mg obtain a b where a: "a \<in> set (rx_ends pre st)" and b: "b \<in> set (rx_ends cap a)"
    and g: "g = consumed a b"
    unfolding exec_from_iff by blast
  obtain q x where stq: "st = (q, x)" by (cases st)
  with st have x: "suffix x s" by (auto simp: starts_from_iff suffix_def)
  have "(st, a) \<in> rx_rel pre" using a rx_ends_iff [of pre st] by blast
  from rx_rel_suffix [OF this] have ax: "suffix (snd a) x" by (simp add: stq)
  have "(a, b) \<in> rx_rel cap" using b rx_ends_iff [of cap a] by blast
  then have "(a, b) \<in> reads (rx_lang cap)" by (simp add: rx_rel_plain [OF cap])
  then obtain w where w: "w \<in> rx_lang cap" "snd a = w @ snd b"
    by (auto simp: reads_def)
  then have "g = w" by (simp add: g consumed_def)
  moreover have "sublist w s"
  proof -
    have "prefix w (snd a)" using w(2) by simp
    then have "sublist w (snd a)" by (rule prefix_imp_sublist)
    also have "sublist (snd a) x" using ax by (rule suffix_imp_sublist)
    also have "sublist x s" using x by (rule suffix_imp_sublist)
    finally show ?thesis .
  qed
  ultimately show ?thesis using w(1) by simp
qed

lemma rx_match_sublist:
  assumes "rx_match r s = Some m"
  shows "sublist m s"
proof -
  from assms obtain g where "rx_match1 Eps r Eps s = Some (m, g)" by (auto simp: rx_match_def)
  from rx_match1_from [OF this] obtain q x where st: "(q, x) \<in> set (starts_from None s)"
    and mg: "(m, g) \<in> set (exec_from Eps r Eps (q, x))" by (metis surj_pair)
  from mg obtain b where m: "m = consumed (q, x) b"
    unfolding exec_from_iff by blast
  have "prefix m x" by (simp add: m consumed_def take_is_prefix)
  then have "sublist m x" by (rule prefix_imp_sublist)
  also have "sublist x s" using st by (auto simp: starts_from_iff intro: sublist_appendI)
  finally show ?thesis .
qed

end
