(* ===== verification/Severity_Scale.thy ===== *)
theory Severity_Scale
  imports Js_Base
begin

text \<open>
  The contract of a "worst finding" summary: findings have a level in a linear order, and the
  summary of a list is the level of its worst finding, the least level for none. The provenance
  roll-up (\<open>Provenance\<close>) and the process-tree severity (\<open>Process_Detect\<close>) are two
  implementations of it, interpreted there.
\<close>

locale severity_scale =
  fixes level :: "'f \<Rightarrow> 'l::linorder"
    and bottom :: 'l
    and worst :: "'f list \<Rightarrow> 'l"
  assumes bottom_least: "bottom \<le> l"
    and worst_Nil: "worst [] = bottom"
    and worst_Cons: "worst (x # xs) = max (level x) (worst xs)"
begin

lemma worst_append: "worst (xs @ ys) = max (worst xs) (worst ys)"
  by (induction xs) (simp_all add: worst_Nil worst_Cons bottom_least max.assoc max.absorb2)

lemma worst_ge: "x \<in> set xs \<Longrightarrow> level x \<le> worst xs"
  by (induction xs) (auto simp: worst_Cons le_max_iff_disj)

lemma worst_le_iff: "worst xs \<le> l \<longleftrightarrow> (\<forall>x \<in> set xs. level x \<le> l)"
  by (induction xs) (auto simp: worst_Nil worst_Cons bottom_least)

lemma worst_Max: "worst xs = Max (insert bottom (level ` set xs))"
proof (rule antisym)
  show "worst xs \<le> Max (insert bottom (level ` set xs))"
    by (auto simp: worst_le_iff)
  show "Max (insert bottom (level ` set xs)) \<le> worst xs"
    by (auto simp: worst_ge bottom_least)
qed

lemma worst_attained: "worst xs \<noteq> bottom \<Longrightarrow> \<exists>x \<in> set xs. level x = worst xs"
proof -
  assume ne: "worst xs \<noteq> bottom"
  have "worst xs \<in> insert bottom (level ` set xs)"
    unfolding worst_Max by (rule Max_in) auto
  with ne show ?thesis by auto
qed

lemma worst_mono: "set xs \<subseteq> set ys \<Longrightarrow> worst xs \<le> worst ys"
  by (auto simp: worst_le_iff worst_ge)

lemma worst_set_eq: "set xs = set ys \<Longrightarrow> worst xs = worst ys"
  by (simp add: worst_Max)

end

end
