(* ===== verification/Provenance.thy ===== *)
theory Provenance
  imports Js_Base Js_Regex Severity_Scale
begin

text \<open>
  \<^verbatim>\<open>frontend/src/lib/evidenceProvenance.js\<close>: the provenance score of an exhibit (the pill and the
  chain-integrity card). One definition per check function of the file, in its order; the list of
  checks \<open>scoreEvidence\<close> pushes is the concatenation of the groups below, and the roll-up and the
  aggregate follow. Labels and notes are kept word for word.
\<close>

subsection \<open>The exhibit, a check, a score\<close>

text \<open>
  The exhibit as the API returns it. A nullable string is a \<open>string option\<close>; a photo entry is
  \<open>None\<close> where the array holds something that is not an object.
\<close>

record photo =
  ph_taken_by_id :: "string option"
  ph_taken_by_name :: "string option"
  ph_taken_at :: "string option"
  ph_camera :: "string option"

record evidence =
  ev_kind :: string
  ev_status :: string
  ev_photos :: "photo option list option"
  ev_make :: "string option"
  ev_model :: "string option"
  ev_serial :: "string option"
  ev_entity_id :: "string option"
  ev_source_system :: "string option"
  ev_source_path :: "string option"
  ev_source_path_style :: "string option"
  ev_source_unknown_reason :: "string option"
  ev_acquisition_scope :: "string option"
  ev_system_state :: "string option"
  ev_device_types :: "string list"
  ev_collected_by_id :: "string option"
  ev_collected_location :: "string option"
  ev_collected_by_qualifications :: "string option"
  ev_collected_as_role :: "string option"
  ev_lawful_basis :: "string option"
  ev_md5 :: "string option"
  ev_sha1 :: "string option"
  ev_sha256 :: "string option"
  ev_write_blocker_used :: "bool option"
  ev_live_justification :: "string option"
  ev_acquisition_tool :: "string option"
  ev_acquisition_tool_version :: "string option"
  ev_acquisition_tool_validated :: bool
  ev_acquisition_hash_source :: "string option"
  ev_acquisition_hash_target :: "string option"
  ev_provider_hash :: "(string option \<times> string option) option"  \<comment> \<open>algorithm, value\<close>
  ev_container_format :: "string option"
  ev_manifest_status :: "string option"
  ev_manifest_error :: "string option"
  ev_manifest_listing :: "int option list"       \<comment> \<open>\<open>tool_hash_mismatches\<close> of each entry\<close>
  ev_current_custodian_id :: "string option"
  ev_current_custodian_external_name :: "string option"
  ev_current_custodian_external_org :: "string option"
  ev_internal_transfers_legacy :: nat
  ev_internal_transfers_acknowledged :: nat
  ev_coc_sealed :: bool
  ev_seal_record_sha256 :: "string option"
  ev_seal_tst_time :: "string option"
  ev_legal_hold :: bool
  ev_has_verified_working_copy :: bool
  ev_has_examination :: bool
  ev_has_examination_findings :: bool
  ev_has_examination_scope :: bool

datatype ck_status = Pass | Fail | Manual | NotApplicable
datatype ck_severity = Mandatory | Advisory

record check =
  ck_code :: string
  ck_label :: string
  ck_status :: ck_status
  ck_severity :: ck_severity
  ck_note :: "string option"

definition check :: "string \<Rightarrow> string \<Rightarrow> ck_status \<Rightarrow> ck_severity \<Rightarrow> string option \<Rightarrow> check" where
  "check code label status severity note =
     \<lparr>ck_code = code, ck_label = label, ck_status = status, ck_severity = severity,
      ck_note = (if str_truthy note then note else None)\<rparr>"

definition pass_if :: "bool \<Rightarrow> ck_status" where
  "pass_if b = (if b then Pass else Fail)"

lemma check_simps [simp]:
  "ck_code (check c l s v n) = c" "ck_status (check c l s v n) = s"
  "ck_severity (check c l s v n) = v"
  by (simp_all add: check_def)

lemma pass_if_simps [simp]:
  "pass_if b = Pass \<longleftrightarrow> b" "pass_if b = Fail \<longleftrightarrow> \<not> b"
  "pass_if b \<noteq> Manual" "pass_if b \<noteq> NotApplicable"
  by (simp_all add: pass_if_def)

subsection \<open>Helpers\<close>

definition blank :: "string option \<Rightarrow> bool" where
  "blank v = (trim (str_or v []) = [])"

definition HASH_ALGORITHM :: "nat \<rightharpoonup> string" where
  "HASH_ALGORITHM = [32 \<mapsto> ''MD5'', 40 \<mapsto> ''SHA-1'', 64 \<mapsto> ''SHA-256'']"

definition HEX_RX :: rx where
  "HEX_RX = seqs [Bos, plus1 (Cls is_hex), Eos]"

definition hashAlgorithm :: "string option \<Rightarrow> string option" where
  "hashAlgorithm value =
     (case value of None \<Rightarrow> None
      | Some v \<Rightarrow> if v \<noteq> [] \<and> rx_test HEX_RX v then HASH_ALGORITHM (length v) else None)"

definition EXPORT_TYPES :: "string list" where
  "EXPORT_TYPES = [''email_export'', ''vendor_report'', ''network_capture'']"

subsection \<open>Source location\<close>

definition sourceMissing :: "evidence \<Rightarrow> string list" where
  "sourceMissing ev =
     (let missing = (if str_truthy (ev_entity_id ev) \<or> \<not> blank (ev_source_system ev) \<or> \<not> blank (ev_serial ev)
                     then [] else [''source_device'']);
          hasPath = (ev_source_path ev \<noteq> None \<and> str_truthy (ev_source_path_style ev))
      in if ev_acquisition_scope ev = Some ''full_image''
         then (if \<not> hasPath then missing @ [''source_path'']
               else if ev_source_path_style ev \<noteq> Some ''device'' then missing @ [''source_path_style'']
               else missing)
         else if \<not> (str_or (ev_system_state ev) [] \<in> set [''live'', ''live_critical'']
                    \<or> list_ex (\<lambda>t. t \<in> set EXPORT_TYPES) (ev_device_types ev)) \<and> \<not> hasPath
         then missing @ [''source_path'']
         else missing)"

definition SOURCE_MISSING_LABEL :: "string \<rightharpoonup> string" where
  "SOURCE_MISSING_LABEL =
     [''source_device'' \<mapsto> ''the source device (an entity, the source system or the serial)'',
      ''source_path'' \<mapsto> ''the source path and its style'',
      ''source_path_style'' \<mapsto> ''a device path (style device) for the full image'']"

definition sourceLocation :: "evidence \<Rightarrow> check" where
  "sourceLocation ev =
     (let missing = sourceMissing ev;
          (status, note) =
            (if missing \<noteq> [] \<and> \<not> blank (ev_source_unknown_reason ev)
             then (Manual, Some (''Source stated as unknown: ''
                                 @ slice0 200 (str_or (ev_source_unknown_reason ev) [])))
             else if missing \<noteq> []
             then (Fail, Some (''Record '' @ join '' and '' (map (\<lambda>m. the (SOURCE_MISSING_LABEL m)) missing)
                               @ '', or say why the source is unknown''))
             else (Pass, None))
      in check ''iso_27037_source_location'' ''Source location recorded (device + path)'' status
           (if ev_coc_sealed ev \<and> str_truthy (ev_seal_record_sha256 ev) then Mandatory else Advisory) note)"

subsection \<open>Photo record\<close>

definition photo_lacks :: "photo \<Rightarrow> string list" where
  "photo_lacks p = map fst (filter (\<lambda>(k, ok). \<not> ok)
     [(''taken by'', str_truthy (ph_taken_by_id p) \<or> \<not> blank (ph_taken_by_name p)),
      (''taken at'', str_truthy (ph_taken_at p)),
      (''camera'', \<not> blank (ph_camera p))])"

definition photoRecord :: "evidence \<Rightarrow> check option" where
  "photoRecord ev =
     (let photos = List.map_filter id (case ev_photos ev of None \<Rightarrow> [] | Some ps \<Rightarrow> ps);
          gaps = concat (map photo_lacks photos);
          incomplete = length (filter (\<lambda>p. photo_lacks p \<noteq> []) photos)
      in if photos = [] then None
         else Some (check ''iso_27037_photo_record'' ''Photo record complete (taken by, taken at, camera)''
                (if incomplete \<noteq> 0 then Fail else Pass) Advisory
                (if incomplete \<noteq> 0
                 then Some (show_nat incomplete @ '' of '' @ show_nat (length photos) @ '' photo(s) lack: ''
                            @ join '', '' (filter (\<lambda>k. count_list gaps k \<noteq> 0)
                                [''taken by'', ''taken at'', ''camera'']))
                 else None)))"

subsection \<open>The provider's hash\<close>

definition DIGEST_SIZE :: "string \<rightharpoonup> nat" where
  "DIGEST_SIZE = [''md5'' \<mapsto> 16, ''sha1'' \<mapsto> 20, ''sha256'' \<mapsto> 32]"

definition ALGO_LABEL :: "string \<rightharpoonup> string" where
  "ALGO_LABEL = [''md5'' \<mapsto> ''MD5'', ''sha1'' \<mapsto> ''SHA-1'', ''sha256'' \<mapsto> ''SHA-256'']"

text \<open>\<open>atob\<close> on a string of the base64 alphabet whose length is a multiple of 4.\<close>

definition is_b64 :: "char \<Rightarrow> bool" where
  "is_b64 c \<longleftrightarrow> is_alpha c \<or> is_digit c \<or> c = CHR ''+'' \<or> c = CHR ''/''"

definition b64_val :: "char \<Rightarrow> nat" where
  "b64_val c =
     (let n = code_of c in
      if 65 \<le> n \<and> n \<le> 90 then n - 65
      else if 97 \<le> n \<and> n \<le> 122 then n - 71
      else if 48 \<le> n \<and> n \<le> 57 then n + 4
      else if n = 43 then 62 else 63)"

fun atob :: "string \<Rightarrow> nat list" where
  "atob (a # b # c # d # s) =
     (let x = b64_val a; y = b64_val b; z = b64_val c; w = b64_val d in
      if c = CHR ''='' then [x * 4 + y div 16]
      else if d = CHR ''='' then [x * 4 + y div 16, (y mod 16) * 16 + z div 4]
      else [x * 4 + y div 16, (y mod 16) * 16 + z div 4, (z mod 4) * 64 + w] @ atob s)"
| "atob _ = []"

definition b64_form :: "string \<Rightarrow> bool" where
  "b64_form v \<longleftrightarrow>
     (let pad = takeWhile (\<lambda>c. c = CHR ''='') (rev v); body = dropWhile (\<lambda>c. c = CHR ''='') (rev v)
      in list_all is_b64 body \<and> length pad \<le> 2)"

definition hex_digit :: "nat \<Rightarrow> char" where
  "hex_digit n = (if n < 10 then char_of (48 + n) else char_of (87 + n))"

definition hex_byte :: "nat \<Rightarrow> string" where
  "hex_byte b = [hex_digit (b div 16), hex_digit (b mod 16)]"

definition digestHex :: "string option \<Rightarrow> nat \<Rightarrow> string option" where
  "digestHex value sz =
     (let v = trim (str_or value []) in
      if length v = 2 * sz \<and> rx_test HEX_RX v then Some (to_lower v)
      else if \<not> b64_form v \<or> length v mod 4 \<noteq> 0 then None
      else let bin = atob v in if length bin \<noteq> sz then None else Some (concat (map hex_byte bin)))"

definition stored_digest :: "evidence \<Rightarrow> string \<Rightarrow> string option" where
  "stored_digest ev algo =
     (if algo = ''md5'' then ev_md5 ev else if algo = ''sha1'' then ev_sha1 ev
      else if algo = ''sha256'' then ev_sha256 ev else None)"

definition norm_algo :: "string option \<Rightarrow> string" where
  "norm_algo a = filter (\<lambda>c. c \<noteq> CHR ''-'' \<and> c \<noteq> CHR ''_'') (to_lower (str_or a []))"

definition providerHash :: "evidence \<Rightarrow> check option" where
  "providerHash ev =
     (case ev_provider_hash ev of None \<Rightarrow> None
      | Some (algorithm, value) \<Rightarrow>
        let label = ''Provider's hash matches the stored file'';
            ck = check ''source_provider_hash_match'' label;
            algo = norm_algo algorithm
        in case DIGEST_SIZE algo of
             None \<Rightarrow> Some (ck NotApplicable Advisory
                (Some ((case algorithm of None \<Rightarrow> ''undefined'' | Some a \<Rightarrow> a)
                   @ '' is recorded as given; FENRIR compares only MD5, SHA-1 and SHA-256'')))
           | Some sz \<Rightarrow>
             (case digestHex value sz of
                None \<Rightarrow> Some (ck NotApplicable Advisory
                   (Some ''the value is not hex or base64 of that algorithm''))
              | Some hex \<Rightarrow>
                let stored = stored_digest ev algo in
                if \<not> str_truthy stored
                then Some (ck NotApplicable Advisory (Some ''no stored file to compare''))
                else let ok = (hex = to_lower (the stored)) in
                  Some (ck (pass_if ok) Advisory
                    (if ok then None
                     else Some (''The provider's '' @ the (ALGO_LABEL algo)
                       @ '' differs from the stored file's: the copy may not be the provider's object'')))))"

subsection \<open>Container manifest\<close>

definition containerManifest :: "evidence \<Rightarrow> check" where
  "containerManifest ev =
     (let ck = check ''container_manifest'' ''Container contents listed (per-file manifest)'' in
      if \<not> str_truthy (ev_container_format ev)
      then ck NotApplicable Advisory (Some ''Not a container exhibit'')
      else if ev_manifest_status ev = Some ''built''
      then let bad = sum_list (map (\<lambda>n. case n of None \<Rightarrow> 0 | Some k \<Rightarrow> k) (ev_manifest_listing ev))
           in ck (if bad \<noteq> 0 then Fail else Pass) Advisory
                (if bad \<noteq> 0 then Some (show_int bad @ '' member(s) differ from the tool listing's hash'') else None)
      else ck Manual Advisory (Some
        (if ev_manifest_status ev = Some ''pending'' then ''The manifest is still being built''
         else if ev_manifest_status ev = Some ''not_indexed''
         then ''FENRIR does not index '' @ str_or (ev_container_format ev) []
              @ '' containers: list the contents from the tool's own report''
         else if ev_manifest_status ev = Some ''failed''
         then ''The manifest could not be built: '' @ slice0 200 (str_or (ev_manifest_error ev) [])
         else ''No manifest'')))"

subsection \<open>The checks, in the order \<open>scoreEvidence\<close> pushes them\<close>

definition isDigital :: "evidence \<Rightarrow> bool" where
  "isDigital ev \<longleftrightarrow> ev_kind ev = ''digital_file''"

definition isPhysical :: "evidence \<Rightarrow> bool" where
  "isPhysical ev \<longleftrightarrow> ev_kind ev = ''physical_item''"

definition physical_checks :: "evidence \<Rightarrow> check list" where
  "physical_checks ev =
     (if isPhysical ev
      then let ok = (case ev_photos ev of None \<Rightarrow> False | Some ps \<Rightarrow> length ps > 0);
               missing = map fst (filter (\<lambda>(f, v). blank v)
                 [(''make'', ev_make ev), (''model'', ev_model ev), (''serial'', ev_serial ev)])
           in [check ''iso_27037_9_1_4'' (''In-situ photograph captured (ISO/IEC 27037 '' @ section_sign @ ''6.2.1)'')
                 (pass_if ok) Mandatory
                 (if ok then None else Some ''Physical evidence requires at least one photo''),
               check ''iso_27037_device_identifiers'' ''Device identifiers recorded (make, model, serial)''
                 (if missing \<noteq> [] then Fail else Pass) Advisory
                 (if missing \<noteq> [] then Some (''Record the item's '' @ join '', '' missing @ '' where possible'')
                  else None)]
      else [])"

definition collection_checks :: "evidence \<Rightarrow> check list" where
  "collection_checks ev =
     (case photoRecord ev of None \<Rightarrow> [] | Some c \<Rightarrow> [c])
     @ [check ''iso_27037_collector'' ''Collector identified''
          (pass_if (str_truthy (ev_collected_by_id ev))) Mandatory None,
        check ''iso_27037_collection_location'' ''Collection location recorded''
          (pass_if (trim (str_or (ev_collected_location ev) []) \<noteq> [])) Advisory None]
     @ (if isDigital ev then [sourceLocation ev] else [])
     @ [check ''gdpr_5_1_c_lawful_basis'' ''Lawful basis recorded''
          (pass_if (str_truthy (ev_lawful_basis ev))) Mandatory
          (if str_truthy (ev_lawful_basis ev) then None else Some ''GDPR Art. 5.1(c)'')]"

definition writeblocker_check :: "evidence \<Rightarrow> check" where
  "writeblocker_check ev =
     (let wb = ev_write_blocker_used ev;
          ss = to_lower (str_or (ev_system_state ev) []);
          ck = check ''iso_27037_9_2_1_writeblocker''
            (''Write-blocker / live-acquisition status (ISO/IEC 27037 '' @ section_sign @ ''5.4.4, ''
             @ section_sign @ ''7.1.3)'')
      in if wb = None \<and> ss = [] then ck Fail Advisory (Some ''Run the acquisition wizard'')
         else if (ss = ''live'' \<or> ss = ''live_critical'') \<and> trim (str_or (ev_live_justification ev) []) = []
         then ck Fail Advisory (Some ''Live acquisition needs justification'')
         else ck Pass Advisory None)"

definition hash_match_checks :: "evidence \<Rightarrow> check list" where
  "hash_match_checks ev =
     (let ck = check ''iso_27037_9_2_5_hash_match''
            (''Acquisition source/target hash match (ISO/IEC 27037 '' @ section_sign @ ''5.4.4)'');
          src = ev_acquisition_hash_source ev; tgt = ev_acquisition_hash_target ev;
          srcAlgo = hashAlgorithm src; tgtAlgo = hashAlgorithm tgt
      in if srcAlgo \<noteq> None \<and> tgtAlgo \<noteq> None \<and> srcAlgo \<noteq> tgtAlgo
         then [ck Manual Advisory (Some (''Source ('' @ the srcAlgo @ '') and target ('' @ the tgtAlgo
                 @ '') use different algorithms '' @ em_dash @ '' confirm the match in the imaging tool's report''))]
         else if str_truthy src \<noteq> str_truthy tgt
         then [ck Manual Advisory (Some (if str_truthy tgt
                 then ''Only the target hash is recorded, so there is nothing to compare it with: confirm the source hash in the tool's report (a screenshot or other capture has none)''
                 else ''Only the source hash is recorded, so there is nothing to compare it with: record the target hash from the tool's report''))]
         else if str_truthy src \<or> str_truthy tgt
         then let m = (to_lower (str_or src []) = to_lower (str_or tgt []))
              in [ck (pass_if m) Mandatory
                   (if m then None else Some (''Source '' @ not_eq_sign @ '' target '' @ em_dash @ '' re-acquire''))]
         else [])"

definition digital_checks :: "evidence \<Rightarrow> check list" where
  "digital_checks ev =
     (if isDigital ev
      then [check ''iso_27037_9_2_3_sha256''
              (''SHA-256 captured at acquisition (ISO/IEC 27037 '' @ section_sign @ ''5.4.4)'')
              (pass_if (str_truthy (ev_sha256 ev))) Mandatory None,
            writeblocker_check ev,
            check ''iso_27037_9_2_4_tool''
              (''Acquisition tool + version documented (ISO/IEC 27037 '' @ section_sign @ ''5.4.4)'')
              (pass_if (str_truthy (ev_acquisition_tool ev) \<and> str_truthy (ev_acquisition_tool_version ev)))
              (if ev_coc_sealed ev then Mandatory else Advisory) None]
           @ hash_match_checks ev
           @ (case providerHash ev of None \<Rightarrow> [] | Some c \<Rightarrow> [c])
           @ [containerManifest ev]
      else [])"

definition custody_checks :: "evidence \<Rightarrow> check list" where
  "custody_checks ev =
     (let chainOk = (ev_status ev \<noteq> ''verify_failed'');
          ck = check ''custody_internal_holder'' ''Currently held by an internal accountable user'';
          isExternalNow = (\<not> str_truthy (ev_current_custodian_id ev)
                           \<and> str_truthy (ev_current_custodian_external_name ev));
          holder = str_or (ev_current_custodian_external_name ev) []
            @ (if str_truthy (ev_current_custodian_external_org ev)
               then '' ('' @ str_or (ev_current_custodian_external_org ev) [] @ '')'' else [])
      in [check ''custody_chain_unbroken'' ''Chain unbroken'' (pass_if chainOk) Mandatory
            (if chainOk then None else Some ''Integrity verify failed''),
          (if isExternalNow
           then ck Fail Advisory (Some (''In external custody: '' @ holder
                  @ ''. Take it back to re-enable examine/verify/seal.''))
           else ck Pass Advisory None)])"

definition transfer_checks :: "evidence \<Rightarrow> check list" where
  "transfer_checks ev =
     (let ck = check ''custody_transfers_acknowledged'' ''Custody transfers acknowledged by the recipient'' in
      if ev_internal_transfers_legacy ev \<noteq> 0
      then [ck Manual Advisory (Some (show_nat (ev_internal_transfers_legacy ev)
              @ '' transfer(s) recorded before recipient acceptance existed '' @ em_dash
              @ '' confirm receipt and condition from the paper record''))]
      else if ev_internal_transfers_acknowledged ev \<noteq> 0 then [ck Pass Mandatory None]
      else [])"

definition seal_checks :: "evidence \<Rightarrow> check list" where
  "seal_checks ev =
     [check ''wizard_a_sealed'' ''Acquisition wizard sealed''
        (if ev_coc_sealed ev then Pass else Manual) Advisory None]
     @ (if ev_coc_sealed ev
        then let tsOk = (trim (str_or (ev_seal_tst_time ev) []) \<noteq> [])
             in [check ''rfc3161_seal_timestamp'' ''Seal carries an independent trusted timestamp''
                   (if tsOk then Pass else Manual) Advisory
                   (if tsOk then None else Some (''Server-clock only '' @ em_dash
                      @ '' configure a TSA for an RFC-3161 timestamp at seal''))]
        else [])"

definition method_checks :: "evidence \<Rightarrow> check list" where
  "method_checks ev =
     (let valOk = ev_acquisition_tool_validated ev;
          qualOk = (trim (str_or (ev_collected_by_qualifications ev) []) \<noteq> []);
          roleOk = (ev_collected_as_role ev = Some ''defr'' \<or> ev_collected_as_role ev = Some ''des'');
          wc = ev_has_verified_working_copy ev
      in (if isDigital ev
          then [check ''iso_27041_method_validated'' ''Acquisition tool/method validated (ISO/IEC 27041)''
                  (pass_if valOk) Advisory
                  (if valOk then None
                   else Some ''Record that the acquisition tool/method was validated (27041, item 7)'')]
          else [])
         @ [check ''iso_27037_annex_a_qualifications'' ''Collector qualifications recorded''
              (pass_if qualOk) Advisory
              (if qualOk then None
               else Some ''Set the collector's qualifications on their user profile (item 10)''),
            check ''iso_27037_3_7_collector_role'' ''Collector role recorded (DEFR/DES)''
              (pass_if roleOk) Advisory
              (if roleOk then None else Some (''Record DEFR (first responder) or DES (specialist) '' @ em_dash
                 @ '' ISO 27037 '' @ section_sign @ ''3.7/'' @ section_sign @ ''3.8''))]
         @ (if isDigital ev
            then [check ''iso_27037_7_1_3_1_1_working_copy'' ''Analysis used a master-verified working copy''
                    (if wc then Pass else Manual) Advisory
                    (if wc then None else Some (''No verified working copy yet '' @ em_dash
                       @ '' download one, or record a lab copy with its hash, in the item detail''))]
            else []))"

definition examination_checks :: "evidence \<Rightarrow> check list" where
  "examination_checks ev =
     (if isDigital ev \<and> ev_has_examination ev
      then let fOk = ev_has_examination_findings ev; sOk = ev_has_examination_scope ev in
           [check ''iso_27042_findings'' ''Examination findings/interpretation recorded'' (pass_if fOk) Advisory
              (if fOk then None
               else Some ''Record findings + interpretation in the examination wizard (ISO 27042 item 8)''),
            check ''iso_27042_scope_limitations'' ''Examination scope limitations recorded'' (pass_if sOk) Advisory
              (if sOk then None else Some ''Record what was NOT examined / caveats (ISO 27042 item 12)'')]
      else [])"

definition all_checks :: "evidence \<Rightarrow> check list" where
  "all_checks ev = physical_checks ev @ collection_checks ev @ digital_checks ev @ custody_checks ev
     @ transfer_checks ev @ seal_checks ev @ method_checks ev @ examination_checks ev"

subsection \<open>Roll-up and aggregate\<close>

datatype traffic = Green | Amber | Red

record score_result =
  sr_score :: traffic
  sr_summary :: string
  sr_checks :: "check list"
  sr_completeness :: nat

definition fails_with :: "ck_severity \<Rightarrow> check \<Rightarrow> bool" where
  "fails_with sev c \<longleftrightarrow> ck_status c = Fail \<and> ck_severity c = sev"

definition roll_up :: "check list \<Rightarrow> traffic \<times> string" where
  "roll_up checks =
     (let failMand = length (filter (fails_with Mandatory) checks);
          failAdv = length (filter (fails_with Advisory) checks);
          hasManual = list_ex (\<lambda>c. ck_status c = Manual) checks
      in if failMand \<noteq> 0 then (Red, show_nat failMand @ '' mandatory check(s) failing'')
         else if failAdv \<noteq> 0 then (Amber, show_nat failAdv @ '' advisory check(s) failing'')
         else if hasManual then (Amber, ''Manual confirmation pending'')
         else (Green, ''All applicable checks pass''))"

definition completeness_of :: "check list \<Rightarrow> nat" where
  "completeness_of checks =
     (let determinable = filter (\<lambda>c. ck_status c = Pass \<or> ck_status c = Fail) checks;
          passes = length (filter (\<lambda>c. ck_status c = Pass) determinable)
      in if length determinable \<noteq> 0 then round_div (100 * passes) (length determinable) else 100)"

definition scoreEvidence :: "evidence \<Rightarrow> score_result" where
  "scoreEvidence ev =
     (let checks = all_checks ev in
      \<lparr>sr_score = fst (roll_up checks), sr_summary = snd (roll_up checks), sr_checks = checks,
       sr_completeness = completeness_of checks\<rparr>)"

definition severityColor :: "string \<Rightarrow> string" where
  "severityColor score =
     (if score = ''green'' then ''var(--ok)'' else if score = ''amber'' then ''var(--med)''
      else if score = ''red'' then ''var(--crit)'' else ''var(--muted)'')"

record integrity =
  ig_total :: nat
  ig_sealed :: nat
  ig_verifyFailed :: nat
  ig_onHold :: nat
  ig_green :: nat
  ig_amber :: nat
  ig_red :: nat

definition integrity_step :: "integrity \<Rightarrow> evidence \<Rightarrow> integrity" where
  "integrity_step a it =
     (let a1 = (if ev_coc_sealed it then a\<lparr>ig_sealed := ig_sealed a + 1\<rparr> else a);
          a2 = (if ev_status it = ''verify_failed'' then a1\<lparr>ig_verifyFailed := ig_verifyFailed a1 + 1\<rparr> else a1);
          a3 = (if ev_legal_hold it then a2\<lparr>ig_onHold := ig_onHold a2 + 1\<rparr> else a2)
      in case sr_score (scoreEvidence it) of
           Green \<Rightarrow> a3\<lparr>ig_green := ig_green a3 + 1\<rparr>
         | Amber \<Rightarrow> a3\<lparr>ig_amber := ig_amber a3 + 1\<rparr>
         | Red \<Rightarrow> a3\<lparr>ig_red := ig_red a3 + 1\<rparr>)"

definition aggregateIntegrity :: "evidence list \<Rightarrow> integrity" where
  "aggregateIntegrity items =
     foldl integrity_step
       \<lparr>ig_total = length items, ig_sealed = 0, ig_verifyFailed = 0, ig_onHold = 0,
        ig_green = 0, ig_amber = 0, ig_red = 0\<rparr> items"

subsection \<open>The roll-up is the worst check\<close>

instantiation traffic :: linorder
begin

fun traffic_rank :: "traffic \<Rightarrow> nat" where
  "traffic_rank Green = 0"
| "traffic_rank Amber = 1"
| "traffic_rank Red = 2"

definition less_eq_traffic :: "traffic \<Rightarrow> traffic \<Rightarrow> bool" where
  "less_eq_traffic a b \<longleftrightarrow> traffic_rank a \<le> traffic_rank b"

definition less_traffic :: "traffic \<Rightarrow> traffic \<Rightarrow> bool" where
  "less_traffic a b \<longleftrightarrow> traffic_rank a < traffic_rank b"

instance
proof
  fix x y :: traffic
  assume "x \<le> y" and "y \<le> x"
  then show "x = y" by (cases x; cases y; simp add: less_eq_traffic_def)
qed (auto simp: less_eq_traffic_def less_traffic_def)

end

lemma traffic_order [simp]:
  "Green \<le> t" "t \<le> Red" "Amber \<le> t \<longleftrightarrow> t \<noteq> Green" "t \<le> Green \<longleftrightarrow> t = Green" "Red \<le> t \<longleftrightarrow> t = Red"
  by (cases t; simp add: less_eq_traffic_def)+

definition check_level :: "check \<Rightarrow> traffic" where
  "check_level c =
     (if fails_with Mandatory c then Red
      else if ck_status c = Fail \<or> ck_status c = Manual then Amber else Green)"

lemma fails_either: "ck_status c = Fail \<longleftrightarrow> fails_with Mandatory c \<or> fails_with Advisory c"
  by (cases "ck_severity c") (auto simp: fails_with_def)

lemma roll_up_cases:
  "fst (roll_up cs) =
     (if \<exists>c \<in> set cs. fails_with Mandatory c then Red
      else if \<exists>c \<in> set cs. ck_status c = Fail \<or> ck_status c = Manual then Amber else Green)"
  by (auto simp: roll_up_def Let_def filter_empty_conv list_ex_iff fails_either)

lemma roll_up_Cons: "fst (roll_up (c # cs)) = max (check_level c) (fst (roll_up cs))"
  by (simp add: roll_up_cases check_level_def max_def)

interpretation prov: severity_scale check_level Green "\<lambda>cs. fst (roll_up cs)"
  by unfold_locales (simp_all add: roll_up_Cons, simp add: roll_up_cases)

text \<open>The score of an exhibit is the level of its worst check (a failed mandatory check is red,
  another failed or a manual check amber), whatever the order of the checks.\<close>

theorem score_is_worst_check:
  "sr_score (scoreEvidence ev) = Max (insert Green (check_level ` set (sr_checks (scoreEvidence ev))))"
  using prov.worst_Max [of "all_checks ev"] by (simp add: scoreEvidence_def Let_def)

subsection \<open>What turns an exhibit red\<close>

definition has_mand_fail :: "check list \<Rightarrow> bool" where
  "has_mand_fail cs \<longleftrightarrow> (\<exists>c \<in> set cs. fails_with Mandatory c)"

lemma has_mand_fail_simps [simp]:
  "\<not> has_mand_fail []"
  "has_mand_fail (c # cs) \<longleftrightarrow> fails_with Mandatory c \<or> has_mand_fail cs"
  "has_mand_fail (xs @ ys) \<longleftrightarrow> has_mand_fail xs \<or> has_mand_fail ys"
  by (auto simp: has_mand_fail_def)

lemma fails_with_check [simp]: "fails_with v (check c l s w n) \<longleftrightarrow> s = Fail \<and> w = v"
  by (simp add: fails_with_def)

lemma score_red_iff: "sr_score (scoreEvidence ev) = Red \<longleftrightarrow> has_mand_fail (all_checks ev)"
  by (auto simp: scoreEvidence_def Let_def roll_up_cases has_mand_fail_def)

lemma not_mand_photoRecord: "photoRecord ev = Some c \<Longrightarrow> \<not> fails_with Mandatory c"
  by (auto simp: photoRecord_def Let_def split: if_splits)

lemma not_mand_providerHash: "providerHash ev = Some c \<Longrightarrow> \<not> fails_with Mandatory c"
  by (auto simp: providerHash_def Let_def split: option.splits if_splits)

lemma not_mand_manifest: "\<not> fails_with Mandatory (containerManifest ev)"
  by (simp add: containerManifest_def Let_def)

lemma not_mand_writeblocker: "\<not> fails_with Mandatory (writeblocker_check ev)"
  by (simp add: writeblocker_check_def Let_def)

definition source_gap :: "evidence \<Rightarrow> bool" where
  "source_gap ev \<longleftrightarrow> sourceMissing ev \<noteq> [] \<and> blank (ev_source_unknown_reason ev)"

definition hash_conflict :: "evidence \<Rightarrow> bool" where
  "hash_conflict ev \<longleftrightarrow>
     str_truthy (ev_acquisition_hash_source ev) \<and> str_truthy (ev_acquisition_hash_target ev)
     \<and> (hashAlgorithm (ev_acquisition_hash_source ev) = None
        \<or> hashAlgorithm (ev_acquisition_hash_target ev) = None
        \<or> hashAlgorithm (ev_acquisition_hash_source ev) = hashAlgorithm (ev_acquisition_hash_target ev))
     \<and> to_lower (str_or (ev_acquisition_hash_source ev) []) \<noteq> to_lower (str_or (ev_acquisition_hash_target ev) [])"

lemma mand_sourceLocation:
  "fails_with Mandatory (sourceLocation ev) \<longleftrightarrow>
     source_gap ev \<and> ev_coc_sealed ev \<and> str_truthy (ev_seal_record_sha256 ev)"
  by (auto simp: sourceLocation_def source_gap_def Let_def)

lemma hashAlgorithm_truthy: "hashAlgorithm v = Some a \<Longrightarrow> str_truthy v"
  by (auto simp: hashAlgorithm_def split: option.splits if_splits)

lemma mand_hash_match: "has_mand_fail (hash_match_checks ev) \<longleftrightarrow> hash_conflict ev"
  by (auto simp: hash_match_checks_def hash_conflict_def Let_def)

lemma mand_physical:
  "has_mand_fail (physical_checks ev) \<longleftrightarrow>
     isPhysical ev \<and> (case ev_photos ev of None \<Rightarrow> True | Some ps \<Rightarrow> ps = [])"
  by (auto simp: physical_checks_def Let_def split: option.splits)

lemma mand_collection:
  "has_mand_fail (collection_checks ev) \<longleftrightarrow>
     \<not> str_truthy (ev_collected_by_id ev) \<or> \<not> str_truthy (ev_lawful_basis ev)
     \<or> (isDigital ev \<and> source_gap ev \<and> ev_coc_sealed ev \<and> str_truthy (ev_seal_record_sha256 ev))"
  by (auto simp: collection_checks_def mand_sourceLocation not_mand_photoRecord split: option.splits)

lemma mand_digital:
  "has_mand_fail (digital_checks ev) \<longleftrightarrow>
     isDigital ev \<and> (\<not> str_truthy (ev_sha256 ev) \<or> hash_conflict ev
       \<or> (ev_coc_sealed ev \<and> \<not> (str_truthy (ev_acquisition_tool ev) \<and> str_truthy (ev_acquisition_tool_version ev))))"
  by (auto simp: digital_checks_def mand_hash_match not_mand_writeblocker not_mand_manifest
      not_mand_providerHash split: option.splits)

lemma mand_rest:
  "has_mand_fail (custody_checks ev) \<longleftrightarrow> ev_status ev = ''verify_failed''"
  "\<not> has_mand_fail (transfer_checks ev)" "\<not> has_mand_fail (seal_checks ev)"
  "\<not> has_mand_fail (method_checks ev)" "\<not> has_mand_fail (examination_checks ev)"
  by (auto simp: custody_checks_def transfer_checks_def seal_checks_def method_checks_def
      examination_checks_def Let_def)

text \<open>An exhibit scores red exactly when one of the mandatory facts is missing: no collector, no
  lawful basis, a failed integrity verify; a physical item without a photo; a digital one without a
  SHA-256, with recorded source and target hashes of one algorithm (or of none the tool knows) that
  differ, or, once sealed, without tool and version, or without a source location a record-v1 seal
  bound and with no reason why the source is unknown. Nothing else makes it red.\<close>

theorem red_iff_mandatory_gap:
  "sr_score (scoreEvidence ev) = Red \<longleftrightarrow>
     \<not> str_truthy (ev_collected_by_id ev) \<or> \<not> str_truthy (ev_lawful_basis ev)
     \<or> ev_status ev = ''verify_failed''
     \<or> (isPhysical ev \<and> (case ev_photos ev of None \<Rightarrow> True | Some ps \<Rightarrow> ps = []))
     \<or> (isDigital ev \<and> (\<not> str_truthy (ev_sha256 ev) \<or> hash_conflict ev
         \<or> (ev_coc_sealed ev \<and> \<not> (str_truthy (ev_acquisition_tool ev) \<and> str_truthy (ev_acquisition_tool_version ev)))
         \<or> (ev_coc_sealed ev \<and> str_truthy (ev_seal_record_sha256 ev) \<and> source_gap ev)))"
  by (auto simp: score_red_iff all_checks_def mand_physical mand_collection mand_digital mand_rest)

text \<open>A physical item collected with everything the standard asks for.\<close>

definition sample_item :: evidence where
  "sample_item = \<lparr>ev_kind = ''physical_item'', ev_status = ''active'',
     ev_photos = Some [Some \<lparr>ph_taken_by_id = Some ''u1'', ph_taken_by_name = None,
                             ph_taken_at = Some ''2025-01-02T03:04:05Z'', ph_camera = Some ''Canon''\<rparr>],
     ev_make = Some ''Dell'', ev_model = Some ''7490'', ev_serial = Some ''S1'', ev_entity_id = None,
     ev_source_system = None, ev_source_path = None, ev_source_path_style = None, ev_source_unknown_reason = None,
     ev_acquisition_scope = None, ev_system_state = None, ev_device_types = [],
     ev_collected_by_id = Some ''u1'', ev_collected_location = Some ''Room 4'',
     ev_collected_by_qualifications = Some ''GCFE'', ev_collected_as_role = Some ''defr'',
     ev_lawful_basis = Some ''consent'', ev_md5 = None, ev_sha1 = None, ev_sha256 = None,
     ev_write_blocker_used = None, ev_live_justification = None, ev_acquisition_tool = None,
     ev_acquisition_tool_version = None, ev_acquisition_tool_validated = False,
     ev_acquisition_hash_source = None, ev_acquisition_hash_target = None, ev_provider_hash = None,
     ev_container_format = None, ev_manifest_status = None, ev_manifest_error = None, ev_manifest_listing = [],
     ev_current_custodian_id = Some ''u1'', ev_current_custodian_external_name = None,
     ev_current_custodian_external_org = None, ev_internal_transfers_legacy = 0,
     ev_internal_transfers_acknowledged = 0, ev_coc_sealed = True, ev_seal_record_sha256 = None,
     ev_seal_tst_time = Some ''2025-01-03T00:00:00Z'', ev_legal_hold = False,
     ev_has_verified_working_copy = False, ev_has_examination = False, ev_has_examination_findings = False,
     ev_has_examination_scope = False\<rparr>"

lemma red_iff_mandatory_gap_witness:
  "sr_score (scoreEvidence (sample_item\<lparr>ev_lawful_basis := None\<rparr>)) = Red
   \<and> sr_score (scoreEvidence sample_item) \<noteq> Red"
  by (simp only: red_iff_mandatory_gap) (simp add: sample_item_def isDigital_def)

subsection \<open>Completeness\<close>

lemma length_filter_all_iff: "length (filter P xs) = length xs \<longleftrightarrow> (\<forall>x \<in> set xs. P x)"
proof (induction xs)
  case (Cons x xs)
  have "length (filter P xs) < Suc (length xs)" using length_filter_le [of P xs] by linarith
  with Cons show ?case by auto
qed simp

lemma length_filter_pass:
  "length (filter (\<lambda>c. ck_status c = Pass) (filter (\<lambda>c. ck_status c = Pass \<or> ck_status c = Fail) cs))
     \<le> length (filter (\<lambda>c. ck_status c = Pass \<or> ck_status c = Fail) cs)"
  by (rule length_filter_le)

lemma completeness_le_100: "completeness_of cs \<le> 100"
  unfolding completeness_of_def Let_def
  by (auto intro!: round_div_bound length_filter_pass simp del: filter_filter)

text \<open>With fewer than 200 determinable checks one failure shows: the rounded ratio is below 100.\<close>

lemma round_div_100_iff:
  assumes "p \<le> d" "0 < d" "d < 200"
  shows "round_div (100 * p) d = 100 \<longleftrightarrow> p = d"
proof
  assume "p = d"
  with assms(2) show "round_div (100 * p) d = 100"
    using round_div_exact [of d 100] by simp
next
  assume r: "round_div (100 * p) d = 100"
  show "p = d"
  proof (rule ccontr)
    assume "p \<noteq> d"
    with assms(1) obtain k where k: "d = p + Suc k"
      by (metis add_Suc_right le_neq_implies_less less_imp_Suc_add)
    from r have "100 * (2 * d) \<le> 2 * (100 * p) + d"
      unfolding round_div_def by (metis div_times_less_eq_dividend)
    with k assms(3) show False by simp
  qed
qed

lemma length_check_groups:
  "length (physical_checks ev) \<le> 2" "length (collection_checks ev) \<le> 5" "length (digital_checks ev) \<le> 6"
  "length (custody_checks ev) \<le> 2" "length (transfer_checks ev) \<le> 1" "length (seal_checks ev) \<le> 2"
  "length (method_checks ev) \<le> 4" "length (examination_checks ev) \<le> 2"
proof -
  have "length (hash_match_checks ev) \<le> 1" by (simp add: hash_match_checks_def Let_def)
  then show "length (digital_checks ev) \<le> 6"
    unfolding digital_checks_def by (cases "providerHash ev"; cases "isDigital ev"; simp)
  show "length (physical_checks ev) \<le> 2" by (simp add: physical_checks_def Let_def)
  show "length (collection_checks ev) \<le> 5"
    unfolding collection_checks_def by (cases "photoRecord ev"; cases "isDigital ev"; simp)
  show "length (custody_checks ev) \<le> 2" by (simp add: custody_checks_def Let_def)
  show "length (transfer_checks ev) \<le> 1" by (simp add: transfer_checks_def Let_def)
  show "length (seal_checks ev) \<le> 2" by (simp add: seal_checks_def Let_def)
  show "length (method_checks ev) \<le> 4" unfolding method_checks_def Let_def by (cases "isDigital ev"; simp)
  show "length (examination_checks ev) \<le> 2" by (simp add: examination_checks_def Let_def)
qed

lemma length_all_checks: "length (all_checks ev) \<le> 24"
  using length_check_groups [of ev] by (simp add: all_checks_def)

lemma completeness_100_iff:
  assumes "length cs < 200"
  shows "completeness_of cs = 100 \<longleftrightarrow> (\<forall>c \<in> set cs. ck_status c \<noteq> Fail)"
proof -
  define det where "det = filter (\<lambda>c. ck_status c = Pass \<or> ck_status c = Fail) cs"
  define pas where "pas = filter (\<lambda>c. ck_status c = Pass) det"
  have len: "length det < 200"
    using assms length_filter_le [of _ cs] unfolding det_def by (rule le_less_trans [rotated])
  have all: "length pas = length det \<longleftrightarrow> (\<forall>c \<in> set det. ck_status c = Pass)"
    unfolding pas_def by (rule length_filter_all_iff)
  also have "\<dots> \<longleftrightarrow> (\<forall>c \<in> set cs. ck_status c \<noteq> Fail)"
    by (auto simp: det_def)
  finally have iff: "length pas = length det \<longleftrightarrow> (\<forall>c \<in> set cs. ck_status c \<noteq> Fail)" .
  have le: "length pas \<le> length det" unfolding pas_def by (rule length_filter_le)
  have c: "completeness_of cs = (if length det \<noteq> 0 then round_div (100 * length pas) (length det) else 100)"
    by (simp add: completeness_of_def det_def pas_def Let_def)
  show ?thesis
  proof (cases "length det = 0")
    case True
    with le have "length pas = length det" by simp
    with iff c True show ?thesis by simp
  next
    case False
    with round_div_100_iff [OF le _ len] iff c show ?thesis by simp
  qed
qed

text \<open>C36: the completeness of an exhibit is a percentage, and it is 100 exactly when no check fails.\<close>

theorem completeness_full_iff_no_fail:
  "sr_completeness (scoreEvidence ev) \<le> 100 \<and>
   (sr_completeness (scoreEvidence ev) = 100 \<longleftrightarrow> (\<forall>c \<in> set (sr_checks (scoreEvidence ev)). ck_status c \<noteq> Fail))"
proof -
  have "length (all_checks ev) < 200" using length_all_checks [of ev] by simp
  from completeness_100_iff [OF this] completeness_le_100 show ?thesis
    by (simp add: scoreEvidence_def Let_def)
qed

lemma sample_item_no_fail: "\<forall>c \<in> set (sr_checks (scoreEvidence sample_item)). ck_status c \<noteq> Fail"
  by (simp add: scoreEvidence_def Let_def all_checks_def physical_checks_def collection_checks_def
      digital_checks_def custody_checks_def transfer_checks_def seal_checks_def method_checks_def
      examination_checks_def photoRecord_def photo_lacks_def map_filter_def blank_def sample_item_def
      isPhysical_def isDigital_def pass_if_def trim_def trim_left_def is_space_def code_of_def)

lemma completeness_full_iff_no_fail_witness: "sr_completeness (scoreEvidence sample_item) = 100"
  using completeness_full_iff_no_fail [of sample_item] sample_item_no_fail by simp

subsection \<open>The chain-integrity card\<close>

definition count_score :: "traffic \<Rightarrow> evidence list \<Rightarrow> nat" where
  "count_score t items = length (filter (\<lambda>it. sr_score (scoreEvidence it) = t) items)"

lemma integrity_fold:
  "foldl integrity_step a items = a\<lparr>
     ig_sealed := ig_sealed a + length (filter ev_coc_sealed items),
     ig_verifyFailed := ig_verifyFailed a + length (filter (\<lambda>it. ev_status it = ''verify_failed'') items),
     ig_onHold := ig_onHold a + length (filter ev_legal_hold items),
     ig_green := ig_green a + count_score Green items,
     ig_amber := ig_amber a + count_score Amber items,
     ig_red := ig_red a + count_score Red items\<rparr>"
proof (induction items arbitrary: a)
  case Nil
  then show ?case by (simp add: count_score_def)
next
  case (Cons it items)
  then show ?case
    by (cases "sr_score (scoreEvidence it)") (auto simp: integrity_step_def count_score_def Let_def)
qed

lemma count_score_partition:
  "count_score Green items + count_score Amber items + count_score Red items = length items"
proof (induction items)
  case Nil
  then show ?case by (simp add: count_score_def)
next
  case (Cons it items)
  then show ?case by (cases "sr_score (scoreEvidence it)") (auto simp: count_score_def)
qed

lemma count_le: "(\<And>x. x \<in> set xs \<Longrightarrow> P x \<Longrightarrow> Q x) \<Longrightarrow> length (filter P xs) \<le> length (filter Q xs)"
  by (induction xs) auto

text \<open>The card counts every exhibit exactly once: green, amber and red add up to the total, and every
  exhibit whose integrity check failed is among the red ones.\<close>

theorem aggregate_partitions_exhibits:
  "ig_total (aggregateIntegrity items) = length items
   \<and> ig_green (aggregateIntegrity items) + ig_amber (aggregateIntegrity items) + ig_red (aggregateIntegrity items)
       = ig_total (aggregateIntegrity items)
   \<and> ig_verifyFailed (aggregateIntegrity items) \<le> ig_red (aggregateIntegrity items)
   \<and> ig_sealed (aggregateIntegrity items) = length (filter ev_coc_sealed items)"
proof -
  have red: "ev_status it = ''verify_failed'' \<Longrightarrow> sr_score (scoreEvidence it) = Red" for it
    by (simp add: score_red_iff all_checks_def mand_rest)
  have "length (filter (\<lambda>it. ev_status it = ''verify_failed'') items) \<le> count_score Red items"
    unfolding count_score_def by (rule count_le) (simp add: red)
  then show ?thesis
    using count_score_partition [of items] by (simp add: aggregateIntegrity_def integrity_fold)
qed

end
