(* ===== verification/Provenance_Server.thy ===== *)
theory Provenance_Server
  imports Provenance "HOL-Library.Multiset"
begin

text \<open>
  The backend's scoring, \<^verbatim>\<open>backend/evidence/provenance.py\<close> (with \<^verbatim>\<open>hashing.py\<close> and \<^verbatim>\<open>source.py\<close>), which
  \<^verbatim>\<open>evidenceProvenance.js\<close> says it mirrors. A check is the triple of its code, status and severity:
  the label and note texts, which differ between the two, are not compared. \<open>valid_ts\<close> stands for
  \<open>offset_datetime(s) is not None\<close>, the timestamp parser of the standard library.
\<close>

type_synonym vital = "string \<times> ck_status \<times> ck_severity"

definition vital :: "check \<Rightarrow> vital" where
  "vital c = (ck_code c, ck_status c, ck_severity c)"

lemma vital_check [simp]: "vital (check c l s v n) = (c, s, v)"
  by (simp add: vital_def)

subsection \<open>The Python definitions\<close>

definition PY_HEX :: "char set" where
  "PY_HEX = set ''0123456789abcdef''"

definition py_hash_algorithm :: "string option \<Rightarrow> string option" where
  "py_hash_algorithm value =
     (if \<not> str_truthy value \<or> \<not> list_all (\<lambda>c. c \<in> PY_HEX) (to_lower (the value)) then None
      else if length (the value) = 32 then Some ''md5''
      else if length (the value) = 40 then Some ''sha1''
      else if length (the value) = 64 then Some ''sha256'' else None)"

definition py_filled :: "string option \<Rightarrow> bool" where
  "py_filled v \<longleftrightarrow> trim (str_or v []) \<noteq> []"

definition seal_source_missing :: "evidence \<Rightarrow> string list" where
  "seal_source_missing ev =
     (let missing = (if str_truthy (ev_entity_id ev) \<or> py_filled (ev_source_system ev) \<or> py_filled (ev_serial ev)
                     then [] else [''source_device'']);
          has_path = (ev_source_path ev \<noteq> None \<and> str_truthy (ev_source_path_style ev));
          exports = set [''email_export'', ''vendor_report'', ''network_capture'']
      in if ev_acquisition_scope ev = Some ''full_image''
         then (if \<not> has_path then missing @ [''source_path'']
               else if ev_source_path_style ev \<noteq> Some ''device'' then missing @ [''source_path_style'']
               else missing)
         else if \<not> ((str_or (ev_system_state ev) [] = ''live'' \<or> str_or (ev_system_state ev) [] = ''live_critical'')
                    \<or> exports \<inter> set (ev_device_types ev) \<noteq> {}) \<and> \<not> has_path
         then missing @ [''source_path'']
         else missing)"

definition py_source_location :: "evidence \<Rightarrow> vital" where
  "py_source_location ev =
     (''iso_27037_source_location'',
      (if seal_source_missing ev = [] then Pass
       else if py_filled (ev_source_unknown_reason ev) then Manual else Fail),
      (if ev_coc_sealed ev \<and> str_truthy (ev_seal_record_sha256 ev) then Mandatory else Advisory))"

definition py_photo_incomplete :: "(string \<Rightarrow> bool) \<Rightarrow> photo \<Rightarrow> bool" where
  "py_photo_incomplete valid_ts p \<longleftrightarrow>
     \<not> ((str_truthy (ph_taken_by_id p) \<or> py_filled (ph_taken_by_name p))
        \<and> (case ph_taken_at p of None \<Rightarrow> False | Some s \<Rightarrow> valid_ts s)
        \<and> py_filled (ph_camera p))"

definition py_photo_record :: "(string \<Rightarrow> bool) \<Rightarrow> evidence \<Rightarrow> vital list" where
  "py_photo_record valid_ts ev =
     (let photos = List.map_filter id (case ev_photos ev of None \<Rightarrow> [] | Some ps \<Rightarrow> ps) in
      if photos = [] then []
      else [(''iso_27037_photo_record'',
             (if list_ex (py_photo_incomplete valid_ts) photos then Fail else Pass), Advisory)])"

definition py_digest :: "string \<Rightarrow> nat \<Rightarrow> string option" where
  "py_digest value sz =
     (let v = trim value in
      if length v = 2 * sz \<and> v \<noteq> [] \<and> list_all is_hex v then Some (to_lower v)
      else if \<not> b64_form v \<or> length v mod 4 \<noteq> 0 then None
      else let raw = atob v in if length raw = sz then Some (concat (map hex_byte raw)) else None)"

definition py_provider_hash :: "evidence \<Rightarrow> vital list" where
  "py_provider_hash ev =
     (case ev_provider_hash ev of None \<Rightarrow> []
      | Some (algorithm, value) \<Rightarrow>
        let algo = norm_algo algorithm;
            n_a = [(''source_provider_hash_match'', NotApplicable, Advisory)]
        in (case DIGEST_SIZE algo of None \<Rightarrow> n_a
            | Some sz \<Rightarrow>
              (case py_digest (str_or value []) sz of None \<Rightarrow> n_a
               | Some digest \<Rightarrow>
                 (if \<not> str_truthy (stored_digest ev algo) then n_a
                  else [(''source_provider_hash_match'',
                         (if digest = to_lower (the (stored_digest ev algo)) then Pass else Fail), Advisory)]))))"

definition py_container_manifest :: "evidence \<Rightarrow> vital" where
  "py_container_manifest ev =
     (''container_manifest'',
      (if \<not> str_truthy (ev_container_format ev) then NotApplicable
       else if ev_manifest_status ev = Some ''built''
       then (if sum_list (map (\<lambda>n. case n of None \<Rightarrow> 0 | Some k \<Rightarrow> k) (ev_manifest_listing ev)) \<noteq> 0
             then Fail else Pass)
       else Manual), Advisory)"

definition py_write_blocker :: "evidence \<Rightarrow> vital" where
  "py_write_blocker ev =
     (let sys_state = to_lower (str_or (ev_system_state ev) []) in
      (''iso_27037_9_2_1_writeblocker'',
       (if ev_write_blocker_used ev = None \<and> sys_state = [] then Fail
        else if (sys_state = ''live'' \<or> sys_state = ''live_critical'') \<and> \<not> py_filled (ev_live_justification ev)
        then Fail else Pass), Advisory))"

definition py_hash_match :: "evidence \<Rightarrow> vital list" where
  "py_hash_match ev =
     (let src = ev_acquisition_hash_source ev; tgt = ev_acquisition_hash_target ev;
          src_algo = py_hash_algorithm src; tgt_algo = py_hash_algorithm tgt;
          code = ''iso_27037_9_2_5_hash_match''
      in if src_algo \<noteq> None \<and> tgt_algo \<noteq> None \<and> src_algo \<noteq> tgt_algo then [(code, Manual, Advisory)]
         else if str_truthy src \<noteq> str_truthy tgt then [(code, Manual, Advisory)]
         else if str_truthy src \<or> str_truthy tgt
         then [(code, (if to_lower (str_or src []) = to_lower (str_or tgt []) then Pass else Fail), Mandatory)]
         else [])"

definition py_digital :: "evidence \<Rightarrow> vital list" where
  "py_digital ev =
     [(''iso_27037_9_2_3_sha256'', (if str_truthy (ev_sha256 ev) then Pass else Fail), Mandatory),
      py_write_blocker ev,
      (''iso_27037_9_2_4_tool'',
       (if str_truthy (ev_acquisition_tool ev) \<and> str_truthy (ev_acquisition_tool_version ev) then Pass else Fail),
       (if ev_coc_sealed ev then Mandatory else Advisory))]
     @ py_hash_match ev @ py_provider_hash ev @ [py_container_manifest ev]"

definition py_chain_ok :: "evidence \<Rightarrow> bool" where
  "py_chain_ok ev \<longleftrightarrow> ev_status ev \<in> set [''active'', ''archived'', ''returned'', ''destroyed'']"

definition py_intake :: "(string \<Rightarrow> bool) \<Rightarrow> evidence \<Rightarrow> vital list" where
  "py_intake valid_ts ev =
     (if isPhysical ev
      then [(''iso_27037_9_1_4'', (case ev_photos ev of None \<Rightarrow> Fail | Some ps \<Rightarrow> if ps = [] then Fail else Pass),
             Mandatory),
            (''iso_27037_device_identifiers'',
             (if py_filled (ev_make ev) \<and> py_filled (ev_model ev) \<and> py_filled (ev_serial ev) then Pass else Fail),
             Advisory)]
      else [])
     @ py_photo_record valid_ts ev
     @ [(''iso_27037_collector'', (if str_truthy (ev_collected_by_id ev) then Pass else Fail), Mandatory),
        (''iso_27037_collection_location'', (if py_filled (ev_collected_location ev) then Pass else Fail), Advisory)]
     @ (if isDigital ev then [py_source_location ev] else [])
     @ [(''gdpr_5_1_c_lawful_basis'', (if str_truthy (ev_lawful_basis ev) then Pass else Fail), Mandatory)]"

definition py_custody :: "evidence \<Rightarrow> vital list" where
  "py_custody ev =
     [(''custody_chain_unbroken'', (if py_chain_ok ev then Pass else Fail), Mandatory),
      (''custody_internal_holder'',
       (if ev_current_custodian_id ev = None \<and> str_truthy (ev_current_custodian_external_name ev) then Fail else Pass),
       Advisory)]
     @ (if ev_internal_transfers_legacy ev \<noteq> 0 then [(''custody_transfers_acknowledged'', Manual, Advisory)]
        else if ev_internal_transfers_acknowledged ev \<noteq> 0
        then [(''custody_transfers_acknowledged'', Pass, Mandatory)] else [])
     @ [(''wizard_a_sealed'', (if ev_coc_sealed ev then Pass else Manual), Advisory)]"

definition py_method :: "evidence \<Rightarrow> nat \<Rightarrow> vital list" where
  "py_method ev copy_corrections =
     (if isDigital ev
      then [(''iso_27041_method_validated'', (if ev_acquisition_tool_validated ev then Pass else Fail), Advisory)]
      else [])
     @ [(''iso_27037_annex_a_qualifications'',
         (if py_filled (ev_collected_by_qualifications ev) then Pass else Fail), Advisory),
        (''iso_27037_3_7_collector_role'',
         (if ev_collected_as_role ev = Some ''defr'' \<or> ev_collected_as_role ev = Some ''des'' then Pass else Fail),
         Advisory)]
     @ (if isDigital ev
        then [(''iso_27037_7_1_3_1_1_working_copy'',
               (if ev_has_verified_working_copy ev then Pass else Manual), Advisory)] else [])
     @ (if copy_corrections \<noteq> 0 then [(''working_copy_record_corrected'', Manual, Advisory)] else [])"

definition py_late :: "evidence \<Rightarrow> vital list" where
  "py_late ev =
     (if ev_coc_sealed ev
      then [(''rfc3161_seal_timestamp'', (if py_filled (ev_seal_tst_time ev) then Pass else Manual), Advisory)]
      else [])
     @ (if isDigital ev \<and> ev_has_examination ev
        then [(''iso_27042_findings'', (if ev_has_examination_findings ev then Pass else Fail), Advisory),
              (''iso_27042_scope_limitations'', (if ev_has_examination_scope ev then Pass else Fail), Advisory)]
        else [])"

definition py_checks :: "(string \<Rightarrow> bool) \<Rightarrow> evidence \<Rightarrow> nat \<Rightarrow> vital list" where
  "py_checks valid_ts ev copy_corrections =
     py_intake valid_ts ev @ (if isDigital ev then py_digital ev else [])
     @ py_custody ev @ py_method ev copy_corrections @ py_late ev"

definition py_score :: "vital list \<Rightarrow> traffic" where
  "py_score checks =
     (let fail_mand = length (filter (\<lambda>(_, s, v). s = Fail \<and> v = Mandatory) checks);
          fail_adv = length (filter (\<lambda>(_, s, v). s = Fail \<and> v = Advisory) checks);
          has_manual = list_ex (\<lambda>(_, s, _). s = Manual) checks
      in if fail_mand \<noteq> 0 then Red else if fail_adv \<noteq> 0 then Amber else if has_manual then Amber else Green)"

text \<open>Python's \<open>round\<close> of a quotient: half to the even neighbour.\<close>

definition py_round_div :: "nat \<Rightarrow> nat \<Rightarrow> nat" where
  "py_round_div a b =
     (let q = a div b; r = a mod b in
      if 2 * r < b then q else if 2 * r > b then q + 1 else if even q then q else q + 1)"

definition py_completeness :: "vital list \<Rightarrow> nat" where
  "py_completeness checks =
     (let determinable = filter (\<lambda>(_, s, _). s = Pass \<or> s = Fail) checks;
          passes = length (filter (\<lambda>(_, s, _). s = Pass) determinable)
      in if length determinable \<noteq> 0 then py_round_div (100 * passes) (length determinable) else 100)"

subsection \<open>The mirror agrees, check by check\<close>

lemma is_hex_lower: "lower_char c \<in> PY_HEX \<longleftrightarrow> is_hex c"
proof -
  have m: "d \<in> PY_HEX \<longleftrightarrow> (48 \<le> code_of d \<and> code_of d \<le> 57) \<or> (97 \<le> code_of d \<and> code_of d \<le> 102)"
    for d
    unfolding PY_HEX_def by (simp add: char_eq_code) (simp add: code_of_def; presburger)
  show ?thesis unfolding m code_lower_char by (auto simp: is_hex_def is_digit_def)
qed

lemma all_hex_lower: "list_all (\<lambda>c. c \<in> PY_HEX) (to_lower v) \<longleftrightarrow> list_all is_hex v"
  by (simp add: to_lower_def list.pred_map comp_def is_hex_lower)

lemma HEX_RX_iff: "rx_test HEX_RX v \<longleftrightarrow> v \<noteq> [] \<and> list_all is_hex v"
  unfolding HEX_RX_def by (rule rx_test_all)

definition algo_name :: "string \<Rightarrow> string" where
  "algo_name a = (if a = ''md5'' then ''MD5'' else if a = ''sha1'' then ''SHA-1'' else ''SHA-256'')"

lemma hash_algorithm_mirror: "hashAlgorithm v = map_option algo_name (py_hash_algorithm v)"
  by (cases v) (auto simp: hashAlgorithm_def py_hash_algorithm_def HEX_RX_iff all_hex_lower HASH_ALGORITHM_def
      algo_name_def)

lemma py_hash_algorithm_range: "py_hash_algorithm v = Some a \<Longrightarrow> a = ''md5'' \<or> a = ''sha1'' \<or> a = ''sha256''"
  by (auto simp: py_hash_algorithm_def split: if_splits)

lemma algo_name_inject:
  "py_hash_algorithm v = Some a \<Longrightarrow> py_hash_algorithm w = Some b \<Longrightarrow> algo_name a = algo_name b \<longleftrightarrow> a = b"
  by (auto simp: algo_name_def dest!: py_hash_algorithm_range)

lemma hash_match_mirror: "map vital (hash_match_checks ev) = py_hash_match ev"
  unfolding hash_match_checks_def py_hash_match_def Let_def hash_algorithm_mirror
  by (cases "py_hash_algorithm (ev_acquisition_hash_source ev)";
      cases "py_hash_algorithm (ev_acquisition_hash_target ev)"; simp add: pass_if_def algo_name_inject)

lemma blank_filled: "blank v \<longleftrightarrow> \<not> py_filled v"
  by (simp add: blank_def py_filled_def)

lemma source_missing_mirror: "sourceMissing ev = seal_source_missing ev"
proof -
  have ex: "list_ex (\<lambda>t. t \<in> set EXPORT_TYPES) (ev_device_types ev)
      \<longleftrightarrow> set [''email_export'', ''vendor_report'', ''network_capture''] \<inter> set (ev_device_types ev) \<noteq> {}"
    unfolding EXPORT_TYPES_def list_ex_iff by blast
  have live: "x \<in> set [''live'', ''live_critical''] \<longleftrightarrow> x = ''live'' \<or> x = ''live_critical''" for x :: string
    by simp
  show ?thesis
    unfolding sourceMissing_def seal_source_missing_def Let_def blank_filled ex live not_not ..
qed

lemma source_location_mirror: "vital (sourceLocation ev) = py_source_location ev"
  by (auto simp: sourceLocation_def py_source_location_def Let_def source_missing_mirror blank_filled)

lemma digest_mirror: "digestHex value sz = py_digest (str_or value []) sz"
  by (simp add: digestHex_def py_digest_def HEX_RX_iff Let_def)

lemma provider_mirror: "map vital (case providerHash ev of None \<Rightarrow> [] | Some c \<Rightarrow> [c]) = py_provider_hash ev"
  by (auto simp: providerHash_def py_provider_hash_def Let_def digest_mirror pass_if_def split: option.splits)

lemma manifest_mirror: "vital (containerManifest ev) = py_container_manifest ev"
  by (auto simp: containerManifest_def py_container_manifest_def Let_def)

lemma writeblocker_mirror: "vital (writeblocker_check ev) = py_write_blocker ev"
  by (auto simp: writeblocker_check_def py_write_blocker_def Let_def py_filled_def)

text \<open>The API's photo times are a valid time or null, as the comment in the JS file says.\<close>

definition photo_times_ok :: "(string \<Rightarrow> bool) \<Rightarrow> evidence \<Rightarrow> bool" where
  "photo_times_ok valid_ts ev \<longleftrightarrow>
     list_all (\<lambda>p. case p of None \<Rightarrow> True
       | Some ph \<Rightarrow> (case ph_taken_at ph of None \<Rightarrow> True | Some s \<Rightarrow> s \<noteq> [] \<and> valid_ts s))
       (case ev_photos ev of None \<Rightarrow> [] | Some ps \<Rightarrow> ps)"

lemma photo_lacks_iff:
  "(case ph_taken_at p of None \<Rightarrow> True | Some s \<Rightarrow> s \<noteq> [] \<and> valid_ts s) \<Longrightarrow>
   photo_lacks p \<noteq> [] \<longleftrightarrow> py_photo_incomplete valid_ts p"
  by (auto simp: photo_lacks_def py_photo_incomplete_def blank_filled split: option.splits)

lemma photo_mirror:
  assumes "photo_times_ok valid_ts ev"
  shows "map vital (case photoRecord ev of None \<Rightarrow> [] | Some c \<Rightarrow> [c]) = py_photo_record valid_ts ev"
proof -
  define ps where "ps = List.map_filter id (case ev_photos ev of None \<Rightarrow> [] | Some ps \<Rightarrow> ps)"
  have ok: "p \<in> set ps \<Longrightarrow> (case ph_taken_at p of None \<Rightarrow> True | Some s \<Rightarrow> s \<noteq> [] \<and> valid_ts s)" for p
    using assms by (fastforce simp: ps_def photo_times_ok_def list_all_iff map_filter_def)
  have "list_ex (\<lambda>p. photo_lacks p \<noteq> []) ps = list_ex (py_photo_incomplete valid_ts) ps"
    unfolding list_ex_iff by (intro bex_cong refl photo_lacks_iff ok)
  then have "length (filter (\<lambda>p. photo_lacks p \<noteq> []) ps) \<noteq> 0 \<longleftrightarrow> list_ex (py_photo_incomplete valid_ts) ps"
    by (simp add: filter_empty_conv list_ex_iff)
  then show ?thesis by (simp add: photoRecord_def py_photo_record_def Let_def ps_def)
qed

definition mirrored :: "(string \<Rightarrow> bool) \<Rightarrow> evidence \<Rightarrow> bool" where
  "mirrored valid_ts ev \<longleftrightarrow>
     ev_status ev \<in> set [''active'', ''verify_failed'', ''destroyed'', ''returned'', ''archived'']
     \<and> ev_current_custodian_id ev \<noteq> Some [] \<and> photo_times_ok valid_ts ev"

lemma intake_mirror:
  assumes "photo_times_ok valid_ts ev"
  shows "map vital (physical_checks ev @ collection_checks ev) = py_intake valid_ts ev"
proof -
  have a: "map vital (physical_checks ev) =
      (if isPhysical ev
       then [(''iso_27037_9_1_4'', (case ev_photos ev of None \<Rightarrow> Fail | Some ps \<Rightarrow> if ps = [] then Fail else Pass),
              Mandatory),
             (''iso_27037_device_identifiers'',
              (if py_filled (ev_make ev) \<and> py_filled (ev_model ev) \<and> py_filled (ev_serial ev) then Pass else Fail),
              Advisory)]
       else [])"
    by (simp add: physical_checks_def Let_def blank_filled pass_if_def split: option.splits)
  have b: "map vital (collection_checks ev) =
      map vital (case photoRecord ev of None \<Rightarrow> [] | Some c \<Rightarrow> [c])
      @ [(''iso_27037_collector'', (if str_truthy (ev_collected_by_id ev) then Pass else Fail), Mandatory),
         (''iso_27037_collection_location'', (if py_filled (ev_collected_location ev) then Pass else Fail), Advisory)]
      @ (if isDigital ev then [py_source_location ev] else [])
      @ [(''gdpr_5_1_c_lawful_basis'', (if str_truthy (ev_lawful_basis ev) then Pass else Fail), Mandatory)]"
    by (simp add: collection_checks_def pass_if_def py_filled_def source_location_mirror)
  show ?thesis unfolding map_append a b photo_mirror [OF assms] py_intake_def by simp
qed

lemma digital_mirror: "map vital (digital_checks ev) = (if isDigital ev then py_digital ev else [])"
  using provider_mirror [of ev]
  by (simp add: digital_checks_def py_digital_def pass_if_def hash_match_mirror manifest_mirror writeblocker_mirror)

definition js_seal_time :: "evidence \<Rightarrow> vital list" where
  "js_seal_time ev =
     (if ev_coc_sealed ev
      then [(''rfc3161_seal_timestamp'', (if py_filled (ev_seal_tst_time ev) then Pass else Manual), Advisory)] else [])"

lemma custody_mirror:
  assumes "mirrored valid_ts ev"
  shows "map vital (custody_checks ev @ transfer_checks ev @ seal_checks ev) = py_custody ev @ js_seal_time ev"
proof -
  have chain: "py_chain_ok ev \<longleftrightarrow> ev_status ev \<noteq> ''verify_failed''"
    using assms by (auto simp: mirrored_def py_chain_ok_def)
  have holder: "\<not> str_truthy (ev_current_custodian_id ev) \<longleftrightarrow> ev_current_custodian_id ev = None"
    using assms by (cases "ev_current_custodian_id ev") (auto simp: mirrored_def)
  show ?thesis
    by (simp add: custody_checks_def transfer_checks_def seal_checks_def py_custody_def js_seal_time_def Let_def
        chain holder py_filled_def pass_if_def)
qed

lemma method_mirror: "map vital (method_checks ev) = py_method ev 0"
  by (simp add: method_checks_def py_method_def Let_def pass_if_def py_filled_def)

lemma late_mirror: "js_seal_time ev @ map vital (examination_checks ev) = py_late ev"
  by (simp add: examination_checks_def py_late_def js_seal_time_def Let_def pass_if_def)

lemma checks_mirror:
  assumes "mirrored valid_ts ev"
  shows "mset (map vital (all_checks ev)) = mset (py_checks valid_ts ev 0)"
proof -
  have "photo_times_ok valid_ts ev" using assms by (simp add: mirrored_def)
  from intake_mirror [OF this] custody_mirror [OF assms] digital_mirror [of ev] method_mirror [of ev]
  have "map vital (all_checks ev)
      = py_intake valid_ts ev @ (if isDigital ev then py_digital ev else [])
        @ py_custody ev @ js_seal_time ev @ py_method ev 0 @ map vital (examination_checks ev)"
    by (simp add: all_checks_def)
  then show ?thesis
    unfolding py_checks_def late_mirror [symmetric] by (simp add: ac_simps)
qed

lemma mset_filter_length: "mset xs = mset ys \<Longrightarrow> length (filter P xs) = length (filter P ys)"
  by (metis mset_filter size_mset)

lemma py_score_mset: "mset xs = mset ys \<Longrightarrow> py_score xs = py_score ys"
proof -
  assume "mset xs = mset ys"
  then have "set xs = set ys" by (rule mset_eq_setD)
  moreover have "py_score zs =
      (if \<exists>(_, s, v) \<in> set zs. s = Fail \<and> v = Mandatory then Red
       else if \<exists>(_, s, v) \<in> set zs. s = Fail \<and> v = Advisory then Amber
       else if \<exists>(_, s, _) \<in> set zs. s = Manual then Amber else Green)" for zs
    by (simp add: py_score_def Let_def list_ex_iff filter_empty_conv)
  ultimately show ?thesis by simp
qed

lemma roll_up_py_score: "fst (roll_up cs) = py_score (map vital cs)"
  by (simp add: roll_up_def py_score_def Let_def filter_map comp_def fails_with_def [abs_def] vital_def list_ex_iff)

lemma round_div_py: "0 < b \<Longrightarrow> round_div a b = (if 2 * (a mod b) < b then a div b else a div b + 1)"
proof -
  assume b: "0 < b"
  define q r where "q = a div b" and "r = a mod b"
  have r: "r < b" and a: "a = q * b + r" using b by (simp_all add: q_def r_def)
  have e: "2 * a + b = q * (2 * b) + (2 * r + b)" by (simp add: a algebra_simps)
  have "2 * b \<noteq> 0" using b by simp
  then have "(2 * a + b) div (2 * b) = q + (2 * r + b) div (2 * b)"
    unfolding e by (rule div_mult_self3)
  moreover have "(2 * r + b) div (2 * b) = (if 2 * r < b then 0 else 1)"
    using r by (auto simp: div_nat_eqI)
  ultimately show ?thesis by (simp add: round_div_def q_def r_def)
qed

lemma round_div_vs_py:
  "0 < b \<Longrightarrow> py_round_div a b \<le> round_div a b \<and> round_div a b \<le> py_round_div a b + 1
     \<and> (2 * (a mod b) \<noteq> b \<longrightarrow> round_div a b = py_round_div a b)"
  by (simp add: round_div_py py_round_div_def Let_def)

lemma completeness_py:
  assumes "mset (map vital cs) = mset ys"
  shows "py_completeness ys \<le> completeness_of cs \<and> completeness_of cs \<le> py_completeness ys + 1"
proof -
  define d where "d = length (filter (\<lambda>c. ck_status c = Pass \<or> ck_status c = Fail) cs)"
  define p where "p = length (filter (\<lambda>c. ck_status c = Pass) (filter (\<lambda>c. ck_status c = Pass \<or> ck_status c = Fail) cs))"
  have ld: "length (filter (\<lambda>(_, s, _). s = Pass \<or> s = Fail) ys) = d"
    using mset_filter_length [OF assms, of "\<lambda>(_, s, _). s = Pass \<or> s = Fail"]
    by (simp add: d_def filter_map comp_def vital_def)
  have lp: "length (filter (\<lambda>(_, s, _). s = Pass) (filter (\<lambda>(_, s, _). s = Pass \<or> s = Fail) ys)) = p"
    using mset_filter_length [OF assms, of "\<lambda>x. (case x of (_, s, _) \<Rightarrow> s = Pass \<or> s = Fail) \<and> (case x of (_, s, _) \<Rightarrow> s = Pass)"]
    by (simp add: p_def filter_map comp_def vital_def)
  have "py_completeness ys = (if d \<noteq> 0 then py_round_div (100 * p) d else 100)"
    by (simp only: py_completeness_def Let_def ld lp)
  moreover have "completeness_of cs = (if d \<noteq> 0 then round_div (100 * p) d else 100)"
    by (simp add: completeness_of_def d_def p_def Let_def)
  ultimately show ?thesis using round_div_vs_py [of d "100 * p"] by auto
qed


lemma sample_item_mirrored: "mirrored (\<lambda>s. s \<noteq> []) sample_item"
  by (simp add: mirrored_def photo_times_ok_def sample_item_def)


subsection \<open>Where the mirror differs\<close>

text \<open>C38: the mirror is not exact. On an exhibit with a corrected working-copy record (count 1) the server adds a
  manual check the browser does not have, so a green exhibit is amber there; and with 10 of 16
  determinable checks passing the browser's half-up rounding shows 63 where the server's half-even shows 62.\<close>

theorem mirror_divergences:
  "mirrored (\<lambda>s. s \<noteq> []) sample_item
   \<and> sr_score (scoreEvidence sample_item) = Green
   \<and> py_score (py_checks (\<lambda>s. s \<noteq> []) sample_item 1) = Amber
   \<and> completeness_of (replicate 10 (check c l Pass v n) @ replicate 6 (check c l Fail v n)) = 63
   \<and> py_completeness (replicate 10 (c, Pass, v) @ replicate 6 (c, Fail, v)) = 62"
proof (intro conjI)
  show "completeness_of (replicate 10 (check c l Pass v n) @ replicate 6 (check c l Fail v n)) = 63"
    by (simp add: completeness_of_def round_div_def Let_def)
  show "py_completeness (replicate 10 (c, Pass, v) @ replicate 6 (c, Fail, v)) = 62"
    by (simp add: py_completeness_def py_round_div_def Let_def)
qed (rule sample_item_mirrored, code_simp, code_simp)

end
