(* ===== verification/Csv_Safe.thy ===== *)
theory Csv_Safe
  imports Js_Regex
begin

text \<open>
  \<^verbatim>\<open>frontend/src/lib/csvSafe.js\<close>: the guard against CSV formula injection. The two regular
  expressions are the file's; \<open>plain_numbers\<close> is the grammar of the second, stated without them.
\<close>

definition formula_start :: "char \<Rightarrow> bool" where
  "formula_start c \<longleftrightarrow> c \<in> {CHR ''='', CHR ''+'', CHR ''-'', CHR ''@'', CHR 0x09, CHR 0x0D}"

definition FORMULA_START :: rx where
  "FORMULA_START = Seq Bos (Cls formula_start)"

definition sign_c :: rx where
  "sign_c = Cls (\<lambda>c. c = CHR ''+'' \<or> c = CHR ''-'')"

definition NUMBER_BODY :: rx where
  "NUMBER_BODY = seqs [opt sign_c,
     Alt (Seq (plus1 digit_c) (opt (Seq (lit ''.'') (star digit_c)))) (Seq (lit ''.'') (plus1 digit_c)),
     opt (seqs [Cls (\<lambda>c. c = CHR ''e'' \<or> c = CHR ''E''), opt sign_c, plus1 digit_c])]"

definition PLAIN_NUMBER :: rx where
  "PLAIN_NUMBER = Seq Bos (Seq NUMBER_BODY Eos)"

definition csvSafe :: "jsval \<Rightarrow> string" where
  "csvSafe v =
     (if nullish v then []
      else let s = js_string v in
        if rx_test FORMULA_START s \<and> \<not> rx_test PLAIN_NUMBER s then CHR 0x27 # s else s)"

subsection \<open>What a plain number is\<close>

definition digits :: "string set" where
  "digits = {w. list_all is_digit w}"

definition signs :: "string set" where
  "signs = {[], ''+'', ''-''}"

definition mantissas :: "string set" where
  "mantissas = {a. a \<noteq> [] \<and> a \<in> digits} \<union> {a @ ''.'' @ b | a b. a \<noteq> [] \<and> a \<in> digits \<and> b \<in> digits}
     \<union> {''.'' @ b | b. b \<noteq> [] \<and> b \<in> digits}"

definition exponents :: "string set" where
  "exponents = insert [] {e # sg @ a | e sg a. e \<in> {CHR ''e'', CHR ''E''} \<and> sg \<in> signs \<and> a \<noteq> [] \<and> a \<in> digits}"

definition plain_numbers :: "string set" where
  "plain_numbers = {sg @ m @ e | sg m e. sg \<in> signs \<and> m \<in> mantissas \<and> e \<in> exponents}"

lemma sign_lang: "rx_lang (opt sign_c) = signs"
  by (auto simp: sign_c_def signs_def)

lemma mantissa_lang:
  "rx_lang (Alt (Seq (plus1 digit_c) (opt (Seq (lit ''.'') (star digit_c)))) (Seq (lit ''.'') (plus1 digit_c)))
     = mantissas"
proof -
  have "rx_lang (opt (Seq (lit ''.'') (star digit_c))) = insert [] {''.'' @ b | b. b \<in> digits}"
    by (simp add: conc_def digits_def)
  then have "rx_lang (Seq (plus1 digit_c) (opt (Seq (lit ''.'') (star digit_c))))
      = {a. a \<noteq> [] \<and> a \<in> digits} \<union> conc {a. a \<noteq> [] \<and> a \<in> digits} {''.'' @ b | b. b \<in> digits}"
    by (simp add: conc_insert_Nil digits_def)
  also have "conc {a. a \<noteq> [] \<and> a \<in> digits} {''.'' @ b | b. b \<in> digits}
      = {a @ ''.'' @ b | a b. a \<noteq> [] \<and> a \<in> digits \<and> b \<in> digits}"
    unfolding conc_def by blast
  finally have "rx_lang (Seq (plus1 digit_c) (opt (Seq (lit ''.'') (star digit_c))))
      = {a. a \<noteq> [] \<and> a \<in> digits} \<union> {a @ ''.'' @ b | a b. a \<noteq> [] \<and> a \<in> digits \<and> b \<in> digits}" .
  moreover have "rx_lang (Seq (lit ''.'') (plus1 digit_c)) = {''.'' @ b | b. b \<noteq> [] \<and> b \<in> digits}"
    by (simp add: conc_def digits_def)
  ultimately show ?thesis by (simp only: rx_lang.simps(4) mantissas_def)
qed

lemma exponent_lang:
  "rx_lang (opt (seqs [Cls (\<lambda>c. c = CHR ''e'' \<or> c = CHR ''E''), opt sign_c, plus1 digit_c])) = exponents"
proof -
  have "rx_lang (seqs [Cls (\<lambda>c. c = CHR ''e'' \<or> c = CHR ''E''), opt sign_c, plus1 digit_c])
      = conc {[c] | c. c = CHR ''e'' \<or> c = CHR ''E''} (conc signs {a. a \<noteq> [] \<and> a \<in> digits})"
    by (simp only: seqs.simps rx_lang.simps(2,3) sign_lang rx_lang_plus_cls) (simp add: digits_def)
  also have "\<dots> = {e # sg @ a | e sg a. e \<in> {CHR ''e'', CHR ''E''} \<and> sg \<in> signs \<and> a \<noteq> [] \<and> a \<in> digits}"
    unfolding conc_chars by (simp add: conc_def) blast
  finally show ?thesis by (simp only: rx_lang_opt exponents_def)
qed

lemma plain_number_iff: "rx_test PLAIN_NUMBER s \<longleftrightarrow> s \<in> plain_numbers"
proof -
  have "plain NUMBER_BODY" by (simp add: NUMBER_BODY_def sign_c_def)
  then have "rx_test PLAIN_NUMBER s \<longleftrightarrow> s \<in> rx_lang NUMBER_BODY"
    unfolding PLAIN_NUMBER_def by (rule rx_test_whole)
  also have "rx_lang NUMBER_BODY = conc signs (conc mantissas exponents)"
    unfolding NUMBER_BODY_def
    by (simp only: rx_lang_seqs_Cons [of "opt sign_c"] rx_lang_seqs_Cons [of "Alt _ _"]
        rx_lang_seqs_Cons [of "opt (seqs _)" "[]"] sign_lang mantissa_lang exponent_lang seqs.simps(1)
        rx_lang.simps(1) conc_eps)
  also have "\<dots> = plain_numbers" by (simp add: conc_def plain_numbers_def) blast
  finally show ?thesis .
qed

lemma formula_start_iff: "rx_test FORMULA_START s \<longleftrightarrow> (\<exists>c t. s = c # t \<and> formula_start c)"
proof -
  have "rx_test FORMULA_START s \<longleftrightarrow> (\<exists>w t. s = w @ t \<and> w \<in> rx_lang (Cls formula_start))"
    unfolding FORMULA_START_def by (rule rx_test_start) simp
  also have "\<dots> \<longleftrightarrow> (\<exists>c t. s = c # t \<and> formula_start c)" unfolding rx_lang.simps(2) by (rule ex_one_char)
  finally show ?thesis .
qed

lemma plain_numberI: "sg \<in> signs \<Longrightarrow> a \<noteq> [] \<Longrightarrow> a \<in> digits \<Longrightarrow> sg @ a \<in> plain_numbers"
proof -
  assume sg: "sg \<in> signs" and a: "a \<noteq> []" "a \<in> digits"
  from a have "a \<in> mantissas" by (simp add: mantissas_def)
  moreover have "[] \<in> exponents" by (simp add: exponents_def)
  ultimately have "sg @ a @ [] \<in> plain_numbers" using sg unfolding plain_numbers_def by blast
  then show ?thesis by simp
qed

lemma show_int_plain: "show_int z \<in> plain_numbers"
proof -
  have d: "show_nat n \<in> digits" for n using show_nat_digits [of n] by (simp add: digits_def list_all_iff)
  have "''-'' @ show_nat n \<in> plain_numbers" "[] @ show_nat n \<in> plain_numbers" for n
    by (rule plain_numberI; simp add: signs_def d)+
  then show ?thesis by (simp add: show_int_def)
qed

text \<open>C39: no exported cell is a formula: a cell that begins with a formula character is a plain number. The cell
  holds the value's text, unchanged or with one quote in front, \<open>null\<close> gives the empty cell and an
  integer is never quoted.\<close>

theorem csv_cell_never_formula:
  "\<not> (\<exists>c t. csvSafe v = c # t \<and> formula_start c \<and> csvSafe v \<notin> plain_numbers)
   \<and> csvSafe v \<in> (if nullish v then {[]} else {js_string v, CHR 0x27 # js_string v})
   \<and> csvSafe (JNum z) = show_int z"
proof -
  have q: "\<not> formula_start (CHR 0x27)" by (simp add: formula_start_def)
  show ?thesis
    by (auto simp: csvSafe_def Let_def formula_start_iff plain_number_iff show_int_plain q)
qed

end
