(* ===== verification/Line_Diff.thy ===== *)
theory Line_Diff
  imports Js_Base
begin

text \<open>
  \<^verbatim>\<open>frontend/src/lib/diff.js\<close>: the line diff. The table \<open>dp\<close> is filled as the file fills it, from
  the last row and column to the first; the walk follows it with two indices. The specification is
  the recurrence of the longest common subsequence and, above it, edit scripts: the diff is a script
  from the old text to the new one, and no script keeps more lines.
\<close>

datatype edit = EqL string | AddL string | DelL string

fun dp_row :: "string \<Rightarrow> string list \<Rightarrow> nat list \<Rightarrow> nat list" where
  "dp_row x [] below = [0]"
| "dp_row x (y # ys) below =
     (let right = dp_row x ys (tl below) in
      (if x = y then hd (tl below) + 1 else max (hd below) (hd right)) # right)"

fun dp_table :: "string list \<Rightarrow> string list \<Rightarrow> nat list list" where
  "dp_table [] b = [replicate (length b + 1) 0]"
| "dp_table (x # a) b = (let rows = dp_table a b in dp_row x b (hd rows) # rows)"

function diff_walk :: "nat list list \<Rightarrow> string list \<Rightarrow> string list \<Rightarrow> nat \<Rightarrow> nat \<Rightarrow> edit list" where
  "diff_walk dp a b i j =
     (if i < length a \<and> j < length b
      then if a ! i = b ! j then EqL (a ! i) # diff_walk dp a b (i + 1) (j + 1)
           else if dp ! (i + 1) ! j \<ge> dp ! i ! (j + 1) then DelL (a ! i) # diff_walk dp a b (i + 1) j
           else AddL (b ! j) # diff_walk dp a b i (j + 1)
      else map DelL (drop i a) @ map AddL (drop j b))"
  by pat_completeness auto
termination
  by (relation "measure (\<lambda>(dp, a, b, i, j). (length a - i) + (length b - j))") auto

declare diff_walk.simps [simp del]

definition text_or_empty :: "string option \<Rightarrow> string" where
  "text_or_empty t = (case t of None \<Rightarrow> [] | Some s \<Rightarrow> s)"

definition lineDiff :: "string option \<Rightarrow> string option \<Rightarrow> edit list" where
  "lineDiff oldText newText =
     (let a = split_at (CHR 0x0A) (text_or_empty oldText);
          b = split_at (CHR 0x0A) (text_or_empty newText)
      in diff_walk (dp_table a b) a b 0 0)"

subsection \<open>The table holds the longest-common-subsequence lengths\<close>

fun lcs :: "'a list \<Rightarrow> 'a list \<Rightarrow> nat" where
  "lcs (x # a) (y # b) = (if x = y then lcs a b + 1 else max (lcs a (y # b)) (lcs (x # a) b))"
| "lcs _ _ = 0"

fun tails :: "'a list \<Rightarrow> 'a list list" where
  "tails [] = [[]]"
| "tails (x # xs) = (x # xs) # tails xs"

lemma tails_nth: "i \<le> length xs \<Longrightarrow> tails xs ! i = drop i xs"
  by (induction xs arbitrary: i) (auto simp: nth_Cons split: nat.splits)

lemma length_tails [simp]: "length (tails xs) = Suc (length xs)"
  by (induction xs) auto

lemma hd_tails [simp]: "hd (tails xs) = xs" "tails xs \<noteq> []"
  by (cases xs; simp)+

lemma lcs_Nil [simp]: "lcs [] b = 0" "lcs a [] = 0"
  by (cases a; simp)+

lemma dp_row_lcs: "dp_row x b (map (lcs a) (tails b)) = map (lcs (x # a)) (tails b)"
  by (induction b) (simp_all add: Let_def hd_map)

lemma dp_table_lcs: "dp_table a b = map (\<lambda>u. map (lcs u) (tails b)) (tails a)"
proof (induction a)
  case Nil
  have "map (lcs []) (tails b) = replicate (length (tails b)) 0"
    unfolding map_replicate_const [symmetric] by simp
  then show ?case by simp
next
  case (Cons x a)
  then show ?case by (simp add: Let_def hd_map dp_row_lcs)
qed

lemma dp_nth:
  "i \<le> length a \<Longrightarrow> j \<le> length b \<Longrightarrow> dp_table a b ! i ! j = lcs (drop i a) (drop j b)"
  by (simp add: dp_table_lcs tails_nth)

subsection \<open>Edit scripts\<close>

fun old_lines :: "edit list \<Rightarrow> string list" where
  "old_lines [] = []"
| "old_lines (EqL l # d) = l # old_lines d"
| "old_lines (DelL l # d) = l # old_lines d"
| "old_lines (AddL l # d) = old_lines d"

fun new_lines :: "edit list \<Rightarrow> string list" where
  "new_lines [] = []"
| "new_lines (EqL l # d) = l # new_lines d"
| "new_lines (DelL l # d) = new_lines d"
| "new_lines (AddL l # d) = l # new_lines d"

fun kept :: "edit list \<Rightarrow> nat" where
  "kept [] = 0"
| "kept (EqL l # d) = Suc (kept d)"
| "kept (_ # d) = kept d"

definition changes :: "edit list \<Rightarrow> nat" where
  "changes d = length d - kept d"

lemma script_lengths: "length (old_lines d) + length (new_lines d) = changes d + 2 * kept d \<and> kept d \<le> length d"
  by (induction d rule: kept.induct) (auto simp: changes_def)

lemma old_lines_simps [simp]:
  "old_lines (d @ e) = old_lines d @ old_lines e" "old_lines (map DelL ls) = ls" "old_lines (map AddL ls) = []"
  by (induction d rule: old_lines.induct, simp_all) (induction ls, simp_all)+

lemma new_lines_simps [simp]:
  "new_lines (d @ e) = new_lines d @ new_lines e" "new_lines (map DelL ls) = []" "new_lines (map AddL ls) = ls"
  by (induction d rule: new_lines.induct, simp_all) (induction ls, simp_all)+

lemma kept_simps [simp]: "kept (d @ e) = kept d + kept e" "kept (map DelL ls) = 0" "kept (map AddL ls) = 0"
  by (induction d rule: kept.induct, simp_all) (induction ls, simp_all)+

lemma walk_lines:
  "old_lines (diff_walk dp a b i j) = drop i a \<and> new_lines (diff_walk dp a b i j) = drop j b"
proof (induction dp a b i j rule: diff_walk.induct)
  case (1 dp a b i j)
  have "i < length a \<Longrightarrow> drop i a = a ! i # drop (Suc i) a" "j < length b \<Longrightarrow> drop j b = b ! j # drop (Suc j) b"
    by (simp_all add: Cons_nth_drop_Suc)
  with 1 show ?case unfolding diff_walk.simps [of dp a b i j] by auto
qed

lemma walk_kept:
  "dp = dp_table a b \<Longrightarrow> i \<le> length a \<Longrightarrow> j \<le> length b \<Longrightarrow>
   kept (diff_walk dp a b i j) = lcs (drop i a) (drop j b)"
proof (induction dp a b i j rule: diff_walk.induct)
  case (1 dp a b i j)
  show ?case
  proof (cases "i < length a \<and> j < length b")
    case True
    then have da: "drop i a = a ! i # drop (Suc i) a" and db: "drop j b = b ! j # drop (Suc j) b"
      by (simp_all add: Cons_nth_drop_Suc)
    have dp: "dp ! Suc i ! j = lcs (drop (Suc i) a) (drop j b)" "dp ! i ! Suc j = lcs (drop i a) (drop (Suc j) b)"
      using 1(4) True by (simp_all add: dp_nth)
    have l: "lcs (drop i a) (drop j b) =
        (if a ! i = b ! j then lcs (drop (Suc i) a) (drop (Suc j) b) + 1
         else max (lcs (drop (Suc i) a) (drop j b)) (lcs (drop i a) (drop (Suc j) b)))"
      unfolding da db by simp
    show ?thesis
      unfolding diff_walk.simps [of dp a b i j] l using 1 True dp by auto
  next
    case False
    with 1(5,6) show ?thesis by (subst diff_walk.simps) (auto dest: leD)
  qed
qed

subsection \<open>No script keeps more lines\<close>

lemma lcs_commute: "lcs a b = lcs b a"
  by (induction a b rule: lcs.induct) (auto simp: max.commute)

lemma lcs_grow_aux:
  "lcs a b \<le> lcs a (y # b) \<and> lcs (x # a) b \<le> Suc (lcs a b)"
proof (induction "length a + length b" arbitrary: a b x y rule: less_induct)
  case less
  have "lcs a b \<le> lcs a (y # b)"
  proof (cases a)
    case (Cons z a')
    with less [of a' b] show ?thesis by (auto simp: le_max_iff_disj)
  qed simp
  moreover have "lcs (x # a) b \<le> Suc (lcs a b)"
  proof (cases b)
    case (Cons z b')
    have m: "lcs a b' \<le> lcs a (z # b')" and s: "lcs (x # a) b' \<le> Suc (lcs a b')"
      using less [of a b'] Cons by auto
    from m s have "lcs (x # a) b' \<le> Suc (lcs a (z # b'))" by linarith
    with m Cons show ?thesis by auto
  qed simp
  ultimately show ?case ..
qed

lemma lcs_grow: "lcs a b \<le> lcs a (y # b)" "lcs a b \<le> lcs (x # a) b"
  using lcs_grow_aux [of a b y] lcs_grow_aux [of b a x] by (simp_all add: lcs_commute)

lemma script_kept_le: "kept d \<le> lcs (old_lines d) (new_lines d)"
proof (induction d)
  case (Cons e d)
  then show ?case
    using lcs_grow(1) [of "old_lines d" "new_lines d"] lcs_grow(2) [of "old_lines d" "new_lines d"]
    by (cases e) (auto intro: order_trans)
qed simp

lemma lineDiff_lines:
  "old_lines (lineDiff t u) = split_at (CHR 0x0A) (text_or_empty t)"
  "new_lines (lineDiff t u) = split_at (CHR 0x0A) (text_or_empty u)"
  by (simp_all add: lineDiff_def Let_def walk_lines)

text \<open>The diff is a script between the two texts: its kept and deleted lines, joined, are the old text
  and its kept and added lines the new one (\<open>null\<close> reads as the empty text).\<close>

theorem lineDiff_roundtrip:
  "join [CHR 0x0A] (old_lines (lineDiff t u)) = text_or_empty t
   \<and> join [CHR 0x0A] (new_lines (lineDiff t u)) = text_or_empty u"
  by (simp add: lineDiff_lines join_split_at)

lemma lineDiff_kept:
  "kept (lineDiff t u) = lcs (split_at (CHR 0x0A) (text_or_empty t)) (split_at (CHR 0x0A) (text_or_empty u))"
  by (simp add: lineDiff_def Let_def walk_kept)

text \<open>C40: it is a shortest one: no script between the lines of the two texts has fewer added and deleted lines.\<close>

theorem lineDiff_minimal:
  assumes "old_lines d = split_at (CHR 0x0A) (text_or_empty t)"
    and "new_lines d = split_at (CHR 0x0A) (text_or_empty u)"
  shows "changes (lineDiff t u) \<le> changes d"
proof -
  have "kept d \<le> kept (lineDiff t u)"
    using script_kept_le [of d] assms lineDiff_kept by simp
  with script_lengths [of d] script_lengths [of "lineDiff t u"] assms lineDiff_lines [of t u]
  show ?thesis by simp
qed

lemma lineDiff_minimal_witness:
  "changes (lineDiff (Some ''ab'') (Some ''cd'')) \<le> changes [AddL ''cd'', DelL ''ab'']"
  by (rule lineDiff_minimal) (simp_all add: text_or_empty_def)

end
