(* ===== verification/User_Agent.thy ===== *)
theory User_Agent
  imports Js_Regex
begin

text \<open>
  \<^verbatim>\<open>frontend/src/lib/userAgent.js\<close>: the short client name of an audit entry. A browser pattern is
  the triple of its parts before, in and after its capture group.
\<close>

definition TOOL :: rx where
  "TOOL = seqs [Bos, alts [lit_i ''fenrir-mcp'', lit_i ''curl'', lit_i ''python-httpx''], lit ''/'', plus1 nonspace_c]"

definition BROWSERS :: "(string \<times> rx \<times> rx \<times> rx) list" where
  "BROWSERS =
     [(''Edge'', seqs [WordB, lit ''Edg'', opt (alts [lit ''e'', lit ''A'', lit ''iOS'']), lit ''/''], plus1 digit_c, Eps),
      (''Firefox'', seqs [WordB, alts [lit ''Firefox'', lit ''FxiOS''], lit ''/''], plus1 digit_c, Eps),
      (''Chrome'', seqs [WordB, alts [lit ''Chrome'', lit ''CriOS''], lit ''/''], plus1 digit_c, Eps),
      (''Safari'', seqs [WordB, lit ''Version/''], plus1 digit_c, seqs [star any_char, WordB, lit ''Safari/''])]"

definition OSES :: "(string \<times> rx) list" where
  "OSES =
     [(''Windows'', lit ''Windows''), (''Android'', lit ''Android''),
      (''iOS'', alts [lit ''iPhone'', lit ''iPad'', lit ''iPod'']),
      (''macOS'', alts [lit ''Macintosh'', lit ''Mac OS X'']), (''ChromeOS'', lit ''CrOS''),
      (''Linux'', alts [lit ''Linux'', lit ''X11''])]"

definition os_of :: "string \<Rightarrow> string option" where
  "os_of ua = map_option fst (find (\<lambda>(_, r). rx_test r ua) OSES)"

fun first_browser :: "(string \<times> rx \<times> rx \<times> rx) list \<Rightarrow> string \<Rightarrow> string option" where
  "first_browser [] ua = None"
| "first_browser ((name, pre, cap, post) # bs) ua =
     (case rx_match1 pre cap post ua of
        Some (_, v) \<Rightarrow> Some (name @ '' '' @ v
          @ (case os_of ua of None \<Rightarrow> [] | Some os \<Rightarrow> '' ('' @ os @ '')''))
      | None \<Rightarrow> first_browser bs ua)"

definition shortClient :: "string option \<Rightarrow> string" where
  "shortClient u =
     (if \<not> str_truthy u then []
      else let ua = the u in
        case rx_match TOOL ua of
          Some t \<Rightarrow> t
        | None \<Rightarrow>
          (case first_browser BROWSERS ua of
             Some s \<Rightarrow> s
           | None \<Rightarrow> if length ua > 40 then slice0 40 ua @ ellipsis else ua))"

lemma BROWSERS_cap: "(n, pre, cap, post) \<in> set BROWSERS \<Longrightarrow> cap = plus1 digit_c"
  by (auto simp: BROWSERS_def)

lemma first_browser_shape:
  assumes "first_browser bs ua = Some r" and "\<forall>(n, pre, cap, post) \<in> set bs. cap = plus1 digit_c"
  shows "\<exists>n v. n \<in> fst ` set bs \<and> v \<noteq> [] \<and> list_all is_digit v \<and> sublist v ua
    \<and> r = n @ '' '' @ v @ (case os_of ua of None \<Rightarrow> [] | Some os \<Rightarrow> '' ('' @ os @ '')'')"
  using assms
proof (induction bs ua rule: first_browser.induct)
  case (2 name pre cap post bs ua)
  show ?case
  proof (cases "rx_match1 pre cap post ua")
    case None
    with 2(2) have e: "first_browser bs ua = Some r" by simp
    have "\<forall>(n, pre, cap, post) \<in> set bs. cap = plus1 digit_c" using 2(3) by simp
    from 2(1) [OF None e this] show ?thesis by auto
  next
    case (Some mv)
    obtain m v where mv: "mv = (m, v)" by (cases mv)
    have cap: "cap = plus1 digit_c" using 2(3) by simp
    have "v \<in> rx_lang cap \<and> sublist v ua"
      by (rule rx_match1_group [of pre cap post ua m v]) (use Some mv cap in simp_all)
    then have v: "v \<noteq> []" "list_all is_digit v" "sublist v ua" by (simp_all add: cap)
    have "r = name @ '' '' @ v @ (case os_of ua of None \<Rightarrow> [] | Some os \<Rightarrow> '' ('' @ os @ '')'')"
      using 2(2) Some mv by simp
    with v show ?thesis by (intro exI [of _ name] exI [of _ v]) simp
  qed
qed simp

text \<open>The short name invents nothing: it is empty for no client, else a tool token, the client itself or its
  first 40 bytes, all read off the client string, or a listed browser's name with a version number that
  occurs in it and the name of a listed system.\<close>

theorem shortClient_shape:
  "shortClient (Some ua) \<in> {m. sublist m ua} \<union> {slice0 40 ua @ ellipsis}
     \<union> {n @ '' '' @ v @ suf | n v suf. n \<in> fst ` set BROWSERS \<and> v \<noteq> [] \<and> list_all is_digit v
          \<and> sublist v ua \<and> suf \<in> {[]} \<union> {'' ('' @ os @ '')'' | os. os \<in> fst ` set OSES}}
   \<and> shortClient None = []"
proof -
  have os: "os_of ua = Some os \<Longrightarrow> os \<in> fst ` set OSES" for os
    unfolding os_of_def by (auto simp: find_Some_iff) (metis fst_conv image_eqI nth_mem)
  have cap: "\<forall>(n, pre, cap, post) \<in> set BROWSERS. cap = plus1 digit_c" using BROWSERS_cap by blast
  have br: "r \<in> {n @ '' '' @ v @ suf | n v suf. n \<in> fst ` set BROWSERS \<and> v \<noteq> [] \<and> list_all is_digit v
      \<and> sublist v ua \<and> suf \<in> {[]} \<union> {'' ('' @ os @ '')'' | os. os \<in> fst ` set OSES}}"
    if b: "first_browser BROWSERS ua = Some r" for r
  proof -
    from first_browser_shape [OF b cap] obtain n v where nv: "n \<in> fst ` set BROWSERS" "v \<noteq> []" "list_all is_digit v"
      "sublist v ua" "r = n @ '' '' @ v @ (case os_of ua of None \<Rightarrow> [] | Some os \<Rightarrow> '' ('' @ os @ '')'')" by blast
    have "(case os_of ua of None \<Rightarrow> [] | Some os \<Rightarrow> '' ('' @ os @ '')'')
        \<in> {[]} \<union> {'' ('' @ os @ '')'' | os. os \<in> fst ` set OSES}"
      using os by (cases "os_of ua") auto
    with nv show ?thesis by blast
  qed
  have shape: "shortClient (Some ua) =
      (if ua = [] then [] else case rx_match TOOL ua of Some t \<Rightarrow> t
       | None \<Rightarrow> (case first_browser BROWSERS ua of Some s \<Rightarrow> s
          | None \<Rightarrow> if length ua > 40 then slice0 40 ua @ ellipsis else ua))"
    by (simp add: shortClient_def)
  have "shortClient None = []" by (simp add: shortClient_def)
  moreover have "shortClient (Some ua) \<in> {m. sublist m ua} \<union> {slice0 40 ua @ ellipsis}
     \<union> {n @ '' '' @ v @ suf | n v suf. n \<in> fst ` set BROWSERS \<and> v \<noteq> [] \<and> list_all is_digit v
          \<and> sublist v ua \<and> suf \<in> {[]} \<union> {'' ('' @ os @ '')'' | os. os \<in> fst ` set OSES}}"
    (is "_ \<in> ?A \<union> ?B \<union> ?C")
  proof (cases "rx_match TOOL ua")
    case (Some t)
    then have "shortClient (Some ua) \<in> ?A" using rx_match_sublist [OF Some] unfolding shape by simp
    then show ?thesis by blast
  next
    case None
    show ?thesis
    proof (cases "first_browser BROWSERS ua")
      case (Some r)
      then have "shortClient (Some ua) \<in> ?A \<union> ?C" using br [OF Some] None unfolding shape by simp
      then show ?thesis by blast
    next
      case none: None
      have "shortClient (Some ua) \<in> ?A \<union> ?B" unfolding shape using None none by simp
      then show ?thesis by blast
    qed
  qed
  ultimately show ?thesis by blast
qed

end
