(* ===== verification/Keyed_Table.thy ===== *)
theory Keyed_Table
  imports Js_Base
begin

text \<open>
  The interface of the constant tables of the frontend: rows with a key each, turned into a lookup
  object by assigning them in order. \<open>keyed_table\<close> is the contract a table meets when no two rows
  share a key; the lookup is then exactly the rows. The vocabularies, the ATT&CK tables, the action
  templates and the custody labels are interpreted in their own theories.
\<close>

definition table_of :: "('r \<Rightarrow> 'k) \<Rightarrow> 'r list \<Rightarrow> 'k \<rightharpoonup> 'r" where
  "table_of key rows = foldl (\<lambda>m r. m(key r \<mapsto> r)) Map.empty rows"

lemma table_of_snoc: "table_of key (rows @ [r]) = (table_of key rows)(key r \<mapsto> r)"
  by (simp add: table_of_def)

lemma table_of_some: "table_of key rows k = Some r \<Longrightarrow> r \<in> set rows \<and> key r = k"
  by (induction rows rule: rev_induct) (auto simp: table_of_def split: if_splits)

lemma table_of_none: "table_of key rows k = None \<longleftrightarrow> k \<notin> key ` set rows"
  by (induction rows rule: rev_induct) (auto simp: table_of_def)

locale keyed_table =
  fixes key :: "'r \<Rightarrow> 'k" and rows :: "'r list"
  assumes distinct_keys: "distinct (map key rows)"
begin

lemma key_inj: "r \<in> set rows \<Longrightarrow> s \<in> set rows \<Longrightarrow> key r = key s \<Longrightarrow> r = s"
  using distinct_keys by (metis distinct_map inj_onD)

lemma lookup_iff: "table_of key rows k = Some r \<longleftrightarrow> r \<in> set rows \<and> key r = k"
proof
  assume "r \<in> set rows \<and> key r = k"
  then have r: "r \<in> set rows" "key r = k" by simp_all
  then have "table_of key rows k \<noteq> None" by (auto simp: table_of_none)
  then obtain s where s: "table_of key rows k = Some s" by blast
  with table_of_some [OF s] r key_inj show "table_of key rows k = Some r" by metis
qed (rule table_of_some)

lemma hit: "r \<in> set rows \<Longrightarrow> table_of key rows (key r) = Some r"
  by (simp add: lookup_iff)

lemma lookup_dom: "dom (table_of key rows) = key ` set rows"
  by (auto simp: lookup_iff)

lemma lookup_card: "card (dom (table_of key rows)) = length rows"
  using distinct_card [OF distinct_keys] by (simp add: lookup_dom)

end

text \<open>Many tables at once: a list of named tables, each with its own keys distinct.\<close>

definition tables_ok :: "('r \<Rightarrow> 'k) \<Rightarrow> (string \<times> 'r list) list \<Rightarrow> bool" where
  "tables_ok key ts \<longleftrightarrow> distinct (map fst ts) \<and> list_all (\<lambda>(_, rows). distinct (map key rows)) ts"

lemma tables_ok_hit:
  assumes "tables_ok key ts" "(g, rows) \<in> set ts" "r \<in> set rows"
  shows "map_of ts g = Some rows" "table_of key rows (key r) = Some r"
proof -
  show "map_of ts g = Some rows" using assms(1,2) by (simp add: tables_ok_def)
  have "distinct (map key rows)" using assms(1,2) by (auto simp: tables_ok_def list_all_iff)
  then have "keyed_table key rows" by unfold_locales
  then show "table_of key rows (key r) = Some r" using assms(3) by (rule keyed_table.hit)
qed

end
