(* ===== verification/Vocabulary.thy ===== *)
theory Vocabulary
  imports Keyed_Table
begin

text \<open>
  \<^verbatim>\<open>frontend/src/lib/incidentVocab.js\<close>: the vocabulary of the incident pages. A row is one object
  literal of the file (a missing property is \<open>None\<close>); \<open>makeLookup\<close> builds its object by assigning the
  rows in order, so a later row of the same value would replace an earlier one.
\<close>

record vocab_row =
  vr_value :: string
  vr_label :: string
  vr_pill :: "string option"
  vr_short :: "string option"
  vr_glyph :: "string option"
  vr_color :: "string option"

definition row :: "string \<Rightarrow> string \<Rightarrow> vocab_row" where
  "row v l = \<lparr>vr_value = v, vr_label = l, vr_pill = None, vr_short = None, vr_glyph = None, vr_color = None\<rparr>"

definition pill_row :: "string \<Rightarrow> string \<Rightarrow> string \<Rightarrow> vocab_row" where
  "pill_row v l p = (row v l)\<lparr>vr_pill := Some p\<rparr>"

definition phase_row :: "string \<Rightarrow> string \<Rightarrow> string \<Rightarrow> string \<Rightarrow> string \<Rightarrow> vocab_row" where
  "phase_row v l s g c = (row v l)\<lparr>vr_short := Some s, vr_glyph := Some g, vr_color := Some c\<rparr>"

lemma row_simps [simp]:
  "vr_value (row v l) = v" "vr_value (pill_row v l p) = v" "vr_value (phase_row v l s g c) = v"
  "vr_label (row v l) = l" "vr_label (pill_row v l p) = l" "vr_label (phase_row v l s g c) = l"
  "vr_pill (row v l) = None" "vr_pill (pill_row v l p) = Some p" "vr_pill (phase_row v l s g c) = None"
  by (simp_all add: row_def pill_row_def phase_row_def)

definition SEVERITY :: "vocab_row list" where
  "SEVERITY =
     [pill_row ''low'' ''Low'' ''pill-low'',
      pill_row ''medium'' ''Medium'' ''pill-med'',
      pill_row ''high'' ''High'' ''pill-high'',
      pill_row ''critical'' ''Critical'' ''pill-crit'']"

definition PHASE :: "vocab_row list" where
  "PHASE =
     [phase_row ''preparation'' ''Preparation'' ''Prep'' [CHR 0xE2, CHR 0x97, CHR 0x87] ''var(--phase-prep)'',
      phase_row ''detection_and_analysis'' ''Detection & Analysis'' ''Detect'' [CHR 0xE2, CHR 0x97, CHR 0x89] ''var(--phase-detect)'',
      phase_row ''containment_eradication_recovery'' ''Containment, Eradication & Recovery'' ''C/E/R'' [CHR 0xE2, CHR 0x8A, CHR 0x98] ''var(--phase-respond)'',
      phase_row ''post_incident'' ''Post-Incident'' ''Post'' [CHR 0xE2, CHR 0x86, CHR 0xBA] ''var(--phase-post)'']"

definition TLP :: "vocab_row list" where
  "TLP =
     [pill_row ''red'' ''TLP:RED'' ''pill-crit'',
      pill_row ''amber_strict'' ''TLP:AMBER+STRICT'' ''pill-high'',
      pill_row ''amber'' ''TLP:AMBER'' ''pill-high'',
      pill_row ''green'' ''TLP:GREEN'' ''pill-ok'',
      pill_row ''clear'' ''TLP:CLEAR'' ''pill-gray'']"

definition STATUS :: "vocab_row list" where
  "STATUS =
     [pill_row ''open'' ''Open'' ''pill-low'',
      pill_row ''closed'' ''Closed'' ''pill-ok'']"

definition TRIAGE_STATE :: "vocab_row list" where
  "TRIAGE_STATE =
     [pill_row ''suspected'' ''Suspected'' ''pill-low'',
      pill_row ''confirmed'' ''Confirmed'' ''pill-crit'',
      pill_row ''false_positive'' ''False Positive'' ''pill-gray'',
      pill_row ''benign_positive'' ''Benign Positive'' ''pill-ok'']"

definition INCIDENT_TYPE :: "vocab_row list" where
  "INCIDENT_TYPE =
     [row ''malware'' ''Malware'',
      row ''ransomware'' ''Ransomware'',
      row ''phishing'' ''Phishing / Social Engineering'',
      row ''data_breach'' ''Data Breach'',
      row ''unauthorized_access'' ''Unauthorized Access'',
      row ''insider_threat'' ''Insider Threat'',
      row ''ddos'' ''Denial of Service'',
      row ''bec'' ''Business Email Compromise'',
      row ''credential_compromise'' ''Credential Compromise'',
      row ''web_attack'' ''Web Application Attack'',
      row ''vulnerability_exploitation'' ''Vulnerability Exploitation'',
      row ''supply_chain'' ''Supply Chain Attack'',
      row ''physical'' ''Physical Security'',
      row ''other'' ''Other'']"

definition DETECTION_METHOD :: "vocab_row list" where
  "DETECTION_METHOD =
     [row ''siem_alert'' ''SIEM Alert'',
      row ''user_report'' ''User Report'',
      row ''threat_hunting'' ''Threat Hunting'',
      row ''external_notification'' ''External Notification'',
      row ''automated_scan'' ''Automated Scan'',
      row ''pen_test'' ''Pen Test / Exercise'',
      row ''other'' ''Other'']"

definition SYSTEM_TYPE :: "vocab_row list" where
  "SYSTEM_TYPE =
     [row ''workstation'' ''Workstation'',
      row ''server'' ''Server'',
      row ''network_device'' ''Network Device'',
      row ''cloud_resource'' ''Cloud Resource'',
      row ''application'' ''Application'',
      row ''database'' ''Database'',
      row ''mobile'' ''Mobile Device'',
      row ''other'' ''Other'']"

definition ENTITY_TYPE :: "vocab_row list" where
  "ENTITY_TYPE =
     [row ''host'' ''Host'',
      row ''user'' ''User'',
      row ''ip'' ''IP'',
      row ''domain'' ''Domain'',
      row ''email'' ''Email'',
      row ''service'' ''Service'',
      row ''network_range'' ''Network range'',
      row ''group'' ''Group'',
      row ''other'' ''Other'']"

definition FUNCTIONAL_IMPACT :: "vocab_row list" where
  "FUNCTIONAL_IMPACT =
     [row ''none'' (''None '' @ em_dash @ '' no effect on services''),
      row ''low'' (''Low '' @ em_dash @ '' minimal effect; all critical services still delivered''),
      row ''medium'' (''Medium '' @ em_dash @ '' a subset of critical services lost''),
      row ''high'' (''High '' @ em_dash @ '' critical services can no longer be delivered'')]"

definition INFORMATION_IMPACT :: "vocab_row list" where
  "INFORMATION_IMPACT =
     [row ''none'' (''None '' @ em_dash @ '' no information exfiltrated, changed or deleted''),
      row ''privacy'' (''Privacy breach '' @ em_dash @ '' personal data accessed or exfiltrated''),
      row ''proprietary'' (''Proprietary breach '' @ em_dash @ '' confidential business data''),
      row ''integrity'' (''Integrity loss '' @ em_dash @ '' information changed or deleted'')]"

definition RECOVERABILITY :: "vocab_row list" where
  "RECOVERABILITY =
     [row ''regular'' (''Regular '' @ em_dash @ '' predictable with existing resources''),
      row ''supplemented'' (''Supplemented '' @ em_dash @ '' predictable with more resources''),
      row ''extended'' (''Extended '' @ em_dash @ '' unpredictable; outside help needed''),
      row ''not_recoverable'' (''Not recoverable '' @ em_dash @ '' e.g. data published'')]"

definition IOC_TYPE :: "vocab_row list" where
  "IOC_TYPE =
     [row ''ip'' ''IP address'',
      row ''domain'' ''Domain'',
      row ''url'' ''URL'',
      row ''hash_md5'' ''Hash (MD5)'',
      row ''hash_sha1'' ''Hash (SHA1)'',
      row ''hash_sha256'' ''Hash (SHA256)'',
      row ''email'' ''Email'',
      row ''registry_key'' ''Registry key'',
      row ''file_path'' ''File path'',
      row ''crypto_wallet'' ''Crypto wallet'',
      row ''other'' ''Other'']"

subsection \<open>Lookup\<close>

definition makeLookup :: "vocab_row list \<Rightarrow> string \<rightharpoonup> vocab_row" where
  "makeLookup rows = foldl (\<lambda>m r. m(vr_value r \<mapsto> r)) Map.empty rows"

definition VOCAB :: "(string \<times> vocab_row list) list" where
  "VOCAB =
     [(''severity'', SEVERITY),
      (''phase'', PHASE),
      (''tlp'', TLP),
      (''status'', STATUS),
      (''triage_state'', TRIAGE_STATE),
      (''incident_type'', INCIDENT_TYPE),
      (''detection_method'', DETECTION_METHOD),
      (''system_type'', SYSTEM_TYPE),
      (''entity_type'', ENTITY_TYPE),
      (''functional_impact'', FUNCTIONAL_IMPACT),
      (''information_impact'', INFORMATION_IMPACT),
      (''recoverability'', RECOVERABILITY)]"

definition byValue :: "string \<rightharpoonup> (string \<rightharpoonup> vocab_row)" where
  "byValue = map_of (map (\<lambda>(g, rows). (g, makeLookup rows)) VOCAB)"

definition find_row :: "string \<Rightarrow> string \<Rightarrow> vocab_row option" where
  "find_row g v = (case byValue g of None \<Rightarrow> None | Some t \<Rightarrow> t v)"

definition labelOf :: "string \<Rightarrow> string \<Rightarrow> string" where
  "labelOf g v = (case find_row g v of None \<Rightarrow> v | Some r \<Rightarrow> vr_label r)"

definition pillOf :: "string \<Rightarrow> string \<Rightarrow> string" where
  "pillOf g v =
     (case find_row g v of None \<Rightarrow> ''pill-gray''
      | Some r \<Rightarrow> (case vr_pill r of None \<Rightarrow> ''pill-gray'' | Some p \<Rightarrow> p))"

lemmas vocab_tables = SEVERITY_def PHASE_def TLP_def STATUS_def TRIAGE_STATE_def INCIDENT_TYPE_def DETECTION_METHOD_def SYSTEM_TYPE_def ENTITY_TYPE_def FUNCTIONAL_IMPACT_def INFORMATION_IMPACT_def RECOVERABILITY_def

subsection \<open>Every listed value is found\<close>

lemma makeLookup_table: "makeLookup rows = table_of vr_value rows"
  by (simp add: makeLookup_def table_of_def)

lemma VOCAB_ok: "tables_ok vr_value VOCAB"
  by (simp add: tables_ok_def VOCAB_def vocab_tables)

interpretation vocab: keyed_table fst VOCAB
  by unfold_locales (use VOCAB_ok in \<open>simp add: tables_ok_def\<close>)

lemma byValue_eq: "byValue g = map_option makeLookup (map_of VOCAB g)"
  by (simp add: byValue_def map_of_map)

lemma find_row_listed: "(g, rows) \<in> set VOCAB \<Longrightarrow> r \<in> set rows \<Longrightarrow> find_row g (vr_value r) = Some r"
  using tables_ok_hit [OF VOCAB_ok] by (simp add: find_row_def byValue_eq makeLookup_table)

lemma find_row_unlisted:
  "(\<And>rows. (g, rows) \<in> set VOCAB \<Longrightarrow> v \<notin> vr_value ` set rows) \<Longrightarrow> find_row g v = None"
  by (auto simp: find_row_def byValue_eq makeLookup_table table_of_none dest: map_of_SomeD split: option.splits)

text \<open>Every value a selector offers is labelled by its own row, under every vocabulary: \<open>labelOf\<close> and \<open>pillOf\<close> give
  the row's label and pill (grey where the vocabulary has none). A value the group does not list is
  shown as it is, with the grey pill.\<close>

theorem vocabulary_lookup:
  "(g, rows) \<in> set VOCAB \<Longrightarrow>
     (r \<in> set rows \<longrightarrow> labelOf g (vr_value r) = vr_label r
        \<and> pillOf g (vr_value r) = (case vr_pill r of None \<Rightarrow> ''pill-gray'' | Some p \<Rightarrow> p))
     \<and> (v \<notin> vr_value ` set rows \<longrightarrow> labelOf g v = v \<and> pillOf g v = ''pill-gray'')"
proof (intro conjI impI)
  assume g: "(g, rows) \<in> set VOCAB"
  show "labelOf g (vr_value r) = vr_label r"
    and "pillOf g (vr_value r) = (case vr_pill r of None \<Rightarrow> ''pill-gray'' | Some p \<Rightarrow> p)" if "r \<in> set rows"
    using find_row_listed [OF g that] by (simp_all add: labelOf_def pillOf_def)
  have "rows' = rows" if "(g, rows') \<in> set VOCAB" for rows'
    using vocab.key_inj [OF that g] by simp
  then have "find_row g v = None" if "v \<notin> vr_value ` set rows"
    using find_row_unlisted [of g v] that by blast
  then show "labelOf g v = v" and "pillOf g v = ''pill-gray''" if "v \<notin> vr_value ` set rows"
    using that by (simp_all add: labelOf_def pillOf_def)
qed

lemma vocabulary_lookup_witness:
  "labelOf ''tlp'' ''amber_strict'' = ''TLP:AMBER+STRICT'' \<and> labelOf ''tlp'' ''blue'' = ''blue''"
  using vocabulary_lookup [of "''tlp''" TLP "pill_row ''amber_strict'' ''TLP:AMBER+STRICT'' ''pill-high''" "''blue''"]
  by (simp add: VOCAB_def) (simp add: TLP_def)

end
