(* ===== verification/Mitre.thy ===== *)
theory Mitre
  imports Keyed_Table
begin

text \<open>
  \<^verbatim>\<open>frontend/src/lib/mitre.js\<close>: the ATT&CK tactics in matrix order, the techniques offered per tactic
  and the tactic colours. A tactic or technique is the pair of its id and name.
\<close>

definition MITRE_TACTICS :: "(string \<times> string) list" where
  "MITRE_TACTICS =
     [(''TA0043'', ''Reconnaissance''),
      (''TA0042'', ''Resource Development''),
      (''TA0001'', ''Initial Access''),
      (''TA0002'', ''Execution''),
      (''TA0003'', ''Persistence''),
      (''TA0004'', ''Privilege Escalation''),
      (''TA0005'', ''Defense Evasion''),
      (''TA0006'', ''Credential Access''),
      (''TA0007'', ''Discovery''),
      (''TA0008'', ''Lateral Movement''),
      (''TA0009'', ''Collection''),
      (''TA0010'', ''Exfiltration''),
      (''TA0011'', ''Command and Control''),
      (''TA0040'', ''Impact'')]"

definition TECHNIQUES_TA0043 :: "(string \<times> string) list" where
  "TECHNIQUES_TA0043 =
     [(''T1595'', ''Active Scanning''),
      (''T1592'', ''Gather Victim Host Information''),
      (''T1589'', ''Gather Victim Identity Information''),
      (''T1590'', ''Gather Victim Network Information''),
      (''T1591'', ''Gather Victim Org Information''),
      (''T1598'', ''Phishing for Information''),
      (''T1597'', ''Search Closed Sources''),
      (''T1596'', ''Search Open Technical Databases''),
      (''T1593'', ''Search Open Websites/Domains''),
      (''T1594'', ''Search Victim-Owned Websites'')]"

definition TECHNIQUES_TA0042 :: "(string \<times> string) list" where
  "TECHNIQUES_TA0042 =
     [(''T1650'', ''Acquire Access''),
      (''T1583'', ''Acquire Infrastructure''),
      (''T1586'', ''Compromise Accounts''),
      (''T1584'', ''Compromise Infrastructure''),
      (''T1587'', ''Develop Capabilities''),
      (''T1585'', ''Establish Accounts''),
      (''T1588'', ''Obtain Capabilities''),
      (''T1608'', ''Stage Capabilities'')]"

definition TECHNIQUES_TA0001 :: "(string \<times> string) list" where
  "TECHNIQUES_TA0001 =
     [(''T1190'', ''Exploit Public-Facing Application''),
      (''T1566'', ''Phishing''),
      (''T1078'', ''Valid Accounts''),
      (''T1133'', ''External Remote Services''),
      (''T1195'', ''Supply Chain Compromise''),
      (''T1091'', ''Replication Through Removable Media''),
      (''T1199'', ''Trusted Relationship''),
      (''T1189'', ''Drive-by Compromise'')]"

definition TECHNIQUES_TA0002 :: "(string \<times> string) list" where
  "TECHNIQUES_TA0002 =
     [(''T1059'', ''Command and Scripting Interpreter''),
      (''T1203'', ''Exploitation for Client Execution''),
      (''T1106'', ''Native API''),
      (''T1053'', ''Scheduled Task/Job''),
      (''T1047'', ''Windows Management Instrumentation''),
      (''T1072'', ''Software Deployment Tools''),
      (''T1204'', ''User Execution''),
      (''T1569'', ''System Services'')]"

definition TECHNIQUES_TA0003 :: "(string \<times> string) list" where
  "TECHNIQUES_TA0003 =
     [(''T1078'', ''Valid Accounts''),
      (''T1136'', ''Create Account''),
      (''T1547'', ''Boot or Logon Autostart Execution''),
      (''T1543'', ''Create or Modify System Process''),
      (''T1197'', ''BITS Jobs''),
      (''T1037'', ''Boot or Logon Initialization Scripts''),
      (''T1574'', ''Hijack Execution Flow''),
      (''T1098'', ''Account Manipulation''),
      (''T1505'', ''Server Software Component''),
      (''T1053'', ''Scheduled Task/Job'')]"

definition TECHNIQUES_TA0004 :: "(string \<times> string) list" where
  "TECHNIQUES_TA0004 =
     [(''T1078'', ''Valid Accounts''),
      (''T1068'', ''Exploitation for Privilege Escalation''),
      (''T1055'', ''Process Injection''),
      (''T1134'', ''Access Token Manipulation''),
      (''T1548'', ''Abuse Elevation Control Mechanism''),
      (''T1543'', ''Create or Modify System Process''),
      (''T1574'', ''Hijack Execution Flow''),
      (''T1053'', ''Scheduled Task/Job'')]"

definition TECHNIQUES_TA0005 :: "(string \<times> string) list" where
  "TECHNIQUES_TA0005 =
     [(''T1027'', ''Obfuscated Files or Information''),
      (''T1036'', ''Masquerading''),
      (''T1070'', ''Indicator Removal''),
      (''T1055'', ''Process Injection''),
      (''T1562'', ''Impair Defenses''),
      (''T1078'', ''Valid Accounts''),
      (''T1218'', ''System Binary Proxy Execution''),
      (''T1553'', ''Subvert Trust Controls''),
      (''T1134'', ''Access Token Manipulation''),
      (''T1574'', ''Hijack Execution Flow'')]"

definition TECHNIQUES_TA0006 :: "(string \<times> string) list" where
  "TECHNIQUES_TA0006 =
     [(''T1003'', ''OS Credential Dumping''),
      (''T1110'', ''Brute Force''),
      (''T1555'', ''Credentials from Password Stores''),
      (''T1552'', ''Unsecured Credentials''),
      (''T1056'', ''Input Capture''),
      (''T1111'', ''MFA Interception''),
      (''T1558'', ''Steal or Forge Kerberos Tickets''),
      (''T1539'', ''Steal Web Session Cookie'')]"

definition TECHNIQUES_TA0007 :: "(string \<times> string) list" where
  "TECHNIQUES_TA0007 =
     [(''T1082'', ''System Information Discovery''),
      (''T1083'', ''File and Directory Discovery''),
      (''T1057'', ''Process Discovery''),
      (''T1049'', ''System Network Connections Discovery''),
      (''T1018'', ''Remote System Discovery''),
      (''T1033'', ''System Owner/User Discovery''),
      (''T1069'', ''Permission Groups Discovery''),
      (''T1087'', ''Account Discovery''),
      (''T1135'', ''Network Share Discovery''),
      (''T1046'', ''Network Service Discovery'')]"

definition TECHNIQUES_TA0008 :: "(string \<times> string) list" where
  "TECHNIQUES_TA0008 =
     [(''T1021'', ''Remote Services''),
      (''T1570'', ''Lateral Tool Transfer''),
      (''T1534'', ''Internal Spearphishing''),
      (''T1550'', ''Use Alternate Authentication Material''),
      (''T1563'', ''Remote Service Session Hijacking''),
      (''T1080'', ''Taint Shared Content'')]"

definition TECHNIQUES_TA0009 :: "(string \<times> string) list" where
  "TECHNIQUES_TA0009 =
     [(''T1005'', ''Data from Local System''),
      (''T1039'', ''Data from Network Shared Drive''),
      (''T1074'', ''Data Staged''),
      (''T1114'', ''Email Collection''),
      (''T1056'', ''Input Capture''),
      (''T1560'', ''Archive Collected Data''),
      (''T1113'', ''Screen Capture'')]"

definition TECHNIQUES_TA0010 :: "(string \<times> string) list" where
  "TECHNIQUES_TA0010 =
     [(''T1041'', ''Exfiltration Over C2 Channel''),
      (''T1048'', ''Exfiltration Over Alternative Protocol''),
      (''T1567'', ''Exfiltration Over Web Service''),
      (''T1020'', ''Automated Exfiltration'')]"

definition TECHNIQUES_TA0011 :: "(string \<times> string) list" where
  "TECHNIQUES_TA0011 =
     [(''T1071'', ''Application Layer Protocol''),
      (''T1095'', ''Non-Application Layer Protocol''),
      (''T1572'', ''Protocol Tunneling''),
      (''T1573'', ''Encrypted Channel''),
      (''T1008'', ''Fallback Channels''),
      (''T1105'', ''Ingress Tool Transfer''),
      (''T1132'', ''Data Encoding'')]"

definition TECHNIQUES_TA0040 :: "(string \<times> string) list" where
  "TECHNIQUES_TA0040 =
     [(''T1486'', ''Data Encrypted for Impact''),
      (''T1485'', ''Data Destruction''),
      (''T1499'', ''Endpoint Denial of Service''),
      (''T1498'', ''Network Denial of Service''),
      (''T1531'', ''Account Access Removal''),
      (''T1489'', ''Service Stop''),
      (''T1491'', ''Defacement''),
      (''T1490'', ''Inhibit System Recovery'')]"

definition MITRE_TECHNIQUES :: "(string \<times> (string \<times> string) list) list" where
  "MITRE_TECHNIQUES =
     [(''TA0043'', TECHNIQUES_TA0043),
      (''TA0042'', TECHNIQUES_TA0042),
      (''TA0001'', TECHNIQUES_TA0001),
      (''TA0002'', TECHNIQUES_TA0002),
      (''TA0003'', TECHNIQUES_TA0003),
      (''TA0004'', TECHNIQUES_TA0004),
      (''TA0005'', TECHNIQUES_TA0005),
      (''TA0006'', TECHNIQUES_TA0006),
      (''TA0007'', TECHNIQUES_TA0007),
      (''TA0008'', TECHNIQUES_TA0008),
      (''TA0009'', TECHNIQUES_TA0009),
      (''TA0010'', TECHNIQUES_TA0010),
      (''TA0011'', TECHNIQUES_TA0011),
      (''TA0040'', TECHNIQUES_TA0040)]"

definition TACTIC_COLORS :: "(string \<times> string) list" where
  "TACTIC_COLORS =
     [(''TA0043'', ''var(--low)''),
      (''TA0042'', ''var(--med)''),
      (''TA0001'', ''var(--crit)''),
      (''TA0002'', ''var(--high)''),
      (''TA0003'', ''var(--med)''),
      (''TA0004'', ''var(--high)''),
      (''TA0005'', ''var(--accent)''),
      (''TA0006'', ''var(--crit)''),
      (''TA0007'', ''var(--low)''),
      (''TA0008'', ''var(--high)''),
      (''TA0009'', ''var(--med)''),
      (''TA0010'', ''var(--high)''),
      (''TA0011'', ''var(--accent)''),
      (''TA0040'', ''var(--crit)'')]"

definition tacticColor :: "string \<Rightarrow> string" where
  "tacticColor tacticId =
     (case map_of TACTIC_COLORS tacticId of
        None \<Rightarrow> ''var(--border-strong)''
      | Some c \<Rightarrow> if c = [] then ''var(--border-strong)'' else c)"

definition techniques_for :: "string \<Rightarrow> (string \<times> string) list" where
  "techniques_for t = (case map_of MITRE_TECHNIQUES t of None \<Rightarrow> [] | Some ts \<Rightarrow> ts)"

lemmas technique_tables = TECHNIQUES_TA0043_def TECHNIQUES_TA0042_def TECHNIQUES_TA0001_def TECHNIQUES_TA0002_def TECHNIQUES_TA0003_def TECHNIQUES_TA0004_def TECHNIQUES_TA0005_def TECHNIQUES_TA0006_def TECHNIQUES_TA0007_def TECHNIQUES_TA0008_def TECHNIQUES_TA0009_def TECHNIQUES_TA0010_def TECHNIQUES_TA0011_def TECHNIQUES_TA0040_def

interpretation tactics: keyed_table fst MITRE_TACTICS
  by unfold_locales (simp add: MITRE_TACTICS_def)

lemma techniques_ok: "tables_ok fst MITRE_TECHNIQUES"
  by (simp add: tables_ok_def MITRE_TECHNIQUES_def technique_tables)

definition all_techniques :: "(string \<times> string) list" where
  "all_techniques = concat (map snd MITRE_TECHNIQUES)"

text \<open>Some techniques serve several tactics; their name is the same everywhere.\<close>

definition technique_no :: "string \<Rightarrow> nat" where
  "technique_no i = val_digits (drop 1 i)"

fun keys_agree :: "(nat \<times> string) list \<Rightarrow> bool" where
  "keys_agree [] = True"
| "keys_agree ((k, n) # xs) = (list_all (\<lambda>(k', n'). if k = k' then n = n' else True) xs \<and> keys_agree xs)"

lemma keys_agreeD: "keys_agree xs \<Longrightarrow> (k, n) \<in> set xs \<Longrightarrow> (k, m) \<in> set xs \<Longrightarrow> n = m"
  by (induction xs rule: keys_agree.induct) (auto simp: list_all_iff)

lemma technique_numbers_agree: "keys_agree (map (\<lambda>(i, n). (technique_no i, n)) all_techniques)"
  by (simp add: all_techniques_def MITRE_TECHNIQUES_def technique_tables technique_no_def val_digits_def)

lemma technique_name_unique: "(i, n) \<in> set all_techniques \<Longrightarrow> (i, m) \<in> set all_techniques \<Longrightarrow> n = m"
  by (rule keys_agreeD [OF technique_numbers_agree, of "technique_no i"]) force+

lemma technique_names_agree: "distinct (map fst (remdups all_techniques))"
  using technique_name_unique by (force simp: distinct_map inj_on_def)

interpretation techniques: keyed_table fst "remdups all_techniques"
  by unfold_locales (rule technique_names_agree)

lemma tactics_covered:
  "list_all (\<lambda>(t, _). techniques_for t \<noteq> [] \<and> tacticColor t \<noteq> ''var(--border-strong)'') MITRE_TACTICS"
  by code_simp

lemma tactic_order: "map fst MITRE_TACTICS = map fst MITRE_TECHNIQUES" "map fst MITRE_TACTICS = map fst TACTIC_COLORS"
  by code_simp+

text \<open>The matrix is complete and consistent. The three tables list the same 14 tactics in the same order, every
  tactic offers a technique and has a colour of its own, a technique id is listed once under a tactic,
  and two tactics that offer the same id give it the same name.\<close>

theorem attack_matrix_consistent:
  "length MITRE_TACTICS = 14
   \<and> map fst MITRE_TACTICS = map fst MITRE_TECHNIQUES \<and> map fst MITRE_TACTICS = map fst TACTIC_COLORS
   \<and> list_all (\<lambda>(t, _). techniques_for t \<noteq> [] \<and> distinct (map fst (techniques_for t))
        \<and> tacticColor t \<noteq> ''var(--border-strong)'') MITRE_TACTICS
   \<and> (\<nexists>i n m. (i, n) \<in> set all_techniques \<and> (i, m) \<in> set all_techniques \<and> n \<noteq> m)"
proof (intro conjI)
  show "length MITRE_TACTICS = 14" by (simp add: MITRE_TACTICS_def)
  show "list_all (\<lambda>(t, _). techniques_for t \<noteq> [] \<and> distinct (map fst (techniques_for t))
      \<and> tacticColor t \<noteq> ''var(--border-strong)'') MITRE_TACTICS"
    by code_simp
  show "\<nexists>i n m. (i, n) \<in> set all_techniques \<and> (i, m) \<in> set all_techniques \<and> n \<noteq> m"
    using techniques.key_inj by fastforce
qed (rule tactic_order)+

end
