(* ===== verification/Custody_Labels.thy ===== *)
theory Custody_Labels
  imports Keyed_Table
begin

text \<open>
  \<^verbatim>\<open>frontend/src/lib/custodyLabels.js\<close>: label and colour of an audited evidence action, and what a
  custody event is about.
\<close>

definition CUSTODY_ACTION_COLOR :: "(string \<times> string) list" where
  "CUSTODY_ACTION_COLOR =
     [(''evidence_collect'', ''var(--ok)''),
      (''evidence_collect_rejected'', ''var(--crit)''),
      (''evidence_acquisition_record'', ''var(--accent)''),
      (''evidence_acquisition_record_rejected'', ''var(--crit)''),
      (''evidence_seal'', ''var(--accent)''),
      (''email_mint_evidence'', ''var(--ok)''),
      (''webhistory_mint_evidence'', ''var(--ok)''),
      (''evidence_update'', ''var(--muted)''),
      (''evidence_photo_add'', ''var(--muted)''),
      (''evidence_transfer_request'', ''var(--med)''),
      (''evidence_transfer'', ''var(--accent)''),
      (''evidence_transfer_declined'', ''var(--high)''),
      (''evidence_examine'', ''var(--med)''),
      (''evidence_verify'', ''var(--ok)''),
      (''evidence_verify_failed'', ''var(--crit)''),
      (''evidence_read_failed'', ''var(--high)''),
      (''evidence_kek_id_mismatch'', ''var(--high)''),
      (''file_read_failed'', ''var(--high)''),
      (''forensic_import_rejected'', ''var(--crit)''),
      (''evidence_destroy'', ''var(--crit)''),
      (''evidence_return'', ''var(--high)''),
      (''evidence_archive'', ''var(--muted)''),
      (''evidence_mirror_purged'', ''var(--muted)''),
      (''evidence_storage_rekeyed'', ''var(--muted)''),
      (''evidence_export'', ''var(--accent)''),
      (''evidence_export_create'', ''var(--accent)''),
      (''evidence_export_download'', ''var(--accent)''),
      (''evidence_export_download_denied'', ''var(--crit)''),
      (''evidence_amend_after_seal'', ''var(--high)''),
      (''evidence_copy_mint'', ''var(--accent)''),
      (''evidence_copy_correction'', ''var(--high)''),
      (''evidence_working_copy_issued'', ''var(--accent)''),
      (''evidence_working_copy_complete'', ''var(--ok)''),
      (''evidence_working_copy_aborted'', ''var(--high)''),
      (''evidence_working_copy_failed'', ''var(--crit)''),
      (''evidence_working_copy_recorded'', ''var(--accent)''),
      (''evidence_working_copy_verify'', ''var(--ok)''),
      (''evidence_working_copy_verify_failed'', ''var(--crit)''),
      (''evidence_legal_hold_set'', ''var(--med)''),
      (''evidence_legal_hold_released'', ''var(--muted)'')]"

definition CUSTODY_ACTION_LABEL :: "(string \<times> string) list" where
  "CUSTODY_ACTION_LABEL =
     [(''evidence_collect'', ''Collected''),
      (''evidence_collect_rejected'', ''Collection REFUSED''),
      (''evidence_acquisition_record'', ''Acquisition record''),
      (''evidence_acquisition_record_rejected'', ''Acquisition record REFUSED''),
      (''evidence_seal'', ''Sealed''),
      (''email_mint_evidence'', ''Collected (from Email)''),
      (''webhistory_mint_evidence'', ''Collected (from Browser history)''),
      (''evidence_update'', ''Updated''),
      (''evidence_photo_add'', ''Photo added''),
      (''evidence_transfer_request'', ''Transfer requested''),
      (''evidence_transfer'', ''Transferred''),
      (''evidence_transfer_declined'', ''Transfer declined''),
      (''evidence_examine'', ''Examined''),
      (''evidence_verify'', ''Verified''),
      (''evidence_verify_failed'', ''Verify FAILED''),
      (''evidence_read_failed'', ''Stored file could not be read''),
      (''evidence_kek_id_mismatch'', ''Stored file names another key (KEK id)''),
      (''file_read_failed'', ''Stored file could not be read''),
      (''forensic_import_rejected'', ''Import REFUSED (hash mismatch)''),
      (''evidence_destroy'', ''Destroyed''),
      (''evidence_return'', ''Returned''),
      (''evidence_archive'', ''Archived''),
      (''evidence_mirror_purged'', ''Backup mirror copy purged''),
      (''evidence_storage_rekeyed'', ''Storage key rotated (KEK rotation)''),
      (''evidence_export'', ''Disclosed (package or export)''),
      (''evidence_export_create'', ''Export bundle created''),
      (''evidence_export_download'', ''Export downloaded''),
      (''evidence_export_download_denied'', ''Export download denied''),
      (''evidence_amend_after_seal'', ''Amended after seal''),
      (''evidence_copy_mint'', ''Disclosure copy recorded''),
      (''evidence_copy_correction'', ''Working copy correction''),
      (''evidence_working_copy_issued'', ''Working copy issued''),
      (''evidence_working_copy_complete'', ''Working copy downloaded''),
      (''evidence_working_copy_aborted'', ''Working copy download aborted''),
      (''evidence_working_copy_failed'', ''Working copy FAILED integrity''),
      (''evidence_working_copy_recorded'', ''Lab copy recorded''),
      (''evidence_working_copy_verify'', ''Working copy verified''),
      (''evidence_working_copy_verify_failed'', ''Working copy changed''),
      (''evidence_legal_hold_set'', ''Legal hold set''),
      (''evidence_legal_hold_released'', ''Legal hold released'')]"

record custody_event =
  ce_exhibit_identifier :: "string option"
  ce_exhibit_name :: "string option"
  ce_resource_type :: "string option"
  ce_recipient :: "string option"     \<comment> \<open>\<open>details?.recipient\<close>\<close>

definition custodySubject :: "custody_event \<Rightarrow> string" where
  "custodySubject ev =
     (if str_truthy (ce_exhibit_identifier ev)
      then (if str_truthy (ce_exhibit_name ev)
            then the (ce_exhibit_identifier ev) @ '' '' @ em_dash @ '' '' @ the (ce_exhibit_name ev)
            else the (ce_exhibit_identifier ev))
      else if ce_resource_type ev = Some ''custody_export''
      then ''export bundle'' @ (if str_truthy (ce_recipient ev) then '' to '' @ the (ce_recipient ev) else [])
      else str_or (ce_resource_type ev) em_dash)"

interpretation labels: keyed_table fst CUSTODY_ACTION_LABEL
  by unfold_locales (simp add: CUSTODY_ACTION_LABEL_def)

interpretation colors: keyed_table fst CUSTODY_ACTION_COLOR
  by unfold_locales (simp add: CUSTODY_ACTION_COLOR_def)

lemma same_actions: "map fst CUSTODY_ACTION_COLOR = map fst CUSTODY_ACTION_LABEL"
  by (simp add: CUSTODY_ACTION_COLOR_def CUSTODY_ACTION_LABEL_def)

text \<open>The custody log never shows an event without a subject, and every action it can label it can colour: the
  subject is a non-empty text that begins with the exhibit's identifier when the event has one, and the
  label and colour tables have the same actions, each once.\<close>

theorem custody_subject_and_labels:
  "custodySubject ev \<noteq> []
   \<and> prefix (str_or (ce_exhibit_identifier ev) []) (custodySubject ev)
   \<and> dom (table_of fst CUSTODY_ACTION_LABEL) = dom (table_of fst CUSTODY_ACTION_COLOR)
   \<and> card (dom (table_of fst CUSTODY_ACTION_LABEL)) = 40"
proof (intro conjI)
  show "custodySubject ev \<noteq> []"
    by (auto simp: custodySubject_def str_truthy_iff str_or_def em_dash_def split: option.splits)
  show "prefix (str_or (ce_exhibit_identifier ev) []) (custodySubject ev)"
    by (auto simp: custodySubject_def str_truthy_iff str_or_def split: option.splits)
  show "dom (table_of fst CUSTODY_ACTION_LABEL) = dom (table_of fst CUSTODY_ACTION_COLOR)"
    unfolding labels.lookup_dom colors.lookup_dom using arg_cong [OF same_actions, of set] by simp
  show "card (dom (table_of fst CUSTODY_ACTION_LABEL)) = 40"
    unfolding labels.lookup_card by (simp add: CUSTODY_ACTION_LABEL_def)
qed

end
