(* ===== verification/Timezones.thy ===== *)
theory Timezones
  imports Keyed_Table
begin

text \<open>
  \<^verbatim>\<open>frontend/src/lib/timezone.js\<close>: the zone preference in \<open>localStorage\<close>. The store is \<open>None\<close> where
  access throws (storage disabled); the browser's own zone, \<open>Intl\<close>'s answer, is a parameter.
\<close>

type_synonym storage = "(string \<rightharpoonup> string) option"

definition KEY :: string where
  "KEY = ''fenrir.tz''"

definition getBrowserTz :: "string \<Rightarrow> string" where
  "getBrowserTz browser_tz = browser_tz"

definition getStoredTz :: "string \<Rightarrow> storage \<Rightarrow> string" where
  "getStoredTz browser_tz st =
     (case st of
        None \<Rightarrow> browser_tz
      | Some m \<Rightarrow> (case m KEY of Some saved \<Rightarrow> if saved \<noteq> [] then saved else browser_tz | None \<Rightarrow> browser_tz))"

definition setStoredTz :: "string \<Rightarrow> storage \<Rightarrow> storage" where
  "setStoredTz tz st = (case st of None \<Rightarrow> None | Some m \<Rightarrow> Some (m(KEY \<mapsto> tz)))"

definition TIMEZONE_GROUPS :: "(string \<times> (string \<times> string) list) list" where
  "TIMEZONE_GROUPS =
     [(''UTC'',
       [(''UTC'', (''UTC '' @ em_dash @ '' UTC+00:00''))]),
      (''Africa'',
       [(''Africa/Abidjan'', ''Abidjan (GMT/UTC+00:00)''),
        (''Africa/Cairo'', ''Cairo (UTC+02:00)''),
        (''Africa/Johannesburg'', ''Johannesburg (UTC+02:00)''),
        (''Africa/Lagos'', ''Lagos (UTC+01:00)''),
        (''Africa/Nairobi'', ''Nairobi (UTC+03:00)'')]),
      (''Americas'',
       [(''America/Anchorage'', (''Anchorage (UTC'' @ minus_sign @ ''09:00)'')),
        (''America/Bogota'', (''Bogot'' @ [CHR 0xC3, CHR 0xA1] @ '' (UTC'' @ minus_sign @ ''05:00)'')),
        (''America/Buenos_Aires'', (''Buenos Aires (UTC'' @ minus_sign @ ''03:00)'')),
        (''America/Chicago'', (''Chicago / CDT (UTC'' @ minus_sign @ ''06:00)'')),
        (''America/Denver'', (''Denver / MDT (UTC'' @ minus_sign @ ''07:00)'')),
        (''America/Halifax'', (''Halifax / ADT (UTC'' @ minus_sign @ ''04:00)'')),
        (''America/Los_Angeles'', (''Los Angeles / PDT (UTC'' @ minus_sign @ ''08:00)'')),
        (''America/Mexico_City'', (''Mexico City (UTC'' @ minus_sign @ ''06:00)'')),
        (''America/New_York'', (''New York / EDT (UTC'' @ minus_sign @ ''05:00)'')),
        (''America/Sao_Paulo'', (''S'' @ [CHR 0xC3, CHR 0xA3] @ ''o Paulo (UTC'' @ minus_sign @ ''03:00)'')),
        (''America/St_Johns'', (''St. John's (UTC'' @ minus_sign @ ''03:30)'')),
        (''America/Toronto'', (''Toronto / EDT (UTC'' @ minus_sign @ ''05:00)'')),
        (''America/Vancouver'', (''Vancouver / PDT (UTC'' @ minus_sign @ ''08:00)''))]),
      (''Asia & Middle East'',
       [(''Asia/Baghdad'', ''Baghdad (UTC+03:00)''),
        (''Asia/Bangkok'', ''Bangkok (UTC+07:00)''),
        (''Asia/Dhaka'', ''Dhaka (UTC+06:00)''),
        (''Asia/Dubai'', ''Dubai (UTC+04:00)''),
        (''Asia/Hong_Kong'', ''Hong Kong (UTC+08:00)''),
        (''Asia/Jakarta'', ''Jakarta (UTC+07:00)''),
        (''Asia/Karachi'', ''Karachi (UTC+05:00)''),
        (''Asia/Kolkata'', ''Kolkata / Mumbai (UTC+05:30)''),
        (''Asia/Riyadh'', ''Riyadh (UTC+03:00)''),
        (''Asia/Seoul'', ''Seoul (UTC+09:00)''),
        (''Asia/Shanghai'', ''Shanghai (UTC+08:00)''),
        (''Asia/Singapore'', ''Singapore (UTC+08:00)''),
        (''Asia/Taipei'', ''Taipei (UTC+08:00)''),
        (''Asia/Tashkent'', ''Tashkent (UTC+05:00)''),
        (''Asia/Tehran'', ''Tehran (UTC+03:30)''),
        (''Asia/Tokyo'', ''Tokyo (UTC+09:00)'')]),
      (''Australia & Pacific'',
       [(''Australia/Adelaide'', ''Adelaide (UTC+09:30)''),
        (''Australia/Brisbane'', ''Brisbane (UTC+10:00)''),
        (''Australia/Perth'', ''Perth (UTC+08:00)''),
        (''Australia/Sydney'', ''Sydney / Melbourne (UTC+10:00)''),
        (''Pacific/Auckland'', ''Auckland (UTC+12:00)''),
        (''Pacific/Fiji'', ''Fiji (UTC+12:00)''),
        (''Pacific/Honolulu'', (''Honolulu / Hawaii (UTC'' @ minus_sign @ ''10:00)''))]),
      (''Europe'',
       [(''Europe/Amsterdam'', ''Amsterdam (UTC+01:00)''),
        (''Europe/Athens'', ''Athens (UTC+02:00)''),
        (''Europe/Berlin'', ''Berlin (UTC+01:00)''),
        (''Europe/Helsinki'', ''Helsinki (UTC+02:00)''),
        (''Europe/Istanbul'', ''Istanbul (UTC+03:00)''),
        (''Europe/Lisbon'', ''Lisbon (UTC+00:00)''),
        (''Europe/London'', ''London / GMT (UTC+00:00)''),
        (''Europe/Madrid'', ''Madrid (UTC+01:00)''),
        (''Europe/Moscow'', ''Moscow (UTC+03:00)''),
        (''Europe/Oslo'', ''Oslo (UTC+01:00)''),
        (''Europe/Paris'', ''Paris (UTC+01:00)''),
        (''Europe/Rome'', ''Rome (UTC+01:00)''),
        (''Europe/Stockholm'', ''Stockholm (UTC+01:00)''),
        (''Europe/Warsaw'', ''Warsaw (UTC+01:00)''),
        (''Europe/Zurich'', ''Zurich (UTC+01:00)'')])]"

definition zones :: "(string \<times> string) list" where
  "zones = concat (map snd TIMEZONE_GROUPS)"

interpretation zones: keyed_table fst zones
  by unfold_locales (simp add: zones_def TIMEZONE_GROUPS_def)

lemma zone_ids_nonempty: "(z, l) \<in> set zones \<Longrightarrow> z \<noteq> []"
proof -
  have "list_all (\<lambda>(z, l). z \<noteq> []) zones" by (simp add: zones_def TIMEZONE_GROUPS_def)
  then show "(z, l) \<in> set zones \<Longrightarrow> z \<noteq> []" by (auto simp: list_all_iff)
qed

text \<open>Choosing a zone of the list is read back: with storage the chosen zone, without it the browser's, and
  no other key of the storage changes.\<close>

theorem timezone_choice_roundtrip:
  assumes "(z, l) \<in> set zones"
  shows "getStoredTz b (setStoredTz z (Some m)) = z \<and> getStoredTz b (setStoredTz z None) = getBrowserTz b
    \<and> (\<forall>k. k \<noteq> KEY \<longrightarrow> the (setStoredTz z (Some m)) k = m k)"
  using zone_ids_nonempty [OF assms] by (simp add: getStoredTz_def setStoredTz_def getBrowserTz_def)

lemma timezone_choice_roundtrip_witness:
  "getStoredTz ''UTC'' (setStoredTz ''Europe/Paris'' (Some Map.empty)) = ''Europe/Paris''"
proof -
  have "(''Europe/Paris'', ''Paris (UTC+01:00)'') \<in> set zones" by (simp add: zones_def TIMEZONE_GROUPS_def)
  then show ?thesis using timezone_choice_roundtrip by blast
qed

end
