(* ===== verification/Url_Codec.thy ===== *)
theory Url_Codec
  imports Js_Base
begin

text \<open>
  The URL functions of the standard library the sources call: \<open>encodeURIComponent\<close> and
  \<open>URLSearchParams\<close> (constructor and \<open>toString\<close>), on UTF-8 bytes, with the decoders that read them
  back on the other side. The interface \<open>codec\<close> is what the client relies on: decoding gives the
  value back, and an encoded value never contains a delimiter.
\<close>

subsection \<open>Percent-encoding\<close>

definition hex_up :: "nat \<Rightarrow> char" where
  "hex_up n = (if n < 10 then char_of (48 + n) else char_of (55 + n))"

definition hex_val :: "char \<Rightarrow> nat" where
  "hex_val c = (let n = code_of c in if n \<le> 57 then n - 48 else if n \<le> 70 then n - 55 else n - 87)"

definition pct :: "char \<Rightarrow> string" where
  "pct c = [CHR ''%'', hex_up (code_of c div 16), hex_up (code_of c mod 16)]"

definition uri_unreserved :: "char \<Rightarrow> bool" where
  "uri_unreserved c \<longleftrightarrow> is_alpha c \<or> is_digit c
     \<or> c \<in> {CHR ''-'', CHR ''_'', CHR ''.'', CHR ''!'', CHR ''~'', CHR ''*'', CHR 0x27, CHR ''('', CHR '')''}"

definition form_plain :: "char \<Rightarrow> bool" where
  "form_plain c \<longleftrightarrow> is_alpha c \<or> is_digit c \<or> c \<in> {CHR ''*'', CHR ''-'', CHR ''.'', CHR ''_''}"

definition encodeURIComponent :: "string \<Rightarrow> string" where
  "encodeURIComponent s = concat (map (\<lambda>c. if uri_unreserved c then [c] else pct c) s)"

definition form_encode :: "string \<Rightarrow> string" where
  "form_encode s = concat (map (\<lambda>c. if form_plain c then [c] else if c = CHR '' '' then ''+'' else pct c) s)"

fun pct_decode :: "string \<Rightarrow> string" where
  "pct_decode [] = []"
| "pct_decode [a] = [a]"
| "pct_decode [a, b] = [a, b]"
| "pct_decode (c # a # b # s) =
     (if c = CHR ''%'' \<and> is_hex a \<and> is_hex b then char_of (16 * hex_val a + hex_val b) # pct_decode s
      else c # pct_decode (a # b # s))"

definition form_decode :: "string \<Rightarrow> string" where
  "form_decode s = pct_decode (map (\<lambda>c. if c = CHR ''+'' then CHR '' '' else c) s)"

lemma pct_decode_other: "c \<noteq> CHR ''%'' \<Longrightarrow> pct_decode (c # s) = c # pct_decode s"
  by (cases s rule: pct_decode.cases) auto

lemma code_of_bound [simp]: "code_of c < 256"
  by (simp add: code_of_def)

lemma hex_up_val [simp]: "n < 16 \<Longrightarrow> hex_val (hex_up n) = n" "n < 16 \<Longrightarrow> is_hex (hex_up n)"
  by (auto simp: hex_val_def hex_up_def is_hex_def is_digit_def)

lemma char_of_code_of [simp]: "char_of (code_of c) = c"
  by (simp add: code_of_def)

lemma pct_decode_pct: "pct_decode (pct c @ s) = c # pct_decode s"
proof -
  have "code_of c div 16 < 16" using code_of_bound [of c] by linarith
  then show ?thesis by (simp add: pct_def)
qed

lemma hex_up_upper: "n < 16 \<Longrightarrow> code_of (hex_up n) \<in> {48..57} \<union> {65..70}"
  by (auto simp: hex_up_def)

subsection \<open>The interface of an encoder\<close>

locale codec =
  fixes enc dec :: "string \<Rightarrow> string" and delims :: "char set"
  assumes dec_enc: "dec (enc s) = s"
    and enc_safe: "c \<in> set (enc s) \<Longrightarrow> c \<notin> delims"
begin

lemma enc_inj: "enc s = enc t \<longleftrightarrow> s = t"
  by (metis dec_enc)

text \<open>A path of encoded segments can be taken apart at a delimiter again.\<close>

lemma split_segments:
  "d \<in> delims \<Longrightarrow> ws \<noteq> [] \<Longrightarrow> map dec (split_at d (join [d] (map enc ws))) = ws"
proof -
  assume d: "d \<in> delims" and ne: "ws \<noteq> []"
  have "\<forall>w \<in> set (map enc ws). d \<notin> set w" using enc_safe d by auto
  then have "split_at d (join [d] (map enc ws)) = map enc ws" by (rule split_at_join) (simp add: ne)
  then show ?thesis by (simp add: comp_def dec_enc)
qed

end

definition url_delims :: "char set" where
  "url_delims = {CHR ''/'', CHR ''?'', CHR ''#'', CHR ''&'', CHR ''='', CHR ''+'', CHR '' ''}"

definition form_delims :: "char set" where
  "form_delims = {CHR ''/'', CHR ''?'', CHR ''#'', CHR ''&'', CHR ''='', CHR '' ''}"

lemma decode_encodeURIComponent: "pct_decode (encodeURIComponent s) = s"
proof (induction s)
  case (Cons c s)
  have "uri_unreserved c \<Longrightarrow> c \<noteq> CHR ''%''" by (auto simp: uri_unreserved_def is_alpha_def is_digit_def)
  with Cons show ?case by (simp add: encodeURIComponent_def pct_decode_other pct_decode_pct)
qed (simp add: encodeURIComponent_def)

lemma pct_chars: "x \<in> set (pct c) \<Longrightarrow> x = CHR ''%'' \<or> code_of x \<in> {48..57} \<union> {65..70}"
proof -
  have "code_of c div 16 < 16" using code_of_bound [of c] by linarith
  then show "x \<in> set (pct c) \<Longrightarrow> x = CHR ''%'' \<or> code_of x \<in> {48..57} \<union> {65..70}"
    using hex_up_upper [of "code_of c div 16"] hex_up_upper [of "code_of c mod 16"] by (auto simp: pct_def)
qed

lemma pct_not_delim: "x \<in> set (pct c) \<Longrightarrow> x \<notin> url_delims"
  using pct_chars [of x c] by (auto simp: url_delims_def)

lemma unreserved_not_delim: "uri_unreserved c \<Longrightarrow> c \<notin> url_delims"
  by (auto simp: uri_unreserved_def url_delims_def is_alpha_def is_digit_def)

lemma form_plain_not_delim: "form_plain c \<Longrightarrow> c \<notin> url_delims"
  by (auto simp: form_plain_def url_delims_def is_alpha_def is_digit_def)

lemma plus_form_decode:
  "map (\<lambda>c. if c = CHR ''+'' then CHR '' '' else c) (pct c) = pct c"
  by (rule map_idI) (use pct_not_delim in \<open>auto simp: url_delims_def\<close>)

lemma decode_form_encode: "form_decode (form_encode s) = s"
proof (induction s)
  case (Cons c s)
  have "form_plain c \<Longrightarrow> c \<noteq> CHR ''%'' \<and> c \<noteq> CHR ''+''"
    by (auto simp: form_plain_def is_alpha_def is_digit_def)
  with Cons show ?case
    by (auto simp: form_decode_def form_encode_def pct_decode_other pct_decode_pct plus_form_decode)
qed (simp add: form_encode_def form_decode_def)

lemma uri_chars: "c \<in> set (encodeURIComponent s) \<Longrightarrow> c \<notin> url_delims"
  by (induction s) (auto simp: encodeURIComponent_def unreserved_not_delim dest: pct_not_delim split: if_splits)

interpretation uri: codec encodeURIComponent pct_decode url_delims
  by unfold_locales (rule decode_encodeURIComponent, rule uri_chars)

lemma form_delims_sub: "c \<notin> url_delims \<Longrightarrow> c \<notin> form_delims" "CHR ''+'' \<notin> form_delims"
  by (auto simp: url_delims_def form_delims_def)

lemma form_chars: "c \<in> set (form_encode s) \<Longrightarrow> c \<notin> form_delims"
proof (induction s)
  case (Cons x s)
  then consider "c \<in> set (form_encode s)" | "form_plain x" "c = x" | "c = CHR ''+''" | "c \<in> set (pct x)"
    by (auto simp: form_encode_def split: if_splits)
  then show ?case
    using Cons.IH form_delims_sub form_plain_not_delim pct_not_delim by cases blast+
qed (simp add: form_encode_def)

interpretation form: codec form_encode form_decode form_delims
  by unfold_locales (rule decode_form_encode, rule form_chars)

subsection \<open>\<open>URLSearchParams\<close>\<close>

definition search_params :: "(string \<times> string) list \<Rightarrow> string" where
  "search_params kvs = join ''&'' (map (\<lambda>(k, v). form_encode k @ ''='' @ form_encode v) kvs)"

definition parse_pair :: "string \<Rightarrow> string \<times> string" where
  "parse_pair p = (form_decode (takeWhile (\<lambda>c. c \<noteq> CHR ''='') p), form_decode (drop 1 (dropWhile (\<lambda>c. c \<noteq> CHR ''='') p)))"

definition parse_params :: "string \<Rightarrow> (string \<times> string) list" where
  "parse_params s = map parse_pair (filter (\<lambda>p. p \<noteq> []) (split_at (CHR ''&'') s))"

lemma parse_pair_encoded: "parse_pair (form_encode k @ ''='' @ form_encode v) = (k, v)"
proof -
  have k: "c \<noteq> CHR ''=''" if "c \<in> set (form_encode k)" for c
    using form.enc_safe [OF that] by (auto simp: form_delims_def)
  then show ?thesis
    by (simp add: parse_pair_def takeWhile_append2 dropWhile_append2 form.dec_enc)
qed

lemma parse_search_params: "parse_params (search_params kvs) = kvs"
proof (cases "kvs = []")
  case True
  then show ?thesis by (simp add: parse_params_def search_params_def)
next
  case False
  define ws where "ws = map (\<lambda>(k, v). form_encode k @ ''='' @ form_encode v) kvs"
  have "\<forall>w \<in> set ws. CHR ''&'' \<notin> set w"
    using form.enc_safe by (fastforce simp: ws_def form_delims_def)
  moreover have "ws \<noteq> []" using False by (simp add: ws_def)
  ultimately have "split_at (CHR ''&'') (search_params kvs) = ws"
    unfolding search_params_def ws_def [symmetric] by (rule split_at_join)
  moreover have "filter (\<lambda>p. p \<noteq> []) ws = ws" by (auto simp: ws_def filter_id_conv)
  moreover have "map parse_pair ws = kvs"
    unfolding ws_def by (auto simp: comp_def parse_pair_encoded [simplified] intro!: map_idI)
  ultimately show ?thesis by (simp add: parse_params_def)
qed

end
