(* ===== verification/Action_Templates.thy ===== *)
theory Action_Templates
  imports Keyed_Table Url_Codec
begin

text \<open>
  \<^verbatim>\<open>frontend/src/pages/incident/respond/actionTemplates.js\<close>: the action templates of the Respond board,
  the flat lookup and the containment button of a row. A filter is \<open>None\<close> for absent or \<open>null\<close> (all types)
  and \<open>Some []\<close> for none. The backend's table of allowed target types
  (\<^verbatim>\<open>backend/respond/containment.py\<close>) is modelled beside it, since the file says it mirrors it.
\<close>

record action_item =
  ai_id :: string
  ai_title :: string
  ai_targetHint :: string
  ai_entityFilter :: "string list option"
  ai_iocFilter :: "string list option"

record action_template = action_item +
  at_category :: string

record tpl_group =
  tg_group :: string
  tg_entityFilter :: "string list option"
  tg_iocFilter :: "string list option"
  tg_items :: "action_item list"

definition item :: "string \<Rightarrow> string \<Rightarrow> string \<Rightarrow> action_item" where
  "item i t h = \<lparr>ai_id = i, ai_title = t, ai_targetHint = h, ai_entityFilter = None, ai_iocFilter = None\<rparr>"

definition with_filters :: "string list option \<Rightarrow> string list option \<Rightarrow> action_item \<Rightarrow> action_item" where
  "with_filters e i a = a\<lparr>ai_entityFilter := e, ai_iocFilter := i\<rparr>"

text \<open>The spreads \<open>...HOST\<close> and \<open>...ACCOUNT\<close>.\<close>

definition with_host :: "action_item \<Rightarrow> action_item" where
  "with_host a = with_filters (Some [''host'']) (Some []) a"

definition with_account :: "action_item \<Rightarrow> action_item" where
  "with_account a = with_filters (Some [''user'', ''email'']) (Some []) a"

definition tpl_group :: "string \<Rightarrow> string list option \<Rightarrow> string list option \<Rightarrow> action_item list \<Rightarrow> tpl_group" where
  "tpl_group g e i items = \<lparr>tg_group = g, tg_entityFilter = e, tg_iocFilter = i, tg_items = items\<rparr>"

definition GROUP_NETWORK :: tpl_group where
  "GROUP_NETWORK = tpl_group ''Network'' (Some [''ip'', ''domain'', ''network_range'', ''host'']) (Some [''ip'', ''domain'', ''url'', ''hash_md5'', ''hash_sha1'', ''hash_sha256''])
     [with_host (item ''isolate_host'' ''Isolate host from network'' ''Hostname or IP address''),
      with_filters (Some [''ip'', ''network_range'']) (Some [''ip'']) (item ''block_ip'' ''Block IP address'' ''IP address''),
      with_filters (Some [''domain'']) (Some [''domain'']) (item ''block_domain'' ''Block domain'' ''Domain name''),
      with_filters (Some []) (Some [''url'']) (item ''block_url'' ''Block URL'' ''URL''),
      with_filters (Some []) (Some [''hash_md5'', ''hash_sha1'', ''hash_sha256'']) (item ''block_hash'' ''Block file hash'' ''MD5 / SHA-1 / SHA-256''),
      item ''firewall_rule'' ''Apply firewall rule'' ''Rule description / port / direction'']"

definition GROUP_IDENTITY :: tpl_group where
  "GROUP_IDENTITY = tpl_group ''Identity'' None None
     [with_account (item ''disable_account'' ''Disable account'' ''Username or UPN''),
      with_account (item ''reset_creds'' ''Reset credentials'' ''Username or UPN''),
      with_account (item ''revoke_sessions'' ''Revoke active sessions'' ''Username or UPN''),
      with_account (item ''revoke_mfa'' ''Revoke MFA tokens'' ''Username or UPN''),
      with_account (item ''revoke_tokens'' ''Revoke API / OAuth tokens'' ''Application or service name'')]"

definition GROUP_ENDPOINT :: tpl_group where
  "GROUP_ENDPOINT = tpl_group ''Endpoint'' (Some [''host'', ''service'', ''ip'']) (Some [''ip'', ''file_path''])
     [with_host (item ''take_offline'' ''Take system offline'' ''Hostname''),
      item ''kill_process'' ''Kill process'' ''Process name or PID'',
      with_host (item ''quarantine_ep'' ''Quarantine endpoint (EDR)'' ''Hostname''),
      item ''patch_emergency'' ''Apply emergency patch'' ''System name / CVE ID'',
      item ''snapshot_memory'' ''Capture memory snapshot'' ''Hostname'']"

definition GROUP_EMAIL :: tpl_group where
  "GROUP_EMAIL = tpl_group ''Email'' (Some [''email'', ''domain'']) (Some [''email'', ''domain'', ''url''])
     [item ''quarantine_email'' ''Quarantine email(s)'' ''Subject line or sender address'',
      item ''delete_rule'' ''Remove malicious inbox rule'' ''Rule name or mailbox'',
      with_filters (Some [''email'', ''domain'']) (Some [''email'', ''domain'']) (item ''block_sender'' ''Block sender domain/address'' ''Sender address or domain'')]"

definition GROUP_MALWARE_REMOVAL :: tpl_group where
  "GROUP_MALWARE_REMOVAL = tpl_group ''Malware removal'' (Some [''host'', ''service'']) (Some [''file_path'', ''registry_key'', ''hash_md5'', ''hash_sha1'', ''hash_sha256''])
     [item ''remove_malware'' ''Remove malware and attacker tools'' ''Hostname(s) / tool name'',
      item ''delete_files'' ''Delete malicious files'' ''File path(s) or hash'',
      item ''remove_persist'' ''Remove persistence mechanism'' ''Type (registry / service / cron / etc.) + location'',
      item ''remove_backdoor'' ''Remove backdoor / implant'' ''Hostname / location'',
      item ''clean_artifacts'' ''Clean attacker artifacts'' ''Hostname / artifact type'']"

definition GROUP_SYSTEMS :: tpl_group where
  "GROUP_SYSTEMS = tpl_group ''Systems'' (Some [''host'', ''service'', ''network_range'']) (Some [])
     [item ''patch_vuln'' ''Patch exploited vulnerability'' ''CVE ID / affected system(s)'',
      item ''rebuild_system'' ''Rebuild system from known-good baseline'' ''Hostname'',
      item ''reimage'' ''Re-image compromised host'' ''Hostname'',
      item ''config_harden'' ''Harden configuration'' ''System / service'']"

definition GROUP_ACCOUNTS :: tpl_group where
  "GROUP_ACCOUNTS = tpl_group ''Accounts'' (Some [''user'', ''email'']) (Some [''email''])
     [item ''reset_all_creds'' ''Reset all compromised credentials'' ''Account(s) or scope'',
      item ''revoke_certs'' ''Revoke and reissue certificates'' ''Certificate / CA'',
      item ''audit_privs'' ''Audit and trim privilege assignments'' ''Account or group'']"

definition GROUP_RESTORE :: tpl_group where
  "GROUP_RESTORE = tpl_group ''Restore'' (Some [''host'', ''service'', ''network_range'']) (Some [])
     [item ''restore_backup'' ''Restore from clean backup'' ''System / data set / backup date'',
      item ''restore_data'' ''Restore data from backup'' ''Data store / path'',
      item ''restore_network'' ''Restore network connectivity'' ''System or network segment'',
      item ''return_prod'' ''Return host to production'' ''Hostname'',
      item ''reenable_service'' ''Re-enable service'' ''Service name'']"

definition GROUP_VALIDATION :: tpl_group where
  "GROUP_VALIDATION = tpl_group ''Validation'' None None
     [item ''validate_integrity'' ''Validate system integrity'' ''Hostname / baseline hash'',
      item ''verify_recovery'' ''Verify recovery completeness'' ''System / checklist'',
      item ''monitor_reinfect'' ''Monitor for reinfection'' ''IOC(s) or system to watch'',
      item ''pen_test_limited'' ''Run limited penetration test'' ''Scope'']"

definition GROUP_HARDENING :: tpl_group where
  "GROUP_HARDENING = tpl_group ''Hardening'' None None
     [item ''update_detections'' ''Update detection rules / signatures'' ''Ruleset / SIEM / EDR platform'',
      item ''enable_logging'' ''Enable / enhance logging'' ''System or log category'',
      item ''mfa_enforce'' ''Enforce MFA on affected accounts'' ''Account(s) or group'',
      item ''change_passwords'' ''Change all privileged passwords'' ''Scope / tier'']"

definition ACTION_TEMPLATES :: "(string \<times> tpl_group list) list" where
  "ACTION_TEMPLATES =
     [(''containment'', [GROUP_NETWORK, GROUP_IDENTITY, GROUP_ENDPOINT, GROUP_EMAIL]),
      (''eradication'', [GROUP_MALWARE_REMOVAL, GROUP_SYSTEMS, GROUP_ACCOUNTS]),
      (''recovery'', [GROUP_RESTORE, GROUP_VALIDATION, GROUP_HARDENING])]"

subsection \<open>The flat lookup\<close>

text \<open>\<open>a ?? b ?? null\<close> on optional filters.\<close>

definition coalesce :: "'a option \<Rightarrow> 'a option \<Rightarrow> 'a option" where
  "coalesce a b = (case a of None \<Rightarrow> b | Some x \<Rightarrow> Some x)"

definition template_of :: "string \<Rightarrow> tpl_group \<Rightarrow> action_item \<Rightarrow> action_template" where
  "template_of category g a =
     \<lparr>ai_id = ai_id a, ai_title = ai_title a, ai_targetHint = ai_targetHint a,
      ai_entityFilter = coalesce (ai_entityFilter a) (tg_entityFilter g),
      ai_iocFilter = coalesce (ai_iocFilter a) (tg_iocFilter g), at_category = category\<rparr>"

definition all_templates :: "action_template list" where
  "all_templates = concat (map (\<lambda>(category, groups).
     concat (map (\<lambda>g. map (template_of category g) (tg_items g)) groups)) ACTION_TEMPLATES)"

definition TEMPLATE_BY_ID :: "string \<rightharpoonup> action_template" where
  "TEMPLATE_BY_ID = table_of ai_id all_templates"

subsection \<open>The containment button of a row\<close>

definition ROW_CONTAINMENT :: "(string \<times> (string \<times> string) list) list" where
  "ROW_CONTAINMENT =
     [(''entity'', [(''host'', ''isolate_host''), (''user'', ''disable_account''), (''email'', ''disable_account''),
                    (''ip'', ''block_ip''), (''network_range'', ''block_ip''), (''domain'', ''block_domain'')]),
      (''ioc'', [(''ip'', ''block_ip''), (''domain'', ''block_domain''), (''url'', ''block_url''),
                 (''hash_md5'', ''block_hash''), (''hash_sha1'', ''block_hash''), (''hash_sha256'', ''block_hash'')])]"

definition ROW_LABEL :: "string \<rightharpoonup> string" where
  "ROW_LABEL = [''isolate_host'' \<mapsto> ''Isolate'', ''disable_account'' \<mapsto> ''Disable'']"

record row_button =
  rb_label :: string
  rb_template :: string
  rb_href :: string

definition row_template :: "string \<Rightarrow> string \<Rightarrow> string option" where
  "row_template kind ty = (case map_of ROW_CONTAINMENT kind of None \<Rightarrow> None | Some m \<Rightarrow> map_of m ty)"

definition rowContainment :: "string \<Rightarrow> string \<Rightarrow> string \<Rightarrow> row_button option" where
  "rowContainment kind item_type item_id =
     (case row_template kind item_type of
        None \<Rightarrow> None
      | Some tpl \<Rightarrow>
          Some \<lparr>rb_label = (case ROW_LABEL tpl of None \<Rightarrow> ''Block'' | Some l \<Rightarrow> l), rb_template = tpl,
                rb_href = ''../respond?'' @ search_params
                  [(''new_action'', tpl), (if kind = ''entity'' then ''entity_id'' else ''ioc_id'', item_id)]\<rparr>)"

subsection \<open>The backend's allowed target types\<close>

definition TEMPLATE_TARGET_TYPES :: "(string \<times> string list \<times> string list) list" where
  "TEMPLATE_TARGET_TYPES =
     [(''isolate_host'', [''host''], []), (''quarantine_ep'', [''host''], []), (''take_offline'', [''host''], []),
      (''disable_account'', [''user'', ''email''], []), (''reset_creds'', [''user'', ''email''], []),
      (''revoke_sessions'', [''user'', ''email''], []), (''revoke_mfa'', [''user'', ''email''], []),
      (''revoke_tokens'', [''user'', ''email''], []), (''block_ip'', [''ip'', ''network_range''], [''ip'']),
      (''block_domain'', [''domain''], [''domain'']), (''block_url'', [], [''url'']),
      (''block_hash'', [], [''hash_md5'', ''hash_sha1'', ''hash_sha256'']),
      (''block_sender'', [''email'', ''domain''], [''email'', ''domain''])]"

text \<open>\<open>check_target_type\<close>: the type of the linked entity and IOC, if any; \<open>False\<close> is the 422.\<close>

definition check_target_type :: "string \<Rightarrow> string option \<Rightarrow> string option \<Rightarrow> bool" where
  "check_target_type template_id entity ioc =
     (case map_of TEMPLATE_TARGET_TYPES template_id of
        None \<Rightarrow> True
      | Some (ents, iocs) \<Rightarrow>
          (case entity of None \<Rightarrow> True | Some t \<Rightarrow> t \<in> set ents) \<and> (case ioc of None \<Rightarrow> True | Some t \<Rightarrow> t \<in> set iocs))"

subsection \<open>The tables agree\<close>

lemmas group_tables = ACTION_TEMPLATES_def GROUP_NETWORK_def GROUP_IDENTITY_def GROUP_ENDPOINT_def GROUP_EMAIL_def GROUP_MALWARE_REMOVAL_def GROUP_SYSTEMS_def GROUP_ACCOUNTS_def GROUP_RESTORE_def GROUP_VALIDATION_def GROUP_HARDENING_def

lemma ai_id_simps [simp]:
  "ai_id (item i t h) = i" "ai_id (with_filters e f a) = ai_id a" "ai_id (with_host a) = ai_id a"
  "ai_id (with_account a) = ai_id a" "ai_id (template_of c g a) = ai_id a" "tg_items (tpl_group n e f xs) = xs"
  by (simp_all add: item_def with_filters_def with_host_def with_account_def template_of_def tpl_group_def)

lemma template_ids_distinct: "distinct (map ai_id all_templates)"
  by (simp add: all_templates_def group_tables)

interpretation templates: keyed_table ai_id all_templates
  by unfold_locales (rule template_ids_distinct)

definition offers :: "action_template \<Rightarrow> string \<Rightarrow> string \<Rightarrow> bool" where
  "offers t kind ty =
     (case (if kind = ''entity'' then ai_entityFilter t else ai_iocFilter t) of None \<Rightarrow> True | Some ts \<Rightarrow> ty \<in> set ts)"

lemma template_mem: "t \<in> set all_templates \<Longrightarrow> TEMPLATE_BY_ID (ai_id t) = Some t"
  by (simp add: TEMPLATE_BY_ID_def templates.hit)

lemma backend_rows:
  "list_all (\<lambda>(tid, ents, iocs). list_ex (\<lambda>t. ai_id t = tid \<and> at_category t = ''containment''
     \<and> ai_entityFilter t = Some ents \<and> ai_iocFilter t = Some iocs) all_templates) TEMPLATE_TARGET_TYPES"
  by code_simp

lemma backend_template:
  assumes "map_of TEMPLATE_TARGET_TYPES tid = Some (ents, iocs)"
  shows "\<exists>t. TEMPLATE_BY_ID tid = Some t \<and> at_category t = ''containment''
     \<and> ai_entityFilter t = Some ents \<and> ai_iocFilter t = Some iocs"
proof -
  have "(tid, ents, iocs) \<in> set TEMPLATE_TARGET_TYPES" using assms by (rule map_of_SomeD)
  with backend_rows show ?thesis
    by (fastforce simp: list_all_iff list_ex_iff dest: template_mem)
qed

text \<open>The picker's filters mirror the backend: for every template the backend restricts, the frontend lists it as
  a containment template and its filters accept exactly the types the backend's \<open>check_target_type\<close> accepts.\<close>

theorem filters_mirror_backend:
  "map_of TEMPLATE_TARGET_TYPES tid \<noteq> None \<Longrightarrow>
     (\<exists>t. TEMPLATE_BY_ID tid = Some t \<and> at_category t = ''containment''
        \<and> (\<forall>ty. offers t ''entity'' ty = check_target_type tid (Some ty) None)
        \<and> (\<forall>ty. offers t ''ioc'' ty = check_target_type tid None (Some ty)))"
proof -
  assume "map_of TEMPLATE_TARGET_TYPES tid \<noteq> None"
  then obtain ents iocs where b: "map_of TEMPLATE_TARGET_TYPES tid = Some (ents, iocs)" by auto
  from backend_template [OF b] b show ?thesis by (auto simp: offers_def check_target_type_def)
qed

lemma filters_mirror_backend_witness:
  "\<exists>t. TEMPLATE_BY_ID ''block_ip'' = Some t \<and> offers t ''ioc'' ''ip'' \<and> \<not> offers t ''ioc'' ''hash_md5''"
proof -
  have b: "map_of TEMPLATE_TARGET_TYPES ''block_ip'' = Some ([''ip'', ''network_range''], [''ip''])"
    by (simp add: TEMPLATE_TARGET_TYPES_def)
  then have ne: "map_of TEMPLATE_TARGET_TYPES ''block_ip'' \<noteq> None" by simp
  have "check_target_type ''block_ip'' None (Some ''ip'')" "\<not> check_target_type ''block_ip'' None (Some ''hash_md5'')"
    by (simp_all add: check_target_type_def b)
  with filters_mirror_backend [OF ne] show ?thesis by blast
qed

lemma row_templates_ok:
  "list_all (\<lambda>(kind, m). list_all (\<lambda>(ty, tpl). map_of TEMPLATE_TARGET_TYPES tpl \<noteq> None
     \<and> (kind = ''entity'' \<and> check_target_type tpl (Some ty) None \<or> kind = ''ioc'' \<and> check_target_type tpl None (Some ty))) m)
     ROW_CONTAINMENT"
  by code_simp

lemma row_template_ok:
  assumes "row_template kind ty = Some tpl"
  shows "map_of TEMPLATE_TARGET_TYPES tpl \<noteq> None
    \<and> (kind = ''entity'' \<and> check_target_type tpl (Some ty) None \<or> kind = ''ioc'' \<and> check_target_type tpl None (Some ty))"
proof -
  from assms obtain m where "(kind, m) \<in> set ROW_CONTAINMENT" "(ty, tpl) \<in> set m"
    by (auto simp: row_template_def split: option.splits dest!: map_of_SomeD)
  with row_templates_ok show ?thesis by (fastforce simp: list_all_iff)
qed

text \<open>A containment button never leads to a refused action: its template exists, its effect can apply to the row
  (the backend accepts the link of the row's type), and the page it opens reads back that template and the
  row's id, whatever characters the id has.\<close>

theorem row_button_accepted:
  assumes "rowContainment kind ty rid = Some b"
  shows "TEMPLATE_BY_ID (rb_template b) \<noteq> None
    \<and> check_target_type (rb_template b) (if kind = ''entity'' then Some ty else None)
        (if kind = ''ioc'' then Some ty else None)
    \<and> parse_params (drop (length ''../respond?'') (rb_href b))
        = [(''new_action'', rb_template b), (if kind = ''entity'' then ''entity_id'' else ''ioc_id'', rid)]"
proof -
  from assms obtain tpl where t: "row_template kind ty = Some tpl" and b: "rb_template b = tpl"
    "rb_href b = ''../respond?'' @ search_params
       [(''new_action'', tpl), (if kind = ''entity'' then ''entity_id'' else ''ioc_id'', rid)]"
    by (auto simp: rowContainment_def split: option.splits)
  from row_template_ok [OF t] obtain ents iocs where "map_of TEMPLATE_TARGET_TYPES tpl = Some (ents, iocs)" by auto
  from backend_template [OF this] row_template_ok [OF t] show ?thesis
    by (auto simp: b parse_search_params)
qed

lemma row_button_accepted_witness:
  "\<exists>b. rowContainment ''ioc'' ''url'' ''a&b=c'' = Some b \<and> rb_template b = ''block_url''
     \<and> check_target_type (rb_template b) None (Some ''url'')"
proof -
  obtain b where b: "rowContainment ''ioc'' ''url'' ''a&b=c'' = Some b" "rb_template b = ''block_url''"
    by (simp add: rowContainment_def row_template_def ROW_CONTAINMENT_def)
  from row_button_accepted [OF b(1)] b show ?thesis by auto
qed

end
