(* ===== verification/Transport.thy ===== *)
theory Transport
  imports Js_Base
begin

text \<open>
  \<^verbatim>\<open>frontend/src/api/client.js\<close>, the transport: \<open>request\<close> (and \<open>sendJson\<close>), the error it throws and the
  session handler it calls. The network is the environment: an answer is a status, a body and the
  \<open>Retry-After\<close> header. The body is given by what \<open>JSON.parse\<close> makes of it: nothing, a JSON value, or a
  text that is not JSON.
\<close>

datatype resp_text = EmptyText | JsonText jsval | RawText string

record answer =
  an_status :: int
  an_body :: resp_text
  an_retry_after :: int      \<comment> \<open>\<open>Number(header)\<close>; 0 when the header is absent\<close>

record api_error =
  ae_message :: string
  ae_status :: "int option"
  ae_code :: jsval
  ae_name :: string
  ae_data :: jsval
  ae_retained :: bool
  ae_openUploads :: jsval

definition js_error :: "string \<Rightarrow> api_error" where
  "js_error m = \<lparr>ae_message = m, ae_status = None, ae_code = JUndef, ae_name = ''Error'', ae_data = JUndef,
     ae_retained = False, ae_openUploads = JUndef\<rparr>"

subsection \<open>The request\<close>

record http_request =
  rq_method :: string
  rq_path :: string
  rq_headers :: "(string \<times> string) list"
  rq_body :: "jsval option"

definition json_request :: "string \<Rightarrow> string \<Rightarrow> jsval \<Rightarrow> http_request" where
  "json_request method path body =
     \<lparr>rq_method = method, rq_path = path,
      rq_headers = (''Accept'', ''application/json'')
        # (if body \<noteq> JUndef then [(''Content-Type'', ''application/json'')] else []),
      rq_body = (if body \<noteq> JUndef then Some body else None)\<rparr>"

subsection \<open>Reading an answer\<close>

fun safeJson :: "resp_text \<Rightarrow> jsval" where
  "safeJson (JsonText v) = v"
| "safeJson (RawText s) = JStr s"
| "safeJson EmptyText = JStr []"

definition an_data :: "answer \<Rightarrow> jsval" where
  "an_data a = (case an_body a of EmptyText \<Rightarrow> JNull | t \<Rightarrow> safeJson t)"

definition an_ok :: "answer \<Rightarrow> bool" where
  "an_ok a \<longleftrightarrow> 200 \<le> an_status a \<and> an_status a < 300"

text \<open>\<open>data && typeof data === 'object' ? data.code : undefined\<close>.\<close>

definition data_code :: "jsval \<Rightarrow> jsval" where
  "data_code data = (if truthy data \<and> is_obj data then jget data ''code'' else JUndef)"

definition status_message :: "int \<Rightarrow> string" where
  "status_message status =
     (if status = 413
      then ''The request is too large for the server (size limit reached). Nothing was saved.''
      else if status = 429 then ''Too many attempts. Try again later.''
      else if status = 401 then ''Authentication failed.''
      else if status = 403 then ''Forbidden.''
      else ''Request failed ('' @ show_int status @ '')'')"

definition detail_message :: "jsval \<Rightarrow> string option" where
  "detail_message data =
     (if truthy data \<and> is_obj data
      then case jget data ''detail'' of
          JStr s \<Rightarrow> Some s
        | JArr (d # ds) \<Rightarrow> if truthy (jget d ''msg'') then Some (js_string (jget d ''msg'')) else None
        | _ \<Rightarrow> None
      else None)"

definition extractMessage :: "jsval \<Rightarrow> int \<Rightarrow> string" where
  "extractMessage data status =
     (case detail_message data of Some s \<Rightarrow> s | None \<Rightarrow> status_message status)"

definition SESSION_ENDED :: string where
  "SESSION_ENDED = ''Your session ended. Sign in again, then retry.''"

text \<open>The error of an answer that is not ok, before the session rule.\<close>

definition answer_error :: "answer \<Rightarrow> string \<Rightarrow> api_error" where
  "answer_error a message =
     (js_error message)\<lparr>ae_status := Some (an_status a), ae_code := data_code (an_data a), ae_data := an_data a\<rparr>"

text \<open>
  \<open>request\<close>: the value or the error thrown, and whether the unauthorized handler was called. \<open>None\<close>
  is an answer that never comes: \<open>fetch\<close> rejects with a \<open>TypeError\<close>.
\<close>

definition network_error :: api_error where
  "network_error = (js_error ''Failed to fetch'')\<lparr>ae_name := ''TypeError''\<rparr>"

definition request :: "string \<Rightarrow> answer option \<Rightarrow> (api_error + jsval) \<times> bool" where
  "request path res =
     (case res of
        None \<Rightarrow> (Inl network_error, False)
      | Some a \<Rightarrow>
          let data = an_data a in
          if \<not> an_ok a
          then let err = answer_error a (extractMessage data (an_status a)) in
            if an_status a = 401 \<and> \<not> starts_with path ''/api/auth/''
            then (Inl (err\<lparr>ae_message := SESSION_ENDED\<rparr>), True)
            else (Inl err, False)
          else (Inr data, False))"

text \<open>\<open>apiError\<close>, for the transports beside \<open>request\<close>: a 401 always calls the handler.\<close>

definition apiError :: "answer \<Rightarrow> string \<Rightarrow> api_error" where
  "apiError a fallback =
     (let m = extractMessage (an_data a) (an_status a);
          err = answer_error a (if m = [] then fallback else m)
      in if an_status a = 401 then err\<lparr>ae_message := SESSION_ENDED\<rparr> else err)"

definition apiError_notifies :: "answer \<Rightarrow> bool" where
  "apiError_notifies a \<longleftrightarrow> an_status a = 401"

lemma answer_error_simps [simp]:
  "ae_status (answer_error a m) = Some (an_status a)" "ae_code (answer_error a m) = data_code (an_data a)"
  "ae_message (answer_error a m) = m" "ae_retained (answer_error a m) = False"
  "ae_data (answer_error a m) = an_data a"
  by (simp_all add: answer_error_def js_error_def)

lemma apiError_simps [simp]:
  "ae_status (apiError a f) = Some (an_status a)" "ae_code (apiError a f) = data_code (an_data a)"
  "ae_retained (apiError a f) = False" "ae_data (apiError a f) = an_data a"
  by (simp_all add: apiError_def Let_def)

lemma status_message_nonempty [simp]: "status_message s \<noteq> []"
  by (simp add: status_message_def)

subsection \<open>What a caller can rely on\<close>


text \<open>The message of a failed answer is the server's \<open>detail\<close> (the first entry's \<open>msg\<close> of a list), else a sentence
  for its status; an error made by \<open>apiError\<close> never has an empty message when its caller gives a fallback.\<close>

theorem error_message_source:
  assumes "fallback \<noteq> []"
  shows "ae_message (apiError a fallback) \<noteq> []
    \<and> (an_status a \<noteq> 401 \<longrightarrow> jget (an_data a) ''detail'' = JStr d \<longrightarrow> d \<noteq> [] \<longrightarrow> ae_message (apiError a fallback) = d)
    \<and> (detail_message (an_data a) = None \<longrightarrow> an_status a \<noteq> 401 \<longrightarrow>
         ae_message (apiError a fallback) = status_message (an_status a))"
proof -
  have obj: "truthy x \<and> is_obj x" if "jget x k = JStr d" for x k
    using that by (cases x) auto
  show ?thesis
    using assms obj [of "an_data a" "''detail''"]
    by (auto simp: apiError_def Let_def extractMessage_def detail_message_def SESSION_ENDED_def
        split: option.splits)
qed

lemma error_message_source_witness:
  "ae_message (apiError \<lparr>an_status = 409, an_body = JsonText (JObj [(''detail'', JStr ''taken'')]), an_retry_after = 0\<rparr>
     ''Upload failed'') = ''taken''"
  using error_message_source [of "''Upload failed''"
      "\<lparr>an_status = 409, an_body = JsonText (JObj [(''detail'', JStr ''taken'')]), an_retry_after = 0\<rparr>" "''taken''"]
  by (simp add: an_data_def)

end
