(* ===== verification/Upload.thy ===== *)
theory Upload
  imports Transport
begin

text \<open>
  \<^verbatim>\<open>frontend/src/api/client.js\<close>, \<open>uploadInChunks\<close>: the chunked, resumable upload, as a machine that
  reacts to events. A phase is an \<open>await\<close> of the function (with the error retained after a refused
  completion); an event is what the awaited promise does, or what the user or the page does. Each
  request sent is logged, so properties can speak of what left the browser.
\<close>

subsection \<open>Configuration, requests, state\<close>

record upload_cfg =
  cf_purpose :: string
  cf_filename :: string                \<comment> \<open>\<open>file.name\<close>\<close>
  cf_file :: string                    \<comment> \<open>the bytes\<close>
  cf_mimeType :: "string option"
  cf_completeBody :: "(string \<times> jsval) list"
  cf_retainOnError :: bool

definition file_size :: "upload_cfg \<Rightarrow> int" where
  "file_size cfg = int (length (cf_file cfg))"

datatype upload_request =
    RqOpen jsval
  | RqListUploads
  | RqChunk int string
  | RqSession
  | RqComplete jsval
  | RqDelete

datatype upload_phase =
    OpenWithMeta
  | OpenPlain
  | ListUploads api_error
  | SendChunk
  | Backoff int                        \<comment> \<open>milliseconds\<close>
  | ReadSession
  | Completing
  | CheckKept
  | CancelLost bool                    \<comment> \<open>was it aborted?\<close>
  | Retained api_error
  | Finished "api_error + jsval"

datatype upload_event =
    Answer answer
  | NetError
  | Aborted
  | TimerFired
  | BytesSent int                      \<comment> \<open>\<open>xhr.upload.onprogress\<close>\<close>
  | RetryComplete "(string \<times> jsval) list"
  | Discard
  | PageHide

record upload =
  up_phase :: upload_phase
  up_id :: "jsval option"              \<comment> \<open>\<open>session.upload_id\<close>, once there is a session\<close>
  up_next :: "int option"              \<comment> \<open>\<open>None\<close>: not a number\<close>
  up_count :: "int option"
  up_chunk_size :: int
  up_failures :: nat
  up_tracked :: bool                   \<comment> \<open>the url is in \<open>openSessions\<close>\<close>
  up_log :: "upload_request list"      \<comment> \<open>oldest first\<close>
  up_progress :: "(jsval \<times> int \<times> bool) list"
  up_limits :: "jsval list"            \<comment> \<open>arguments of \<open>onLimit\<close>\<close>
  up_notified :: nat                   \<comment> \<open>calls of \<open>onUnauthorized\<close>\<close>

definition UPLOAD_RETRIES :: nat where
  "UPLOAD_RETRIES = 5"

subsection \<open>The errors\<close>

definition interrupted :: api_error where
  "interrupted = (js_error (''Upload interrupted '' @ em_dash @ '' the server no longer has this upload (it expired after 30 minutes ''
     @ ''without progress, or the server restarted). Nothing was stored. Start the upload again.''))
     \<lparr>ae_code := JStr ''upload_interrupted''\<rparr>"

definition cancelled :: api_error where
  "cancelled = (js_error ''Upload cancelled. Nothing was stored.'')
     \<lparr>ae_code := JStr ''upload_cancelled'', ae_name := ''AbortError''\<rparr>"

definition resultUnknown :: api_error where
  "resultUnknown = (js_error (''Result unknown '' @ em_dash @ '' the connection was cancelled or lost while the server was storing the ''
     @ ''upload, and it may have finished. Check Evidence '' @ angle_quote @ '' Exhibits (and this page'' @ right_squote
     @ ''s list) before uploading again.''))\<lparr>ae_code := JStr ''upload_result_unknown''\<rparr>"

definition upload_network :: "string \<Rightarrow> api_error" where
  "upload_network m = (js_error m)\<lparr>ae_code := JStr ''upload_network''\<rparr>"

definition complete_no_answer :: api_error where
  "complete_no_answer = (js_error (''The server did not answer while completing the upload. It still ''
     @ ''has the file: try again (nothing is re-sent).''))\<lparr>ae_code := JStr ''upload_complete_no_answer''\<rparr>"

text \<open>Reading a property of \<open>null\<close>.\<close>

definition type_error :: api_error where
  "type_error = (js_error ''Cannot read properties of null'')\<lparr>ae_name := ''TypeError''\<rparr>"

definition upload_failed :: "answer \<Rightarrow> api_error" where
  "upload_failed a = apiError a (''Upload failed ('' @ show_int (an_status a) @ '')'')"

definition retained :: "api_error \<Rightarrow> api_error" where
  "retained e = e\<lparr>ae_retained := True\<rparr>"

definition COMPLETE_ENDS_SESSION :: "string list" where
  "COMPLETE_ENDS_SESSION = [''upload_hash_mismatch'', ''hash_mismatch'', ''not_a_capture'', ''not_sqlite'']"

definition keptOpen :: "int \<Rightarrow> jsval \<Rightarrow> bool" where
  "keptOpen status code =
     (if status = 507 then True
      else if status = 409 then code = JStr ''identifier_exists'' \<or> code = JStr ''upload_busy''
      else if status = 422 then \<not> (case code of JStr c \<Rightarrow> c \<in> set COMPLETE_ENDS_SESSION | _ \<Rightarrow> False)
      else if status = 404 then truthy code \<and> code \<noteq> JStr ''upload_not_found'' \<and> code \<noteq> JStr ''incident_not_found''
      else False)"

subsection \<open>Opening\<close>

text \<open>Object spread: a property set again keeps its place.\<close>

definition obj_spread :: "(string \<times> jsval) list \<Rightarrow> (string \<times> jsval) list \<Rightarrow> (string \<times> jsval) list" where
  "obj_spread o1 o2 = foldl (\<lambda>o' (k, v). obj_set o' k v) o1 o2"

definition opening_body :: "upload_cfg \<Rightarrow> (string \<times> jsval) list" where
  "opening_body cfg =
     [(''purpose'', JStr (cf_purpose cfg)),
      (''filename'', JStr (if cf_filename cfg = [] then ''upload.bin'' else cf_filename cfg)),
      (''size'', JNum (file_size cfg))]
     @ (if cf_purpose cfg = ''evidence'' \<and> str_truthy (cf_mimeType cfg)
        then [(''mime_type'', JStr (slice0 128 (the (cf_mimeType cfg))))] else [])"

definition start_upload :: "upload_cfg \<Rightarrow> bool \<Rightarrow> upload" where
  "start_upload cfg aborted =
     (let c = \<lparr>up_phase = OpenWithMeta, up_id = None, up_next = None, up_count = None, up_chunk_size = 0,
               up_failures = 0, up_tracked = False, up_log = [], up_progress = [], up_limits = [], up_notified = 0\<rparr>
      in if aborted then c\<lparr>up_phase := Finished (Inl cancelled)\<rparr>
         else c\<lparr>up_log := [RqOpen (JObj (obj_spread (opening_body cfg) [(''metadata'', JObj (cf_completeBody cfg))]))]\<rparr>)"

subsection \<open>Small steps\<close>

definition send :: "upload_request \<Rightarrow> upload_phase \<Rightarrow> upload \<Rightarrow> upload" where
  "send rq ph c = c\<lparr>up_log := up_log c @ [rq], up_phase := ph\<rparr>"

definition finish :: "api_error \<Rightarrow> upload \<Rightarrow> upload" where
  "finish e c = c\<lparr>up_phase := Finished (Inl e)\<rparr>"

text \<open>\<open>cancel()\<close> without waiting for its answer, and the outer \<open>catch\<close> of the chunk loop.\<close>

definition cancel :: "upload \<Rightarrow> upload" where
  "cancel c = c\<lparr>up_tracked := False, up_log := up_log c @ [RqDelete]\<rparr>"

definition fail_loop :: "api_error \<Rightarrow> upload \<Rightarrow> upload" where
  "fail_loop e c = finish e (cancel c)"

definition notify_if :: "bool \<Rightarrow> upload \<Rightarrow> upload" where
  "notify_if b c = (if b then c\<lparr>up_notified := up_notified c + 1\<rparr> else c)"

definition progress :: "jsval \<Rightarrow> upload_cfg \<Rightarrow> bool \<Rightarrow> upload \<Rightarrow> upload" where
  "progress n cfg completing c = c\<lparr>up_progress := up_progress c @ [(n, file_size cfg, completing)]\<rparr>"

text \<open>\<open>Blob.slice(start, end)\<close>.\<close>

definition js_slice :: "int \<Rightarrow> int \<Rightarrow> string \<Rightarrow> string" where
  "js_slice s e f =
     (let n = int (length f);
          rel = (\<lambda>x. if x < 0 then max (n + x) 0 else min x n)
      in take (nat (rel e - rel s)) (drop (nat (rel s)) f))"

definition chunk_blob :: "upload_cfg \<Rightarrow> int \<Rightarrow> int \<Rightarrow> string" where
  "chunk_blob cfg cs next =
     (let sentBefore = next * cs in js_slice sentBefore (min (file_size cfg) (sentBefore + cs)) (cf_file cfg))"

text \<open>\<open>next < session.chunk_count\<close>: false when either is not a number.\<close>

definition more_chunks :: "upload \<Rightarrow> bool" where
  "more_chunks c = (case (up_next c, up_count c) of (Some n, Some k) \<Rightarrow> n < k | _ \<Rightarrow> False)"

definition start_complete :: "upload_cfg \<Rightarrow> (string \<times> jsval) list \<Rightarrow> upload \<Rightarrow> upload" where
  "start_complete cfg body c =
     send (RqComplete (JObj (obj_spread [(''purpose'', JStr (cf_purpose cfg))] body))) Completing
       (progress (JNum (file_size cfg)) cfg True c)"

definition loop_head :: "upload_cfg \<Rightarrow> upload \<Rightarrow> upload" where
  "loop_head cfg c =
     (if more_chunks c
      then send (RqChunk (the (up_next c)) (chunk_blob cfg (up_chunk_size c) (the (up_next c)))) SendChunk c
      else start_complete cfg (cf_completeBody cfg) c)"

subsection \<open>The handlers, one per awaited promise\<close>

definition extra_metadata_refused :: "answer \<Rightarrow> bool" where
  "extra_metadata_refused a \<longleftrightarrow>
     an_status a = 422 \<and>
     (let d = an_data a; fieldErrors = (if nullish (jget d ''errors'') then jget d ''detail'' else jget d ''errors'')
      in case fieldErrors of
           JArr es \<Rightarrow> list_ex (\<lambda>e. (case jget e ''loc'' of JArr (_ # l # _) \<Rightarrow> l = JStr ''metadata'' | _ \<Rightarrow> False)
                                  \<and> jget e ''type'' = JStr ''extra_forbidden'') es
         | _ \<Rightarrow> False)"

definition on_limit :: "api_error \<Rightarrow> jsval \<Rightarrow> upload \<Rightarrow> upload" where
  "on_limit e uploads c = finish (e\<lparr>ae_openUploads := uploads\<rparr>) (c\<lparr>up_limits := up_limits c @ [uploads]\<rparr>)"

definition opened :: "upload_cfg \<Rightarrow> answer \<Rightarrow> upload \<Rightarrow> upload" where
  "opened cfg a c =
     (if \<not> an_ok a
      then let err = upload_failed a; c1 = notify_if (apiError_notifies a) c in
        if ae_code err = JStr ''upload_limit_reached''
        then (case jget (an_data a) ''open_uploads'' of
                JArr us \<Rightarrow> on_limit err (JArr us) c1
              | _ \<Rightarrow> send RqListUploads (ListUploads err) c1)
        else finish err c1
      else if nullish (an_data a) then finish type_error c
      else let s = an_data a in
        loop_head cfg (progress (JNum 0) cfg False
          (c\<lparr>up_id := Some (jget s ''upload_id''), up_tracked := True, up_next := as_num (jget s ''next_index''),
             up_count := as_num (jget s ''chunk_count''),
             up_chunk_size := (case as_num (jget s ''chunk_size'') of Some k \<Rightarrow> k | None \<Rightarrow> 0)\<rparr>)))"

definition listed_uploads :: "answer \<Rightarrow> jsval" where
  "listed_uploads a =
     (if \<not> an_ok a then JNull
      else case safeJson (an_body a) of
          JArr us \<Rightarrow> JArr us
        | j \<Rightarrow> (case jget j ''items'' of JArr us \<Rightarrow> JArr us | _ \<Rightarrow> JNull))"

definition backoff_ms :: "int \<Rightarrow> nat \<Rightarrow> int" where
  "backoff_ms after failures = (if after > 0 then after * 1000 else min 16000 (1000 * 2 ^ (failures - 1)))"

text \<open>A failed chunk that may be tried again; \<open>res\<close> is \<open>None\<close> for a network failure.\<close>

definition retry_chunk :: "answer option \<Rightarrow> upload \<Rightarrow> upload" where
  "retry_chunk res c =
     (let f = up_failures c + 1; c1 = c\<lparr>up_failures := f\<rparr> in
      if f > UPLOAD_RETRIES
      then (case res of
              Some a \<Rightarrow> fail_loop (upload_failed a) (notify_if (apiError_notifies a) (c\<lparr>up_failures := f\<rparr>))
            | None \<Rightarrow> fail_loop (upload_network ''Upload failed: the connection to the server keeps failing.'') c1)
      else c1\<lparr>up_phase := Backoff (backoff_ms (case res of Some a \<Rightarrow> an_retry_after a | None \<Rightarrow> 0) f)\<rparr>)"

definition chunk_answered :: "upload_cfg \<Rightarrow> answer \<Rightarrow> upload \<Rightarrow> upload" where
  "chunk_answered cfg a c =
     (let data = an_data a; code = data_code data in
      if an_ok a
      then (if nullish data then fail_loop type_error c
            else loop_head cfg (progress (jget data ''received_bytes'') cfg False
                   (c\<lparr>up_next := as_num (jget data ''next_index''), up_failures := 0\<rparr>)))
      else if an_status a = 404 \<and> code = JStr ''upload_not_found'' then fail_loop interrupted c
      else if an_status a = 409 \<and> code = JStr ''upload_out_of_order''
      then loop_head cfg (c\<lparr>up_next := as_num (jget data ''next_index'')\<rparr>)
      else if code = JStr ''upload_storage_error''
      then fail_loop (upload_failed a) (notify_if (apiError_notifies a) c)
      else if \<not> (an_status a \<ge> 500 \<or> an_status a = 429 \<or> code = JStr ''upload_busy'')
      then fail_loop (upload_failed a) (notify_if (apiError_notifies a) c)
      else retry_chunk (Some a) c)"

text \<open>Progress within a chunk: reported while less than the whole blob is sent.\<close>

definition bytes_sent :: "upload_cfg \<Rightarrow> int \<Rightarrow> upload \<Rightarrow> upload" where
  "bytes_sent cfg n c =
     (let next = the (up_next c); cs = up_chunk_size c in
      if n < int (length (chunk_blob cfg cs next)) then progress (JNum (next * cs + n)) cfg False c else c)"

definition session_read :: "upload_cfg \<Rightarrow> answer option \<Rightarrow> upload \<Rightarrow> upload" where
  "session_read cfg st c =
     (case st of
        None \<Rightarrow> loop_head cfg c
      | Some a \<Rightarrow>
          if an_status a = 404 then fail_loop interrupted c
          else if an_ok a
          then (if nullish (an_data a) then fail_loop type_error c
                else loop_head cfg (c\<lparr>up_next := as_num (jget (an_data a) ''next_index'')\<rparr>))
          else loop_head cfg c)"

definition complete_answered :: "upload_cfg \<Rightarrow> answer \<Rightarrow> upload \<Rightarrow> upload" where
  "complete_answered cfg a c =
     (if an_ok a then c\<lparr>up_tracked := False, up_phase := Finished (Inr (an_data a))\<rparr>
      else if an_status a = 404 \<and> jget (an_data a) ''code'' = JStr ''upload_not_found''
      then finish interrupted (c\<lparr>up_tracked := False\<rparr>)
      else let err = upload_failed a; c1 = notify_if (apiError_notifies a) c in
        if cf_retainOnError cfg \<and> keptOpen (an_status a) (ae_code err)
        then c1\<lparr>up_phase := Retained (retained err)\<rparr>
        else finish err (cancel c1))"

text \<open>\<open>completeLost\<close>: what the failed completion does first, and what its own request brings.\<close>

definition complete_lost :: "upload_cfg \<Rightarrow> bool \<Rightarrow> upload \<Rightarrow> upload" where
  "complete_lost cfg aborted c =
     (if \<not> aborted \<and> cf_retainOnError cfg then send RqSession CheckKept c
      else (cancel c)\<lparr>up_phase := CancelLost aborted\<rparr>)"

definition cancel_answered :: "bool \<Rightarrow> int \<Rightarrow> upload \<Rightarrow> upload" where
  "cancel_answered aborted st c =
     finish (if st = 204
             then (if aborted then cancelled
                   else upload_network (''The connection failed while completing the upload; it was cancelled and nothing ''
                     @ ''was stored. Start the upload again.''))
             else resultUnknown) c"

definition page_hide :: "upload \<Rightarrow> upload" where
  "page_hide c = (if up_tracked c then cancel c else c)"

subsection \<open>The machine\<close>

fun upload_step :: "upload_cfg \<Rightarrow> upload_event \<Rightarrow> upload_phase \<Rightarrow> upload \<Rightarrow> upload" where
  "upload_step cfg PageHide _ c = page_hide c"
| "upload_step cfg (Answer a) OpenWithMeta c =
     (if extra_metadata_refused a then send (RqOpen (JObj (opening_body cfg))) OpenPlain c else opened cfg a c)"
| "upload_step cfg (Answer a) OpenPlain c = opened cfg a c"
| "upload_step cfg NetError OpenWithMeta c = finish network_error c"
| "upload_step cfg NetError OpenPlain c = finish network_error c"
| "upload_step cfg Aborted OpenWithMeta c = finish cancelled c"
| "upload_step cfg Aborted OpenPlain c = finish cancelled c"
| "upload_step cfg (Answer a) (ListUploads e) c = on_limit e (listed_uploads a) c"
| "upload_step cfg NetError (ListUploads e) c = on_limit e JNull c"
| "upload_step cfg (Answer a) SendChunk c = chunk_answered cfg a c"
| "upload_step cfg NetError SendChunk c = retry_chunk None c"
| "upload_step cfg Aborted SendChunk c = fail_loop cancelled c"
| "upload_step cfg (BytesSent n) SendChunk c = bytes_sent cfg n c"
| "upload_step cfg TimerFired (Backoff _) c = send RqSession ReadSession c"
| "upload_step cfg Aborted (Backoff _) c = fail_loop cancelled c"
| "upload_step cfg (Answer a) ReadSession c = session_read cfg (Some a) c"
| "upload_step cfg NetError ReadSession c = session_read cfg None c"
| "upload_step cfg Aborted ReadSession c = fail_loop cancelled c"
| "upload_step cfg (Answer a) Completing c = complete_answered cfg a c"
| "upload_step cfg NetError Completing c = complete_lost cfg False c"
| "upload_step cfg Aborted Completing c = complete_lost cfg True c"
| "upload_step cfg (Answer a) CheckKept c =
     (if an_ok a then c\<lparr>up_phase := Retained (retained complete_no_answer)\<rparr> else finish resultUnknown c)"
| "upload_step cfg NetError CheckKept c = finish resultUnknown c"
| "upload_step cfg (Answer a) (CancelLost ab) c = cancel_answered ab (an_status a) c"
| "upload_step cfg NetError (CancelLost ab) c = cancel_answered ab 0 c"
| "upload_step cfg (RetryComplete body) (Retained e) c = start_complete cfg body c"
| "upload_step cfg Discard (Retained e) c = finish e (cancel c)"
| "upload_step cfg _ _ c = c"

definition on_event :: "upload_cfg \<Rightarrow> upload_event \<Rightarrow> upload \<Rightarrow> upload" where
  "on_event cfg ev c = upload_step cfg ev (up_phase c) c"

inductive upload_reach :: "upload_cfg \<Rightarrow> upload \<Rightarrow> bool" for cfg where
  start: "upload_reach cfg (start_upload cfg aborted)"
| event: "upload_reach cfg c \<Longrightarrow> upload_reach cfg (on_event cfg ev c)"

subsection \<open>The fields each helper changes\<close>

lemma helper_phase [simp]:
  "up_phase (send rq ph c) = ph" "up_phase (finish e c) = Finished (Inl e)" "up_phase (fail_loop e c) = Finished (Inl e)"
  "up_phase (cancel c) = up_phase c" "up_phase (notify_if b c) = up_phase c" "up_phase (progress n cfg k c) = up_phase c"
  "up_phase (start_complete cfg body c) = Completing"
  by (simp_all add: send_def finish_def fail_loop_def cancel_def notify_if_def progress_def start_complete_def)

lemma helper_log [simp]:
  "up_log (send rq ph c) = up_log c @ [rq]" "up_log (finish e c) = up_log c" "up_log (fail_loop e c) = up_log c @ [RqDelete]"
  "up_log (cancel c) = up_log c @ [RqDelete]" "up_log (notify_if b c) = up_log c" "up_log (progress n cfg k c) = up_log c"
  "up_log (start_complete cfg body c)
     = up_log c @ [RqComplete (JObj (obj_spread [(''purpose'', JStr (cf_purpose cfg))] body))]"
  by (simp_all add: send_def finish_def fail_loop_def cancel_def notify_if_def progress_def start_complete_def)

lemma helper_tracked [simp]:
  "up_tracked (send rq ph c) = up_tracked c" "up_tracked (finish e c) = up_tracked c" "\<not> up_tracked (fail_loop e c)"
  "\<not> up_tracked (cancel c)" "up_tracked (notify_if b c) = up_tracked c" "up_tracked (progress n cfg k c) = up_tracked c"
  "up_tracked (start_complete cfg body c) = up_tracked c"
  by (simp_all add: send_def finish_def fail_loop_def cancel_def notify_if_def progress_def start_complete_def)

lemma helper_fields [simp]:
  "up_failures (send rq ph c) = up_failures c" "up_failures (finish e c) = up_failures c"
  "up_failures (fail_loop e c) = up_failures c" "up_failures (cancel c) = up_failures c"
  "up_failures (notify_if b c) = up_failures c" "up_failures (progress n cfg k c) = up_failures c"
  "up_failures (start_complete cfg body c) = up_failures c"
  "up_id (send rq ph c) = up_id c" "up_id (finish e c) = up_id c" "up_id (fail_loop e c) = up_id c"
  "up_id (cancel c) = up_id c" "up_id (notify_if b c) = up_id c" "up_id (progress n cfg k c) = up_id c"
  "up_id (start_complete cfg body c) = up_id c"
  "up_chunk_size (send rq ph c) = up_chunk_size c" "up_chunk_size (finish e c) = up_chunk_size c"
  "up_chunk_size (fail_loop e c) = up_chunk_size c" "up_chunk_size (cancel c) = up_chunk_size c"
  "up_chunk_size (notify_if b c) = up_chunk_size c" "up_chunk_size (progress n cfg k c) = up_chunk_size c"
  "up_chunk_size (start_complete cfg body c) = up_chunk_size c"
  by (simp_all add: send_def finish_def fail_loop_def cancel_def notify_if_def progress_def start_complete_def)

lemma helper_next [simp]:
  "up_next (send rq ph c) = up_next c" "up_next (finish e c) = up_next c" "up_next (fail_loop e c) = up_next c"
  "up_next (cancel c) = up_next c" "up_next (notify_if b c) = up_next c" "up_next (progress n cfg k c) = up_next c"
  "up_next (start_complete cfg body c) = up_next c"
  "up_count (send rq ph c) = up_count c" "up_count (finish e c) = up_count c" "up_count (fail_loop e c) = up_count c"
  "up_count (cancel c) = up_count c" "up_count (notify_if b c) = up_count c" "up_count (progress n cfg k c) = up_count c"
  "up_count (start_complete cfg body c) = up_count c"
  by (simp_all add: send_def finish_def fail_loop_def cancel_def notify_if_def progress_def start_complete_def)

lemma more_chunks_cong: "up_next c = up_next d \<Longrightarrow> up_count c = up_count d \<Longrightarrow> more_chunks c = more_chunks d"
  by (simp add: more_chunks_def)

lemma helper_more [simp]:
  "more_chunks (send rq ph c) = more_chunks c" "more_chunks (finish e c) = more_chunks c"
  "more_chunks (fail_loop e c) = more_chunks c" "more_chunks (cancel c) = more_chunks c"
  "more_chunks (notify_if b c) = more_chunks c" "more_chunks (progress n cfg k c) = more_chunks c"
  "more_chunks (start_complete cfg body c) = more_chunks c"
  by (rule more_chunks_cong; simp)+

lemma more_chunks_upd [simp]:
  "more_chunks (c\<lparr>up_phase := ph\<rparr>) = more_chunks c" "more_chunks (c\<lparr>up_failures := f\<rparr>) = more_chunks c"
  "more_chunks (c\<lparr>up_tracked := t\<rparr>) = more_chunks c" "more_chunks (c\<lparr>up_limits := us\<rparr>) = more_chunks c"
  by (simp_all add: more_chunks_def)

end
