(* ===== verification/Upload_Safety.thy ===== *)
theory Upload_Safety
  imports Upload
begin

text \<open>
  What every run of the upload machine keeps, whatever the server, the network, the user and the page
  do: the bound on retries, the order of the requests, and that no session is forgotten open.
\<close>

fun opening_phase :: "upload_phase \<Rightarrow> bool" where
  "opening_phase OpenWithMeta = True"
| "opening_phase OpenPlain = True"
| "opening_phase (ListUploads e) = True"
| "opening_phase _ = False"

fun sending_phase :: "upload_phase \<Rightarrow> bool" where
  "sending_phase SendChunk = True"
| "sending_phase (Backoff ms) = True"
| "sending_phase ReadSession = True"
| "sending_phase _ = False"

fun is_complete :: "upload_request \<Rightarrow> bool" where
  "is_complete (RqComplete b) = True"
| "is_complete _ = False"

fun is_chunk :: "upload_request \<Rightarrow> bool" where
  "is_chunk (RqChunk n b) = True"
| "is_chunk _ = False"

fun may_be_tracked :: "upload_phase \<Rightarrow> bool" where
  "may_be_tracked (Finished (Inl e)) = (e = resultUnknown)"
| "may_be_tracked (Finished (Inr v)) = False"
| "may_be_tracked (CancelLost ab) = False"
| "may_be_tracked ph = (\<not> opening_phase ph)"

text \<open>Ends that need no cancel: the server has no session, or what it did is unknown.\<close>

definition server_gone :: "upload_phase \<Rightarrow> bool" where
  "server_gone ph \<longleftrightarrow> (case ph of
      Finished (Inr v) \<Rightarrow> True
    | Finished (Inl e) \<Rightarrow> e = interrupted \<or> e = resultUnknown
    | _ \<Rightarrow> False)"

fun finished :: "upload_phase \<Rightarrow> bool" where
  "finished (Finished r) = True"
| "finished _ = False"

text \<open>Every chunk sent is the file's slice of its index.\<close>

definition chunks_ok :: "upload_cfg \<Rightarrow> int \<Rightarrow> upload_request list \<Rightarrow> bool" where
  "chunks_ok cfg cs log \<longleftrightarrow>
     list_all (\<lambda>rq. case rq of RqChunk n b \<Rightarrow> b = chunk_blob cfg cs n | _ \<Rightarrow> True) log"

lemma chunks_ok_simps [simp]:
  "chunks_ok cfg cs []" "chunks_ok cfg cs (log @ log') \<longleftrightarrow> chunks_ok cfg cs log \<and> chunks_ok cfg cs log'"
  "chunks_ok cfg cs [RqChunk n b] \<longleftrightarrow> b = chunk_blob cfg cs n"
  "chunks_ok cfg cs [RqComplete j]" "chunks_ok cfg cs [RqDelete]" "chunks_ok cfg cs [RqOpen j]"
  "chunks_ok cfg cs [RqSession]" "chunks_ok cfg cs [RqListUploads]"
  by (auto simp: chunks_ok_def)

lemma chunks_ok_none: "\<not> list_ex is_chunk log \<Longrightarrow> chunks_ok cfg cs log"
  by (auto simp: chunks_ok_def list_all_iff list_ex_iff split: upload_request.split)

definition upload_inv :: "upload_cfg \<Rightarrow> upload \<Rightarrow> bool" where
  "upload_inv cfg c \<longleftrightarrow>
     up_failures c \<le> (if finished (up_phase c) then 6 else 5)
   \<and> (opening_phase (up_phase c) \<longrightarrow> up_id c = None \<and> \<not> list_ex is_chunk (up_log c))
   \<and> (opening_phase (up_phase c) \<or> sending_phase (up_phase c) \<longrightarrow> \<not> list_ex is_complete (up_log c))
   \<and> (up_phase c = SendChunk \<longrightarrow> more_chunks c)
   \<and> (list_ex is_complete (up_log c) \<longrightarrow> \<not> more_chunks c)
   \<and> (\<not> opening_phase (up_phase c) \<and> \<not> sending_phase (up_phase c) \<and> \<not> finished (up_phase c) \<longrightarrow>
        list_ex is_complete (up_log c))
   \<and> (up_tracked c \<longrightarrow> may_be_tracked (up_phase c))
   \<and> (up_id c = None \<longrightarrow> \<not> up_tracked c)
   \<and> (up_id c \<noteq> None \<and> \<not> up_tracked c \<longrightarrow> RqDelete \<in> set (up_log c) \<or> server_gone (up_phase c))
   \<and> chunks_ok cfg (up_chunk_size c) (up_log c)"

lemma inv_start: "upload_inv cfg (start_upload cfg aborted)"
  by (simp add: upload_inv_def start_upload_def Let_def server_gone_def)

lemma inv_loop_head:
  assumes "upload_inv cfg c" "sending_phase (up_phase c)"
    "up_failures d \<le> 5" "up_id d = up_id c" "up_tracked d = up_tracked c" "up_log d = up_log c"
    "up_chunk_size d = up_chunk_size c"
  shows "upload_inv cfg (loop_head cfg d)"
  using assms by (cases "up_phase c") (auto simp: upload_inv_def loop_head_def server_gone_def)

lemma inv_fail_loop:
  assumes "upload_inv cfg c" "sending_phase (up_phase c)"
    "up_failures d \<le> 6" "up_id d = up_id c" "up_log d = up_log c" "up_chunk_size d = up_chunk_size c"
  shows "upload_inv cfg (fail_loop e d)"
  using assms by (cases "up_phase c") (auto simp: upload_inv_def)

lemma inv_on_limit:
  "upload_inv cfg c \<Longrightarrow> opening_phase (up_phase c) \<Longrightarrow> upload_inv cfg (on_limit e us (notify_if b c))"
  by (cases "up_phase c") (auto simp: upload_inv_def on_limit_def notify_if_def server_gone_def)

lemma inv_finish_opening:
  "upload_inv cfg c \<Longrightarrow> opening_phase (up_phase c) \<Longrightarrow> upload_inv cfg (finish e (notify_if b c))"
  by (cases "up_phase c") (auto simp: upload_inv_def server_gone_def)

lemma inv_list_uploads:
  "upload_inv cfg c \<Longrightarrow> opening_phase (up_phase c) \<Longrightarrow> upload_inv cfg (send RqListUploads (ListUploads e) (notify_if b c))"
  by (cases "up_phase c") (auto simp: upload_inv_def)

lemma inv_open_loop:
  assumes "upload_inv cfg c" "opening_phase (up_phase c)"
    "up_failures d = up_failures c" "up_id d = Some i" "up_tracked d" "up_log d = up_log c"
  shows "upload_inv cfg (loop_head cfg d)"
proof -
  have no_chunk: "chunks_ok cfg k (up_log c)" for k
    using assms(1,2) by (intro chunks_ok_none) (simp add: upload_inv_def)
  show ?thesis using assms no_chunk by (cases "up_phase c") (auto simp: upload_inv_def loop_head_def server_gone_def)
qed

lemma inv_opened:
  assumes "upload_inv cfg c" "opening_phase (up_phase c)"
  shows "upload_inv cfg (opened cfg a c)"
proof (cases "an_ok a \<and> \<not> nullish (an_data a)")
  case True
  then show ?thesis unfolding opened_def Let_def by (auto intro!: inv_open_loop [OF assms])
next
  case False
  have "upload_inv cfg (finish type_error (notify_if False c))" by (rule inv_finish_opening [OF assms])
  then have "upload_inv cfg (finish type_error c)" by (simp add: notify_if_def)
  with False show ?thesis
    unfolding opened_def Let_def
    by (auto split: jsval.split intro: inv_on_limit [OF assms] inv_list_uploads [OF assms] inv_finish_opening [OF assms])
qed

lemma inv_retry_chunk:
  assumes "upload_inv cfg c" "up_phase c = SendChunk"
  shows "upload_inv cfg (retry_chunk res c)"
proof -
  have f: "up_failures c \<le> 5" using assms by (simp add: upload_inv_def)
  have sp: "sending_phase (up_phase c)" using assms(2) by simp
  show ?thesis
  proof (cases "up_failures c + 1 > UPLOAD_RETRIES")
    case True
    with f show ?thesis
      by (auto simp: retry_chunk_def Let_def split: option.split intro!: inv_fail_loop [OF assms(1) sp])
  next
    case False
    with assms show ?thesis by (auto simp: retry_chunk_def Let_def upload_inv_def UPLOAD_RETRIES_def server_gone_def)
  qed
qed

lemma inv_chunk_answered:
  assumes "upload_inv cfg c" "up_phase c = SendChunk"
  shows "upload_inv cfg (chunk_answered cfg a c)"
proof -
  have f: "up_failures c \<le> 5" using assms by (simp add: upload_inv_def)
  have sp: "sending_phase (up_phase c)" using assms(2) by simp
  show ?thesis
    unfolding chunk_answered_def Let_def using f
    by (auto intro!: inv_loop_head [OF assms(1) sp] inv_fail_loop [OF assms(1) sp] inv_retry_chunk [OF assms])
qed

lemma inv_session_read:
  assumes "upload_inv cfg c" "up_phase c = ReadSession"
  shows "upload_inv cfg (session_read cfg st c)"
proof -
  have f: "up_failures c \<le> 5" using assms by (simp add: upload_inv_def)
  have sp: "sending_phase (up_phase c)" using assms(2) by simp
  show ?thesis
    unfolding session_read_def using f
    by (auto split: option.split intro!: inv_loop_head [OF assms(1) sp] inv_fail_loop [OF assms(1) sp])
qed

lemma inv_closing:
  assumes "upload_inv cfg c"
  shows "up_phase c = Completing \<Longrightarrow> upload_inv cfg (complete_answered cfg a c)"
    and "up_phase c = Completing \<Longrightarrow> upload_inv cfg (complete_lost cfg ab c)"
    and "up_phase c = CancelLost ab \<Longrightarrow> upload_inv cfg (cancel_answered ab st c)"
    and "up_phase c = CheckKept \<Longrightarrow> upload_inv cfg (c\<lparr>up_phase := Retained e\<rparr>)"
    and "up_phase c = CheckKept \<Longrightarrow> upload_inv cfg (finish resultUnknown c)"
    and "up_phase c = Retained e \<Longrightarrow> upload_inv cfg (start_complete cfg body c)"
    and "up_phase c = Retained e \<Longrightarrow> upload_inv cfg (finish e (cancel c))"
  using assms
  by (auto simp: upload_inv_def complete_answered_def complete_lost_def cancel_answered_def server_gone_def Let_def)

lemma inv_same_control:
  assumes "upload_inv cfg c" "up_phase d = up_phase c" "up_failures d = up_failures c" "up_id d = up_id c"
    "up_log d = up_log c" "up_tracked d = up_tracked c" "up_next d = up_next c" "up_count d = up_count c"
    "up_chunk_size d = up_chunk_size c"
  shows "upload_inv cfg d"
  using assms more_chunks_cong [of d c] by (simp add: upload_inv_def)

lemma inv_bytes_sent: "upload_inv cfg c \<Longrightarrow> upload_inv cfg (bytes_sent cfg n c)"
  by (rule inv_same_control [of cfg c]) (simp_all add: bytes_sent_def Let_def)

lemma inv_page_hide: "upload_inv cfg c \<Longrightarrow> upload_inv cfg (page_hide c)"
  by (auto simp: page_hide_def upload_inv_def)

lemma inv_waiting:
  assumes "upload_inv cfg c"
  shows "up_phase c = Backoff ms \<Longrightarrow> upload_inv cfg (send RqSession ReadSession c)"
    and "up_phase c = OpenWithMeta \<Longrightarrow> upload_inv cfg (send (RqOpen b) OpenPlain c)"
  using assms by (auto simp: upload_inv_def server_gone_def)

lemma inv_on_event: "upload_inv cfg c \<Longrightarrow> upload_inv cfg (on_event cfg ev c)"
proof -
  assume inv: "upload_inv cfg c"
  have fin: "opening_phase (up_phase c) \<Longrightarrow> upload_inv cfg (finish e c)" for e
    using inv_finish_opening [OF inv, of e False] by (simp add: notify_if_def)
  have lim: "opening_phase (up_phase c) \<Longrightarrow> upload_inv cfg (on_limit e us c)" for e us
    using inv_on_limit [OF inv, of e us False] by (simp add: notify_if_def)
  have fl: "sending_phase (up_phase c) \<Longrightarrow> upload_inv cfg (fail_loop e c)" for e
    using inv by (intro inv_fail_loop [OF inv]) (auto simp: upload_inv_def split: if_splits)
  show ?thesis
    unfolding on_event_def
    by (cases ev; cases "up_phase c";
        simp add: inv fin lim fl inv_page_hide inv_bytes_sent inv_opened inv_chunk_answered inv_session_read
          inv_retry_chunk inv_closing inv_waiting)
qed

lemma reach_inv: "upload_reach cfg c \<Longrightarrow> upload_inv cfg c"
  by (induction rule: upload_reach.induct) (simp_all add: inv_start inv_on_event)

subsection \<open>The guarantees\<close>

definition upload_run :: "upload_cfg \<Rightarrow> bool \<Rightarrow> upload_event list \<Rightarrow> upload" where
  "upload_run cfg aborted evs = foldl (\<lambda>c ev. on_event cfg ev c) (start_upload cfg aborted) evs"

lemma reach_run: "upload_reach cfg (upload_run cfg aborted evs)"
  by (induction evs rule: rev_induct) (simp_all add: upload_run_def upload_reach.intros)

lemma run_reach: "upload_reach cfg c \<Longrightarrow> \<exists>aborted evs. c = upload_run cfg aborted evs"
proof (induction rule: upload_reach.induct)
  case (start aborted)
  have "start_upload cfg aborted = upload_run cfg aborted []" by (simp add: upload_run_def)
  then show ?case by blast
next
  case (event c ev)
  then obtain aborted evs where "c = upload_run cfg aborted evs" by blast
  then have "on_event cfg ev c = upload_run cfg aborted (evs @ [ev])" by (simp add: upload_run_def)
  then show ?case by blast
qed


definition sample_cfg :: "bool \<Rightarrow> upload_cfg" where
  "sample_cfg retain = \<lparr>cf_purpose = ''evidence'', cf_filename = ''a.img'', cf_file = ''abc'', cf_mimeType = None,
     cf_completeBody = [], cf_retainOnError = retain\<rparr>"

definition sample_session :: answer where
  "sample_session = \<lparr>an_status = 201, an_body = JsonText (JObj [(''upload_id'', JStr ''u''), (''next_index'', JNum 0),
     (''chunk_count'', JNum 2), (''chunk_size'', JNum 2)]), an_retry_after = 0\<rparr>"


text \<open>C3: no session is forgotten. Once the upload has ended with an error after the server opened a session, the
  browser has sent its \<open>DELETE\<close>, unless the server said the session is gone (interrupted) or the result is
  unknown; only in the unknown case does the page still track the session (and delete it when it is left).\<close>

theorem upload_session_not_left_open:
  assumes "up_phase (upload_run cfg aborted evs) = Finished (Inl e)" "up_id (upload_run cfg aborted evs) \<noteq> None"
  shows "(RqDelete \<in> set (up_log (upload_run cfg aborted evs)) \<or> e = interrupted \<or> e = resultUnknown)
    \<and> (up_tracked (upload_run cfg aborted evs) \<longrightarrow> e = resultUnknown)"
  using reach_inv [OF reach_run, of cfg aborted evs] assms by (auto simp: upload_inv_def server_gone_def)

lemma upload_session_not_left_open_witness:
  "RqDelete \<in> set (up_log (upload_run (sample_cfg False) False [Answer sample_session, Aborted]))"
proof -
  have "up_phase (upload_run (sample_cfg False) False [Answer sample_session, Aborted]) = Finished (Inl cancelled)"
    "up_id (upload_run (sample_cfg False) False [Answer sample_session, Aborted]) \<noteq> None"
    "cancelled \<noteq> interrupted \<and> cancelled \<noteq> resultUnknown"
    by code_simp+
  with upload_session_not_left_open [OF this(1,2)] show ?thesis by blast
qed

text \<open>Completion is asked for only after the last chunk. In a run that has sent a \<open>complete\<close>, the next index has
  reached the session's chunk count and no chunk follows it; and every chunk ever sent is the slice of
  the file its index names.\<close>

theorem upload_complete_after_chunks:
  "(list_ex is_complete (up_log (upload_run cfg aborted evs)) \<longrightarrow>
      \<not> more_chunks (upload_run cfg aborted evs) \<and> \<not> sending_phase (up_phase (upload_run cfg aborted evs)))
   \<and> (RqChunk n b \<in> set (up_log (upload_run cfg aborted evs)) \<longrightarrow>
        b = chunk_blob cfg (up_chunk_size (upload_run cfg aborted evs)) n)"
  using reach_inv [OF reach_run, of cfg aborted evs] by (auto simp: upload_inv_def chunks_ok_def list_all_iff)

lemma upload_complete_after_chunks_witness:
  "''c'' = chunk_blob (sample_cfg False) 2 1"
proof -
  define evs where "evs = [Answer sample_session, Answer \<lparr>an_status = 200, an_body =
      JsonText (JObj [(''next_index'', JNum 1)]), an_retry_after = 0\<rparr>]"
  have "RqChunk 1 ''c'' \<in> set (up_log (upload_run (sample_cfg False) False evs))"
    "up_chunk_size (upload_run (sample_cfg False) False evs) = 2"
    unfolding evs_def by code_simp+
  with upload_complete_after_chunks [of "sample_cfg False" False evs 1 "''c''"] show ?thesis by simp
qed

end
