(* ===== verification/Upload_System.thy ===== *)
theory Upload_System
  imports Upload_Safety
begin

text \<open>
  The upload client against the upload routes of the server, \<^verbatim>\<open>backend/evidence/uploads.py\<close>: the session
  with its \<open>next_index\<close>, the chunk route, the completion in its two steps (accepted under the lock, then
  finished) and the cancel. Between the two, requests and answers can be lost, proxies can answer with
  an error of their own, and sessions can expire at any time.
  The routes' other refusals (wrong content type, a body cut off, a metadata error of the completion) leave
  the session as it is and carry no \<open>next_index\<close>: they are \<open>foreign_error\<close> answers. A failed write
  to the staging area ends the session and answers 503: the session ends, then a \<open>foreign_error\<close>.
\<close>

subsection \<open>The server's session\<close>

datatype sv_state = SvOpen | SvCompleting | SvEnded

record server =
  sv_size :: nat
  sv_data :: string            \<comment> \<open>the staged bytes\<close>
  sv_next :: nat
  sv_state :: sv_state
  sv_stored :: "string option"
  sv_waiting :: bool           \<comment> \<open>a client still waits for the completion's answer\<close>

definition CHUNK_SIZE :: nat where
  "CHUNK_SIZE = 8 * 1024 * 1024"

definition chunk_count :: "server \<Rightarrow> nat" where
  "chunk_count s = (sv_size s + (CHUNK_SIZE - 1)) div CHUNK_SIZE"

definition chunk_len :: "server \<Rightarrow> nat \<Rightarrow> nat" where
  "chunk_len s index = min CHUNK_SIZE (sv_size s - index * CHUNK_SIZE)"

definition new_session :: "nat \<Rightarrow> server" where
  "new_session n = \<lparr>sv_size = n, sv_data = [], sv_next = 0, sv_state = SvOpen, sv_stored = None, sv_waiting = False\<rparr>"

definition sv_progress :: "server \<Rightarrow> (string \<times> jsval) list" where
  "sv_progress s = [(''next_index'', JNum (int (sv_next s))), (''chunk_count'', JNum (int (chunk_count s))),
     (''received_bytes'', JNum (int (length (sv_data s))))]"

definition session_out :: "server \<Rightarrow> int \<Rightarrow> answer" where
  "session_out s status =
     \<lparr>an_status = status, an_body = JsonText (JObj ([(''upload_id'', JStr ''id''),
        (''chunk_size'', JNum (int CHUNK_SIZE))] @ sv_progress s)), an_retry_after = 0\<rparr>"

definition refuse :: "int \<Rightarrow> string \<Rightarrow> (string \<times> jsval) list \<Rightarrow> answer" where
  "refuse status code extra =
     \<lparr>an_status = status, an_body = JsonText (JObj ((''code'', JStr code) # extra)), an_retry_after = 0\<rparr>"

definition sv_not_found :: answer where
  "sv_not_found = refuse 404 ''upload_not_found'' []"

definition put_upload_chunk :: "nat \<Rightarrow> string \<Rightarrow> server \<Rightarrow> server \<times> answer" where
  "put_upload_chunk index body s =
     (if sv_state s = SvCompleting then (s, refuse 409 ''upload_busy'' (sv_progress s))
      else if sv_state s \<noteq> SvOpen then (s, sv_not_found)
      else if index \<noteq> sv_next s \<or> sv_next s \<ge> chunk_count s then (s, refuse 409 ''upload_out_of_order'' (sv_progress s))
      else let want = chunk_len s index in
        if length body > CHUNK_SIZE then (s, refuse 413 ''chunk_too_large'' (sv_progress s))
        else if length body > want then (s, refuse 413 ''upload_too_large'' (sv_progress s))
        else if length body < want then (s, refuse 422 ''chunk_length_mismatch'' (sv_progress s))
        else let s' = s\<lparr>sv_data := sv_data s @ body, sv_next := sv_next s + 1\<rparr> in (s', session_out s' 200))"

definition get_upload_session :: "server \<Rightarrow> answer" where
  "get_upload_session s = (if sv_state s = SvEnded then sv_not_found else session_out s 200)"

text \<open>The completion: refused at once (\<open>Some\<close> answer), or accepted, the session being completed.\<close>

definition complete_begin :: "server \<Rightarrow> server \<times> answer option" where
  "complete_begin s =
     (if sv_state s = SvCompleting then (s, Some (refuse 409 ''upload_busy'' (sv_progress s)))
      else if sv_state s \<noteq> SvOpen then (s, Some sv_not_found)
      else if length (sv_data s) \<noteq> sv_size s then (s, Some (refuse 409 ''upload_incomplete'' (sv_progress s)))
      else (s\<lparr>sv_state := SvCompleting, sv_waiting := True\<rparr>, None))"

text \<open>Its end: stored (201 or 200 with the exhibit), or refused for its content. The session ends.\<close>

definition complete_stored :: "server \<Rightarrow> server" where
  "complete_stored s = s\<lparr>sv_state := SvEnded, sv_stored := Some (sv_data s), sv_waiting := False\<rparr>"

definition complete_refused :: "server \<Rightarrow> server" where
  "complete_refused s = s\<lparr>sv_state := SvEnded, sv_waiting := False\<rparr>"

definition abort_upload_session :: "server \<Rightarrow> server \<times> int" where
  "abort_upload_session s =
     (case sv_state s of
        SvCompleting \<Rightarrow> (s, 409)
      | SvEnded \<Rightarrow> (s, 404)
      | SvOpen \<Rightarrow> (s\<lparr>sv_state := SvEnded\<rparr>, 204))"

subsection \<open>Client and server together\<close>

text \<open>A proxy's answer: never a success, and none of the codes that carry an index.\<close>

definition foreign_error :: "answer \<Rightarrow> bool" where
  "foreign_error a \<longleftrightarrow> \<not> an_ok a \<and> data_code (an_data a) \<noteq> JStr ''upload_out_of_order''"

definition local_event :: "upload_event \<Rightarrow> bool" where
  "local_event ev \<longleftrightarrow> (case ev of Answer a \<Rightarrow> foreign_error a | _ \<Rightarrow> True)"

definition hang_up :: "server option \<Rightarrow> server option" where
  "hang_up s = map_option (\<lambda>x. x\<lparr>sv_waiting := False\<rparr>) s"

definition chunk_index :: "upload \<Rightarrow> nat" where
  "chunk_index c = nat (the (up_next c))"

definition chunk_body :: "upload_cfg \<Rightarrow> upload \<Rightarrow> string" where
  "chunk_body cfg c = chunk_blob cfg (up_chunk_size c) (the (up_next c))"

inductive upload_sys :: "upload_cfg \<Rightarrow> upload \<Rightarrow> server option \<Rightarrow> bool" for cfg where
  sys_start: "upload_sys cfg (start_upload cfg aborted) None"
| sys_create: "upload_sys cfg c None \<Longrightarrow> up_phase c = OpenWithMeta \<or> up_phase c = OpenPlain \<Longrightarrow>
    s = new_session (length (cf_file cfg)) \<Longrightarrow>
    upload_sys cfg (on_event cfg (Answer (session_out s 201)) c) (Some s)"
| sys_chunk: "upload_sys cfg c (Some s) \<Longrightarrow> up_phase c = SendChunk \<Longrightarrow>
    put_upload_chunk (chunk_index c) (chunk_body cfg c) s = (s', a) \<Longrightarrow>
    upload_sys cfg (on_event cfg (Answer a) c) (Some s')"
| sys_chunk_lost: "upload_sys cfg c (Some s) \<Longrightarrow> up_phase c = SendChunk \<Longrightarrow>
    put_upload_chunk (chunk_index c) (chunk_body cfg c) s = (s', a) \<Longrightarrow>
    upload_sys cfg (on_event cfg NetError c) (Some s')"
| sys_read: "upload_sys cfg c (Some s) \<Longrightarrow> up_phase c = ReadSession \<or> up_phase c = CheckKept \<Longrightarrow>
    upload_sys cfg (on_event cfg (Answer (get_upload_session s)) c) (Some s)"
| sys_complete: "upload_sys cfg c (Some s) \<Longrightarrow> up_phase c = Completing \<Longrightarrow> \<not> sv_waiting s \<Longrightarrow>
    complete_begin s = (s', None) \<Longrightarrow> upload_sys cfg c (Some s')"
| sys_complete_no: "upload_sys cfg c (Some s) \<Longrightarrow> up_phase c = Completing \<Longrightarrow> \<not> sv_waiting s \<Longrightarrow>
    complete_begin s = (s', Some a) \<Longrightarrow> upload_sys cfg (on_event cfg (Answer a) c) (Some s')"
| sys_stored: "upload_sys cfg c (Some s) \<Longrightarrow> up_phase c = Completing \<Longrightarrow> sv_state s = SvCompleting \<Longrightarrow> sv_waiting s \<Longrightarrow>
    an_ok a \<Longrightarrow> upload_sys cfg (on_event cfg (Answer a) c) (Some (complete_stored s))"
| sys_stored_unheard: "upload_sys cfg c (Some s) \<Longrightarrow> sv_state s = SvCompleting \<Longrightarrow> \<not> sv_waiting s \<Longrightarrow>
    upload_sys cfg c (Some (complete_stored s))"
| sys_refused: "upload_sys cfg c (Some s) \<Longrightarrow> up_phase c = Completing \<Longrightarrow> sv_state s = SvCompleting \<Longrightarrow> sv_waiting s \<Longrightarrow>
    foreign_error a \<Longrightarrow> upload_sys cfg (on_event cfg (Answer a) c) (Some (complete_refused s))"
| sys_refused_unheard: "upload_sys cfg c (Some s) \<Longrightarrow> sv_state s = SvCompleting \<Longrightarrow> \<not> sv_waiting s \<Longrightarrow>
    upload_sys cfg c (Some (complete_refused s))"
| sys_local: "upload_sys cfg c s \<Longrightarrow> local_event ev \<Longrightarrow>
    upload_sys cfg (on_event cfg ev c) (if up_phase (on_event cfg ev c) = Completing then s else hang_up s)"
| sys_delete: "upload_sys cfg c (Some s) \<Longrightarrow> RqDelete \<in> set (up_log c) \<Longrightarrow>
    abort_upload_session s = (s', st) \<Longrightarrow> upload_sys cfg c (Some s')"
| sys_delete_answered: "upload_sys cfg c (Some s) \<Longrightarrow> up_phase c = CancelLost ab \<Longrightarrow>
    abort_upload_session s = (s', st) \<Longrightarrow> upload_sys cfg (cancel_answered ab st c) (Some s')"
| sys_expire: "upload_sys cfg c (Some s) \<Longrightarrow> sv_state s = SvOpen \<Longrightarrow> upload_sys cfg c (Some (s\<lparr>sv_state := SvEnded\<rparr>))"

subsection \<open>The client side of the invariant\<close>

text \<open>An answer that moves the client's index names an index up to \<open>m\<close>.\<close>

definition index_ok :: "nat \<Rightarrow> answer \<Rightarrow> bool" where
  "index_ok m a \<longleftrightarrow>
     (an_ok a \<or> data_code (an_data a) = JStr ''upload_out_of_order'' \<longrightarrow>
        (\<exists>k \<le> m. jget (an_data a) ''next_index'' = JNum (int k)))"

definition cl_ok :: "nat \<Rightarrow> upload \<Rightarrow> bool" where
  "cl_ok m c \<longleftrightarrow> up_id c \<noteq> None \<and> \<not> opening_phase (up_phase c) \<and> up_chunk_size c = int CHUNK_SIZE
     \<and> up_count c = Some (int m) \<and> (\<exists>k \<le> m. up_next c = Some (int k))"

lemma cl_ok_same:
  assumes "cl_ok m c" "up_id d = up_id c" "up_chunk_size d = up_chunk_size c" "up_count d = up_count c"
    "up_next d = up_next c" "\<not> opening_phase (up_phase d)"
  shows "cl_ok m d"
  using assms by (simp add: cl_ok_def)

definition no_result :: "upload \<Rightarrow> bool" where
  "no_result c \<longleftrightarrow> (\<forall>v. up_phase c \<noteq> Finished (Inr v))"

lemma no_result_simps [simp]:
  "no_result (send rq ph c) \<longleftrightarrow> (\<forall>v. ph \<noteq> Finished (Inr v))" "no_result (finish e c)" "no_result (fail_loop e c)"
  "no_result (start_complete cfg body c)" "no_result (c\<lparr>up_phase := ph\<rparr>) \<longleftrightarrow> (\<forall>v. ph \<noteq> Finished (Inr v))"
  by (simp_all add: no_result_def)

lemma no_result_loop [simp]: "no_result (loop_head cfg c)"
  by (simp add: loop_head_def)

lemma loop_head_fields [simp]:
  "up_id (loop_head cfg c) = up_id c" "up_chunk_size (loop_head cfg c) = up_chunk_size c"
  "up_count (loop_head cfg c) = up_count c" "up_next (loop_head cfg c) = up_next c"
  "\<not> opening_phase (up_phase (loop_head cfg c))"
  by (simp_all add: loop_head_def)

lemma cl_helpers:
  assumes "cl_ok m c"
  shows "\<not> opening_phase ph \<Longrightarrow> cl_ok m (send rq ph c)" "cl_ok m (finish e c)" "cl_ok m (fail_loop e c)"
    "cl_ok m (loop_head cfg c)" "cl_ok m (start_complete cfg body c)" "cl_ok m (cancel c)" "cl_ok m (progress n cfg b c)"
    "cl_ok m (notify_if b c)" "\<not> opening_phase ph \<Longrightarrow> cl_ok m (c\<lparr>up_phase := ph\<rparr>)" "cl_ok m (c\<lparr>up_tracked := t\<rparr>)"
    "cl_ok m (c\<lparr>up_failures := f\<rparr>)"
    "k \<le> m \<Longrightarrow> cl_ok m (c\<lparr>up_next := Some (int k), up_failures := f\<rparr>)"
    "k \<le> m \<Longrightarrow> cl_ok m (c\<lparr>up_next := Some (int k)\<rparr>)"
  using assms by (auto simp: cl_ok_def)

lemma cl_retry: "cl_ok m c \<Longrightarrow> cl_ok m (retry_chunk res c) \<and> no_result (retry_chunk res c)"
  by (cases res) (simp_all add: retry_chunk_def Let_def cl_helpers)

lemma index_okD:
  "index_ok m a \<Longrightarrow> an_ok a \<or> data_code (an_data a) = JStr ''upload_out_of_order'' \<Longrightarrow>
     \<exists>k \<le> m. as_num (jget (an_data a) ''next_index'') = Some (int k)"
  by (auto simp: index_ok_def)

lemma cl_chunk_answered:
  assumes "cl_ok m c" "index_ok m a"
  shows "cl_ok m (chunk_answered cfg a c) \<and> no_result (chunk_answered cfg a c)"
proof (cases "an_ok a \<or> data_code (an_data a) = JStr ''upload_out_of_order''")
  case True
  with index_okD [OF assms(2)] obtain k where "k \<le> m" "as_num (jget (an_data a) ''next_index'') = Some (int k)" by blast
  with assms(1) cl_retry [OF assms(1), of "Some a"] show ?thesis
    by (simp add: chunk_answered_def Let_def cl_helpers)
next
  case False
  with assms(1) cl_retry [OF assms(1), of "Some a"] show ?thesis
    by (simp add: chunk_answered_def Let_def cl_helpers)
qed

lemma cl_session_read:
  assumes "cl_ok m c" "\<And>a. st = Some a \<Longrightarrow> index_ok m a"
  shows "cl_ok m (session_read cfg st c) \<and> no_result (session_read cfg st c)"
proof (cases st)
  case None
  with assms(1) show ?thesis by (simp add: session_read_def cl_helpers)
next
  case (Some a)
  show ?thesis
  proof (cases "an_ok a")
    case True
    with index_okD [OF assms(2) [OF Some]] obtain k where "k \<le> m" "as_num (jget (an_data a) ''next_index'') = Some (int k)"
      by blast
    with assms(1) Some True show ?thesis by (simp add: session_read_def cl_helpers)
  next
    case False
    with assms(1) Some show ?thesis by (simp add: session_read_def cl_helpers)
  qed
qed

lemma cl_closing:
  assumes "cl_ok m c"
  shows "cl_ok m (complete_answered cfg a c) \<and> (an_ok a \<or> no_result (complete_answered cfg a c))"
    "cl_ok m (complete_lost cfg ab c) \<and> no_result (complete_lost cfg ab c)"
    "cl_ok m (cancel_answered ab st c) \<and> no_result (cancel_answered ab st c)"
  using assms by (auto simp: complete_answered_def complete_lost_def cancel_answered_def Let_def cl_helpers)

lemma cl_page: "cl_ok m c \<Longrightarrow> cl_ok m (page_hide c)" "no_result (page_hide c) = no_result c"
  by (simp_all add: page_hide_def cl_helpers no_result_def)

lemma cl_bytes: "cl_ok m c \<Longrightarrow> cl_ok m (bytes_sent cfg n c)" "no_result (bytes_sent cfg n c) = no_result c"
  by (simp_all add: bytes_sent_def Let_def cl_helpers no_result_def)

lemma cl_on_event:
  assumes c: "cl_ok m c" and a: "\<And>a. ev = Answer a \<Longrightarrow> index_ok m a"
    and n: "\<And>a. ev = Answer a \<Longrightarrow> up_phase c = Completing \<Longrightarrow> \<not> an_ok a"
  shows "cl_ok m (on_event cfg ev c) \<and> (no_result c \<longrightarrow> no_result (on_event cfg ev c))"
proof (cases ev)
  case (Answer x)
  have no: "\<not> opening_phase (up_phase c)" using c by (simp add: cl_ok_def)
  note i = a [OF Answer]
  have k: "up_phase c = Completing \<Longrightarrow> no_result (complete_answered cfg x c)"
    using cl_closing(1) [OF c, of cfg x] n [OF Answer] by blast
  show ?thesis
    using no cl_chunk_answered [OF c i, of cfg] cl_session_read [OF c, of "Some x" cfg] i cl_closing(1) [OF c, of cfg x] k
      cl_closing(3) [OF c]
    unfolding on_event_def Answer
    by (cases "up_phase c") (simp_all add: cl_helpers c)
next
  case PageHide
  then show ?thesis by (simp add: on_event_def cl_page c)
next
  case (BytesSent b)
  then show ?thesis by (cases "up_phase c") (simp_all add: on_event_def cl_bytes c)
next
  case NetError
  have no: "\<not> opening_phase (up_phase c)" using c by (simp add: cl_ok_def)
  show ?thesis
    using no cl_retry [OF c, of None] cl_session_read [OF c, of None cfg] cl_closing(2,3) [OF c]
    unfolding on_event_def NetError
    by (cases "up_phase c") (simp_all add: cl_helpers c)
next
  case Aborted
  have no: "\<not> opening_phase (up_phase c)" using c by (simp add: cl_ok_def)
  show ?thesis
    using no cl_closing(2,3) [OF c] unfolding on_event_def Aborted
    by (cases "up_phase c") (simp_all add: cl_helpers c)
qed (cases "up_phase c"; simp add: on_event_def cl_helpers c)+

subsection \<open>The server side\<close>

definition sv_ok :: "string \<Rightarrow> server \<Rightarrow> bool" where
  "sv_ok file s \<longleftrightarrow> sv_size s = length file \<and> sv_next s \<le> chunk_count s
     \<and> sv_data s = take (sv_next s * CHUNK_SIZE) file
     \<and> (sv_state s = SvCompleting \<longrightarrow> length (sv_data s) = sv_size s)
     \<and> (\<forall>d. sv_stored s = Some d \<longrightarrow> d = file)"

lemma chunk_count_flags [simp]:
  "chunk_count (s\<lparr>sv_waiting := w\<rparr>) = chunk_count s" "chunk_count (s\<lparr>sv_state := st\<rparr>) = chunk_count s"
  "chunk_count (s\<lparr>sv_state := st, sv_waiting := w\<rparr>) = chunk_count s"
  "chunk_count (s\<lparr>sv_state := st, sv_stored := d, sv_waiting := w\<rparr>) = chunk_count s"
  "chunk_count (s\<lparr>sv_state := st, sv_stored := d\<rparr>) = chunk_count s"
  "chunk_count (complete_stored s) = chunk_count s" "chunk_count (complete_refused s) = chunk_count s"
  by (simp_all add: chunk_count_def complete_stored_def complete_refused_def)

lemma sv_ok_waiting [simp]: "sv_ok file (s\<lparr>sv_waiting := w\<rparr>) = sv_ok file s"
  by (simp add: sv_ok_def)

lemma CHUNK_SIZE_pos: "0 < CHUNK_SIZE"
  by (simp add: CHUNK_SIZE_def)

lemma count_bound: "k < chunk_count s \<Longrightarrow> k * CHUNK_SIZE < sv_size s"
proof -
  assume "k < chunk_count s"
  then have "Suc k \<le> (sv_size s + (CHUNK_SIZE - 1)) div CHUNK_SIZE" by (simp add: chunk_count_def)
  then have "Suc k * CHUNK_SIZE \<le> sv_size s + (CHUNK_SIZE - 1)"
    using CHUNK_SIZE_pos by (simp add: less_eq_div_iff_mult_less_eq)
  then show ?thesis using CHUNK_SIZE_pos by simp
qed

lemma js_slice_nat: "i \<le> j \<Longrightarrow> j \<le> length f \<Longrightarrow> js_slice (int i) (int j) f = take (j - i) (drop i f)"
proof -
  assume ij: "i \<le> j" "j \<le> length f"
  then have "min (int j) (int (length f)) = int j" "min (int i) (int (length f)) = int i" by simp_all
  moreover have "nat (int j - int i) = j - i" using ij by simp
  ultimately show ?thesis by (simp add: js_slice_def)
qed

text \<open>The client's slice of a chunk is the file's next piece, of the length the server wants.\<close>

lemma chunk_blob_eq:
  assumes "k * CHUNK_SIZE < length (cf_file cfg)"
  shows "chunk_blob cfg (int CHUNK_SIZE) (int k) =
    take (min CHUNK_SIZE (length (cf_file cfg) - k * CHUNK_SIZE)) (drop (k * CHUNK_SIZE) (cf_file cfg))"
proof -
  define n where "n = length (cf_file cfg)"
  define b where "b = k * CHUNK_SIZE"
  have b: "int k * int CHUNK_SIZE = int b" by (simp add: b_def)
  have "chunk_blob cfg (int CHUNK_SIZE) (int k) = js_slice (int b) (min (int n) (int (b + CHUNK_SIZE))) (cf_file cfg)"
    by (simp add: chunk_blob_def Let_def file_size_def b n_def)
  also have "min (int n) (int (b + CHUNK_SIZE)) = int (min n (b + CHUNK_SIZE))" by simp
  also have "js_slice (int b) (int (min n (b + CHUNK_SIZE))) (cf_file cfg)
      = take (min n (b + CHUNK_SIZE) - b) (drop b (cf_file cfg))"
    using assms by (intro js_slice_nat) (simp_all add: n_def b_def)
  also have "min n (b + CHUNK_SIZE) - b = min CHUNK_SIZE (n - b)" by simp
  finally show ?thesis by (simp add: n_def b_def)
qed

lemma take_min_length: "take (min n (length xs)) xs = take n xs"
  by (simp add: min_def)

lemma sv_put_ok:
  assumes "sv_ok file s" "put_upload_chunk k body s = (s', a)"
    and body: "k < chunk_count s \<Longrightarrow> body = take (chunk_len s k) (drop (k * CHUNK_SIZE) file)"
  shows "sv_ok file s' \<and> chunk_count s' = chunk_count s"
proof (cases "sv_state s = SvOpen \<and> k = sv_next s \<and> sv_next s < chunk_count s")
  case True
  define want where "want = chunk_len s k"
  have cnt: "k < chunk_count s" using True by simp
  have w: "want = min CHUNK_SIZE (length file - k * CHUNK_SIZE)"
    using assms(1) by (simp add: want_def chunk_len_def sv_ok_def)
  have b: "body = take want (drop (k * CHUNK_SIZE) file)" using body [OF cnt] by (simp add: want_def)
  have len: "length body = want" "want \<le> CHUNK_SIZE" by (simp_all add: b w)
  have s': "s' = s\<lparr>sv_data := sv_data s @ body, sv_next := sv_next s + 1\<rparr>"
    using assms(2) True len by (simp add: put_upload_chunk_def Let_def want_def)
  have "take want (drop (k * CHUNK_SIZE) file) = take CHUNK_SIZE (drop (k * CHUNK_SIZE) file)"
    using take_min_length [of CHUNK_SIZE "drop (k * CHUNK_SIZE) file"] by (simp add: w)
  then have "sv_data s @ body = take (k * CHUNK_SIZE + CHUNK_SIZE) file"
    using assms(1) True by (simp add: sv_ok_def b take_add)
  then have "sv_data s' = take (sv_next s' * CHUNK_SIZE) file"
    using True by (simp add: s' algebra_simps)
  with assms(1) True show ?thesis by (simp add: s' sv_ok_def chunk_count_def)
next
  case False
  then have "s' = s" using assms(2) by (auto simp: put_upload_chunk_def Let_def split: if_splits)
  with assms(1) show ?thesis by simp
qed

lemma get_index:
  "index_ok m (session_out s st) \<longleftrightarrow> ((200 \<le> st \<and> st < 300) \<longrightarrow> sv_next s \<le> m)"
  by (auto simp: index_ok_def session_out_def an_ok_def an_data_def sv_progress_def data_code_def)

lemma refuse_index:
  "index_ok m (refuse st code ex) \<longleftrightarrow>
     ((200 \<le> st \<and> st < 300) \<or> code = ''upload_out_of_order'' \<longrightarrow>
        (\<exists>k \<le> m. jget (JObj ((''code'', JStr code) # ex)) ''next_index'' = JNum (int k)))"
  by (simp add: index_ok_def refuse_def an_ok_def an_data_def data_code_def)

lemma put_index:
  assumes "sv_ok file s" "put_upload_chunk k body s = (s', a)"
  shows "index_ok (chunk_count s) a"
  using assms
  by (auto simp: put_upload_chunk_def Let_def refuse_index get_index sv_not_found_def sv_ok_def sv_progress_def
      split: if_splits)

lemma read_index: "sv_ok file s \<Longrightarrow> index_ok (chunk_count s) (get_upload_session s)"
  by (simp add: get_upload_session_def get_index sv_not_found_def refuse_index sv_ok_def)

lemma foreign_index: "foreign_error a \<Longrightarrow> index_ok m a"
  by (simp add: foreign_error_def index_ok_def)

lemma begin_no:
  assumes "complete_begin s = (s', Some a)"
  shows "s' = s \<and> \<not> an_ok a \<and> index_ok m a"
proof (intro conjI)
  show "s' = s" using assms by (auto simp: complete_begin_def split: if_splits)
  show "\<not> an_ok a"
    using assms by (auto simp: complete_begin_def sv_not_found_def refuse_def an_ok_def split: if_splits)
  show "index_ok m a"
    using assms by (auto simp: complete_begin_def sv_not_found_def refuse_index split: if_splits)
qed

lemma begin_yes:
  assumes "complete_begin s = (s', None)" "sv_ok file s"
  shows "sv_ok file s' \<and> chunk_count s' = chunk_count s"
proof -
  have s': "s' = s\<lparr>sv_state := SvCompleting, sv_waiting := True\<rparr>" and l: "length (sv_data s) = sv_size s"
    using assms(1) by (auto simp: complete_begin_def split: if_splits)
  with assms(2) show ?thesis by (simp add: s' sv_ok_def)
qed

lemma sv_ok_full:
  assumes "sv_ok file s" "sv_state s = SvCompleting"
  shows "sv_data s = file"
proof -
  have d: "sv_data s = take (sv_next s * CHUNK_SIZE) file" and l: "length (sv_data s) = sv_size s"
    and n: "sv_size s = length file"
    using assms by (auto simp: sv_ok_def)
  from l have "min (length file) (sv_next s * CHUNK_SIZE) = length file" unfolding d n by simp
  then have "length file \<le> sv_next s * CHUNK_SIZE" by (simp only: min.absorb_iff1)
  with d show ?thesis by simp
qed

lemma abort_ok:
  "abort_upload_session s = (s', st) \<Longrightarrow> sv_ok file s \<Longrightarrow>
     sv_ok file s' \<and> chunk_count s' = chunk_count s \<and> sv_stored s' = sv_stored s"
  by (auto simp: abort_upload_session_def sv_ok_def chunk_count_def split: sv_state.splits)

subsection \<open>The invariant of the whole system\<close>

definition sys_inv :: "upload_cfg \<Rightarrow> upload \<Rightarrow> server option \<Rightarrow> bool" where
  "sys_inv cfg c so \<longleftrightarrow>
     (case so of
        None \<Rightarrow> up_id c = None \<and> (opening_phase (up_phase c) \<or> finished (up_phase c)) \<and> no_result c
      | Some s \<Rightarrow> sv_ok (cf_file cfg) s \<and> cl_ok (chunk_count s) c \<and> (no_result c \<or> sv_stored s \<noteq> None))"

lemma sys_invI:
  "sv_ok (cf_file cfg) s \<Longrightarrow> cl_ok (chunk_count s) c \<Longrightarrow> no_result c \<or> sv_stored s \<noteq> None \<Longrightarrow> sys_inv cfg c (Some s)"
  by (simp add: sys_inv_def)

lemma sys_invD:
  assumes "sys_inv cfg c (Some s)"
  shows "sv_ok (cf_file cfg) s" "cl_ok (chunk_count s) c" "no_result c \<or> sv_stored s \<noteq> None"
  using assms by (simp_all add: sys_inv_def)

lemma inv_create:
  assumes "sys_inv cfg c None" "opening_phase (up_phase c)" "up_phase c = OpenWithMeta \<or> up_phase c = OpenPlain"
    and s: "s = new_session (length (cf_file cfg))"
  shows "sys_inv cfg (on_event cfg (Answer (session_out s 201)) c) (Some s)"
proof -
  have ok: "an_ok (session_out s 201)" "\<not> nullish (an_data (session_out s 201))" "\<not> extra_metadata_refused (session_out s 201)"
    by (simp_all add: session_out_def an_ok_def an_data_def extra_metadata_refused_def)
  have e: "on_event cfg (Answer (session_out s 201)) c = opened cfg (session_out s 201) c"
    using assms(3) ok by (auto simp: on_event_def)
  have "cl_ok (chunk_count s) (opened cfg (session_out s 201) c)" "no_result (opened cfg (session_out s 201) c)"
    using ok by (simp_all add: opened_def Let_def cl_ok_def)
      (simp_all add: session_out_def an_data_def sv_progress_def progress_def s new_session_def)
  moreover have "sv_ok (cf_file cfg) s" by (simp add: s new_session_def sv_ok_def)
  ultimately show ?thesis by (simp add: e sys_invI)
qed

lemma inv_local_none:
  assumes "sys_inv cfg c None" "local_event ev"
  shows "sys_inv cfg (on_event cfg ev c) None"
proof -
  have o: "sys_inv cfg (opened cfg a c) None" if "foreign_error a" "opening_phase (up_phase c)" for a
    using assms(1) that
    by (auto simp: opened_def Let_def sys_inv_def foreign_error_def on_limit_def split: jsval.split)
  have l: "sys_inv cfg (on_limit e us c) None" for e us
    using assms(1) by (simp add: on_limit_def sys_inv_def)
  have p: "sys_inv cfg (page_hide c) None"
    using assms(1) by (simp add: page_hide_def sys_inv_def no_result_def)
  show ?thesis
  proof (cases ev)
    case (Answer a)
    with assms o l show ?thesis
      by (cases "up_phase c") (simp_all add: on_event_def local_event_def sys_inv_def)
  qed (use assms l p in \<open>cases "up_phase c"; simp add: on_event_def sys_inv_def\<close>)+
qed

lemma inv_client_event:
  assumes "sys_inv cfg c (Some s)" "\<And>a. ev = Answer a \<Longrightarrow> index_ok (chunk_count s) a"
    "\<And>a. ev = Answer a \<Longrightarrow> up_phase c = Completing \<Longrightarrow> \<not> an_ok a"
    and s': "sv_ok (cf_file cfg) s'" "chunk_count s' = chunk_count s" "sv_stored s \<noteq> None \<Longrightarrow> sv_stored s' \<noteq> None"
  shows "sys_inv cfg (on_event cfg ev c) (Some s')"
  using cl_on_event [OF sys_invD(2) [OF assms(1)] assms(2,3), where cfg = cfg] sys_invD [OF assms(1)] s'
  by (intro sys_invI) auto

lemma ended_ok:
  "sv_ok file s \<Longrightarrow> sv_state s = SvCompleting \<Longrightarrow> sv_ok file (complete_stored s)"
  "sv_ok file s \<Longrightarrow> sv_ok file (complete_refused s)" "sv_ok file s \<Longrightarrow> sv_ok file (s\<lparr>sv_state := SvEnded\<rparr>)"
proof -
  assume ok: "sv_ok file s" and st: "sv_state s = SvCompleting"
  show "sv_ok file (complete_stored s)"
    unfolding sv_ok_def
  proof (intro conjI)
    show "\<forall>d. sv_stored (complete_stored s) = Some d \<longrightarrow> d = file"
      by (simp add: complete_stored_def sv_ok_full [OF ok st])
  qed (insert ok, simp_all add: complete_stored_def sv_ok_def)
qed (simp_all add: complete_refused_def sv_ok_def)

lemma put_stored: "put_upload_chunk k body s = (s', a) \<Longrightarrow> sv_stored s' = sv_stored s"
  by (auto simp: put_upload_chunk_def Let_def split: if_splits)

lemma chunk_body_ok:
  assumes "sv_ok (cf_file cfg) s" "cl_ok (chunk_count s) c" "chunk_index c < chunk_count s"
  shows "chunk_body cfg c = take (chunk_len s (chunk_index c)) (drop (chunk_index c * CHUNK_SIZE) (cf_file cfg))"
proof -
  obtain k where k: "up_next c = Some (int k)" using assms(2) by (auto simp: cl_ok_def)
  have "k * CHUNK_SIZE < length (cf_file cfg)"
    using count_bound [of k s] assms(1,3) k by (simp add: chunk_index_def sv_ok_def)
  from chunk_blob_eq [OF this] assms(1,2) k show ?thesis
    by (simp add: chunk_body_def chunk_index_def chunk_len_def cl_ok_def sv_ok_def)
qed

lemma sys_step_inv:
  assumes "sys_inv cfg c (Some s)"
  shows "up_phase c = SendChunk \<Longrightarrow> put_upload_chunk (chunk_index c) (chunk_body cfg c) s = (s', a) \<Longrightarrow>
      sys_inv cfg (on_event cfg (Answer a) c) (Some s')"
    and "up_phase c = SendChunk \<Longrightarrow> put_upload_chunk (chunk_index c) (chunk_body cfg c) s = (s', a) \<Longrightarrow>
      sys_inv cfg (on_event cfg NetError c) (Some s')"
    and "up_phase c = ReadSession \<or> up_phase c = CheckKept \<Longrightarrow>
      sys_inv cfg (on_event cfg (Answer (get_upload_session s)) c) (Some s)"
    and "complete_begin s = (s', None) \<Longrightarrow> sys_inv cfg c (Some s')"
    and "complete_begin s = (s', Some a) \<Longrightarrow> sys_inv cfg (on_event cfg (Answer a) c) (Some s')"
    and "local_event ev \<Longrightarrow> sys_inv cfg (on_event cfg ev c) (Some (s\<lparr>sv_waiting := w\<rparr>))"
proof -
  note inv = sys_invD [OF assms]
  note ev = inv_client_event [OF assms]
  show "sys_inv cfg (on_event cfg (Answer a) c) (Some s')" "sys_inv cfg (on_event cfg NetError c) (Some s')"
    if "up_phase c = SendChunk" and p: "put_upload_chunk (chunk_index c) (chunk_body cfg c) s = (s', a)"
  proof -
    have "sv_ok (cf_file cfg) s' \<and> chunk_count s' = chunk_count s"
      by (rule sv_put_ok [OF inv(1) p]) (rule chunk_body_ok [OF inv(1,2)])
    then show "sys_inv cfg (on_event cfg (Answer a) c) (Some s')" "sys_inv cfg (on_event cfg NetError c) (Some s')"
      using that put_index [OF inv(1) p] put_stored [OF p] by (auto intro!: ev)
  qed
  show "sys_inv cfg (on_event cfg (Answer (get_upload_session s)) c) (Some s)"
    if "up_phase c = ReadSession \<or> up_phase c = CheckKept"
    using that read_index [OF inv(1)] inv(1) by (auto intro!: ev)
  show "sys_inv cfg c (Some s')" if b: "complete_begin s = (s', None)"
  proof -
    have "sv_stored s' = sv_stored s" using b by (auto simp: complete_begin_def split: if_splits)
    with begin_yes [OF b inv(1)] inv show ?thesis by (auto intro!: sys_invI)
  qed
  show "sys_inv cfg (on_event cfg (Answer a) c) (Some s')" if b: "complete_begin s = (s', Some a)"
    using begin_no [OF b] inv(1) by (auto intro!: ev)
  show "sys_inv cfg (on_event cfg ev c) (Some (s\<lparr>sv_waiting := w\<rparr>))" if l: "local_event ev"
  proof (rule ev)
    show "index_ok (chunk_count s) a" if "ev = Answer a" for a
      using that l by (simp add: local_event_def foreign_index)
    show "\<not> an_ok a" if "ev = Answer a" for a
      using that l by (simp add: local_event_def foreign_error_def)
  qed (use inv(1) in simp_all)
qed

lemma sys_end_inv:
  assumes "sys_inv cfg c (Some s)"
  shows "sv_state s = SvCompleting \<Longrightarrow> sys_inv cfg c (Some (complete_stored s))"
    and "sv_state s = SvCompleting \<Longrightarrow> up_phase c = Completing \<Longrightarrow> an_ok a \<Longrightarrow>
      sys_inv cfg (on_event cfg (Answer a) c) (Some (complete_stored s))"
    and "sys_inv cfg c (Some (complete_refused s))"
    and "foreign_error a \<Longrightarrow> sys_inv cfg (on_event cfg (Answer a) c) (Some (complete_refused s))"
    and "abort_upload_session s = (s', st) \<Longrightarrow> sys_inv cfg c (Some s')"
    and "abort_upload_session s = (s', st) \<Longrightarrow> sys_inv cfg (cancel_answered ab st c) (Some s')"
    and "sys_inv cfg c (Some (s\<lparr>sv_state := SvEnded\<rparr>))"
proof -
  note inv = sys_invD [OF assms]
  have st: "sv_stored (complete_stored s) \<noteq> None" "sv_stored (complete_refused s) = sv_stored s"
    by (simp_all add: complete_stored_def complete_refused_def)
  show "sys_inv cfg c (Some (complete_stored s))" if "sv_state s = SvCompleting"
    using inv ended_ok(1) that st by (auto intro!: sys_invI)
  show "sys_inv cfg (on_event cfg (Answer a) c) (Some (complete_stored s))"
    if "sv_state s = SvCompleting" "up_phase c = Completing" "an_ok a"
    using inv ended_ok(1) that st cl_closing(1) [OF inv(2), of cfg a] by (auto intro!: sys_invI simp: on_event_def)
  show "sys_inv cfg c (Some (complete_refused s))"
    using inv ended_ok(2) st by (auto intro!: sys_invI)
  show "sys_inv cfg (on_event cfg (Answer a) c) (Some (complete_refused s))" if "foreign_error a"
    using that inv ended_ok(2) st by (auto intro!: inv_client_event [OF assms] foreign_index simp: foreign_error_def)
  show "sys_inv cfg c (Some s')" "sys_inv cfg (cancel_answered ab st c) (Some s')"
    if "abort_upload_session s = (s', st)"
    using inv abort_ok [OF that inv(1)] cl_closing(3) [OF inv(2), of ab st] by (auto intro!: sys_invI)
  show "sys_inv cfg c (Some (s\<lparr>sv_state := SvEnded\<rparr>))"
    using inv ended_ok(3) by (auto intro!: sys_invI)
qed

lemma sys_reach_inv: "upload_sys cfg c so \<Longrightarrow> sys_inv cfg c so"
proof (induction rule: upload_sys.induct)
  case (sys_start aborted)
  show ?case by (simp add: sys_inv_def start_upload_def Let_def no_result_def)
next
  case (sys_create c s)
  then show ?case by (intro inv_create) auto
next
  case (sys_local c so ev)
  show ?case
  proof (cases so)
    case None
    with sys_local inv_local_none show ?thesis by (simp add: hang_up_def)
  next
    case (Some s)
    have e: "s\<lparr>sv_waiting := sv_waiting s\<rparr> = s" by simp
    from Some sys_local sys_step_inv(6) [of cfg c s ev "sv_waiting s"] sys_step_inv(6) [of cfg c s ev False] e
    show ?thesis by (simp add: hang_up_def)
  qed
qed (auto intro: sys_step_inv sys_end_inv)

subsection \<open>End to end\<close>

text \<open>C1: what the server stores is the file. Whatever is lost, repeated, cancelled or expires on the way, a stored
  upload holds exactly the bytes of the file; and the client reports success only for a stored one.\<close>

theorem upload_stores_the_file:
  assumes "upload_sys cfg c (Some s)"
  shows "(\<forall>d. sv_stored s = Some d \<longrightarrow> d = cf_file cfg)
    \<and> (\<forall>v. up_phase c = Finished (Inr v) \<longrightarrow> sv_stored s = Some (cf_file cfg))"
proof -
  have "sys_inv cfg c (Some s)" using assms by (rule sys_reach_inv)
  then show ?thesis by (auto simp: sys_inv_def sv_ok_def no_result_def)
qed

end
