(* ===== verification/Upload_Live.thy ===== *)
theory Upload_Live
  imports Upload_System
begin

text \<open>
  An upload against a server that answers: how many requests it takes, and what a lost answer to the
  completion can make of it.
\<close>

definition exhibit_answer :: answer where
  "exhibit_answer = \<lparr>an_status = 201, an_body = JsonText (JObj [(''exhibit_link'', JStr ''collected'')]), an_retry_after = 0\<rparr>"

text \<open>One request served: the client's outstanding one, answered by the route it goes to.\<close>

definition serve :: "upload_cfg \<Rightarrow> upload \<times> server \<Rightarrow> upload \<times> server" where
  "serve cfg = (\<lambda>(c, s).
     case up_phase c of
       SendChunk \<Rightarrow> (let (s', a) = put_upload_chunk (chunk_index c) (chunk_body cfg c) s in (on_event cfg (Answer a) c, s'))
     | Completing \<Rightarrow>
         (case complete_begin s of
            (s', None) \<Rightarrow> (on_event cfg (Answer exhibit_answer) c, complete_stored s')
          | (s', Some a) \<Rightarrow> (on_event cfg (Answer a) c, s'))
     | _ \<Rightarrow> (c, s))"

definition served_start :: "upload_cfg \<Rightarrow> upload \<times> server" where
  "served_start cfg =
     (let s = new_session (length (cf_file cfg))
      in (on_event cfg (Answer (session_out s 201)) (start_upload cfg False), s))"

definition on_track :: "upload_cfg \<Rightarrow> nat \<Rightarrow> upload \<times> server \<Rightarrow> bool" where
  "on_track cfg k = (\<lambda>(c, s).
     upload_sys cfg c (Some s) \<and> sv_state s = SvOpen \<and> \<not> sv_waiting s \<and> sv_next s = k
     \<and> up_next c = Some (int k) \<and> up_phase c = (if k < chunk_count s then SendChunk else Completing)
     \<and> chunk_count s = chunk_count (new_session (length (cf_file cfg))))"

lemma more_chunks_iff:
  "cl_ok m c \<Longrightarrow> up_next c = Some (int k) \<Longrightarrow> more_chunks c \<longleftrightarrow> k < m"
  by (simp add: cl_ok_def more_chunks_def)

lemma loop_phase: "up_phase (loop_head cfg c) = (if more_chunks c then SendChunk else Completing)"
  by (simp add: loop_head_def)

lemma on_track_start: "on_track cfg 0 (served_start cfg)"
proof -
  define s where "s = new_session (length (cf_file cfg))"
  define c where "c = on_event cfg (Answer (session_out s 201)) (start_upload cfg False)"
  have sys: "upload_sys cfg c (Some s)"
    unfolding c_def by (rule upload_sys.sys_create [OF upload_sys.sys_start _ s_def]) (simp add: start_upload_def Let_def)
  have st: "start_upload cfg False = (start_upload cfg False)\<lparr>up_phase := OpenWithMeta\<rparr>"
    by (simp add: start_upload_def Let_def)
  have c: "c = opened cfg (session_out s 201) (start_upload cfg False)"
    unfolding c_def on_event_def
    by (simp add: start_upload_def Let_def extra_metadata_refused_def session_out_def)
  have nxt: "up_next c = Some 0" and ph: "\<exists>d. c = loop_head cfg d \<and> up_next d = Some 0 \<and> up_count d = up_count c"
    unfolding c by (simp_all add: opened_def Let_def an_ok_def session_out_def an_data_def sv_progress_def s_def new_session_def)
      (intro exI conjI, rule refl, simp_all)
  have ok: "cl_ok (chunk_count s) c" using sys_reach_inv [OF sys] by (rule sys_invD(2))
  from ph obtain d where d: "c = loop_head cfg d" "up_next d = Some 0" "up_count d = up_count c" by blast
  have "more_chunks d = more_chunks c" using d nxt by (intro more_chunks_cong) simp_all
  then have "up_phase c = (if 0 < chunk_count s then SendChunk else Completing)"
    using more_chunks_iff [OF ok, of 0] nxt d(1) by (simp add: loop_phase)
  with sys nxt show ?thesis
    by (simp add: on_track_def served_start_def Let_def s_def [symmetric] c_def [symmetric]) (simp add: s_def new_session_def)
qed

lemma on_track_step:
  assumes "on_track cfg k (c, s)" "k < chunk_count s"
  shows "on_track cfg (Suc k) (serve cfg (c, s))"
proof -
  have sys: "upload_sys cfg c (Some s)" and opn: "sv_state s = SvOpen" "\<not> sv_waiting s" "sv_next s = k"
    and nxt: "up_next c = Some (int k)" and ph: "up_phase c = SendChunk"
    and cnt: "chunk_count s = chunk_count (new_session (length (cf_file cfg)))"
    using assms by (simp_all add: on_track_def)
  note inv = sys_invD [OF sys_reach_inv [OF sys]]
  have idx: "chunk_index c = k" using nxt by (simp add: chunk_index_def)
  define b where "b = chunk_body cfg c"
  have b: "b = take (chunk_len s k) (drop (k * CHUNK_SIZE) (cf_file cfg))"
    using chunk_body_ok [OF inv(1,2)] assms(2) idx by (simp add: b_def)
  have size: "sv_size s = length (cf_file cfg)" using inv(1) by (simp add: sv_ok_def)
  have len: "length b = chunk_len s k" "length b \<le> CHUNK_SIZE" by (simp_all add: b chunk_len_def size)
  define s' where "s' = s\<lparr>sv_data := sv_data s @ b, sv_next := sv_next s + 1\<rparr>"
  have put: "put_upload_chunk (chunk_index c) (chunk_body cfg c) s = (s', session_out s' 200)"
    using opn assms(2) len by (simp add: put_upload_chunk_def Let_def idx b_def [symmetric] s'_def)
  define c' where "c' = on_event cfg (Answer (session_out s' 200)) c"
  have sys': "upload_sys cfg c' (Some s')"
    unfolding c'_def by (rule upload_sys.sys_chunk [OF sys ph put])
  have c': "c' = loop_head cfg (progress (jget (an_data (session_out s' 200)) ''received_bytes'') cfg False
      (c\<lparr>up_next := Some (int (Suc k)), up_failures := 0\<rparr>))"
    unfolding c'_def on_event_def ph
    by (simp add: chunk_answered_def Let_def an_ok_def session_out_def an_data_def sv_progress_def s'_def opn(3))
  have nxt': "up_next c' = Some (int (Suc k))" by (simp add: c')
  have ok': "cl_ok (chunk_count s') c'" using sys_reach_inv [OF sys'] by (rule sys_invD(2))
  have cnt': "chunk_count s' = chunk_count s" by (simp add: s'_def chunk_count_def)
  have "more_chunks c' \<longleftrightarrow> Suc k < chunk_count s'" by (rule more_chunks_iff [OF ok' nxt'])
  moreover have "up_phase c' = (if more_chunks c' then SendChunk else Completing)"
    by (simp add: c' loop_phase) (simp add: loop_head_def)
  moreover have "serve cfg (c, s) = (c', s')" by (simp add: serve_def ph put c'_def)
  ultimately show ?thesis using sys' nxt' opn cnt cnt' by (simp add: on_track_def s'_def)
qed

lemma on_track_run:
  "k \<le> chunk_count (new_session (length (cf_file cfg))) \<Longrightarrow> on_track cfg k ((serve cfg ^^ k) (served_start cfg))"
proof (induction k)
  case 0
  then show ?case by (simp add: on_track_start)
next
  case (Suc k)
  obtain c s where cs: "(serve cfg ^^ k) (served_start cfg) = (c, s)" by (cases "(serve cfg ^^ k) (served_start cfg)")
  from Suc cs have "on_track cfg k (c, s)" by simp
  moreover from this Suc.prems have "k < chunk_count s" by (simp add: on_track_def)
  ultimately show ?case using on_track_step cs by simp
qed

lemma all_sent:
  assumes "on_track cfg (chunk_count (new_session (length (cf_file cfg)))) (c, s)"
  shows "complete_begin s = (s\<lparr>sv_state := SvCompleting, sv_waiting := True\<rparr>, None)" "sv_data s = cf_file cfg"
    "up_phase c = Completing"
proof -
  have sys: "upload_sys cfg c (Some s)" and o: "sv_state s = SvOpen" "sv_next s = chunk_count s"
    using assms by (simp_all add: on_track_def)
  have ok: "sv_ok (cf_file cfg) s" using sys_reach_inv [OF sys] by (rule sys_invD(1))
  have "length (cf_file cfg) \<le> chunk_count s * CHUNK_SIZE"
  proof -
    define n where "n = length (cf_file cfg) + (CHUNK_SIZE - 1)"
    have "n mod CHUNK_SIZE < CHUNK_SIZE" using CHUNK_SIZE_pos by simp
    moreover have "n = n div CHUNK_SIZE * CHUNK_SIZE + n mod CHUNK_SIZE" by simp
    ultimately have "length (cf_file cfg) \<le> n div CHUNK_SIZE * CHUNK_SIZE" unfolding n_def by linarith
    then show ?thesis using ok by (simp add: chunk_count_def sv_ok_def n_def)
  qed
  then show d: "sv_data s = cf_file cfg" using ok o by (simp add: sv_ok_def)
  have "length (sv_data s) = sv_size s" using d ok by (simp add: sv_ok_def)
  with o show "complete_begin s = (s\<lparr>sv_state := SvCompleting, sv_waiting := True\<rparr>, None)"
    by (simp add: complete_begin_def)
  show "up_phase c = Completing" using assms by (simp add: on_track_def)
qed

text \<open>C2: an upload to a server that answers finishes: after one request per chunk and the completion, no more and
  no fewer, the client has the exhibit and the server the file.\<close>

theorem upload_finishes:
  "\<exists>c s. (serve cfg ^^ Suc (chunk_count (new_session (length (cf_file cfg))))) (served_start cfg) = (c, s)
     \<and> up_phase c = Finished (Inr (an_data exhibit_answer)) \<and> \<not> up_tracked c \<and> sv_stored s = Some (cf_file cfg)"
proof -
  define m where "m = chunk_count (new_session (length (cf_file cfg)))"
  obtain c s where cs: "(serve cfg ^^ m) (served_start cfg) = (c, s)" by (cases "(serve cfg ^^ m) (served_start cfg)")
  have t: "on_track cfg m (c, s)" using on_track_run [of m cfg] cs by (simp add: m_def)
  note a = all_sent [OF t [unfolded m_def]]
  have "serve cfg (c, s) = (c\<lparr>up_tracked := False, up_phase := Finished (Inr (an_data exhibit_answer))\<rparr>,
      complete_stored (s\<lparr>sv_state := SvCompleting, sv_waiting := True\<rparr>))"
    using a by (simp add: serve_def on_event_def complete_answered_def exhibit_answer_def an_ok_def)
  then show ?thesis using cs a(2) by (simp add: m_def complete_stored_def)
qed

lemma upload_stores_the_file_witness:
  "\<exists>c s. upload_sys (sample_cfg False) c (Some s) \<and> sv_stored s \<noteq> Some ''xyz''"
proof -
  define cs where "cs = (serve (sample_cfg False) ^^ 0) (served_start (sample_cfg False))"
  have "on_track (sample_cfg False) 0 cs" unfolding cs_def by (rule on_track_run) simp
  then obtain c s where sys: "upload_sys (sample_cfg False) c (Some s)" by (cases cs) (auto simp: on_track_def)
  have "cf_file (sample_cfg False) \<noteq> ''xyz''" by (simp add: sample_cfg_def)
  with upload_stores_the_file [OF sys] sys show ?thesis by metis
qed

subsection \<open>A lost answer to the completion\<close>

text \<open>C5: with \<open>retainOnError\<close> there is a run in which the file is stored and the user is told that nothing was: the
  answer to the completion is lost while the server is still completing, the session read finds the
  session, the upload is offered again, the server finishes and stores the file, and the second
  completion gets 404 \<open>upload_not_found\<close>, which the code reports as interrupted.\<close>

theorem stored_but_reported_interrupted:
  assumes "cf_retainOnError cfg"
  shows "\<exists>c s. upload_sys cfg c (Some s) \<and> sv_stored s = Some (cf_file cfg)
     \<and> up_phase c = Finished (Inl interrupted) \<and> str_includes (ae_message interrupted) ''Nothing was stored.''"
proof -
  define m where "m = chunk_count (new_session (length (cf_file cfg)))"
  obtain c s where cs: "(serve cfg ^^ m) (served_start cfg) = (c, s)" by (cases "(serve cfg ^^ m) (served_start cfg)")
  have t: "on_track cfg m (c, s)" using on_track_run [of m cfg] cs by (simp add: m_def)
  note a = all_sent [OF t [unfolded m_def]]
  have sys: "upload_sys cfg c (Some s)" "\<not> sv_waiting s" using t by (simp_all add: on_track_def)
  define s1 where "s1 = s\<lparr>sv_state := SvCompleting, sv_waiting := True\<rparr>"
  have r1: "upload_sys cfg c (Some s1)"
    unfolding s1_def by (rule upload_sys.sys_complete [OF sys(1) a(3) sys(2) a(1)])
  define c2 where "c2 = send RqSession CheckKept c"
  define s2 where "s2 = s1\<lparr>sv_waiting := False\<rparr>"
  have e2: "on_event cfg NetError c = c2" using assms by (simp add: on_event_def a(3) complete_lost_def c2_def)
  have r2: "upload_sys cfg c2 (Some s2)"
    using upload_sys.sys_local [OF r1, of NetError] e2 by (simp add: local_event_def hang_up_def c2_def s2_def)
  define c3 where "c3 = c2\<lparr>up_phase := Retained (retained complete_no_answer)\<rparr>"
  have e3: "on_event cfg (Answer (get_upload_session s2)) c2 = c3"
    by (simp add: on_event_def c2_def c3_def get_upload_session_def s2_def s1_def session_out_def an_ok_def)
  have r3: "upload_sys cfg c3 (Some s2)"
    using upload_sys.sys_read [OF r2] e3 by (simp add: c2_def)
  define s4 where "s4 = complete_stored s2"
  have r4: "upload_sys cfg c3 (Some s4)"
    unfolding s4_def by (rule upload_sys.sys_stored_unheard [OF r3]) (simp_all add: s2_def s1_def)
  define c5 where "c5 = start_complete cfg [] c3"
  have e5: "on_event cfg (RetryComplete []) c3 = c5" by (simp add: on_event_def c3_def c5_def)
  have r5: "upload_sys cfg c5 (Some s4)"
    using upload_sys.sys_local [OF r4, of "RetryComplete []"] e5 by (simp add: local_event_def c5_def)
  have b: "complete_begin s4 = (s4, Some sv_not_found)"
    by (simp add: complete_begin_def s4_def complete_stored_def)
  have r6: "upload_sys cfg (on_event cfg (Answer sv_not_found) c5) (Some s4)"
    by (rule upload_sys.sys_complete_no [OF r5 _ _ b]) (simp_all add: c5_def s4_def complete_stored_def)
  have "up_phase (on_event cfg (Answer sv_not_found) c5) = Finished (Inl interrupted)"
    by (simp add: on_event_def c5_def complete_answered_def sv_not_found_def refuse_def an_ok_def an_data_def)
  moreover have "sv_stored s4 = Some (cf_file cfg)"
    by (simp add: s4_def complete_stored_def s2_def s1_def a(2))
  moreover have "str_includes (ae_message interrupted) ''Nothing was stored.''" by code_simp
  ultimately show ?thesis using r6 by blast
qed

lemma stored_but_reported_interrupted_witness:
  "\<exists>c s. upload_sys (sample_cfg True) c (Some s) \<and> sv_stored s = Some ''abc'' \<and> up_phase c = Finished (Inl interrupted)"
proof -
  have r: "cf_retainOnError (sample_cfg True)" by (simp add: sample_cfg_def)
  have f: "cf_file (sample_cfg True) = ''abc''" by (simp add: sample_cfg_def)
  show ?thesis using stored_but_reported_interrupted [OF r] f by auto
qed

end
