(* ===== verification/Process_Detect.thy ===== *)
theory Process_Detect
  imports Js_Regex Severity_Scale
begin

text \<open>
  \<^verbatim>\<open>frontend/src/lib/processTreeDetect.js\<close>: the detection rules of the process tree. One definition per
  rule, in the file's order, with its regular expression as an \<open>rx\<close>; then \<open>detectNode\<close>, the worst
  severity and \<open>detectForest\<close> on a tree of nodes.
\<close>

subsection \<open>Nodes and findings\<close>

record finding =
  fd_name :: string
  fd_severity :: string
  fd_mitre :: "string option"
  fd_reason :: string

record proc =
  pr_pid :: string
  pr_ppid :: "string option"
  pr_image :: "string option"
  pr_parentImage :: "string option"
  pr_cmdLine :: "string option"
  pr_user :: "string option"
  pr_hostname :: "string option"
  pr_eventTime :: "string option"
  pr_description :: "string option"
  pr_eventIdx :: "int option"

definition bsl :: char where
  "bsl = CHR 0x5C"

definition basename :: "string option \<Rightarrow> string" where
  "basename p =
     (if \<not> str_truthy p then []
      else let s = the p; i = max (last_index_of s bsl) (last_index_of s (CHR ''/'')) in
        to_lower (if i \<ge> 0 then drop (nat (i + 1)) s else s))"

definition cmd :: "proc \<Rightarrow> string" where
  "cmd n = str_or (pr_cmdLine n) []"

definition img :: "proc \<Rightarrow> string" where
  "img n = str_or (pr_image n) []"

definition base :: "proc \<Rightarrow> string" where
  "base n = basename (pr_image n)"

text \<open>\<open>/^(a|b|...)\.exe$/\<close>, the shape of most image tests.\<close>

definition exe_rx :: "string list \<Rightarrow> rx" where
  "exe_rx ws = seqs [Bos, alts (map lit ws), lit ''.exe'', Eos]"

definition bs_rx :: rx where
  "bs_rx = Cls (\<lambda>c. c = bsl)"

definition i_alts :: "string list \<Rightarrow> rx" where
  "i_alts ws = alts (map lit_i ws)"

subsection \<open>The per-node rules\<close>

record node_rule =
  nr_name :: string
  nr_severity :: string
  nr_mitre :: string
  nr_test :: "proc \<Rightarrow> bool"
  nr_reason :: string

definition credential_dumper_image :: node_rule where
  "credential_dumper_image = \<lparr>nr_name = ''credential_dumper_image'', nr_severity = ''high'', nr_mitre = ''T1003'',
     nr_test = (\<lambda>n. rx_test (seqs [Bos, alts [lit ''mimikatz'', lit ''wce'', lit ''pwdump'', lit ''fgdump'', lit ''gsecdump'',
       seqs [lit ''procdump'', opt (lit ''64'')], lit ''hashdump'']]) (base n)),
     nr_reason = ''Known credential-dumping binary by name''\<rparr>"

definition mimikatz_commands :: node_rule where
  "mimikatz_commands = \<lparr>nr_name = ''mimikatz_commands'', nr_severity = ''high'', nr_mitre = ''T1003.001'',
     nr_test = (\<lambda>n. rx_test (i_alts [''sekurlsa::'', ''lsadump::'', ''kerberos::ptt'', ''misc::memssp'', ''privilege::debug'']) (cmd n)),
     nr_reason = ''Mimikatz command syntax in cmdline''\<rparr>"

definition procdump_lsass :: node_rule where
  "procdump_lsass = \<lparr>nr_name = ''procdump_lsass'', nr_severity = ''high'', nr_mitre = ''T1003.001'',
     nr_test = (\<lambda>n. rx_test (lit ''procdump'') (base n) \<and> rx_test (lit_i ''lsass'') (cmd n)),
     nr_reason = ''ProcDump targeting LSASS '' @ em_dash @ '' credential extraction''\<rparr>"

definition POWERSHELL :: rx where
  "POWERSHELL = exe_rx [''powershell'', ''pwsh'']"

definition powershell_encoded :: node_rule where
  "powershell_encoded = \<lparr>nr_name = ''powershell_encoded'', nr_severity = ''high'', nr_mitre = ''T1059.001'',
     nr_test = (\<lambda>n. rx_test POWERSHELL (base n) \<and>
       rx_test (alts [seqs [lit_i ''-enc'', opt (lit_i ''odedcommand'')], seqs [lit_i ''-e'', space_c]]) (cmd n)),
     nr_reason = ''PowerShell -EncodedCommand (Base64-wrapped payload)''\<rparr>"

definition powershell_download_cradle :: node_rule where
  "powershell_download_cradle = \<lparr>nr_name = ''powershell_download_cradle'', nr_severity = ''high'', nr_mitre = ''T1059.001'',
     nr_test = (\<lambda>n. rx_test POWERSHELL (base n) \<and>
       rx_test (alts [lit_i ''downloadstring'', lit_i ''downloadfile'',
         seqs [lit_i ''invoke-'', i_alts [''expression'', ''webrequest'']],
         seqs [lit_i ''iex'', star space_c, lit ''('', star any_char, lit_i ''new-object'', star any_char, lit_i ''net.webclient'']])
       (cmd n)),
     nr_reason = ''PowerShell download cradle (DownloadString / IEX / Invoke-WebRequest)''\<rparr>"

definition powershell_hidden_window :: node_rule where
  "powershell_hidden_window = \<lparr>nr_name = ''powershell_hidden_window'', nr_severity = ''medium'', nr_mitre = ''T1564.003'',
     nr_test = (\<lambda>n. rx_test POWERSHELL (base n) \<and>
       rx_test (alts [seqs [lit_i ''-w'', opt (seqs [lit_i ''in'', opt (lit_i ''dow''), lit_i ''style'']),
                            plus1 space_c, lit_i ''hidden''],
                      lit_i ''-noni'', lit_i ''-nop'', seqs [lit_i ''-nopro'', opt (lit_i ''file'')]]) (cmd n)),
     nr_reason = ''PowerShell hidden / no-profile / non-interactive flags''\<rparr>"

definition certutil_url_decode :: node_rule where
  "certutil_url_decode = \<lparr>nr_name = ''certutil_url_decode'', nr_severity = ''high'', nr_mitre = ''T1140'',
     nr_test = (\<lambda>n. rx_test (exe_rx [''certutil'']) (base n) \<and>
       rx_test (i_alts [''-urlcache'', ''-decode'', ''-split'', ''-encode'']) (cmd n)),
     nr_reason = ''certutil used as a downloader / decoder (LOLBin)''\<rparr>"

definition bitsadmin_transfer :: node_rule where
  "bitsadmin_transfer = \<lparr>nr_name = ''bitsadmin_transfer'', nr_severity = ''high'', nr_mitre = ''T1197'',
     nr_test = (\<lambda>n. rx_test (exe_rx [''bitsadmin'']) (base n) \<and>
       rx_test (i_alts [''/transfer'', ''/download'', ''/create'', ''/addfile'']) (cmd n)),
     nr_reason = ''bitsadmin used to transfer files (LOLBin)''\<rparr>"

definition regsvr32_squiblydoo :: node_rule where
  "regsvr32_squiblydoo = \<lparr>nr_name = ''regsvr32_squiblydoo'', nr_severity = ''high'', nr_mitre = ''T1218.010'',
     nr_test = (\<lambda>n. rx_test (exe_rx [''regsvr32'']) (base n) \<and>
       rx_test (alts [lit_i ''scrobj.dll'', seqs [lit_i ''/i:http'', opt (lit_i ''s''), lit ''://''],
                      seqs [lit_i ''/i:'', bs_rx, bs_rx]]) (cmd n)),
     nr_reason = ''regsvr32 loading a remote/COM scriptlet (Squiblydoo)''\<rparr>"

definition rundll32_remote_or_script :: node_rule where
  "rundll32_remote_or_script = \<lparr>nr_name = ''rundll32_remote_or_script'', nr_severity = ''high'', nr_mitre = ''T1218.011'',
     nr_test = (\<lambda>n. rx_test (exe_rx [''rundll32'']) (base n) \<and>
       rx_test (alts [lit_i ''javascript:'', lit_i ''vbscript:'', lit_i ''control_rundll'', seqs [bs_rx, bs_rx]]) (cmd n)),
     nr_reason = ''rundll32 invoking a script protocol or remote/Control_RunDLL''\<rparr>"

definition mshta_remote_script :: node_rule where
  "mshta_remote_script = \<lparr>nr_name = ''mshta_remote_script'', nr_severity = ''high'', nr_mitre = ''T1218.005'',
     nr_test = (\<lambda>n. rx_test (exe_rx [''mshta'']) (base n) \<and>
       rx_test (alts [seqs [lit_i ''http'', opt (lit_i ''s''), lit ''://''], lit_i ''javascript:'', lit_i ''vbscript:'']) (cmd n)),
     nr_reason = ''mshta executing a remote/script-protocol payload''\<rparr>"

definition wmic_remote_exec :: node_rule where
  "wmic_remote_exec = \<lparr>nr_name = ''wmic_remote_exec'', nr_severity = ''high'', nr_mitre = ''T1047'',
     nr_test = (\<lambda>n. rx_test (exe_rx [''wmic'']) (base n) \<and>
       rx_test (alts [lit_i ''/node:'', seqs [lit_i ''process'', plus1 space_c, lit_i ''call'', plus1 space_c, lit_i ''create'']]) (cmd n)),
     nr_reason = ''wmic remote process creation (WMI lateral execution)''\<rparr>"

definition psexec_image :: node_rule where
  "psexec_image = \<lparr>nr_name = ''psexec_image'', nr_severity = ''medium'', nr_mitre = ''T1021.002'',
     nr_test = (\<lambda>n. rx_test (seqs [Bos, alts [seqs [lit ''psexec'', opt (lit ''64'')], lit ''paexec''], lit ''.exe'', Eos]) (base n)),
     nr_reason = ''PsExec / PaExec '' @ em_dash @ '' Sysinternals lateral movement tool''\<rparr>"

definition psexec_service :: node_rule where
  "psexec_service = \<lparr>nr_name = ''psexec_service'', nr_severity = ''high'', nr_mitre = ''T1021.002'',
     nr_test = (\<lambda>n. rx_test (lit_i ''psexesvc'') (cmd n) \<or> rx_test (lit_i ''psexesvc'') (img n)),
     nr_reason = ''PSEXESVC service binary running '' @ em_dash @ '' incoming PsExec session''\<rparr>"

definition rclone_exfil :: node_rule where
  "rclone_exfil = \<lparr>nr_name = ''rclone_exfil'', nr_severity = ''high'', nr_mitre = ''T1567.002'',
     nr_test = (\<lambda>n. rx_test (exe_rx [''rclone'']) (base n) \<or> rx_test (seqs [Bos, lit ''rclone'', Eos]) (base n)),
     nr_reason = ''rclone '' @ em_dash @ '' common attacker exfil tool to cloud storage''\<rparr>"

definition mega_sync :: node_rule where
  "mega_sync = \<lparr>nr_name = ''mega_sync'', nr_severity = ''medium'', nr_mitre = ''T1567.002'',
     nr_test = (\<lambda>n. rx_test (alts [lit ''megasync'', lit ''megacmd'', lit ''megaclient'']) (base n)),
     nr_reason = ''MEGA client '' @ em_dash @ '' observed in ransomware exfil playbooks''\<rparr>"

definition discovery_burst :: node_rule where
  "discovery_burst = \<lparr>nr_name = ''discovery_burst'', nr_severity = ''medium'', nr_mitre = ''T1087'',
     nr_test = (\<lambda>n. rx_test (exe_rx [''whoami'', ''net'', ''net1'', ''nltest'', ''tasklist'', ''systeminfo'', ''qwinsta'', ''hostname'',
         ''arp'', ''route'', ''ipconfig'']) (base n) \<and>
       rx_test (alts [lit_i ''/all'', lit_i ''/dclist'', lit_i ''/domain_trusts'', lit_i ''/trusted_domains'',
         seqs [lit_i ''localgroup'', plus1 space_c, lit_i ''admin'']]) (cmd n)),
     nr_reason = ''Discovery / recon command with elevated-info flags''\<rparr>"

definition user_add :: node_rule where
  "user_add = \<lparr>nr_name = ''user_add'', nr_severity = ''high'', nr_mitre = ''T1136.001'',
     nr_test = (\<lambda>n. rx_test (seqs [Bos, lit ''net'', opt (lit ''1''), lit ''.exe'', Eos]) (base n) \<and>
       rx_test (alts [seqs [lit_i ''user'', plus1 space_c, plus1 nonspace_c, plus1 space_c, plus1 nonspace_c, plus1 space_c,
                            lit_i ''/add''],
                      seqs [lit_i ''localgroup'', plus1 space_c, lit_i ''administrators'', plus1 space_c, plus1 nonspace_c,
                            plus1 space_c, lit_i ''/add'']]) (cmd n)),
     nr_reason = ''Local account creation / admin group addition (persistence)''\<rparr>"

definition execution_from_user_writable :: node_rule where
  "execution_from_user_writable = \<lparr>nr_name = ''execution_from_user_writable'', nr_severity = ''medium'', nr_mitre = ''T1204'',
     nr_test = (\<lambda>n. rx_test (alts
       [seqs [bs_rx, lit_i ''appdata'', bs_rx, lit_i ''local'', bs_rx, lit_i ''temp'', bs_rx],
        seqs [bs_rx, lit_i ''programdata'', bs_rx, NotAhead (i_alts [''microsoft'', ''chocolatey'', ''package cache''])],
        seqs [bs_rx, lit_i ''users'', bs_rx, lit_i ''public'', bs_rx],
        seqs [bs_rx, lit_i ''temp'', bs_rx]]) (img n)),
     nr_reason = ''Binary executing from a user-writable path''\<rparr>"

definition linux_reverse_shell :: node_rule where
  "linux_reverse_shell = \<lparr>nr_name = ''linux_reverse_shell'', nr_severity = ''high'', nr_mitre = ''T1059.004'',
     nr_test = (\<lambda>n. rx_test (alts
       [seqs [lit_i ''bash'', plus1 space_c, lit_i ''-i'', star space_c, opt (lit ''>''), opt (lit ''&''), star space_c, lit_i ''/dev/tcp/''],
        seqs [lit_i ''nc'', plus1 space_c, lit_i ''-e'', space_c],
        seqs [lit_i ''socat'', plus1 space_c, plus1 any_char, lit_i ''exec:''],
        seqs [lit_i ''python'', Rep 0 (Some 30) any_char, lit_i ''socket.socket('', Rep 0 (Some 200) any_char, lit_i ''connect'']])
       (cmd n)),
     nr_reason = ''Reverse-shell pattern (bash /dev/tcp, nc -e, socat exec:, python socket)''\<rparr>"

definition linux_curl_pipe_shell :: node_rule where
  "linux_curl_pipe_shell = \<lparr>nr_name = ''linux_curl_pipe_shell'', nr_severity = ''high'', nr_mitre = ''T1059.004'',
     nr_test = (\<lambda>n. rx_test (seqs [i_alts [''curl'', ''wget''], plus1 space_c, Rep 0 (Some 256) (Cls (\<lambda>c. c \<noteq> CHR ''|'')),
         lit ''|'', star space_c, i_alts [''sh'', ''bash'', ''zsh''], WordB]) (cmd n)),
     nr_reason = ''curl|sh pattern '' @ em_dash @ '' direct remote-script execution''\<rparr>"

definition NODE_RULES :: "node_rule list" where
  "NODE_RULES =
     [credential_dumper_image, mimikatz_commands, procdump_lsass, powershell_encoded, powershell_download_cradle,
      powershell_hidden_window, certutil_url_decode, bitsadmin_transfer, regsvr32_squiblydoo, rundll32_remote_or_script,
      mshta_remote_script, wmic_remote_exec, psexec_image, psexec_service, rclone_exfil, mega_sync, discovery_burst,
      user_add, execution_from_user_writable, linux_reverse_shell, linux_curl_pipe_shell]"

subsection \<open>Parent-child rules\<close>

record pc_rule =
  pc_name :: string
  pc_severity :: string
  pc_mitre :: string
  pc_test :: "proc \<Rightarrow> proc \<Rightarrow> bool"      \<comment> \<open>child, parent\<close>
  pc_reason :: "proc \<Rightarrow> proc \<Rightarrow> string"

definition OFFICE_PARENTS :: rx where
  "OFFICE_PARENTS = exe_rx [''winword'', ''excel'', ''powerpnt'', ''outlook'', ''msaccess'', ''mspub'', ''onenote'', ''visio'']"

definition SCRIPT_SHELLS :: rx where
  "SCRIPT_SHELLS = exe_rx [''powershell'', ''pwsh'', ''cmd'', ''wscript'', ''cscript'', ''mshta'', ''wmiprvse'', ''rundll32'',
     ''regsvr32'', ''certutil'', ''bitsadmin'']"

definition office_spawn_shell :: pc_rule where
  "office_spawn_shell = \<lparr>pc_name = ''office_spawn_shell'', pc_severity = ''high'', pc_mitre = ''T1566.001'',
     pc_test = (\<lambda>c p. rx_test OFFICE_PARENTS (base p) \<and> rx_test SCRIPT_SHELLS (base c)),
     pc_reason = (\<lambda>c p. ''Office app ('' @ base p @ '') spawned a script host ('' @ base c @ '') '' @ em_dash @ '' macro initial access'')\<rparr>"

definition wmi_spawn_shell :: pc_rule where
  "wmi_spawn_shell = \<lparr>pc_name = ''wmi_spawn_shell'', pc_severity = ''high'', pc_mitre = ''T1047'',
     pc_test = (\<lambda>c p. rx_test (exe_rx [''wmiprvse'']) (base p)
       \<and> rx_test (exe_rx [''powershell'', ''pwsh'', ''cmd'', ''wscript'', ''cscript'']) (base c)),
     pc_reason = (\<lambda>_ _. ''WmiPrvSE spawned a shell '' @ em_dash @ '' WMI-based execution / lateral movement'')\<rparr>"

definition windows_dir :: string where
  "windows_dir = bsl # ''windows'' @ [bsl]"

definition services_to_user_binary :: pc_rule where
  "services_to_user_binary = \<lparr>pc_name = ''services_to_user_binary'', pc_severity = ''medium'', pc_mitre = ''T1543.003'',
     pc_test = (\<lambda>c p.
       if \<not> rx_test (exe_rx [''services'']) (base p) then False
       else if rx_test (exe_rx [''svchost'']) (base c) then False
       else let i = to_lower (img c) in i \<noteq> [] \<and> \<not> str_includes i windows_dir),
     pc_reason = (\<lambda>c _. ''services.exe spawned a non-system binary ('' @ base c @ '') '' @ em_dash @ '' possible service abuse'')\<rparr>"

definition powershell_chain :: pc_rule where
  "powershell_chain = \<lparr>pc_name = ''powershell_chain'', pc_severity = ''medium'', pc_mitre = ''T1059.001'',
     pc_test = (\<lambda>c p. rx_test POWERSHELL (base p)
       \<and> rx_test (exe_rx [''cmd'', ''powershell'', ''pwsh'', ''wscript'', ''cscript'']) (base c)),
     pc_reason = (\<lambda>_ _. ''PowerShell spawning another shell '' @ em_dash @ '' chained execution'')\<rparr>"

definition browser_spawn_shell :: pc_rule where
  "browser_spawn_shell = \<lparr>pc_name = ''browser_spawn_shell'', pc_severity = ''medium'', pc_mitre = ''T1204.002'',
     pc_test = (\<lambda>c p. rx_test (exe_rx [''chrome'', ''firefox'', ''msedge'', ''iexplore'', ''brave'', ''opera'']) (base p)
       \<and> rx_test (exe_rx [''cmd'', ''powershell'', ''pwsh'', ''wscript'', ''cscript'', ''mshta'']) (base c)),
     pc_reason = (\<lambda>c p. ''Browser ('' @ base p @ '') spawned a shell ('' @ base c @ '') '' @ em_dash @ '' drive-by / browser exploit'')\<rparr>"

definition sshd_spawn_downloader :: pc_rule where
  "sshd_spawn_downloader = \<lparr>pc_name = ''sshd_spawn_downloader'', pc_severity = ''medium'', pc_mitre = ''T1071.001'',
     pc_test = (\<lambda>c p. rx_test (lit ''sshd'') (base p)
       \<and> rx_test (seqs [Bos, alts [lit ''curl'', lit ''wget'', lit ''fetch''], Eos]) (base c)),
     pc_reason = (\<lambda>_ _. ''sshd '' @ right_arrow @ '' curl/wget chain '' @ em_dash @ '' possible post-compromise download'')\<rparr>"

definition PARENT_CHILD_RULES :: "pc_rule list" where
  "PARENT_CHILD_RULES = [office_spawn_shell, wmi_spawn_shell, services_to_user_binary, powershell_chain,
     browser_spawn_shell, sshd_spawn_downloader]"

subsection \<open>Severities and verdicts\<close>

definition SEV_WEIGHT :: "string \<Rightarrow> nat" where
  "SEV_WEIGHT s = (if s = ''high'' then 3 else if s = ''medium'' then 2 else if s = ''low'' then 1 else 0)"

definition worse :: "string option \<Rightarrow> finding \<Rightarrow> string option" where
  "worse best r =
     (if \<not> str_truthy best \<or> SEV_WEIGHT (fd_severity r) > SEV_WEIGHT (str_or best []) then Some (fd_severity r) else best)"

definition maxSeverity :: "finding list \<Rightarrow> string option" where
  "maxSeverity reasons = foldl worse None reasons"

record verdict =
  vd_suspicious :: bool
  vd_reasons :: "finding list"
  vd_max_severity :: "string option"

definition rule_finding :: "node_rule \<Rightarrow> finding" where
  "rule_finding r = \<lparr>fd_name = nr_name r, fd_severity = nr_severity r,
     fd_mitre = (if nr_mitre r = [] then None else Some (nr_mitre r)), fd_reason = nr_reason r\<rparr>"

definition detectNode :: "proc \<Rightarrow> verdict" where
  "detectNode node =
     (let reasons = map rule_finding (filter (\<lambda>r. nr_test r node) NODE_RULES)
      in \<lparr>vd_suspicious = (length reasons > 0), vd_reasons = reasons, vd_max_severity = maxSeverity reasons\<rparr>)"

record pnode = proc +
  pn_suspicious :: bool
  pn_reasons :: "finding list"
  pn_max_severity :: "string option"

datatype ptree = PNode pnode "ptree list"

definition pc_finding :: "proc \<Rightarrow> proc \<Rightarrow> pc_rule \<Rightarrow> finding" where
  "pc_finding c p r = \<lparr>fd_name = pc_name r, fd_severity = pc_severity r,
     fd_mitre = (if pc_mitre r = [] then None else Some (pc_mitre r)), fd_reason = pc_reason r c p\<rparr>"

definition pc_findings :: "pnode \<Rightarrow> pnode \<Rightarrow> finding list" where
  "pc_findings c p = (let c' = proc.truncate c; p' = proc.truncate p in
     map (pc_finding c' p') (filter (\<lambda>r. pc_test r c' p') PARENT_CHILD_RULES))"

definition judge_child :: "pnode \<Rightarrow> pnode \<Rightarrow> pnode" where
  "judge_child c p =
     (let new = pc_findings c p; reasons = pn_reasons c @ new in
      c\<lparr>pn_suspicious := pn_suspicious c \<or> new \<noteq> [], pn_reasons := reasons, pn_max_severity := maxSeverity reasons\<rparr>)"

fun visit_tree :: "pnode option \<Rightarrow> ptree \<Rightarrow> ptree" where
  "visit_tree parent (PNode n ts) =
     (let n' = (case parent of None \<Rightarrow> n | Some p \<Rightarrow> judge_child n p) in PNode n' (map (visit_tree (Some n')) ts))"

definition detectForest :: "ptree list \<Rightarrow> ptree list" where
  "detectForest forest = map (visit_tree None) forest"

definition sev_color :: "string \<Rightarrow> string" where
  "sev_color sev =
     (if sev = ''high'' then ''var(--crit)'' else if sev = ''medium'' then ''var(--med)''
      else if sev = ''low'' then ''var(--low)'' else ''var(--muted)'')"

subsection \<open>The severity of a list of findings is its worst one\<close>

definition finding_weight :: "finding \<Rightarrow> nat" where
  "finding_weight r = SEV_WEIGHT (fd_severity r)"

definition severity_weight :: "string option \<Rightarrow> nat" where
  "severity_weight s = SEV_WEIGHT (str_or s [])"

lemma SEV_WEIGHT_empty [simp]: "SEV_WEIGHT [] = 0"
  by (simp add: SEV_WEIGHT_def)

lemma severity_weight_simps [simp]: "severity_weight None = 0" "severity_weight (Some s) = SEV_WEIGHT s"
  by (simp_all add: severity_weight_def)

lemma worse_weight: "severity_weight (worse best r) = max (severity_weight best) (finding_weight r)"
  by (cases best) (auto simp: worse_def finding_weight_def)

lemma fold_worse: "severity_weight (foldl worse best rs) = max (severity_weight best) (severity_weight (foldl worse None rs))"
proof (induction rs arbitrary: best)
  case (Cons r rs)
  show ?case
    using Cons [of "worse best r"] Cons [of "worse None r"] by (simp add: worse_weight max.assoc)
qed simp

lemma maxSeverity_Cons: "severity_weight (maxSeverity (r # rs)) = max (finding_weight r) (severity_weight (maxSeverity rs))"
  using fold_worse [of "worse None r" rs] by (simp add: maxSeverity_def worse_weight)

interpretation sev: severity_scale finding_weight 0 "\<lambda>rs. severity_weight (maxSeverity rs)"
  by unfold_locales (simp_all add: maxSeverity_Cons, simp add: maxSeverity_def)

end
