(* ===== verification/Process_Forest.thy ===== *)
theory Process_Forest
  imports Process_Detect
begin

text \<open>
  \<^verbatim>\<open>frontend/src/pages/incident/forensic/TimelineImport.jsx\<close>, the process tree: \<open>buildProcessForest\<close> reads the
  processes out of imported events and hangs each below its parent; the tables of the tree view (findings per
  subtree, descendants, occurrences) and its search. A node is named by its process id, which is its key in
  \<open>nodes\<close>. \<open>JSON.parse\<close> (\<open>None\<close>: it throws) and \<open>localeCompare\<close> are parameters.
\<close>

subsection \<open>Reading a process from an event\<close>

record forest_env =
  fe_parse :: "string \<Rightarrow> jsval option"
  fe_compare :: "string \<Rightarrow> string \<Rightarrow> int"

definition PID_FIELDS :: "string list" where
  "PID_FIELDS = [''ProcessId'', ''NewProcessId'', ''pid'']"

definition PPID_FIELDS :: "string list" where
  "PPID_FIELDS = [''ParentProcessId'', ''ProcessId'', ''PPID'']"

definition IMAGE_FIELDS :: "string list" where
  "IMAGE_FIELDS = [''Image'', ''NewProcessName'', ''ProcessName'', ''proc'', ''process'']"

definition PARENT_IMAGE_FIELDS :: "string list" where
  "PARENT_IMAGE_FIELDS = [''ParentImage'', ''ParentProcessName'']"

definition CMD_FIELDS :: "string list" where
  "CMD_FIELDS = [''CommandLine'']"

definition USER_FIELDS :: "string list" where
  "USER_FIELDS = [''User'', ''SubjectUserName'']"

fun firstField :: "jsval \<Rightarrow> string list \<Rightarrow> string option" where
  "firstField obj [] = None"
| "firstField obj (n # names) =
     (if \<not> truthy obj then None
      else let v = jget obj n in
        if v \<noteq> JUndef \<and> v \<noteq> JNull \<and> v \<noteq> JStr [] then Some (js_string v) else firstField obj names)"

definition parseRaw :: "forest_env \<Rightarrow> jsval \<Rightarrow> jsval" where
  "parseRaw E rawLog =
     (if \<not> truthy rawLog then JNull
      else case fe_parse E (js_string rawLog) of Some v \<Rightarrow> v | None \<Rightarrow> JNull)"

text \<open>\<open>parseInt(x, 16)\<close> of a string that begins with \<open>0x\<close>; \<open>None\<close> is \<open>NaN\<close>. A process id fits in 32 bits, so the
  number is exact.\<close>

definition hex_value :: "char \<Rightarrow> int" where
  "hex_value c =
     (if is_digit c then int (code_of c) - 48 else int (code_of (lower_char c)) - 87)"

definition parse_hex :: "string \<Rightarrow> int option" where
  "parse_hex x = (let ds = takeWhile is_hex (drop 2 x) in
     if ds = [] then None else Some (foldl (\<lambda>n c. 16 * n + hex_value c) 0 ds))"

definition norm_pid :: "jsval \<Rightarrow> string option" where
  "norm_pid x =
     (case x of
        JStr s \<Rightarrow> if prefix ''0x'' (to_lower s) then Some (case parse_hex s of Some n \<Rightarrow> show_int n | None \<Rightarrow> ''NaN'') else Some s
      | _ \<Rightarrow> if nullish x then None else Some (js_string x))"

definition or_null :: "string option \<Rightarrow> jsval" where
  "or_null s = (case s of Some x \<Rightarrow> JStr x | None \<Rightarrow> JNull)"

text \<open>The fields of an event the server declares as texts or null.\<close>

definition text_field :: "jsval \<Rightarrow> string \<Rightarrow> string option" where
  "text_field ev k = as_str (jget ev k)"

definition raw_pids :: "jsval \<Rightarrow> jsval \<times> jsval" where
  "raw_pids raw =
     (if jget raw ''EventID'' = JNum 4688 then (jget raw ''NewProcessId'', jget raw ''ProcessId'')
      else (or_null (firstField raw PID_FIELDS), or_null (firstField raw PPID_FIELDS)))"

definition process_base :: "jsval \<Rightarrow> jsval \<Rightarrow> string \<Rightarrow> string option \<Rightarrow> proc" where
  "process_base ev raw pid ppid =
     \<lparr>pr_pid = pid, pr_ppid = ppid,
      pr_image = firstField raw IMAGE_FIELDS, pr_parentImage = firstField raw PARENT_IMAGE_FIELDS,
      pr_cmdLine = firstField raw CMD_FIELDS, pr_user = firstField raw USER_FIELDS,
      pr_hostname = text_field ev ''hostname'', pr_eventTime = text_field ev ''event_time'',
      pr_description = text_field ev ''description'', pr_eventIdx = as_num (jget ev ''idx'')\<rparr>"

definition parser_reason :: "jsval \<Rightarrow> jsval \<Rightarrow> finding" where
  "parser_reason ev r = \<lparr>fd_name = ''parser_rule'', fd_severity = ''medium'',
     fd_mitre = (if truthy (jget ev ''mitre_technique_id'') then Some (js_string (jget ev ''mitre_technique_id'')) else None),
     fd_reason = js_string r\<rparr>"

definition parser_reasons :: "jsval \<Rightarrow> finding list" where
  "parser_reasons ev = (case jget ev ''suspicious_reasons'' of JArr rs \<Rightarrow> map (parser_reason ev) rs | _ \<Rightarrow> [])"

definition extractProcess :: "forest_env \<Rightarrow> jsval \<Rightarrow> pnode option" where
  "extractProcess E ev =
     (let raw = parseRaw E (jget ev ''raw_log'') in
      if \<not> truthy raw then None
      else case raw_pids raw of (pid, ppid) \<Rightarrow>
        if \<not> truthy pid then None
        else case norm_pid pid of None \<Rightarrow> None | Some p \<Rightarrow>
          let base = process_base ev raw p (norm_pid ppid); det = detectNode base; flagged = truthy (jget ev ''suspicious'') in
          Some (proc.extend base
            \<lparr>pn_suspicious = flagged \<or> vd_suspicious det,
             pn_reasons = parser_reasons ev @ vd_reasons det,
             pn_max_severity = (if str_truthy (vd_max_severity det) then vd_max_severity det
               else if flagged then Some ''medium'' else None)\<rparr>))"

definition image_basename :: "string option \<Rightarrow> string option" where
  "image_basename p =
     (if \<not> str_truthy p then None
      else let s = the p; i = max (last_index_of s bsl) (last_index_of s (CHR ''/'')); t = drop (nat (i + 1)) s in
        Some (if t = [] then s else t))"

subsection \<open>Building the forest\<close>

type_synonym nodes = "(string \<times> pnode) list"

text \<open>\<open>nodes\<close>, in the order of insertion: the first record of a process id is kept.\<close>

definition add_node :: "nodes \<Rightarrow> pnode \<Rightarrow> nodes" where
  "add_node nodes p = (if map_of nodes (pr_pid p) = None then nodes @ [(pr_pid p, p)] else nodes)"

definition read_event :: "forest_env \<Rightarrow> nodes \<Rightarrow> jsval \<Rightarrow> nodes" where
  "read_event E nodes ev = (case extractProcess E ev of None \<Rightarrow> nodes | Some p \<Rightarrow> add_node nodes p)"

definition read_events :: "forest_env \<Rightarrow> jsval list \<Rightarrow> nodes" where
  "read_events E events = foldl (read_event E) [] events"

definition known_parent :: "nodes \<Rightarrow> pnode \<Rightarrow> string option" where
  "known_parent nodes n =
     (if str_truthy (pr_ppid n) \<and> map_of nodes (the (pr_ppid n)) \<noteq> None then pr_ppid n else None)"

record wiring =
  wi_roots :: "string list"
  wi_children :: "string \<Rightarrow> string list"

definition wire_node :: "nodes \<Rightarrow> wiring \<Rightarrow> string \<times> pnode \<Rightarrow> wiring" where
  "wire_node nodes w x =
     (case known_parent nodes (snd x) of
        Some q \<Rightarrow> w\<lparr>wi_children := (wi_children w)(q := wi_children w q @ [fst x])\<rparr>
      | None \<Rightarrow> w\<lparr>wi_roots := wi_roots w @ [fst x]\<rparr>)"

definition wire :: "nodes \<Rightarrow> wiring" where
  "wire nodes = foldl (wire_node nodes) \<lparr>wi_roots = [], wi_children = \<lambda>_. []\<rparr> nodes"

definition node_at :: "nodes \<Rightarrow> string \<Rightarrow> pnode" where
  "node_at nodes p = the (map_of nodes p)"

definition event_time :: "pnode \<Rightarrow> string" where
  "event_time n = str_or (pr_eventTime n) []"

definition sortKey :: "forest_env \<Rightarrow> nodes \<Rightarrow> string \<Rightarrow> string \<Rightarrow> int" where
  "sortKey E nodes a b = fe_compare E (event_time (node_at nodes a)) (event_time (node_at nodes b))"

text \<open>\<open>sortRec\<close> after the sort of its array: visits the siblings in order, sorting the children of each. It follows the
  pointers of \<open>children\<close>, so it is a partial function; the tree it has walked is its result.\<close>

partial_function (option) sortRec :: "forest_env \<Rightarrow> nodes \<Rightarrow> (string \<Rightarrow> string list) \<Rightarrow> string list \<Rightarrow> ptree list option" where
  "sortRec E nodes kids arr =
     (if arr = [] then Some []
      else
        Option.bind (sortRec E nodes kids (sort_by (sortKey E nodes) (kids (hd arr)))) (\<lambda>ts.
        Option.bind (sortRec E nodes kids (tl arr)) (\<lambda>us. Some (PNode (node_at nodes (hd arr)) ts # us))))"

definition buildProcessForest :: "forest_env \<Rightarrow> jsval list \<Rightarrow> ptree list option" where
  "buildProcessForest E events =
     (let nodes = read_events E events in
      if nodes = [] then Some []
      else let w = wire nodes in
        map_option detectForest (sortRec E nodes (wi_children w) (sort_by (sortKey E nodes) (wi_roots w))))"

subsection \<open>What the tree view computes\<close>

definition sevWeight :: "string \<Rightarrow> nat" where
  "sevWeight s = (if s = ''high'' then 3 else if s = ''medium'' then 2 else if s = ''low'' then 1 else 0)"

datatype atree = ANode (an_node: pnode) (subtreeSuspiciousCount: nat) (subtreeMaxSeverity: "string option") (an_children: "atree list")

definition worse_severity :: "string option \<Rightarrow> string option \<Rightarrow> string option" where
  "worse_severity maxSev r =
     (if str_truthy r \<and> (\<not> str_truthy maxSev \<or> sevWeight (the r) > sevWeight (the maxSev)) then r else maxSev)"

fun annotate :: "ptree \<Rightarrow> atree" where
  "annotate (PNode n ts) =
     (let cs = map annotate ts in
      ANode n
        (foldl (\<lambda>count c. count + subtreeSuspiciousCount c) (if pn_suspicious n then 1 else 0) cs)
        (foldl (\<lambda>sev c. worse_severity sev (subtreeMaxSeverity c))
           (if str_truthy (pn_max_severity n) then pn_max_severity n else None) cs)
        cs)"

definition annotateSubtreeFindings :: "ptree list \<Rightarrow> atree list" where
  "annotateSubtreeFindings forest = map annotate forest"

definition totalSuspicious :: "ptree list \<Rightarrow> nat" where
  "totalSuspicious forest = foldl (\<lambda>s n. s + subtreeSuspiciousCount n) 0 (annotateSubtreeFindings forest)"

text \<open>\<open>_walkForest\<close> visits the nodes from an explicit stack whose top is the end of the list.\<close>

fun tree_size :: "ptree \<Rightarrow> nat" where
  "tree_size (PNode n ts) = Suc (sum_list (map tree_size ts))"

function walkForest :: "ptree list \<Rightarrow> pnode list" where
  "walkForest stack =
     (if stack = [] then []
      else case last stack of PNode n ts \<Rightarrow> n # walkForest (butlast stack @ ts))"
  by pat_completeness auto

termination
proof (relation "measure (\<lambda>stack. sum_list (map tree_size stack))")
  fix stack :: "ptree list" and n ts
  assume "stack \<noteq> []" "last stack = PNode n ts"
  then have "stack = butlast stack @ [PNode n ts]" by (metis append_butlast_last_id)
  then have "sum_list (map tree_size stack) = sum_list (map tree_size (butlast stack)) + tree_size (PNode n ts)"
    by (metis (no_types) map_append sum_list_append list.simps(8,9) sum_list.Cons sum_list.Nil add.right_neutral)
  then show "(butlast stack @ ts, stack) \<in> measure (\<lambda>stack. sum_list (map tree_size stack))" by simp
qed simp

declare walkForest.simps [simp del]

definition totalNodes :: "ptree list \<Rightarrow> nat" where
  "totalNodes forest = foldl (\<lambda>n _. n + 1) 0 (walkForest forest)"

text \<open>A \<open>Set\<close> is the list of its members in insertion order.\<close>

definition set_add :: "'a list \<Rightarrow> 'a \<Rightarrow> 'a list" where
  "set_add s x = (if x \<in> set s then s else s @ [x])"

fun pid_of :: "ptree \<Rightarrow> string" where
  "pid_of (PNode n ts) = pr_pid n"

text \<open>The calls of \<open>out.set\<close> in their order, with the set returned.\<close>

fun descend :: "ptree \<Rightarrow> string list \<times> (string \<times> string list) list" where
  "descend (PNode n ts) =
     (let s = foldl (\<lambda>s (p, sub). foldl set_add (set_add s p) sub) [] (map (\<lambda>t. (pid_of t, fst (descend t))) ts)
      in (s, concat (map (\<lambda>t. snd (descend t)) ts) @ [(pr_pid n, s)]))"

definition buildDescendantsMap :: "ptree list \<Rightarrow> (string \<times> string list) list" where
  "buildDescendantsMap forest = foldl (\<lambda>m (k, v). map_set m k v) [] (concat (map (\<lambda>t. snd (descend t)) forest))"

definition occurrence_key :: "pnode \<Rightarrow> string" where
  "occurrence_key n = to_lower (str_or (image_basename (pr_image n)) (''pid '' @ pr_pid n))"

definition add_occurrence :: "(string \<times> pnode list) list \<Rightarrow> pnode \<Rightarrow> (string \<times> pnode list) list" where
  "add_occurrence occs n = (let k = occurrence_key n in
     map_set occs k ((case map_of occs k of Some ns \<Rightarrow> ns | None \<Rightarrow> []) @ [n]))"

definition buildOccurrences :: "forest_env \<Rightarrow> ptree list \<Rightarrow> (string \<times> pnode list) list" where
  "buildOccurrences E forest =
     map (\<lambda>(k, ns). (k, sort_by (\<lambda>a b. fe_compare E (event_time a) (event_time b)) ns))
       (foldl add_occurrence [] (walkForest forest))"

text \<open>The search: the text of a row, the rows that match, the rows that are drawn (\<open>None\<close>: no search).\<close>

definition hay :: "pnode \<Rightarrow> string" where
  "hay n = to_lower (join '' '' (filter (\<lambda>s. s \<noteq> [])
     (map (\<lambda>s. str_or s []) [image_basename (pr_image n), pr_image n, Some (pr_pid n), pr_cmdLine n, pr_user n, pr_hostname n])))"

definition matchSet :: "ptree list \<Rightarrow> string \<Rightarrow> string list option" where
  "matchSet forest query =
     (let q = to_lower (trim query) in
      if q = [] then None
      else Some (foldl (\<lambda>m n. if str_includes (hay n) q then set_add m (pr_pid n) else m) [] (walkForest forest)))"

definition visibleSet :: "ptree list \<Rightarrow> string \<Rightarrow> string list option" where
  "visibleSet forest query =
     map_option (\<lambda>m. foldl (\<lambda>v (pid, descs). if list_ex (\<lambda>d. d \<in> set m) descs then set_add v pid else v)
       m (buildDescendantsMap forest)) (matchSet forest query)"

definition node_drawn :: "string list option \<Rightarrow> pnode \<Rightarrow> bool" where
  "node_drawn visible n = (case visible of None \<Rightarrow> True | Some v \<Rightarrow> pr_pid n \<in> set v)"

definition inHoveredSubtree :: "(string \<times> string list) list \<Rightarrow> string option \<Rightarrow> pnode \<Rightarrow> bool" where
  "inHoveredSubtree descendants hovered n =
     (str_truthy hovered \<and> (Some (pr_pid n) = hovered
       \<or> (case map_of descendants (the hovered) of Some s \<Rightarrow> pr_pid n \<in> set s | None \<Rightarrow> False)))"

definition hiddenSuspicious :: "bool \<Rightarrow> atree \<Rightarrow> int" where
  "hiddenSuspicious is_open t =
     (if \<not> is_open \<and> an_children t \<noteq> [] then int (subtreeSuspiciousCount t) - (if pn_suspicious (an_node t) then 1 else 0) else 0)"

fun selectSubtree :: "ptree \<Rightarrow> int list" where
  "selectSubtree (PNode n ts) =
     (case pr_eventIdx n of Some i \<Rightarrow> [i] | None \<Rightarrow> []) @ concat (map selectSubtree ts)"

end
