(* ===== verification/Process_Verdicts.thy ===== *)
theory Process_Verdicts
  imports Process_Detect
begin

text \<open>
  What the process-tree rules promise: a verdict does not depend on letter case, it is the verdict of
  the rules that fire, and the walk over the tree judges every edge once and leaves everything else.
\<close>

subsection \<open>Patterns that ignore letter case\<close>

fun caseless :: "rx \<Rightarrow> bool" where
  "caseless (Cls p) = (\<forall>c. p (lower_char c) = p c)"
| "caseless (Seq r1 r2) = (caseless r1 \<and> caseless r2)"
| "caseless (Alt r1 r2) = (caseless r1 \<and> caseless r2)"
| "caseless (Rep _ _ r) = caseless r"
| "caseless (NotAhead r) = caseless r"
| "caseless _ = True"

definition low_state :: "mstate \<Rightarrow> mstate" where
  "low_state = map_prod (map_option lower_char) to_lower"

lemma low_state_simps [simp]:
  "low_state (q, s) = (map_option lower_char q, to_lower s)"
  "length (snd (low_state st)) = length (snd st)"
  "fst (low_state st) = None \<longleftrightarrow> fst st = None"
  "snd (low_state st) = [] \<longleftrightarrow> snd st = []"
  by (simp_all add: low_state_def)

lemma is_word_lower [simp]: "is_word_char (lower_char c) = is_word_char c"
  by (auto simp: is_word_char_def is_alpha_def is_digit_def code_lower_char)

lemma is_space_lower [simp]: "is_space (lower_char c) = is_space c"
  by (auto simp: is_space_def code_lower_char)

lemma word_boundary_low [simp]: "at_word_boundary (low_state st) = at_word_boundary st"
proof -
  have "word_opt (map_option lower_char q) = word_opt q" for q by (cases q) (simp_all add: word_opt_def)
  moreover have "head_opt (to_lower s) = map_option lower_char (head_opt s)" for s
    by (cases s) (simp_all add: head_opt_def to_lower_def)
  ultimately show ?thesis by (cases st) (simp add: at_word_boundary_def)
qed

lemma opt_ends_low:
  assumes "\<And>st. m (low_state st) = map low_state (m st)"
  shows "opt_ends m n hi (low_state st) = map low_state (opt_ends m n hi st)"
  by (induction n arbitrary: hi st)
    (simp_all add: assms map_concat comp_def if_distrib [of "map low_state"] cong: if_cong)

lemma rep_ends_low:
  assumes "\<And>st. m (low_state st) = map low_state (m st)"
  shows "rep_ends m lo hi (low_state st) = map low_state (rep_ends m lo hi st)"
  by (induction lo arbitrary: hi st) (simp_all add: assms opt_ends_low map_concat comp_def)

lemma rx_ends_low: "caseless r \<Longrightarrow> rx_ends r (low_state st) = map low_state (rx_ends r st)"
proof (induction r arbitrary: st)
  case (Cls p)
  obtain q s where st: "st = (q, s)" by (cases st)
  show ?case using Cls by (cases s) (simp_all add: st to_lower_def)
qed (simp_all add: map_concat comp_def rep_ends_low)

lemma starts_from_low: "starts_from (map_option lower_char q) (to_lower s) = map low_state (starts_from q s)"
  by (induction q s rule: starts_from.induct) (auto simp: to_lower_def)

lemma rx_test_low: "caseless r \<Longrightarrow> rx_test r (to_lower s) = rx_test r s"
  using starts_from_low [of None s] by (simp add: rx_test_def list.pred_map list_ex_iff rx_ends_low)

lemma rx_test_caseless: "caseless r \<Longrightarrow> to_lower s = to_lower t \<Longrightarrow> rx_test r s = rx_test r t"
  using rx_test_low [of r s] rx_test_low [of r t] by simp

lemma caseless_seqs [simp]: "caseless (seqs rs) = list_all caseless rs"
  by (induction rs rule: seqs.induct) auto

lemma caseless_alts [simp]: "caseless (alts rs) = list_all caseless rs"
  by (induction rs rule: alts.induct) auto

lemma caseless_lit_i [simp]: "caseless (lit_i w)" "caseless (i_alts ws)"
  by (simp_all add: lit_i_def i_alts_def list_all_iff)

lemma lower_char_other: "\<not> is_alpha d \<Longrightarrow> lower_char c = d \<longleftrightarrow> c = d"
  by (auto simp: is_alpha_def char_eq_code code_lower_char split: if_splits)

lemma caseless_lit: "list_all (\<lambda>c. \<not> is_alpha c) w \<Longrightarrow> caseless (lit w)"
  by (auto simp: lit_def list_all_iff lower_char_other)

lemma code_lower_other: "code_of (lower_char c) = n \<longleftrightarrow> code_of c = n" if "n < 65"
  using that by (auto simp: code_lower_char)

lemma lower_code_10_13 [simp]: "code_of (lower_char c) = 10 \<longleftrightarrow> code_of c = 10" "code_of (lower_char c) = 13 \<longleftrightarrow> code_of c = 13"
  by (auto simp: code_lower_char)

lemma lower_bar [simp]: "lower_char c = CHR 0x7C \<longleftrightarrow> c = CHR 0x7C"
  by (rule lower_char_other) (simp add: is_alpha_def)

lemma caseless_classes [simp]:
  "caseless space_c" "caseless nonspace_c" "caseless any_char" "caseless bs_rx" "caseless (Cls (\<lambda>c. c \<noteq> CHR 0x7C))"
  by (simp_all add: code_lower_other bs_rx_def lower_char_other bsl_def is_alpha_def)

subsection \<open>Letter case does not matter\<close>

definition same_text :: "proc \<Rightarrow> proc \<Rightarrow> bool" where
  "same_text a b \<longleftrightarrow> to_lower (img a) = to_lower (img b) \<and> to_lower (cmd a) = to_lower (cmd b)"

lemma last_index_lower:
  "\<not> is_alpha d \<Longrightarrow> last_index_from d i (to_lower s) = last_index_from d i s"
  by (induction d i s rule: last_index_from.induct) (simp_all add: to_lower_def lower_char_other)

lemma basename_lower: "basename p = basename (Some (to_lower (str_or p [])))"
proof (cases p)
  case (Some s)
  have "last_index_of (to_lower s) d = last_index_of s d" if "\<not> is_alpha d" for d
    using that by (simp add: last_index_of_def last_index_lower)
  moreover have "\<not> is_alpha bsl" "\<not> is_alpha (CHR ''/'')" by (simp_all add: bsl_def is_alpha_def)
  moreover have "drop n (to_lower s) = to_lower (drop n s)" for n by (simp add: to_lower_def drop_map)
  ultimately show ?thesis using Some by (simp add: basename_def Let_def)
qed (simp add: basename_def)

lemma base_same_text: "same_text a b \<Longrightarrow> base a = base b"
  using basename_lower [of "pr_image a"] basename_lower [of "pr_image b"]
  by (simp add: same_text_def base_def img_def)

lemma cmd_same_text: "same_text a b \<Longrightarrow> caseless r \<Longrightarrow> rx_test r (cmd a) = rx_test r (cmd b)"
  by (rule rx_test_caseless) (simp_all add: same_text_def)

lemma img_same_text: "same_text a b \<Longrightarrow> caseless r \<Longrightarrow> rx_test r (img a) = rx_test r (img b)"
  by (rule rx_test_caseless) (simp_all add: same_text_def)

lemmas lolbin_rules =
  powershell_encoded_def powershell_download_cradle_def powershell_hidden_window_def certutil_url_decode_def
  bitsadmin_transfer_def regsvr32_squiblydoo_def rundll32_remote_or_script_def mshta_remote_script_def wmic_remote_exec_def

lemmas other_rules =
  credential_dumper_image_def mimikatz_commands_def procdump_lsass_def psexec_image_def psexec_service_def rclone_exfil_def
  mega_sync_def discovery_burst_def user_add_def execution_from_user_writable_def linux_reverse_shell_def
  linux_curl_pipe_shell_def

lemma punctuation_caseless [simp]:
  "caseless (lit ''('')" "caseless (lit ''://'')" "caseless (lit ''|'')" "caseless (lit ''>'')" "caseless (lit ''&'')"
  by (rule caseless_lit, simp add: is_alpha_def)+

lemma rules_caseless:
  assumes "same_text a b" and "r \<in> set NODE_RULES"
  shows "nr_test r a = nr_test r b"
proof -
  note s = base_same_text [OF assms(1)] cmd_same_text [OF assms(1)] img_same_text [OF assms(1)]
  have "nr_test r a = nr_test r b" if "r \<in> set [powershell_encoded, powershell_download_cradle, powershell_hidden_window,
      certutil_url_decode, bitsadmin_transfer, regsvr32_squiblydoo, rundll32_remote_or_script, mshta_remote_script, wmic_remote_exec]"
    using that by (auto simp: lolbin_rules s)
  moreover have "nr_test r a = nr_test r b" if "r \<in> set [credential_dumper_image, mimikatz_commands, procdump_lsass,
      psexec_image, psexec_service, rclone_exfil, mega_sync, discovery_burst, user_add, execution_from_user_writable,
      linux_reverse_shell, linux_curl_pipe_shell]"
    using that by (auto simp: other_rules s)
  ultimately show ?thesis using assms(2) by (auto simp: NODE_RULES_def)
qed

text \<open>C19: detection does not depend on letter case: two processes whose image paths and command lines differ in case
  only get the same verdict, reason by reason, although half the patterns have no \<open>i\<close> flag.\<close>

theorem detection_case_insensitive:
  assumes "to_lower (img a) = to_lower (img b)" and "to_lower (cmd a) = to_lower (cmd b)"
  shows "detectNode a = detectNode b"
proof -
  have "same_text a b" using assms by (simp add: same_text_def)
  then have "filter (\<lambda>r. nr_test r a) NODE_RULES = filter (\<lambda>r. nr_test r b) NODE_RULES"
    by (intro filter_cong refl rules_caseless)
  then show ?thesis by (simp add: detectNode_def)
qed

lemma detection_case_insensitive_witness:
  "detectNode \<lparr>pr_pid = ''1'', pr_ppid = None, pr_image = Some ''MIMIKATZ.EXE'', pr_parentImage = None, pr_cmdLine = None,
     pr_user = None, pr_hostname = None, pr_eventTime = None, pr_description = None, pr_eventIdx = Some 0\<rparr>
   = detectNode \<lparr>pr_pid = ''2'', pr_ppid = None, pr_image = Some ''mimikatz.exe'', pr_parentImage = None, pr_cmdLine = Some [],
     pr_user = None, pr_hostname = None, pr_eventTime = None, pr_description = None, pr_eventIdx = Some 1\<rparr>"
  by (rule detection_case_insensitive) code_simp+

subsection \<open>The verdict of a process\<close>

definition fires :: "string \<Rightarrow> proc \<Rightarrow> bool" where
  "fires sev n \<longleftrightarrow> (\<exists>r \<in> set NODE_RULES. nr_severity r = sev \<and> nr_test r n)"

lemma rule_severities: "r \<in> set NODE_RULES \<Longrightarrow> nr_severity r = ''high'' \<or> nr_severity r = ''medium''"
proof -
  have "list_all (\<lambda>r. nr_severity r = ''high'' \<or> nr_severity r = ''medium'') NODE_RULES"
    by (simp add: NODE_RULES_def lolbin_rules other_rules)
  then show "r \<in> set NODE_RULES \<Longrightarrow> ?thesis" by (simp add: list_all_iff)
qed

lemma maxSeverity_in: "rs \<noteq> [] \<Longrightarrow> \<forall>r \<in> set rs. fd_severity r \<noteq> [] \<Longrightarrow> \<exists>r \<in> set rs. maxSeverity rs = Some (fd_severity r)"
proof (induction rs rule: rev_induct)
  case (snoc x xs)
  then show ?case by (cases "xs = []") (auto simp: maxSeverity_def worse_def)
qed simp

lemma maxSeverity_two:
  assumes "\<forall>r \<in> set rs. fd_severity r = ''high'' \<or> fd_severity r = ''medium''"
  shows "maxSeverity rs = (if \<exists>r \<in> set rs. fd_severity r = ''high'' then Some ''high''
    else if rs \<noteq> [] then Some ''medium'' else None)"
proof (cases "rs = []")
  case False
  have "fd_severity r \<noteq> []" if "r \<in> set rs" for r
    using assms [rule_format, OF that] by (elim disjE) simp_all
  then obtain x where x: "x \<in> set rs" "maxSeverity rs = Some (fd_severity x)" using maxSeverity_in [OF False] by blast
  have w: "SEV_WEIGHT (fd_severity r) \<le> SEV_WEIGHT (fd_severity x)" if "r \<in> set rs" for r
    using sev.worst_ge [OF that] x(2) by (simp add: finding_weight_def)
  show ?thesis
  proof (cases "\<exists>r \<in> set rs. fd_severity r = ''high''")
    case True
    then obtain r where r: "r \<in> set rs" "fd_severity r = ''high''" by blast
    have "fd_severity x = ''high''"
      using w [OF r(1)] r(2) assms [rule_format, OF x(1)] by (elim disjE) (simp_all add: SEV_WEIGHT_def)
    then show ?thesis using True x(2) by simp
  next
    case F: False
    then have "fd_severity x = ''medium''" using assms x(1) by blast
    then show ?thesis using F False x(2) by simp
  qed
qed (simp add: maxSeverity_def)

text \<open>The verdict of a process is that of the rules that fire on it: suspicious exactly when one does, one reason per
  firing rule in the rules' order, and high exactly when a high rule fires, else medium when a medium one does.\<close>

theorem verdict_is_fired_rules:
  "vd_suspicious (detectNode n) = (\<exists>r \<in> set NODE_RULES. nr_test r n)
   \<and> map fd_name (vd_reasons (detectNode n)) = map nr_name (filter (\<lambda>r. nr_test r n) NODE_RULES)
   \<and> vd_max_severity (detectNode n)
       = (if fires ''high'' n then Some ''high'' else if fires ''medium'' n then Some ''medium'' else None)"
proof (intro conjI)
  let ?rs = "map rule_finding (filter (\<lambda>r. nr_test r n) NODE_RULES)"
  show "vd_suspicious (detectNode n) = (\<exists>r \<in> set NODE_RULES. nr_test r n)"
    by (auto simp: detectNode_def Let_def filter_empty_conv)
  show "map fd_name (vd_reasons (detectNode n)) = map nr_name (filter (\<lambda>r. nr_test r n) NODE_RULES)"
    by (simp add: detectNode_def Let_def rule_finding_def comp_def)
  have "maxSeverity ?rs = (if \<exists>r \<in> set ?rs. fd_severity r = ''high'' then Some ''high'' else if ?rs \<noteq> [] then Some ''medium'' else None)"
    by (rule maxSeverity_two) (auto simp: rule_finding_def dest: rule_severities)
  moreover have "(\<exists>r \<in> set ?rs. fd_severity r = ''high'') = fires ''high'' n"
    by (auto simp: fires_def rule_finding_def)
  moreover have "?rs \<noteq> [] \<longleftrightarrow> fires ''high'' n \<or> fires ''medium'' n"
    using rule_severities by (auto simp: fires_def filter_empty_conv)
  ultimately show "vd_max_severity (detectNode n)
       = (if fires ''high'' n then Some ''high'' else if fires ''medium'' n then Some ''medium'' else None)"
    by (simp add: detectNode_def Let_def)
qed

subsection \<open>The walk over the tree\<close>

fun node_of :: "ptree \<Rightarrow> pnode" where
  "node_of (PNode n ts) = n"

fun tree_edges :: "ptree \<Rightarrow> (pnode \<times> pnode) list" where
  "tree_edges (PNode n ts) = concat (map (\<lambda>t. (n, node_of t) # tree_edges t) ts)"

lemma judge_child_proc [simp]: "proc.truncate (judge_child c p) = proc.truncate c"
  by (simp add: judge_child_def Let_def proc.truncate_def)

lemma pc_findings_parent: "proc.truncate p = proc.truncate q \<Longrightarrow> judge_child c p = judge_child c q"
  by (simp add: judge_child_def pc_findings_def)

lemma node_visit: "node_of (visit_tree par t) = (case par of None \<Rightarrow> node_of t | Some p \<Rightarrow> judge_child (node_of t) p)"
  by (cases t) (simp add: Let_def split: option.split)

definition as_proc :: "pnode \<times> pnode \<Rightarrow> proc \<times> pnode" where
  "as_proc = (\<lambda>(p, c). (proc.truncate p, c))"

definition judged :: "pnode \<times> pnode \<Rightarrow> proc \<times> pnode" where
  "judged = (\<lambda>(p, c). (proc.truncate p, judge_child c p))"

lemma visit_edges: "map as_proc (tree_edges (visit_tree par t)) = map judged (tree_edges t)"
proof (induction t arbitrary: par)
  case (PNode n ts)
  define n' where "n' = (case par of None \<Rightarrow> n | Some p \<Rightarrow> judge_child n p)"
  have tr: "proc.truncate n' = proc.truncate n" by (simp add: n'_def split: option.splits)
  have "map as_proc ((n', node_of (visit_tree (Some n') t)) # tree_edges (visit_tree (Some n') t))
      = map judged ((n, node_of t) # tree_edges t)" if "t \<in> set ts" for t
    using PNode [OF that, of "Some n'"] tr pc_findings_parent [OF tr, of "node_of t"]
    by (simp add: node_visit as_proc_def judged_def)
  then show ?case by (simp add: n'_def [symmetric] map_concat comp_def cong: map_cong)
qed

text \<open>The walk judges every edge of the forest once and independently of the others: roots are untouched, each child
  gets the parent-child findings of its own edge appended and the worst severity of its reasons, and neither
  the shape of the forest nor any process field changes.\<close>

theorem detectForest_judges_edges:
  "map node_of (detectForest f) = map node_of f
   \<and> map as_proc (concat (map tree_edges (detectForest f))) = map judged (concat (map tree_edges f))
   \<and> severity_weight (pn_max_severity (judge_child c p))
       = Max (insert 0 (finding_weight ` (set (pn_reasons c) \<union> set (pc_findings c p))))"
proof (intro conjI)
  show "map node_of (detectForest f) = map node_of f" by (simp add: detectForest_def comp_def node_visit)
  show "map as_proc (concat (map tree_edges (detectForest f))) = map judged (concat (map tree_edges f))"
    by (induction f) (simp_all add: detectForest_def visit_edges)
  have "pn_max_severity (judge_child c p) = maxSeverity (pn_reasons c @ pc_findings c p)"
    by (simp add: judge_child_def Let_def)
  then show "severity_weight (pn_max_severity (judge_child c p))
       = Max (insert 0 (finding_weight ` (set (pn_reasons c) \<union> set (pc_findings c p))))"
    using sev.worst_Max [of "pn_reasons c @ pc_findings c p"] by simp
qed

end
