(* ===== verification/Process_Tree.thy ===== *)
theory Process_Tree
  imports Process_Forest Process_Verdicts "HOL-Library.Multiset"
begin

text \<open>
  What the process tree shows: which processes of an import are in it, and that its counts and its search agree
  with the nodes below each row.
\<close>

subsection \<open>The processes read\<close>

definition nodes_ok :: "nodes \<Rightarrow> bool" where
  "nodes_ok nodes \<longleftrightarrow> distinct (map fst nodes) \<and> (\<forall>x \<in> set nodes. pr_pid (snd x) = fst x)"

lemma add_node_ok: "nodes_ok nodes \<Longrightarrow> nodes_ok (add_node nodes p)"
  by (auto simp: nodes_ok_def add_node_def map_of_eq_None_iff)

lemma read_event_ok: "nodes_ok nodes \<Longrightarrow> nodes_ok (read_event E nodes ev)"
  by (simp add: read_event_def add_node_ok split: option.split)

lemma foldl_keeps: "P s \<Longrightarrow> (\<And>s x. P s \<Longrightarrow> P (f s x)) \<Longrightarrow> P (foldl f s xs)"
  by (induction xs arbitrary: s) auto

lemma read_events_ok: "nodes_ok (read_events E events)"
  unfolding read_events_def by (rule foldl_keeps) (simp_all add: read_event_ok, simp add: nodes_ok_def)

lemma map_of_node: "nodes_ok nodes \<Longrightarrow> map_of nodes p = Some n \<longleftrightarrow> (p, n) \<in> set nodes"
  by (simp add: nodes_ok_def map_of_eq_Some_iff)

lemma pid_node_at: "nodes_ok nodes \<Longrightarrow> p \<in> fst ` set nodes \<Longrightarrow> pr_pid (node_at nodes p) = p"
  by (auto simp: nodes_ok_def node_at_def)

subsection \<open>The wiring\<close>

definition parent :: "nodes \<Rightarrow> string \<Rightarrow> string option" where
  "parent nodes p = (case map_of nodes p of None \<Rightarrow> None | Some n \<Rightarrow> known_parent nodes n)"

lemma wire_foldl:
  "wi_roots (foldl (wire_node nodes) w xs) = wi_roots w @ map fst (filter (\<lambda>x. known_parent nodes (snd x) = None) xs)"
  "wi_children (foldl (wire_node nodes) w xs) q
     = wi_children w q @ map fst (filter (\<lambda>x. known_parent nodes (snd x) = Some q) xs)"
  by (induction xs arbitrary: w) (auto simp: wire_node_def split: option.splits)

lemma wire_roots: "wi_roots (wire nodes) = map fst (filter (\<lambda>x. known_parent nodes (snd x) = None) nodes)"
  and wire_children: "wi_children (wire nodes) q = map fst (filter (\<lambda>x. known_parent nodes (snd x) = Some q) nodes)"
  by (simp_all add: wire_def wire_foldl)

lemma distinct_fst_filter: "distinct (map fst xs) \<Longrightarrow> distinct (map fst (filter P xs))"
  by (induction xs) auto

lemma parent_at: "nodes_ok nodes \<Longrightarrow> (x, n) \<in> set nodes \<Longrightarrow> parent nodes x = known_parent nodes n"
  using map_of_node [of nodes x n] by (simp add: parent_def)

lemma parent_in:
  assumes "nodes_ok nodes"
  shows "x \<in> fst ` {y \<in> set nodes. known_parent nodes (snd y) = r} \<longleftrightarrow> x \<in> fst ` set nodes \<and> parent nodes x = r"
proof
  assume "x \<in> fst ` set nodes \<and> parent nodes x = r"
  then obtain n where "(x, n) \<in> set nodes" "known_parent nodes n = r" using parent_at [OF assms] by auto
  then show "x \<in> fst ` {y \<in> set nodes. known_parent nodes (snd y) = r}" by force
qed (use parent_at [OF assms] in auto)

lemma parent_known: "parent nodes x = Some q \<Longrightarrow> x \<in> fst ` set nodes"
  by (auto simp: parent_def split: option.splits dest!: map_of_SomeD intro: rev_image_eqI)

lemma set_children: "nodes_ok nodes \<Longrightarrow> x \<in> set (wi_children (wire nodes) q) \<longleftrightarrow> parent nodes x = Some q"
  unfolding wire_children set_map set_filter by (subst parent_in) (auto dest: parent_known)

lemma set_roots: "nodes_ok nodes \<Longrightarrow> x \<in> set (wi_roots (wire nodes)) \<longleftrightarrow> x \<in> fst ` set nodes \<and> parent nodes x = None"
  unfolding wire_roots set_map set_filter by (rule parent_in)

lemma count_distinct: "distinct xs \<Longrightarrow> count_list xs x = (if x \<in> set xs then 1 else 0)"
  by (induction xs) auto

lemma count_children: "nodes_ok nodes \<Longrightarrow> count_list (wi_children (wire nodes) q) x = (if parent nodes x = Some q then 1 else 0)"
  using set_children by (subst count_distinct) (simp_all add: wire_children distinct_fst_filter nodes_ok_def)

lemma count_sort_by [simp]: "count_list (sort_by cmp xs) x = count_list xs x"
proof -
  have "count_list (insert_by cmp y ys) x = count_list (y # ys) x" for y ys by (induction ys) auto
  then show ?thesis unfolding sort_by_def by (induction xs) auto
qed

subsection \<open>The walk ends\<close>

text \<open>A process is anchored when its chain of parents ends at one whose parent is not in the import.\<close>

inductive anchored :: "nodes \<Rightarrow> string \<Rightarrow> bool" for nodes where
  anchored_root: "p \<in> fst ` set nodes \<Longrightarrow> parent nodes p = None \<Longrightarrow> anchored nodes p"
| anchored_child: "parent nodes p = Some q \<Longrightarrow> anchored nodes q \<Longrightarrow> anchored nodes p"

inductive_cases anchored_elim: "anchored nodes p"

definition above :: "nodes \<Rightarrow> (string \<times> string) set" where
  "above nodes = {(q, p). parent nodes p = Some q \<and> anchored nodes q}"

lemma anchored_node: "anchored nodes p \<Longrightarrow> p \<in> fst ` set nodes"
  by (induction rule: anchored.induct) (auto dest: parent_known)

lemma anchored_no_cycle: "anchored nodes p \<Longrightarrow> (p, p) \<notin> (above nodes)\<^sup>+"
proof (induction rule: anchored.induct)
  case (anchored_root p)
  then show ?case by (auto dest!: tranclD2 simp: above_def)
next
  case (anchored_child p q)
  show ?case
  proof
    assume "(p, p) \<in> (above nodes)\<^sup>+"
    then obtain r where r: "(p, r) \<in> (above nodes)\<^sup>*" "(r, p) \<in> above nodes" by (auto dest!: tranclD2)
    then have "r = q" using anchored_child.hyps(1) by (simp add: above_def)
    with r have "(q, q) \<in> (above nodes)\<^sup>+" by (meson rtrancl_into_trancl2)
    with anchored_child.IH show False ..
  qed
qed

lemma wf_below: "wf ((above nodes)\<inverse>)"
proof (rule finite_acyclic_wf_converse)
  have "above nodes \<subseteq> fst ` set nodes \<times> fst ` set nodes"
  proof
    fix x assume "x \<in> above nodes"
    then have "anchored nodes (fst x)" "anchored nodes (snd x)" by (auto simp: above_def intro: anchored_child)
    then show "x \<in> fst ` set nodes \<times> fst ` set nodes" by (simp add: mem_Times_iff anchored_node)
  qed
  then show "finite (above nodes)" by (rule finite_subset) simp
  show "acyclic (above nodes)"
  proof (rule acyclicI, intro allI notI)
    fix p assume p: "(p, p) \<in> (above nodes)\<^sup>+"
    then have "anchored nodes p" by (auto dest!: tranclD simp: above_def)
    with p show False using anchored_no_cycle by blast
  qed
qed

text \<open>The walk from anchored siblings returns.\<close>

lemma sortRec_Nil: "sortRec E nodes kids [] = Some []"
  by (subst sortRec.simps) simp

lemma sortRec_Cons:
  "sortRec E nodes kids (p # rest) =
     Option.bind (sortRec E nodes kids (sort_by (sortKey E nodes) (kids p))) (\<lambda>ts.
     Option.bind (sortRec E nodes kids rest) (\<lambda>us. Some (PNode (node_at nodes p) ts # us)))"
  by (subst sortRec.simps) simp

lemma walk_siblings:
  assumes "\<forall>p \<in> set arr. \<exists>ts. sortRec E nodes kids (sort_by (sortKey E nodes) (kids p)) = Some ts"
  shows "\<exists>ts. sortRec E nodes kids arr = Some ts"
  using assms
proof (induction arr)
  case Nil
  then show ?case by (simp add: sortRec_Nil)
next
  case (Cons p arr)
  then show ?case by (auto simp: sortRec_Cons)
qed

lemma walk_returns:
  assumes "nodes_ok nodes"
  shows "anchored nodes p \<Longrightarrow> \<exists>ts. sortRec E nodes (wi_children (wire nodes)) (sort_by (sortKey E nodes) (wi_children (wire nodes) p)) = Some ts"
proof (induction p rule: wf_induct_rule [OF wf_below [of nodes]])
  case (1 p)
  show ?case
  proof (rule walk_siblings, intro ballI)
    fix c assume "c \<in> set (sort_by (sortKey E nodes) (wi_children (wire nodes) p))"
    then have c: "parent nodes c = Some p" using assms by (simp add: set_children)
    then have "(c, p) \<in> (above nodes)\<inverse>" "anchored nodes c" using 1(2) by (simp_all add: above_def anchored_child)
    with 1(1) show "\<exists>ts. sortRec E nodes (wi_children (wire nodes)) (sort_by (sortKey E nodes) (wi_children (wire nodes) c)) = Some ts"
      by blast
  qed
qed

subsection \<open>Every process once\<close>

fun tree_nodes :: "ptree \<Rightarrow> pnode list" where
  "tree_nodes (PNode n ts) = n # concat (map tree_nodes ts)"

definition forest_nodes :: "ptree list \<Rightarrow> pnode list" where
  "forest_nodes f = concat (map tree_nodes f)"

definition forest_pids :: "ptree list \<Rightarrow> string list" where
  "forest_pids f = map pr_pid (forest_nodes f)"

lemma forest_pids_simps [simp]:
  "forest_pids [] = []"
  "forest_pids (PNode n ts # us) = pr_pid n # forest_pids ts @ forest_pids us"
  by (simp_all add: forest_pids_def forest_nodes_def)

lemma count_append [simp]: "count_list (xs @ ys) x = count_list xs x + count_list ys x"
  by (induction xs) auto

lemma forest_induct [case_names Nil Node]:
  assumes "P []" "\<And>n us vs. P us \<Longrightarrow> P vs \<Longrightarrow> P (PNode n us # vs)"
  shows "P ts"
proof (induction "sum_list (map tree_size ts)" arbitrary: ts rule: less_induct)
  case less
  show ?case
  proof (cases ts)
    case (Cons t vs)
    obtain n us where t: "t = PNode n us" by (cases t)
    have "P us" "P vs" by (rule less; simp add: Cons t)+
    then show ?thesis unfolding Cons t by (rule assms(2))
  qed (simp add: assms(1))
qed

lemma walk_cases:
  assumes "sortRec E nodes kids arr = Some ts"
  obtains "arr = []" "ts = []"
  | p rest us vs where "arr = p # rest" "ts = PNode (node_at nodes p) us # vs"
      "sortRec E nodes kids (sort_by (sortKey E nodes) (kids p)) = Some us" "sortRec E nodes kids rest = Some vs"
proof (cases arr)
  case Nil
  with assms that(1) show ?thesis by (simp add: sortRec_Nil)
next
  case (Cons p rest)
  from assms obtain us vs where "sortRec E nodes kids (sort_by (sortKey E nodes) (kids p)) = Some us"
    "sortRec E nodes kids rest = Some vs" "ts = PNode (node_at nodes p) us # vs"
    unfolding Cons sortRec_Cons by (auto simp: bind_eq_Some_conv)
  then show ?thesis using that(2) [OF Cons] by blast
qed

text \<open>A process occurs as often as among the siblings walked and as often as its parent.\<close>

lemma walk_counts:
  assumes ok: "nodes_ok nodes"
  shows "sortRec E nodes (wi_children (wire nodes)) arr = Some ts \<Longrightarrow> set arr \<subseteq> fst ` set nodes \<Longrightarrow>
    count_list (forest_pids ts) x = count_list arr x + (case parent nodes x of None \<Rightarrow> 0 | Some q \<Rightarrow> count_list (forest_pids ts) q)"
proof (induction ts arbitrary: arr rule: forest_induct)
  case Nil
  from Nil(1) have "arr = []" by (rule walk_cases) simp_all
  then show ?case by (simp split: option.split)
next
  case (Node n us vs)
  let ?kids = "wi_children (wire nodes)"
  from Node.prems(1) obtain p rest where arr: "arr = p # rest" and n: "n = node_at nodes p"
    and us: "sortRec E nodes ?kids (sort_by (sortKey E nodes) (?kids p)) = Some us" and vs: "sortRec E nodes ?kids rest = Some vs"
    by (rule walk_cases) auto
  have "set (?kids p) \<subseteq> fst ` set nodes" by (auto simp: wire_children)
  then have u: "count_list (forest_pids us) x = count_list (?kids p) x + (case parent nodes x of None \<Rightarrow> 0 | Some q \<Rightarrow> count_list (forest_pids us) q)"
    using Node.IH(1) [OF us] by simp
  have v: "count_list (forest_pids vs) x = count_list rest x + (case parent nodes x of None \<Rightarrow> 0 | Some q \<Rightarrow> count_list (forest_pids vs) q)"
    using Node.IH(2) [OF vs] Node.prems(2) by (simp add: arr)
  have "pr_pid n = p" using pid_node_at [OF ok, of p] Node.prems(2) by (simp add: arr n)
  then have "count_list (forest_pids (PNode n us # vs)) y
      = (if p = y then 1 else 0) + (count_list (forest_pids us) y + count_list (forest_pids vs) y)" for y
    by simp
  moreover have "count_list arr x = (if p = x then 1 else 0) + count_list rest x" by (simp add: arr)
  moreover have "count_list (?kids p) x = (if parent nodes x = Some p then 1 else 0)" by (rule count_children [OF ok])
  ultimately show ?case using u v by (auto split: option.split simp del: forest_pids_simps)
qed

lemma walk_anchored:
  assumes ok: "nodes_ok nodes"
  shows "sortRec E nodes (wi_children (wire nodes)) arr = Some ts \<Longrightarrow> \<forall>p \<in> set arr. anchored nodes p \<Longrightarrow>
    \<forall>p \<in> set (forest_pids ts). anchored nodes p"
proof (induction ts arbitrary: arr rule: forest_induct)
  case (Node n us vs)
  let ?kids = "wi_children (wire nodes)"
  from Node.prems(1) obtain p rest where arr: "arr = p # rest" and n: "n = node_at nodes p"
    and us: "sortRec E nodes ?kids (sort_by (sortKey E nodes) (?kids p)) = Some us" and vs: "sortRec E nodes ?kids rest = Some vs"
    by (rule walk_cases) auto
  have p: "anchored nodes p" using Node.prems(2) by (simp add: arr)
  have "\<forall>c \<in> set (?kids p). anchored nodes c" using set_children [OF ok] p anchored_child by blast
  then have "\<forall>c \<in> set (forest_pids us). anchored nodes c" using Node.IH(1) [OF us] by simp
  moreover have "\<forall>c \<in> set (forest_pids vs). anchored nodes c" using Node.IH(2) [OF vs] Node.prems(2) by (simp add: arr)
  ultimately show ?case using p pid_node_at [OF ok anchored_node [OF p]] by (auto simp: n)
qed simp

lemma visit_pids: "map pr_pid (tree_nodes (visit_tree par t)) = map pr_pid (tree_nodes t)"
proof (induction t arbitrary: par)
  case (PNode n ts)
  have "pr_pid (case par of None \<Rightarrow> n | Some p \<Rightarrow> judge_child n p) = pr_pid n"
    by (simp add: judge_child_def Let_def split: option.split)
  moreover have "map (map pr_pid) (map tree_nodes (map (visit_tree par') ts)) = map (map pr_pid) (map tree_nodes ts)" for par'
    using PNode by simp
  then have "map pr_pid (concat (map tree_nodes (map (visit_tree par') ts))) = map pr_pid (concat (map tree_nodes ts))" for par'
    by (metis map_concat)
  ultimately show ?case by (simp add: Let_def)
qed

lemma forest_pids_visit: "forest_pids (detectForest f) = forest_pids f"
  by (induction f) (simp_all add: detectForest_def forest_pids_def forest_nodes_def visit_pids)

text \<open>The process tree of an import can be drawn: the construction ends, and it shows every process whose
  chain of parents ends outside the import exactly once, and no other.\<close>

lemma tree_pids_once:
  "\<exists>f. buildProcessForest E events = Some f
     \<and> (\<forall>p. count_list (forest_pids f) p = (if anchored (read_events E events) p then 1 else 0))"
proof -
  define nodes where "nodes = read_events E events"
  let ?kids = "wi_children (wire nodes)" and ?roots = "sort_by (sortKey E nodes) (wi_roots (wire nodes))"
  have ok: "nodes_ok nodes" by (simp add: nodes_def read_events_ok)
  have roots: "\<forall>p \<in> set ?roots. anchored nodes p" using set_roots [OF ok] by (simp add: anchored_root)
  then obtain ts where ts: "sortRec E nodes ?kids ?roots = Some ts"
    using walk_siblings [of ?roots] walk_returns [OF ok] by blast
  have sub: "set ?roots \<subseteq> fst ` set nodes" using set_roots [OF ok] by auto
  have one: "count_list (forest_pids ts) p = 1" if "anchored nodes p" for p
    using that
  proof (induction rule: anchored.induct)
    case (anchored_root p)
    then have "p \<in> set (wi_roots (wire nodes))" using set_roots [OF ok] by simp
    then have "count_list (wi_roots (wire nodes)) p = 1"
      using ok by (simp add: count_distinct wire_roots distinct_fst_filter nodes_ok_def)
    then show ?case using walk_counts [OF ok ts sub, of p] anchored_root.hyps by simp
  next
    case (anchored_child p q)
    then have "p \<notin> set (wi_roots (wire nodes))" using set_roots [OF ok] by simp
    then show ?case using walk_counts [OF ok ts sub, of p] anchored_child by (simp add: count_list_0_iff)
  qed
  have zero: "count_list (forest_pids ts) p = 0" if "\<not> anchored nodes p" for p
    using walk_anchored [OF ok ts roots] that by (auto simp: count_list_0_iff)
  have counts: "\<forall>p. count_list (forest_pids (detectForest ts)) p = (if anchored nodes p then 1 else 0)"
    using one zero by (simp add: forest_pids_visit)
  show ?thesis
  proof (cases "nodes = []")
    case True
    then have "\<not> anchored nodes p" for p using anchored_node by fastforce
    then show ?thesis using True by (simp add: buildProcessForest_def nodes_def)
  next
    case False
    then have "buildProcessForest E events = Some (detectForest ts)"
      using ts by (simp add: buildProcessForest_def nodes_def [symmetric] Let_def)
    with counts show ?thesis by (auto simp: nodes_def)
  qed
qed

subsection \<open>Records of terminated processes\<close>

lemma read_more: "map_of nodes p = Some n \<Longrightarrow> map_of (foldl (read_event E) nodes events) p = Some n"
  by (induction events arbitrary: nodes) (auto simp: read_event_def add_node_def map_add_def split: option.split)

lemma read_first:
  "map_of nodes p = None \<Longrightarrow>
    map_of (foldl (read_event E) nodes events) p = find (\<lambda>n. pr_pid n = p) (List.map_filter (extractProcess E) events)"
proof (induction events arbitrary: nodes)
  case (Cons ev events)
  show ?case
  proof (cases "extractProcess E ev")
    case None
    then show ?thesis using Cons by (simp add: read_event_def map_filter_simps)
  next
    case (Some n)
    show ?thesis
    proof (cases "pr_pid n = p")
      case True
      then have "map_of (read_event E nodes ev) p = Some n"
        using Cons.prems Some by (simp add: read_event_def add_node_def map_add_def)
      then show ?thesis using Some True by (simp add: read_more map_filter_simps)
    next
      case False
      then have "map_of (read_event E nodes ev) p = None"
        using Cons.prems Some by (simp add: read_event_def add_node_def map_add_def)
      then show ?thesis using Cons.IH Some False by (simp add: map_filter_simps)
    qed
  qed
qed (simp add: map_filter_simps)

lemma node_read: "map_of (read_events E events) p = find (\<lambda>n. pr_pid n = p) (List.map_filter (extractProcess E) events)"
  unfolding read_events_def by (rule read_first) simp

lemma own_parent_not_anchored: "parent nodes p = Some p \<Longrightarrow> \<not> anchored nodes p"
  using anchored_no_cycle by (auto simp: above_def)

lemma parent_not_anchored: "parent nodes c = Some p \<Longrightarrow> \<not> anchored nodes p \<Longrightarrow> \<not> anchored nodes c"
  by (auto elim: anchored_elim)

lemma extract_pids:
  assumes "extractProcess E ev = Some n"
  obtains pid ppid where "raw_pids (parseRaw E (jget ev ''raw_log'')) = (pid, ppid)" "truthy pid"
    "norm_pid pid = Some (pr_pid n)" "norm_pid ppid = pr_ppid n"
  using assms
  by (auto simp: extractProcess_def Let_def process_base_def proc.defs split: if_splits prod.splits option.splits)


lemma norm_pid_nonempty: "norm_pid (JStr (c # cs)) = Some p \<Longrightarrow> p \<noteq> []"
  by (auto simp: norm_pid_def show_int_def split: if_splits option.splits)

text \<open>C30: A record that has a process id and no parent id, as the log of a process that ended has, makes the process its
  own parent: when it is the first one of its process, the tree shows neither the process nor what it started.\<close>

theorem terminated_process_vanishes:
  assumes "extractProcess E ev = Some n" "raw = parseRaw E (jget ev ''raw_log'')" "jget raw ''EventID'' \<noteq> JNum 4688"
    and "jget raw ''ParentProcessId'' = JUndef" "jget raw ''ProcessId'' = JStr (c # cs)"
    and "find (\<lambda>m. pr_pid m = pr_pid n) (List.map_filter (extractProcess E) events) = Some n"
  shows "\<exists>f. buildProcessForest E events = Some f \<and> pr_pid n \<notin> set (forest_pids f)
    \<and> (\<forall>q. parent (read_events E events) q = Some (pr_pid n) \<longrightarrow> q \<notin> set (forest_pids f))"
proof -
  define nodes where "nodes = read_events E events"
  obtain pid ppid where ids: "raw_pids raw = (pid, ppid)" "truthy pid" "norm_pid pid = Some (pr_pid n)" "norm_pid ppid = pr_ppid n"
    using extract_pids [OF assms(1)] assms(2) by blast
  have "truthy raw" using assms(5) by (cases raw) auto
  then have "raw_pids raw = (JStr (c # cs), JStr (c # cs))"
    using assms(3-5) by (simp add: raw_pids_def PID_FIELDS_def PPID_FIELDS_def or_null_def Let_def)
  then have "pid = JStr (c # cs)" "ppid = JStr (c # cs)" using ids(1) by simp_all
  then have own: "pr_ppid n = Some (pr_pid n)" "pr_pid n \<noteq> []" using ids(3,4) norm_pid_nonempty [of c cs "pr_pid n"] by simp_all
  have "map_of nodes (pr_pid n) = Some n" using assms(6) by (simp add: nodes_def node_read)
  then have "parent nodes (pr_pid n) = Some (pr_pid n)" using own by (simp add: parent_def known_parent_def)
  then have n: "\<not> anchored nodes (pr_pid n)" by (rule own_parent_not_anchored)
  obtain f where f: "buildProcessForest E events = Some f"
    "\<forall>p. count_list (forest_pids f) p = (if anchored nodes p then 1 else 0)"
    using tree_pids_once [of E events] unfolding nodes_def by blast
  have gone: "p \<notin> set (forest_pids f)" if "\<not> anchored nodes p" for p
    using f(2) that by (metis count_list_0_iff)
  show ?thesis
    using f(1) gone n parent_not_anchored unfolding nodes_def by blast
qed

definition sysmon_env :: forest_env where
  "sysmon_env = \<lparr>fe_parse = (\<lambda>s. Some (if s = ''start''
       then JObj [(''EventID'', JNum 1), (''ProcessId'', JStr ''900''), (''ParentProcessId'', JStr ''812''), (''Image'', JStr ''b.exe'')]
       else JObj [(''EventID'', JNum 5), (''ProcessId'', JStr ''812''), (''Image'', JStr ''a.exe'')])),
     fe_compare = (\<lambda>a b. 0)\<rparr>"

definition ended_event :: jsval where
  "ended_event = JObj [(''idx'', JNum 0), (''raw_log'', JStr ''end'')]"

definition started_event :: jsval where
  "started_event = JObj [(''idx'', JNum 1), (''raw_log'', JStr ''start'')]"

lemma sysmon_nodes:
  obtains a b where "extractProcess sysmon_env ended_event = Some a" "pr_pid a = ''812''"
    "extractProcess sysmon_env started_event = Some b" "pr_pid b = ''900''" "pr_ppid b = Some ''812''" "pr_image b = Some ''b.exe''"
  by (simp add: extractProcess_def Let_def parseRaw_def raw_pids_def or_null_def PID_FIELDS_def PPID_FIELDS_def
      sysmon_env_def ended_event_def started_event_def norm_pid_def to_lower_def lower_char_def code_of_def
      process_base_def proc.defs IMAGE_FIELDS_def)

lemma terminated_process_vanishes_witness:
  "\<exists>f. buildProcessForest sysmon_env [ended_event, started_event] = Some f \<and> ''812'' \<notin> set (forest_pids f) \<and> ''900'' \<notin> set (forest_pids f)"
proof -
  obtain a b where a: "extractProcess sysmon_env ended_event = Some a" "pr_pid a = ''812''"
    and b: "extractProcess sysmon_env started_event = Some b" "pr_pid b = ''900''" "pr_ppid b = Some ''812''"
    by (rule sysmon_nodes)
  have raw: "parseRaw sysmon_env (jget ended_event ''raw_log'')
      = JObj [(''EventID'', JNum 5), (''ProcessId'', JStr ''812''), (''Image'', JStr ''a.exe'')]"
    by (simp add: parseRaw_def sysmon_env_def ended_event_def)
  have found: "find (\<lambda>m. pr_pid m = pr_pid a) (List.map_filter (extractProcess sysmon_env) [ended_event, started_event]) = Some a"
    using a(1) by (simp add: map_filter_simps)
  have child: "parent (read_events sysmon_env [ended_event, started_event]) ''900'' = Some (pr_pid a)"
    using a b by (simp add: parent_def known_parent_def node_read map_filter_simps)
  show ?thesis
    using terminated_process_vanishes [OF a(1) raw [symmetric] _ _ _ found] child
    unfolding a(2) by simp blast
qed

subsection \<open>The edges of the tree\<close>

definition forest_edges :: "ptree list \<Rightarrow> (pnode \<times> pnode) list" where
  "forest_edges f = concat (map tree_edges f)"

lemma forest_edges_simps [simp]:
  "forest_edges [] = []"
  "forest_edges (PNode n ts # us) = concat (map (\<lambda>t. (n, node_of t) # tree_edges t) ts) @ forest_edges us"
  by (simp_all add: forest_edges_def)

lemma set_tree_edges: "set (concat (map (\<lambda>t. (n, node_of t) # tree_edges t) ts)) = Pair n ` node_of ` set ts \<union> set (forest_edges ts)"
  by (auto simp: forest_edges_def)

definition pids :: "pnode \<times> pnode \<Rightarrow> string \<times> string" where
  "pids = (\<lambda>(p, c). (pr_pid p, pr_pid c))"

lemma walk_roots:
  assumes "nodes_ok nodes" "sortRec E nodes kids arr = Some ts" "set arr \<subseteq> fst ` set nodes"
  shows "map (pr_pid \<circ> node_of) ts = arr"
  using assms(2,3)
proof (induction arr arbitrary: ts)
  case (Cons p arr)
  moreover have "pr_pid (node_at nodes p) = p" by (rule pid_node_at [OF assms(1)]) (use Cons.prems(2) in simp)
  ultimately show ?case by (auto simp: sortRec_Cons bind_eq_Some_conv)
qed (simp add: sortRec_Nil)

lemma walk_edges:
  assumes ok: "nodes_ok nodes"
  shows "sortRec E nodes (wi_children (wire nodes)) arr = Some ts \<Longrightarrow> set arr \<subseteq> fst ` set nodes \<Longrightarrow>
    pids ` set (forest_edges ts) \<subseteq> {(q, p). parent nodes p = Some q}"
proof (induction ts arbitrary: arr rule: forest_induct)
  case (Node n us vs)
  let ?kids = "wi_children (wire nodes)"
  from Node.prems(1) obtain p rest where arr: "arr = p # rest" and n: "n = node_at nodes p"
    and us: "sortRec E nodes ?kids (sort_by (sortKey E nodes) (?kids p)) = Some us" and vs: "sortRec E nodes ?kids rest = Some vs"
    by (rule walk_cases) auto
  have sub: "set (sort_by (sortKey E nodes) (?kids p)) \<subseteq> fst ` set nodes" by (auto simp: wire_children)
  have "(pr_pid \<circ> node_of) ` set us = set (?kids p)"
    using walk_roots [OF ok us sub] by (metis list.set_map set_sort_by)
  then have "pids ` (Pair n ` node_of ` set us) \<subseteq> {(q, p). parent nodes p = Some q}"
    using set_children [OF ok] pid_node_at [OF ok, of p] Node.prems(2) by (auto simp: pids_def n arr)
  moreover have "pids ` set (forest_edges us) \<subseteq> {(q, p). parent nodes p = Some q}" by (rule Node.IH(1) [OF us sub])
  moreover have "pids ` set (forest_edges vs) \<subseteq> {(q, p). parent nodes p = Some q}"
    using Node.IH(2) [OF vs] Node.prems(2) by (simp add: arr)
  ultimately show ?case by (simp only: forest_edges_simps set_append set_tree_edges image_Un Un_subset_iff)
qed simp

lemma edges_visit: "pids ` set (forest_edges (detectForest f)) = pids ` set (forest_edges f)"
proof -
  have pid: "pr_pid (proc.truncate p) = pr_pid p" for p :: pnode by (simp add: proc.defs)
  have "map (\<lambda>(p, c). (pr_pid p, pr_pid c)) (map as_proc xs) = map pids xs" for xs
    by (auto simp: as_proc_def pids_def pid)
  moreover have "map (\<lambda>(p, c). (pr_pid p, pr_pid c)) (map judged xs) = map pids xs" for xs
    by (auto simp: judged_def pids_def pid judge_child_def Let_def)
  moreover have "map as_proc (forest_edges (detectForest f)) = map judged (forest_edges f)"
    by (induction f) (simp_all add: detectForest_def forest_edges_def visit_edges)
  ultimately have "map pids (forest_edges (detectForest f)) = map pids (forest_edges f)" by metis
  then show ?thesis by (metis list.set_map)
qed

lemma built_from:
  assumes "buildProcessForest E events = Some f"
  obtains ts arr where "f = detectForest ts" "set arr \<subseteq> fst ` set (read_events E events)"
    "sortRec E (read_events E events) (wi_children (wire (read_events E events))) arr = Some ts"
proof (cases "read_events E events = []")
  case True
  then have "f = detectForest []" using assms by (simp add: buildProcessForest_def detectForest_def)
  then show ?thesis using that [of "[]" "[]"] by (simp add: sortRec_Nil)
next
  case False
  let ?arr = "sort_by (sortKey E (read_events E events)) (wi_roots (wire (read_events E events)))"
  from False assms obtain ts where "f = detectForest ts"
    "sortRec E (read_events E events) (wi_children (wire (read_events E events))) ?arr = Some ts"
    by (auto simp: buildProcessForest_def Let_def)
  moreover have "set ?arr \<subseteq> fst ` set (read_events E events)" by (auto simp: wire_roots)
  ultimately show ?thesis using that by blast
qed


end
