(* ===== verification/Process_View.thy ===== *)
theory Process_View
  imports Process_Tree
begin

text \<open>
  The tables of the process-tree view agree with the tree: counts and severities of a row, the descendants, and
  the rows a search leaves.
\<close>

subsection \<open>The walk with the stack\<close>

lemma walk_nodes: "mset (walkForest stack) = mset (forest_nodes stack)"
proof (induction stack rule: walkForest.induct)
  case (1 stack)
  show ?case
  proof (cases "stack = []")
    case True
    then show ?thesis by (simp add: forest_nodes_def walkForest.simps [of "[]"])
  next
    case False
    obtain n ts where t: "last stack = PNode n ts" by (cases "last stack")
    then have stack: "stack = butlast stack @ [PNode n ts]" using False by (metis append_butlast_last_id)
    have "mset (walkForest stack) = add_mset n (mset (forest_nodes (butlast stack @ ts)))"
      using 1 [OF False t] False t by (subst walkForest.simps) simp
    also have "\<dots> = mset (forest_nodes (butlast stack @ [PNode n ts]))" by (simp add: forest_nodes_def)
    finally show ?thesis using stack by simp
  qed
qed

lemma set_walk: "set (walkForest f) = set (forest_nodes f)"
  using walk_nodes mset_eq_setD by blast

lemma length_walk: "length (walkForest f) = length (forest_nodes f)"
  using walk_nodes mset_eq_length by blast

subsection \<open>Counts and severities\<close>

lemma sevWeight_SEV_WEIGHT: "sevWeight = SEV_WEIGHT"
  by (simp add: fun_eq_iff sevWeight_def SEV_WEIGHT_def)

lemma foldl_sum: "foldl (\<lambda>s c. s + g c) (a :: nat) cs = a + sum_list (map g cs)"
  by (induction cs arbitrary: a) (simp_all add: add.assoc)

lemma subtree_count: "subtreeSuspiciousCount (annotate t) = length (filter pn_suspicious (tree_nodes t))"
proof (induction t)
  case (PNode n ts)
  have "sum_list (map (\<lambda>t. length (filter pn_suspicious (tree_nodes t))) ts) = length (filter pn_suspicious (concat (map tree_nodes ts)))"
    by (simp add: filter_concat length_concat comp_def)
  with PNode show ?case by (simp add: Let_def foldl_sum comp_def cong: map_cong)
qed

definition node_weight :: "pnode \<Rightarrow> nat" where
  "node_weight n = severity_weight (pn_max_severity n)"

definition worst_node :: "pnode list \<Rightarrow> nat" where
  "worst_node ns = severity_weight (foldl worse_severity None (map pn_max_severity ns))"

lemma worse_severity_weight: "severity_weight (worse_severity a b) = max (severity_weight a) (severity_weight b)"
  by (cases a; cases b) (auto simp: worse_severity_def sevWeight_SEV_WEIGHT)

lemma fold_worse_severity: "severity_weight (foldl worse_severity a rs) = foldl max (severity_weight a) (map severity_weight rs)"
  by (induction rs arbitrary: a) (simp_all add: worse_severity_weight)

lemma foldl_max: "foldl max (a :: nat) xs = max a (foldl max 0 xs)"
proof (induction xs arbitrary: a)
  case (Cons x xs)
  show ?case using Cons [of "max a x"] Cons [of x] by (simp add: max.assoc)
qed simp

lemma worst_node_Cons: "worst_node (n # ns) = max (node_weight n) (worst_node ns)"
  using foldl_max [of "node_weight n"] by (simp add: worst_node_def fold_worse_severity node_weight_def worse_severity_weight)

interpretation badge: severity_scale node_weight 0 worst_node
  by unfold_locales (simp_all add: worst_node_Cons, simp add: worst_node_def)

lemma subtree_weight: "severity_weight (subtreeMaxSeverity (annotate t)) = worst_node (tree_nodes t)"
proof (induction t)
  case (PNode n ts)
  let ?own = "if str_truthy (pn_max_severity n) then pn_max_severity n else None"
  have own: "severity_weight ?own = node_weight n"
    by (cases "pn_max_severity n") (auto simp: node_weight_def)
  have whole: "foldl max a (map (\<lambda>t. worst_node (tree_nodes t)) ts) = max a (worst_node (concat (map tree_nodes ts)))" for a
    by (induction ts arbitrary: a) (simp_all add: badge.worst_Nil badge.worst_append max.assoc)
  have parts: "map (severity_weight \<circ> (subtreeMaxSeverity \<circ> annotate)) ts = map (\<lambda>t. worst_node (tree_nodes t)) ts"
    using PNode by simp
  have *: "foldl max a (map (severity_weight \<circ> (subtreeMaxSeverity \<circ> annotate)) ts) = max a (worst_node (concat (map tree_nodes ts)))" for a
    unfolding parts by (rule whole)
  have "foldl (\<lambda>sev c. worse_severity sev (subtreeMaxSeverity c)) a (map annotate ts)
      = foldl worse_severity a (map (subtreeMaxSeverity \<circ> annotate) ts)" for a
    by (induction ts arbitrary: a) simp_all
  then have "severity_weight (subtreeMaxSeverity (annotate (PNode n ts))) = max (severity_weight ?own) (worst_node (concat (map tree_nodes ts)))"
    by (simp add: Let_def fold_worse_severity *)
  then show ?case by (simp add: own worst_node_Cons)
qed

text \<open>The badges count what is there. A row's count is the number of suspicious processes in its subtree and its
  severity is the worst of them; the number on a collapsed row is that of the rows it hides; the header counts
  every process and every suspicious process once.\<close>

theorem tree_badges:
  "subtreeSuspiciousCount (annotate (PNode n ts)) = length (filter pn_suspicious (tree_nodes (PNode n ts)))
   \<and> severity_weight (subtreeMaxSeverity (annotate (PNode n ts)))
       = Max (insert 0 ((\<lambda>m. severity_weight (pn_max_severity m)) ` set (tree_nodes (PNode n ts))))
   \<and> hiddenSuspicious False (annotate (PNode n ts)) = int (length (filter pn_suspicious (forest_nodes ts)))
   \<and> totalSuspicious f = length (filter pn_suspicious (forest_nodes f))
   \<and> totalNodes f = length (forest_nodes f)"
proof (intro conjI)
  show "subtreeSuspiciousCount (annotate (PNode n ts)) = length (filter pn_suspicious (tree_nodes (PNode n ts)))"
    by (rule subtree_count)
  show "severity_weight (subtreeMaxSeverity (annotate (PNode n ts)))
      = Max (insert 0 ((\<lambda>m. severity_weight (pn_max_severity m)) ` set (tree_nodes (PNode n ts))))"
    unfolding subtree_weight badge.worst_Max node_weight_def ..
  show "hiddenSuspicious False (annotate (PNode n ts)) = int (length (filter pn_suspicious (forest_nodes ts)))"
    using subtree_count [of "PNode n ts"]
    by (cases "ts = []") (simp_all add: hiddenSuspicious_def forest_nodes_def Let_def)
  show "totalSuspicious f = length (filter pn_suspicious (forest_nodes f))"
    by (simp add: totalSuspicious_def annotateSubtreeFindings_def foldl_sum comp_def subtree_count forest_nodes_def
        filter_concat length_concat)
  show "totalNodes f = length (forest_nodes f)"
    unfolding totalNodes_def foldl_sum [of "\<lambda>_. 1" 0] by (simp add: sum_list_triv length_walk)
qed

subsection \<open>Descendants\<close>

lemma set_set_add: "set (set_add s x) = insert x (set s)"
  by (auto simp: set_add_def)

lemma set_foldl_add: "set (foldl set_add s xs) = set s \<union> set xs"
  by (induction xs arbitrary: s) (auto simp: set_set_add)

lemma set_descend: "set (foldl (\<lambda>s (p, sub). foldl set_add (set_add s p) sub) s zs) = set s \<union> (\<Union>(p, sub) \<in> set zs. insert p (set sub))"
  by (induction zs arbitrary: s) (auto simp: set_foldl_add set_set_add)

definition below_pids :: "ptree \<Rightarrow> string set" where
  "below_pids t = pr_pid ` set (tl (tree_nodes t))"

lemma pid_of_node: "pid_of t = pr_pid (node_of t)"
  by (cases t) simp

lemma pid_of_comp: "pid_of = pr_pid \<circ> node_of"
  by (simp add: fun_eq_iff pid_of_node)

lemma tree_nodes_root: "tree_nodes t = node_of t # tl (tree_nodes t)"
  by (cases t) simp

lemma tree_pids: "pr_pid ` set (tree_nodes t) = insert (pid_of t) (below_pids t)"
  by (metis below_pids_def image_insert list.set(2) pid_of_node tree_nodes_root)

lemma descend_set: "set (fst (descend t)) = below_pids t"
proof (induction t)
  case (PNode n ts)
  have "insert (pid_of t) (set (fst (descend t))) = pr_pid ` set (tree_nodes t)" if "t \<in> set ts" for t
    using PNode [OF that] tree_pids [of t] by simp
  then show ?case by (auto simp: Let_def set_descend below_pids_def)
qed

fun postorder :: "ptree \<Rightarrow> ptree list" where
  "postorder (PNode n ts) = concat (map postorder ts) @ [PNode n ts]"

definition subtrees :: "ptree list \<Rightarrow> ptree list" where
  "subtrees f = concat (map postorder f)"

lemma descend_calls: "snd (descend t) = map (\<lambda>s. (pid_of s, fst (descend s))) (postorder t)"
proof (induction t)
  case (PNode n ts)
  then have "concat (map (\<lambda>t. snd (descend t)) ts) = map (\<lambda>s. (pid_of s, fst (descend s))) (concat (map postorder ts))"
    by (simp add: map_concat comp_def cong: map_cong)
  then show ?case by (simp add: Let_def)
qed

lemma postorder_nodes: "mset (map node_of (postorder t)) = mset (tree_nodes t)"
proof (induction t)
  case (PNode n ts)
  have "mset (map node_of (concat (map postorder ts))) = mset (concat (map tree_nodes ts))"
    using PNode by (induction ts) simp_all
  then show ?case by simp
qed

lemma subtrees_nodes: "mset (map node_of (subtrees f)) = mset (forest_nodes f)"
  unfolding subtrees_def forest_nodes_def by (induction f) (simp_all add: postorder_nodes [unfolded mset_map])

lemma map_set_fresh: "k \<notin> fst ` set m \<Longrightarrow> map_set m k v = m @ [(k, v)]"
  by (induction m) auto

lemma foldl_map_set: "distinct (map fst (m @ kvs)) \<Longrightarrow> foldl (\<lambda>m (k, v). map_set m k v) m kvs = m @ kvs"
proof (induction kvs arbitrary: m)
  case (Cons kv kvs)
  then show ?case using map_set_fresh [of "fst kv" m "snd kv"] by (auto simp: case_prod_beta)
qed simp

lemma subtrees_distinct: "distinct (forest_pids f) \<Longrightarrow> distinct (map pid_of (subtrees f))"
proof -
  assume "distinct (forest_pids f)"
  moreover have "mset (map pid_of (subtrees f)) = mset (forest_pids f)"
    using arg_cong [OF subtrees_nodes [of f], of "image_mset pr_pid"] unfolding pid_of_comp
    by (simp add: forest_pids_def multiset.map_comp)
  ultimately show ?thesis by (metis mset_eq_imp_distinct_iff)
qed

lemma descendants_map:
  assumes "distinct (forest_pids f)"
  shows "buildDescendantsMap f = map (\<lambda>s. (pid_of s, fst (descend s))) (subtrees f)"
proof -
  have "concat (map (\<lambda>t. snd (descend t)) f) = map (\<lambda>s. (pid_of s, fst (descend s))) (subtrees f)"
    by (simp add: subtrees_def descend_calls map_concat comp_def)
  then show ?thesis using subtrees_distinct [OF assms]
    unfolding buildDescendantsMap_def by (simp add: foldl_map_set comp_def)
qed

subsection \<open>The search\<close>

definition row_matches :: "string \<Rightarrow> pnode \<Rightarrow> bool" where
  "row_matches query n = str_includes (hay n) (to_lower (trim query))"

lemma set_matches:
  "set (foldl (\<lambda>m n. if P n then set_add m (pr_pid n) else m) m ns) = set m \<union> pr_pid ` {n \<in> set ns. P n}"
  by (induction ns arbitrary: m) (auto simp: set_set_add)

lemma set_visible:
  "set (foldl (\<lambda>v (pid, descs). if list_ex P descs then set_add v pid else v) v kvs)
     = set v \<union> {pid. \<exists>descs. (pid, descs) \<in> set kvs \<and> (\<exists>d \<in> set descs. P d)}"
  by (induction kvs arbitrary: v) (auto simp: set_set_add list_ex_iff)

lemma rows_of: "(\<exists>v. (k, v) \<in> (\<lambda>s. (g s, h s)) ` S \<and> Q v) \<longleftrightarrow> (\<exists>s \<in> S. k = g s \<and> Q (h s))"
  by auto

lemma postorder_below: "s \<in> set (postorder t) \<Longrightarrow> set (tree_nodes s) \<subseteq> set (tree_nodes t)"
  by (induction t) fastforce

lemma subtree_nodes: "s \<in> set (subtrees f) \<Longrightarrow> set (tree_nodes s) \<subseteq> set (forest_nodes f)"
  using postorder_below by (fastforce simp: subtrees_def forest_nodes_def)

lemma drawn_iff:
  assumes d: "distinct (forest_pids f)" and s: "s \<in> set (subtrees f)"
  shows "node_drawn (visibleSet f query) (node_of s)
    \<longleftrightarrow> to_lower (trim query) = [] \<or> (\<exists>n \<in> set (tree_nodes s). row_matches query n)"
proof (cases "to_lower (trim query) = []")
  case True
  then show ?thesis by (simp add: visibleSet_def matchSet_def node_drawn_def)
next
  case False
  define M where "M = pr_pid ` {n \<in> set (forest_nodes f). row_matches query n}"
  define m where "m = foldl (\<lambda>m n. if row_matches query n then set_add m (pr_pid n) else m) [] (walkForest f)"
  have m: "set m = M" unfolding m_def M_def set_matches by (simp add: set_walk)
  have inj: "inj_on pr_pid (set (forest_nodes f))" using d by (simp add: forest_pids_def distinct_map)
  have match: "pr_pid n \<in> M \<longleftrightarrow> row_matches query n" if "n \<in> set (forest_nodes f)" for n
    using inj that unfolding M_def by (auto dest: inj_onD)
  have sub: "set (tree_nodes s) \<subseteq> set (forest_nodes f)" by (rule subtree_nodes [OF s])
  have "visibleSet f query = Some (foldl (\<lambda>v (pid, descs). if list_ex (\<lambda>d. d \<in> set m) descs then set_add v pid else v) m
      (map (\<lambda>s. (pid_of s, fst (descend s))) (subtrees f)))"
    using False by (simp add: visibleSet_def matchSet_def Let_def descendants_map [OF d] m_def row_matches_def)
  then have "node_drawn (visibleSet f query) (node_of s)
      \<longleftrightarrow> pid_of s \<in> M \<or> (\<exists>s' \<in> set (subtrees f). pid_of s = pid_of s' \<and> (\<exists>d \<in> below_pids s'. d \<in> M))"
    by (simp add: node_drawn_def set_visible m pid_of_node [symmetric] rows_of descend_set)
  also have "\<dots> \<longleftrightarrow> pid_of s \<in> M \<or> (\<exists>d \<in> below_pids s. d \<in> M)"
    using subtrees_distinct [OF d] s by (metis distinct_map inj_onD)
  also have "\<dots> \<longleftrightarrow> (\<exists>d \<in> pr_pid ` set (tree_nodes s). d \<in> M)"
    by (simp only: tree_pids bex_simps)
  also have "\<dots> \<longleftrightarrow> (\<exists>n \<in> set (tree_nodes s). pr_pid n \<in> M)" by (simp only: bex_simps)
  also have "\<dots> \<longleftrightarrow> (\<exists>n \<in> set (tree_nodes s). row_matches query n)" using match sub by blast
  finally show ?thesis using False by simp
qed

lemma count_le_distinct: "(\<And>x. count_list xs x \<le> 1) \<Longrightarrow> distinct xs"
proof (induction xs)
  case (Cons y xs)
  have "count_list xs x \<le> 1" for x using Cons.prems [of x] by (simp split: if_splits)
  then show ?case using Cons.IH Cons.prems [of y] by (simp add: count_list_0_iff)
qed simp



end
