(* ===== verification/Session.thy ===== *)
theory Session
  imports Js_Base
begin

text \<open>
  Sessions in the browser. \<^verbatim>\<open>frontend/src/hooks/useAuth.jsx\<close>: who is signed in; \<^verbatim>\<open>frontend/src/App.jsx\<close>: what the
  routes show to whom; \<^verbatim>\<open>frontend/src/components/SessionGuard.jsx\<close>: heartbeats, warnings and the sign-in dialog.
  One tab is a machine: an event is something the user, the clock or an awaited promise does at a time
  \<open>Date.now()\<close>, and a step is the handler with the effects React runs after it. \<open>Date.parse\<close> of the server's
  timestamps is a parameter.
\<close>

subsection \<open>Who is signed in: \<open>useAuth.jsx\<close>\<close>

datatype status = Loading | Guest | SignedIn | Expired

record auth =
  au_status :: status
  au_user :: jsval
  au_epoch :: nat
  au_needsSetup :: bool
  au_policy :: jsval
  au_left :: "string option"

text \<open>\<open>au_left\<close> is where \<open>window.location.assign\<close> sent the tab: the page is gone with everything typed into it.\<close>

definition default_policy :: jsval where
  "default_policy = JObj [(''totp_required'', JBool True)]"

definition init_auth :: auth where
  "init_auth = \<lparr>au_status = Loading, au_user = JNull, au_epoch = 0, au_needsSetup = False, au_policy = default_policy, au_left = None\<rparr>"

definition refresh :: "jsval option \<Rightarrow> auth \<Rightarrow> auth" where
  "refresh me a = (case me of
     Some u \<Rightarrow> a\<lparr>au_user := u, au_status := SignedIn\<rparr>
   | None \<Rightarrow> a\<lparr>au_user := JNull, au_status := Guest\<rparr>)"

text \<open>The first effect: what \<open>setupCheck\<close> and \<open>authPolicy\<close> answered (a failed policy request is the default) and, when
  it goes on to \<open>refresh\<close>, what \<open>me\<close> answered.\<close>

definition boot :: "(jsval \<times> jsval option) option \<Rightarrow> jsval option \<Rightarrow> auth \<Rightarrow> auth" where
  "boot answers me a = (case answers of
     None \<Rightarrow> a\<lparr>au_status := Guest\<rparr>
   | Some (check, policy) \<Rightarrow>
       let needs = truthy (jget check ''needs_setup'');
           b = a\<lparr>au_policy := (case policy of Some p \<Rightarrow> p | None \<Rightarrow> default_policy), au_needsSetup := needs\<rparr>
       in if needs then b\<lparr>au_status := Guest\<rparr> else refresh me b)"

definition expire :: "auth \<Rightarrow> auth" where
  "expire a = a\<lparr>au_status := (if au_status a = SignedIn then Expired else au_status a)\<rparr>"

definition setSignedIn :: "jsval \<Rightarrow> auth \<Rightarrow> auth" where
  "setSignedIn u a = a\<lparr>au_user := u, au_status := SignedIn, au_needsSetup := False\<rparr>"

definition resume :: "jsval \<Rightarrow> auth \<Rightarrow> auth" where
  "resume u a =
     (if \<not> truthy u \<or> jget u ''id'' \<noteq> jget (au_user a) ''id'' then a\<lparr>au_left := Some ''/''\<rparr>
      else if truthy (jget u ''force_totp_enrol'') then a\<lparr>au_left := Some ''/totp/enrol''\<rparr>
      else a\<lparr>au_user := u, au_status := SignedIn, au_epoch := au_epoch a + 1\<rparr>)"

definition signOut :: "auth \<Rightarrow> auth" where
  "signOut a = a\<lparr>au_user := JNull, au_status := Guest\<rparr>"

subsection \<open>What a route shows: \<open>App.jsx\<close>\<close>

datatype shown = ShowLoading | ShowPage | GoTo string

definition RequireAuth :: "(string \<Rightarrow> string) \<Rightarrow> auth \<Rightarrow> string \<Rightarrow> shown" where
  "RequireAuth encode a path =
     (if au_status a = Loading then ShowLoading
      else if au_needsSetup a then GoTo ''/setup''
      else if au_status a \<noteq> SignedIn \<and> au_status a \<noteq> Expired then GoTo (''/login?next='' @ encode path)
      else if truthy (jget (au_user a) ''force_totp_enrol'') \<and> path \<noteq> ''/totp/enrol'' then GoTo ''/totp/enrol''
      else ShowPage)"

definition RequireAdmin :: "auth \<Rightarrow> shown" where
  "RequireAdmin a = (if jget (au_user a) ''role'' \<noteq> JStr ''admin'' then GoTo ''/settings/account'' else ShowPage)"

definition RequireAnalyst :: "auth \<Rightarrow> shown" where
  "RequireAnalyst a =
     (if jget (au_user a) ''role'' \<noteq> JStr ''admin'' \<and> jget (au_user a) ''role'' \<noteq> JStr ''analyst'' then GoTo ''/settings/account''
      else ShowPage)"

definition HomeRoute :: "auth \<Rightarrow> shown" where
  "HomeRoute a = (if jget (au_user a) ''role'' = JStr ''viewer'' then GoTo ''/incidents'' else ShowPage)"

subsection \<open>Deadlines\<close>

definition BEAT_EVERY_MS :: int where "BEAT_EVERY_MS = 5 * 60000"
definition RETRY_MS :: int where "RETRY_MS = 30000"
definition WARN_MS :: int where "WARN_MS = 2 * 60000"
definition GRACE_MS :: int where "GRACE_MS = 2000"

record session_info =
  idle_expires_at :: string
  expires_at :: string
  server_time :: string
  idle_timeout_seconds :: int

record deadlines =
  idleAt :: int
  hardAt :: int
  hardIso :: string
  timeoutMs :: int
  dl_key :: string

definition session_key :: "session_info \<Rightarrow> string" where
  "session_key s = idle_expires_at s @ ''|'' @ expires_at s"

definition toLocal :: "(string \<Rightarrow> int) \<Rightarrow> int \<Rightarrow> session_info \<Rightarrow> deadlines" where
  "toLocal parse t s =
     (let skew = t - parse (server_time s) in
      \<lparr>idleAt = parse (idle_expires_at s) + skew, hardAt = parse (expires_at s) + skew, hardIso = expires_at s,
       timeoutMs = idle_timeout_seconds s * 1000, dl_key = session_key s\<rparr>)"

definition mmss :: "int \<Rightarrow> string" where
  "mmss ms = (let s = max 0 (- ((- ms) div 1000)) in show_int (s div 60) @ '':'' @ pad2 (nat (s mod 60)))"

definition left_of :: "deadlines \<Rightarrow> int \<Rightarrow> int" where
  "left_of d now = min (idleAt d) (hardAt d) - now"

subsection \<open>The guard\<close>

text \<open>A re-read on its way: before a warning, or at a deadline with the key its handler compares.\<close>

datatype read_call = WarnRead | EndRead string

datatype sent = Heartbeat | ReadSession read_call | GetMe

record tab =
  tb_auth :: auth
  tb_dl :: "deadlines option"
  tb_now :: int
  tb_renewing :: bool
  tb_reason :: string
  tb_next :: int
  tb_busy :: bool
  tb_warned :: string
  tb_ended :: string
  tb_seen :: status
  tb_reads :: "read_call list"
  tb_me :: nat
  tb_sent :: "(int \<times> sent) list"

definition with_auth :: "(auth \<Rightarrow> auth) \<Rightarrow> tab \<Rightarrow> tab" where
  "with_auth f s = s\<lparr>tb_auth := f (tb_auth s)\<rparr>"

abbreviation tb_status :: "tab \<Rightarrow> status" where
  "tb_status s \<equiv> au_status (tb_auth s)"

definition log_call :: "int \<Rightarrow> sent \<Rightarrow> tab \<Rightarrow> tab" where
  "log_call t c s = s\<lparr>tb_sent := tb_sent s @ [(t, c)]\<rparr>"

definition apply_info :: "(string \<Rightarrow> int) \<Rightarrow> int \<Rightarrow> session_info \<Rightarrow> tab \<Rightarrow> tab" where
  "apply_info parse t i s = s\<lparr>tb_dl := Some (toLocal parse t i)\<rparr>"

definition sendBeat :: "int \<Rightarrow> tab \<Rightarrow> tab" where
  "sendBeat t s = (if tb_busy s then s else log_call t Heartbeat (s\<lparr>tb_busy := True\<rparr>))"

definition beat_answered :: "(string \<Rightarrow> int) \<Rightarrow> int \<Rightarrow> session_info \<Rightarrow> tab \<Rightarrow> tab" where
  "beat_answered parse t i s = (apply_info parse t i s)\<lparr>tb_next := t + BEAT_EVERY_MS, tb_busy := False\<rparr>"

text \<open>A failed request: a 401 has gone through \<open>expire\<close> before the promise rejects.\<close>

definition failed :: "int option \<Rightarrow> tab \<Rightarrow> tab" where
  "failed code s = (if code = Some 401 then with_auth expire s else s)"

definition beat_failed :: "int \<Rightarrow> int option \<Rightarrow> tab \<Rightarrow> tab" where
  "beat_failed t code s = (failed code s)
     \<lparr>tb_next := (if code \<noteq> Some 401 then t + RETRY_MS else tb_next s), tb_busy := False\<rparr>"

definition on_input :: "int \<Rightarrow> tab \<Rightarrow> tab" where
  "on_input t s = (if t \<ge> tb_next s then sendBeat t s else s)"

definition check_session :: "int \<Rightarrow> tab \<Rightarrow> tab" where
  "check_session t s =
     (case tb_dl s of
        None \<Rightarrow> s
      | Some d \<Rightarrow>
          if tb_status s \<noteq> SignedIn then s
          else let left = left_of d (tb_now s) in
            if left \<le> - GRACE_MS \<and> tb_ended s \<noteq> dl_key d
            then log_call t (ReadSession (EndRead (dl_key d))) (s\<lparr>tb_ended := dl_key d, tb_reads := tb_reads s @ [EndRead (dl_key d)]\<rparr>)
            else if left \<le> WARN_MS \<and> left > - GRACE_MS \<and> tb_warned s \<noteq> dl_key d
            then log_call t (ReadSession WarnRead) (s\<lparr>tb_warned := dl_key d, tb_reads := tb_reads s @ [WarnRead]\<rparr>)
            else s)"

definition read_answered :: "(string \<Rightarrow> int) \<Rightarrow> int \<Rightarrow> read_call \<Rightarrow> session_info \<Rightarrow> tab \<Rightarrow> tab" where
  "read_answered parse t c i s =
     (case c of
        WarnRead \<Rightarrow> apply_info parse t i s
      | EndRead k \<Rightarrow> if dl_key (toLocal parse t i) \<noteq> k then apply_info parse t i s else with_auth expire s)"

definition end_reason :: "int \<Rightarrow> deadlines option \<Rightarrow> string" where
  "end_reason t dl = (case dl of
     None \<Rightarrow> ''ended''
   | Some d \<Rightarrow> if t \<ge> hardAt d - 5000 then ''hard'' else if t \<ge> idleAt d - 5000 then ''idle'' else ''ended'')"

definition see_status :: "int \<Rightarrow> tab \<Rightarrow> tab" where
  "see_status t s =
     (if tb_status s = tb_seen s then s
      else s\<lparr>tb_seen := tb_status s, tb_reason := (if tb_status s = Expired then end_reason t (tb_dl s) else tb_reason s)\<rparr>)"

definition signed_in_effect :: "int \<Rightarrow> tab \<Rightarrow> tab \<Rightarrow> tab" where
  "signed_in_effect t before s =
     (if tb_status s = SignedIn \<and> (tb_status before \<noteq> SignedIn \<or> au_epoch (tb_auth before) \<noteq> au_epoch (tb_auth s))
      then sendBeat t s else s)"

text \<open>The render and the effects after a handler. Running the check when none of its dependencies changed does nothing:
  it asks once per key.\<close>

definition settle :: "int \<Rightarrow> tab \<Rightarrow> tab \<Rightarrow> tab" where
  "settle t before s = check_session t (signed_in_effect t before (see_status t s))"

datatype event =
    Booted "(jsval \<times> jsval option) option" "jsval option"
  | Refreshed "jsval option"
  | LoginPage jsval
  | SignOut
  | Unauthorized
  | Input
  | Stay
  | Tick
  | BeatAnswered session_info
  | BeatFailed "int option"
  | ReadAnswered nat session_info
  | ReadFailed nat "int option"
  | BackToTab
  | MeAnswered jsval
  | MeFailed "int option"
  | DialogSignedIn jsval
  | RenewClicked
  | RenewCancelled

definition drop_nth :: "nat \<Rightarrow> 'a list \<Rightarrow> 'a list" where
  "drop_nth i xs = take i xs @ drop (Suc i) xs"

definition banner_shown :: "tab \<Rightarrow> bool" where
  "banner_shown s = (case tb_dl s of
     None \<Rightarrow> False
   | Some d \<Rightarrow> let hardLeft = hardAt d - tb_now s in
       truthy (au_user (tb_auth s)) \<and> tb_status s = SignedIn \<and> \<not> tb_renewing s \<and> hardLeft \<le> WARN_MS \<and> hardLeft > - GRACE_MS)"

definition still_there_shown :: "tab \<Rightarrow> bool" where
  "still_there_shown s = (case tb_dl s of
     None \<Rightarrow> False
   | Some d \<Rightarrow> let idleLeft = idleAt d - tb_now s; hardLeft = hardAt d - tb_now s in
       truthy (au_user (tb_auth s)) \<and> tb_status s = SignedIn \<and> \<not> tb_renewing s
       \<and> idleLeft \<le> WARN_MS \<and> idleLeft > - GRACE_MS \<and> idleLeft < hardLeft)"

text \<open>\<open>SessionExpiredDialog\<close> covers the page.\<close>

definition dialog_shown :: "tab \<Rightarrow> bool" where
  "dialog_shown s = (truthy (au_user (tb_auth s)) \<and> (tb_status s = Expired \<or> tb_renewing s))"

definition timeoutMinutes :: "tab \<Rightarrow> nat" where
  "timeoutMinutes s = round_div (nat (case tb_dl s of Some d \<Rightarrow> timeoutMs d | None \<Rightarrow> 30 * 60000)) 60000"

text \<open>The handler of an event; \<open>None\<close> when the event cannot happen: a promise that is not awaited, a button that is not
  drawn, a page that is gone.\<close>

definition handle :: "(string \<Rightarrow> int) \<Rightarrow> int \<Rightarrow> event \<Rightarrow> tab \<Rightarrow> tab option" where
  "handle parse t e s =
     (case e of
        Booted answers me \<Rightarrow> if tb_status s = Loading then Some (with_auth (boot answers me) s) else None
      | Refreshed me \<Rightarrow> Some (with_auth (refresh me) s)
      | LoginPage u \<Rightarrow> Some (with_auth (setSignedIn u) s)
      | SignOut \<Rightarrow> Some (with_auth signOut s)
      | Unauthorized \<Rightarrow> Some (with_auth expire s)
      | Input \<Rightarrow> if tb_status s = SignedIn then Some (on_input t s) else None
      | Stay \<Rightarrow> if still_there_shown s then Some (on_input t s) else None
      | Tick \<Rightarrow> if tb_status s = SignedIn then Some (s\<lparr>tb_now := t\<rparr>) else None
      | BeatAnswered i \<Rightarrow> if tb_busy s then Some (beat_answered parse t i s) else None
      | BeatFailed code \<Rightarrow> if tb_busy s then Some (beat_failed t code s) else None
      | ReadAnswered n i \<Rightarrow>
          if n < length (tb_reads s)
          then Some (read_answered parse t (tb_reads s ! n) i (s\<lparr>tb_reads := drop_nth n (tb_reads s)\<rparr>)) else None
      | ReadFailed n code \<Rightarrow>
          if n < length (tb_reads s) then Some (failed code (s\<lparr>tb_reads := drop_nth n (tb_reads s)\<rparr>)) else None
      | BackToTab \<Rightarrow> if tb_status s = Expired then Some (log_call t GetMe (s\<lparr>tb_me := tb_me s + 1\<rparr>)) else None
      | MeAnswered u \<Rightarrow> if tb_me s > 0 then Some (with_auth (resume u) (s\<lparr>tb_me := tb_me s - 1\<rparr>)) else None
      | MeFailed code \<Rightarrow> if tb_me s > 0 then Some (failed code (s\<lparr>tb_me := tb_me s - 1\<rparr>)) else None
      | DialogSignedIn u \<Rightarrow> if dialog_shown s then Some (with_auth (resume u) (s\<lparr>tb_renewing := False\<rparr>)) else None
      | RenewClicked \<Rightarrow> if banner_shown s then Some (s\<lparr>tb_renewing := True\<rparr>) else None
      | RenewCancelled \<Rightarrow> if dialog_shown s \<and> tb_status s \<noteq> Expired then Some (s\<lparr>tb_renewing := False\<rparr>) else None)"

definition step :: "(string \<Rightarrow> int) \<Rightarrow> int \<Rightarrow> event \<Rightarrow> tab \<Rightarrow> tab option" where
  "step parse t e s = (if au_left (tb_auth s) \<noteq> None then None else map_option (settle t s) (handle parse t e s))"

definition init_tab :: "int \<Rightarrow> tab" where
  "init_tab t = \<lparr>tb_auth = init_auth, tb_dl = None, tb_now = t, tb_renewing = False, tb_reason = ''ended'', tb_next = 0,
     tb_busy = False, tb_warned = [], tb_ended = [], tb_seen = Loading, tb_reads = [], tb_me = 0, tb_sent = []\<rparr>"

end
