(* ===== verification/Session_Laws.thy ===== *)
theory Session_Laws
  imports Session
begin

text \<open>
  What the session guard of a tab promises: the page stays with its user, a session is not declared over before the
  server's deadline, heartbeats come from people; and what it does not.
\<close>

subsection \<open>Runs\<close>

text \<open>An answer of the server at \<open>t\<close>: its clock is \<open>off\<close> milliseconds behind the tab's, its answer takes time to arrive,
  and its timestamps have no \<open>|\<close>.\<close>

definition honest :: "(string \<Rightarrow> int) \<Rightarrow> int \<Rightarrow> int \<Rightarrow> session_info \<Rightarrow> bool" where
  "honest parse off t i \<longleftrightarrow> parse (server_time i) + off \<le> t \<and> CHR ''|'' \<notin> set (idle_expires_at i)"

fun plausible :: "(string \<Rightarrow> int) \<Rightarrow> int \<Rightarrow> int \<Rightarrow> event \<Rightarrow> bool" where
  "plausible parse off t (BeatAnswered i) = honest parse off t i"
| "plausible parse off t (ReadAnswered n i) = honest parse off t i"
| "plausible parse off t _ = True"

inductive tab_reach :: "(string \<Rightarrow> int) \<Rightarrow> int \<Rightarrow> int \<Rightarrow> tab \<Rightarrow> bool" for parse off where
  tab_start: "tab_reach parse off t (init_tab t)"
| tab_step: "tab_reach parse off t s \<Longrightarrow> t \<le> t' \<Longrightarrow> plausible parse off t' e \<Longrightarrow> step parse t' e s = Some s'
    \<Longrightarrow> tab_reach parse off t' s'"

lemmas tab_defs = with_auth_def log_call_def apply_info_def sendBeat_def beat_answered_def beat_failed_def failed_def on_input_def

subsection \<open>What the effects leave alone\<close>

lemma see_status_keeps [simp]:
  "tb_auth (see_status t s) = tb_auth s" "tb_dl (see_status t s) = tb_dl s" "tb_now (see_status t s) = tb_now s"
  "tb_reads (see_status t s) = tb_reads s" "tb_sent (see_status t s) = tb_sent s" "tb_busy (see_status t s) = tb_busy s"
  "tb_renewing (see_status t s) = tb_renewing s" "tb_ended (see_status t s) = tb_ended s"
  by (simp_all add: see_status_def)

lemma sendBeat_keeps [simp]:
  "tb_auth (sendBeat t s) = tb_auth s" "tb_dl (sendBeat t s) = tb_dl s" "tb_now (sendBeat t s) = tb_now s"
  "tb_reads (sendBeat t s) = tb_reads s" "tb_renewing (sendBeat t s) = tb_renewing s" "tb_ended (sendBeat t s) = tb_ended s"
  by (simp_all add: sendBeat_def log_call_def)

lemma signed_in_effect_keeps [simp]:
  "tb_auth (signed_in_effect t b s) = tb_auth s" "tb_dl (signed_in_effect t b s) = tb_dl s" "tb_now (signed_in_effect t b s) = tb_now s"
  "tb_reads (signed_in_effect t b s) = tb_reads s" "tb_renewing (signed_in_effect t b s) = tb_renewing s"
  "tb_ended (signed_in_effect t b s) = tb_ended s"
  by (simp_all add: signed_in_effect_def)

lemma check_session_keeps [simp]:
  "tb_auth (check_session t s) = tb_auth s" "tb_dl (check_session t s) = tb_dl s" "tb_now (check_session t s) = tb_now s"
  "tb_renewing (check_session t s) = tb_renewing s" "tb_busy (check_session t s) = tb_busy s"
  by (simp_all add: check_session_def log_call_def Let_def split: option.split)

lemma settle_keeps [simp]:
  "tb_auth (settle t b s) = tb_auth s" "tb_dl (settle t b s) = tb_dl s" "tb_now (settle t b s) = tb_now s"
  "tb_renewing (settle t b s) = tb_renewing s"
  by (simp_all add: settle_def)

lemma step_cases:
  assumes "step parse t e s = Some s'"
  obtains h where "handle parse t e s = Some h" "s' = settle t s h" "au_left (tb_auth s) = None"
  using assms by (auto simp: step_def split: if_splits)

subsection \<open>The page stays with its user\<close>

text \<open>Everything that can happen on a page but signing out and the sign-in pages.\<close>

fun page_event :: "event \<Rightarrow> bool" where
  "page_event (Booted _ _) = False"
| "page_event (Refreshed _) = False"
| "page_event (LoginPage _) = False"
| "page_event SignOut = False"
| "page_event _ = True"

inductive page_run :: "(string \<Rightarrow> int) \<Rightarrow> tab \<Rightarrow> tab \<Rightarrow> bool" for parse where
  run_refl: "page_run parse s s"
| run_step: "page_run parse s s' \<Longrightarrow> page_event e \<Longrightarrow> step parse t e s' = Some s'' \<Longrightarrow> page_run parse s s''"

definition page_of :: "jsval \<Rightarrow> auth \<Rightarrow> bool" where
  "page_of i a \<longleftrightarrow> au_left a \<noteq> None \<or> (au_status a = SignedIn \<or> au_status a = Expired) \<and> \<not> au_needsSetup a
     \<and> jget (au_user a) ''id'' = i \<and> \<not> truthy (jget (au_user a) ''force_totp_enrol'')"

lemma page_of_expire: "page_of i a \<Longrightarrow> page_of i (expire a)"
  by (auto simp: page_of_def expire_def)

lemma page_of_resume: "page_of i a \<Longrightarrow> page_of i (resume u a)"
  by (auto simp: page_of_def resume_def)

lemma auth_failed: "tb_auth (failed code s) = tb_auth s \<or> tb_auth (failed code s) = expire (tb_auth s)"
  by (simp add: failed_def with_auth_def)

lemma handle_auth:
  assumes "handle parse t e s = Some h" "page_event e"
  shows "tb_auth h = tb_auth s \<or> tb_auth h = expire (tb_auth s) \<or> (\<exists>u. tb_auth h = resume u (tb_auth s))"
  using assms
  by (cases e) (auto simp: handle_def tab_defs read_answered_def split: if_splits read_call.splits)

lemma page_run_keeps: "page_run parse s s' \<Longrightarrow> page_of i (tb_auth s) \<Longrightarrow> page_of i (tb_auth s')"
proof (induction rule: page_run.induct)
  case (run_step s s' e t s'')
  obtain h where h: "handle parse t e s' = Some h" "s'' = settle t s' h" using run_step.hyps(3) by (rule step_cases)
  show ?case
    using handle_auth [OF h(1) run_step.hyps(2)] run_step.IH [OF run_step.prems] page_of_expire page_of_resume
    by (auto simp: h(2))
qed


definition demo_user :: jsval where
  "demo_user = JObj [(''id'', JNum 7)]"

definition demo_tab :: tab where
  "demo_tab = with_auth (setSignedIn demo_user) (init_tab 0)"


subsection \<open>A session is not declared over early\<close>

definition told :: "(string \<Rightarrow> int) \<Rightarrow> int \<Rightarrow> deadlines \<Rightarrow> bool" where
  "told parse off d \<longleftrightarrow> (\<exists>t i. honest parse off t i \<and> d = toLocal parse t i)"

definition deadlines_ok :: "(string \<Rightarrow> int) \<Rightarrow> int \<Rightarrow> int \<Rightarrow> tab \<Rightarrow> bool" where
  "deadlines_ok parse off t s \<longleftrightarrow> tb_now s \<le> t \<and> (\<forall>d. tb_dl s = Some d \<longrightarrow> told parse off d)
     \<and> (\<forall>k. EndRead k \<in> set (tb_reads s) \<longrightarrow> (\<exists>d. told parse off d \<and> dl_key d = k \<and> left_of d t \<le> - GRACE_MS))"

lemma left_later: "t \<le> t' \<Longrightarrow> left_of d t \<le> l \<Longrightarrow> left_of d t' \<le> l"
  by (simp add: left_of_def)

lemma deadlines_later: "deadlines_ok parse off t s \<Longrightarrow> t \<le> t' \<Longrightarrow> deadlines_ok parse off t' s"
  unfolding deadlines_ok_def using left_later by (meson order_trans)

lemma check_reads:
  "set (tb_reads (check_session t s)) \<subseteq> set (tb_reads s) \<union> {WarnRead}
     \<union> {EndRead (dl_key d) | d. tb_dl s = Some d \<and> left_of d (tb_now s) \<le> - GRACE_MS}"
  by (auto simp: check_session_def log_call_def Let_def split: option.splits if_splits)

lemma deadlines_settle: "deadlines_ok parse off t h \<Longrightarrow> deadlines_ok parse off t (settle t s h)"
proof -
  assume ok: "deadlines_ok parse off t h"
  define m where "m = signed_in_effect t s (see_status t h)"
  have m: "tb_reads m = tb_reads h" "tb_dl m = tb_dl h" "tb_now m = tb_now h" by (simp_all add: m_def)
  have "\<exists>d. told parse off d \<and> dl_key d = k \<and> left_of d t \<le> - GRACE_MS" if k: "EndRead k \<in> set (tb_reads (check_session t m))" for k
  proof -
    consider "EndRead k \<in> set (tb_reads h)" | d where "k = dl_key d" "tb_dl h = Some d" "left_of d (tb_now h) \<le> - GRACE_MS"
      using subsetD [OF check_reads k] by (auto simp: m)
    then show ?thesis
    proof cases
      case 1
      then show ?thesis using ok by (auto simp: deadlines_ok_def)
    next
      case 2
      then show ?thesis using ok left_later [of "tb_now h" t d] by (auto simp: deadlines_ok_def)
    qed
  qed
  then show ?thesis using ok by (simp add: settle_def m_def [symmetric] deadlines_ok_def m)
qed

lemma set_drop_nth: "x \<in> set (drop_nth n xs) \<Longrightarrow> x \<in> set xs"
  by (auto simp: drop_nth_def dest: in_set_takeD in_set_dropD)

lemma told_now: "honest parse off t i \<Longrightarrow> told parse off (toLocal parse t i)"
  by (auto simp: told_def)

lemma deadlines_fewer:
  "deadlines_ok parse off t s \<Longrightarrow> set (tb_reads h) \<subseteq> set (tb_reads s) \<Longrightarrow> tb_now h = tb_now s \<or> tb_now h = t
    \<Longrightarrow> tb_dl h = tb_dl s \<or> (\<exists>i. honest parse off t i \<and> tb_dl h = Some (toLocal parse t i)) \<Longrightarrow> deadlines_ok parse off t h"
  unfolding deadlines_ok_def using told_now by auto

lemma handle_deadlines:
  assumes "handle parse t e s = Some h" "plausible parse off t e"
  shows "set (tb_reads h) \<subseteq> set (tb_reads s) \<and> (tb_now h = tb_now s \<or> tb_now h = t)
    \<and> (tb_dl h = tb_dl s \<or> (\<exists>i. honest parse off t i \<and> tb_dl h = Some (toLocal parse t i)))"
  using assms
  by (cases e) (auto simp: handle_def tab_defs read_answered_def dest: set_drop_nth split: if_splits read_call.splits)

lemma reach_deadlines: "tab_reach parse off t s \<Longrightarrow> deadlines_ok parse off t s"
proof (induction rule: tab_reach.induct)
  case (tab_start t)
  then show ?case by (simp add: deadlines_ok_def init_tab_def)
next
  case (tab_step t s t' e s')
  obtain h where h: "handle parse t' e s = Some h" "s' = settle t' s h" using tab_step.hyps(4) by (rule step_cases)
  have "deadlines_ok parse off t' s" using tab_step.IH tab_step.hyps(2) by (rule deadlines_later)
  then have "deadlines_ok parse off t' h" using handle_deadlines [OF h(1) tab_step.hyps(3)] by (blast intro: deadlines_fewer)
  then show ?case unfolding h(2) by (rule deadlines_settle)
qed

lemma same_key:
  assumes "session_key i = session_key j" "CHR ''|'' \<notin> set (idle_expires_at i)" "CHR ''|'' \<notin> set (idle_expires_at j)"
  shows "idle_expires_at i = idle_expires_at j \<and> expires_at i = expires_at j"
proof -
  have "takeWhile (\<lambda>c. c \<noteq> CHR ''|'') (x @ CHR ''|'' # y) = x" if "CHR ''|'' \<notin> set x" for x y
    using that by (induction x) auto
  then have "idle_expires_at i = idle_expires_at j" using assms unfolding session_key_def by (metis append_Cons append_Nil)
  then show ?thesis using assms(1) by (simp add: session_key_def)
qed

text \<open>C26: The guard never ends a session early. When it covers the page because a deadline has passed, then on the server's own
  clock the earlier of the session's two ends lies at least the grace period back, however wrong this machine's clock
  is and however long the answers took.\<close>

theorem never_expired_early:
  assumes "tab_reach parse off t s" "t \<le> t'" "honest parse off t' i" "step parse t' (ReadAnswered n i) s = Some s'"
    and "tb_status s = SignedIn" "tb_status s' = Expired"
  shows "min (parse (idle_expires_at i)) (parse (expires_at i)) + GRACE_MS \<le> t' - off"
proof -
  obtain h where h: "handle parse t' (ReadAnswered n i) s = Some h" "s' = settle t' s h" using assms(4) by (rule step_cases)
  have n: "n < length (tb_reads s)" using h(1) by (simp add: handle_def split: if_splits)
  have "tb_status h = Expired" using h(2) assms(6) by simp
  then obtain k where k: "tb_reads s ! n = EndRead k" "session_key i = k"
    using h(1) assms(5) n
    by (auto simp: handle_def read_answered_def apply_info_def toLocal_def Let_def split: read_call.splits if_splits)
  have "deadlines_ok parse off t' s" using reach_deadlines [OF assms(1)] assms(2) by (rule deadlines_later)
  moreover have "EndRead k \<in> set (tb_reads s)" using n k(1) nth_mem by metis
  ultimately obtain d where d: "told parse off d" "dl_key d = k" "left_of d t' \<le> - GRACE_MS"
    unfolding deadlines_ok_def by blast
  then obtain t0 j where j: "honest parse off t0 j" "d = toLocal parse t0 j" unfolding told_def by blast
  have "session_key i = session_key j" using d(2) j(2) k(2) by (simp add: toLocal_def Let_def)
  then have "idle_expires_at i = idle_expires_at j \<and> expires_at i = expires_at j"
    using same_key assms(3) j(1) unfolding honest_def by blast
  then show ?thesis using d(3) j by (simp add: left_of_def toLocal_def Let_def honest_def min_def split: if_splits)
qed

definition demo_parse :: "string \<Rightarrow> int" where
  "demo_parse x = (if x = ''noon'' then 43200000 else if x = ''evening'' then 64800000 else 41400000)"

definition demo_info :: session_info where
  "demo_info = \<lparr>idle_expires_at = ''noon'', expires_at = ''evening'', server_time = ''now'', idle_timeout_seconds = 1800\<rparr>"

definition demo_events :: "(int \<times> event) list" where
  "demo_events = [(41400500, LoginPage demo_user), (41400500, BeatAnswered demo_info), (43202500, Tick)]"

fun run_events :: "(string \<Rightarrow> int) \<Rightarrow> tab \<Rightarrow> (int \<times> event) list \<Rightarrow> tab option" where
  "run_events parse s [] = Some s"
| "run_events parse s ((t, e) # es) = Option.bind (step parse t e s) (\<lambda>s'. run_events parse s' es)"

lemma run_events_reach:
  "tab_reach parse off t s \<Longrightarrow> run_events parse s es = Some s' \<Longrightarrow> sorted (t # map fst es) \<Longrightarrow>
    list_all (\<lambda>(t, e). plausible parse off t e) es \<Longrightarrow> tab_reach parse off (last (t # map fst es)) s'"
proof (induction es arbitrary: t s)
  case (Cons te es)
  obtain t' e where te: "te = (t', e)" by (cases te)
  from Cons.prems(2) obtain u where u: "step parse t' e s = Some u" "run_events parse u es = Some s'"
    by (auto simp: te bind_eq_Some_conv)
  have "tab_reach parse off t' u" using Cons.prems u(1) by (auto simp: te intro: tab_step)
  with Cons.IH [OF _ u(2)] Cons.prems(3,4) show ?case by (simp add: te)
qed simp

lemma never_expired_early_witness:
  "\<exists>s s'. tab_reach demo_parse 0 43202500 s \<and> step demo_parse 43202600 (ReadAnswered 0 demo_info) s = Some s'
     \<and> tb_status s = SignedIn \<and> tb_status s' = Expired
     \<and> min (demo_parse ''noon'') (demo_parse ''evening'') + GRACE_MS \<le> 43202600"
proof -
  define s where "s = the (run_events demo_parse (init_tab 0) demo_events)"
  define s' where "s' = the (step demo_parse 43202600 (ReadAnswered 0 demo_info) s)"
  have run: "run_events demo_parse (init_tab 0) demo_events = Some s" unfolding s_def by code_simp
  have last: "step demo_parse 43202600 (ReadAnswered 0 demo_info) s = Some s'" unfolding s'_def s_def by code_simp
  have st: "tb_status s = SignedIn" "tb_status s' = Expired" unfolding s'_def s_def by code_simp+
  have "tab_reach demo_parse 0 (last (0 # map fst demo_events)) s"
    by (rule run_events_reach [OF tab_start run]) (simp_all add: demo_events_def honest_def demo_parse_def demo_info_def)
  then have reach: "tab_reach demo_parse 0 43202500 s" by (simp add: demo_events_def)
  have honest: "honest demo_parse 0 43202600 demo_info" by (simp add: honest_def demo_parse_def demo_info_def)
  show ?thesis
    using never_expired_early [OF reach _ honest last st] reach last st by (auto simp: demo_info_def)
qed

subsection \<open>Heartbeats come from people\<close>

definition beats :: "tab \<Rightarrow> nat" where
  "beats s = length (filter (\<lambda>x. snd x = Heartbeat) (tb_sent s))"

lemma beats_check [simp]: "beats (check_session t s) = beats s"
  by (simp add: beats_def check_session_def log_call_def Let_def split: option.split)

lemma beats_see [simp]: "beats (see_status t s) = beats s"
  by (simp add: beats_def)

lemma beats_sendBeat: "beats (sendBeat t s) = beats s + (if tb_busy s then 0 else 1)"
  by (simp add: beats_def sendBeat_def log_call_def)

lemma beats_settle:
  "beats (settle t s h) = beats h + (if \<not> tb_busy h \<and> tb_status h = SignedIn
     \<and> (tb_status s \<noteq> SignedIn \<or> au_epoch (tb_auth s) \<noteq> au_epoch (tb_auth h)) then 1 else 0)"
  by (simp add: settle_def signed_in_effect_def beats_sendBeat)

lemma handle_beats:
  "handle parse t e s = Some h \<Longrightarrow> beats h = beats s + (if e \<in> {Input, Stay} \<and> tb_next s \<le> t \<and> \<not> tb_busy s then 1 else 0)"
  by (cases e) (auto simp: handle_def beats_def tab_defs read_answered_def split: if_splits read_call.splits)

text \<open>A session is kept alive by people only. A step sends a heartbeat, and then one, exactly when the user presses a key,
  clicks or asks to stay and none is on its way nor one due later, or when someone has just signed in: no timer and no
  answer ever extends a session.\<close>

theorem heartbeat_only_on_activity:
  assumes "step parse t e s = Some s'" "beats s' \<noteq> beats s"
  shows "\<not> tb_busy s \<and> tb_next s \<le> t \<and> e \<in> {Input, Stay}
    \<or> tb_status s' = SignedIn \<and> (tb_status s \<noteq> SignedIn \<or> au_epoch (tb_auth s) \<noteq> au_epoch (tb_auth s'))"
proof -
  obtain h where h: "handle parse t e s = Some h" "s' = settle t s h" using assms(1) by (rule step_cases)
  then show ?thesis using assms(2) handle_beats [OF h(1)] by (auto simp: beats_settle split: if_splits)
qed

lemma heartbeat_only_on_activity_witness:
  "\<exists>s'. step demo_parse 5 Input demo_tab = Some s' \<and> beats s' = 1 \<and> tb_next demo_tab \<le> 5"
proof -
  define s' where "s' = the (step demo_parse 5 Input demo_tab)"
  have s: "step demo_parse 5 Input demo_tab = Some s'" "beats s' = 1" "beats demo_tab = 0" "tb_status s' = SignedIn"
    "tb_status demo_tab = SignedIn" "au_epoch (tb_auth demo_tab) = au_epoch (tb_auth s')"
    unfolding s'_def by code_simp+
  then show ?thesis using heartbeat_only_on_activity [OF s(1)] by auto
qed

subsection \<open>A check that fails is not repeated\<close>

definition past_end :: "tab \<Rightarrow> bool" where
  "past_end s = (tb_status s = SignedIn \<and> au_left (tb_auth s) = None \<and> tb_seen s = SignedIn
     \<and> (case tb_dl s of None \<Rightarrow> False | Some d \<Rightarrow> tb_ended s = dl_key d \<and> left_of d (tb_now s) \<le> - GRACE_MS))"

lemma past_end_settle:
  assumes "past_end h" "tb_status s = SignedIn" "au_epoch (tb_auth s) = au_epoch (tb_auth h)"
  shows "settle t s h = h"
  using assms
  by (auto simp: past_end_def settle_def see_status_def signed_in_effect_def check_session_def Let_def GRACE_MS_def split: option.splits)

lemma past_end_tick:
  assumes "past_end s" "tb_now s \<le> t"
  shows "step parse t Tick s = Some (s\<lparr>tb_now := t\<rparr>) \<and> past_end (s\<lparr>tb_now := t\<rparr>)"
proof -
  have "past_end (s\<lparr>tb_now := t\<rparr>)"
    using assms left_later [of "tb_now s" t] by (auto simp: past_end_def split: option.splits)
  moreover have "au_left (tb_auth s) = None" "tb_status s = SignedIn" using assms(1) by (simp_all add: past_end_def)
  ultimately show ?thesis using past_end_settle [of "s\<lparr>tb_now := t\<rparr>" s] by (simp add: step_def handle_def)
qed

lemma past_end_ticks:
  "past_end s \<Longrightarrow> sorted (tb_now s # ts) \<Longrightarrow>
    \<exists>s'. run_events parse s (map (\<lambda>t. (t, Tick)) ts) = Some s' \<and> past_end s' \<and> tb_sent s' = tb_sent s \<and> tb_auth s' = tb_auth s
      \<and> tb_renewing s' = tb_renewing s"
proof (induction ts arbitrary: s)
  case (Cons t ts)
  have tick: "step parse t Tick s = Some (s\<lparr>tb_now := t\<rparr>)" "past_end (s\<lparr>tb_now := t\<rparr>)"
    using past_end_tick [of s t] Cons.prems by simp_all
  then show ?case using Cons.IH [of "s\<lparr>tb_now := t\<rparr>"] Cons.prems by auto
qed simp

text \<open>C27: When the one check at the deadline fails for want of a network, it is not made again: an unattended tab stays open,
  with the page on it and no dialog, and asks nothing more, however long the clock runs.\<close>

theorem failed_check_leaves_page_open:
  assumes "past_end s" "tb_reads s \<noteq> []" "code \<noteq> Some 401" "\<not> tb_renewing s" "sorted (tb_now s # ts)"
  shows "\<exists>s'. run_events parse s ((t, ReadFailed 0 code) # map (\<lambda>t. (t, Tick)) ts) = Some s'
    \<and> tb_status s' = SignedIn \<and> \<not> dialog_shown s' \<and> tb_sent s' = tb_sent s"
proof -
  let ?h = "s\<lparr>tb_reads := drop_nth 0 (tb_reads s)\<rparr>"
  have h: "past_end ?h" using assms(1) by (simp add: past_end_def split: option.splits)
  have "au_left (tb_auth s) = None" "tb_status s = SignedIn" using assms(1) by (simp_all add: past_end_def)
  then have "step parse t (ReadFailed 0 code) s = Some ?h"
    using past_end_settle [OF h] assms(2,3) by (simp add: step_def handle_def failed_def)
  moreover obtain s' where "run_events parse ?h (map (\<lambda>t. (t, Tick)) ts) = Some s'" "past_end s'"
    "tb_sent s' = tb_sent s" "tb_renewing s' = tb_renewing s"
    using past_end_ticks [OF h, of ts parse] assms(5) by auto
  ultimately show ?thesis using assms(4) by (auto simp: past_end_def dialog_shown_def)
qed

lemma failed_check_leaves_page_open_witness:
  "\<exists>s s'. run_events demo_parse (init_tab 0) demo_events = Some s
     \<and> run_events demo_parse s [(43300000, ReadFailed 0 None), (44000000, Tick), (90000000, Tick)] = Some s'
     \<and> tb_status s' = SignedIn \<and> \<not> dialog_shown s'"
proof -
  define s where "s = the (run_events demo_parse (init_tab 0) demo_events)"
  have run: "run_events demo_parse (init_tab 0) demo_events = Some s" unfolding s_def by code_simp
  have s: "past_end s" "tb_reads s \<noteq> []" "\<not> tb_renewing s" "sorted (tb_now s # [44000000, 90000000])"
    unfolding s_def by code_simp+
  show ?thesis
    using failed_check_leaves_page_open [OF s(1,2) _ s(3,4), of None demo_parse 43300000] run by auto
qed

end
