(* ===== verification/Bulk_Import.thy ===== *)
theory Bulk_Import
  imports Js_Regex
begin

text \<open>
  The two bulk imports, \<^verbatim>\<open>frontend/src/pages/incident/iocs/BulkImportModal.jsx\<close> and
  \<^verbatim>\<open>frontend/src/pages/incident/entities/BulkImportModal.jsx\<close>: pasted text to rows, the type of a value by its shape,
  the validation of a row, and the loop that creates what is valid. What the server answers to each creation is an
  argument. White space is the ASCII one.
\<close>

subsection \<open>Lines and columns\<close>

definition nl_char :: char where "nl_char = CHR 0x0A"
definition cr_char :: char where "cr_char = CHR 0x0D"
definition dquote :: char where "dquote = CHR 0x22"
definition tab_char :: char where "tab_char = CHR 0x09"
definition backslash :: char where "backslash = CHR 0x5C"

definition drop_cr :: "string \<Rightarrow> string" where
  "drop_cr p = (if p \<noteq> [] \<and> last p = cr_char then butlast p else p)"

text \<open>\<open>text.split(/\r?\n/)\<close>.\<close>

definition split_lines :: "string \<Rightarrow> string list" where
  "split_lines s = (let ps = split_at nl_char s in map drop_cr (butlast ps) @ [last ps])"

text \<open>The loop of \<open>splitLine\<close>: the columns so far, the current one, whether it is inside quotes.\<close>

fun split_loop :: "char \<Rightarrow> string list \<Rightarrow> string \<Rightarrow> bool \<Rightarrow> string \<Rightarrow> string list" where
  "split_loop delim cols cur inQ [] = cols @ [trim cur]"
| "split_loop delim cols cur inQ (c # line) =
     (if c = dquote then split_loop delim cols cur (\<not> inQ) line
      else if c = delim \<and> \<not> inQ then split_loop delim (cols @ [trim cur]) [] inQ line
      else split_loop delim cols (cur @ [c]) inQ line)"

definition splitLine :: "string \<Rightarrow> char \<Rightarrow> string list" where
  "splitLine line delim = split_loop delim [] [] False line"

definition splitCsvLine :: "string \<Rightarrow> string list" where
  "splitCsvLine line = split_loop (CHR '','') [] [] False line"

text \<open>The object a data row becomes: the last column of a name counts, a missing one is empty.\<close>

definition row_object :: "string list \<Rightarrow> string list \<Rightarrow> string \<Rightarrow> string option" where
  "row_object headers vals = map_of (rev (zip headers (vals @ replicate (length headers - length vals) [])))"

definition field :: "(string \<Rightarrow> string option) \<Rightarrow> string \<Rightarrow> string" where
  "field row k = (case row k of Some v \<Rightarrow> v | None \<Rightarrow> [])"

subsection \<open>The type of an indicator\<close>

abbreviation hex_c :: rx where "hex_c \<equiv> Cls is_hex"
abbreviation alnum_c :: rx where "alnum_c \<equiv> Cls (\<lambda>c. is_alpha c \<or> is_digit c)"
abbreviation not_at_c :: rx where "not_at_c \<equiv> Cls (\<lambda>c. c \<noteq> CHR ''@'' \<and> \<not> is_space c)"

definition hex_rx :: "nat \<Rightarrow> rx" where
  "hex_rx n = seqs [Bos, Rep n (Some n) hex_c, Eos]"

definition url_rx :: rx where
  "url_rx = seqs [Bos, lit_i ''http'', opt (lit_i ''s''), lit ''://'']"

definition email_rx :: rx where
  "email_rx = seqs [Bos, plus1 not_at_c, lit ''@'', plus1 not_at_c, lit ''.'', plus1 not_at_c, Eos]"

definition hive_rx :: rx where
  "hive_rx = seqs [Bos, alts (map lit_i [''HKLM'', ''HKCU'', ''HKEY_LOCAL_MACHINE'', ''HKEY_CURRENT_USER'', ''HKEY_CLASSES_ROOT'',
     ''HKEY_USERS'', ''HKEY_CURRENT_CONFIG'']), lit [backslash]]"

definition drive_rx :: rx where
  "drive_rx = seqs [Bos, Cls is_alpha, lit '':'', lit [backslash]]"

definition unix_path_rx :: rx where
  "unix_path_rx = seqs [Bos, lit ''/'', NotAhead (lit ''/''), nonspace_c]"

definition ipv4_rx :: rx where
  "ipv4_rx = seqs [Rep 3 (Some 3) (seqs [Rep 1 (Some 3) digit_c, lit ''.'']), Rep 1 (Some 3) digit_c]"

definition ipv4_cidr_rx :: rx where
  "ipv4_cidr_rx = seqs [Bos, ipv4_rx, opt (seqs [lit ''/'', plus1 digit_c]), Eos]"

definition ipv6_rx :: rx where
  "ipv6_rx = seqs [Bos, Rep 0 (Some 4) hex_c, Rep 2 (Some 7) (seqs [lit '':'', Rep 0 (Some 4) hex_c]), Eos]"

definition label_rx :: rx where
  "label_rx = seqs [alnum_c, opt (seqs [star (Cls (\<lambda>c. is_alpha c \<or> is_digit c \<or> c = CHR ''-'')), alnum_c])]"

definition domain_rx :: rx where
  "domain_rx = seqs [Bos, label_rx, plus1 (seqs [lit ''.'', label_rx]), Eos]"

definition IOC_TYPES_SET :: "string list" where
  "IOC_TYPES_SET = [''ip'', ''domain'', ''url'', ''hash_md5'', ''hash_sha1'', ''hash_sha256'', ''email'', ''registry_key'',
     ''file_path'', ''other'']"

definition detectIocType :: "string \<Rightarrow> string" where
  "detectIocType value =
     (let v = trim value in
      if rx_test (hex_rx 64) v then ''hash_sha256''
      else if rx_test (hex_rx 40) v then ''hash_sha1''
      else if rx_test (hex_rx 32) v then ''hash_md5''
      else if rx_test url_rx v then ''url''
      else if rx_test email_rx v then ''email''
      else if rx_test hive_rx v then ''registry_key''
      else if rx_test drive_rx v \<or> rx_test unix_path_rx v then ''file_path''
      else if rx_test ipv4_cidr_rx v then ''ip''
      else if rx_test ipv6_rx v then ''ip''
      else if rx_test domain_rx v then ''domain''
      else ''other'')"

subsection \<open>Indicators: text to rows\<close>

type_synonym text_line = "string \<times> nat"

record ioc_row =
  ir_line :: nat
  ir_type :: string
  ir_value :: string
  ir_notes :: string
  ir_source :: string

definition numbered :: "string list \<Rightarrow> text_line list" where
  "numbered ls = zip ls [1 ..< length ls + 1]"

definition ioc_lines :: "string \<Rightarrow> text_line list" where
  "ioc_lines text = filter (\<lambda>l. trim (fst l) \<noteq> [] \<and> \<not> starts_with (trim (fst l)) ''#'') (numbered (split_lines text))"

definition default_to :: "string \<Rightarrow> string \<Rightarrow> string" where
  "default_to s d = (if s = [] then d else s)"

definition ioc_csv_row :: "string list \<Rightarrow> string \<Rightarrow> text_line \<Rightarrow> ioc_row" where
  "ioc_csv_row headers defaultSource l =
     (let row = row_object headers (splitCsvLine (fst l)) in
      \<lparr>ir_line = snd l, ir_type = default_to (trim (to_lower (field row ''type''))) ''other'',
       ir_value = trim (field row ''value''), ir_notes = trim (field row ''notes''),
       ir_source = default_to (trim (field row ''source'')) defaultSource\<rparr>)"

definition ioc_plain_row :: "string \<Rightarrow> text_line \<Rightarrow> ioc_row" where
  "ioc_plain_row defaultSource l =
     (let value = trim (fst l) in
      \<lparr>ir_line = snd l, ir_type = detectIocType value, ir_value = value, ir_notes = [], ir_source = defaultSource\<rparr>)"

definition csv_header :: "string \<Rightarrow> bool" where
  "csv_header first = (let firstLower = trim (to_lower first) in starts_with firstLower ''type'' \<and> str_includes firstLower '','')"

definition parseIocs :: "string \<Rightarrow> string \<Rightarrow> ioc_row list" where
  "parseIocs text defaultSource =
     (case ioc_lines text of
        [] \<Rightarrow> []
      | l # rest \<Rightarrow>
          if csv_header (fst l)
          then map (ioc_csv_row (map (\<lambda>h. trim (to_lower h)) (splitCsvLine (fst l))) defaultSource) rest
          else map (ioc_plain_row defaultSource) (l # rest))"

definition ioc_errors :: "ioc_row \<Rightarrow> string list" where
  "ioc_errors row =
     (if ir_value row = [] then [''Value is required''] else [])
     @ (if ir_type row \<notin> set IOC_TYPES_SET then [''Unknown type '' @ [dquote] @ ir_type row @ [dquote]] else [])
     @ (if length (ir_value row) > 2048 then [''Value too long (max 2048)''] else [])"

definition ioc_valid :: "ioc_row \<Rightarrow> bool" where
  "ioc_valid row = (length (ioc_errors row) = 0)"

text \<open>\<open>onPreview\<close>: the rows, or the message.\<close>

definition previewIocs :: "string \<Rightarrow> string \<Rightarrow> string + ioc_row list" where
  "previewIocs rawText defaultSource =
     (let parsed = parseIocs rawText (trim defaultSource) in
      if length parsed = 0 then Inl ''No IOCs found in input''
      else if length parsed > 500
      then Inl (''Too many IOCs ('' @ show_nat (length parsed) @ ''). Maximum is 500 per import.'')
      else Inr parsed)"

definition ioc_body :: "ioc_row \<Rightarrow> jsval" where
  "ioc_body row = JObj
     [(''type'', JStr (ir_type row)), (''value'', JStr (ir_value row)),
      (''notes'', if ir_notes row = [] then JNull else JStr (ir_notes row)),
      (''source'', JStr (default_to (ir_source row) ''bulk-import'')), (''tags'', JArr [JStr ''bulk-import''])]"

subsection \<open>Creating the rows\<close>

datatype created = Created | Refused "int option" string

record tally =
  ty_ok :: nat
  ty_skipped :: nat
  ty_failed :: nat

definition count_answer :: "tally \<Rightarrow> created \<Rightarrow> tally" where
  "count_answer r a = (case a of
     Created \<Rightarrow> r\<lparr>ty_ok := ty_ok r + 1\<rparr>
   | Refused code msg \<Rightarrow>
       if code = Some 409 \<or> str_includes msg ''already exists'' then r\<lparr>ty_skipped := ty_skipped r + 1\<rparr>
       else r\<lparr>ty_failed := ty_failed r + 1\<rparr>)"

text \<open>The loop: one request a row, each awaited; \<open>answer n\<close> is what the server said to the \<open>n\<close>-th.\<close>

fun create_loop :: "(nat \<Rightarrow> created) \<Rightarrow> ('r \<Rightarrow> jsval) \<Rightarrow> jsval list \<Rightarrow> tally \<Rightarrow> 'r list \<Rightarrow> jsval list \<times> tally" where
  "create_loop answer body sent r [] = (sent, r)"
| "create_loop answer body sent r (row # rows) =
     create_loop answer body (sent @ [body row]) (count_answer r (answer (length sent))) rows"

definition import_rows :: "(nat \<Rightarrow> created) \<Rightarrow> ('r \<Rightarrow> jsval) \<Rightarrow> 'r list \<Rightarrow> jsval list \<times> tally" where
  "import_rows answer body rows = create_loop answer body [] \<lparr>ty_ok = 0, ty_skipped = 0, ty_failed = 0\<rparr> rows"

definition importIocs :: "(nat \<Rightarrow> created) \<Rightarrow> ioc_row list \<Rightarrow> jsval list \<times> tally" where
  "importIocs answer rows = import_rows answer ioc_body (filter ioc_valid rows)"

definition reloads :: "tally \<Rightarrow> bool" where
  "reloads r = (ty_ok r > 0)"

subsection \<open>Entities\<close>

definition ENTITY_TYPES :: "string list" where
  "ENTITY_TYPES = [''host'', ''user'', ''ip'', ''domain'', ''email'', ''service'', ''network_range'', ''group'', ''other'']"

definition CRITICALITY_VALUES :: "string list" where
  "CRITICALITY_VALUES = [''low'', ''medium'', ''high'', ''critical'']"

definition range4_rx :: rx where
  "range4_rx = seqs [Bos, ipv4_rx, lit ''/'', Rep 1 (Some 2) digit_c, Eos]"

definition range6_rx :: rx where
  "range6_rx = seqs [Bos, star hex_c, lit '':'', star (Cls (\<lambda>c. is_hex c \<or> c = CHR '':'')), lit ''/'', Rep 1 (Some 3) digit_c, Eos]"

definition ipv4_only_rx :: rx where
  "ipv4_only_rx = seqs [Bos, ipv4_rx, Eos]"

definition account_rx :: rx where
  "account_rx = (let part = Cls (\<lambda>c. c \<noteq> backslash \<and> \<not> is_space c) in seqs [Bos, plus1 part, lit [backslash], plus1 part, Eos])"

definition detectEntityType :: "string \<Rightarrow> string" where
  "detectEntityType v =
     (if rx_test range4_rx v \<or> rx_test range6_rx v then ''network_range''
      else if rx_test ipv4_only_rx v \<or> rx_test ipv6_rx v then ''ip''
      else if rx_test email_rx v then ''email''
      else if rx_test account_rx v then ''user''
      else if rx_test domain_rx v then ''domain''
      else ''other'')"

definition bom :: string where
  "bom = [CHR 0xEF, CHR 0xBB, CHR 0xBF]"

definition strip_bom :: "string \<Rightarrow> string" where
  "strip_bom s = (if prefix bom s then drop 3 s else s)"

definition entity_lines :: "string \<Rightarrow> text_line list" where
  "entity_lines text = filter (\<lambda>l. trim (fst l) \<noteq> []) (numbered (split_lines (strip_bom text)))"

text \<open>\<open>h.replace(/\s+/g, '_')\<close>.\<close>

fun underscored :: "bool \<Rightarrow> string \<Rightarrow> string" where
  "underscored inSpace [] = []"
| "underscored inSpace (c # s) =
     (if is_space c then (if inSpace then [] else [CHR ''_'']) @ underscored True s else c # underscored False s)"

definition pick_delim :: "string \<Rightarrow> char" where
  "pick_delim head = foldl (\<lambda>best d. if length (split_at d head) > length (split_at best head) then d else best)
     (CHR '','') [CHR '';'', tab_char]"

type_synonym entity_object = "string \<Rightarrow> string option"

definition entity_headers :: "string \<Rightarrow> string list" where
  "entity_headers head = map (\<lambda>h. underscored False (to_lower h)) (splitLine head (pick_delim head))"

definition parseEntities :: "string \<Rightarrow> string \<Rightarrow> string + (nat \<times> entity_object) list" where
  "parseEntities text plainType =
     (case entity_lines text of
        [] \<Rightarrow> Inl ''Nothing to import''
      | l # rest \<Rightarrow>
          let head = fst l; headers = entity_headers head in
          if ''type'' \<in> set headers \<and> ''value'' \<in> set headers
          then if rest = [] then Inl ''The CSV has a header row but no data rows''
            else Inr (map (\<lambda>m. (snd m, row_object headers (splitLine (fst m) (pick_delim head)))) rest)
          else if length headers > 1
          then Inl (''The header row needs '' @ [dquote] @ ''type'' @ [dquote] @ '' and '' @ [dquote] @ ''value'' @ [dquote]
            @ '' columns (found: '' @ join '', '' headers @ ''). For a plain list, put one value per line.'')
          else Inr (map (\<lambda>m. let value = trim (fst m) in
            (snd m, [''type'' \<mapsto> (if plainType = ''auto'' then detectEntityType value else plainType), ''value'' \<mapsto> value])) (l # rest)))"

record entity_row =
  er_line :: jsval
  er_type :: string
  er_value :: string
  er_name :: "string option"
  er_criticality :: string
  er_errors :: "string list"

definition validateEntity :: "nat \<times> entity_object \<Rightarrow> entity_row" where
  "validateEntity x =
     (let row = snd x;
          type = trim (to_lower (field row ''type''));
          value = trim (field row ''value'');
          name = trim (field row ''name'');
          crit = trim (to_lower (default_to (field row ''criticality'') ''medium''))
      in \<lparr>er_line = (case row ''_line'' of Some v \<Rightarrow> JStr v | None \<Rightarrow> JNum (int (fst x))), er_type = type, er_value = value, er_name = (if name = [] then None else Some name),
          er_criticality = (if crit \<in> set CRITICALITY_VALUES then crit else ''medium''),
          er_errors =
            (if type \<notin> set ENTITY_TYPES then [''Unknown type '' @ [dquote] @ type @ [dquote]] else [])
            @ (if value = [] then [''Value is required''] else [])
            @ (if crit \<notin> set CRITICALITY_VALUES then [''Unknown criticality '' @ [dquote] @ crit @ [dquote]] else [])\<rparr>)"

definition entity_valid :: "entity_row \<Rightarrow> bool" where
  "entity_valid row = (length (er_errors row) = 0)"

definition previewEntities :: "string \<Rightarrow> string \<Rightarrow> string + entity_row list" where
  "previewEntities text plainType = (case parseEntities text plainType of Inl m \<Rightarrow> Inl m | Inr xs \<Rightarrow> Inr (map validateEntity xs))"

definition entity_body :: "entity_row \<Rightarrow> jsval" where
  "entity_body row = JObj
     [(''type'', JStr (er_type row)), (''value'', JStr (er_value row)),
      (''name'', case er_name row of Some n \<Rightarrow> JStr n | None \<Rightarrow> JNull), (''criticality'', JStr (er_criticality row))]"

definition importEntities :: "(nat \<Rightarrow> created) \<Rightarrow> entity_row list \<Rightarrow> jsval list \<times> tally" where
  "importEntities answer rows = import_rows answer entity_body (filter entity_valid rows)"

end
