(* ===== verification/Bulk_Laws.thy ===== *)
theory Bulk_Laws
  imports Bulk_Import
begin

text \<open>
  What the bulk imports promise: quoted columns come back, every line is a row with its own number, hashes are known by
  their shape, and every valid row is sent once and counted once.
\<close>

subsection \<open>Columns\<close>

text \<open>A field as CSV writes it: in quotes, its own quotes doubled.\<close>

definition csv_quote :: "string \<Rightarrow> string" where
  "csv_quote f = [dquote] @ concat (map (\<lambda>c. if c = dquote then [dquote, dquote] else [c]) f) @ [dquote]"

definition unquoted :: "string \<Rightarrow> string" where
  "unquoted f = filter (\<lambda>c. c \<noteq> dquote) f"

lemma loop_inside:
  "split_loop d cols cur True (concat (map (\<lambda>c. if c = dquote then [dquote, dquote] else [c]) f) @ dquote # rest)
     = split_loop d cols (cur @ unquoted f) False rest"
  by (induction f arbitrary: cur) (simp_all add: unquoted_def)

lemma loop_field: "split_loop d cols cur False (csv_quote f @ rest) = split_loop d cols (cur @ unquoted f) False rest"
  by (simp add: csv_quote_def loop_inside)

lemma loop_fields:
  "d \<noteq> dquote \<Longrightarrow> fs \<noteq> [] \<Longrightarrow>
    split_loop d cols [] False (join [d] (map csv_quote fs)) = cols @ map (\<lambda>f. trim (unquoted f)) fs"
proof (induction fs arbitrary: cols rule: induct_list012)
  case (2 f)
  then show ?case using loop_field [of d cols "[]" f "[]"] by simp
next
  case (3 f g fs)
  then show ?case by (simp add: loop_field)
qed simp

text \<open>C28: What the importer reads of a CSV line whose fields are all quoted, with any separator: the fields in order, without
  the spaces around them and without any of their quotes. So fields without quotes and outer spaces come back as they
  were, separators and all, and a doubled quote is lost.\<close>

theorem csv_line_read:
  assumes "d \<noteq> dquote" "fs \<noteq> []"
  shows "splitLine (join [d] (map csv_quote fs)) d = map (\<lambda>f. trim (unquoted f)) fs
    \<and> splitCsvLine (join '','' (map csv_quote fs)) = map (\<lambda>f. trim (unquoted f)) fs"
  using loop_fields [OF assms, of "[]"] loop_fields [of "CHR '',''" fs "[]"] assms(2)
  by (simp_all add: splitLine_def splitCsvLine_def dquote_def)

lemma csv_line_read_witness:
  "splitLine (join '';'' (map csv_quote [''a;b'', ''c d'']))  (CHR '';'') = [''a;b'', ''c d'']"
proof -
  have "splitLine (join [CHR '';''] (map csv_quote [''a;b'', ''c d''])) (CHR '';'') = map (\<lambda>f. trim (unquoted f)) [''a;b'', ''c d'']"
    by (rule csv_line_read [THEN conjunct1]) (simp_all add: dquote_def)
  also have "\<dots> = [''a;b'', ''c d'']" by code_simp
  finally show ?thesis .
qed

subsection \<open>Types\<close>

lemma rx_test_count: "rx_test (seqs [Bos, Rep n (Some n) (Cls p), Eos]) s \<longleftrightarrow> length s = n \<and> list_all p s"
proof -
  have rel: "(st, st') \<in> rx_rel (seqs [Bos, Rep n (Some n) (Cls p), Eos])
      \<longleftrightarrow> fst st = None \<and> (st, st') \<in> rx_rel (Cls p) ^^ n \<and> snd st' = []" for st st'
    by (cases st; cases st') (auto simp: relcomp_unfold simp del: rx_rel.simps(2) relpow.simps)
  have "rx_test (seqs [Bos, Rep n (Some n) (Cls p), Eos]) s \<longleftrightarrow> (\<exists>q'. ((None, s), (q', [])) \<in> rx_rel (Cls p) ^^ n)"
    unfolding rx_test_iff rel using starts_from_None [of _ s] by (metis fst_conv prod.collapse snd_conv)
  also have "\<dots> \<longleftrightarrow> length s = n \<and> list_all p s"
    using cls_pow_all all_cls_pow [of p s None] by blast
  finally show ?thesis .
qed

definition is_hash :: "nat \<Rightarrow> string \<Rightarrow> bool" where
  "is_hash n v \<longleftrightarrow> length v = n \<and> list_all is_hex v"

lemma hex_rx_iff: "rx_test (hex_rx n) v \<longleftrightarrow> is_hash n v"
  unfolding hex_rx_def is_hash_def by (rule rx_test_count)

lemma other_types_distinct: "detectIocType value \<in> set IOC_TYPES_SET"
  by (simp add: detectIocType_def IOC_TYPES_SET_def Let_def)

text \<open>A value is taken for a hash exactly when it is 64, 40 or 32 hexadecimal digits, and its kind is that of the
  length; every value gets one of the ten types. The check is on the shape alone: the importer of entities takes a
  hardware address or a time of day, written with colons, for an IP address.\<close>

theorem detected_types:
  "(detectIocType value = ''hash_sha256'') = is_hash 64 (trim value)
   \<and> (detectIocType value = ''hash_sha1'') = is_hash 40 (trim value)
   \<and> (detectIocType value = ''hash_md5'') = is_hash 32 (trim value)
   \<and> detectIocType value \<in> set IOC_TYPES_SET \<and> detectEntityType value \<in> set ENTITY_TYPES
   \<and> map detectEntityType [''00:1a:2b:3c:4d:5e'', ''12:30:45''] = [''ip'', ''ip'']"
proof (intro conjI)
  show "(detectIocType value = ''hash_sha256'') = is_hash 64 (trim value)"
    by (simp add: detectIocType_def Let_def hex_rx_iff)
  show "(detectIocType value = ''hash_sha1'') = is_hash 40 (trim value)"
    by (simp add: detectIocType_def Let_def hex_rx_iff) (simp add: is_hash_def)
  show "(detectIocType value = ''hash_md5'') = is_hash 32 (trim value)"
    by (simp add: detectIocType_def Let_def hex_rx_iff) (simp add: is_hash_def)
  show "detectIocType value \<in> set IOC_TYPES_SET" by (rule other_types_distinct)
  show "detectEntityType value \<in> set ENTITY_TYPES" by (simp add: detectEntityType_def ENTITY_TYPES_def)
  show "map detectEntityType [''00:1a:2b:3c:4d:5e'', ''12:30:45''] = [''ip'', ''ip'']" by code_simp
qed

subsection \<open>Lines\<close>

text \<open>The lines that count: not blank and no comment, with their numbers from 1.\<close>

definition data_lines :: "string \<Rightarrow> (nat \<times> string) list" where
  "data_lines text = filter (\<lambda>(n, v). v \<noteq> [] \<and> \<not> starts_with v ''#'')
     (map (\<lambda>n. (n + 1, trim (split_lines text ! n))) [0 ..< length (split_lines text)])"

lemma zip_upt: "zip xs [1 ..< length xs + 1] = map (\<lambda>n. (xs ! n, n + 1)) [0 ..< length xs]"
  by (rule nth_equalityI) (simp_all add: nth_append del: upt_Suc)

lemma ioc_lines_data: "map (\<lambda>l. (snd l, trim (fst l))) (ioc_lines text) = data_lines text"
  unfolding ioc_lines_def numbered_def data_lines_def zip_upt by (simp add: filter_map comp_def case_prod_beta)

text \<open>A plain list is read line by line. Every line that is not blank and no comment is one row, in order, with its line
  number, its trimmed text as the value and the type of its shape; it is valid unless it is longer than 2048.\<close>

theorem plain_list_rows:
  assumes "ioc_lines text = l # rest" "\<not> csv_header (fst l)"
  shows "map (\<lambda>r. (ir_line r, ir_value r)) (parseIocs text src) = data_lines text
    \<and> (\<forall>r \<in> set (parseIocs text src). ir_type r = detectIocType (ir_value r) \<and> ioc_valid r = (length (ir_value r) \<le> 2048))"
proof -
  have rows: "parseIocs text src = map (ioc_plain_row src) (ioc_lines text)"
    using assms by (simp add: parseIocs_def)
  have "map (\<lambda>r. (ir_line r, ir_value r)) (parseIocs text src) = data_lines text"
    unfolding rows ioc_lines_data [symmetric] by (simp add: ioc_plain_row_def Let_def comp_def)
  moreover have "ir_type r = detectIocType (ir_value r) \<and> ioc_valid r = (length (ir_value r) \<le> 2048)"
    if "r \<in> set (parseIocs text src)" for r
  proof -
    from that obtain m where m: "m \<in> set (ioc_lines text)" "r = ioc_plain_row src m" unfolding rows by auto
    have "trim (fst m) \<noteq> []" using m(1) by (simp add: ioc_lines_def)
    then show ?thesis
      using other_types_distinct by (auto simp: m(2) ioc_plain_row_def Let_def ioc_valid_def ioc_errors_def)
  qed
  ultimately show ?thesis by blast
qed

definition demo_list :: string where
  "demo_list = ''# note'' @ [nl_char] @ ''192.0.2.10 '' @ [cr_char, nl_char] @ [nl_char] @ ''evil.example.com''"

lemma plain_list_rows_witness:
  "map (\<lambda>r. (ir_line r, ir_value r)) (parseIocs demo_list []) = [(2, ''192.0.2.10''), (4, ''evil.example.com'')]"
proof -
  have "ioc_lines demo_list = (''192.0.2.10 '', 2) # [(''evil.example.com'', 4)]" by code_simp
  moreover have "\<not> csv_header (fst (''192.0.2.10 '', 2 :: nat))" by code_simp
  ultimately have "map (\<lambda>r. (ir_line r, ir_value r)) (parseIocs demo_list []) = data_lines demo_list"
    using plain_list_rows by blast
  also have "\<dots> = [(2, ''192.0.2.10''), (4, ''evil.example.com'')]" by code_simp
  finally show ?thesis .
qed

subsection \<open>Creating\<close>

definition tally_size :: "tally \<Rightarrow> nat" where
  "tally_size r = ty_ok r + ty_skipped r + ty_failed r"

lemma count_answer_size: "tally_size (count_answer r a) = Suc (tally_size r)"
  by (simp add: count_answer_def tally_size_def split: created.split)

lemma count_answer_ok: "ty_ok (count_answer r a) = ty_ok r + (if a = Created then 1 else 0)"
  by (simp add: count_answer_def split: created.split)

lemma create_loop_sent: "fst (create_loop answer body sent r rows) = sent @ map body rows"
  by (induction rows arbitrary: sent r) simp_all

lemma create_loop_size: "tally_size (snd (create_loop answer body sent r rows)) = tally_size r + length rows"
  by (induction rows arbitrary: sent r) (simp_all add: count_answer_size)

lemma create_loop_ok:
  "ty_ok (snd (create_loop answer body sent r rows))
     = ty_ok r + length (filter (\<lambda>n. answer n = Created) [length sent ..< length sent + length rows])"
proof (induction rows arbitrary: sent r)
  case (Cons row rows)
  have "[length sent ..< length sent + length (row # rows)] = length sent # [Suc (length sent) ..< length sent + length (row # rows)]"
    by (rule upt_conv_Cons) simp
  then show ?case by (simp add: Cons count_answer_ok)
qed simp

lemma import_counts:
  "fst (import_rows answer body rows) = map body rows"
  "tally_size (snd (import_rows answer body rows)) = length rows"
  "ty_ok (snd (import_rows answer body rows)) = length (filter (\<lambda>n. answer n = Created) [0 ..< length rows])"
  unfolding import_rows_def create_loop_sent create_loop_ok create_loop_size by (simp_all add: tally_size_def)

text \<open>Every valid row is sent exactly once, in the order of the preview, and no invalid one is; the three numbers shown at
  the end add up to the rows sent, and the first is the number the server created. A refusal stops nothing.\<close>

theorem bulk_import_accounts:
  "fst (importIocs answer rows) = map ioc_body (filter ioc_valid rows)
   \<and> fst (importEntities answer es) = map entity_body (filter entity_valid es)
   \<and> tally_size (snd (importIocs answer rows)) = length (filter ioc_valid rows)
   \<and> tally_size (snd (importEntities answer es)) = length (filter entity_valid es)
   \<and> ty_ok (snd (importIocs answer rows)) = length (filter (\<lambda>n. answer n = Created) [0 ..< length (filter ioc_valid rows)])
   \<and> ty_ok (snd (importEntities answer es)) = length (filter (\<lambda>n. answer n = Created) [0 ..< length (filter entity_valid es)])"
  by (simp add: importIocs_def importEntities_def import_counts)

end
