(* ===== verification/Log_Import.thy ===== *)
theory Log_Import
  imports Process_Forest
begin

text \<open>
  \<^verbatim>\<open>frontend/src/pages/incident/forensic/TimelineImport.jsx\<close>, the page: an import is loaded or parsed, its events are
  filtered and selected, and the selected ones are promoted to the timeline, at most \<open>PROMOTE_CHUNK\<close> to a request.
  A handler that awaits is two functions, before and after; a parsed event is its JSON object.
\<close>

subsection \<open>State\<close>

definition MAX_MB :: int where "MAX_MB = 500"
definition PROMOTE_CHUNK :: nat where "PROMOTE_CHUNK = 10000"

record import_page =
  ip_file :: jsval
  ip_parsing :: bool
  ip_parseError :: "string option"
  ip_result :: jsval
  ip_selected :: "jsval list"
  ip_filterText :: string
  ip_filterSuspicious :: bool
  ip_filterSource :: string
  ip_promoting :: bool
  ip_linkEntities :: bool
  ip_promoteMsg :: "(string \<times> string) option"
  ip_activeImportId :: jsval

definition init_page :: import_page where
  "init_page = \<lparr>ip_file = JNull, ip_parsing = False, ip_parseError = None, ip_result = JNull, ip_selected = [], ip_filterText = [],
     ip_filterSuspicious = False, ip_filterSource = [], ip_promoting = False, ip_linkEntities = True, ip_promoteMsg = None,
     ip_activeImportId = JNull\<rparr>"

definition or_null_value :: "jsval \<Rightarrow> jsval" where
  "or_null_value v = (if truthy v then v else JNull)"

definition nullish_null :: "jsval \<Rightarrow> jsval" where
  "nullish_null v = (if nullish v then JNull else v)"

definition list_field :: "jsval \<Rightarrow> string \<Rightarrow> jsval list" where
  "list_field v k = (case jget v k of JArr xs \<Rightarrow> xs | _ \<Rightarrow> [])"

subsection \<open>Events shown and selected\<close>

definition isPromotable :: "jsval \<Rightarrow> bool" where
  "isPromotable e \<longleftrightarrow> truthy (jget e ''event_time'') \<and> jget e ''time_basis'' \<noteq> JStr ''missing''"

definition idx :: "jsval \<Rightarrow> jsval" where
  "idx e = jget e ''idx''"

definition events :: "import_page \<Rightarrow> jsval list" where
  "events p = list_field (ip_result p) ''events''"

text \<open>\<open>x?.toLowerCase().includes(q)\<close>.\<close>

definition contains_text :: "jsval \<Rightarrow> string \<Rightarrow> bool" where
  "contains_text v q = (case v of JStr s \<Rightarrow> str_includes (to_lower s) q | _ \<Rightarrow> False)"

definition event_shown :: "import_page \<Rightarrow> jsval \<Rightarrow> bool" where
  "event_shown p e =
     (if ip_filterSuspicious p \<and> \<not> truthy (jget e ''suspicious'') then False
      else if ip_filterSource p \<noteq> [] \<and> jget e ''source'' \<noteq> JStr (ip_filterSource p) then False
      else if ip_filterText p \<noteq> []
      then (let q = to_lower (ip_filterText p) in
        contains_text (jget e ''description'') q \<or> contains_text (jget e ''hostname'') q \<or> contains_text (jget e ''source'') q
        \<or> contains_text (jget e ''event_type'') q
        \<or> contains_text (let n = jget e ''mitre_technique_name'' in if truthy n then n else JStr []) q)
      else True)"

definition visible :: "import_page \<Rightarrow> jsval list" where
  "visible p = filter (event_shown p) (events p)"

definition selectedVisible :: "import_page \<Rightarrow> jsval list" where
  "selectedVisible p = filter (\<lambda>e. idx e \<in> set (ip_selected p)) (visible p)"

definition selectedPromotable :: "import_page \<Rightarrow> jsval list" where
  "selectedPromotable p = filter isPromotable (selectedVisible p)"

definition allVisibleSelected :: "import_page \<Rightarrow> bool" where
  "allVisibleSelected p \<longleftrightarrow> length (visible p) > 0 \<and> list_all (\<lambda>e. idx e \<in> set (ip_selected p)) (visible p)"

record basis_counts =
  bc_assumed_tz :: nat
  bc_inferred_year :: nat
  bc_missing :: nat

definition count_basis :: "basis_counts \<Rightarrow> jsval \<Rightarrow> basis_counts" where
  "count_basis c e = (let b = jget e ''time_basis'' in
     if b = JStr ''assumed_tz'' then c\<lparr>bc_assumed_tz := bc_assumed_tz c + 1\<rparr>
     else if b = JStr ''inferred_year'' then c\<lparr>bc_inferred_year := bc_inferred_year c + 1\<rparr>
     else if b = JStr ''missing'' then c\<lparr>bc_missing := bc_missing c + 1\<rparr> else c)"

definition basisCounts :: "import_page \<Rightarrow> basis_counts" where
  "basisCounts p = foldl count_basis \<lparr>bc_assumed_tz = 0, bc_inferred_year = 0, bc_missing = 0\<rparr> (events p)"

subsection \<open>Loading\<close>

definition import_result :: "jsval \<Rightarrow> jsval" where
  "import_result d = JObj
     [(''source_file'', jget d ''filename''), (''detected_format'', jget d ''detected_format''), (''count'', jget d ''event_count''),
      (''suspicious_count'', jget d ''suspicious_count''), (''events'', jget d ''events''), (''import_id'', jget d ''id''),
      (''evidence_id'', or_null_value (jget d ''evidence_id'')), (''evidence_identifier'', or_null_value (jget d ''evidence_identifier'')),
      (''parser_version'', or_null_value (jget d ''parser_version'')), (''source_tz'', or_null_value (jget d ''source_tz'')),
      (''truncated'', JBool (truthy (jget d ''truncated''))), (''total_seen'', nullish_null (jget d ''total_seen'')),
      (''clock_offset_seconds'', nullish_null (jget d ''clock_offset_seconds'')),
      (''clock_offset_status'', or_null_value (jget d ''clock_offset_status'')),
      (''exhibit_time_offset'', or_null_value (jget d ''exhibit_time_offset'')),
      (''exhibit_time_offset_seconds'', nullish_null (jget d ''exhibit_time_offset_seconds''))]"

definition applyResult :: "jsval \<Rightarrow> import_page \<Rightarrow> import_page" where
  "applyResult d p = p\<lparr>ip_result := import_result d, ip_filterSuspicious := (length (list_field d ''events'') > 1000)\<rparr>"

definition pickFile :: "jsval \<Rightarrow> import_page \<Rightarrow> import_page" where
  "pickFile f p =
     (if \<not> truthy f then p
      else let size = (case jget f ''size'' of JNum n \<Rightarrow> n | _ \<Rightarrow> 0) in
        if size > MAX_MB * 1024 * 1024
        then p\<lparr>ip_parseError := Some (''File is '' @ show_nat (round_div (nat size) (1024 * 1024)) @ '' MiB '' @ em_dash
          @ '' exceeds the '' @ show_int MAX_MB @ '' MiB limit.'')\<rparr>
        else p\<lparr>ip_file := f, ip_parseError := None, ip_result := JNull, ip_selected := [], ip_promoteMsg := None\<rparr>)"

text \<open>\<open>onParse\<close> and \<open>onParseExhibit\<close> up to the request; their guard is the caller's.\<close>

definition start_parse :: "import_page \<Rightarrow> import_page" where
  "start_parse p = p\<lparr>ip_parsing := True, ip_parseError := None, ip_result := JNull, ip_selected := [], ip_promoteMsg := None,
     ip_activeImportId := JNull\<rparr>"

definition onParse_request :: "string \<Rightarrow> string \<Rightarrow> import_page \<Rightarrow> (import_page \<times> jsval) option" where
  "onParse_request incident sourceTz p =
     (if \<not> truthy (ip_file p) \<or> sourceTz = [] then None else Some (start_parse p, ip_file p))"

text \<open>\<open>loadImport\<close> and \<open>importFromArtifact\<close> up to the request: the result stays.\<close>

definition start_load :: "import_page \<Rightarrow> import_page" where
  "start_load p = p\<lparr>ip_parsing := True, ip_parseError := None, ip_selected := [], ip_promoteMsg := None\<rparr>"

definition imported :: "jsval \<Rightarrow> import_page \<Rightarrow> import_page" where
  "imported d p = (applyResult d p)\<lparr>ip_activeImportId := jget d ''id'', ip_file := JNull, ip_parsing := False\<rparr>"

definition exhibit_imported :: "jsval \<Rightarrow> import_page \<Rightarrow> import_page" where
  "exhibit_imported d p = (applyResult d p)\<lparr>ip_activeImportId := jget d ''id'', ip_parsing := False\<rparr>"

definition import_failed :: "string \<Rightarrow> string \<Rightarrow> import_page \<Rightarrow> import_page" where
  "import_failed fallback msg p = p\<lparr>ip_parseError := Some (if msg = [] then fallback else msg), ip_parsing := False\<rparr>"

text \<open>\<open>disposeImport\<close> after the server deleted it; \<open>active\<close> is the import that was open when the button was pressed.\<close>

definition disposed :: "jsval \<Rightarrow> jsval \<Rightarrow> import_page \<Rightarrow> import_page" where
  "disposed active imp p =
     (if active = imp then p\<lparr>ip_result := JNull, ip_activeImportId := JNull, ip_selected := []\<rparr> else p)"

subsection \<open>Selecting\<close>

definition set_delete :: "'a list \<Rightarrow> 'a \<Rightarrow> 'a list" where
  "set_delete s x = filter (\<lambda>y. y \<noteq> x) s"

definition toggleRow :: "jsval \<Rightarrow> import_page \<Rightarrow> import_page" where
  "toggleRow i p = p\<lparr>ip_selected :=
     (if i \<in> set (ip_selected p) then set_delete (ip_selected p) i else set_add (ip_selected p) i)\<rparr>"

definition toggleAllVisible :: "import_page \<Rightarrow> import_page" where
  "toggleAllVisible p =
     (if allVisibleSelected p then p\<lparr>ip_selected := foldl (\<lambda>s e. set_delete s (idx e)) (ip_selected p) (visible p)\<rparr>
      else p\<lparr>ip_selected := foldl (\<lambda>s e. set_add s (idx e)) (ip_selected p) (visible p)\<rparr>)"

text \<open>\<open>onSelectSubtree\<close>: an index counts when the array has an event there.\<close>

definition onSelectSubtree :: "int list \<Rightarrow> import_page \<Rightarrow> import_page" where
  "onSelectSubtree idxs p = p\<lparr>ip_selected :=
     foldl (\<lambda>s i. if 0 \<le> i \<and> nat i < length (events p) then set_add s (JNum i) else s) (ip_selected p) idxs\<rparr>"

subsection \<open>Promoting\<close>

record promoted =
  pm_created :: int
  pm_linked :: int
  pm_untimed :: "jsval list"
  pm_already :: "jsval list"

definition add_promoted :: "promoted \<Rightarrow> promoted \<Rightarrow> promoted" where
  "add_promoted a r = \<lparr>pm_created = pm_created a + pm_created r, pm_linked = pm_linked a + pm_linked r,
     pm_untimed = pm_untimed a @ pm_untimed r, pm_already = pm_already a @ pm_already r\<rparr>"

definition promote_body :: "bool \<Rightarrow> jsval list \<Rightarrow> jsval" where
  "promote_body link es = JObj [(''indices'', JArr (map idx es)), (''link_entities'', JBool link)]"

text \<open>The loop: the requests sent, and the sum or the first error. \<open>answer n\<close> is what the server says to the \<open>n\<close>-th.\<close>

function promote_loop :: "(nat \<Rightarrow> string + promoted) \<Rightarrow> bool \<Rightarrow> nat \<Rightarrow> promoted \<Rightarrow> jsval list \<Rightarrow> jsval list \<times> (string + promoted)" where
  "promote_loop answer link n acc picks =
     (if picks = [] then ([], Inr acc)
      else let req = promote_body link (take PROMOTE_CHUNK picks) in
        case answer n of
          Inl m \<Rightarrow> ([req], Inl m)
        | Inr r \<Rightarrow> (let (reqs, out) = promote_loop answer link (n + 1) (add_promoted acc r) (drop PROMOTE_CHUNK picks)
            in (req # reqs, out)))"
  by pat_completeness auto

termination
  by (relation "measure (\<lambda>(_, _, _, _, picks). length picks)") (simp_all add: PROMOTE_CHUNK_def)

declare promote_loop.simps [simp del]

definition promote_text :: "promoted \<Rightarrow> string" where
  "promote_text r =
     ''Added '' @ show_int (pm_created r) @ '' event'' @ (if pm_created r \<noteq> 1 then ''s'' else []) @ '' to the timeline.''
     @ (if pm_linked r \<noteq> 0 then '' '' @ show_int (pm_linked r) @ '' linked to registered entities by host.'' else [])
     @ (if pm_already r \<noteq> [] then '' '' @ show_nat (length (pm_already r)) @ '' already on the timeline (skipped).'' else [])
     @ (if pm_untimed r \<noteq> [] then '' '' @ show_nat (length (pm_untimed r)) @ '' without a timestamp skipped.'' else [])"

text \<open>The guard of \<open>onPromote\<close>, its state while it waits, and what it leaves: \<open>picks\<close> are those of the click, \<open>p\<close> is the
  page when the last answer is there.\<close>

definition may_promote :: "bool \<Rightarrow> import_page \<Rightarrow> bool" where
  "may_promote ro p \<longleftrightarrow> selectedPromotable p \<noteq> [] \<and> \<not> ip_promoting p \<and> \<not> ro \<and> truthy (jget (ip_result p) ''import_id'')"

definition promote_started :: "import_page \<Rightarrow> import_page" where
  "promote_started p = p\<lparr>ip_promoting := True, ip_promoteMsg := None\<rparr>"

definition no_promoted :: promoted where
  "no_promoted = \<lparr>pm_created = 0, pm_linked = 0, pm_untimed = [], pm_already = []\<rparr>"

definition promote_requests :: "(nat \<Rightarrow> string + promoted) \<Rightarrow> import_page \<Rightarrow> jsval list \<times> (string + promoted)" where
  "promote_requests answer p = promote_loop answer (ip_linkEntities p) 0 no_promoted (selectedPromotable p)"

definition promote_ended :: "jsval list \<Rightarrow> string + promoted \<Rightarrow> import_page \<Rightarrow> import_page" where
  "promote_ended picks out p =
     (case out of
        Inl m \<Rightarrow> p\<lparr>ip_promoteMsg := Some (''err'', if m = [] then ''Promote failed.'' else m), ip_promoting := False\<rparr>
      | Inr r \<Rightarrow> p\<lparr>ip_promoteMsg := Some (''ok'', promote_text r),
          ip_selected := foldl (\<lambda>s e. set_delete s (idx e)) (ip_selected p) picks, ip_promoting := False\<rparr>)"

end
