(* ===== verification/Log_Laws.thy ===== *)
theory Log_Laws
  imports Log_Import
begin

text \<open>
  What the import page promises when events go to the timeline, and what becomes of a selection made while another
  import is on its way.
\<close>

subsection \<open>The requests of a promotion\<close>

definition indices_of :: "jsval \<Rightarrow> jsval list" where
  "indices_of req = list_field req ''indices''"

lemma indices_of_body [simp]: "indices_of (promote_body link es) = map idx es"
  by (simp add: indices_of_def promote_body_def list_field_def)

definition chunk_sized :: "jsval \<Rightarrow> bool" where
  "chunk_sized req \<longleftrightarrow> 0 < length (indices_of req) \<and> length (indices_of req) \<le> PROMOTE_CHUNK"

lemma chunk_sized_take: "picks \<noteq> [] \<Longrightarrow> chunk_sized (promote_body link (take PROMOTE_CHUNK picks))"
  by (simp add: chunk_sized_def PROMOTE_CHUNK_def)

lemma promote_loop_sends:
  "promote_loop answer link n acc picks = (reqs, out) \<Longrightarrow>
    (\<exists>rest. concat (map indices_of reqs) @ map idx rest = map idx picks \<and> (isl out \<or> rest = [])) \<and> list_all chunk_sized reqs"
proof (induction answer link n acc picks arbitrary: reqs out rule: promote_loop.induct)
  case (1 answer link n acc picks)
  show ?case
  proof (cases "picks = []")
    case True
    then show ?thesis using 1(2) by (simp add: promote_loop.simps)
  next
    case False
    let ?req = "promote_body link (take PROMOTE_CHUNK picks)"
    have parts: "map idx picks = map idx (take PROMOTE_CHUNK picks) @ map idx (drop PROMOTE_CHUNK picks)"
      by (metis append_take_drop_id map_append)
    show ?thesis
    proof (cases "answer n")
      case (Inl m)
      then have "reqs = [?req]" "out = Inl m" using 1(2) False by (simp_all add: promote_loop.simps)
      then show ?thesis using parts chunk_sized_take [OF False] by auto
    next
      case (Inr r)
      obtain reqs' where loop: "promote_loop answer link (n + 1) (add_promoted acc r) (drop PROMOTE_CHUNK picks) = (reqs', out)"
        and reqs: "reqs = ?req # reqs'"
        using 1(2) False Inr by (auto simp: promote_loop.simps [of _ _ n] split: prod.splits)
      have "(\<exists>rest. concat (map indices_of reqs') @ map idx rest = map idx (drop PROMOTE_CHUNK picks) \<and> (isl out \<or> rest = []))
          \<and> list_all chunk_sized reqs'"
        using 1(1) [OF False refl Inr loop] .
      then show ?thesis unfolding parts using chunk_sized_take [OF False] by (auto simp: reqs)
    qed
  qed
qed

lemma set_delete_all: "set (foldl (\<lambda>s e. set_delete s (f e)) s es) = set s - f ` set es"
  by (induction es arbitrary: s) (auto simp: set_delete_def)


definition demo_event :: "int \<Rightarrow> jsval" where
  "demo_event i = JObj [(''idx'', JNum i), (''event_time'', JStr ''2025-01-01T00:00:00Z'')]"

definition demo_detail :: jsval where
  "demo_detail = JObj [(''id'', JStr ''imp''), (''events'', JArr [demo_event 0, demo_event 1])]"

definition demo_page :: import_page where
  "demo_page = toggleRow (JNum 1) (imported demo_detail init_page)"

lemma demo_selected: "selectedPromotable demo_page = [demo_event 1]"
  by (simp add: demo_page_def selectedPromotable_def selectedVisible_def visible_def events_def imported_def applyResult_def
      import_result_def demo_detail_def list_field_def toggleRow_def init_page_def set_add_def event_shown_def demo_event_def
      idx_def isPromotable_def)


subsection \<open>A selection made while an import loads\<close>

text \<open>C21: The page shows the old events while another import is on its way, and a row chosen then stays chosen: its number
  selects an event of the new import, which goes to the timeline with the next promotion though nobody chose it.\<close>

theorem selection_moves_to_other_import:
  assumes "e \<in> set (list_field d ''events'')" "idx e = JNum i" "isPromotable e"
    and "event_shown (imported d (toggleRow (JNum i) (start_load p))) e"
  shows "events (toggleRow (JNum i) (start_load p)) = events p
    \<and> e \<in> set (selectedPromotable (imported d (toggleRow (JNum i) (start_load p))))"
proof -
  have "events (imported d (toggleRow (JNum i) (start_load p))) = list_field d ''events''"
    by (simp add: events_def imported_def applyResult_def import_result_def list_field_def)
  moreover have "JNum i \<in> set (ip_selected (imported d (toggleRow (JNum i) (start_load p))))"
    by (simp add: imported_def applyResult_def toggleRow_def set_add_def start_load_def)
  moreover have "events (toggleRow (JNum i) (start_load p)) = events p"
    by (simp add: events_def toggleRow_def start_load_def)
  ultimately show ?thesis
    using assms by (simp add: selectedPromotable_def selectedVisible_def visible_def)
qed

definition other_detail :: jsval where
  "other_detail = JObj [(''id'', JStr ''other''), (''events'', JArr [demo_event 0])]"

lemma selection_moves_to_other_import_witness:
  "demo_event 0 \<in> set (selectedPromotable (imported other_detail (toggleRow (JNum 0) (start_load demo_page))))"
proof -
  have "event_shown (imported other_detail (toggleRow (JNum 0) (start_load demo_page))) (demo_event 0)"
    by (simp add: event_shown_def imported_def applyResult_def toggleRow_def start_load_def demo_page_def init_page_def
        other_detail_def list_field_def)
  moreover have "demo_event 0 \<in> set (list_field other_detail ''events'')" "idx (demo_event 0) = JNum 0" "isPromotable (demo_event 0)"
    by (simp_all add: other_detail_def list_field_def demo_event_def idx_def isPromotable_def)
  ultimately show ?thesis using selection_moves_to_other_import by blast
qed

end
