(* ===== verification/Tag_Input.thy ===== *)
theory Tag_Input
  imports Js_Base
begin

text \<open>
  \<^verbatim>\<open>frontend/src/components/TagInput.jsx\<close> with \<^verbatim>\<open>TagChip.jsx\<close>: the canonical form of a tag, the list of tags of a
  row and the field that edits it; and the server's form of the same rule, \<^verbatim>\<open>backend/core/tags.py\<close>.
\<close>

subsection \<open>The canonical form\<close>

definition MAX_TAG_LENGTH :: nat where "MAX_TAG_LENGTH = 64"
definition MAX_TAGS_PER_ROW :: nat where "MAX_TAGS_PER_ROW = 20"

text \<open>\<open>[\s_-]\<close>, \<open>[a-z0-9\-./:]\<close>, \<open>[-./:]\<close>.\<close>

definition dash_like :: "char \<Rightarrow> bool" where
  "dash_like c \<longleftrightarrow> is_space c \<or> c = CHR ''_'' \<or> c = CHR ''-''"

definition tag_sep :: "char \<Rightarrow> bool" where
  "tag_sep c \<longleftrightarrow> c = CHR ''-'' \<or> c = CHR ''.'' \<or> c = CHR ''/'' \<or> c = CHR '':''"

definition tag_char :: "char \<Rightarrow> bool" where
  "tag_char c \<longleftrightarrow> (97 \<le> code_of c \<and> code_of c \<le> 122) \<or> is_digit c \<or> tag_sep c"

text \<open>\<open>s.replace(/[\s_-]+/g, '-')\<close>; the flag says that the character before belongs to the run.\<close>

fun dash_runs :: "bool \<Rightarrow> string \<Rightarrow> string" where
  "dash_runs run [] = []"
| "dash_runs run (c # s) =
     (if dash_like c then (if run then dash_runs True s else CHR ''-'' # dash_runs True s) else c # dash_runs False s)"

text \<open>\<open>s.replace(/^[-./:]+|[-./:]+$/g, '')\<close>.\<close>

definition strip_seps :: "string \<Rightarrow> string" where
  "strip_seps s = rev (dropWhile tag_sep (rev (dropWhile tag_sep s)))"

definition normalizeTag :: "string option \<Rightarrow> string option" where
  "normalizeTag raw = (case raw of None \<Rightarrow> None | Some t \<Rightarrow>
     (let s = to_lower (trim t); s = filter tag_char (dash_runs False s); s = strip_seps s in
      if s = [] then None else Some (slice0 MAX_TAG_LENGTH s)))"

fun normalize_loop :: "string list \<Rightarrow> string list \<Rightarrow> string option list \<Rightarrow> string list" where
  "normalize_loop seen out [] = out"
| "normalize_loop seen out (t # ts) =
     (case normalizeTag t of None \<Rightarrow> normalize_loop seen out ts
      | Some n \<Rightarrow> if n \<in> set seen then normalize_loop seen out ts
          else let out = out @ [n] in
            if length out \<ge> MAX_TAGS_PER_ROW then out else normalize_loop (n # seen) out ts)"

definition normalizeTags :: "string option list \<Rightarrow> string list" where
  "normalizeTags arr = normalize_loop [] [] arr"

text \<open>The server's \<open>normalize_tag\<close>.\<close>

definition normalize_tag :: "string option \<Rightarrow> string option" where
  "normalize_tag raw =
     (case raw of None \<Rightarrow> None | Some t \<Rightarrow>
        if t = [] then None
        else let s = strip_seps (filter tag_char (dash_runs False (to_lower (trim t)))) in
          if s = [] then None else Some (slice0 MAX_TAG_LENGTH s))"

subsection \<open>The chip\<close>

definition hueFromTag :: "string \<Rightarrow> nat" where
  "hueFromTag s = foldl (\<lambda>h c. (h * 31 + code_of c) mod 65536) 0 s mod 360"

subsection \<open>The field\<close>

text \<open>The field is controlled: \<open>onChange\<close> hands the new list to the row, which shows it again.\<close>

record tag_field =
  tf_tags :: "string list"
  tf_text :: string
  tf_suggestions :: "string list"
  tf_open :: bool
  tf_focus :: int

definition init_field :: "string list \<Rightarrow> tag_field" where
  "init_field tags = \<lparr>tf_tags = tags, tf_text = [], tf_suggestions = [], tf_open = False, tf_focus = -1\<rparr>"

definition addTag :: "string \<Rightarrow> tag_field \<Rightarrow> tag_field" where
  "addTag raw f =
     (case normalizeTag (Some raw) of None \<Rightarrow> f
      | Some n \<Rightarrow>
          if n \<in> set (tf_tags f) then f
          else if length (tf_tags f) \<ge> MAX_TAGS_PER_ROW then f
          else f\<lparr>tf_tags := tf_tags f @ [n], tf_text := [], tf_focus := -1\<rparr>)"

definition removeTag :: "string \<Rightarrow> tag_field \<Rightarrow> tag_field" where
  "removeTag t f = f\<lparr>tf_tags := filter (\<lambda>x. x \<noteq> t) (tf_tags f)\<rparr>"

datatype tag_key = Enter | Comma | Backspace | ArrowDown | ArrowUp | Escape | OtherKey

definition onKeyDown :: "tag_key \<Rightarrow> tag_field \<Rightarrow> tag_field" where
  "onKeyDown k f =
     (if k = Enter \<or> k = Comma
      then if tf_focus f \<ge> 0 \<and> nat (tf_focus f) < length (tf_suggestions f)
           then addTag (tf_suggestions f ! nat (tf_focus f)) f else addTag (tf_text f) f
      else if k = Backspace \<and> tf_text f = [] \<and> length (tf_tags f) > 0 then removeTag (last (tf_tags f)) f
      else if k = ArrowDown then f\<lparr>tf_focus := min (int (length (tf_suggestions f)) - 1) (tf_focus f + 1)\<rparr>
      else if k = ArrowUp then f\<lparr>tf_focus := max (- 1) (tf_focus f - 1)\<rparr>
      else if k = Escape then f\<lparr>tf_open := False, tf_focus := -1\<rparr>
      else f)"

text \<open>The answer of \<open>/api/tags\<close>; \<open>None\<close> is a request that failed, an answer that is not OK counts as an empty one.\<close>

definition suggested :: "string list option \<Rightarrow> tag_field \<Rightarrow> tag_field" where
  "suggested items f = (case items of None \<Rightarrow> f\<lparr>tf_suggestions := []\<rparr>
     | Some ts \<Rightarrow> f\<lparr>tf_suggestions := take 8 (filter (\<lambda>t. t \<notin> set (tf_tags f)) ts)\<rparr>)"

datatype tag_event = Typed string | Focused | KeyDown tag_key | Suggested "string list option" | Picked string | Hovered nat
  | Removed string | ClickedOutside

definition tag_step :: "tag_event \<Rightarrow> tag_field \<Rightarrow> tag_field" where
  "tag_step ev f = (case ev of
      Typed s \<Rightarrow> f\<lparr>tf_text := s, tf_open := True, tf_focus := -1\<rparr>
    | Focused \<Rightarrow> f\<lparr>tf_open := True\<rparr>
    | KeyDown k \<Rightarrow> onKeyDown k f
    | Suggested items \<Rightarrow> suggested items f
    | Picked t \<Rightarrow> addTag t f
    | Hovered i \<Rightarrow> f\<lparr>tf_focus := int i\<rparr>
    | Removed t \<Rightarrow> removeTag t f
    | ClickedOutside \<Rightarrow> f\<lparr>tf_open := False\<rparr>)"

subsection \<open>Canonical tags\<close>

definition tag_shaped :: "string \<Rightarrow> bool" where
  "tag_shaped n \<longleftrightarrow> list_all tag_char n \<and> n \<noteq> [] \<and> length n \<le> MAX_TAG_LENGTH \<and> \<not> tag_sep (hd n)"

lemma hd_strip_seps: "strip_seps s \<noteq> [] \<Longrightarrow> \<not> tag_sep (hd (strip_seps s))"
proof -
  let ?u = "dropWhile tag_sep s"
  assume ne: "strip_seps s \<noteq> []"
  obtain p where u: "?u = strip_seps s @ p"
    unfolding strip_seps_def by (metis rev_append rev_rev_ident takeWhile_dropWhile_id)
  then have "hd (strip_seps s) = hd ?u" "?u \<noteq> []" using ne by auto
  then show ?thesis using hd_dropWhile [of tag_sep s] by simp
qed

lemma last_strip_seps: "strip_seps s \<noteq> [] \<Longrightarrow> \<not> tag_sep (last (strip_seps s))"
  unfolding strip_seps_def by (metis hd_dropWhile hd_rev rev_is_Nil_conv rev_rev_ident)

lemma set_strip_seps: "c \<in> set (strip_seps s) \<Longrightarrow> c \<in> set s"
  unfolding strip_seps_def by (auto dest!: set_dropWhileD)

lemma sublist_strip_seps: "sublist (strip_seps s) s"
proof -
  have "suffix (dropWhile tag_sep s) s" by (rule suffix_dropWhile)
  moreover have "prefix (strip_seps s) (dropWhile tag_sep s)"
    unfolding strip_seps_def by (metis rev_rev_ident suffix_dropWhile suffix_to_prefix)
  ultimately show ?thesis by (meson sublist_order.order.trans prefix_imp_sublist suffix_imp_sublist)
qed

lemma dropWhile_none: "s \<noteq> [] \<Longrightarrow> \<not> P (hd s) \<Longrightarrow> dropWhile P s = s"
  by (cases s) auto

lemma strip_seps_id: "s \<noteq> [] \<Longrightarrow> \<not> tag_sep (hd s) \<Longrightarrow> \<not> tag_sep (last s) \<Longrightarrow> strip_seps s = s"
  unfolding strip_seps_def by (simp add: dropWhile_none hd_rev)

lemma tag_char_plain:
  assumes "tag_char c"
  shows "\<not> is_space c" "lower_char c = c" "c \<noteq> CHR ''_''"
  using assms by (auto simp: tag_char_def tag_sep_def is_space_def is_digit_def lower_char_def)

lemma trim_tag: "list_all tag_char s \<Longrightarrow> to_lower (trim s) = s"
proof -
  assume ok: "list_all tag_char s"
  have t: "dropWhile is_space u = u" if "list_all tag_char u" for u
    using that by (cases u) (auto simp: tag_char_plain)
  have "trim s = s" using t [OF ok] t [of "rev s"] ok by (simp add: trim_def trim_left_def)
  moreover have "to_lower s = s"
    unfolding to_lower_def by (rule map_idI) (use ok in \<open>simp add: list_all_iff tag_char_plain\<close>)
  ultimately show ?thesis by simp
qed

abbreviation double_dash :: "string \<Rightarrow> bool" where
  "double_dash s \<equiv> sublist ''--'' s"

lemma dash_runs_single: "\<not> double_dash (dash_runs run s) \<and> (run \<longrightarrow> \<not> prefix ''-'' (dash_runs run s))"
  by (induction run s rule: dash_runs.induct) (auto simp: sublist_Cons_right dash_like_def)

lemma dash_runs_id:
  "list_all tag_char s \<Longrightarrow> \<not> double_dash s \<Longrightarrow> (run \<Longrightarrow> \<not> prefix ''-'' s) \<Longrightarrow> dash_runs run s = s"
  by (induction s arbitrary: run) (auto simp: sublist_Cons_right dash_like_def tag_char_plain)

lemma dash_runs_chars: "list_all tag_char s \<Longrightarrow> list_all tag_char (dash_runs run s)"
  by (induction run s rule: dash_runs.induct) (auto simp: tag_char_def tag_sep_def)

lemma length_dash_runs: "length (dash_runs run s) \<le> length s"
  by (induction run s rule: dash_runs.induct) auto

lemma normalizeTag_shape:
  assumes "normalizeTag raw = Some n"
  shows "tag_shaped n"
proof -
  obtain t where "raw = Some t" using assms by (cases raw) (auto simp: normalizeTag_def)
  then obtain s where n: "n = take 64 (strip_seps (filter tag_char s))" and ne: "strip_seps (filter tag_char s) \<noteq> []"
    using assms by (auto simp: normalizeTag_def Let_def MAX_TAG_LENGTH_def split: if_splits)
  have "hd n = hd (strip_seps (filter tag_char s))" "n \<noteq> []" using n ne by (auto simp: hd_take)
  moreover have "list_all tag_char n"
    unfolding n list_all_iff using set_strip_seps by (fastforce dest: in_set_takeD)
  ultimately show ?thesis using hd_strip_seps [OF ne] by (simp add: tag_shaped_def n MAX_TAG_LENGTH_def)
qed

text \<open>On a canonical tag only two steps still act.\<close>

lemma normalizeTag_shaped:
  assumes "tag_shaped n"
  shows "normalizeTag (Some n) = Some (strip_seps (dash_runs False n))"
proof -
  have ok: "list_all tag_char n" using assms by (simp add: tag_shaped_def)
  obtain c u where n: "n = c # u" and c: "tag_char c" "\<not> tag_sep c"
    using assms by (cases n) (auto simp: tag_shaped_def)
  then have "\<not> dash_like c" by (auto simp: dash_like_def tag_sep_def tag_char_plain)
  then have "dash_runs False n = c # dash_runs False u" by (simp add: n)
  then have ne: "strip_seps (dash_runs False n) \<noteq> []"
    using c by (auto simp: strip_seps_def dropWhile_eq_Nil_conv)
  have "length (strip_seps (dash_runs False n)) \<le> length (dash_runs False n)"
    using sublist_length_le [OF sublist_strip_seps] .
  then have len: "length (strip_seps (dash_runs False n)) \<le> 64"
    using length_dash_runs [of False n] assms by (simp add: tag_shaped_def MAX_TAG_LENGTH_def)
  have "filter tag_char (dash_runs False n) = dash_runs False n"
    using dash_runs_chars [OF ok] by (simp add: list_all_iff filter_id_conv)
  then show ?thesis using ne len by (simp add: normalizeTag_def trim_tag [OF ok] MAX_TAG_LENGTH_def)
qed

lemma server_rule: "normalize_tag raw = normalizeTag raw"
proof (cases raw)
  case (Some t)
  have "normalizeTag (Some []) = None" by (simp add: normalizeTag_def strip_seps_def)
  with Some show ?thesis by (cases "t = []") (simp_all add: normalize_tag_def normalizeTag_def Let_def)
qed (simp add: normalize_tag_def normalizeTag_def)

text \<open>C24: What the server stores. The field shows the canonical form \<open>n\<close> of what was typed; the server canonicalises it again
  and stores \<open>m\<close>, which stays what it is from then on. The two are the same exactly when \<open>n\<close> has no two dashes in a row
  and does not end in a separator: a character taken out between two dashes, or the cut at the length, can leave such a form.\<close>

theorem stored_tag_settles:
  assumes "normalizeTag raw = Some n"
  shows "\<exists>m. normalize_tag (Some n) = Some m \<and> normalizeTag (Some m) = Some m \<and> normalize_tag (Some m) = Some m
    \<and> (m = n \<longleftrightarrow> \<not> str_includes n ''--'' \<and> \<not> tag_sep (last n))"
proof -
  let ?m = "strip_seps (dash_runs False n)"
  have n: "tag_shaped n" using normalizeTag_shape [OF assms] .
  have m: "normalizeTag (Some n) = Some ?m" using normalizeTag_shaped [OF n] .
  have shaped: "tag_shaped ?m" using normalizeTag_shape [OF m] .
  have single: "\<not> double_dash ?m"
    using dash_runs_single [of False n] sublist_strip_seps [of "dash_runs False n"] sublist_order.order.trans by blast
  have end_ok: "\<not> tag_sep (last ?m)" using last_strip_seps [of "dash_runs False n"] shaped by (simp add: tag_shaped_def)
  have fixed: "normalizeTag (Some k) = Some k" if "tag_shaped k" "\<not> double_dash k" "\<not> tag_sep (last k)" for k
    using that normalizeTag_shaped [OF that(1)] by (simp add: tag_shaped_def dash_runs_id strip_seps_id)
  have "?m = n \<longleftrightarrow> \<not> double_dash n \<and> \<not> tag_sep (last n)"
    using single end_ok fixed [OF n] m by auto
  then show ?thesis
    using m fixed [OF shaped single end_ok] by (simp add: server_rule str_includes_iff_sublist)
qed

lemma stored_tag_settles_witness:
  "normalizeTag (Some ''C & C'') = Some ''c--c'' \<and> normalize_tag (Some ''c--c'') = Some ''c-c''"
proof -
  have n: "normalizeTag (Some ''C & C'') = Some ''c--c''" by code_simp
  moreover have "normalize_tag (Some ''c--c'') = Some ''c-c''" by code_simp
  moreover have "\<exists>m. normalize_tag (Some ''c--c'') = Some m \<and> normalizeTag (Some m) = Some m"
    using stored_tag_settles [OF n] by blast
  ultimately show ?thesis by blast
qed

subsection \<open>Lists of tags\<close>

definition tag_row :: "string list \<Rightarrow> bool" where
  "tag_row ts \<longleftrightarrow> distinct ts \<and> length ts \<le> MAX_TAGS_PER_ROW \<and> list_all tag_shaped ts"

lemma normalize_loop_row:
  "tag_row out \<Longrightarrow> length out < MAX_TAGS_PER_ROW \<Longrightarrow> set out = set seen \<Longrightarrow> tag_row (normalize_loop seen out ts)"
proof (induction seen out ts rule: normalize_loop.induct)
  case (1 seen out)
  then show ?case by simp
next
  case (2 seen out t ts)
  show ?case
  proof (cases "normalizeTag t")
    case None
    then show ?thesis using 2 by simp
  next
    case (Some n)
    show ?thesis
    proof (cases "n \<in> set seen")
      case True
      then show ?thesis using 2 Some by simp
    next
      case False
      have row: "tag_row (out @ [n])"
        using 2(4-6) False normalizeTag_shape [OF Some] by (simp add: tag_row_def)
      then show ?thesis using 2(3) [OF Some False refl] 2(4-6) Some False by (simp add: Let_def not_le)
    qed
  qed
qed

theorem normalized_row: "tag_row (normalizeTags ts)"
  unfolding normalizeTags_def by (rule normalize_loop_row) (simp_all add: tag_row_def MAX_TAGS_PER_ROW_def)

lemma addTag_row: "tag_row (tf_tags f) \<Longrightarrow> tag_row (tf_tags (addTag t f))"
  using normalizeTag_shape [of "Some t"] by (auto simp: addTag_def tag_row_def split: option.splits)

lemma removeTag_row: "tag_row (tf_tags f) \<Longrightarrow> tag_row (tf_tags (removeTag t f))"
  unfolding tag_row_def removeTag_def
  by (simp add: list_all_iff) (metis length_filter_le order_trans)

lemma addTag_focus: "- 1 \<le> tf_focus f \<Longrightarrow> - 1 \<le> tf_focus (addTag t f)"
  by (simp add: addTag_def split: option.splits)

lemma removeTag_focus [simp]: "tf_focus (removeTag t f) = tf_focus f"
  by (simp add: removeTag_def)

lemma tag_step_keeps:
  assumes "tag_row (tf_tags f)" "- 1 \<le> tf_focus f"
  shows "tag_row (tf_tags (tag_step ev f)) \<and> - 1 \<le> tf_focus (tag_step ev f)"
proof -
  have "tag_row (tf_tags (onKeyDown k f)) \<and> - 1 \<le> tf_focus (onKeyDown k f)" for k
    using assms by (auto simp: onKeyDown_def addTag_row removeTag_row addTag_focus)
  then show ?thesis
    using assms by (cases ev) (auto simp: tag_step_def addTag_row removeTag_row addTag_focus suggested_def split: option.splits)
qed

text \<open>Whatever is typed, picked, hovered, removed or suggested, the row keeps at most twenty tags, each canonical and none
  twice, and the marked suggestion is never before the first.\<close>

theorem tag_field_invariant:
  assumes "tag_row tags"
  shows "tag_row (tf_tags (foldl (\<lambda>f ev. tag_step ev f) (init_field tags) evs))
    \<and> - 1 \<le> tf_focus (foldl (\<lambda>f ev. tag_step ev f) (init_field tags) evs)"
  by (induction evs rule: rev_induct) (use assms in \<open>simp_all add: tag_step_keeps init_field_def\<close>)

lemma tag_field_invariant_witness:
  "tag_row (tf_tags (foldl (\<lambda>f ev. tag_step ev f) (init_field [''apt-28'']) [Typed ''APT 28'', KeyDown Enter]))"
proof -
  have "tag_row [''apt-28'']" by code_simp
  then show ?thesis using tag_field_invariant by blast
qed

lemma hue_in_range: "hueFromTag s < 360"
  by (simp add: hueFromTag_def)

end
