(* ===== verification/Clock_Offset.thy ===== *)
theory Clock_Offset
  imports Js_Base
begin

text \<open>
  \<^verbatim>\<open>frontend/src/components/ClockOffset.jsx\<close>: an exhibit's device clock offset, shown and read from its field, the mark
  on an event and the notice of an import; and \<^verbatim>\<open>StrengthMeter.jsx\<close>, the score of a password.
\<close>

subsection \<open>Showing and reading an offset\<close>

definition OFFSET_MAX_SECONDS :: int where "OFFSET_MAX_SECONDS = 3155760000"

definition fmtOffset :: "int option \<Rightarrow> string" where
  "fmtOffset seconds = (case seconds of None \<Rightarrow> []
     | Some s \<Rightarrow> if s = 0 then ''0 s'' else (if s > 0 then ''+'' else minus_sign) @ show_int \<bar>s\<bar> @ '' s'')"

text \<open>\<open>t.replace('\<^verbatim>\<open>U+2212\<close>', '-')\<close>: the first one only.\<close>

fun first_minus :: "string \<Rightarrow> string" where
  "first_minus [] = []"
| "first_minus (c # s) = (if prefix minus_sign (c # s) then CHR ''-'' # drop 2 s else c # first_minus s)"

text \<open>The field's value: nothing entered, not a number of seconds, or a number.\<close>

datatype offset_entry = NoOffset | BadOffset | Offset int

definition unsigned :: "string \<Rightarrow> string" where
  "unsigned t = (if t \<noteq> [] \<and> (hd t = CHR ''+'' \<or> hd t = CHR ''-'') then tl t else t)"

definition parseOffsetSeconds :: "string option \<Rightarrow> offset_entry" where
  "parseOffsetSeconds text =
     (let t = first_minus (trim (case text of None \<Rightarrow> [] | Some s \<Rightarrow> s)); d = unsigned t in
      if t = [] then NoOffset
      else if \<not> (1 \<le> length d \<and> length d \<le> 10 \<and> list_all is_digit d) then BadOffset
      else let n = (if hd t = CHR ''-'' then - int (val_digits d) else int (val_digits d)) in
        if \<bar>n\<bar> \<le> OFFSET_MAX_SECONDS then Offset n else BadOffset)"

text \<open>Whether \<open>OffsetMark\<close> draws, and which of its four texts \<open>ClockOffsetNotice\<close> shows.\<close>

definition offset_marked :: "int option \<Rightarrow> string option \<Rightarrow> bool" where
  "offset_marked seconds recorded \<longleftrightarrow> seconds \<noteq> None \<and> str_truthy recorded"

datatype offset_notice = NotApplicable | Applied string | Changed string string | OnlyText "string option"

definition or_none_text :: "int option \<Rightarrow> string" where
  "or_none_text s = (if s = None then ''none'' else fmtOffset s)"

definition ClockOffsetNotice :: "string option \<Rightarrow> int option \<Rightarrow> int option \<Rightarrow> string option \<Rightarrow> offset_notice option" where
  "ClockOffsetNotice status applied now recorded =
     (if \<not> str_truthy status \<or> status = Some ''none'' then None
      else if status = Some ''not_applicable'' then Some NotApplicable
      else if status = Some ''applied'' then Some (Applied (fmtOffset applied))
      else if status = Some ''changed'' then Some (Changed (or_none_text applied) (or_none_text now))
      else Some (OnlyText (if str_truthy recorded then recorded else None)))"

subsection \<open>Password strength\<close>

definition char_classes :: "string \<Rightarrow> nat" where
  "char_classes pw =
     of_bool (list_ex (\<lambda>c. 97 \<le> code_of c \<and> code_of c \<le> 122) pw) + of_bool (list_ex (\<lambda>c. 65 \<le> code_of c \<and> code_of c \<le> 90) pw)
     + of_bool (list_ex is_digit pw) + of_bool (list_ex (\<lambda>c. \<not> is_alpha c \<and> \<not> is_digit c) pw)"

definition score :: "string \<Rightarrow> nat" where
  "score pw = (if pw = [] then 0
     else min 4 (of_bool (length pw \<ge> 12) + of_bool (length pw \<ge> 16) + of_bool (char_classes pw \<ge> 3)
       + of_bool (char_classes pw = 4 \<and> length pw \<ge> 14)))"

definition STRENGTH_LABEL :: "string list" where
  "STRENGTH_LABEL = ['''', ''Weak'', ''Fair'', ''Strong'', ''Excellent'']"

lemma score_has_label: "score pw < length STRENGTH_LABEL"
  by (simp add: score_def STRENGTH_LABEL_def)

text \<open>The score and the length test of the server: \<open>Strong\<close> and above are never given to a password the server refuses.\<close>

lemma strong_is_long_enough: "3 \<le> score pw \<Longrightarrow> 12 \<le> length pw"
  by (auto simp: score_def of_bool_def split: if_splits)

subsection \<open>Reading back what is shown\<close>

lemma first_minus_ascii: "CHR 0xE2 \<notin> set s \<Longrightarrow> first_minus s = s"
  by (induction s) (auto simp: minus_sign_def)

lemma trim_no_space: "\<forall>c \<in> set s. \<not> is_space c \<Longrightarrow> trim s = s"
proof -
  assume s: "\<forall>c \<in> set s. \<not> is_space c"
  have t: "dropWhile is_space u = u" if "set u = set s" for u
    using that s by (cases u) auto
  show ?thesis by (simp add: trim_def trim_left_def t)
qed

lemma digits_plain:
  assumes "\<forall>c \<in> set s. is_digit c"
  shows "CHR 0xE2 \<notin> set s" "trim s = s" "unsigned s = s" "list_all is_digit s"
proof -
  show "CHR 0xE2 \<notin> set s" using assms by (auto simp: is_digit_def)
  show "trim s = s" using assms by (intro trim_no_space) (auto simp: is_digit_def is_space_def)
  show "unsigned s = s" using assms by (cases s) (auto simp: unsigned_def is_digit_def)
  show "list_all is_digit s" using assms by (simp add: list_all_iff)
qed

lemma val_digits_bound: "list_all is_digit s \<Longrightarrow> val_digits s < 10 ^ length s"
  by (induction s rule: rev_induct) (auto simp: val_digits_snoc is_digit_def val_digits_def)

lemma show_nat_length: "n < 10 ^ k \<Longrightarrow> 0 < k \<Longrightarrow> length (show_nat n) \<le> k"
proof (induction k arbitrary: n)
  case (Suc k)
  show ?case
  proof (cases "n < 10")
    case True
    then show ?thesis by (simp add: show_nat.simps)
  next
    case False
    then have "0 < k" using Suc.prems by (cases k) auto
    moreover have "n div 10 < 10 ^ k" using Suc.prems(1) by (simp add: less_mult_imp_div_less mult.commute)
    ultimately have "length (show_nat (n div 10)) \<le> k" using Suc.IH by blast
    then show ?thesis using False by (subst show_nat.simps) simp
  qed
qed simp

lemma signed_digits_parse:
  assumes "\<forall>c \<in> set d. is_digit c" "d \<noteq> []" "length d \<le> 10"
  shows "parseOffsetSeconds (Some d) = (if int (val_digits d) \<le> OFFSET_MAX_SECONDS then Offset (int (val_digits d)) else BadOffset)"
    and "parseOffsetSeconds (Some (CHR ''+'' # d)) = (if int (val_digits d) \<le> OFFSET_MAX_SECONDS then Offset (int (val_digits d)) else BadOffset)"
    and "parseOffsetSeconds (Some (CHR ''-'' # d)) = (if int (val_digits d) \<le> OFFSET_MAX_SECONDS then Offset (- int (val_digits d)) else BadOffset)"
proof -
  have sp: "trim (c # d) = c # d" if "\<not> is_space c" for c
    using that assms(1) by (intro trim_no_space) (auto simp: is_digit_def is_space_def)
  have s1: "1 \<le> length d" using assms(2) by (cases d) auto
  have h: "hd d \<noteq> CHR ''-''" using assms by (cases d) (auto simp: is_digit_def)
  note d = digits_plain [OF assms(1)] first_minus_ascii [OF digits_plain(1) [OF assms(1)]]
  show "parseOffsetSeconds (Some d) = (if int (val_digits d) \<le> OFFSET_MAX_SECONDS then Offset (int (val_digits d)) else BadOffset)"
    using h s1 assms(2,3) by (simp add: parseOffsetSeconds_def d Let_def)
  show "parseOffsetSeconds (Some (CHR ''+'' # d)) = (if int (val_digits d) \<le> OFFSET_MAX_SECONDS then Offset (int (val_digits d)) else BadOffset)"
    "parseOffsetSeconds (Some (CHR ''-'' # d)) = (if int (val_digits d) \<le> OFFSET_MAX_SECONDS then Offset (- int (val_digits d)) else BadOffset)"
    using s1 assms(2,3) by (simp_all add: parseOffsetSeconds_def d sp Let_def unsigned_def minus_sign_def is_space_def)
qed

text \<open>A recorded offset fills the field with its digits and reads back as itself exactly when it is within the bound; outside it
  the field is invalid, never another number.\<close>

theorem recorded_offset_reads_back:
  "parseOffsetSeconds (Some (show_int n)) = (if \<bar>n\<bar> \<le> OFFSET_MAX_SECONDS then Offset n else BadOffset)"
proof (cases "length (show_nat (nat \<bar>n\<bar>)) \<le> 10")
  case True
  then show ?thesis
    using signed_digits_parse [OF show_nat_digits _ True] by (cases "n < 0") (auto simp: show_int_def)
next
  case False
  let ?d = "show_nat (nat \<bar>n\<bar>)"
  have "\<not> nat \<bar>n\<bar> < 10 ^ 10" using show_nat_length [of "nat \<bar>n\<bar>" 10] False by auto
  then have big: "\<not> \<bar>n\<bar> \<le> OFFSET_MAX_SECONDS" by (simp add: OFFSET_MAX_SECONDS_def)
  have dig: "\<forall>c \<in> set ?d. is_digit c" by (rule show_nat_digits)
  have sp: "trim (CHR ''-'' # ?d) = CHR ''-'' # ?d"
    using dig by (intro trim_no_space) (auto simp: is_digit_def is_space_def)
  have t: "first_minus (trim (show_int n)) = show_int n"
    using digits_plain(1,2) [OF dig] first_minus_ascii [of "show_int n"] sp by (auto simp: show_int_def)
  have u: "unsigned (show_int n) = ?d" using digits_plain(3) [OF dig] by (auto simp: show_int_def unsigned_def)
  have "show_int n \<noteq> []" by (simp add: show_int_def)
  then show ?thesis using False big by (simp add: parseOffsetSeconds_def t u Let_def)
qed

end
