(* ===== verification/Acquisition_Wizard.thy ===== *)
theory Acquisition_Wizard
  imports Provenance Clock_Offset
begin

text \<open>
  \<^verbatim>\<open>frontend/src/pages/incident/evidence/AcquisitionWizard.jsx\<close> and \<^verbatim>\<open>SourceFields.jsx\<close>: the wizard that records
  and seals an exhibit. Its text fields are a map from the field's name, its steps a list that depends on the kind
  and the device types; \<open>commit\<close> is the state while the requests run, what they carry, and the state after
  them. The answers of the server are arguments.
\<close>

subsection \<open>The source record\<close>

datatype src_key = Make | Model | Serial | PhysicalLocation | SourceSystem | SourcePath | SourcePathStyle | UnknownReason

record source_state =
  ss_text :: "src_key \<Rightarrow> string"
  ss_details :: jsval

definition text_of :: "jsval \<Rightarrow> string" where
  "text_of v = (case v of JStr s \<Rightarrow> s | _ \<Rightarrow> [])"

definition obj_or_empty :: "jsval \<Rightarrow> jsval" where
  "obj_or_empty v = (if truthy v then v else JObj [])"

definition src_name :: "src_key \<Rightarrow> string" where
  "src_name k = (case k of Make \<Rightarrow> ''make'' | Model \<Rightarrow> ''model'' | Serial \<Rightarrow> ''serial'' | PhysicalLocation \<Rightarrow> ''physical_location''
     | SourceSystem \<Rightarrow> ''source_system'' | SourcePath \<Rightarrow> ''source_path'' | SourcePathStyle \<Rightarrow> ''source_path_style''
     | UnknownReason \<Rightarrow> ''source_unknown_reason'')"

definition sourceStateFrom :: "jsval \<Rightarrow> source_state" where
  "sourceStateFrom ex = \<lparr>ss_text = (\<lambda>k. text_of (jget ex (src_name k))), ss_details = obj_or_empty (jget ex ''source_details'')\<rparr>"

text \<open>\<open>prune\<close>: \<open>None\<close> is \<open>undefined\<close>.\<close>

fun prune :: "jsval \<Rightarrow> jsval option" and prune_fields :: "(string \<times> jsval) list \<Rightarrow> (string \<times> jsval) list" where
  "prune JUndef = None"
| "prune JNull = None"
| "prune (JStr s) = (if s = [] then None else Some (JStr s))"
| "prune (JObj kvs) = (let out = prune_fields kvs in if out = [] then None else Some (JObj out))"
| "prune (JBool b) = Some (JBool b)"
| "prune (JNum n) = Some (JNum n)"
| "prune (JArr xs) = Some (JArr xs)"
| "prune_fields [] = []"
| "prune_fields ((k, v) # kvs) = (case prune v of None \<Rightarrow> prune_fields kvs | Some p \<Rightarrow> (k, p) # prune_fields kvs)"

fun setIn :: "jsval \<Rightarrow> string list \<Rightarrow> jsval \<Rightarrow> jsval" where
  "setIn obj [] v = obj"
| "setIn obj (k # rest) v =
     JObj (obj_set (case obj of JObj kvs \<Rightarrow> kvs | _ \<Rightarrow> []) k (if rest = [] then v else setIn (jget obj k) rest v))"

text \<open>\<open>s || null\<close>, \<open>s.trim() || null\<close>.\<close>

definition or_null_text :: "string \<Rightarrow> jsval" where
  "or_null_text s = (if s = [] then JNull else JStr s)"

definition trim_or_null :: "string \<Rightarrow> jsval" where
  "trim_or_null s = or_null_text (trim s)"

definition sourcePayload :: "source_state \<Rightarrow> string \<Rightarrow> (string \<times> jsval) list" where
  "sourcePayload s kind =
     (let t = ss_text s;
          ids = [(''make'', trim_or_null (t Make)), (''model'', trim_or_null (t Model)), (''serial'', trim_or_null (t Serial)),
                 (''source_system'', or_null_text (t SourceSystem))];
          details = JObj (obj_set (case ss_details s of JObj kvs \<Rightarrow> kvs | _ \<Rightarrow> []) ''v'' JUndef)
      in if kind = ''physical_item'' then ids
         else ids @ [(''source_path'', or_null_text (t SourcePath)),
           (''source_path_style'', if t SourcePath \<noteq> [] then or_null_text (t SourcePathStyle) else JNull),
           (''source_unknown_reason'', or_null_text (t UnknownReason)),
           (''source_details'', case prune details of None \<Rightarrow> JNull | Some d \<Rightarrow> d)])"

subsection \<open>The wizard's state\<close>

datatype wfield = Kind | Name | Identifier | Tlp | Description | EntityId | CollectedLocation | CollectedAsRole
  | LawfulBasis | LawfulBasisNote | PhotoCaption | PhotoTakenAt | SystemState | LiveJustification | HandlingMode | DecisionNote
  | WriteBlockerUsed | WriteBlockerSerial | NetworkIsolated | AcqTool | AcqToolVersion | AcqToolSha256 | AcqParams
  | HashSource | HashTarget | TargetHashScope | AcquiredAt | AcquisitionScope | LogicalRationale | ContainerFormat
  | SystemTimeOffset | TimeOffsetSeconds | ScreenState | ChangesMade | ToolValidated | ToolValidationRef
  | ToolValidationDate | WitnessUserId | WitnessName

datatype wstep = SType | SIdentify | SDecide | SBranch | SAcquire | SWitness | SConfirm

datatype seal_result = Sealed jsval | Unsealed jsval string

record held_upload =
  hu_file :: jsval       \<comment> \<open>the file whose bytes the server holds\<close>
  hu_shown :: jsval      \<comment> \<open>the file named to the user\<close>

record wizard =
  w_existing :: "jsval option"
  w_text :: "wfield \<Rightarrow> string"
  w_src :: source_state
  w_types :: "string list"
  w_factors :: "(string \<times> jsval) list"
  w_details :: "(string \<times> jsval) list"
  w_tools :: "jsval list"
  w_file :: "jsval option"
  w_step :: wstep
  w_busy :: bool
  w_held :: "held_upload option"
  w_error :: "string option"
  w_seal :: "seal_result option"

definition completing :: "wizard \<Rightarrow> bool" where
  "completing w \<longleftrightarrow> w_existing w \<noteq> None"

definition ex_of :: "jsval option \<Rightarrow> jsval" where
  "ex_of e = (case e of None \<Rightarrow> JObj [] | Some x \<Rightarrow> x)"

definition tri :: "jsval \<Rightarrow> string" where
  "tri v = (if v = JBool True then ''true'' else if v = JBool False then ''false'' else [])"

definition items_of :: "jsval \<Rightarrow> jsval list" where
  "items_of v = (case v of JArr xs \<Rightarrow> xs | _ \<Rightarrow> [])"

definition fields_of :: "jsval \<Rightarrow> (string \<times> jsval) list" where
  "fields_of v = (case v of JObj kvs \<Rightarrow> kvs | _ \<Rightarrow> [])"

definition text_or :: "jsval \<Rightarrow> string \<Rightarrow> string" where
  "text_or v d = (if text_of v = [] then d else text_of v)"

definition init_text :: "jsval \<Rightarrow> wfield \<Rightarrow> string" where
  "init_text ex f = (case f of
      Kind \<Rightarrow> text_or (jget ex ''kind'') ''digital_file'' | Name \<Rightarrow> text_of (jget ex ''name'')
    | Identifier \<Rightarrow> text_of (jget ex ''identifier'') | Tlp \<Rightarrow> text_or (jget ex ''tlp'') ''amber''
    | Description \<Rightarrow> text_of (jget ex ''description'') | EntityId \<Rightarrow> text_of (jget ex ''entity_id'')
    | CollectedLocation \<Rightarrow> text_of (jget ex ''collected_location'') | CollectedAsRole \<Rightarrow> text_of (jget ex ''collected_as_role'')
    | LawfulBasis \<Rightarrow> text_of (jget ex ''lawful_basis'') | LawfulBasisNote \<Rightarrow> text_of (jget ex ''lawful_basis_note'')
    | PhotoCaption \<Rightarrow> [] | PhotoTakenAt \<Rightarrow> [] | SystemState \<Rightarrow> text_of (jget ex ''system_state'')
    | LiveJustification \<Rightarrow> text_of (jget ex ''live_justification'') | HandlingMode \<Rightarrow> text_or (jget ex ''handling_mode'') ''acquire''
    | DecisionNote \<Rightarrow> text_of (jget (obj_or_empty (jget ex ''decision_factors'')) ''note'')
    | WriteBlockerUsed \<Rightarrow> tri (jget ex ''write_blocker_used'') | WriteBlockerSerial \<Rightarrow> text_of (jget ex ''write_blocker_serial'')
    | NetworkIsolated \<Rightarrow> tri (jget ex ''network_isolated'') | AcqTool \<Rightarrow> text_of (jget ex ''acquisition_tool'')
    | AcqToolVersion \<Rightarrow> text_of (jget ex ''acquisition_tool_version'') | AcqToolSha256 \<Rightarrow> text_of (jget ex ''acquisition_tool_sha256'')
    | AcqParams \<Rightarrow> text_of (jget ex ''acquisition_params'') | HashSource \<Rightarrow> text_of (jget ex ''acquisition_hash_source'')
    | HashTarget \<Rightarrow> text_of (jget ex ''acquisition_hash_target'')
    | TargetHashScope \<Rightarrow> (if jget ex ''upload_hash_check'' = JStr ''container_media'' then ''container_media'' else ''uploaded_file'')
    | AcquiredAt \<Rightarrow> text_of (jget ex ''acquired_at'') | AcquisitionScope \<Rightarrow> text_of (jget ex ''acquisition_scope'')
    | LogicalRationale \<Rightarrow> text_of (jget ex ''logical_acquisition_rationale'') | ContainerFormat \<Rightarrow> text_of (jget ex ''container_format'')
    | SystemTimeOffset \<Rightarrow> text_of (jget ex ''system_time_offset'')
    | TimeOffsetSeconds \<Rightarrow> (case jget ex ''system_time_offset_seconds'' of JNum n \<Rightarrow> show_int n | _ \<Rightarrow> [])
    | ScreenState \<Rightarrow> text_of (jget ex ''screen_state'') | ChangesMade \<Rightarrow> text_of (jget ex ''changes_made'')
    | ToolValidated \<Rightarrow> tri (jget ex ''acquisition_tool_validated'')
    | ToolValidationRef \<Rightarrow> text_of (jget ex ''acquisition_tool_validation_ref'')
    | ToolValidationDate \<Rightarrow> text_of (jget ex ''acquisition_tool_validation_date'')
    | WitnessUserId \<Rightarrow> text_of (jget ex ''witness_user_id'') | WitnessName \<Rightarrow> text_of (jget ex ''witness_name''))"

definition init_wizard :: "jsval option \<Rightarrow> wizard" where
  "init_wizard existing = (let ex = ex_of existing in
     \<lparr>w_existing = existing, w_text = init_text ex, w_src = sourceStateFrom ex,
      w_types = map text_of (items_of (jget ex ''device_types'')),
      w_factors = filter (\<lambda>(k, v). k \<noteq> ''note'') (fields_of (jget ex ''decision_factors'')),
      w_details = fields_of (jget ex ''device_details''), w_tools = [], w_file = None, w_step = SType, w_busy = False,
      w_held = None, w_error = None, w_seal = None\<rparr>)"

subsection \<open>Derived values\<close>

definition exPhotos :: "wizard \<Rightarrow> jsval list" where
  "exPhotos w = items_of (jget (ex_of (w_existing w)) ''photos'')"

definition storedPhotos :: "wizard \<Rightarrow> jsval list" where
  "storedPhotos w = filter (\<lambda>p. truthy p \<and> truthy (jget p ''id'')) (exPhotos w)"

definition containerLocked :: "wizard \<Rightarrow> bool" where
  "containerLocked w \<longleftrightarrow> completing w \<and> jget (ex_of (w_existing w)) ''manifest_status'' = JStr ''built''"

definition is_digital :: "wizard \<Rightarrow> bool" where
  "is_digital w \<longleftrightarrow> w_text w Kind = ''digital_file''"

definition is_physical :: "wizard \<Rightarrow> bool" where
  "is_physical w \<longleftrightarrow> w_text w Kind = ''physical_item''"

definition isLive :: "wizard \<Rightarrow> bool" where
  "isLive w \<longleftrightarrow> w_text w SystemState = ''live'' \<or> w_text w SystemState = ''live_critical''"

definition captionRequired :: "wizard \<Rightarrow> bool" where
  "captionRequired w \<longleftrightarrow> is_physical w \<and> \<not> (completing w \<and> exPhotos w \<noteq> [])"

definition photoTime :: "wizard \<Rightarrow> jsval" where
  "photoTime w = (if w_text w PhotoTakenAt \<noteq> [] then JStr (w_text w PhotoTakenAt) else or_null_text (w_text w AcquiredAt))"

definition srcAlgo :: "wizard \<Rightarrow> string option" where
  "srcAlgo w = hashAlgorithm (Some (w_text w HashSource))"

definition tgtAlgo :: "wizard \<Rightarrow> string option" where
  "tgtAlgo w = hashAlgorithm (Some (w_text w HashTarget))"

definition hashesComparable :: "wizard \<Rightarrow> bool" where
  "hashesComparable w \<longleftrightarrow> srcAlgo w \<noteq> None \<and> srcAlgo w = tgtAlgo w"

definition hashesMatch :: "wizard \<Rightarrow> bool" where
  "hashesMatch w \<longleftrightarrow> hashesComparable w \<and> to_lower (w_text w HashSource) = to_lower (w_text w HashTarget)"

definition BRANCH_TYPES :: "string list" where
  "BRANCH_TYPES = [''computer'', ''peripheral'', ''storage'', ''mobile'', ''network'', ''cctv'']"

definition stepList :: "wizard \<Rightarrow> wstep list" where
  "stepList w = [SType, SIdentify, SDecide] @ (if list_ex (\<lambda>t. t \<in> set BRANCH_TYPES) (w_types w) then [SBranch] else [])
     @ (if is_digital w then [SAcquire] else []) @ [SWitness, SConfirm]"

fun position_of :: "'a list \<Rightarrow> 'a \<Rightarrow> int" where
  "position_of [] x = -1"
| "position_of (y # ys) x = (if y = x then 0 else let i = position_of ys x in if i = -1 then -1 else i + 1)"

subsection \<open>Validation and the steps\<close>

definition NEED_TYPE :: string where
  "NEED_TYPE = ''Tag at least one device type (ISO 27037 '' @ section_sign @ ''7 '' @ em_dash @ '' required to seal).''"
definition NEED_CAPTION :: string where
  "NEED_CAPTION = ''Physical evidence requires at least one in-situ photo caption (ISO 27037 '' @ section_sign @ ''6.2.1).''"
definition NEED_LIVE :: string where
  "NEED_LIVE = ''Live / mission-critical acquisition requires justification (ISO 27037 '' @ section_sign @ ''5.4.4 / ''
     @ section_sign @ ''7.1.3.1.1).''"
definition NEED_TOOL :: string where
  "NEED_TOOL = ''Acquisition tool name + version are required for reproducibility (ISO 27037 '' @ section_sign @ ''5.4.4).''"
definition NEED_RATIONALE :: string where
  "NEED_RATIONALE = ''Logical acquisition requires a rationale of what was taken and why ('' @ section_sign @ ''7.1.3.1.1).''"
definition HASHES_DIFFER :: string where
  "HASHES_DIFFER = ''Source and target hashes do not match '' @ em_dash @ '' acquisition integrity broken. Re-acquire before continuing.''"
definition BAD_OFFSET :: string where
  "BAD_OFFSET = ''Clock offset must be a whole number of seconds, e.g. +120 or -30 (at most 100 years either way).''"

text \<open>\<open>validateStep\<close>: the message of the first rule the step breaks.\<close>

definition identify_error :: "wizard \<Rightarrow> string option" where
  "identify_error w =
     (if trim (w_text w Name) = [] then Some ''Name is required.''
      else if w_text w LawfulBasis = [] then Some ''Lawful basis is required (GDPR Art. 5.1(c)).''
      else if (w_text w LawfulBasis = ''other'' \<or> w_text w LawfulBasis = ''lia'') \<and> trim (w_text w LawfulBasisNote) = []
      then Some ''This lawful basis requires a justification note.''
      else if captionRequired w \<and> trim (w_text w PhotoCaption) = [] then Some NEED_CAPTION
      else if is_digital w \<and> ss_text (w_src w) SourcePath \<noteq> [] \<and> ss_text (w_src w) SourcePathStyle = []
      then Some ''Pick the path style of the source path (the server checks the path against it).''
      else None)"

definition acquire_error :: "wizard \<Rightarrow> string option" where
  "acquire_error w =
     (if is_digital w \<and> w_file w = None \<and> \<not> completing w then Some ''Please choose a file to acquire.''
      else if trim (w_text w AcqTool) = [] \<or> trim (w_text w AcqToolVersion) = [] then Some NEED_TOOL
      else if w_text w AcquisitionScope = ''logical'' \<and> trim (w_text w LogicalRationale) = [] then Some NEED_RATIONALE
      else if w_text w HashSource \<noteq> [] \<and> srcAlgo w = None \<or> w_text w HashTarget \<noteq> [] \<and> tgtAlgo w = None
      then Some ''Hashes must be 32 (MD5), 40 (SHA-1) or 64 (SHA-256) hex characters.''
      else if hashesComparable w \<and> \<not> hashesMatch w then Some HASHES_DIFFER
      else if parseOffsetSeconds (Some (w_text w TimeOffsetSeconds)) = BadOffset then Some BAD_OFFSET
      else None)"

definition validateStep :: "wizard \<Rightarrow> wstep \<Rightarrow> string option" where
  "validateStep w s = (case s of
      SType \<Rightarrow> if w_types w = [] then Some NEED_TYPE else None
    | SIdentify \<Rightarrow> identify_error w
    | SDecide \<Rightarrow> if isLive w \<and> trim (w_text w LiveJustification) = [] then Some NEED_LIVE else None
    | SAcquire \<Rightarrow> acquire_error w
    | _ \<Rightarrow> None)"

definition next_step :: "wizard \<Rightarrow> wizard" where
  "next_step w = (let w = w\<lparr>w_error := validateStep w (w_step w)\<rparr> in
     if w_error w \<noteq> None then w
     else let idx = position_of (stepList w) (w_step w) in
       if idx < int (length (stepList w)) - 1 then w\<lparr>w_step := stepList w ! nat (idx + 1)\<rparr> else w)"

definition prev_step :: "wizard \<Rightarrow> wizard" where
  "prev_step w = (let idx = position_of (stepList w) (w_step w) in
     if idx > 0 then w\<lparr>w_step := stepList w ! nat (idx - 1)\<rparr> else w)"

subsection \<open>The inputs\<close>

text \<open>Where an input is drawn and enabled, and the values a list offers.\<close>

definition has_type :: "wizard \<Rightarrow> string \<Rightarrow> bool" where
  "has_type w t \<longleftrightarrow> t \<in> set (w_types w)"

definition blocker_types :: "wizard \<Rightarrow> bool" where
  "blocker_types w \<longleftrightarrow> has_type w ''computer'' \<or> has_type w ''peripheral'' \<or> has_type w ''storage''"

definition input_shown :: "wizard \<Rightarrow> wfield \<Rightarrow> bool" where
  "input_shown w f = (case f of
      Kind \<Rightarrow> w_step w = SType \<and> \<not> completing w
    | Name \<Rightarrow> w_step w = SIdentify \<and> \<not> completing w | Identifier \<Rightarrow> w_step w = SIdentify \<and> \<not> completing w
    | Tlp \<Rightarrow> w_step w = SIdentify \<and> \<not> completing w | Description \<Rightarrow> w_step w = SIdentify \<and> \<not> completing w
    | EntityId \<Rightarrow> w_step w = SIdentify \<and> \<not> completing w
    | CollectedLocation \<Rightarrow> w_step w = SIdentify | CollectedAsRole \<Rightarrow> w_step w = SIdentify | LawfulBasis \<Rightarrow> w_step w = SIdentify
    | LawfulBasisNote \<Rightarrow> w_step w = SIdentify \<and> (w_text w LawfulBasis = ''other'' \<or> w_text w LawfulBasis = ''lia'')
    | PhotoCaption \<Rightarrow> w_step w = SIdentify \<and> is_physical w \<and> \<not> (completing w \<and> storedPhotos w \<noteq> [])
    | PhotoTakenAt \<Rightarrow> w_step w = SIdentify \<and> is_physical w \<and> trim (w_text w PhotoCaption) \<noteq> []
        \<and> \<not> (completing w \<and> storedPhotos w \<noteq> [])
    | AcquiredAt \<Rightarrow> w_step w = SIdentify \<and> is_physical w \<or> w_step w = SAcquire
    | SystemState \<Rightarrow> w_step w = SDecide | HandlingMode \<Rightarrow> w_step w = SDecide | DecisionNote \<Rightarrow> w_step w = SDecide
    | LiveJustification \<Rightarrow> w_step w = SDecide \<and> isLive w
    | WriteBlockerUsed \<Rightarrow> if blocker_types w then w_step w = SBranch else w_step w = SAcquire
    | WriteBlockerSerial \<Rightarrow> w_step w = SBranch \<and> blocker_types w \<and> w_text w WriteBlockerUsed = ''true''
    | LogicalRationale \<Rightarrow> w_step w = SAcquire \<and> w_text w AcquisitionScope = ''logical''
    | ContainerFormat \<Rightarrow> w_step w = SAcquire \<and> w_text w AcquisitionScope = ''logical'' \<and> \<not> containerLocked w
    | ToolValidationRef \<Rightarrow> w_step w = SAcquire \<and> w_text w ToolValidated = ''true''
    | ToolValidationDate \<Rightarrow> w_step w = SAcquire \<and> w_text w ToolValidated = ''true''
    | TargetHashScope \<Rightarrow> w_step w = SAcquire \<and> w_text w HashTarget \<noteq> []
    | ScreenState \<Rightarrow> w_step w = SAcquire \<and> isLive w
    | WitnessUserId \<Rightarrow> w_step w = SWitness | WitnessName \<Rightarrow> w_step w = SWitness
    | _ \<Rightarrow> w_step w = SAcquire)"

definition SYSTEM_STATE :: "string list" where
  "SYSTEM_STATE = [''powered_off'', ''live'', ''live_critical'', ''unknown'']"

definition offered :: "wfield \<Rightarrow> string \<Rightarrow> bool" where
  "offered f v = (case f of
      Kind \<Rightarrow> v \<in> set [''digital_file'', ''physical_item'']
    | SystemState \<Rightarrow> v \<in> set ([] # SYSTEM_STATE)
    | AcquisitionScope \<Rightarrow> v \<in> set [[], ''full_image'', ''logical'']
    | ContainerFormat \<Rightarrow> v \<in> set [[], ''zip'', ''tar'', ''ad1'', ''l01'', ''aff4l'', ''other'']
    | _ \<Rightarrow> True)"

text \<open>The hash inputs trim what is typed.\<close>

definition typed_value :: "wfield \<Rightarrow> string \<Rightarrow> string" where
  "typed_value f v = (if f = HashSource \<or> f = HashTarget \<or> f = AcqToolSha256 then trim v else v)"

definition set_text :: "wfield \<Rightarrow> string \<Rightarrow> wizard \<Rightarrow> wizard" where
  "set_text f v w = w\<lparr>w_text := (w_text w)(f := v)\<rparr>"

definition toggleType :: "string \<Rightarrow> wizard \<Rightarrow> wizard" where
  "toggleType t w = w\<lparr>w_types := (if t \<in> set (w_types w) then filter (\<lambda>x. x \<noteq> t) (w_types w) else w_types w @ [t])\<rparr>"

definition setDetail :: "string \<Rightarrow> jsval \<Rightarrow> wizard \<Rightarrow> wizard" where
  "setDetail k v w = w\<lparr>w_details := obj_set (w_details w) k v\<rparr>"

definition pickRegistryTool :: "jsval \<Rightarrow> wizard \<Rightarrow> wizard" where
  "pickRegistryTool i w = (case List.find (\<lambda>t. jget t ''id'' = i) (w_tools w) of
      None \<Rightarrow> w
    | Some t \<Rightarrow> w\<lparr>w_text := (w_text w)(AcqTool := text_of (jget t ''name''), AcqToolVersion := text_of (jget t ''version''),
        ToolValidated := ''true'', ToolValidationRef := text_of (jget t ''validation_ref''),
        ToolValidationDate := text_of (jget t ''validated_at''))\<rparr>)"

definition drop_held :: "wizard \<Rightarrow> wizard" where
  "drop_held w = w\<lparr>w_held := None\<rparr>"

definition chooseFile :: "jsval option \<Rightarrow> wizard \<Rightarrow> wizard" where
  "chooseFile f w = (drop_held w)\<lparr>w_file := f\<rparr>"

end
