(* ===== verification/Api_Endpoint.thy ===== *)
theory Api_Endpoint
  imports Transport Url_Codec
begin

text \<open>
  The shape of an entry of the \<open>api\<close> object of \<^verbatim>\<open>frontend/src/api/client.js\<close>: an arrow function that calls
  \<open>request\<close> with a method, a template path, an optional query string and an optional body. An
  \<open>endpoint\<close> is that expression as data, over the names of the function's parameters; \<open>endpoint_request\<close> is
  the call it makes for given arguments.
\<close>

subsection \<open>Template literals, query strings and bodies\<close>

type_synonym args = "string \<Rightarrow> jsval"

text \<open>A template path, cut at its slashes: \<open>`/api/teams/${id}`\<close> is \<open>[W ''api'', W ''teams'', V ''id'']\<close>.\<close>

datatype piece =
    W string                       \<comment> \<open>a literal segment\<close>
  | V string                       \<comment> \<open>\<open>${x}\<close>\<close>
  | E string                       \<comment> \<open>\<open>${encodeURIComponent(x)}\<close>\<close>

datatype operand =
    X string                       \<comment> \<open>a parameter\<close>
  | P string string                \<comment> \<open>a property of a parameter\<close>
  | K jsval                        \<comment> \<open>a constant\<close>
  | When string jsval              \<comment> \<open>a constant, left out unless the parameter is truthy\<close>

datatype query_string =
    NoQuery
  | NonEmpty string                \<comment> \<open>each entry of the object that is not undefined, null or empty\<close>
  | Truthy string                  \<comment> \<open>each entry whose value is truthy\<close>
  | All string                     \<comment> \<open>\<open>new URLSearchParams(params)\<close>\<close>
  | Picks "(string \<times> operand) list"   \<comment> \<open>\<open>if (v) qs.set(k, v)\<close>\<close>
  | PicksAfter "string \<times> operand" "(string \<times> operand) list"   \<comment> \<open>the first always, the others as above\<close>
  | Flag string string             \<comment> \<open>\<open>${x ? '?s' : ''}\<close>\<close>
  | IfE string operand             \<comment> \<open>\<open>v ? `?k=${encodeURIComponent(v)}` : ''\<close>\<close>
  | Literal "(string \<times> piece) list"   \<comment> \<open>\<open>?a=${x}&b=${y}\<close>\<close>

datatype body = NoBody | Whole string | Fields "(string \<times> operand) list"

record endpoint =
  ep_name :: string
  ep_method :: string
  ep_path :: "piece list"
  ep_query :: query_string
  ep_body :: body
  ep_defaults :: "(string \<times> jsval) list"

definition ep :: "string \<Rightarrow> string \<Rightarrow> piece list \<Rightarrow> query_string \<Rightarrow> body \<Rightarrow> (string \<times> jsval) list \<Rightarrow> endpoint" where
  "ep n m p q b ds = \<lparr>ep_name = n, ep_method = m, ep_path = p, ep_query = q, ep_body = b, ep_defaults = ds\<rparr>"

text \<open>A parameter left out, or passed as \<open>undefined\<close>, has its default.\<close>

definition with_defaults :: "(string \<times> jsval) list \<Rightarrow> args \<Rightarrow> args" where
  "with_defaults ds a x = (if a x = JUndef then (case map_of ds x of Some v \<Rightarrow> v | None \<Rightarrow> JUndef) else a x)"

fun piece_value :: "args \<Rightarrow> piece \<Rightarrow> string" where
  "piece_value a (W s) = s"
| "piece_value a (V x) = js_string (a x)"
| "piece_value a (E x) = encodeURIComponent (js_string (a x))"

definition template :: "args \<Rightarrow> piece list \<Rightarrow> string" where
  "template a ps = concat (map (\<lambda>p. CHR ''/'' # piece_value a p) ps)"

fun operand_value :: "args \<Rightarrow> operand \<Rightarrow> jsval" where
  "operand_value a (X x) = a x"
| "operand_value a (P x k) = jget (a x) k"
| "operand_value a (K v) = v"
| "operand_value a (When x v) = (if truthy (a x) then v else JUndef)"

subsection \<open>The query string\<close>

fun entries :: "jsval \<Rightarrow> (string \<times> jsval) list" where
  "entries (JObj kvs) = kvs"
| "entries _ = []"

definition set_params :: "(jsval \<Rightarrow> bool) \<Rightarrow> (string \<times> jsval) list \<Rightarrow> (string \<times> string) list" where
  "set_params keep kvs = map (\<lambda>(k, v). (k, js_string v)) (filter (\<lambda>(k, v). keep v) kvs)"

definition non_empty :: "jsval \<Rightarrow> bool" where
  "non_empty v \<longleftrightarrow> v \<noteq> JUndef \<and> v \<noteq> JNull \<and> v \<noteq> JStr []"

definition picked :: "args \<Rightarrow> (string \<times> operand) list \<Rightarrow> (string \<times> jsval) list" where
  "picked a ks = map (\<lambda>(k, v). (k, operand_value a v)) ks"

fun query_params :: "args \<Rightarrow> query_string \<Rightarrow> (string \<times> string) list" where
  "query_params a (NonEmpty x) = set_params non_empty (entries (a x))"
| "query_params a (Truthy x) = set_params truthy (entries (a x))"
| "query_params a (All x) = set_params (\<lambda>_. True) (entries (a x))"
| "query_params a (Picks ks) = set_params truthy (picked a ks)"
| "query_params a (PicksAfter (k, v) ks) = (k, js_string (operand_value a v)) # set_params truthy (picked a ks)"
| "query_params a _ = []"

definition or_nothing :: "string \<Rightarrow> string" where
  "or_nothing s = (if s = [] then [] else CHR ''?'' # s)"

fun query_text :: "args \<Rightarrow> query_string \<Rightarrow> string" where
  "query_text a NoQuery = []"
| "query_text a (Flag x s) = (if truthy (a x) then CHR ''?'' # s else [])"
| "query_text a (IfE k v) =
     (let x = operand_value a v in if truthy x then ''?'' @ k @ ''='' @ encodeURIComponent (js_string x) else [])"
| "query_text a (Literal ks) = CHR ''?'' # join ''&'' (map (\<lambda>(k, p). k @ ''='' @ piece_value a p) ks)"
| "query_text a q = or_nothing (search_params (query_params a q))"

subsection \<open>The body and the request\<close>

text \<open>\<open>JSON.stringify\<close> leaves undefined properties out.\<close>

fun body_value :: "args \<Rightarrow> body \<Rightarrow> jsval" where
  "body_value a NoBody = JUndef"
| "body_value a (Whole x) = a x"
| "body_value a (Fields fs) = JObj (filter (\<lambda>(k, v). v \<noteq> JUndef) (picked a fs))"

definition endpoint_path :: "endpoint \<Rightarrow> args \<Rightarrow> string" where
  "endpoint_path e a = template (with_defaults (ep_defaults e) a) (ep_path e)"

definition endpoint_request :: "endpoint \<Rightarrow> args \<Rightarrow> http_request" where
  "endpoint_request e a =
     (let b = with_defaults (ep_defaults e) a
      in json_request (ep_method e) (template b (ep_path e) @ query_text b (ep_query e)) (body_value b (ep_body e)))"

text \<open>The call: what \<open>request\<close> makes of the answer.\<close>

definition call :: "endpoint \<Rightarrow> args \<Rightarrow> answer option \<Rightarrow> (api_error + jsval) \<times> bool" where
  "call e a res = request (rq_path (endpoint_request e a)) res"

lemma rq_path_endpoint:
  "rq_path (endpoint_request e a) = endpoint_path e a @ query_text (with_defaults (ep_defaults e) a) (ep_query e)"
  by (simp add: endpoint_request_def endpoint_path_def json_request_def Let_def)

lemma rq_method_endpoint [simp]: "rq_method (endpoint_request e a) = ep_method e"
  by (simp add: endpoint_request_def json_request_def Let_def)

lemma ep_simps [simp]:
  "ep_name (ep n m p q b ds) = n" "ep_method (ep n m p q b ds) = m" "ep_path (ep n m p q b ds) = p"
  "ep_query (ep n m p q b ds) = q" "ep_body (ep n m p q b ds) = b" "ep_defaults (ep n m p q b ds) = ds"
  by (simp_all add: ep_def)

end
