(* ===== verification/Api_Forms.thy ===== *)
theory Api_Forms
  imports Api_Endpoint Js_Regex
begin

text \<open>
  The entries of the \<open>api\<close> object that do not go through \<open>request\<close>: the multipart posts, the two file exports and the
  plain links of \<^verbatim>\<open>frontend/src/api/client.js\<close>. Each multipart post is a \<open>form_post\<close>: the path, the form
  fields and the sentences of its errors.
\<close>

subsection \<open>Multipart posts\<close>

datatype form_value = FormFile string | FormText string

record form_post =
  fp_path :: string
  fp_fields :: "(string \<times> form_value) list"
  fp_what :: string                       \<comment> \<open>\<open>`<what> failed (<status>)`\<close>\<close>
  fp_status_text :: "(int \<times> string) option"   \<comment> \<open>the one status with a sentence of its own\<close>
  fp_data :: bool                         \<comment> \<open>\<open>err.data = data\<close>\<close>
  fp_code :: bool                         \<comment> \<open>\<open>err.code = ...\<close>\<close>

definition text_if :: "string \<Rightarrow> string option \<Rightarrow> (string \<times> form_value) list" where
  "text_if k v = (if str_truthy v then [(k, FormText (the v))] else [])"

definition incident_path :: "string \<Rightarrow> string \<Rightarrow> string" where
  "incident_path i rest = ''/api/incidents/'' @ i @ rest"

definition too_large :: "string \<Rightarrow> (int \<times> string) option" where
  "too_large m = Some (413, m)"

definition uploadEntityFile :: "string \<Rightarrow> string \<Rightarrow> string \<Rightarrow> form_post" where
  "uploadEntityFile incidentId entityId file =
     \<lparr>fp_path = incident_path incidentId (''/entities/'' @ entityId @ ''/files''), fp_fields = [(''file'', FormFile file)],
      fp_what = ''Upload'', fp_status_text = too_large ''File exceeds the 50 MiB limit.'', fp_data = False, fp_code = False\<rparr>"

definition uploadIncidentFile :: "string \<Rightarrow> string \<Rightarrow> string option \<Rightarrow> (string \<times> jsval) list \<Rightarrow> form_post" where
  "uploadIncidentFile incidentId file entityId capture =
     \<lparr>fp_path = incident_path incidentId ''/files'',
      fp_fields = [(''file'', FormFile file)] @ text_if ''entity_id'' entityId
        @ map (\<lambda>(k, v). (k, FormText (js_string v))) (filter (\<lambda>(k, v). non_empty v) capture),
      fp_what = ''Upload'', fp_status_text = too_large ''File exceeds the 50 MiB limit.'', fp_data = False, fp_code = False\<rparr>"

text \<open>Pasted source only: a file goes through a chunked upload (\<open>Api_Flows\<close>).\<close>

definition analyzeEmail_form :: "string \<Rightarrow> string option \<Rightarrow> string option \<Rightarrow> form_post" where
  "analyzeEmail_form incidentId raw acquiredAt =
     \<lparr>fp_path = incident_path incidentId ''/email/analyze'',
      fp_fields = text_if ''raw'' raw @ text_if ''acquired_at'' acquiredAt,
      fp_what = ''Analyze'', fp_status_text = None, fp_data = True, fp_code = True\<rparr>"

definition analyzeEmailBulk :: "string \<Rightarrow> string list \<Rightarrow> string option \<Rightarrow> form_post" where
  "analyzeEmailBulk incidentId files acquiredAt =
     \<lparr>fp_path = incident_path incidentId ''/email/analyze-bulk'',
      fp_fields = map (\<lambda>f. (''files'', FormFile f)) files @ text_if ''acquired_at'' acquiredAt,
      fp_what = ''Bulk analyze'', fp_status_text = None, fp_data = True, fp_code = False\<rparr>"

definition addEvidencePhoto :: "string \<Rightarrow> string \<Rightarrow> string \<Rightarrow> (string \<Rightarrow> string option) \<Rightarrow> form_post" where
  "addEvidencePhoto incidentId evidenceId file f =
     \<lparr>fp_path = incident_path incidentId (''/evidence/'' @ evidenceId @ ''/photos''),
      fp_fields = [(''file'', FormFile file)] @ concat (map (\<lambda>k. text_if k (f k))
        [''caption'', ''taken_at'', ''taken_by_id'', ''taken_by_name'', ''camera'', ''context'']),
      fp_what = ''Upload'', fp_status_text = Some (415, ''File must be an image.''), fp_data = True, fp_code = False\<rparr>"

definition parseForensicTimeline :: "string \<Rightarrow> string \<Rightarrow> form_post" where
  "parseForensicTimeline incidentId file =
     \<lparr>fp_path = incident_path incidentId ''/forensic/timeline-import/parse'', fp_fields = [(''file'', FormFile file)],
      fp_what = ''Parse'', fp_status_text = too_large ''File exceeds the 500 MiB limit.'', fp_data = True, fp_code = False\<rparr>"

definition createForensicImport :: "string \<Rightarrow> string \<Rightarrow> string option \<Rightarrow> form_post" where
  "createForensicImport incidentId file sourceTz =
     \<lparr>fp_path = incident_path incidentId ''/forensic/timeline-import/imports'',
      fp_fields = [(''file'', FormFile file)] @ text_if ''source_tz'' sourceTz,
      fp_what = ''Upload'', fp_status_text = too_large ''File exceeds the 500 MiB limit.'', fp_data = True, fp_code = False\<rparr>"

definition uploadArtifact :: "string \<Rightarrow> string \<Rightarrow> string option \<Rightarrow> bool \<Rightarrow> form_post" where
  "uploadArtifact incidentId file description createHashIocs =
     \<lparr>fp_path = incident_path incidentId ''/artifacts'',
      fp_fields = [(''file'', FormFile file)] @ text_if ''description'' description
        @ (if createHashIocs then [(''create_hash_iocs'', FormText ''true'')] else []),
      fp_what = ''Upload'', fp_status_text = too_large ''File exceeds the 500 MiB limit.'', fp_data = False, fp_code = False\<rparr>"

definition ingestCollection :: "string \<Rightarrow> string \<Rightarrow> string \<Rightarrow> form_post" where
  "ingestCollection incidentId cid file =
     \<lparr>fp_path = incident_path incidentId (''/collections/'' @ cid @ ''/ingest''), fp_fields = [(''file'', FormFile file)],
      fp_what = ''Ingest'', fp_status_text = too_large ''Collection output exceeds the 512 MiB limit.'',
      fp_data = False, fp_code = False\<rparr>"

definition parseDefenderPdf :: "string \<Rightarrow> string \<Rightarrow> form_post" where
  "parseDefenderPdf incidentId file =
     \<lparr>fp_path = incident_path incidentId ''/forensic/defender-pdf/parse'', fp_fields = [(''file'', FormFile file)],
      fp_what = ''Parse'', fp_status_text = None, fp_data = True, fp_code = False\<rparr>"

definition createDefenderPdfImport :: "string \<Rightarrow> string \<Rightarrow> form_post" where
  "createDefenderPdfImport incidentId file =
     \<lparr>fp_path = incident_path incidentId ''/forensic/defender-pdf/imports'', fp_fields = [(''file'', FormFile file)],
      fp_what = ''Upload'', fp_status_text = too_large ''File exceeds the 25 MiB limit.'', fp_data = True, fp_code = False\<rparr>"

definition uploadYaraRule :: "string \<Rightarrow> form_post" where
  "uploadYaraRule file =
     \<lparr>fp_path = ''/api/yara/upload'', fp_fields = [(''file'', FormFile file)],
      fp_what = ''Upload'', fp_status_text = None, fp_data = True, fp_code = False\<rparr>"

subsection \<open>The answer to a multipart post\<close>

text \<open>\<open>(data && typeof data === 'object' && (data.detail || data.message)) || fallback\<close>.\<close>

definition form_message :: "form_post \<Rightarrow> answer \<Rightarrow> string" where
  "form_message p a =
     (let data = an_data a; d = jget data ''detail''; v = (if truthy d then d else jget data ''message'') in
      if truthy data \<and> is_obj data \<and> truthy v then js_string v
      else case fp_status_text p of
          Some (st, m) \<Rightarrow> if an_status a = st then m else fp_what p @ '' failed ('' @ show_int (an_status a) @ '')''
        | None \<Rightarrow> fp_what p @ '' failed ('' @ show_int (an_status a) @ '')'')"

definition form_error :: "form_post \<Rightarrow> answer \<Rightarrow> api_error" where
  "form_error p a =
     (js_error (form_message p a))\<lparr>ae_status := Some (an_status a),
        ae_data := (if fp_data p then an_data a else JUndef),
        ae_code := (if fp_code p then data_code (an_data a) else JUndef)\<rparr>"

text \<open>The outcome of a post, and whether the unauthorized handler was called: these functions never call it.\<close>

definition post_form :: "form_post \<Rightarrow> answer option \<Rightarrow> (api_error + jsval) \<times> bool" where
  "post_form p res =
     (case res of
        None \<Rightarrow> (Inl network_error, False)
      | Some a \<Rightarrow> (if an_ok a then Inr (an_data a) else Inl (form_error p a), False))"

text \<open>A multipart post succeeds exactly for a 2xx answer and otherwise fails with the status and never with an empty
  message: the server's own text where it sent one, else a sentence with the status.\<close>

theorem form_outcome:
  assumes "fp_what p \<noteq> []" and "\<And>st m. fp_status_text p = Some (st, m) \<Longrightarrow> m \<noteq> []"
  shows "(\<exists>v. fst (post_form p (Some a)) = Inr v) = an_ok a
    \<and> (case fst (post_form p (Some a)) of
         Inr v \<Rightarrow> v = an_data a
       | Inl e \<Rightarrow> ae_status e = Some (an_status a)
           \<and> (\<forall>d. jget (an_data a) ''detail'' = JStr d \<longrightarrow> d \<noteq> [] \<longrightarrow> ae_message e = d)
           \<and> (jget (an_data a) ''detail'' = JUndef \<and> jget (an_data a) ''message'' = JUndef \<longrightarrow> ae_message e \<noteq> []))"
proof -
  have obj: "truthy x \<and> is_obj x" if "jget x k = JStr d" for x k d
    using that by (cases x) auto
  show ?thesis
    using assms obj [of "an_data a" "''detail''"]
    by (auto simp: post_form_def form_error_def form_message_def js_error_def Let_def split: option.splits)
qed

lemma form_outcome_witness:
  "fst (post_form (uploadYaraRule ''r.yar'') (Some \<lparr>an_status = 413, an_body = EmptyText, an_retry_after = 0\<rparr>))
     \<noteq> Inr JNull"
  using form_outcome [of "uploadYaraRule ''r.yar''" "\<lparr>an_status = 413, an_body = EmptyText, an_retry_after = 0\<rparr>"]
  by (auto simp: uploadYaraRule_def an_ok_def)



subsection \<open>File exports and links\<close>

text \<open>\<open>cd.match(/filename="([^"]+)"/)\<close>.\<close>

definition disposition_filename :: "string \<Rightarrow> string option" where
  "disposition_filename cd = map_option snd
     (rx_match1 (lit (''filename='' @ [CHR 0x22])) (plus1 (Cls (\<lambda>c. c \<noteq> CHR 0x22))) (lit [CHR 0x22]) cd)"

definition exportIocs_url :: "string \<Rightarrow> string \<Rightarrow> (string \<times> jsval) list \<Rightarrow> string" where
  "exportIocs_url incidentId fmt params =
     incident_path incidentId (''/iocs/export/'' @ fmt @ or_nothing (search_params
       (concat (map (\<lambda>(k, v). case v of JArr xs \<Rightarrow> map (\<lambda>x. (k, js_string x)) xs
                            | _ \<Rightarrow> if non_empty v then [(k, js_string v)] else []) params))))"

definition exportIocs_error :: "answer \<Rightarrow> api_error" where
  "exportIocs_error a =
     (let data = an_data a; d = jget data ''detail''; v = (if truthy d then d else jget data ''message'') in
      (js_error (if truthy data \<and> is_obj data \<and> truthy v then js_string v
                 else ''Export failed ('' @ show_int (an_status a) @ '')''))\<lparr>ae_status := Some (an_status a)\<rparr>)"

definition exportIocs_filename :: "string \<Rightarrow> string option \<Rightarrow> string" where
  "exportIocs_filename fmt cd =
     (case disposition_filename (str_or cd []) of Some f \<Rightarrow> f | None \<Rightarrow> ''iocs-'' @ fmt @ ''.bin'')"

definition exportTimeline_url :: "string \<Rightarrow> (string \<times> jsval) list \<Rightarrow> string" where
  "exportTimeline_url incidentId params =
     incident_path incidentId (''/timeline/export?'' @ search_params (set_params non_empty params))"

definition exportTimeline :: "answer \<Rightarrow> string option \<Rightarrow> (api_error + string) \<times> bool" where
  "exportTimeline a cd =
     (if \<not> an_ok a
      then let err = (answer_error a (extractMessage (an_data a) (an_status a)))\<lparr>ae_data := JUndef\<rparr> in
        if an_status a = 401 then (Inl (err\<lparr>ae_message := SESSION_ENDED\<rparr>), True) else (Inl err, False)
      else (Inr (case disposition_filename (str_or cd []) of Some f \<Rightarrow> f | None \<Rightarrow> ''timeline-export''), False))"

definition entityFileDownloadUrl :: "string \<Rightarrow> string \<Rightarrow> string \<Rightarrow> string" where
  "entityFileDownloadUrl i e f = incident_path i (''/entities/'' @ e @ ''/files/'' @ f @ ''/download'')"

definition incidentFileDownloadUrl :: "string \<Rightarrow> string \<Rightarrow> string" where
  "incidentFileDownloadUrl i f = incident_path i (''/files/'' @ f @ ''/download'')"

definition evidenceManifestCsvUrl :: "string \<Rightarrow> string \<Rightarrow> string option \<Rightarrow> string" where
  "evidenceManifestCsvUrl i e q = incident_path i (''/evidence/'' @ e @ ''/manifest?format=csv''
     @ (if str_truthy q then ''&q='' @ encodeURIComponent (the q) else []))"

definition exportLessonsLearned :: "string \<Rightarrow> string" where
  "exportLessonsLearned i = incident_path i ''/post-incident/lessons/export''"

definition detectionsDownloadUrl :: "string \<Rightarrow> string" where
  "detectionsDownloadUrl i = incident_path i ''/detections/download''"

definition downloadSavedReportUrl :: "string \<Rightarrow> string \<Rightarrow> string" where
  "downloadSavedReportUrl i r = incident_path i (''/reports/'' @ r @ ''/download'')"

text \<open>A download is saved under the name the server sent, and never under one with a quote in it: the name is a part of
  the \<open>Content-Disposition\<close> header, or the export's default.\<close>

theorem export_filename_from_header:
  "exportIocs_filename fmt cd = ''iocs-'' @ fmt @ ''.bin''
   \<or> (\<exists>h. cd = Some h \<and> sublist (exportIocs_filename fmt cd) h
          \<and> exportIocs_filename fmt cd \<noteq> [] \<and> CHR 0x22 \<notin> set (exportIocs_filename fmt cd))"
proof (cases "disposition_filename (str_or cd [])")
  case (Some f)
  then obtain m where m: "rx_match1 (lit (''filename='' @ [CHR 0x22])) (plus1 (Cls (\<lambda>c. c \<noteq> CHR 0x22))) (lit [CHR 0x22]) (str_or cd [])
      = Some (m, f)" by (auto simp: disposition_filename_def)
  have "f \<in> rx_lang (plus1 (Cls (\<lambda>c. c \<noteq> CHR 0x22))) \<and> sublist f (str_or cd [])"
    by (rule rx_match1_group [OF m]) simp
  then have f: "f \<noteq> []" "list_all (\<lambda>c. c \<noteq> CHR 0x22) f" "sublist f (str_or cd [])" by simp_all
  then obtain h where "cd = Some h" "str_or cd [] = h" by (cases cd) (auto split: if_splits)
  with Some f show ?thesis by (auto simp: exportIocs_filename_def list_all_iff)
qed (simp add: exportIocs_filename_def)

end
