(* ===== verification/Api_Flows.thy ===== *)
theory Api_Flows
  imports Api_Forms Upload
begin

text \<open>
  The entries of the \<open>api\<close> object that chain several requests: a chunked upload, then the analysis of the exhibit it
  became (\<^verbatim>\<open>frontend/src/api/client.js\<close>: \<open>mainStoredButFailed\<close>, \<open>digitalCompleteBody\<close>, \<open>analyseUploaded\<close> and
  their callers). The chunked upload (\<open>Upload\<close>) and \<open>request\<close> are parameters here: a flow is the list of
  calls it makes with what each of them answers.
\<close>

subsection \<open>Bodies and errors\<close>

definition digitalCompleteBody :: "(string \<Rightarrow> jsval) \<Rightarrow> (string \<times> jsval) list \<Rightarrow> (string \<times> jsval) list" where
  "digitalCompleteBody f wizard =
     foldl (\<lambda>meta (k, v). if v = JNull \<or> v = JUndef \<or> v = JStr [] \<or> v = JArr [] then meta else obj_set meta k v)
       ([(''name'', f ''name''), (''identifier'', f ''identifier'')]
        @ filter (\<lambda>(k, v). truthy v)
            (map (\<lambda>k. (k, f k)) [''description'', ''tlp'', ''collected_location'', ''entity_id'']))
       wizard"

text \<open>\<open>{ ...(e.data if an object), evidence_id, evidence_identifier, exhibit_link }\<close>.\<close>

definition exhibit_data :: "jsval \<Rightarrow> jsval \<Rightarrow> jsval" where
  "exhibit_data data upl =
     JObj (obj_spread (case data of JObj kvs \<Rightarrow> kvs | _ \<Rightarrow> [])
       [(''evidence_id'', jget upl ''evidence_id''), (''evidence_identifier'', jget (jget upl ''evidence'') ''identifier''),
        (''exhibit_link'', jget upl ''exhibit_link'')])"

definition mainStoredButFailed :: "api_error \<Rightarrow> jsval \<Rightarrow> string \<Rightarrow> string \<Rightarrow> api_error" where
  "mainStoredButFailed e upl filename what =
     (let i = jget (jget upl ''evidence'') ''identifier'';
          ident = (if truthy i then js_string i else ''an exhibit'');
          stored = (if jget upl ''exhibit_link'' = JStr ''sha256_match''
                    then ''matched the existing exhibit '' @ ident else ''was registered as '' @ ident);
          why = (if ae_code e = JStr ''upload_cancelled'' then ''was cancelled''
                 else if ae_code e = JStr ''upload_result_unknown''
                 then ''has an unknown result (check Evidence '' @ angle_quote @ '' Exhibits)''
                 else ''failed: '' @ (if ae_message e = [] then ''unknown error'' else ae_message e))
      in (js_error (filename @ '' '' @ stored @ ''; the '' @ what @ '' upload '' @ why @ ''. Nothing was parsed. Parse '' @ ident
            @ '' under '' @ left_dquote @ ''From a registered exhibit'' @ right_dquote
            @ '' (with the form history once it is registered).''))
         \<lparr>ae_code := ae_code e, ae_status := ae_status e, ae_openUploads := ae_openUploads e,
          ae_data := exhibit_data (ae_data e) upl\<rparr>)"

subsection \<open>The analysis of an uploaded exhibit\<close>

type_synonym analysis = "jsval \<Rightarrow> string \<Rightarrow> api_error + jsval"    \<comment> \<open>of the exhibit's id and the query\<close>

definition upload_query :: "jsval \<Rightarrow> string" where
  "upload_query upl =
     (let u = jget upl ''upload_id'' in if truthy u then ''?upload_id='' @ encodeURIComponent (js_string u) else [])"

definition analyseUploaded :: "jsval \<Rightarrow> analysis \<Rightarrow> api_error + jsval" where
  "analyseUploaded upl fn =
     (let i = jget upl ''evidence_id''; qs = upload_query upl;
          r = (case fn i qs of
                 Inr v \<Rightarrow> Inr v
               | Inl e \<Rightarrow> if qs \<noteq> [] \<and> ae_code e = JStr ''upload_link_not_found'' then fn i [] else Inl e)
      in case r of Inr v \<Rightarrow> Inr v | Inl e \<Rightarrow> Inl (e\<lparr>ae_data := exhibit_data (ae_data e) upl\<rparr>))"

subsection \<open>The upload entries\<close>

text \<open>What \<open>uploadInChunks\<close> is asked for: the file, the purpose and the completion's body.\<close>

record chunk_upload =
  cu_file :: string
  cu_purpose :: string
  cu_body :: "(string \<times> jsval) list"
  cu_mime :: "string option"

type_synonym uploader = "chunk_upload \<Rightarrow> api_error + jsval"

definition acquired :: "string option \<Rightarrow> (string \<times> jsval) list" where
  "acquired at = (if str_truthy at then [(''acquired_at'', JStr (the at))] else [])"

definition collectDigital :: "uploader \<Rightarrow> string \<Rightarrow> string option \<Rightarrow> (string \<Rightarrow> jsval) \<Rightarrow> (string \<times> jsval) list \<Rightarrow> api_error + jsval" where
  "collectDigital up file mime flds wizard =
     (case up \<lparr>cu_file = file, cu_purpose = ''evidence'', cu_body = digitalCompleteBody flds wizard, cu_mime = mime\<rparr> of
        Inl e \<Rightarrow> Inl e | Inr upl \<Rightarrow> Inr (jget upl ''evidence''))"

definition analyzeEmail_file :: "uploader \<Rightarrow> analysis \<Rightarrow> string \<Rightarrow> string option \<Rightarrow> api_error + jsval" where
  "analyzeEmail_file up fn file acquiredAt =
     (case up \<lparr>cu_file = file, cu_purpose = ''email'', cu_body = acquired acquiredAt, cu_mime = None\<rparr> of
        Inl e \<Rightarrow> Inl e | Inr upl \<Rightarrow> analyseUploaded upl fn)"

definition uploadPcap :: "uploader \<Rightarrow> analysis \<Rightarrow> string \<Rightarrow> string option \<Rightarrow> api_error + jsval" where
  "uploadPcap up fn file acquiredAt =
     (case up \<lparr>cu_file = file, cu_purpose = ''pcap'', cu_body = acquired acquiredAt, cu_mime = None\<rparr> of
        Inl e \<Rightarrow> Inl e | Inr upl \<Rightarrow> analyseUploaded upl fn)"

definition history_upload :: "string \<Rightarrow> jsval \<Rightarrow> (string \<times> jsval) list \<Rightarrow> string option \<Rightarrow> chunk_upload" where
  "history_upload file browser companion acquiredAt =
     \<lparr>cu_file = file, cu_purpose = ''webhistory'', cu_body = [(''browser'', browser)] @ companion @ acquired acquiredAt,
      cu_mime = None\<rparr>"

text \<open>\<open>parse\<close> is the last request: of the exhibit's id, the query and the body.\<close>

definition uploadWebHistory :: "uploader \<Rightarrow> (jsval \<Rightarrow> string \<Rightarrow> jsval \<Rightarrow> api_error + jsval) \<Rightarrow> string \<Rightarrow> string \<Rightarrow> jsval \<Rightarrow>
    string option \<Rightarrow> string option \<Rightarrow> api_error + jsval" where
  "uploadWebHistory up parse file file_name browser formFile acquiredAt =
     (case up (history_upload file browser [] acquiredAt) of
        Inl e \<Rightarrow> Inl e
      | Inr main \<Rightarrow>
          (case formFile of
             None \<Rightarrow> analyseUploaded main (\<lambda>i qs. parse i qs (JObj [(''browser'', browser)]))
           | Some f \<Rightarrow>
               (case up (history_upload f browser [(''companion_of'', jget main ''evidence_id'')] acquiredAt) of
                  Inl e \<Rightarrow> Inl (mainStoredButFailed e main (if file_name = [] then ''places.sqlite'' else file_name)
                                  ''form history (formhistory.sqlite)'')
                | Inr form \<Rightarrow> analyseUploaded main (\<lambda>i qs. parse i qs
                    (JObj [(''browser'', browser), (''form_history_evidence_id'', jget form ''evidence_id'')])))))"

text \<open>The progress reported over both files of a browser history: bytes sent and the total.\<close>

definition history_progress :: "int \<Rightarrow> int option \<Rightarrow> bool \<Rightarrow> int \<Rightarrow> int \<times> int" where
  "history_progress main_size form_size second sent =
     (if second then main_size + sent else sent, main_size + (case form_size of Some n \<Rightarrow> n | None \<Rightarrow> 0))"

subsection \<open>What the flows promise\<close>

lemma obj_set_get: "map_of (obj_set kvs k v) x = (if x = k then Some v else map_of kvs x)"
  by (induction kvs k v rule: obj_set.induct) auto

lemma obj_spread_get: "map_of (obj_spread a b) x = (case map_of (rev b) x of Some v \<Rightarrow> Some v | None \<Rightarrow> map_of a x)"
proof (induction b rule: rev_induct)
  case (snoc p b)
  obtain k v where "p = (k, v)" by (cases p)
  then show ?case using snoc by (simp add: obj_spread_def obj_set_get)
qed (simp add: obj_spread_def)

definition names_exhibit :: "api_error \<Rightarrow> jsval \<Rightarrow> bool" where
  "names_exhibit e upl \<longleftrightarrow> jget (ae_data e) ''evidence_id'' = jget upl ''evidence_id''
     \<and> jget (ae_data e) ''evidence_identifier'' = jget (jget upl ''evidence'') ''identifier''
     \<and> jget (ae_data e) ''exhibit_link'' = jget upl ''exhibit_link''"

lemma exhibit_data_get:
  "jget (exhibit_data d upl) ''evidence_id'' = jget upl ''evidence_id''"
  "jget (exhibit_data d upl) ''evidence_identifier'' = jget (jget upl ''evidence'') ''identifier''"
  "jget (exhibit_data d upl) ''exhibit_link'' = jget upl ''exhibit_link''"
  "k \<notin> {''evidence_id'', ''evidence_identifier'', ''exhibit_link''} \<Longrightarrow> d = JObj kvs \<Longrightarrow> jget (exhibit_data d upl) k = jget d k"
  by (auto simp: exhibit_data_def jget_def obj_spread_get)

lemma names_exhibit_data: "names_exhibit (e\<lparr>ae_data := exhibit_data d upl\<rparr>) upl"
  by (simp add: names_exhibit_def exhibit_data_get)

lemma analyse_cases:
  assumes "analyseUploaded upl fn = Inl e"
  obtains qs e' where "qs \<in> {upload_query upl, []}" "fn (jget upl ''evidence_id'') qs = Inl e'"
    "e = e'\<lparr>ae_data := exhibit_data (ae_data e') upl\<rparr>"
proof (cases "fn (jget upl ''evidence_id'') (upload_query upl)")
  case (Inl e1)
  show thesis
  proof (cases "upload_query upl \<noteq> [] \<and> ae_code e1 = JStr ''upload_link_not_found''")
    case True
    then show thesis using assms Inl that [of "[]"]
      by (cases "fn (jget upl ''evidence_id'') []") (simp_all add: analyseUploaded_def Let_def)
  next
    case False
    then have "e = e1\<lparr>ae_data := exhibit_data (ae_data e1) upl\<rparr>"
      using assms Inl by (simp add: analyseUploaded_def Let_def if_not_P)
    then show thesis using Inl that [of "upload_query upl"] by simp
  qed
qed (use assms in \<open>simp add: analyseUploaded_def Let_def\<close>)

lemma analyse_names: "analyseUploaded upl fn = Inl e \<Longrightarrow> names_exhibit e upl"
  by (erule analyse_cases) (simp add: names_exhibit_data)

lemma failed_names: "names_exhibit (mainStoredButFailed e upl filename what) upl"
  by (simp add: mainStoredButFailed_def Let_def names_exhibit_data)

text \<open>Once a file is registered, no failure loses it: every error of the analysis that follows an upload, and the error of
  a second file after the first was stored, names the stored exhibit and keeps the code of what failed.\<close>

theorem stored_exhibit_is_named:
  "(analyseUploaded upl fn = Inl e \<longrightarrow> names_exhibit e upl
      \<and> (\<exists>qs e'. qs \<in> {upload_query upl, []} \<and> fn (jget upl ''evidence_id'') qs = Inl e'
            \<and> ae_code e = ae_code e' \<and> ae_message e = ae_message e' \<and> ae_status e = ae_status e'))
   \<and> (names_exhibit (mainStoredButFailed e0 upl filename what) upl
      \<and> ae_code (mainStoredButFailed e0 upl filename what) = ae_code e0)
   \<and> (uploadWebHistory up parse file file_name browser formFile at = Inl e
        \<longrightarrow> up (history_upload file browser [] at) = Inr main \<longrightarrow> names_exhibit e main)"
proof (intro conjI impI)
  assume a: "analyseUploaded upl fn = Inl e"
  then show "names_exhibit e upl" by (rule analyse_names)
  from a show "\<exists>qs e'. qs \<in> {upload_query upl, []} \<and> fn (jget upl ''evidence_id'') qs = Inl e'
            \<and> ae_code e = ae_code e' \<and> ae_message e = ae_message e' \<and> ae_status e = ae_status e'"
    by (rule analyse_cases) (rule exI, rule exI, simp)
next
  show "names_exhibit (mainStoredButFailed e0 upl filename what) upl" by (rule failed_names)
  show "ae_code (mainStoredButFailed e0 upl filename what) = ae_code e0" by (simp add: mainStoredButFailed_def Let_def)
next
  assume "uploadWebHistory up parse file file_name browser formFile at = Inl e"
    and "up (history_upload file browser [] at) = Inr main"
  then show "names_exhibit e main"
    by (auto simp: uploadWebHistory_def intro: analyse_names failed_names split: sum.splits option.splits)
qed

lemma stored_exhibit_is_named_witness:
  "names_exhibit (mainStoredButFailed (js_error ''x'') (JObj [(''evidence_id'', JStr ''e1'')]) ''a'' ''b'')
     (JObj [(''evidence_id'', JStr ''e1'')])"
  using stored_exhibit_is_named [where e0 = "js_error ''x''" and filename = "''a''" and what = "''b''"
      and upl = "JObj [(''evidence_id'', JStr ''e1'')]"] by blast

definition filled :: "jsval \<Rightarrow> bool" where
  "filled v \<longleftrightarrow> v \<noteq> JNull \<and> v \<noteq> JUndef \<and> v \<noteq> JStr [] \<and> v \<noteq> JArr []"

definition base_fields :: "(string \<Rightarrow> jsval) \<Rightarrow> (string \<times> jsval) list" where
  "base_fields f = [(''name'', f ''name''), (''identifier'', f ''identifier'')]
     @ filter (\<lambda>(k, v). truthy v) (map (\<lambda>k. (k, f k)) [''description'', ''tlp'', ''collected_location'', ''entity_id''])"

lemma digitalCompleteBody_spread:
  "digitalCompleteBody f w = obj_spread (base_fields f) (filter (\<lambda>(k, v). filled v) w)"
proof -
  have "foldl (\<lambda>meta (k, v). if v = JNull \<or> v = JUndef \<or> v = JStr [] \<or> v = JArr [] then meta else obj_set meta k v) b w
      = obj_spread b (filter (\<lambda>(k, v). filled v) w)" for b
    by (induction w arbitrary: b) (auto simp: obj_spread_def filled_def)
  then show ?thesis by (simp add: digitalCompleteBody_def base_fields_def)
qed

text \<open>The completion's body carries every filled-in field and no empty one: a field of the wizard exactly when it is not
  null, undefined, empty text or an empty list (and then it wins over a form field of the same name), the name
  and the identifier always, and the other form fields when they are not empty.\<close>

theorem completion_body_fields:
  "map_of (digitalCompleteBody f w) k =
     (case map_of (rev (filter (\<lambda>(k, v). filled v) w)) k of
        Some v \<Rightarrow> Some v
      | None \<Rightarrow> if k \<in> {''name'', ''identifier''}
                  \<or> k \<in> {''description'', ''tlp'', ''collected_location'', ''entity_id''} \<and> truthy (f k)
                then Some (f k) else None)"
proof -
  have "map_of (base_fields f) k = (if k \<in> {''name'', ''identifier''}
        \<or> k \<in> {''description'', ''tlp'', ''collected_location'', ''entity_id''} \<and> truthy (f k) then Some (f k) else None)"
    by (simp add: base_fields_def)
  then show ?thesis by (simp only: digitalCompleteBody_spread obj_spread_get)
qed

end
