(* ===== verification/Wizard_Commit.thy ===== *)
theory Wizard_Commit
  imports Acquisition_Wizard Api_Flows
begin

text \<open>
  The last step of \<^verbatim>\<open>AcquisitionWizard.jsx\<close>: the list of what a seal needs, \<open>commit\<close> with the requests it
  makes and what it does with their answers, and the wizard as a machine whose events are the inputs, the buttons and
  the answers.
\<close>

subsection \<open>Seal readiness\<close>

text \<open>An exhibit with nothing recorded, and one with the fields the source rule reads.\<close>

definition no_item :: evidence where
  "no_item = \<lparr>ev_kind = [], ev_status = [], ev_photos = None, ev_make = None, ev_model = None, ev_serial = None,
     ev_entity_id = None, ev_source_system = None, ev_source_path = None, ev_source_path_style = None,
     ev_source_unknown_reason = None, ev_acquisition_scope = None, ev_system_state = None, ev_device_types = [],
     ev_collected_by_id = None, ev_collected_location = None, ev_collected_by_qualifications = None,
     ev_collected_as_role = None, ev_lawful_basis = None, ev_md5 = None, ev_sha1 = None, ev_sha256 = None,
     ev_write_blocker_used = None, ev_live_justification = None, ev_acquisition_tool = None,
     ev_acquisition_tool_version = None, ev_acquisition_tool_validated = False, ev_acquisition_hash_source = None,
     ev_acquisition_hash_target = None, ev_provider_hash = None, ev_container_format = None, ev_manifest_status = None,
     ev_manifest_error = None, ev_manifest_listing = [], ev_current_custodian_id = None,
     ev_current_custodian_external_name = None, ev_current_custodian_external_org = None,
     ev_internal_transfers_legacy = 0, ev_internal_transfers_acknowledged = 0, ev_coc_sealed = False,
     ev_seal_record_sha256 = None, ev_seal_tst_time = None, ev_legal_hold = False, ev_has_verified_working_copy = False,
     ev_has_examination = False, ev_has_examination_findings = False, ev_has_examination_scope = False\<rparr>"

definition opt_text :: "string \<Rightarrow> string option" where
  "opt_text s = (if s = [] then None else Some s)"

definition srcGap :: "wizard \<Rightarrow> string list" where
  "srcGap w =
     (let t = ss_text (w_src w) in
      if is_digital w
      then sourceMissing (no_item\<lparr>ev_entity_id := opt_text (w_text w EntityId), ev_source_system := Some (t SourceSystem),
        ev_serial := Some (t Serial), ev_source_path := opt_text (t SourcePath),
        ev_source_path_style := (if t SourcePath \<noteq> [] then opt_text (t SourcePathStyle) else None),
        ev_acquisition_scope := opt_text (w_text w AcquisitionScope), ev_system_state := opt_text (w_text w SystemState),
        ev_device_types := w_types w\<rparr>)
      else [])"

definition srcUnknown :: "wizard \<Rightarrow> bool" where
  "srcUnknown w \<longleftrightarrow> trim (ss_text (w_src w) UnknownReason) \<noteq> []"

definition src_label :: "wizard \<Rightarrow> string" where
  "src_label w =
     (if srcGap w = [] then ''Source recorded (device + path)''
      else if srcUnknown w then ''Source stated as unknown (Unknown source '' @ em_dash @ '' reason)''
      else ''Source: record '' @ join '' and '' (map (\<lambda>m. the (SOURCE_MISSING_LABEL m)) (srcGap w))
        @ '' on the Identification step, or give Unknown source '' @ em_dash @ '' reason'')"

definition sealChecks :: "wizard \<Rightarrow> (bool \<times> string) list" where
  "sealChecks w =
     [(w_text w LawfulBasis \<noteq> [], ''Lawful basis recorded''), (w_types w \<noteq> [], ''Device type tagged'')]
     @ (if is_digital w
        then [(if completing w then truthy (jget (ex_of (w_existing w)) ''sha256'') else w_file w \<noteq> None,
               if completing w then ''File stored (SHA-256 recorded)'' else ''File acquired (SHA-256 computed)''),
              (trim (w_text w AcqTool) \<noteq> [] \<and> trim (w_text w AcqToolVersion) \<noteq> [], ''Acquisition tool + version'')]
          @ (if isLive w then [(trim (w_text w LiveJustification) \<noteq> [], ''Live justification'')] else [])
          @ (if w_text w AcquisitionScope = ''logical''
             then [(trim (w_text w LogicalRationale) \<noteq> [], ''Logical-acquisition rationale'')] else [])
          @ [(srcGap w = [] \<or> srcUnknown w, src_label w)]
        else [(trim (w_text w PhotoCaption) \<noteq> [] \<or> completing w \<and> exPhotos w \<noteq> [], ''In-situ photo caption'')])"

definition sealReady :: "wizard \<Rightarrow> bool" where
  "sealReady w \<longleftrightarrow> list_all fst (sealChecks w)"

subsection \<open>What is sent\<close>

definition tri_value :: "string \<Rightarrow> jsval" where
  "tri_value s = (if s = [] then JNull else JBool (s = ''true''))"

definition decision_factors :: "wizard \<Rightarrow> jsval" where
  "decision_factors w =
     (let note = trim (w_text w DecisionNote) in
      if list_ex (\<lambda>(k, v). truthy v) (w_factors w) \<or> note \<noteq> []
      then JObj (obj_set (w_factors w) ''note'' (if note = [] then JUndef else JStr note)) else JNull)"

definition wizardCommon :: "wizard \<Rightarrow> (string \<times> jsval) list" where
  "wizardCommon w =
     (let t = w_text w; tn = (\<lambda>f. trim_or_null (t f)); n = (\<lambda>f. or_null_text (t f)) in
      [(''lawful_basis'', n LawfulBasis), (''lawful_basis_note'', tn LawfulBasisNote), (''acquisition_tool'', tn AcqTool),
       (''acquisition_tool_version'', tn AcqToolVersion), (''acquisition_tool_sha256'', tn AcqToolSha256),
       (''acquisition_params'', tn AcqParams), (''witness_user_id'', n WitnessUserId), (''witness_name'', tn WitnessName),
       (''collected_as_role'', n CollectedAsRole),
       (''device_types'', if w_types w \<noteq> [] then JArr (map JStr (w_types w)) else JNull), (''handling_mode'', n HandlingMode),
       (''decision_factors'', decision_factors w), (''acquisition_scope'', n AcquisitionScope),
       (''logical_acquisition_rationale'', tn LogicalRationale)]
      @ (if is_digital w \<and> t AcquisitionScope = ''logical'' \<and> \<not> containerLocked w
         then [(''container_format'', n ContainerFormat)] else [])
      @ [(''system_time_offset'', tn SystemTimeOffset),
         (''system_time_offset_seconds'',
            case parseOffsetSeconds (Some (t TimeOffsetSeconds)) of Offset k \<Rightarrow> JNum k | _ \<Rightarrow> JNull),
         (''screen_state'', tn ScreenState), (''changes_made'', tn ChangesMade),
         (''device_details'', if w_details w \<noteq> [] then JObj (w_details w) else JNull),
         (''acquisition_tool_validated'', tri_value (t ToolValidated)), (''acquisition_tool_validation_ref'', tn ToolValidationRef),
         (''acquisition_tool_validation_date'', n ToolValidationDate), (''acquired_at'', n AcquiredAt)]
      @ sourcePayload (w_src w) (t Kind))"

text \<open>The hashes of an acquisition, and the fields of a live system: a completed record leaves the scope of an absent target
  hash out, a new one sends it as null.\<close>

definition device_state :: "wizard \<Rightarrow> (string \<times> jsval) list" where
  "device_state w =
     [(''write_blocker_used'', tri_value (w_text w WriteBlockerUsed)), (''write_blocker_serial'', trim_or_null (w_text w WriteBlockerSerial)),
      (''system_state'', or_null_text (w_text w SystemState)), (''live_justification'', trim_or_null (w_text w LiveJustification)),
      (''network_isolated'', tri_value (w_text w NetworkIsolated))]"

definition hash_fields :: "wizard \<Rightarrow> (string \<times> jsval) list" where
  "hash_fields w =
     [(''acquisition_hash_source'', trim_or_null (w_text w HashSource)), (''acquisition_hash_target'', trim_or_null (w_text w HashTarget))]"

definition record_body :: "wizard \<Rightarrow> (string \<times> jsval) list" where
  "record_body w = obj_spread (wizardCommon w)
     ((if is_digital w
       then hash_fields w
         @ (if trim (w_text w HashTarget) \<noteq> [] then [(''target_hash_scope'', JStr (w_text w TargetHashScope))] else [])
         @ device_state w
       else [])
      @ [(''collected_location'', trim_or_null (w_text w CollectedLocation))])"

definition new_fields :: "wizard \<Rightarrow> string \<Rightarrow> jsval" where
  "new_fields w k =
     (if k = ''name'' then JStr (trim (w_text w Name)) else if k = ''identifier'' then trim_or_null (w_text w Identifier)
      else if k = ''description'' then trim_or_null (w_text w Description) else if k = ''tlp'' then JStr (w_text w Tlp)
      else if k = ''collected_location'' then trim_or_null (w_text w CollectedLocation)
      else if k = ''entity_id'' then or_null_text (w_text w EntityId) else JUndef)"

definition digital_wizard :: "wizard \<Rightarrow> (string \<times> jsval) list" where
  "digital_wizard w = obj_spread (wizardCommon w)
     (hash_fields w
      @ [(''target_hash_scope'', if trim (w_text w HashTarget) \<noteq> [] then JStr (w_text w TargetHashScope) else JNull)]
      @ device_state w)"

definition caption_photo :: "wizard \<Rightarrow> jsval" where
  "caption_photo w = JObj [(''url'', JStr []), (''caption'', JStr (trim (w_text w PhotoCaption))), (''taken_at'', photoTime w)]"

definition physical_body :: "wizard \<Rightarrow> (string \<times> jsval) list" where
  "physical_body w = obj_spread
     [(''name'', JStr (trim (w_text w Name))), (''identifier'', trim_or_null (w_text w Identifier)),
      (''description'', trim_or_null (w_text w Description)), (''tlp'', JStr (w_text w Tlp)),
      (''entity_id'', or_null_text (w_text w EntityId)), (''physical_location'', trim_or_null (ss_text (w_src w) PhysicalLocation)),
      (''collected_location'', trim_or_null (w_text w CollectedLocation)),
      (''photos'', JArr (if trim (w_text w PhotoCaption) \<noteq> [] then [caption_photo w] else []))]
     (wizardCommon w)"

datatype wiz_request = UpdateRecord jsval jsval | UpdatePhotos jsval jsval | RetryUpload jsval jsval | CollectFile jsval jsval
  | CollectItem jsval | SealItem jsval

text \<open>The photo caption of a completed physical item is a request of its own.\<close>

definition adds_caption :: "wizard \<Rightarrow> bool" where
  "adds_caption w \<longleftrightarrow> completing w \<and> is_physical w \<and> trim (w_text w PhotoCaption) \<noteq> [] \<and> storedPhotos w = []"

definition main_request :: "wizard \<Rightarrow> wiz_request" where
  "main_request w =
     (if completing w then UpdateRecord (jget (ex_of (w_existing w)) ''id'') (JObj (record_body w))
      else if is_digital w
      then (let body = JObj (digitalCompleteBody (new_fields w) (digital_wizard w)) in
        case w_held w of Some h \<Rightarrow> RetryUpload (hu_file h) body
        | None \<Rightarrow> CollectFile (case w_file w of Some f \<Rightarrow> f | None \<Rightarrow> JNull) body)
      else CollectItem (JObj (physical_body w)))"

definition photo_request :: "wizard \<Rightarrow> wiz_request" where
  "photo_request w = UpdatePhotos (jget (ex_of (w_existing w)) ''id'') (JObj [(''photos'', JArr (exPhotos w @ [caption_photo w]))])"

subsection \<open>commit\<close>

record wiz_answers =
  wa_main :: "api_error + jsval"
  wa_photo :: "api_error + jsval"
  wa_seal :: "api_error + jsval"

definition photoErrorText :: "api_error \<Rightarrow> string" where
  "photoErrorText e =
     (if jget (ae_data e) ''code'' = JStr ''unknown_photo_id'' \<or> ae_code e = JStr ''unknown_photo_id''
      then ''a photo on the item changed meanwhile (unknown photo id), so nothing was changed. Close this, reopen the item and try again.''
      else if jget (ae_data e) ''code'' = JStr ''photo_remove_not_supported'' \<or> ae_code e = JStr ''photo_remove_not_supported''
      then ''an uploaded photo can'' @ right_squote @ ''t be removed, so nothing was changed. Reopen the item and try again.''
      else if ae_message e \<noteq> [] then ae_message e else ''the photo list could not be saved.'')"

definition commit_created :: "wizard \<Rightarrow> wiz_answers \<Rightarrow> api_error + jsval" where
  "commit_created w a =
     (case wa_main a of
        Inl e \<Rightarrow> Inl e
      | Inr item \<Rightarrow>
          if adds_caption w
          then (case wa_photo a of
              Inl pe \<Rightarrow> Inl (js_error (''The acquisition record was saved, but the photo caption was not: '' @ photoErrorText pe))
            | Inr item \<Rightarrow> Inr item)
          else Inr item)"

definition requests_made :: "wizard \<Rightarrow> wiz_answers \<Rightarrow> wiz_request list" where
  "requests_made w a =
     main_request w # (if isl (wa_main a) then [] else if adds_caption w then [photo_request w] else [])
     @ (case commit_created w a of Inl _ \<Rightarrow> [] | Inr item \<Rightarrow> [SealItem (jget item ''id'')])"

text \<open>The message of a failed \<open>commit\<close>.\<close>

definition sourceRefused :: "api_error \<Rightarrow> bool" where
  "sourceRefused e = (let code = text_of (jget (ae_data e) ''code'') in
     starts_with code ''invalid_source_'' \<or> starts_with code ''source_''
     \<or> code = ''validation_error'' \<and> str_includes (ae_message e) ''source_details'')"

definition commit_message :: "wizard \<Rightarrow> api_error \<Rightarrow> string" where
  "commit_message w e =
     (let code = text_of (jget (ae_data e) ''code'') in
      (if code = ''hash_mismatch'' \<or> code = ''invalid_hash_format''
       then ae_message e @ '' Go Back to the Acquisition step to correct it.''
       else if sourceRefused e then ae_message e @ '' Go Back to the Identification step to correct the source.''
       else if code = ''acquired_in_future''
       then (if is_digital w
             then ''The acquisition time is in the future. Go Back to the Acquisition step and correct it, or clear it if unknown.''
             else ''The seizure time is in the future. Go Back to the Identification step and correct it, or clear it if unknown.'')
       else if code = ''identifier_exists''
       then ''The identifier '' @ left_dquote @ trim (w_text w Identifier) @ right_dquote
         @ '' is already used on this incident. Go Back to the Identification step and change it.''
       else if ae_message e \<noteq> [] then ae_message e else ''Could not collect evidence.'')
      @ (if ae_retained e then '' The file stays uploaded on the server: Collect again to finish without re-sending it.'' else []))"

definition commit_started :: "wizard \<Rightarrow> wizard" where
  "commit_started w = w\<lparr>w_busy := True, w_error := None, w_seal := None\<rparr>"

text \<open>\<open>kept.keep(e, file)\<close>: the bytes on the server are those of the upload that failed, or of the one retried.\<close>

definition keep_upload :: "wizard \<Rightarrow> wizard" where
  "keep_upload w = (let f = (case w_file w of Some f \<Rightarrow> f | None \<Rightarrow> JNull) in
     w\<lparr>w_held := Some \<lparr>hu_file = (case w_held w of Some h \<Rightarrow> hu_file h | None \<Rightarrow> f), hu_shown = f\<rparr>\<rparr>)"

definition commit_ended :: "wiz_answers \<Rightarrow> wizard \<Rightarrow> wizard" where
  "commit_ended a w =
     (case commit_created w a of
        Inr item \<Rightarrow>
          (let w = (if \<not> completing w \<and> is_digital w then drop_held w else w) in
           w\<lparr>w_seal := Some (case wa_seal a of Inr sealed \<Rightarrow> Sealed sealed | Inl e \<Rightarrow> Unsealed item (ae_message e)),
             w_step := SConfirm, w_busy := False\<rparr>)
      | Inl e \<Rightarrow>
          (let w' = (if ae_retained e then keep_upload w else if w_held w \<noteq> None then drop_held w else w) in
           w'\<lparr>w_error := Some (commit_message w e), w_busy := False\<rparr>))"

subsection \<open>The machine\<close>

datatype wiz_event = TypeIn wfield string | ToggleType string | SrcText src_key string | SrcDetail "string list" jsval
  | Factor string bool | Detail string jsval | PickTool jsval | ChooseFile "jsval option" | ToolsLoaded "jsval list"
  | NextPressed | BackPressed | CommitPressed | Answered wiz_answers | DiscardPressed

text \<open>An upload is kept only after an upload: the answers of the other requests carry no \<open>retained\<close>.\<close>

definition answers_fit :: "wizard \<Rightarrow> wiz_answers \<Rightarrow> bool" where
  "answers_fit w a = (case wa_main a of Inl e \<Rightarrow> ae_retained e \<longrightarrow> \<not> completing w \<and> is_digital w | Inr _ \<Rightarrow> True)"

definition wiz_step :: "wiz_event \<Rightarrow> wizard \<Rightarrow> wizard" where
  "wiz_step ev w = (case ev of
      TypeIn f v \<Rightarrow> if input_shown w f \<and> offered f v then set_text f (typed_value f v) w else w
    | ToggleType t \<Rightarrow> if w_step w = SType then toggleType t w else w
    | SrcText k v \<Rightarrow> if w_step w = SIdentify then w\<lparr>w_src := (w_src w)\<lparr>ss_text := (ss_text (w_src w))(k := v)\<rparr>\<rparr> else w
    | SrcDetail path v \<Rightarrow> if w_step w = SIdentify \<and> is_digital w
        then w\<lparr>w_src := (w_src w)\<lparr>ss_details := setIn (ss_details (w_src w)) path v\<rparr>\<rparr> else w
    | Factor k b \<Rightarrow> if w_step w = SDecide then w\<lparr>w_factors := obj_set (w_factors w) k (JBool b)\<rparr> else w
    | Detail k v \<Rightarrow> if w_step w = SBranch then setDetail k v w else w
    | PickTool i \<Rightarrow> if w_step w = SAcquire then pickRegistryTool i w else w
    | ChooseFile f \<Rightarrow> if w_step w = SAcquire \<and> \<not> completing w then chooseFile f w else w
    | ToolsLoaded ts \<Rightarrow> w\<lparr>w_tools := ts\<rparr>
    | NextPressed \<Rightarrow> if w_step w \<noteq> SConfirm \<and> \<not> w_busy w then next_step w else w
    | BackPressed \<Rightarrow> if position_of (stepList w) (w_step w) > 0 \<and> w_seal w = None \<and> \<not> w_busy w then prev_step w else w
    | CommitPressed \<Rightarrow> if w_step w = SConfirm \<and> w_seal w = None \<and> \<not> w_busy w then commit_started w else w
    | Answered a \<Rightarrow> if w_busy w \<and> answers_fit w a then commit_ended a w else w
    | DiscardPressed \<Rightarrow> if w_step w = SConfirm \<and> w_seal w = None \<and> w_held w \<noteq> None \<and> \<not> w_busy w then drop_held w else w)"

definition wiz_run :: "jsval option \<Rightarrow> wiz_event list \<Rightarrow> wizard" where
  "wiz_run existing evs = foldl (\<lambda>w ev. wiz_step ev w) (init_wizard existing) evs"

end
