(* ===== verification/Wizard_Steps.thy ===== *)
theory Wizard_Steps
  imports Wizard_Commit
begin

text \<open>
  The steps of the wizard keep what they checked: whatever is pressed, typed and answered, every step before the one shown
  passes its validation with the values the wizard holds now.
\<close>

subsection \<open>Positions in the list of steps\<close>

lemma position_of_range: "position_of xs x = -1 \<longleftrightarrow> x \<notin> set xs" "-1 \<le> position_of xs x" "position_of xs x < int (length xs)"
  by (induction xs) (auto simp: Let_def)

lemma position_of_nth: "x \<in> set xs \<Longrightarrow> xs ! nat (position_of xs x) = x \<and> takeWhile (\<lambda>y. y \<noteq> x) xs = take (nat (position_of xs x)) xs"
proof (induction xs)
  case (Cons y ys)
  show ?case
  proof (cases "y = x")
    case False
    then have x: "x \<in> set ys" using Cons.prems by simp
    then have i: "0 \<le> position_of ys x" using position_of_range(1,2) [of ys x] by linarith
    then show ?thesis using Cons.IH [OF x] False i by (simp add: Let_def nat_add_distrib)
  qed simp
qed simp

lemma position_of_unique: "distinct xs \<Longrightarrow> i < length xs \<Longrightarrow> position_of xs (xs ! i) = int i"
proof (induction xs arbitrary: i)
  case (Cons y ys)
  show ?case
  proof (cases i)
    case (Suc j)
    then have "position_of ys (ys ! j) = int j" "y \<noteq> ys ! j" using Cons by (auto dest: nth_mem)
    then show ?thesis using Suc by (simp add: Let_def)
  qed simp
qed simp

lemma distinct_stepList: "distinct (stepList w)"
  by (simp add: stepList_def)

definition before :: "wizard \<Rightarrow> wstep list" where
  "before w = takeWhile (\<lambda>s. s \<noteq> w_step w) (stepList w)"

lemma before_take: "w_step w \<in> set (stepList w) \<Longrightarrow> before w = take (nat (position_of (stepList w) (w_step w))) (stepList w)"
  unfolding before_def using position_of_nth by fast

lemma earlier_steps:
  "c \<in> set ([SType, SIdentify, SDecide] @ (if b then [SBranch] else []) @ (if d then [SAcquire] else []) @ [SWitness, SConfirm])
    \<Longrightarrow> s \<in> set (takeWhile (\<lambda>s. s \<noteq> c) ([SType, SIdentify, SDecide] @ (if b then [SBranch] else [])
      @ (if d then [SAcquire] else []) @ [SWitness, SConfirm]))
    \<Longrightarrow> c \<noteq> SType \<and> s \<noteq> c \<and> s \<noteq> SConfirm \<and> (c = SIdentify \<longrightarrow> s = SType)
      \<and> (c = SDecide \<longrightarrow> s = SType \<or> s = SIdentify) \<and> (c = SBranch \<longrightarrow> s \<noteq> SAcquire)"
  by (cases c; cases b; cases d; cases s) simp_all

lemma before_earlier:
  assumes "w_step w \<in> set (stepList w)" "s \<in> set (before w)"
  shows "w_step w \<noteq> SType \<and> s \<noteq> w_step w \<and> s \<noteq> SConfirm \<and> (w_step w = SIdentify \<longrightarrow> s = SType)
    \<and> (w_step w = SDecide \<longrightarrow> s = SType \<or> s = SIdentify) \<and> (w_step w = SBranch \<longrightarrow> s \<noteq> SAcquire)"
  using assms unfolding before_def stepList_def by (rule earlier_steps)

subsection \<open>The invariant\<close>

definition valid_before :: "wizard \<Rightarrow> bool" where
  "valid_before w \<longleftrightarrow> w_step w \<in> set (stepList w) \<and> (\<forall>s \<in> set (before w). validateStep w s = None)"

definition held_ok :: "wizard \<Rightarrow> bool" where
  "held_ok w \<longleftrightarrow> (w_busy w \<longrightarrow> w_step w = SConfirm)
     \<and> (\<forall>h. w_held w = Some h \<longrightarrow> w_file w = Some (hu_file h) \<and> hu_shown h = hu_file h \<and> \<not> completing w)"

definition offered_ok :: "wizard \<Rightarrow> bool" where
  "offered_ok w \<longleftrightarrow> (completing w \<or> (\<forall>f \<in> {Kind, SystemState, AcquisitionScope}. offered f (w_text w f)))"

definition wiz_inv :: "wizard \<Rightarrow> bool" where
  "wiz_inv w \<longleftrightarrow> valid_before w \<and> held_ok w \<and> offered_ok w"

text \<open>An input that leaves the steps and the checks of the earlier ones alone.\<close>

lemma valid_before_keep:
  assumes "valid_before w" "stepList w' = stepList w" "w_step w' = w_step w"
    and "\<And>s. s \<in> set (before w) \<Longrightarrow> validateStep w' s = validateStep w s"
  shows "valid_before w'"
  using assms by (simp add: valid_before_def before_def)

text \<open>The first step has nothing before it.\<close>

lemma valid_before_first: "w_step w = SType \<Longrightarrow> valid_before w"
  by (simp add: valid_before_def before_def stepList_def)

lemma derived_cong:
  assumes "w_types w' = w_types w" "w_existing w' = w_existing w"
  shows "w_text w' Kind = w_text w Kind \<Longrightarrow> is_digital w' = is_digital w"
    and "w_text w' Kind = w_text w Kind \<Longrightarrow> captionRequired w' = captionRequired w"
    and "w_text w' SystemState = w_text w SystemState \<Longrightarrow> isLive w' = isLive w"
    and "w_text w' HashSource = w_text w HashSource \<Longrightarrow> srcAlgo w' = srcAlgo w"
    and "w_text w' HashTarget = w_text w HashTarget \<Longrightarrow> tgtAlgo w' = tgtAlgo w"
    and "completing w' = completing w"
  using assms by (simp_all add: is_digital_def captionRequired_def isLive_def srcAlgo_def tgtAlgo_def completing_def is_physical_def
      exPhotos_def)

definition reads :: "wstep \<Rightarrow> wfield set" where
  "reads s = (case s of
      SIdentify \<Rightarrow> {Name, LawfulBasis, LawfulBasisNote, Kind, PhotoCaption}
    | SDecide \<Rightarrow> {SystemState, LiveJustification}
    | SAcquire \<Rightarrow> {Kind, AcqTool, AcqToolVersion, AcquisitionScope, LogicalRationale, HashSource, HashTarget, TimeOffsetSeconds}
    | _ \<Rightarrow> {})"

lemma validateStep_reads:
  assumes base: "w_types w' = w_types w" "w_existing w' = w_existing w"
    and same_text: "\<And>f. f \<in> reads s \<Longrightarrow> w_text w' f = w_text w f"
    and "s = SIdentify \<Longrightarrow> w_src w' = w_src w" "s = SAcquire \<Longrightarrow> w_file w' = w_file w"
  shows "validateStep w' s = validateStep w s"
proof (cases s)
  case SIdentify
  then have t: "w_text w' f = w_text w f" if "f \<in> {Name, LawfulBasis, LawfulBasisNote, Kind, PhotoCaption}" for f
    using same_text that by (simp add: reads_def)
  have "identify_error w' = identify_error w"
    using t SIdentify assms(4) unfolding identify_error_def
    by (simp only: derived_cong [OF base] insert_iff simp_thms)
  then show ?thesis by (simp add: validateStep_def SIdentify)
next
  case SDecide
  then show ?thesis using same_text derived_cong(3) [OF base] by (simp add: reads_def validateStep_def)
next
  case SAcquire
  then have t: "w_text w' f = w_text w f"
    if "f \<in> {Kind, AcqTool, AcqToolVersion, AcquisitionScope, LogicalRationale, HashSource, HashTarget, TimeOffsetSeconds}" for f
    using same_text that by (simp add: reads_def)
  have "hashesComparable w' = hashesComparable w"
    using t by (simp only: hashesComparable_def derived_cong [OF base] insert_iff simp_thms)
  moreover from this have "hashesMatch w' = hashesMatch w"
    using t by (simp only: hashesMatch_def insert_iff simp_thms)
  ultimately have "acquire_error w' = acquire_error w"
    using t SAcquire assms(5) unfolding acquire_error_def
    by (simp only: derived_cong [OF base] insert_iff simp_thms)
  then show ?thesis by (simp add: validateStep_def SAcquire)
qed (simp_all add: validateStep_def base)

lemma validateStep_cong:
  assumes "w_types w' = w_types w" "w_text w' = w_text w" "w_existing w' = w_existing w"
    and "s = SIdentify \<Longrightarrow> w_src w' = w_src w" "s = SAcquire \<Longrightarrow> w_file w' = w_file w"
  shows "validateStep w' s = validateStep w s"
  using assms by (intro validateStep_reads) simp_all

lemma stepList_cong: "w_types w' = w_types w \<Longrightarrow> w_text w' Kind = w_text w Kind \<Longrightarrow> stepList w' = stepList w"
  by (simp add: stepList_def is_digital_def)

lemma shown_not_read:
  assumes "input_shown w f" "w_step w \<in> set (stepList w)" "s \<in> set (before w)"
  shows "f \<notin> reads s" "f \<noteq> Kind"
proof -
  have e: "w_step w \<noteq> SType" "s \<noteq> w_step w" "w_step w = SIdentify \<Longrightarrow> s = SType"
    "w_step w = SDecide \<Longrightarrow> s = SType \<or> s = SIdentify" "w_step w = SBranch \<Longrightarrow> s \<noteq> SAcquire"
    using before_earlier [OF assms(2,3)] by auto
  show "f \<notin> reads s"
    using assms(1) e by (cases s; cases f) (auto simp: reads_def input_shown_def split: if_splits)
  show "f \<noteq> Kind" using assms(1) e(1) by (auto simp: input_shown_def)
qed

lemma TypeIn_valid:
  assumes "valid_before w" "input_shown w f"
  shows "valid_before (set_text f v w)"
proof (cases "w_step w = SType")
  case True
  then show ?thesis by (simp add: valid_before_first set_text_def)
next
  case False
  have on: "w_step w \<in> set (stepList w)" using assms(1) by (simp add: valid_before_def)
  have "f \<noteq> Kind" using assms(2) False by (auto simp: input_shown_def)
  then have l: "stepList (set_text f v w) = stepList w" by (intro stepList_cong) (simp_all add: set_text_def)
  show ?thesis
    using assms(1) l
  proof (rule valid_before_keep)
    show "w_step (set_text f v w) = w_step w" by (simp add: set_text_def)
    fix s
    assume "s \<in> set (before w)"
    then have "f \<notin> reads s" using shown_not_read(1) [OF assms(2) on] by blast
    then show "validateStep (set_text f v w) s = validateStep w s"
      by (intro validateStep_reads) (auto simp: set_text_def)
  qed
qed

subsection \<open>Moving between steps\<close>

lemma position_of_pos: "x \<in> set xs \<Longrightarrow> 0 \<le> position_of xs x"
  using position_of_range(1,2) [of xs x] by linarith

lemma moved_before:
  assumes "i < length (stepList w)" "w' = w\<lparr>w_step := stepList w ! i\<rparr>"
  shows "w_step w' \<in> set (stepList w')" "before w' = take i (stepList w)"
proof -
  have l: "stepList w' = stepList w" unfolding assms(2) by (rule stepList_cong) simp_all
  have at: "w_step w' = stepList w ! i" by (simp add: assms(2))
  show on: "w_step w' \<in> set (stepList w')" unfolding l at using assms(1) by simp
  show "before w' = take i (stepList w)"
    unfolding before_take [OF on] l at using assms(1) by (simp add: position_of_unique distinct_stepList)
qed

lemma moved_valid:
  assumes "\<And>s. validateStep w' s = validateStep w s" "set (before w') \<subseteq> S" "\<forall>s \<in> S. validateStep w s = None"
    and "w_step w' \<in> set (stepList w')"
  shows "valid_before w'"
  using assms by (auto simp: valid_before_def)

lemma next_step_valid:
  assumes "valid_before w"
  shows "valid_before (next_step w)"
proof -
  let ?v = "w\<lparr>w_error := validateStep w (w_step w)\<rparr>" and ?i = "position_of (stepList w) (w_step w)"
  have on: "w_step w \<in> set (stepList w)" using assms by (simp add: valid_before_def)
  have l: "stepList ?v = stepList w" by (rule stepList_cong) simp_all
  have same: "validateStep (w\<lparr>w_error := e, w_step := t\<rparr>) s = validateStep w s" for e t s
    by (rule validateStep_cong) simp_all
  have v: "valid_before ?v"
    using assms l by (rule valid_before_keep) (simp, rule validateStep_cong, simp_all)
  show ?thesis
  proof (cases "validateStep w (w_step w) = None \<and> ?i < int (length (stepList w)) - 1")
    case True
    have i: "0 \<le> ?i" using position_of_pos [OF on] .
    let ?n = "nat (?i + 1)"
    let ?w = "?v\<lparr>w_step := stepList w ! ?n\<rparr>"
    have n: "?n < length (stepList ?v)" unfolding l using True i by linarith
    have w: "?w = ?v\<lparr>w_step := stepList ?v ! ?n\<rparr>" unfolding l ..
    have moved: "next_step w = ?w" using True l by (simp add: next_step_def Let_def)
    have "?n = Suc (nat ?i)" "nat ?i < length (stepList w)" using i True by linarith+
    then have "take ?n (stepList w) = before w @ [w_step w]"
      using before_take [OF on] position_of_nth [OF on] by (simp add: take_Suc_conv_app_nth)
    then have "set (before ?w) \<subseteq> set (before w @ [w_step w])"
      unfolding moved_before(2) [OF n w] l by simp
    moreover have "\<forall>s \<in> set (before w @ [w_step w]). validateStep w s = None"
      using assms True by (auto simp: valid_before_def)
    ultimately show ?thesis
      unfolding moved using moved_before(1) [OF n w] by (rule moved_valid [OF same])
  next
    case False
    then have "next_step w = ?v" using l by (auto simp: next_step_def Let_def)
    then show ?thesis using v by simp
  qed
qed

lemma prev_step_valid:
  assumes "valid_before w"
  shows "valid_before (prev_step w)"
proof -
  let ?i = "position_of (stepList w) (w_step w)"
  have on: "w_step w \<in> set (stepList w)" using assms by (simp add: valid_before_def)
  show ?thesis
  proof (cases "?i > 0")
    case True
    have n: "nat (?i - 1) < length (stepList w)" using position_of_range(3) [of "stepList w" "w_step w"] True by linarith
    let ?w = "w\<lparr>w_step := stepList w ! nat (?i - 1)\<rparr>"
    have "set (before ?w) \<subseteq> set (before w)"
      unfolding moved_before(2) [OF n refl] before_take [OF on] by (rule set_take_subset_set_take) simp
    moreover have "\<forall>s \<in> set (before w). validateStep w s = None" using assms by (simp add: valid_before_def)
    ultimately have "valid_before ?w"
      using moved_before(1) [OF n refl] by (intro moved_valid [OF validateStep_cong]) simp_all
    then show ?thesis using True by (simp add: prev_step_def Let_def)
  qed (use assms in \<open>simp add: prev_step_def Let_def\<close>)
qed

subsection \<open>Every event keeps the invariant\<close>

lemma untouched_valid:
  assumes "valid_before w" "w_types w' = w_types w" "w_text w' = w_text w" "w_existing w' = w_existing w" "w_src w' = w_src w"
    "w_file w' = w_file w" "w_step w' = w_step w"
  shows "valid_before w'"
  by (rule valid_before_keep [OF assms(1)]) (use assms in \<open>auto intro: stepList_cong validateStep_cong\<close>)

text \<open>An input of one step, drawn on that step only.\<close>

lemma own_step_valid:
  assumes "valid_before w" "w_types w' = w_types w" "w_existing w' = w_existing w" "w_step w' = w_step w"
    and "\<And>f. f \<notin> reads (w_step w) \<Longrightarrow> w_text w' f = w_text w f" "w_step w \<noteq> SAcquire \<Longrightarrow> w_text w' = w_text w"
    and "w_step w \<noteq> SIdentify \<Longrightarrow> w_src w' = w_src w" "w_step w \<noteq> SAcquire \<Longrightarrow> w_file w' = w_file w"
    and "w_text w' Kind = w_text w Kind"
  shows "valid_before w'"
proof (rule valid_before_keep [OF assms(1) _ assms(4)])
  show "stepList w' = stepList w" using assms by (intro stepList_cong) auto
  fix s
  assume s: "s \<in> set (before w)"
  have on: "w_step w \<in> set (stepList w)" using assms(1) by (simp add: valid_before_def)
  note e = before_earlier [OF on s]
  show "validateStep w' s = validateStep w s"
  proof (rule validateStep_reads)
    fix f
    assume f: "f \<in> reads s"
    show "w_text w' f = w_text w f"
    proof (cases "w_step w = SAcquire \<and> f \<noteq> Kind")
      case True
      then have "f \<notin> reads (w_step w)" using f e by (cases s) (auto simp: reads_def)
      then show ?thesis by (rule assms(5))
    qed (use assms(6,9) in auto)
  qed (use assms e in auto)
qed

lemma pickRegistryTool_same [simp]:
  "w_types (pickRegistryTool i w) = w_types w" "w_existing (pickRegistryTool i w) = w_existing w"
  "w_step (pickRegistryTool i w) = w_step w" "w_src (pickRegistryTool i w) = w_src w" "w_file (pickRegistryTool i w) = w_file w"
  "w_held (pickRegistryTool i w) = w_held w" "w_busy (pickRegistryTool i w) = w_busy w"
  by (simp_all add: pickRegistryTool_def split: option.splits)

lemma pickRegistryTool_text:
  "f \<notin> {AcqTool, AcqToolVersion, ToolValidated, ToolValidationRef, ToolValidationDate} \<Longrightarrow> w_text (pickRegistryTool i w) f = w_text w f"
  by (auto simp: pickRegistryTool_def split: option.splits)

lemma PickTool_valid: "valid_before w \<Longrightarrow> w_step w = SAcquire \<Longrightarrow> valid_before (pickRegistryTool i w)"
proof -
  assume v: "valid_before w" and a: "w_step w = SAcquire"
  have on: "w_step w \<in> set (stepList w)" using v by (simp add: valid_before_def)
  show ?thesis
  proof (rule valid_before_keep [OF v])
    show "stepList (pickRegistryTool i w) = stepList w" by (rule stepList_cong) (simp_all add: pickRegistryTool_text)
    fix s
    assume s: "s \<in> set (before w)"
    then have "s \<noteq> SAcquire" using before_earlier [OF on s] a by simp
    then have "f \<notin> {AcqTool, AcqToolVersion, ToolValidated, ToolValidationRef, ToolValidationDate}" if "f \<in> reads s" for f
      using that by (cases s) (auto simp: reads_def)
    then show "validateStep (pickRegistryTool i w) s = validateStep w s"
      by (intro validateStep_reads pickRegistryTool_text) simp_all
  qed simp
qed

lemma commit_ended_same [simp]:
  "w_types (commit_ended a w) = w_types w" "w_text (commit_ended a w) = w_text w" "w_existing (commit_ended a w) = w_existing w"
  "w_src (commit_ended a w) = w_src w" "w_file (commit_ended a w) = w_file w" "w_busy (commit_ended a w) = False"
  "w_step w = SConfirm \<Longrightarrow> w_step (commit_ended a w) = SConfirm"
  by (simp_all add: commit_ended_def keep_upload_def drop_held_def Let_def split: sum.splits)

lemma wiz_step_valid:
  assumes "valid_before w" "held_ok w"
  shows "valid_before (wiz_step ev w)"
proof (cases ev)
  case (TypeIn f v)
  then show ?thesis using assms(1) TypeIn_valid by (simp add: wiz_step_def)
next
  case (ToggleType t)
  then show ?thesis using assms(1) by (simp add: wiz_step_def toggleType_def valid_before_first)
next
  case (SrcText k v)
  then show ?thesis using assms(1) by (auto simp: wiz_step_def elim!: own_step_valid)
next
  case (SrcDetail p v)
  then show ?thesis using assms(1) by (auto simp: wiz_step_def elim!: own_step_valid)
next
  case (Factor k b)
  then show ?thesis using assms(1) by (auto simp: wiz_step_def elim!: untouched_valid)
next
  case (Detail k v)
  then show ?thesis using assms(1) by (auto simp: wiz_step_def setDetail_def elim!: untouched_valid)
next
  case (PickTool i)
  then show ?thesis using assms(1) PickTool_valid by (simp add: wiz_step_def)
next
  case (ChooseFile f)
  then show ?thesis using assms(1) by (auto simp: wiz_step_def chooseFile_def drop_held_def elim!: own_step_valid)
next
  case (ToolsLoaded ts)
  then show ?thesis using assms(1) by (auto simp: wiz_step_def elim!: untouched_valid)
next
  case NextPressed
  then show ?thesis using assms(1) next_step_valid by (simp add: wiz_step_def)
next
  case BackPressed
  then show ?thesis using assms(1) prev_step_valid by (simp add: wiz_step_def)
next
  case CommitPressed
  then show ?thesis using assms(1) by (auto simp: wiz_step_def commit_started_def elim!: untouched_valid)
next
  case (Answered a)
  have "valid_before (commit_ended a w)" if "w_busy w"
    using assms that by (intro untouched_valid [OF assms(1)]) (simp_all add: held_ok_def)
  with Answered show ?thesis using assms(1) by (simp add: wiz_step_def)
next
  case DiscardPressed
  then show ?thesis using assms(1) by (auto simp: wiz_step_def drop_held_def elim!: untouched_valid)
qed

text \<open>On the last step every step has been checked.\<close>

lemma confirm_checked:
  assumes "valid_before w" "w_step w = SConfirm" "s \<in> set (stepList w)"
  shows "validateStep w s = None"
proof (cases "s = SConfirm")
  case False
  then have "s \<in> set (before w)" using assms(2,3) by (auto simp: before_def stepList_def split: if_splits)
  then show ?thesis using assms(1) by (simp add: valid_before_def)
qed (simp add: validateStep_def)

lemma confirm_file:
  assumes "valid_before w" "w_step w = SConfirm" "is_digital w" "\<not> completing w"
  shows "\<exists>f. w_file w = Some f"
proof -
  have "acquire_error w = None"
    using confirm_checked [OF assms(1,2), of SAcquire] assms(3) by (simp add: validateStep_def stepList_def)
  then show ?thesis using assms(3,4) by (simp add: acquire_error_def split: if_splits)
qed

lemma commit_created_retained:
  "commit_created w a = Inl e \<Longrightarrow> ae_retained e \<Longrightarrow> wa_main a = Inl e"
  by (auto simp: commit_created_def js_error_def split: sum.splits if_splits)

lemma held_ok_commit:
  assumes "valid_before w" "held_ok w" "w_busy w" "answers_fit w a"
  shows "held_ok (commit_ended a w)"
proof -
  have conf: "w_step w = SConfirm" using assms(2,3) by (simp add: held_ok_def)
  have held: "\<And>h. w_held w = Some h \<Longrightarrow> w_file w = Some (hu_file h) \<and> hu_shown h = hu_file h \<and> \<not> completing w"
    using assms(2) by (simp add: held_ok_def)
  have c: "completing (commit_ended a w) = completing w" by (rule derived_cong(6)) simp_all
  show ?thesis
  proof (cases "commit_created w a")
    case (Inl e)
    show ?thesis
    proof (cases "ae_retained e")
      case True
      then have "\<not> completing w \<and> is_digital w"
        using assms(4) commit_created_retained [OF Inl] by (simp add: answers_fit_def)
      then obtain f where "w_file w = Some f" using confirm_file [OF assms(1) conf] by blast
      then show ?thesis
        using held True Inl c \<open>\<not> completing w \<and> is_digital w\<close>
        by (auto simp: held_ok_def commit_ended_def keep_upload_def Let_def split: option.splits)
    qed (use held Inl c in \<open>auto simp: held_ok_def commit_ended_def drop_held_def completing_def\<close>)
  next
    case (Inr item)
    then show ?thesis
      using held conf by (auto simp: held_ok_def commit_ended_def drop_held_def Let_def completing_def)
  qed
qed

lemma wiz_step_held:
  assumes "valid_before w" "held_ok w"
  shows "held_ok (wiz_step ev w)"
proof (cases ev)
  case (Answered a)
  then show ?thesis using assms held_ok_commit by (simp add: wiz_step_def)
qed (use assms(2) in \<open>auto simp: held_ok_def wiz_step_def set_text_def toggleType_def setDetail_def chooseFile_def drop_held_def
  next_step_def prev_step_def commit_started_def completing_def Let_def\<close>)

lemma wiz_step_offered:
  assumes "offered_ok w"
  shows "offered_ok (wiz_step ev w)"
proof -
  have c: "completing (wiz_step ev w) = completing w"
    by (cases ev) (simp_all add: wiz_step_def set_text_def toggleType_def setDetail_def chooseFile_def drop_held_def
      next_step_def prev_step_def commit_started_def completing_def Let_def)
  have "offered f (w_text (wiz_step ev w) f)" if "offered f (w_text w f)" "f \<in> {Kind, SystemState, AcquisitionScope}" for f
  proof (cases ev)
    case (PickTool i)
    then show ?thesis using that pickRegistryTool_text [of f i w] by (auto simp: wiz_step_def)
  qed (use that in \<open>auto simp: wiz_step_def set_text_def typed_value_def toggleType_def setDetail_def chooseFile_def drop_held_def
      next_step_def prev_step_def commit_started_def Let_def\<close>)
  then show ?thesis using assms c by (auto simp: offered_ok_def)
qed

lemma init_inv: "wiz_inv (init_wizard existing)"
proof -
  have "valid_before (init_wizard existing)" by (rule valid_before_first) (simp add: init_wizard_def Let_def)
  moreover have "held_ok (init_wizard existing)" by (simp add: held_ok_def init_wizard_def Let_def)
  moreover have "offered_ok (init_wizard existing)"
    by (cases existing)
      (auto simp: offered_ok_def init_wizard_def Let_def completing_def ex_of_def init_text_def offered_def text_or_def text_of_def)
  ultimately show ?thesis by (simp add: wiz_inv_def)
qed

lemma wiz_run_inv: "wiz_inv (wiz_run existing evs)"
proof (induction evs rule: rev_induct)
  case Nil
  then show ?case by (simp add: wiz_run_def init_inv)
next
  case (snoc ev evs)
  then show ?case
    using wiz_step_valid wiz_step_held wiz_step_offered by (simp add: wiz_run_def wiz_inv_def)
qed

end
