(* ===== verification/Wizard_Laws.thy ===== *)
theory Wizard_Laws
  imports Wizard_Steps Provenance_Server
begin

text \<open>
  What the wizard promises about an exhibit it collects: it asks for nothing unchecked, and its list of what a seal needs
  is the server's (\<^verbatim>\<open>backend/evidence/routes.py\<close>, \<open>seal_evidence\<close>), applied to the row the server makes of the
  request.
\<close>

subsection \<open>The server's gate\<close>

definition stored_text :: "jsval \<Rightarrow> string \<Rightarrow> string" where
  "stored_text ev k = text_of (jget ev k)"

text \<open>The row as \<open>seal_source_missing\<close> reads it.\<close>

definition source_view :: "jsval \<Rightarrow> evidence" where
  "source_view ev = (let t = (\<lambda>k. opt_text (stored_text ev k)) in
     no_item\<lparr>ev_entity_id := t ''entity_id'', ev_source_system := t ''source_system'', ev_serial := t ''serial'',
       ev_source_path := t ''source_path'', ev_source_path_style := t ''source_path_style'',
       ev_acquisition_scope := t ''acquisition_scope'', ev_system_state := t ''system_state'',
       ev_device_types := map text_of (items_of (jget ev ''device_types''))\<rparr>)"

definition seal_missing :: "jsval \<Rightarrow> string list" where
  "seal_missing ev =
     (let t = stored_text ev; need = (\<lambda>b n. if b then [] else [n]) in
      need (t ''lawful_basis'' \<noteq> []) ''lawful_basis'' @ need (t ''collected_by_id'' \<noteq> []) ''collected_by_id''
      @ need (items_of (jget ev ''device_types'') \<noteq> []) ''device_types''
      @ (if t ''kind'' = ''digital_file''
         then need (t ''sha256'' \<noteq> []) ''sha256'' @ need (t ''acquisition_tool'' \<noteq> []) ''acquisition_tool''
           @ need (t ''acquisition_tool_version'' \<noteq> []) ''acquisition_tool_version''
           @ need (\<not> (to_lower (t ''system_state'') \<in> {''live'', ''live_critical''} \<and> trim (t ''live_justification'') = []))
               ''live_justification''
           @ need (\<not> (to_lower (t ''acquisition_scope'') = ''logical'' \<and> trim (t ''logical_acquisition_rationale'') = []))
               ''logical_acquisition_rationale''
           @ (if trim (t ''source_unknown_reason'') \<noteq> [] then [] else seal_source_missing (source_view ev))
         else [])
      @ (if t ''kind'' = ''physical_item'' then need (items_of (jget ev ''photos'') \<noteq> []) ''photos'' else []))"

text \<open>\<open>_comparable_hashes\<close>, and the gate's answer: \<open>None\<close> seals.\<close>

definition comparable_hashes :: "string \<Rightarrow> string \<Rightarrow> bool" where
  "comparable_hashes s t \<longleftrightarrow> s \<noteq> [] \<and> t \<noteq> [] \<and> py_hash_algorithm (Some s) = py_hash_algorithm (Some t)"

definition seal_refusal :: "jsval \<Rightarrow> string option" where
  "seal_refusal ev =
     (let t = stored_text ev; hs = t ''acquisition_hash_source''; ht = t ''acquisition_hash_target'' in
      if t ''manifest_status'' = ''pending'' then Some ''manifest_pending''
      else if t ''kind'' = ''digital_file'' \<and> comparable_hashes hs ht \<and> to_lower hs \<noteq> to_lower ht then Some ''hash_mismatch''
      else if seal_missing ev \<noteq> [] then Some ''seal_fields_missing'' else None)"

text \<open>The row of a collected exhibit: the fields of the request, the file's hash, the collector, the hashes in lower case
  and the state of the container's manifest.\<close>

definition initial_status :: "string \<Rightarrow> jsval" where
  "initial_status container = (if container = [] then JNull
     else if container \<in> set [''zip'', ''tar''] then JStr ''pending'' else JStr ''not_indexed'')"

definition normalise_hash :: "string \<Rightarrow> jsval" where
  "normalise_hash v = or_null_text (to_lower (trim v))"

definition digital_row :: "string \<Rightarrow> string \<Rightarrow> (string \<times> jsval) list \<Rightarrow> jsval" where
  "digital_row user sha body =
     (let t = stored_text (JObj body) in
      JObj (obj_spread body
        [(''kind'', JStr ''digital_file''), (''sha256'', JStr sha), (''collected_by_id'', JStr user),
         (''acquisition_hash_source'', normalise_hash (t ''acquisition_hash_source'')),
         (''acquisition_hash_target'', normalise_hash (t ''acquisition_hash_target'')),
         (''manifest_status'', initial_status (t ''container_format''))]))"

definition physical_row :: "string \<Rightarrow> (string \<times> jsval) list \<Rightarrow> jsval" where
  "physical_row user body = JObj (obj_spread body
     [(''kind'', JStr ''physical_item''), (''collected_by_id'', JStr user), (''manifest_status'', JNull)])"

subsection \<open>Fields of the requests\<close>

lemma text_of_simps [simp]:
  "text_of (JStr s) = s" "text_of JNull = []" "text_of JUndef = []" "text_of (JArr xs) = []" "text_of (or_null_text s) = s"
  "text_of (trim_or_null s) = trim s"
  by (simp_all add: text_of_def or_null_text_def trim_or_null_def)

lemma obj_set_keys: "fst ` set (obj_set a k v) = insert k (fst ` set a)"
  by (induction a k v rule: obj_set.induct) auto

lemma distinct_obj_set: "distinct (map fst a) \<Longrightarrow> distinct (map fst (obj_set a k v))"
  by (induction a k v rule: obj_set.induct) (auto simp: obj_set_keys)

lemma distinct_obj_spread: "distinct (map fst a) \<Longrightarrow> distinct (map fst (obj_spread a b))"
  by (induction b rule: rev_induct) (auto simp: obj_spread_def distinct_obj_set split: prod.splits)

lemma map_of_rev_filter:
  "distinct (map fst w) \<Longrightarrow> map_of w k = Some v \<Longrightarrow> map_of (rev (filter (\<lambda>(k, v). filled v) w)) k = (if filled v then Some v else None)"
proof -
  assume d: "distinct (map fst w)" and m: "map_of w k = Some v"
  let ?f = "filter (\<lambda>(k, v). filled v) w"
  have df: "distinct (map fst ?f)" by (rule distinct_map_filter [OF d])
  have in_w: "(k, u) \<in> set w \<longleftrightarrow> u = v" for u using d m by (metis map_of_eq_Some_iff option.inject)
  show ?thesis
  proof (cases "filled v")
    case True
    then have "(k, v) \<in> set (rev ?f)" using in_w by simp
    then show ?thesis using df True by (simp add: rev_map [symmetric] map_of_is_SomeI)
  next
    case False
    then have "k \<notin> fst ` set ?f" using in_w by auto
    then show ?thesis using False by (simp add: map_of_eq_None_iff)
  qed
qed

definition common_keys :: "bool \<Rightarrow> bool \<Rightarrow> string list" where
  "common_keys container physical =
     [''lawful_basis'', ''lawful_basis_note'', ''acquisition_tool'', ''acquisition_tool_version'', ''acquisition_tool_sha256'',
      ''acquisition_params'', ''witness_user_id'', ''witness_name'', ''collected_as_role'', ''device_types'', ''handling_mode'',
      ''decision_factors'', ''acquisition_scope'', ''logical_acquisition_rationale'']
     @ (if container then [''container_format''] else [])
     @ [''system_time_offset'', ''system_time_offset_seconds'', ''screen_state'', ''changes_made'', ''device_details'',
        ''acquisition_tool_validated'', ''acquisition_tool_validation_ref'', ''acquisition_tool_validation_date'', ''acquired_at'',
        ''make'', ''model'', ''serial'', ''source_system'']
     @ (if physical then [] else [''source_path'', ''source_path_style'', ''source_unknown_reason'', ''source_details''])"

lemma distinct_common_keys: "distinct (common_keys c p)"
proof -
  have "list_all (\<lambda>c. list_all (\<lambda>p. distinct (common_keys c p)) [True, False]) [True, False]" by code_simp
  then show ?thesis by (cases c; cases p) simp_all
qed

lemma distinct_common: "distinct (map fst (wizardCommon w))"
proof -
  have "map fst (wizardCommon w) = common_keys (is_digital w \<and> w_text w AcquisitionScope = ''logical'' \<and> \<not> containerLocked w)
      (w_text w Kind = ''physical_item'')"
    unfolding wizardCommon_def common_keys_def sourcePayload_def Let_def by simp
  then show ?thesis by (simp only: distinct_common_keys)
qed

lemma distinct_digital: "distinct (map fst (digital_wizard w))"
  unfolding digital_wizard_def by (rule distinct_obj_spread [OF distinct_common])

text \<open>A field of the wizard reaches the row with its text, whether it is filled in or left out.\<close>

lemma unfilled: "\<not> filled v \<Longrightarrow> text_of v = [] \<and> items_of v = []"
  by (auto simp: filled_def items_of_def)

lemma body_field:
  assumes "map_of (digital_wizard w) k = Some v" "k \<notin> {''name'', ''identifier'', ''description'', ''tlp'', ''collected_location'', ''entity_id''}"
  shows "text_of (jget (JObj (digitalCompleteBody (new_fields w) (digital_wizard w))) k) = text_of v"
    and "items_of (jget (JObj (digitalCompleteBody (new_fields w) (digital_wizard w))) k) = items_of v"
proof -
  have "map_of (digitalCompleteBody (new_fields w) (digital_wizard w)) k = (if filled v then Some v else None)"
    using completion_body_fields [of "new_fields w" "digital_wizard w" k] map_of_rev_filter [OF distinct_digital assms(1)] assms(2)
    by auto
  then show "text_of (jget (JObj (digitalCompleteBody (new_fields w) (digital_wizard w))) k) = text_of v"
    "items_of (jget (JObj (digitalCompleteBody (new_fields w) (digital_wizard w))) k) = items_of v"
    using unfilled by (auto simp: jget_def items_of_def)
qed


text \<open>The fields the gate reads.\<close>

definition dig_field :: "wizard \<Rightarrow> string \<Rightarrow> jsval option" where
  "dig_field w k = map_of (digital_wizard w) k"

lemma dig_fields:
  assumes "is_digital w"
  shows "dig_field w ''lawful_basis'' = Some (or_null_text (w_text w LawfulBasis))"
    "dig_field w ''device_types'' = Some (if w_types w \<noteq> [] then JArr (map JStr (w_types w)) else JNull)"
    "dig_field w ''acquisition_tool'' = Some (trim_or_null (w_text w AcqTool))"
    "dig_field w ''acquisition_tool_version'' = Some (trim_or_null (w_text w AcqToolVersion))"
    "dig_field w ''system_state'' = Some (or_null_text (w_text w SystemState))"
    "dig_field w ''live_justification'' = Some (trim_or_null (w_text w LiveJustification))"
    "dig_field w ''acquisition_scope'' = Some (or_null_text (w_text w AcquisitionScope))"
    "dig_field w ''logical_acquisition_rationale'' = Some (trim_or_null (w_text w LogicalRationale))"
    "dig_field w ''acquisition_hash_source'' = Some (trim_or_null (w_text w HashSource))"
    "dig_field w ''acquisition_hash_target'' = Some (trim_or_null (w_text w HashTarget))"
    "dig_field w ''serial'' = Some (trim_or_null (ss_text (w_src w) Serial))"
    "dig_field w ''source_system'' = Some (or_null_text (ss_text (w_src w) SourceSystem))"
    "dig_field w ''source_path'' = Some (or_null_text (ss_text (w_src w) SourcePath))"
    "dig_field w ''source_path_style''
       = Some (if ss_text (w_src w) SourcePath \<noteq> [] then or_null_text (ss_text (w_src w) SourcePathStyle) else JNull)"
    "dig_field w ''source_unknown_reason'' = Some (or_null_text (ss_text (w_src w) UnknownReason))"
  using assms
  by (simp_all add: dig_field_def digital_wizard_def obj_spread_get hash_fields_def device_state_def wizardCommon_def sourcePayload_def
      is_digital_def Let_def)

lemma container_field:
  assumes "is_digital w" "\<not> completing w"
  shows "dig_field w ''container_format''
    = (if w_text w AcquisitionScope = ''logical'' then Some (or_null_text (w_text w ContainerFormat)) else None)"
  using assms
  by (simp add: dig_field_def digital_wizard_def obj_spread_get hash_fields_def device_state_def wizardCommon_def sourcePayload_def
      is_digital_def containerLocked_def Let_def)

abbreviation new_body :: "wizard \<Rightarrow> (string \<times> jsval) list" where
  "new_body w \<equiv> digitalCompleteBody (new_fields w) (digital_wizard w)"

lemma container_sent:
  assumes "is_digital w" "\<not> completing w"
  shows "stored_text (JObj (new_body w)) ''container_format''
    = (if w_text w AcquisitionScope = ''logical'' then w_text w ContainerFormat else [])"
proof (cases "w_text w AcquisitionScope = ''logical''")
  case True
  then show ?thesis using body_field(1) container_field [OF assms] by (simp add: stored_text_def dig_field_def)
next
  case False
  then have "''container_format'' \<notin> fst ` set (digital_wizard w)"
    using container_field [OF assms] by (simp add: dig_field_def map_of_eq_None_iff)
  then have "map_of (rev (filter (\<lambda>(k, v). filled v) (digital_wizard w))) ''container_format'' = None"
    by (auto simp: map_of_eq_None_iff)
  then show ?thesis using False by (simp add: stored_text_def jget_def completion_body_fields)
qed

subsection \<open>The row of a collected file\<close>

lemma row_field:
  "k \<notin> {''kind'', ''sha256'', ''collected_by_id'', ''acquisition_hash_source'', ''acquisition_hash_target'', ''manifest_status''}
    \<Longrightarrow> jget (digital_row user sha body) k = jget (JObj body) k"
  by (simp add: digital_row_def Let_def jget_def obj_spread_get)

lemma row_own:
  "stored_text (digital_row user sha body) ''kind'' = ''digital_file''" "stored_text (digital_row user sha body) ''sha256'' = sha"
  "stored_text (digital_row user sha body) ''collected_by_id'' = user"
  "stored_text (digital_row user sha body) ''acquisition_hash_source''
     = to_lower (trim (stored_text (JObj body) ''acquisition_hash_source''))"
  "stored_text (digital_row user sha body) ''acquisition_hash_target''
     = to_lower (trim (stored_text (JObj body) ''acquisition_hash_target''))"
  "stored_text (digital_row user sha body) ''manifest_status''
     = text_of (initial_status (stored_text (JObj body) ''container_format''))"
  by (simp_all add: digital_row_def Let_def jget_def obj_spread_get stored_text_def normalise_hash_def)

lemma row_text:
  assumes "is_digital w" "dig_field w k = Some v"
    and "k \<notin> {''kind'', ''sha256'', ''collected_by_id'', ''acquisition_hash_source'', ''acquisition_hash_target'', ''manifest_status''}"
    and "k \<notin> {''name'', ''identifier'', ''description'', ''tlp'', ''collected_location'', ''entity_id''}"
  shows "stored_text (digital_row user sha (new_body w)) k = text_of v"
    and "items_of (jget (digital_row user sha (new_body w)) k) = items_of v"
  using body_field [of w k v] assms row_field [OF assms(3)] by (simp_all add: stored_text_def dig_field_def)

lemma entity_sent: "is_digital w \<Longrightarrow> stored_text (digital_row user sha (new_body w)) ''entity_id'' = w_text w EntityId"
proof -
  assume d: "is_digital w"
  have "map_of (digital_wizard w) ''entity_id'' = None"
    using d by (simp add: digital_wizard_def obj_spread_get hash_fields_def device_state_def wizardCommon_def sourcePayload_def Let_def)
  then have "''entity_id'' \<notin> fst ` set (digital_wizard w)" by (simp add: map_of_eq_None_iff)
  then have "map_of (rev (filter (\<lambda>(k, v). filled v) (digital_wizard w))) ''entity_id'' = None"
    by (auto simp: map_of_eq_None_iff)
  moreover have "jget (digital_row user sha (new_body w)) ''entity_id'' = jget (JObj (new_body w)) ''entity_id''"
    by (rule row_field) simp
  ultimately show ?thesis
    unfolding stored_text_def by (simp add: jget_def completion_body_fields new_fields_def or_null_text_def)
qed

lemma trim_trim [simp]: "trim (trim s) = trim s"
proof -
  have d: "dropWhile is_space (rev (dropWhile is_space (rev u))) = rev (dropWhile is_space (rev u))" if "dropWhile is_space u = u" for u
  proof (cases "dropWhile is_space (rev u)" rule: rev_cases)
    case (snoc v c)
    have "u = rev (dropWhile is_space (rev u)) @ rev (takeWhile is_space (rev u))"
      by (metis rev_append rev_rev_ident takeWhile_dropWhile_id)
    then have "hd u = c" using snoc by (metis hd_append2 list.distinct(1) list.sel(1) rev.simps(2) rev_append rev_is_Nil_conv append_Cons append_Nil snoc_eq_iff_butlast)
    moreover have "u \<noteq> []" using snoc by auto
    ultimately have "\<not> is_space c" using that by (metis hd_dropWhile)
    then show ?thesis using snoc by simp
  next
    case Nil
    show ?thesis unfolding Nil by simp
  qed
  show ?thesis unfolding trim_def trim_left_def by (simp add: d)
qed

text \<open>The source rule reads the same in the form and in the row.\<close>

lemma sourceMissing_cong:
  assumes "ev_entity_id a = ev_entity_id b" "blank (ev_source_system a) = blank (ev_source_system b)"
    "blank (ev_serial a) = blank (ev_serial b)" "ev_source_path a = ev_source_path b" "ev_source_path_style a = ev_source_path_style b"
    "ev_acquisition_scope a = ev_acquisition_scope b" "ev_system_state a = ev_system_state b" "ev_device_types a = ev_device_types b"
  shows "sourceMissing a = sourceMissing b"
  unfolding sourceMissing_def assms ..

lemma source_same:
  assumes "is_digital w"
  shows "seal_source_missing (source_view (digital_row user sha (new_body w))) = srcGap w"
proof -
  note f = dig_fields [OF assms]
  let ?t = "ss_text (w_src w)"
  have v: "source_view (digital_row user sha (new_body w)) =
      no_item\<lparr>ev_entity_id := opt_text (w_text w EntityId), ev_source_system := opt_text (?t SourceSystem),
        ev_serial := opt_text (trim (?t Serial)), ev_source_path := opt_text (?t SourcePath),
        ev_source_path_style := opt_text (if ?t SourcePath \<noteq> [] then ?t SourcePathStyle else []),
        ev_acquisition_scope := opt_text (w_text w AcquisitionScope), ev_system_state := opt_text (w_text w SystemState),
        ev_device_types := w_types w\<rparr>"
    using row_text(1) [OF assms f(11)] row_text(1) [OF assms f(12)] row_text(1) [OF assms f(13)] row_text(1) [OF assms f(14)]
      row_text(1) [OF assms f(7)] row_text(1) [OF assms f(5)] row_text(2) [OF assms f(2)]
    by (simp add: source_view_def Let_def entity_sent [OF assms] items_of_def comp_def)
  have b: "blank (opt_text s) = blank (Some s)" "blank (Some (trim s)) = blank (Some s)" for s
    by (auto simp: blank_def opt_text_def)
  have gap: "srcGap w = sourceMissing (no_item\<lparr>ev_entity_id := opt_text (w_text w EntityId), ev_source_system := Some (?t SourceSystem),
        ev_serial := Some (?t Serial), ev_source_path := opt_text (?t SourcePath),
        ev_source_path_style := (if ?t SourcePath \<noteq> [] then opt_text (?t SourcePathStyle) else None),
        ev_acquisition_scope := opt_text (w_text w AcquisitionScope), ev_system_state := opt_text (w_text w SystemState),
        ev_device_types := w_types w\<rparr>)"
    by (simp add: srcGap_def Let_def assms)
  show ?thesis
    unfolding source_missing_mirror [symmetric] v gap
    by (rule sourceMissing_cong) (simp_all add: b opt_text_def [of "[]"])
qed

subsection \<open>Readiness is the gate\<close>

lemma run_existing: "w_existing (wiz_run existing evs) = existing"
proof (induction evs rule: rev_induct)
  case Nil
  then show ?case by (simp add: wiz_run_def init_wizard_def Let_def)
next
  case (snoc ev evs)
  have "w_existing (wiz_step ev w) = w_existing w" for w
    by (cases ev) (simp_all add: wiz_step_def set_text_def toggleType_def setDetail_def chooseFile_def drop_held_def
      next_step_def prev_step_def commit_started_def Let_def)
  then show ?case using snoc by (simp add: wiz_run_def)
qed

lemma offered_lower:
  assumes "offered f v" "f = SystemState \<or> f = AcquisitionScope"
  shows "to_lower v = v"
proof -
  have "list_all (\<lambda>v. to_lower v = v) ([] # SYSTEM_STATE)" "list_all (\<lambda>v. to_lower v = v) [[], ''full_image'', ''logical'']"
    by code_simp+
  moreover have "v \<in> set ([] # SYSTEM_STATE) \<or> v \<in> set [[], ''full_image'', ''logical'']"
    using assms unfolding offered_def by (elim disjE) simp_all
  ultimately show ?thesis unfolding list_all_iff by blast
qed

lemma hash_plain: "hashAlgorithm (Some v) \<noteq> None \<Longrightarrow> trim v = v"
proof -
  assume "hashAlgorithm (Some v) \<noteq> None"
  then have "list_all is_hex v" by (auto simp: hashAlgorithm_def HEX_RX_iff split: if_splits)
  then show ?thesis by (intro trim_no_space) (auto simp: list_all_iff is_hex_def is_digit_def is_space_def)
qed

lemma py_hash_lower: "py_hash_algorithm (Some (to_lower v)) = py_hash_algorithm (Some v)"
  by (simp add: py_hash_algorithm_def)

text \<open>Checked hashes never differ at the gate.\<close>

lemma checked_hashes:
  assumes "acquire_error w = None" "comparable_hashes (to_lower (trim (w_text w HashSource))) (to_lower (trim (w_text w HashTarget)))"
  shows "to_lower (trim (w_text w HashSource)) = to_lower (trim (w_text w HashTarget))"
proof -
  have ne: "w_text w HashSource \<noteq> []" "w_text w HashTarget \<noteq> []" using assms(2) by (auto simp: comparable_hashes_def)
  then have a: "srcAlgo w \<noteq> None" "tgtAlgo w \<noteq> None" "hashesComparable w \<Longrightarrow> hashesMatch w"
    using assms(1) by (auto simp: acquire_error_def split: if_splits)
  then have t: "trim (w_text w HashSource) = w_text w HashSource" "trim (w_text w HashTarget) = w_text w HashTarget"
    using hash_plain unfolding srcAlgo_def tgtAlgo_def by blast+
  then have "srcAlgo w = tgtAlgo w"
    using assms(2) unfolding srcAlgo_def tgtAlgo_def hash_algorithm_mirror by (simp add: comparable_hashes_def py_hash_lower)
  then show ?thesis using a t by (simp add: hashesComparable_def hashesMatch_def)
qed

lemma digital_gate:
  assumes "is_digital w" "\<not> completing w" "wiz_inv w" "w_step w = SConfirm" "user \<noteq> []" "sha \<noteq> []"
  shows "seal_missing (digital_row user sha (new_body w)) = [] \<longleftrightarrow> sealReady w"
    and "seal_refusal (digital_row user sha (new_body w))
      = (if w_text w AcquisitionScope = ''logical'' \<and> w_text w ContainerFormat \<in> {''zip'', ''tar''} then Some ''manifest_pending''
         else if sealReady w then None else Some ''seal_fields_missing'')"
proof -
  let ?row = "digital_row user sha (new_body w)"
  note f = dig_fields [OF assms(1)]
  have valid: "valid_before w" and off: "offered SystemState (w_text w SystemState)" "offered AcquisitionScope (w_text w AcquisitionScope)"
    using assms(2,3) by (auto simp: wiz_inv_def offered_ok_def)
  obtain fl where chosen: "w_file w = Some fl" using confirm_file [OF valid assms(4,1,2)] by blast
  have ready: "sealReady w \<longleftrightarrow> w_text w LawfulBasis \<noteq> [] \<and> w_types w \<noteq> [] \<and> trim (w_text w AcqTool) \<noteq> []
      \<and> trim (w_text w AcqToolVersion) \<noteq> [] \<and> (isLive w \<longrightarrow> trim (w_text w LiveJustification) \<noteq> [])
      \<and> (w_text w AcquisitionScope = ''logical'' \<longrightarrow> trim (w_text w LogicalRationale) \<noteq> []) \<and> (srcGap w = [] \<or> srcUnknown w)"
    using assms(1,2) chosen by (auto simp: sealReady_def sealChecks_def)
  note row_own [of user sha "new_body w", simp]
  have live: "to_lower (w_text w SystemState) \<in> {''live'', ''live_critical''} \<longleftrightarrow> isLive w"
    using offered_lower [OF off(1)] by (simp add: isLive_def)
  have t: "stored_text ?row ''lawful_basis'' = w_text w LawfulBasis" "stored_text ?row ''acquisition_tool'' = trim (w_text w AcqTool)"
    "stored_text ?row ''acquisition_tool_version'' = trim (w_text w AcqToolVersion)"
    "stored_text ?row ''system_state'' = w_text w SystemState" "stored_text ?row ''live_justification'' = trim (w_text w LiveJustification)"
    "stored_text ?row ''acquisition_scope'' = w_text w AcquisitionScope"
    "stored_text ?row ''logical_acquisition_rationale'' = trim (w_text w LogicalRationale)"
    "stored_text ?row ''source_unknown_reason'' = ss_text (w_src w) UnknownReason"
    "items_of (jget ?row ''device_types'') = [] \<longleftrightarrow> w_types w = []"
    using row_text(1) [OF assms(1) f(1)] row_text(1) [OF assms(1) f(3)] row_text(1) [OF assms(1) f(4)] row_text(1) [OF assms(1) f(5)]
      row_text(1) [OF assms(1) f(6)] row_text(1) [OF assms(1) f(7)] row_text(1) [OF assms(1) f(8)] row_text(1) [OF assms(1) f(15)]
      row_text(2) [OF assms(1) f(2)]
    by (simp_all add: items_of_def)
  show missing: "seal_missing ?row = [] \<longleftrightarrow> sealReady w"
    unfolding seal_missing_def Let_def t source_same [OF assms(1)] live ready
    using assms(5,6) offered_lower [OF off(2)] by (simp add: srcUnknown_def)
  have h: "stored_text (JObj (new_body w)) ''acquisition_hash_source'' = trim (w_text w HashSource)"
    "stored_text (JObj (new_body w)) ''acquisition_hash_target'' = trim (w_text w HashTarget)"
    using body_field(1) f(9,10) by (simp_all add: stored_text_def dig_field_def)
  have "acquire_error w = None"
    using confirm_checked [OF valid assms(4), of SAcquire] assms(1) by (simp add: validateStep_def stepList_def)
  note same = checked_hashes [OF this]
  have differ: "\<not> (comparable_hashes (to_lower (trim (trim (w_text w HashSource)))) (to_lower (trim (trim (w_text w HashTarget))))
      \<and> to_lower (to_lower (trim (trim (w_text w HashSource)))) \<noteq> to_lower (to_lower (trim (trim (w_text w HashTarget)))))"
    using same by simp
  have pending: "text_of (initial_status c) = ''pending'' \<longleftrightarrow> c \<in> {''zip'', ''tar''}" for c
    by (auto simp: initial_status_def)
  show "seal_refusal ?row
      = (if w_text w AcquisitionScope = ''logical'' \<and> w_text w ContainerFormat \<in> {''zip'', ''tar''} then Some ''manifest_pending''
         else if sealReady w then None else Some ''seal_fields_missing'')"
    unfolding seal_refusal_def Let_def row_own h pending container_sent [OF assms(1,2)] missing
    using differ by auto
qed

lemma physical_gate:
  assumes "is_physical w" "\<not> completing w" "user \<noteq> []"
  shows "seal_refusal (physical_row user (physical_body w)) = (if sealReady w then None else Some ''seal_fields_missing'')"
proof -
  let ?row = "physical_row user (physical_body w)"
  have nd: "\<not> is_digital w" using assms(1) by (simp add: is_physical_def is_digital_def)
  have f: "jget ?row ''lawful_basis'' = or_null_text (w_text w LawfulBasis)"
    "jget ?row ''device_types'' = (if w_types w \<noteq> [] then JArr (map JStr (w_types w)) else JNull)"
    "jget ?row ''photos'' = JArr (if trim (w_text w PhotoCaption) \<noteq> [] then [caption_photo w] else [])"
    "jget ?row ''kind'' = JStr ''physical_item''" "jget ?row ''collected_by_id'' = JStr user" "jget ?row ''manifest_status'' = JNull"
    using assms(1) nd by (simp_all add: physical_row_def physical_body_def jget_def obj_spread_get wizardCommon_def sourcePayload_def
        is_physical_def Let_def)
  have "seal_missing ?row = [] \<longleftrightarrow> sealReady w"
    using assms(2,3) nd by (auto simp: seal_missing_def sealReady_def sealChecks_def stored_text_def f Let_def items_of_def)
  then show ?thesis by (simp add: seal_refusal_def stored_text_def f Let_def)
qed


definition demo_events :: "wiz_event list" where
  "demo_events = [ToggleType ''email_export'', NextPressed, TypeIn Name ''Export'', TypeIn LawfulBasis ''ir'',
     SrcText SourceSystem ''tenant'', NextPressed, NextPressed, ChooseFile (Some (JStr ''export.zip'')),
     TypeIn AcqTool ''tool'', TypeIn AcqToolVersion ''1'', TypeIn AcquisitionScope ''logical'', TypeIn LogicalRationale ''size'',
     TypeIn ContainerFormat ''zip'', NextPressed, NextPressed]"

lemma demo_confirm:
  "w_step (wiz_run None demo_events) = SConfirm \<and> is_digital (wiz_run None demo_events) \<and> sealReady (wiz_run None demo_events)
    \<and> w_text (wiz_run None demo_events) AcquisitionScope = ''logical'' \<and> w_text (wiz_run None demo_events) ContainerFormat = ''zip''"
  by code_simp


subsection \<open>What is collected was checked\<close>

text \<open>C9: On the last step every step of the list passes its checks with the values the requests will carry: nothing changed on
  the way back and forth escapes them. The file a new exhibit is made of is the one chosen last, also when its upload
  was refused, kept by the server and is completed without sending it again.\<close>

theorem collected_is_checked:
  assumes "w = wiz_run existing evs" "w_step w = SConfirm"
  shows "(\<forall>s \<in> set (stepList w). validateStep w s = None)
    \<and> (is_digital w \<and> \<not> completing w \<longrightarrow> (\<exists>f body. w_file w = Some f
        \<and> main_request w = (if w_held w = None then CollectFile f body else RetryUpload f body)))"
proof -
  have inv: "wiz_inv w" unfolding assms(1) by (rule wiz_run_inv)
  then have v: "valid_before w" by (simp add: wiz_inv_def)
  have "\<exists>f body. w_file w = Some f \<and> main_request w = (if w_held w = None then CollectFile f body else RetryUpload f body)"
    if new: "is_digital w" "\<not> completing w"
  proof -
    obtain f where f: "w_file w = Some f" using confirm_file [OF v assms(2) new] by blast
    then have "hu_file h = f" if "w_held w = Some h" for h using inv that by (simp add: wiz_inv_def held_ok_def)
    with f show ?thesis using new by (cases "w_held w") (simp_all add: main_request_def Let_def)
  qed
  then show ?thesis using confirm_checked [OF v assms(2)] by blast
qed

lemma collected_is_checked_witness:
  "\<exists>f body. w_file (wiz_run None demo_events) = Some f
    \<and> main_request (wiz_run None demo_events) = (if w_held (wiz_run None demo_events) = None then CollectFile f body else RetryUpload f body)"
  using collected_is_checked [OF refl, of None demo_events] demo_confirm run_existing [of None demo_events]
  by (simp add: completing_def)

end
