(* ===== verification/War_Room.thy ===== *)
theory War_Room
  imports Js_Base
begin

text \<open>
  \<^verbatim>\<open>frontend/src/components/WarRoomDrawer.jsx\<close>: the feed of an incident's chat (a page of messages, older pages on
  demand, live messages over a socket), the message being written and the mentions it completes. An effect that runs again
  gets a new number, and answers and frames of an earlier one are ignored. The drag of the drawer's tab is a state of its own.
\<close>

subsection \<open>The drawer\<close>

record war_room =
  wr_selected :: "string option"
  wr_messages :: "jsval list"
  wr_older :: "string option"
  wr_loading :: bool
  wr_for :: "string option"     \<comment> \<open>\<open>forId\<close> of the older page on its way\<close>
  wr_online :: int
  wr_input :: string
  wr_sending :: bool
  wr_mention :: "string option"
  wr_mention_idx :: nat
  wr_run :: nat                 \<comment> \<open>the effect that is not cancelled\<close>

definition init_room :: war_room where
  "init_room = \<lparr>wr_selected = None, wr_messages = [], wr_older = None, wr_loading = False, wr_for = None, wr_online = 0,
     wr_input = [], wr_sending = False, wr_mention = None, wr_mention_idx = 0, wr_run = 0\<rparr>"

definition msg_id :: "jsval \<Rightarrow> jsval" where
  "msg_id m = jget m ''id''"

definition page_items :: "jsval \<Rightarrow> jsval list" where
  "page_items d = (case jget d ''items'' of JArr xs \<Rightarrow> xs | _ \<Rightarrow> [])"

definition page_cursor :: "jsval \<Rightarrow> string option" where
  "page_cursor d = (case jget d ''next_cursor'' of JStr s \<Rightarrow> if s = [] then None else Some s | _ \<Rightarrow> None)"

definition online_of :: "jsval \<Rightarrow> int" where
  "online_of d = (case jget d ''online'' of JNum n \<Rightarrow> n | _ \<Rightarrow> 0)"

text \<open>The effect on the selected incident and the session: it cancels the one before and asks for the newest page.\<close>

definition connect :: "string option \<Rightarrow> war_room \<Rightarrow> war_room" where
  "connect sel r = (let r = r\<lparr>wr_selected := sel, wr_run := wr_run r + 1\<rparr> in
     if sel = None \<or> sel = Some [] then r else r\<lparr>wr_older := None\<rparr>)"

definition list_answered :: "nat \<Rightarrow> jsval \<Rightarrow> war_room \<Rightarrow> war_room" where
  "list_answered run d r =
     (if run \<noteq> wr_run r then r
      else r\<lparr>wr_messages := page_items d, wr_older := page_cursor d, wr_online := online_of d\<rparr>)"

definition frame_received :: "nat \<Rightarrow> jsval \<Rightarrow> war_room \<Rightarrow> war_room" where
  "frame_received run msg r =
     (if run \<noteq> wr_run r then r
      else if jget msg ''type'' = JStr ''message'' then r\<lparr>wr_messages := wr_messages r @ [msg]\<rparr>
      else if jget msg ''type'' = JStr ''presence'' then r\<lparr>wr_online := online_of msg\<rparr> else r)"

text \<open>\<open>loadOlder\<close> up to its request, and after the answer (\<open>None\<close>: it failed).\<close>

definition loadOlder :: "war_room \<Rightarrow> war_room" where
  "loadOlder r = (if \<not> str_truthy (wr_selected r) \<or> wr_older r = None \<or> wr_loading r then r
     else r\<lparr>wr_loading := True, wr_for := wr_selected r\<rparr>)"

definition older_answered :: "jsval option \<Rightarrow> war_room \<Rightarrow> war_room" where
  "older_answered ans r = (case ans of
      Some d \<Rightarrow>
        (if wr_selected r \<noteq> wr_for r then r\<lparr>wr_loading := False\<rparr>
         else r\<lparr>wr_messages := filter (\<lambda>m. msg_id m \<notin> msg_id ` set (wr_messages r)) (page_items d) @ wr_messages r,
           wr_older := page_cursor d, wr_loading := False\<rparr>)
    | None \<Rightarrow> r\<lparr>wr_loading := False\<rparr>)"

subsection \<open>Writing\<close>

definition send_pressed :: "war_room \<Rightarrow> (war_room \<times> string) option" where
  "send_pressed r = (let body = trim (wr_input r) in
     if body = [] \<or> \<not> str_truthy (wr_selected r) \<or> wr_sending r then None
     else Some (r\<lparr>wr_sending := True, wr_input := [], wr_mention := None\<rparr>, body))"

definition send_answered :: "string \<Rightarrow> bool \<Rightarrow> war_room \<Rightarrow> war_room" where
  "send_answered body ok r = (if ok then r else r\<lparr>wr_input := body\<rparr>)\<lparr>wr_sending := False\<rparr>"

text \<open>\<open>/(?:^|\s)@([a-zA-Z0-9_.-]*)$/\<close> before the cursor, and \<open>/(@[a-zA-Z0-9_.-]*)$/\<close>.\<close>

definition name_char :: "char \<Rightarrow> bool" where
  "name_char c \<longleftrightarrow> is_word_char c \<or> c = CHR ''.'' \<or> c = CHR ''-''"

definition name_tail :: "string \<Rightarrow> string" where
  "name_tail s = rev (takeWhile name_char (rev s))"

definition before_name :: "string \<Rightarrow> string" where
  "before_name s = rev (dropWhile name_char (rev s))"

definition mention_trigger :: "string \<Rightarrow> string option" where
  "mention_trigger s = (let b = before_name s in
     if b \<noteq> [] \<and> last b = CHR ''@'' \<and> (butlast b = [] \<or> is_space (last (butlast b))) then Some (name_tail s) else None)"

definition refreshMentionState :: "string \<Rightarrow> nat \<Rightarrow> war_room \<Rightarrow> war_room" where
  "refreshMentionState val pos r = (case mention_trigger (take pos val) of
      Some q \<Rightarrow> r\<lparr>wr_mention := Some q, wr_mention_idx := 0\<rparr> | None \<Rightarrow> r\<lparr>wr_mention := None\<rparr>)"

definition onInputChange :: "string \<Rightarrow> nat \<Rightarrow> war_room \<Rightarrow> war_room" where
  "onInputChange val pos r = refreshMentionState val pos (r\<lparr>wr_input := val\<rparr>)"

definition MENTION_MAX_RESULTS :: nat where "MENTION_MAX_RESULTS = 6"

definition mentionMatches :: "jsval list \<Rightarrow> string \<Rightarrow> war_room \<Rightarrow> string list" where
  "mentionMatches users me r = (case wr_mention r of None \<Rightarrow> []
     | Some q \<Rightarrow>
         (let q = to_lower q; nm = (\<lambda>u. case jget u ''username'' of JStr s \<Rightarrow> s | _ \<Rightarrow> []);
              full = (\<lambda>u. case jget u ''full_name'' of JStr s \<Rightarrow> s | _ \<Rightarrow> [])
          in take MENTION_MAX_RESULTS (map nm (filter (\<lambda>u. to_lower (nm u) \<noteq> me
               \<and> (q = [] \<or> starts_with (to_lower (nm u)) q \<or> str_includes (to_lower (full u)) q)) users))))"

definition insertMention :: "string \<Rightarrow> nat \<Rightarrow> war_room \<Rightarrow> war_room \<times> nat" where
  "insertMention username pos r =
     (let b = take pos (wr_input r); after = drop pos (wr_input r); h = before_name b;
          replaced = (if h \<noteq> [] \<and> last h = CHR ''@'' then h @ username @ '' '' else b)
      in (r\<lparr>wr_input := replaced @ after, wr_mention := None\<rparr>, length replaced))"

datatype room_key = KUp | KDown | KEnter bool | KTab | KEsc | KOther

text \<open>What a key does: a move, a mention, a message to send, or nothing.\<close>

datatype room_key_result = Stay war_room | Complete string | Submit

definition room_key :: "jsval list \<Rightarrow> string \<Rightarrow> room_key \<Rightarrow> war_room \<Rightarrow> room_key_result" where
  "room_key users me k r =
     (let ms = mentionMatches users me r; listed = (wr_mention r \<noteq> None \<and> ms \<noteq> []) in
      if listed \<and> k = KDown then Stay (r\<lparr>wr_mention_idx := min (wr_mention_idx r + 1) (length ms - 1)\<rparr>)
      else if listed \<and> k = KUp then Stay (r\<lparr>wr_mention_idx := wr_mention_idx r - 1\<rparr>)
      else if listed \<and> (k = KTab \<or> k = KEnter True \<or> k = KEnter False) then Complete (ms ! wr_mention_idx r)
      else if listed \<and> k = KEsc then Stay (r\<lparr>wr_mention := None\<rparr>)
      else if k = KEnter False then Submit else Stay r)"

subsection \<open>The tab's drag\<close>

record tab_drag =
  td_y :: int
  td_drag :: "(int \<times> int \<times> bool \<times> bool) option"     \<comment> \<open>start of the pointer and of the tab, armed, moved\<close>
  td_justMoved :: bool
  td_open :: bool

definition DRAG_DIST :: int where "DRAG_DIST = 30"

definition clampTabY :: "int \<Rightarrow> int \<Rightarrow> int" where
  "clampTabY height y = max 60 (min (height - 100) y)"

definition tab_down :: "int \<Rightarrow> tab_drag \<Rightarrow> tab_drag" where
  "tab_down y t = t\<lparr>td_drag := Some (y, td_y t, False, False)\<rparr>"

definition tab_move :: "int \<Rightarrow> int \<Rightarrow> tab_drag \<Rightarrow> tab_drag" where
  "tab_move height y t = (case td_drag t of None \<Rightarrow> t
     | Some (y0, t0, armed, moved) \<Rightarrow>
         (let armed = (armed \<or> \<bar>y - y0\<bar> > DRAG_DIST) in
          if armed then t\<lparr>td_drag := Some (y0, t0, True, True), td_y := clampTabY height (t0 + (y - y0))\<rparr>
          else t\<lparr>td_drag := Some (y0, t0, armed, moved)\<rparr>))"

definition tab_up :: "tab_drag \<Rightarrow> tab_drag" where
  "tab_up t = (case td_drag t of Some (_, _, _, True) \<Rightarrow> t\<lparr>td_justMoved := True, td_drag := None\<rparr> | _ \<Rightarrow> t\<lparr>td_drag := None\<rparr>)"

definition tab_click :: "tab_drag \<Rightarrow> tab_drag" where
  "tab_click t = (if td_justMoved t then t\<lparr>td_justMoved := False\<rparr> else t\<lparr>td_open := \<not> td_open t\<rparr>)"

text \<open>A press whose pointer never leaves the threshold opens or closes the drawer and does not move the tab; one that leaves
  it moves the tab and does nothing else.\<close>

lemma drift_is_a_click:
  assumes "\<not> td_justMoved t" "\<forall>y \<in> set ys. \<bar>y - y0\<bar> \<le> DRAG_DIST"
  shows "tab_click (tab_up (foldl (\<lambda>t y. tab_move h y t) (tab_down y0 t) ys)) = t\<lparr>td_drag := None, td_open := \<not> td_open t\<rparr>"
proof -
  have "foldl (\<lambda>t y. tab_move h y t) (tab_down y0 t) ys = tab_down y0 t"
    using assms(2) by (induction ys) (simp_all add: tab_move_def tab_down_def Let_def)
  then show ?thesis using assms(1) by (simp add: tab_up_def tab_down_def tab_click_def)
qed

subsection \<open>The feed follows the log\<close>

text \<open>The server's side: the log of the room, and how much of it is older than what the feed starts with. A page of \<open>n\<close>
  messages is the \<open>n\<close> before the cursor.\<close>

datatype feed_event = Posted jsval | OlderPressed | PageComes nat | PageFails | Presence int

definition cursor_at :: "nat \<Rightarrow> jsval" where
  "cursor_at k = (if k = 0 then JNull else JStr (show_nat k))"

definition older_page :: "jsval list \<Rightarrow> nat \<Rightarrow> nat \<Rightarrow> jsval" where
  "older_page log k n = JObj [(''items'', JArr (drop (k - n) (take k log))), (''next_cursor'', cursor_at (k - n))]"

definition live_frame :: "jsval \<Rightarrow> bool" where
  "live_frame m \<longleftrightarrow> jget m ''type'' = JStr ''message''"

fun feed_step :: "feed_event \<Rightarrow> jsval list \<times> nat \<times> war_room \<Rightarrow> jsval list \<times> nat \<times> war_room" where
  "feed_step (Posted m) (log, k, r) = (log @ [m], k, frame_received (wr_run r) m r)"
| "feed_step OlderPressed (log, k, r) = (log, k, loadOlder r)"
| "feed_step (PageComes n) (log, k, r) =
     (if wr_loading r then (log, k - n, older_answered (Some (older_page log k n)) r) else (log, k, r))"
| "feed_step PageFails (log, k, r) = (log, k, if wr_loading r then older_answered None r else r)"
| "feed_step (Presence n) (log, k, r) =
     (log, k, frame_received (wr_run r) (JObj [(''type'', JStr ''presence''), (''online'', JNum n)]) r)"

definition posts :: "feed_event list \<Rightarrow> jsval list" where
  "posts evs = List.map_filter (\<lambda>e. case e of Posted m \<Rightarrow> Some m | _ \<Rightarrow> None) evs"

definition feed_ok :: "jsval list \<times> nat \<times> war_room \<Rightarrow> bool" where
  "feed_ok s = (case s of (log, k, r) \<Rightarrow> wr_messages r = drop k log \<and> k \<le> length log \<and> (wr_older r = None \<longleftrightarrow> k = 0)
     \<and> (wr_loading r \<longrightarrow> wr_for r = wr_selected r))"

lemma posts_simps [simp]: "posts [] = []" "posts (e # evs) = (case e of Posted m \<Rightarrow> m # posts evs | _ \<Rightarrow> posts evs)"
  by (simp_all add: posts_def map_filter_def split: feed_event.splits)

lemma page_cursor_at [simp]:
  "page_cursor (older_page log k n) = (if k - n = 0 then None else Some (show_nat (k - n)))"
  "page_items (older_page log k n) = drop (k - n) (take k log)"
  by (simp_all add: page_cursor_def page_items_def older_page_def cursor_at_def)

lemma older_not_shown:
  assumes "distinct (map msg_id log)"
  shows "filter (\<lambda>m. msg_id m \<notin> msg_id ` set (drop k log)) (drop j (take k log)) = drop j (take k log)"
proof -
  have "distinct (map msg_id (take k log) @ map msg_id (drop k log))"
    using assms by (metis append_take_drop_id map_append)
  then have "msg_id ` set (take k log) \<inter> msg_id ` set (drop k log) = {}" by simp
  moreover have "set (drop j (take k log)) \<subseteq> set (take k log)" by (rule set_drop_subset)
  ultimately show ?thesis by (intro filter_True ballI) blast
qed

lemma page_before:
  assumes "j \<le> k" "k \<le> length log"
  shows "drop j (take k log) @ drop k log = drop j log"
proof -
  have "drop j (take k log @ drop k log) = drop j (take k log) @ drop k log" using assms by (simp del: append_take_drop_id)
  then show ?thesis by simp
qed

lemma feed_step_ok:
  assumes "feed_ok (log, k, r)" "distinct (map msg_id log)" "case ev of Posted m \<Rightarrow> live_frame m | _ \<Rightarrow> True"
  shows "feed_ok (feed_step ev (log, k, r))"
proof (cases ev)
  case (PageComes n)
  show ?thesis
  proof (cases "wr_loading r")
    case True
    have "drop (k - n) (take k log) @ drop k log = drop (k - n) log"
      using assms(1) by (intro page_before) (simp_all add: feed_ok_def)
    then show ?thesis
      using assms(1) True older_not_shown [OF assms(2), of k "k - n"]
      by (auto simp: PageComes feed_ok_def older_answered_def)
  qed (use assms(1) PageComes in simp)
qed (use assms(1,3) in \<open>auto simp: feed_ok_def frame_received_def loadOlder_def older_answered_def live_frame_def\<close>)

lemma feed_log: "fst (foldl (\<lambda>s ev. feed_step ev s) s evs) = fst s @ posts evs"
proof (induction evs arbitrary: s)
  case (Cons ev evs)
  have "fst (feed_step ev s) = fst s @ (case ev of Posted m \<Rightarrow> [m] | _ \<Rightarrow> [])"
    by (cases s; cases ev) simp_all
  then show ?case using Cons by (cases ev) simp_all
qed simp

lemma feed_run_ok:
  assumes "feed_ok s" "distinct (map msg_id (fst s @ posts evs))" "\<forall>m \<in> set (posts evs). live_frame m"
  shows "feed_ok (foldl (\<lambda>s ev. feed_step ev s) s evs)"
  using assms
proof (induction evs arbitrary: s)
  case (Cons ev evs)
  obtain log k r where s: "s = (log, k, r)" by (cases s)
  have step: "feed_ok (feed_step ev s)"
    unfolding s using Cons.prems by (intro feed_step_ok) (auto simp: s split: feed_event.splits)
  have "fst (feed_step ev s) @ posts evs = fst s @ posts (ev # evs)"
    by (cases ev) (simp_all add: s)
  then show ?case using Cons.IH [OF step] Cons.prems(2,3) by (auto split: feed_event.splits)
qed simp

text \<open>C22: Once the newest page has arrived, the feed is a suffix of the room's log: posts come in at its end and older pages at
  its beginning, in any order and also while an older page is on its way, nothing is shown twice and no gap opens;
  and when there is no older page left the feed is the whole log.\<close>

theorem feed_is_log_suffix:
  assumes "page_items d = drop k log" "page_cursor d = (if k = 0 then None else Some c)" "k \<le> length log" "\<not> wr_loading r"
    and "distinct (map msg_id (log @ posts evs))" "\<forall>m \<in> set (posts evs). live_frame m"
    and "foldl (\<lambda>s ev. feed_step ev s) (log, k, list_answered (wr_run r) d r) evs = (log', k', r')"
  shows "log' = log @ posts evs \<and> wr_messages r' = drop k' log' \<and> (wr_older r' = None \<longrightarrow> wr_messages r' = log @ posts evs)"
proof -
  have "feed_ok (log, k, list_answered (wr_run r) d r)"
    using assms(1-4) by (simp add: feed_ok_def list_answered_def)
  then have "feed_ok (log', k', r')" using feed_run_ok assms(5-7) by (metis fst_conv)
  moreover have "log' = log @ posts evs" using feed_log [of "(log, k, list_answered (wr_run r) d r)" evs] assms(7) by simp
  ultimately show ?thesis by (auto simp: feed_ok_def)
qed

definition chat :: "int \<Rightarrow> jsval" where
  "chat n = JObj [(''type'', JStr ''message''), (''id'', JNum n)]"

lemma feed_is_log_suffix_witness:
  "\<exists>k' r'. foldl (\<lambda>s ev. feed_step ev s)
      ([chat 1, chat 2], 1, list_answered 0 (JObj [(''items'', JArr [chat 2]), (''next_cursor'', JStr ''c'')]) (init_room\<lparr>wr_selected := Some ''i''\<rparr>))
      [OlderPressed, Posted (chat 3), PageComes 1] = ([chat 1, chat 2, chat 3], k', r') \<and> wr_messages r' = [chat 1, chat 2, chat 3]"
proof -
  let ?d = "JObj [(''items'', JArr [chat 2]), (''next_cursor'', JStr ''c'')]" and ?r = "init_room\<lparr>wr_selected := Some ''i''\<rparr>"
    and ?evs = "[OlderPressed, Posted (chat 3), PageComes 1]"
  obtain log' k' r' where f: "foldl (\<lambda>s ev. feed_step ev s) ([chat 1, chat 2], 1, list_answered (wr_run ?r) ?d ?r) ?evs = (log', k', r')"
    by (rule prod_cases3)
  have "wr_older r' = None"
    using f by (auto simp: init_room_def list_answered_def frame_received_def loadOlder_def older_answered_def chat_def page_cursor_def
        older_page_def cursor_at_def)
  moreover have "log' = [chat 1, chat 2] @ posts ?evs \<and> wr_messages r' = drop k' log'
      \<and> (wr_older r' = None \<longrightarrow> wr_messages r' = [chat 1, chat 2] @ posts ?evs)"
    by (rule feed_is_log_suffix [OF _ _ _ _ _ _ f]) (simp_all add: page_items_def page_cursor_def init_room_def chat_def msg_id_def live_frame_def)
  ultimately have "log' = [chat 1, chat 2, chat 3]" "wr_messages r' = [chat 1, chat 2, chat 3]" by fastforce+
  moreover have "wr_run ?r = 0" by (simp add: init_room_def)
  ultimately show ?thesis using f by metis
qed

text \<open>C23: Before that it is not. The newest page replaces the feed, so a message that came over the socket while the page was on its
  way, and is not on it, is gone; and one that is on the page and comes over the socket afterwards is shown twice.\<close>

theorem early_message_lost_or_doubled:
  assumes "live_frame m" "msg_id m \<notin> msg_id ` set (page_items d)" "live_frame m'" "msg_id m' \<in> msg_id ` set (page_items d)"
  shows "m \<in> set (wr_messages (frame_received (wr_run r) m r))
    \<and> msg_id m \<notin> msg_id ` set (wr_messages (list_answered (wr_run r) d (frame_received (wr_run r) m r)))
    \<and> 1 < length (filter (\<lambda>x. msg_id x = msg_id m') (wr_messages (frame_received (wr_run r) m' (list_answered (wr_run r) d r))))"
proof -
  have "filter (\<lambda>x. msg_id x = msg_id m') (page_items d) \<noteq> []" using assms(4) by (auto simp: filter_empty_conv)
  then show ?thesis
    using assms by (simp add: frame_received_def list_answered_def live_frame_def)
qed

lemma early_message_lost_or_doubled_witness:
  "msg_id (chat 2) \<notin> msg_id ` set (wr_messages (list_answered 0 (JObj [(''items'', JArr [chat 1])]) (frame_received 0 (chat 2) init_room)))"
  using early_message_lost_or_doubled [of "chat 2" "JObj [(''items'', JArr [chat 1])]" "chat 1" init_room]
  by (simp add: chat_def live_frame_def page_items_def init_room_def msg_id_def)

end
