(* ===== verification/Search_Bell.thy ===== *)
theory Search_Bell
  imports Js_Base
begin

text \<open>
  Two controls of the top bar that live with answers on their way: \<^verbatim>\<open>frontend/src/components/GlobalSearch.jsx\<close>
  (a field, a timer and the requests it starts) and \<^verbatim>\<open>NotificationBell.jsx\<close> (the list, the unread count, the pushes).
\<close>

subsection \<open>The search field\<close>

record search_box =
  sb_query :: string
  sb_results :: jsval
  sb_loading :: bool
  sb_open :: bool
  sb_timer :: "string option"
  sb_asked :: "string list"      \<comment> \<open>the requests made, oldest first\<close>

definition init_search :: search_box where
  "init_search = \<lparr>sb_query = [], sb_results = JNull, sb_loading = False, sb_open = False, sb_timer = None, sb_asked = []\<rparr>"

definition tagHits :: "jsval \<Rightarrow> string \<Rightarrow> jsval list" where
  "tagHits tags q = (case tags of
      JArr ts \<Rightarrow> (let needle = trim (to_lower q) in
        if q = [] \<or> needle = [] then []
        else filter (\<lambda>t. case t of JStr s \<Rightarrow> str_includes (to_lower s) needle | _ \<Rightarrow> False) ts)
    | _ \<Rightarrow> [])"

text \<open>\<open>text.toLowerCase().indexOf(q.toLowerCase())\<close>, and the text cut around the hit.\<close>

fun find_at :: "string \<Rightarrow> string \<Rightarrow> nat option" where
  "find_at q [] = (if q = [] then Some 0 else None)"
| "find_at q (c # s) = (if prefix q (c # s) then Some 0 else map_option Suc (find_at q s))"

definition highlight :: "string \<Rightarrow> string \<Rightarrow> string \<times> string \<times> string" where
  "highlight txt q =
     (if txt = [] \<or> q = [] then (txt, [], [])
      else case find_at (to_lower q) (to_lower txt) of None \<Rightarrow> (txt, [], [])
        | Some i \<Rightarrow> (take i txt, take (length q) (drop i txt), drop (i + length q) txt))"

definition doSearch :: "string \<Rightarrow> search_box \<Rightarrow> search_box" where
  "doSearch q s = (if length q < 2 then s\<lparr>sb_results := JNull, sb_open := False\<rparr>
     else s\<lparr>sb_loading := True, sb_asked := sb_asked s @ [q]\<rparr>)"

definition search_answered :: "jsval option \<Rightarrow> search_box \<Rightarrow> search_box" where
  "search_answered ans s = (case ans of
      Some data \<Rightarrow> s\<lparr>sb_results := data, sb_open := True, sb_loading := False\<rparr>
    | None \<Rightarrow> s\<lparr>sb_results := JNull, sb_loading := False\<rparr>)"

definition handleChange :: "string \<Rightarrow> search_box \<Rightarrow> search_box" where
  "handleChange q s = (let s = s\<lparr>sb_query := q, sb_timer := None\<rparr> in
     if length q < 2 then s\<lparr>sb_results := JNull, sb_open := False\<rparr> else s\<lparr>sb_timer := Some q\<rparr>)"

definition timer_fired :: "search_box \<Rightarrow> search_box" where
  "timer_fired s = (case sb_timer s of None \<Rightarrow> s | Some q \<Rightarrow> doSearch q (s\<lparr>sb_timer := None\<rparr>))"

definition go :: "search_box \<Rightarrow> search_box" where
  "go s = s\<lparr>sb_open := False, sb_query := [], sb_results := JNull\<rparr>"

definition focused :: "search_box \<Rightarrow> search_box" where
  "focused s = (if truthy (sb_results s) then s\<lparr>sb_open := True\<rparr> else s)"

definition closed_box :: "search_box \<Rightarrow> search_box" where
  "closed_box s = s\<lparr>sb_open := False\<rparr>"

text \<open>The marked part of a text is a hit, and the three parts are the text.\<close>

lemma find_at_prefix: "find_at q s = Some i \<Longrightarrow> prefix q (drop i s) \<and> i \<le> length s"
  by (induction q s arbitrary: i rule: find_at.induct) (auto split: if_splits)

lemma to_lower_drop: "to_lower (drop i s) = drop i (to_lower s)" "to_lower (take i s) = take i (to_lower s)"
  by (simp_all add: to_lower_def drop_map take_map)

theorem highlight_parts:
  assumes "highlight txt q = (a, b, c)"
  shows "a @ b @ c = txt \<and> (b \<noteq> [] \<longrightarrow> to_lower b = to_lower q)"
proof (cases "txt = [] \<or> q = [] \<or> find_at (to_lower q) (to_lower txt) = None")
  case True
  then show ?thesis using assms by (auto simp: highlight_def split: if_splits option.splits)
next
  case False
  then obtain i where i: "find_at (to_lower q) (to_lower txt) = Some i" "txt \<noteq> []" "q \<noteq> []" by auto
  then have p: "a = take i txt" "b = take (length q) (drop i txt)" "c = drop (i + length q) txt"
    using assms by (simp_all add: highlight_def)
  have "prefix (to_lower q) (to_lower (drop i txt))" using find_at_prefix [OF i(1)] by (simp add: to_lower_drop)
  then have "take (length q) (to_lower (drop i txt)) = to_lower q" by (metis append_eq_conv_conj length_to_lower prefix_def)
  then have "to_lower b = to_lower q" by (simp add: p(2) to_lower_drop)
  moreover have "a @ b @ c = txt" unfolding p by (metis add.commute append_take_drop_id drop_drop)
  ultimately show ?thesis by blast
qed

lemma highlight_parts_witness: "highlight ''Prod SQL-01'' ''sql'' = (''Prod '', ''SQL'', ''-01'') \<and> ''Prod '' @ ''SQL'' @ ''-01'' = ''Prod SQL-01''"
proof -
  have h: "highlight ''Prod SQL-01'' ''sql'' = (''Prod '', ''SQL'', ''-01'')" by code_simp
  with highlight_parts [OF h] show ?thesis by blast
qed

text \<open>Only the text in the field is asked for, as long as no result is opened: every key press restarts the timer.\<close>

datatype search_event = TypedQuery string | TimerFired | AnswerCame "jsval option" | Focus | CloseBox

definition search_step :: "search_event \<Rightarrow> search_box \<Rightarrow> search_box" where
  "search_step ev s = (case ev of TypedQuery q \<Rightarrow> handleChange q s | TimerFired \<Rightarrow> timer_fired s | AnswerCame a \<Rightarrow> search_answered a s
     | Focus \<Rightarrow> focused s | CloseBox \<Rightarrow> closed_box s)"

definition timer_ok :: "search_box \<Rightarrow> bool" where
  "timer_ok s \<longleftrightarrow> (\<forall>q. sb_timer s = Some q \<longrightarrow> q = sb_query s \<and> 2 \<le> length q)"

lemma timer_step: "timer_ok s \<Longrightarrow> timer_ok (search_step ev s)"
  by (cases ev) (simp_all add: timer_ok_def search_step_def handleChange_def timer_fired_def doSearch_def search_answered_def focused_def
      closed_box_def Let_def split: option.splits)

lemma timer_is_query: "timer_ok (foldl (\<lambda>s ev. search_step ev s) init_search evs)"
  by (induction evs rule: rev_induct) (simp_all add: timer_step, simp add: timer_ok_def init_search_def)

text \<open>An answer is not compared with the field. When the answer of an earlier text comes after that of a later one, it is the one
  that stays, under the later text; and one that comes after a result was opened opens the box again over an empty field.\<close>

theorem stale_answer_stays:
  assumes "2 \<le> length q1" "2 \<le> length q2"
    and "s = timer_fired (handleChange q2 (timer_fired (handleChange q1 s0)))"
  shows "sb_query s = q2 \<and> sb_asked s = sb_asked s0 @ [q1, q2]
    \<and> sb_results (search_answered (Some d1) (search_answered (Some d2) s)) = d1
    \<and> sb_query (search_answered (Some d1) (search_answered (Some d2) s)) = q2
    \<and> sb_open (search_answered (Some d1) (go s)) \<and> sb_query (search_answered (Some d1) (go s)) = []"
  using assms(1,2) unfolding assms(3)
  by (simp add: handleChange_def timer_fired_def doSearch_def search_answered_def go_def)

lemma stale_answer_stays_witness:
  "sb_results (search_answered (Some (JNum 1)) (search_answered (Some (JNum 2))
     (timer_fired (handleChange ''bc'' (timer_fired (handleChange ''ab'' init_search)))))) = JNum 1"
  using stale_answer_stays [OF _ _ refl, of "''ab''" "''bc''" init_search "JNum 1" "JNum 2"] by simp

subsection \<open>The notification bell\<close>

record bell =
  nb_items :: "jsval list"
  nb_unread :: int

definition is_read :: "jsval \<Rightarrow> bool" where
  "is_read n \<longleftrightarrow> truthy (jget n ''read'')"

definition set_read :: "jsval \<Rightarrow> jsval" where
  "set_read n = (case n of JObj kvs \<Rightarrow> JObj (obj_set kvs ''read'' (JBool True)) | _ \<Rightarrow> n)"

definition fetched :: "jsval \<Rightarrow> bell \<Rightarrow> bell" where
  "fetched d b = \<lparr>nb_items = (case jget d ''items'' of JArr xs \<Rightarrow> xs | _ \<Rightarrow> []), nb_unread = (case jget d ''unread_count'' of JNum n \<Rightarrow> n | _ \<Rightarrow> 0)\<rparr>"

definition notification_frame :: "jsval \<Rightarrow> bell \<Rightarrow> bell" where
  "notification_frame msg b =
     (if jget msg ''type'' = JStr ''notification'' \<and> truthy (jget msg ''notification'')
      then \<lparr>nb_items = take 40 (jget msg ''notification'' # nb_items b), nb_unread = nb_unread b + 1\<rparr> else b)"

text \<open>A click asks the server for an unread one; the answer marks it here.\<close>

definition asks_read :: "jsval \<Rightarrow> bool" where
  "asks_read n \<longleftrightarrow> \<not> is_read n"

definition marked :: "jsval \<Rightarrow> bell \<Rightarrow> bell" where
  "marked n b = \<lparr>nb_items = map (\<lambda>x. if jget x ''id'' = jget n ''id'' then set_read x else x) (nb_items b),
     nb_unread = max 0 (nb_unread b - 1)\<rparr>"

definition all_marked :: "bell \<Rightarrow> bell" where
  "all_marked b = \<lparr>nb_items = map set_read (nb_items b), nb_unread = 0\<rparr>"

definition badge :: "bell \<Rightarrow> string option" where
  "badge b = (if nb_unread b > 0 then Some (if nb_unread b > 99 then ''99+'' else show_int (nb_unread b)) else None)"

datatype bell_event = Fetched jsval | Frame jsval | Marked jsval | AllMarked

definition bell_step :: "bell_event \<Rightarrow> bell \<Rightarrow> bell" where
  "bell_step ev b = (case ev of Fetched d \<Rightarrow> fetched d b | Frame m \<Rightarrow> notification_frame m b | Marked n \<Rightarrow> marked n b | AllMarked \<Rightarrow> all_marked b)"

lemma unread_never_negative:
  assumes "0 \<le> nb_unread b" "\<forall>d. Fetched d \<in> set evs \<longrightarrow> (case jget d ''unread_count'' of JNum n \<Rightarrow> 0 \<le> n | _ \<Rightarrow> True)"
  shows "0 \<le> nb_unread (foldl (\<lambda>b ev. bell_step ev b) b evs)"
  using assms(2)
proof (induction evs rule: rev_induct)
  case Nil
  then show ?case using assms(1) by simp
next
  case (snoc ev evs)
  then show ?case
    by (cases ev) (auto simp: bell_step_def fetched_def notification_frame_def marked_def all_marked_def split: jsval.splits)
qed

text \<open>Two clicks before the first answer both ask, and both answers count: the badge loses two for one notification.\<close>

theorem double_click_counts_twice:
  assumes "asks_read n" "2 \<le> nb_unread b"
  shows "nb_unread (marked n (marked n b)) = nb_unread b - 2
    \<and> length (filter (\<lambda>x. \<not> is_read x) (nb_items (marked n (marked n b)))) = length (filter (\<lambda>x. \<not> is_read x) (nb_items (marked n b)))"
proof -
  have idem: "is_read (if jget (if jget x ''id'' = i then set_read x else x) ''id'' = i
      then set_read (if jget x ''id'' = i then set_read x else x) else (if jget x ''id'' = i then set_read x else x))
      = is_read (if jget x ''id'' = i then set_read x else x)" for x i
    by (cases x) (auto simp: set_read_def is_read_def)
  have "filter (\<lambda>x. \<not> is_read x) (map (\<lambda>x. if jget x ''id'' = i then set_read x else x) (map (\<lambda>x. if jget x ''id'' = i then set_read x else x) xs))
      = map (\<lambda>x. if jget x ''id'' = i then set_read x else x) (filter (\<lambda>x. \<not> is_read x) (map (\<lambda>x. if jget x ''id'' = i then set_read x else x) xs))" for i xs
    using idem by (induction xs) simp_all
  then show ?thesis using assms by (simp add: marked_def)
qed

lemma double_click_counts_twice_witness:
  "nb_unread (marked (JObj [(''id'', JStr ''n1'')]) (marked (JObj [(''id'', JStr ''n1'')]) \<lparr>nb_items = [], nb_unread = 3\<rparr>)) = 1"
  using double_click_counts_twice [of "JObj [(''id'', JStr ''n1'')]" "\<lparr>nb_items = [], nb_unread = 3\<rparr>"]
  by (simp add: asks_read_def is_read_def)

end
