(* ===== verification/Js_Date.thy ===== *)
theory Js_Date
  imports Js_Base "HOL-Library.Monad_Syntax"
begin

text \<open>
  The part of the JavaScript \<open>Date\<close> library the application uses: the proleptic Gregorian calendar,
  \<open>Date.UTC\<close> with its roll-over and its two-digit years, \<open>toISOString\<close>, and the ISO 8601 strings
  \<open>new Date(s)\<close> is required to read. A time value is an \<open>int\<close> number of milliseconds since
  1970-01-01T00:00:00Z. Every other string (\<open>Date.parse\<close> leaves those to the implementation) is
  read by a parameter.
\<close>

subsection \<open>Days and civil dates\<close>

definition leap :: "int \<Rightarrow> bool" where
  "leap y \<longleftrightarrow> y mod 4 = 0 \<and> (y mod 100 \<noteq> 0 \<or> y mod 400 = 0)"

text \<open>Days from 1 January of year 0 to 1 January of year \<open>y\<close>.\<close>

definition year_start :: "int \<Rightarrow> int" where
  "year_start y = 365 * y + (y + 3) div 4 - (y + 99) div 100 + (y + 399) div 400"

definition year_days :: "int \<Rightarrow> int" where
  "year_days y = (if leap y then 366 else 365)"

text \<open>Days of a year before its month \<open>m\<close> (1 to 12; 13 gives the length of the year).\<close>

definition month_start :: "bool \<Rightarrow> int \<Rightarrow> int" where
  "month_start l m =
     (if m \<le> 1 then 0 else if m = 2 then 31
      else (if l then 1 else 0) +
        (if m = 3 then 59 else if m = 4 then 90 else if m = 5 then 120 else if m = 6 then 151
         else if m = 7 then 181 else if m = 8 then 212 else if m = 9 then 243
         else if m = 10 then 273 else if m = 11 then 304 else if m = 12 then 334 else 365))"

lemma month_start_table [simp]:
  "month_start l 1 = 0" "month_start l 2 = 31" "month_start l 3 = (if l then 60 else 59)"
  "month_start l 4 = (if l then 91 else 90)" "month_start l 5 = (if l then 121 else 120)"
  "month_start l 6 = (if l then 152 else 151)" "month_start l 7 = (if l then 182 else 181)"
  "month_start l 8 = (if l then 213 else 212)" "month_start l 9 = (if l then 244 else 243)"
  "month_start l 10 = (if l then 274 else 273)" "month_start l 11 = (if l then 305 else 304)"
  "month_start l 12 = (if l then 335 else 334)" "month_start l 13 = (if l then 366 else 365)"
  by (simp_all add: month_start_def)

definition month_of :: "bool \<Rightarrow> int \<Rightarrow> int" where
  "month_of l d =
     (if d < month_start l 2 then 1 else if d < month_start l 3 then 2
      else if d < month_start l 4 then 3 else if d < month_start l 5 then 4
      else if d < month_start l 6 then 5 else if d < month_start l 7 then 6
      else if d < month_start l 8 then 7 else if d < month_start l 9 then 8
      else if d < month_start l 10 then 9 else if d < month_start l 11 then 10
      else if d < month_start l 12 then 11 else 12)"

definition month_days :: "int \<Rightarrow> int \<Rightarrow> int" where
  "month_days y m = month_start (leap y) (m + 1) - month_start (leap y) m"

text \<open>Day number of a civil date, 0 for 1970-01-01.\<close>

definition day_number :: "int \<Rightarrow> int \<Rightarrow> int \<Rightarrow> int" where
  "day_number y m d = year_start y + month_start (leap y) m + (d - 1) - 719528"

definition year_of :: "int \<Rightarrow> int" where
  "year_of z = (let g = 400 * z div 146097 in
     if year_start (g + 1) \<le> z then g + 1 else if year_start g \<le> z then g else g - 1)"

definition civil :: "int \<Rightarrow> int \<times> int \<times> int" where
  "civil n = (let z = n + 719528; y = year_of z; k = z - year_start y; m = month_of (leap y) k
     in (y, m, k - month_start (leap y) m + 1))"

definition valid_date :: "int \<Rightarrow> int \<Rightarrow> int \<Rightarrow> bool" where
  "valid_date y m d \<longleftrightarrow> 1 \<le> m \<and> m \<le> 12 \<and> 1 \<le> d \<and> d \<le> month_days y m"

lemma div_bounds: "(k::int) > 0 \<Longrightarrow> k * (a div k) \<le> a \<and> a < k * (a div k) + k"
  using mult_div_mod_eq [of k a] pos_mod_bound [of k a] pos_mod_sign [of k a] by linarith

lemma div_step:
  assumes "(k::int) > 1" "j = k - 1"
  shows "(y + k) div k = (y + j) div k + (if y mod k = 0 then 1 else 0)"
proof -
  have e: "(y + k) div k = y div k + 1" using assms by (simp add: div_add_self2)
  have s: "(y + (k - 1)) div k = y div k + (y mod k + (k - 1)) div k"
  proof -
    have "y + (k - 1) = (y mod k + (k - 1)) + (y div k) * k" by simp
    then show ?thesis using assms by (metis add.commute div_mult_self1 order_less_irrefl
        order_less_trans zero_less_one)
  qed
  show ?thesis
  proof (cases "y mod k = 0")
    case True
    then show ?thesis using assms e s by simp
  next
    case False
    then have r: "0 < y mod k" "y mod k < k"
      using assms pos_mod_sign [of k y] pos_mod_bound [of k y] by linarith+
    have "(y mod k + (k - 1)) div k = 1"
      using r assms by (intro int_div_pos_eq [where r = "y mod k - 1"]) linarith+
    with e s False assms(2) show ?thesis by simp
  qed
qed

lemma mod_multiple: "(a::int) dvd b \<Longrightarrow> y mod b = 0 \<Longrightarrow> y mod a = 0"
  by (metis mod_0 mod_mod_cancel)

lemma year_start_Suc: "year_start (y + 1) = year_start y + year_days y"
proof -
  have d: "y mod 100 = 0" if "y mod 400 = 0" by (rule mod_multiple [OF _ that]) simp
  have e: "y mod 4 = 0" if "y mod 100 = 0" by (rule mod_multiple [OF _ that]) simp
  have s: "(y + 4) div 4 = (y + 3) div 4 + (if y mod 4 = 0 then 1 else 0)"
    "(y + 100) div 100 = (y + 99) div 100 + (if y mod 100 = 0 then 1 else 0)"
    "(y + 400) div 400 = (y + 399) div 400 + (if y mod 400 = 0 then 1 else 0)"
    by (rule div_step; simp)+
  have n: "y + 1 + 3 = y + 4" "y + 1 + 99 = y + 100" "y + 1 + 399 = y + 400" by simp_all
  have "year_start (y + 1) = year_start y + 365 + (if y mod 4 = 0 then 1 else 0)
      - (if y mod 100 = 0 then 1 else 0) + (if y mod 400 = 0 then 1 else 0)"
    unfolding year_start_def n s by simp
  moreover define a b c where "a \<longleftrightarrow> y mod 4 = 0" and "b \<longleftrightarrow> y mod 100 = 0" and "c \<longleftrightarrow> y mod 400 = 0"
  moreover have "c \<Longrightarrow> b" "b \<Longrightarrow> a" using d e by (simp_all only: a_def b_def c_def)
  ultimately show ?thesis
    unfolding year_days_def leap_def a_def [symmetric] b_def [symmetric] c_def [symmetric]
    by (cases a; cases b; cases c; simp)
qed

lemma year_days_pos: "365 \<le> year_days y" "year_days y \<le> 366"
  by (simp_all add: year_days_def)

lemma year_start_mono: "x \<le> y \<Longrightarrow> year_start x + 365 * (y - x) \<le> year_start y"
proof (induction y rule: int_ge_induct)
  case (step i)
  then show ?case using year_start_Suc [of i] year_days_pos [of i] by (simp add: algebra_simps)
qed simp

lemma year_start_bounds:
  "146097 * y - 397 \<le> 400 * year_start y" "400 * year_start y \<le> 146097 * y + 700"
proof -
  have "400 * ((y + 3) div 4) \<le> 100 * y + 300" "100 * y \<le> 400 * ((y + 3) div 4)"
    "400 * ((y + 99) div 100) \<le> 4 * y + 396" "4 * y \<le> 400 * ((y + 99) div 100)"
    "400 * ((y + 399) div 400) \<le> y + 399" "y \<le> 400 * ((y + 399) div 400)"
    using div_bounds [of 4 "y + 3"] div_bounds [of 100 "y + 99"] div_bounds [of 400 "y + 399"]
    by linarith+
  then show "146097 * y - 397 \<le> 400 * year_start y" "400 * year_start y \<le> 146097 * y + 700"
    by (simp_all add: year_start_def algebra_simps)
qed

lemma year_of_bounds: "year_start (year_of z) \<le> z" "z < year_start (year_of z + 1)"
proof -
  define g where "g = 400 * z div 146097"
  have g: "146097 * g \<le> 400 * z" "400 * z < 146097 * g + 146097"
    using div_bounds [of 146097 "400 * z"] by (simp_all add: g_def)
  have lo: "year_start (g - 1) \<le> z" using year_start_bounds(2) [of "g - 1"] g
    by (simp add: algebra_simps)
  have hi: "z < year_start (g + 2)" using year_start_bounds(1) [of "g + 2"] g
    by (simp add: algebra_simps)
  have e: "g + 1 + 1 = g + 2" "2 + g = g + 2" by simp_all
  show "year_start (year_of z) \<le> z" "z < year_start (year_of z + 1)"
    using lo hi unfolding year_of_def Let_def g_def [symmetric] by (simp_all add: not_le e)
qed

lemma year_of_unique:
  assumes "year_start y \<le> z" "z < year_start (y + 1)"
  shows "year_of z = y"
proof (rule ccontr)
  assume n: "year_of z \<noteq> y"
  show False
  proof (cases "year_of z < y")
    case True
    then have "year_start (year_of z + 1) + 365 * (y - (year_of z + 1)) \<le> year_start y"
      by (intro year_start_mono) simp
    with year_of_bounds(2) [of z] assms True show False by (simp add: algebra_simps)
  next
    case False
    with n have "year_start (y + 1) + 365 * (year_of z - (y + 1)) \<le> year_start (year_of z)"
      by (intro year_start_mono) simp
    with year_of_bounds(1) [of z] assms False n show False by (simp add: algebra_simps)
  qed
qed

lemma month_of_bounds:
  assumes "0 \<le> d" "d < (if l then 366 else 365)"
  shows "1 \<le> month_of l d" "month_of l d \<le> 12"
    "month_start l (month_of l d) \<le> d" "d < month_start l (month_of l d + 1)"
  using assms by (cases l; simp add: month_of_def split: if_split)+

lemma month_cases:
  assumes "1 \<le> m" "m \<le> (12::int)"
  obtains "m = 1" | "m = 2" | "m = 3" | "m = 4" | "m = 5" | "m = 6" | "m = 7" | "m = 8" | "m = 9"
    | "m = 10" | "m = 11" | "m = 12"
  using assms by (cases "m \<le> 6") force+

lemma month_of_unique:
  assumes "1 \<le> m" "m \<le> 12" "month_start l m \<le> d" "d < month_start l (m + 1)"
  shows "month_of l d = m"
  using assms(3,4)
  by (cases l; cases rule: month_cases [OF assms(1,2)]; simp add: month_of_def)

lemma month_start_le:
  assumes "1 \<le> m" "m \<le> 12"
  shows "0 \<le> month_start l m \<and> month_start l (m + 1) \<le> (if l then 366 else 365)"
  by (cases l; cases rule: month_cases [OF assms]; simp)

theorem civil_day_number:
  assumes "valid_date y m d"
  shows "civil (day_number y m d) = (y, m, d)"
proof -
  have m: "1 \<le> m" "m \<le> 12" and d: "1 \<le> d" "d \<le> month_start (leap y) (m + 1) - month_start (leap y) m"
    using assms by (simp_all add: valid_date_def month_days_def)
  define k where "k = month_start (leap y) m + (d - 1)"
  have k: "0 \<le> k" "k < year_days y"
    using month_start_le [OF m, of "leap y"] d by (simp_all add: k_def year_days_def)
  have "year_of (year_start y + k) = y"
    by (rule year_of_unique) (use k in \<open>simp_all add: year_start_Suc\<close>)
  moreover have "month_of (leap y) k = m"
    by (rule month_of_unique [OF m]) (use d in \<open>simp_all add: k_def\<close>)
  moreover have e: "day_number y m d + 719528 = year_start y + k"
    by (simp add: day_number_def k_def)
  ultimately show ?thesis
    unfolding civil_def Let_def e by (simp add: k_def)
qed

theorem day_number_civil:
  "case civil n of (y, m, d) \<Rightarrow> valid_date y m d \<and> day_number y m d = n"
proof -
  define y where "y = year_of (n + 719528)"
  define k where "k = n + 719528 - year_start y"
  have k: "0 \<le> k" "k < (if leap y then 366 else 365)"
    using year_of_bounds [of "n + 719528"] year_start_Suc [of y]
    by (simp_all add: k_def y_def year_days_def split: if_splits)
  note mb = month_of_bounds [OF k]
  have "civil n = (y, month_of (leap y) k, k - month_start (leap y) (month_of (leap y) k) + 1)"
    by (simp add: civil_def Let_def y_def k_def)
  then show ?thesis
    using mb by (simp add: valid_date_def month_days_def day_number_def k_def)
qed

subsection \<open>Time values\<close>

definition MS_DAY :: int where "MS_DAY = 86400000"

text \<open>\<open>TimeClip\<close>: a time value further than 8.64e15 ms from the epoch is \<open>NaN\<close>.\<close>

definition time_clip :: "int \<Rightarrow> int option" where
  "time_clip t = (if \<bar>t\<bar> \<le> 8640000000000000 then Some t else None)"

text \<open>
  \<open>Date.UTC(y, month, d, h, mi, s)\<close> for integer arguments, \<open>month\<close> counted from 0: out-of-range
  components roll over, and the years 0 to 99 mean 1900 to 1999.
\<close>

definition full_year :: "int \<Rightarrow> int" where
  "full_year y = (if 0 \<le> y \<and> y \<le> 99 then 1900 + y else y)"

definition make_day :: "int \<Rightarrow> int \<Rightarrow> int \<Rightarrow> int" where
  "make_day y month d = day_number (y + month div 12) (month mod 12 + 1) 1 + (d - 1)"

definition make_time :: "int \<Rightarrow> int \<Rightarrow> int \<Rightarrow> int \<Rightarrow> int" where
  "make_time h mi s ms = h * 3600000 + mi * 60000 + s * 1000 + ms"

definition date_UTC :: "int \<Rightarrow> int \<Rightarrow> int \<Rightarrow> int \<Rightarrow> int \<Rightarrow> int \<Rightarrow> int option" where
  "date_UTC y month d h mi s =
     time_clip (make_day (full_year y) month d * MS_DAY + make_time h mi s 0)"

text \<open>The UTC fields of a time value: year, month (1 to 12), day, hour, minute, second, millisecond.\<close>

record civil_time =
  c_y :: int
  c_mo :: int
  c_d :: int
  c_h :: int
  c_mi :: int
  c_s :: int
  c_ms :: int

definition civil_time_of :: "int \<Rightarrow> civil_time" where
  "civil_time_of t = (let (y, mo, d) = civil (t div MS_DAY); r = t mod MS_DAY in
     \<lparr>c_y = y, c_mo = mo, c_d = d, c_h = r div 3600000, c_mi = r div 60000 mod 60,
      c_s = r div 1000 mod 60, c_ms = r mod 1000\<rparr>)"

definition time_of :: "civil_time \<Rightarrow> int" where
  "time_of c = day_number (c_y c) (c_mo c) (c_d c) * MS_DAY
     + make_time (c_h c) (c_mi c) (c_s c) (c_ms c)"

definition valid_time :: "civil_time \<Rightarrow> bool" where
  "valid_time c \<longleftrightarrow> valid_date (c_y c) (c_mo c) (c_d c) \<and> 0 \<le> c_h c \<and> c_h c < 24 \<and>
     0 \<le> c_mi c \<and> c_mi c < 60 \<and> 0 \<le> c_s c \<and> c_s c < 60 \<and> 0 \<le> c_ms c \<and> c_ms c < 1000"

lemma split_day:
  assumes "0 \<le> (r::int)" "r < 86400000"
  shows "make_time (r div 3600000) (r div 60000 mod 60) (r div 1000 mod 60) (r mod 1000) = r"
    "0 \<le> r div 3600000" "r div 3600000 < 24"
proof -
  have a: "r div 60000 = r div 1000 div 60" "r div 3600000 = r div 1000 div 60 div 60"
    by (simp_all flip: zdiv_zmult2_eq)
  define s where "s = r div 1000"
  define m where "m = s div 60"
  have "m = 60 * (m div 60) + m mod 60" "s = 60 * m + s mod 60" "r = 1000 * s + r mod 1000"
    by (simp_all add: s_def m_def)
  then show "make_time (r div 3600000) (r div 60000 mod 60) (r div 1000 mod 60) (r mod 1000) = r"
    unfolding make_time_def a s_def [symmetric] m_def [symmetric] by linarith
  show "0 \<le> r div 3600000" "r div 3600000 < 24"
    using assms by (simp_all add: div_less_iff_less_mult)
qed

lemma time_of_civil_time_of: "time_of (civil_time_of t) = t"
proof -
  obtain y mo d where c: "civil (t div MS_DAY) = (y, mo, d)" by (cases "civil (t div MS_DAY)")
  have "day_number y mo d = t div MS_DAY" using day_number_civil [of "t div MS_DAY"] c by simp
  moreover have "0 \<le> t mod MS_DAY" "t mod MS_DAY < 86400000" by (simp_all add: MS_DAY_def)
  ultimately show ?thesis
    by (simp add: time_of_def civil_time_of_def c Let_def split_day(1))
qed

lemma valid_civil_time_of: "valid_time (civil_time_of t)"
proof -
  obtain y mo d where c: "civil (t div MS_DAY) = (y, mo, d)" by (cases "civil (t div MS_DAY)")
  have "valid_date y mo d" using day_number_civil [of "t div MS_DAY"] c by simp
  moreover have "0 \<le> t mod MS_DAY" "t mod MS_DAY < 86400000" by (simp_all add: MS_DAY_def)
  ultimately show ?thesis
    using split_day(2,3) by (simp add: valid_time_def civil_time_of_def c Let_def)
qed

lemma div_mod_add:
  assumes "0 \<le> r" "r < (k::int)"
  shows "(x * k + r) div k = x" "(x * k + r) mod k = r"
  using assms by simp_all

lemma time_in_day:
  assumes "0 \<le> h" "h < 24" "0 \<le> mi" "mi < 60" "0 \<le> s" "s < 60" "0 \<le> ms" "ms < (1000::int)"
  shows "make_time h mi s ms div MS_DAY = 0" "make_time h mi s ms mod MS_DAY = make_time h mi s ms"
    "make_time h mi s ms div 3600000 = h" "make_time h mi s ms div 60000 mod 60 = mi"
    "make_time h mi s ms div 1000 mod 60 = s" "make_time h mi s ms mod 1000 = ms"
proof -
  have r: "0 \<le> make_time h mi s ms" "make_time h mi s ms < MS_DAY"
    using assms by (simp_all add: make_time_def MS_DAY_def)
  then show "make_time h mi s ms div MS_DAY = 0" "make_time h mi s ms mod MS_DAY = make_time h mi s ms"
    by simp_all
  have a: "make_time h mi s ms = (h * 3600 + mi * 60 + s) * 1000 + ms"
    "make_time h mi s ms = (h * 60 + mi) * 60000 + (s * 1000 + ms)"
    "make_time h mi s ms = h * 3600000 + (mi * 60000 + s * 1000 + ms)"
    by (simp_all add: make_time_def algebra_simps)
  have m: "0 \<le> s * 1000 + ms" "s * 1000 + ms < 60000" "0 \<le> mi * 60000 + s * 1000 + ms"
    "mi * 60000 + s * 1000 + ms < 3600000" using assms by linarith+
  show "make_time h mi s ms mod 1000 = ms"
    unfolding a(1) by (rule div_mod_add(2)) (use assms in simp_all)
  have "make_time h mi s ms div 1000 = (h * 60 + mi) * 60 + s"
    unfolding a(1) by (subst div_mod_add(1)) (use assms in simp_all)
  then show "make_time h mi s ms div 1000 mod 60 = s"
    using assms by (simp only: div_mod_add(2))
  have "make_time h mi s ms div 60000 = h * 60 + mi"
    unfolding a(2) by (rule div_mod_add(1)) (use m in simp_all)
  then show "make_time h mi s ms div 60000 mod 60 = mi"
    using assms by (simp only: div_mod_add(2))
  show "make_time h mi s ms div 3600000 = h"
    unfolding a(3) by (rule div_mod_add(1)) (use m in simp_all)
qed

theorem civil_time_of_time_of:
  assumes "valid_time c"
  shows "civil_time_of (time_of c) = c"
proof -
  have v: "valid_date (c_y c) (c_mo c) (c_d c)" using assms by (simp add: valid_time_def)
  define r where "r = make_time (c_h c) (c_mi c) (c_s c) (c_ms c)"
  have h: "0 \<le> c_h c" "c_h c < 24" "0 \<le> c_mi c" "c_mi c < 60" "0 \<le> c_s c" "c_s c < 60"
    "0 \<le> c_ms c" "c_ms c < 1000" using assms by (simp_all add: valid_time_def)
  note t = time_in_day [OF h, folded r_def]
  have r: "0 \<le> r" "r < MS_DAY" using h by (simp_all add: r_def make_time_def MS_DAY_def)
  have "time_of c = day_number (c_y c) (c_mo c) (c_d c) * MS_DAY + r"
    by (simp add: time_of_def r_def)
  then have "time_of c div MS_DAY = day_number (c_y c) (c_mo c) (c_d c)" "time_of c mod MS_DAY = r"
    using r by (simp_all only: div_mod_add)
  then show ?thesis
    by (simp add: civil_time_of_def Let_def civil_day_number [OF v] t)
qed

lemma date_UTC_valid:
  assumes "valid_time c" "\<not> (0 \<le> c_y c \<and> c_y c \<le> 99)"
  shows "date_UTC (c_y c) (c_mo c - 1) (c_d c) (c_h c) (c_mi c) (c_s c) = time_clip (time_of c - c_ms c)"
proof -
  have "1 \<le> c_mo c" "c_mo c \<le> 12" using assms by (simp_all add: valid_time_def valid_date_def)
  then have "(c_mo c - 1) div 12 = 0" "(c_mo c - 1) mod 12 = c_mo c - 1" by simp_all
  moreover have "full_year (c_y c) = c_y c" using assms(2) by (auto simp: full_year_def)
  ultimately have "make_day (full_year (c_y c)) (c_mo c - 1) (c_d c) = day_number (c_y c) (c_mo c) (c_d c)"
    by (simp add: make_day_def day_number_def)
  then show ?thesis by (simp add: date_UTC_def time_of_def make_time_def add.assoc)
qed

subsection \<open>ISO 8601 strings\<close>

text \<open>A number padded with zeros to \<open>n\<close> digits, and the reading of exactly \<open>n\<close> digits.\<close>

definition padn :: "nat \<Rightarrow> int \<Rightarrow> string" where
  "padn n z = pad_start n (CHR ''0'') (show_nat (nat z))"

definition take_digits :: "nat \<Rightarrow> string \<Rightarrow> (int \<times> string) option" where
  "take_digits n s =
     (if n \<le> length s \<and> list_all is_digit (take n s)
      then Some (int (val_digits (take n s)), drop n s) else None)"

fun expect :: "char \<Rightarrow> string \<Rightarrow> string option" where
  "expect c [] = None"
| "expect c (x # s) = (if x = c then Some s else None)"

text \<open>\<open>toISOString\<close>: four-digit years, six digits with a sign outside 0 to 9999.\<close>

definition iso_year :: "int \<Rightarrow> string" where
  "iso_year y = (if 0 \<le> y \<and> y \<le> 9999 then padn 4 y
     else if y < 0 then ''-'' @ padn 6 (- y) else ''+'' @ padn 6 y)"

definition iso_of_fields :: "civil_time \<Rightarrow> string" where
  "iso_of_fields c = iso_year (c_y c) @ ''-'' @ padn 2 (c_mo c) @ ''-'' @ padn 2 (c_d c) @ ''T''
     @ padn 2 (c_h c) @ '':'' @ padn 2 (c_mi c) @ '':'' @ padn 2 (c_s c) @ ''.'' @ padn 3 (c_ms c) @ ''Z''"

definition toISOString :: "int \<Rightarrow> string" where
  "toISOString t = iso_of_fields (civil_time_of t)"

text \<open>
  Reading back. \<open>parse_iso\<close> accepts a date alone (UTC midnight), or a date and a time to the minute,
  second or millisecond with \<open>Z\<close> or an offset; a component out of range is no ISO string.
\<close>

definition parse_year :: "string \<Rightarrow> (int \<times> string) option" where
  "parse_year s = (case s of [] \<Rightarrow> None
     | c # r \<Rightarrow>
        if c = CHR ''+'' then take_digits 6 r
        else if c = CHR ''-'' then
          do { (y, r) \<leftarrow> take_digits 6 r; if y = 0 then None else Some (- y, r) }
        else take_digits 4 s)"

definition parse_date :: "string \<Rightarrow> ((int \<times> int \<times> int) \<times> string) option" where
  "parse_date s = do {
     (y, s) \<leftarrow> parse_year s; s \<leftarrow> expect CHR ''-'' s;
     (mo, s) \<leftarrow> take_digits 2 s; s \<leftarrow> expect CHR ''-'' s;
     (d, s) \<leftarrow> take_digits 2 s;
     if valid_date y mo d then Some ((y, mo, d), s) else None }"

text \<open>A time of day in ms and the rest of the string; the seconds and the milliseconds are optional.\<close>

definition parse_sec :: "string \<Rightarrow> ((int \<times> int) \<times> string) option" where
  "parse_sec s = (case expect CHR '':'' s of None \<Rightarrow> Some ((0, 0), s)
     | Some s \<Rightarrow> do {
         (x, s) \<leftarrow> take_digits 2 s;
         (case expect CHR ''.'' s of None \<Rightarrow> Some ((x, 0), s)
          | Some s \<Rightarrow> do { (ms, s) \<leftarrow> take_digits 3 s; Some ((x, ms), s) }) })"

definition parse_tod :: "string \<Rightarrow> (int \<times> string) option" where
  "parse_tod s = do {
     (h, s) \<leftarrow> take_digits 2 s; s \<leftarrow> expect CHR '':'' s;
     (mi, s) \<leftarrow> take_digits 2 s;
     ((x, ms), s) \<leftarrow> parse_sec s;
     if mi < 60 \<and> x < 60 \<and> (h < 24 \<or> h = 24 \<and> mi = 0 \<and> x = 0 \<and> ms = 0)
     then Some (make_time h mi x ms, s) else None }"

definition parse_offset :: "string \<Rightarrow> int option" where
  "parse_offset s = (if s = ''Z'' then Some 0 else (case s of [] \<Rightarrow> None
     | c # r \<Rightarrow>
        if c = CHR ''+'' \<or> c = CHR ''-'' then do {
          (h, r) \<leftarrow> take_digits 2 r; r \<leftarrow> expect CHR '':'' r; (mi, r) \<leftarrow> take_digits 2 r;
          if h < 24 \<and> mi < 60 \<and> r = []
          then Some ((if c = CHR ''-'' then - 1 else 1) * make_time h mi 0 0) else None }
        else None))"

definition parse_iso :: "string \<Rightarrow> int option" where
  "parse_iso s = do {
     ((y, mo, d), r) \<leftarrow> parse_date s;
     let day = day_number y mo d * MS_DAY;
     if r = [] then time_clip day
     else do {
       r \<leftarrow> expect CHR ''T'' r; (t, r) \<leftarrow> parse_tod r; off \<leftarrow> parse_offset r;
       time_clip (day + t - off) } }"

lemma length_show_nat: "m < 10 ^ n \<Longrightarrow> 0 < n \<Longrightarrow> length (show_nat m) \<le> n"
proof (induction n arbitrary: m)
  case (Suc n)
  show ?case
  proof (cases "m < 10")
    case True
    then show ?thesis by (subst show_nat.simps) simp
  next
    case False
    then have "n \<noteq> 0" using Suc.prems by (cases n) auto
    moreover have "m div 10 < 10 ^ n"
      using Suc.prems by (simp add: div_less_iff_less_mult mult.commute)
    ultimately have "length (show_nat (m div 10)) \<le> n" using Suc.IH by simp
    with False show ?thesis by (subst show_nat.simps) simp
  qed
qed simp

lemma val_digits_zeros: "val_digits (replicate k (CHR ''0'') @ s) = val_digits s"
proof (induction k)
  case (Suc k)
  have "val_digits (CHR ''0'' # t) = val_digits t" for t by (simp add: val_digits_def)
  then show ?case using Suc by simp
qed simp

lemma padn_props:
  assumes "0 \<le> z" "z < 10 ^ n" "0 < n"
  shows "length (padn n z) = n" "list_all is_digit (padn n z)" "int (val_digits (padn n z)) = z"
proof -
  have "nat z < 10 ^ n" using assms by (simp add: nat_less_iff)
  then have l: "length (show_nat (nat z)) \<le> n" using assms(3) by (rule length_show_nat)
  then show "length (padn n z) = n" by (simp add: padn_def pad_start_def)
  show "list_all is_digit (padn n z)"
    using show_nat_digits [of "nat z"]
    by (auto simp: padn_def pad_start_def list_all_iff is_digit_def)
  show "int (val_digits (padn n z)) = z"
    using assms by (simp add: padn_def pad_start_def val_digits_zeros)
qed

lemma take_digits_padn:
  "0 \<le> z \<Longrightarrow> z < 10 ^ n \<Longrightarrow> 0 < n \<Longrightarrow> take_digits n (padn n z @ s) = Some (z, s)"
  using padn_props [of z n] by (simp add: take_digits_def)

lemma padn_head: "0 \<le> z \<Longrightarrow> z < 10 ^ n \<Longrightarrow> 0 < n \<Longrightarrow> \<exists>c r. padn n z = c # r \<and> is_digit c"
  using padn_props [of z n] by (cases "padn n z") auto

lemma parse_year_iso:
  assumes "-999999 \<le> y" "y \<le> 999999"
  shows "parse_year (iso_year y @ s) = Some (y, s)"
proof (cases "0 \<le> y \<and> y \<le> 9999")
  case True
  then have y: "0 \<le> y" "y < 10 ^ 4" by simp_all
  obtain c r where c: "padn 4 y = c # r" "is_digit c" using padn_head [OF y] by auto
  then have "c \<noteq> CHR ''+''" "c \<noteq> CHR ''-''" by (auto simp: is_digit_def)
  then have "parse_year (padn 4 y @ s) = take_digits 4 (padn 4 y @ s)"
    by (simp add: parse_year_def c)
  with True show ?thesis by (simp add: iso_year_def take_digits_padn [OF y])
next
  case False
  show ?thesis
  proof (cases "y < 0")
    case True
    then have "0 \<le> - y" "- y < 10 ^ 6" using assms by simp_all
    note t = take_digits_padn [OF this, of s]
    show ?thesis using True by (simp add: iso_year_def parse_year_def t)
  next
    case pos: False
    then have "0 \<le> y" "y < 10 ^ 6" using assms by simp_all
    note t = take_digits_padn [OF this, of s]
    show ?thesis using False pos by (auto simp: iso_year_def parse_year_def t)
  qed
qed

lemma valid_date_bounds:
  assumes "valid_date y m d"
  shows "1 \<le> m \<and> m \<le> 12 \<and> 1 \<le> d \<and> d \<le> 31"
proof -
  have m: "1 \<le> m" "m \<le> 12" and d: "1 \<le> d" "d \<le> month_days y m"
    using assms by (simp_all add: valid_date_def)
  have "month_days y m \<le> 31"
    by (cases rule: month_cases [OF m]) (simp_all add: month_days_def)
  with m d show ?thesis by simp
qed

lemma parse_iso_fields:
  assumes "valid_time c" "-999999 \<le> c_y c" "c_y c \<le> 999999"
  shows "parse_iso (iso_of_fields c) = time_clip (time_of c)"
proof -
  have v: "valid_date (c_y c) (c_mo c) (c_d c)" using assms(1) by (simp add: valid_time_def)
  note b = valid_date_bounds [OF v]
  have d: "parse_date (iso_year (c_y c) @ ''-'' @ padn 2 (c_mo c) @ ''-'' @ padn 2 (c_d c) @ s)
      = Some ((c_y c, c_mo c, c_d c), s)" for s
    using v b by (simp add: parse_date_def parse_year_iso [OF assms(2,3)] take_digits_padn)
  have t: "parse_tod (padn 2 (c_h c) @ '':'' @ padn 2 (c_mi c) @ '':'' @ padn 2 (c_s c) @ ''.''
      @ padn 3 (c_ms c) @ s) = Some (make_time (c_h c) (c_mi c) (c_s c) (c_ms c), s)" for s
    using assms(1) by (simp add: parse_tod_def parse_sec_def take_digits_padn valid_time_def)
  show ?thesis
    using d t by (simp add: parse_iso_def iso_of_fields_def parse_offset_def time_of_def)
qed

lemma year_bound:
  assumes "\<bar>t\<bar> \<le> 8640000000000000"
  shows "-999999 \<le> c_y (civil_time_of t)" "c_y (civil_time_of t) \<le> 999999"
proof -
  define y where "y = c_y (civil_time_of t)"
  have y: "y = year_of (t div MS_DAY + 719528)"
    by (simp add: y_def civil_time_of_def civil_def Let_def)
  have "MS_DAY * (t div MS_DAY) \<le> t" "t < MS_DAY * (t div MS_DAY) + MS_DAY"
    using div_bounds [of MS_DAY t] by (simp_all add: MS_DAY_def)
  then have "- 100000001 \<le> t div MS_DAY" "t div MS_DAY \<le> 100000000"
    using assms unfolding MS_DAY_def by linarith+
  then have "year_start y \<le> 101000000" "-101000000 < year_start (y + 1)"
    using year_of_bounds [of "t div MS_DAY + 719528", folded y] by linarith+
  then show "-999999 \<le> c_y (civil_time_of t)" "c_y (civil_time_of t) \<le> 999999"
    using year_start_bounds(1) [of y] year_start_bounds(2) [of "y + 1"] by (simp_all add: y_def)
qed

theorem parse_toISOString:
  "time_clip t = Some t \<Longrightarrow> parse_iso (toISOString t) = Some t"
  using parse_iso_fields [OF valid_civil_time_of [of t] year_bound]
  by (simp add: toISOString_def time_of_civil_time_of time_clip_def split: if_splits)

end
