(* ===== verification/Date_Time.thy ===== *)
theory Date_Time
  imports Js_Date
begin

text \<open>
  \<^verbatim>\<open>frontend/src/lib/datetime.js\<close>: timestamps shown in the analyst's time zone, and wall-clock times
  entered in it turned back into UTC.

  The time zone database is data of the browser, so a zone is a parameter: the function that gives
  its offset from UTC, in milliseconds, at every instant. \<open>Intl.DateTimeFormat\<close> then shows the
  civil fields of the shifted instant. \<open>read\<close> stands for what \<open>new Date\<close> makes of a string that
  is not in the ISO format. A \<open>formatToParts\<close> of an invalid date throws: that is \<open>Inl RangeError\<close>.
\<close>

datatype date_error = RangeError

type_synonym zone = "int \<Rightarrow> int"
type_synonym reader = "string \<Rightarrow> int option"

definition new_Date :: "reader \<Rightarrow> string \<Rightarrow> int option" where
  "new_Date read s = (case parse_iso s of Some t \<Rightarrow> Some t | None \<Rightarrow> read s)"

definition pad :: "int \<Rightarrow> string" where
  "pad n = pad_start 2 (CHR ''0'') (show_int n)"

subsection \<open>The parts \<open>Intl\<close> shows\<close>

text \<open>
  \<open>year: 'numeric'\<close> without an era shows the years before 1 as 1, 2, ...; \<open>shortOffset\<close> is \<open>GMT\<close>,
  a sign, the hours, and the minutes and seconds when they are not zero.
\<close>

definition era_year :: "int \<Rightarrow> int" where
  "era_year y = (if y \<le> 0 then 1 - y else y)"

definition short_offset :: "int \<Rightarrow> string" where
  "short_offset off = (let n = \<bar>off\<bar> div 1000; h = n div 3600; m = n div 60 mod 60; s = n mod 60 in
     if n = 0 then ''GMT''
     else ''GMT'' @ (if off < 0 then ''-'' else ''+'') @ show_int h
       @ (if m \<noteq> 0 \<or> s \<noteq> 0 then '':'' @ padn 2 m else [])
       @ (if s \<noteq> 0 then '':'' @ padn 2 s else []))"

definition getOffsetString :: "zone \<Rightarrow> int \<Rightarrow> string" where
  "getOffsetString z t = (let raw = drop 3 (short_offset (z t)) in
     if raw = [] then ''+00:00''
     else (if hd raw = CHR ''-'' then ''-'' else ''+'')
       @ (case split_at (CHR '':'') (tl raw) of
            h # m # _ \<Rightarrow> pad_start 2 (CHR ''0'') h @ '':'' @ pad_start 2 (CHR ''0'') m
          | [h] \<Rightarrow> pad_start 2 (CHR ''0'') h @ '':'' @ pad_start 2 (CHR ''0'') ''0''
          | [] \<Rightarrow> []))"

definition dtParts :: "zone \<Rightarrow> int \<Rightarrow> bool \<Rightarrow> (string \<times> string) list" where
  "dtParts z t includeSeconds = (let c = civil_time_of (t + z t) in
     [(''year'', show_nat (nat (era_year (c_y c)))), (''month'', padn 2 (c_mo c)),
      (''day'', padn 2 (c_d c)), (''hour'', padn 2 (c_h c)), (''minute'', padn 2 (c_mi c))]
     @ (if includeSeconds then [(''second'', padn 2 (c_s c))] else []))"

definition get :: "(string \<times> string) list \<Rightarrow> string \<Rightarrow> string" where
  "get parts ty = (case map_of parts ty of Some v \<Rightarrow> v | None \<Rightarrow> [])"

text \<open>\<open>+s\<close> on a string of digits.\<close>

definition num :: "string \<Rightarrow> int" where
  "num s = int (val_digits s)"

definition formatLocal :: "reader \<Rightarrow> zone \<Rightarrow> string \<Rightarrow> string" where
  "formatLocal read z ts =
     (if ts = [] then []
      else case new_Date read ts of None \<Rightarrow> ts
      | Some d \<Rightarrow> let p = dtParts z d True in
          get p ''year'' @ ''-'' @ get p ''month'' @ ''-'' @ get p ''day'' @ '' '' @ get p ''hour'' @ '':''
          @ get p ''minute'' @ '':'' @ get p ''second'' @ '' '' @ getOffsetString z d)"

definition formatLocalShort :: "reader \<Rightarrow> zone \<Rightarrow> string \<Rightarrow> string" where
  "formatLocalShort read z ts =
     (if ts = [] then []
      else case new_Date read ts of None \<Rightarrow> ts
      | Some d \<Rightarrow> let p = dtParts z d False in
          get p ''year'' @ ''-'' @ get p ''month'' @ ''-'' @ get p ''day'' @ '' '' @ get p ''hour'' @ '':''
          @ get p ''minute'')"

definition relative :: "reader \<Rightarrow> zone \<Rightarrow> int \<Rightarrow> string \<Rightarrow> string" where
  "relative read z now ts =
     (if ts = [] then []
      else case new_Date read ts of None \<Rightarrow> []
      | Some d \<Rightarrow> let s = (now - d) div 1000 in
          if s < 0 then let f = - s in
            (if f < 3600 then ''in '' @ show_int (f div 60) @ ''m''
             else if f < 86400 then ''in '' @ show_int (f div 3600) @ ''h''
             else if f < 86400 * 2 then ''tomorrow''
             else if f < 86400 * 7 then ''in '' @ show_int (f div 86400) @ ''d''
             else formatLocalShort read z ts)
          else if s < 60 then show_int s @ ''s ago''
          else if s < 3600 then show_int (s div 60) @ ''m ago''
          else if s < 86400 then show_int (s div 3600) @ ''h ago''
          else if s < 86400 * 2 then ''yesterday''
          else if s < 86400 * 7 then show_int (s div 86400) @ ''d ago''
          else formatLocalShort read z ts)"

subsection \<open>Wall-clock entry\<close>

record wall =
  w_y :: int
  w_mo :: int
  w_d :: int
  w_h :: int
  w_mi :: int
  w_s :: int

text \<open>The offset at an instant; \<open>None\<close> is \<open>NaN\<close>.\<close>

definition tzOffsetMs :: "zone \<Rightarrow> int \<Rightarrow> date_error + int option" where
  "tzOffsetMs z t =
     (if time_clip t = None then Inl RangeError
      else let p = dtParts z t True in
        Inr (map_option (\<lambda>asIfUtc. asIfUtc - t)
          (date_UTC (num (get p ''year'')) (num (get p ''month'') - 1) (num (get p ''day''))
            (num (get p ''hour'')) (num (get p ''minute'')) (num (get p ''second'')))))"

definition isoToZonedParts :: "reader \<Rightarrow> zone \<Rightarrow> string \<Rightarrow> wall option" where
  "isoToZonedParts read z ts =
     (if ts = [] then None
      else case new_Date read ts of None \<Rightarrow> None
      | Some d \<Rightarrow> let p = dtParts z d True in
          Some \<lparr>w_y = num (get p ''year''), w_mo = num (get p ''month''), w_d = num (get p ''day''),
            w_h = num (get p ''hour''), w_mi = num (get p ''minute''), w_s = num (get p ''second'')\<rparr>)"

text \<open>
  The components are integers here, so the \<open>isFinite\<close> guard passes. The second offset of a \<open>NaN\<close>
  instant throws; a \<open>NaN\<close> second offset makes the date invalid, which returns \<open>null\<close>.
\<close>

definition zonedPartsToIso :: "reader \<Rightarrow> zone \<Rightarrow> wall \<Rightarrow> date_error + string option" where
  "zonedPartsToIso read z w =
     (case date_UTC (w_y w) (w_mo w - 1) (w_d w) (w_h w) (w_mi w) (w_s w) of None \<Rightarrow> Inr None
      | Some asUtc \<Rightarrow>
        (case tzOffsetMs z asUtc of Inl e \<Rightarrow> Inl e
         | Inr None \<Rightarrow> Inl RangeError
         | Inr (Some off) \<Rightarrow>
           let utc = asUtc - off in
           (case tzOffsetMs z utc of Inl e \<Rightarrow> Inl e
            | Inr None \<Rightarrow> Inr None
            | Inr (Some off2) \<Rightarrow>
              let utc2 = asUtc - off2; utc = (if utc2 \<noteq> utc then utc2 else utc) in
              (case time_clip utc of None \<Rightarrow> Inr None
               | Some dt \<Rightarrow>
                 (case isoToZonedParts read z (toISOString dt) of None \<Rightarrow> Inr None
                  | Some back \<Rightarrow>
                    if w_y back \<noteq> w_y w \<or> w_mo back \<noteq> w_mo w \<or> w_d back \<noteq> w_d w \<or>
                       w_h back \<noteq> w_h w \<or> w_mi back \<noteq> w_mi w \<or> w_s back \<noteq> w_s w
                    then Inr None else Inr (Some (toISOString dt)))))))"

subsection \<open>What a zone shows\<close>

definition wall_in :: "zone \<Rightarrow> int \<Rightarrow> wall" where
  "wall_in z t = (let c = civil_time_of (t + z t) in
     \<lparr>w_y = era_year (c_y c), w_mo = c_mo c, w_d = c_d c, w_h = c_h c, w_mi = c_mi c, w_s = c_s c\<rparr>)"

lemma num_padn: "0 \<le> n \<Longrightarrow> n < 100 \<Longrightarrow> num (padn 2 n) = n"
  using padn_props(3) [of n 2] by (simp add: num_def)

lemma num_show_nat: "0 \<le> n \<Longrightarrow> num (show_nat (nat n)) = n"
  by (simp add: num_def)

lemma civil_field_bounds:
  "0 \<le> c_mo (civil_time_of t)" "c_mo (civil_time_of t) < 100" "0 \<le> c_d (civil_time_of t)"
  "c_d (civil_time_of t) < 100" "0 \<le> c_h (civil_time_of t)" "c_h (civil_time_of t) < 100"
  "0 \<le> c_mi (civil_time_of t)" "c_mi (civil_time_of t) < 100" "0 \<le> c_s (civil_time_of t)"
  "c_s (civil_time_of t) < 100"
  using valid_civil_time_of [of t] valid_date_bounds [of "c_y (civil_time_of t)"]
  by (auto simp: valid_time_def) force+

lemma get_parts:
  "num (get (dtParts z t True) ''year'') = w_y (wall_in z t)"
  "num (get (dtParts z t True) ''month'') = w_mo (wall_in z t)"
  "num (get (dtParts z t True) ''day'') = w_d (wall_in z t)"
  "num (get (dtParts z t True) ''hour'') = w_h (wall_in z t)"
  "num (get (dtParts z t True) ''minute'') = w_mi (wall_in z t)"
  "num (get (dtParts z t True) ''second'') = w_s (wall_in z t)"
  using civil_field_bounds [of "t + z t"]
  by (simp_all add: get_def dtParts_def wall_in_def Let_def num_padn num_show_nat era_year_def)

lemma toISOString_nonempty: "toISOString t \<noteq> []"
  by (simp add: toISOString_def iso_of_fields_def)

lemma isoToZonedParts_toISOString:
  "time_clip t = Some t \<Longrightarrow> isoToZonedParts read z (toISOString t) = Some (wall_in z t)"
  by (simp add: isoToZonedParts_def new_Date_def parse_toISOString toISOString_nonempty get_parts Let_def)

lemma time_clip_Some: "time_clip t = Some u \<longleftrightarrow> u = t \<and> \<bar>t\<bar> \<le> 8640000000000000"
  by (auto simp: time_clip_def)

text \<open>The answer of an entry, once the zone has given both offsets.\<close>

definition entry_result :: "zone \<Rightarrow> wall \<Rightarrow> int \<Rightarrow> string option" where
  "entry_result z w t = (if time_clip t = Some t \<and> wall_in z t = w then Some (toISOString t) else None)"

lemma wall_eq_iff:
  "w = v \<longleftrightarrow> w_y w = w_y v \<and> w_mo w = w_mo v \<and> w_d w = w_d v \<and> w_h w = w_h v \<and> w_mi w = w_mi v
     \<and> w_s w = w_s (v::wall)"
  by auto

lemma entry_core:
  assumes "date_UTC (w_y w) (w_mo w - 1) (w_d w) (w_h w) (w_mi w) (w_s w) = Some u"
    "tzOffsetMs z u = Inr (Some x)" "tzOffsetMs z (u - x) = Inr (Some y)"
  shows "zonedPartsToIso read z w = Inr (entry_result z w (u - y))"
proof (cases "time_clip (u - y)")
  case None
  then show ?thesis using assms
    by (cases "y = x") (simp_all add: zonedPartsToIso_def entry_result_def Let_def)
next
  case (Some t)
  then have t: "t = u - y" "time_clip (u - y) = Some (u - y)" by (simp_all add: time_clip_Some)
  show ?thesis
    using assms t by (auto simp: zonedPartsToIso_def entry_result_def Let_def
        isoToZonedParts_toISOString wall_eq_iff)
qed

lemma entry_cases:
  assumes "zonedPartsToIso read z w = Inr (Some ts)"
  obtains u x y where "date_UTC (w_y w) (w_mo w - 1) (w_d w) (w_h w) (w_mi w) (w_s w) = Some u"
    "tzOffsetMs z u = Inr (Some x)" "tzOffsetMs z (u - x) = Inr (Some y)"
  using assms
  by (auto simp: zonedPartsToIso_def Let_def split: option.splits sum.splits)

text \<open>An accepted wall-clock entry is the timestamp of an instant at which the zone shows exactly
  that wall clock, whatever the zone does: reading it back gives the entry.\<close>

theorem entry_shows_what_was_entered:
  assumes "zonedPartsToIso read z w = Inr (Some ts)"
  shows "isoToZonedParts read z ts = Some w"
proof -
  obtain u x y where e: "date_UTC (w_y w) (w_mo w - 1) (w_d w) (w_h w) (w_mi w) (w_s w) = Some u"
    "tzOffsetMs z u = Inr (Some x)" "tzOffsetMs z (u - x) = Inr (Some y)"
    using assms by (rule entry_cases)
  have "entry_result z w (u - y) = Some ts"
    using assms entry_core [OF e, of read] by simp
  then show ?thesis
    by (auto simp: entry_result_def isoToZonedParts_toISOString split: if_splits)
qed

subsection \<open>Every wall clock that exists can be entered\<close>

text \<open>
  The instant that would be meant if the wall clock were UTC, and the zones for which the one
  correction pass is enough: around that instant the offset changes at most once (at \<open>T\<close>, from \<open>a\<close>
  to \<open>b\<close>; no change is \<open>a = b\<close>), offsets are whole seconds of at most a day. The years 1 to 100 are
  left out because \<open>Date.UTC\<close> reads a year below 100 as 19xx, and the year is bounded by what a
  \<open>Date\<close> holds.
\<close>

definition wall_utc :: "wall \<Rightarrow> int" where
  "wall_utc w = time_of \<lparr>c_y = w_y w, c_mo = w_mo w, c_d = w_d w, c_h = w_h w, c_mi = w_mi w,
     c_s = w_s w, c_ms = 0\<rparr>"

definition valid_wall :: "wall \<Rightarrow> bool" where
  "valid_wall w \<longleftrightarrow> 101 \<le> w_y w \<and> w_y w \<le> 270000 \<and>
     valid_time \<lparr>c_y = w_y w, c_mo = w_mo w, c_d = w_d w, c_h = w_h w, c_mi = w_mi w, c_s = w_s w, c_ms = 0\<rparr>"

definition one_change :: "zone \<Rightarrow> int \<Rightarrow> int \<Rightarrow> int \<Rightarrow> int \<Rightarrow> bool" where
  "one_change z u T a b \<longleftrightarrow>
     (\<forall>t. \<bar>t - u\<bar> \<le> 3 * MS_DAY \<longrightarrow> z t = (if t < T then a else b)) \<and> (\<forall>t. \<bar>z t\<bar> \<le> MS_DAY) \<and>
     T mod 1000 = 0 \<and> a mod 1000 = 0 \<and> b mod 1000 = 0 \<and> \<bar>a\<bar> \<le> MS_DAY \<and> \<bar>b\<bar> \<le> MS_DAY"

text \<open>The instant the entry is stored as, \<open>None\<close> for a wall clock the zone skips.\<close>

definition entered_instant :: "int \<Rightarrow> int \<Rightarrow> int \<Rightarrow> int \<Rightarrow> int option" where
  "entered_instant u T a b =
     (if u < T
      then (if u - a < T then Some (u - a) else if T \<le> u - b then Some (u - b) else None)
      else (if T \<le> u - b then Some (u - b) else if u - a < T then Some (u - a) else None))"

lemma year_of_ge: "year_start y \<le> n \<Longrightarrow> y \<le> year_of n"
proof (rule ccontr)
  assume "year_start y \<le> n" "\<not> y \<le> year_of n"
  moreover from this have "year_start (year_of n + 1) \<le> year_start y"
    using year_start_mono [of "year_of n + 1" y] by (simp add: not_le)
  ultimately show False using year_of_bounds(2) [of n] by linarith
qed

lemma c_y_ge:
  assumes "day_number y 1 1 * MS_DAY \<le> t"
  shows "y \<le> c_y (civil_time_of t)"
proof -
  have "day_number y 1 1 \<le> t div MS_DAY"
    using assms div_bounds [of 86400000 t] unfolding MS_DAY_def by simp
  then have "year_start y \<le> t div MS_DAY + 719528" by (simp add: day_number_def)
  then show ?thesis
    using year_of_ge by (simp add: civil_time_of_def civil_def Let_def)
qed

lemma mod_time: "time_of (civil_time_of t) - c_ms (civil_time_of t) = t - t mod 1000"
proof -
  have "t mod MS_DAY mod 1000 = t mod 1000" by (simp add: MS_DAY_def mod_mod_cancel)
  then have "c_ms (civil_time_of t) = t mod 1000"
    by (simp add: civil_time_of_def Let_def split: prod.split)
  then show ?thesis by (simp add: time_of_civil_time_of)
qed

lemma tz_offset:
  assumes "100 \<le> c_y (civil_time_of (t + z t))" "(t + z t) mod 1000 = 0"
    "\<bar>t\<bar> \<le> 8640000000000000" "\<bar>t + z t\<bar> \<le> 8640000000000000"
  shows "tzOffsetMs z t = Inr (Some (z t))"
proof -
  define c where "c = civil_time_of (t + z t)"
  have "w_y (wall_in z t) = c_y c" "w_mo (wall_in z t) = c_mo c" "w_d (wall_in z t) = c_d c"
    "w_h (wall_in z t) = c_h c" "w_mi (wall_in z t) = c_mi c" "w_s (wall_in z t) = c_s c"
    using assms(1) by (simp_all add: wall_in_def era_year_def Let_def c_def)
  moreover have "date_UTC (c_y c) (c_mo c - 1) (c_d c) (c_h c) (c_mi c) (c_s c) = Some (t + z t)"
    using date_UTC_valid [OF valid_civil_time_of [of "t + z t"]] mod_time [of "t + z t"] assms
    by (simp add: c_def time_clip_def)
  moreover have "time_clip t \<noteq> None" using assms(3) by (simp add: time_clip_def)
  ultimately show ?thesis by (simp add: tzOffsetMs_def Let_def get_parts)
qed

lemma wall_utc_bounds:
  assumes "valid_wall w"
  shows "day_number 101 1 1 * MS_DAY \<le> wall_utc w" "wall_utc w \<le> 8500000000000000"
    "wall_utc w mod 1000 = 0"
    "date_UTC (w_y w) (w_mo w - 1) (w_d w) (w_h w) (w_mi w) (w_s w) = Some (wall_utc w)"
proof -
  define c where "c = \<lparr>c_y = w_y w, c_mo = w_mo w, c_d = w_d w, c_h = w_h w, c_mi = w_mi w, c_s = w_s w, c_ms = 0\<rparr>"
  have v: "valid_time c" and y: "101 \<le> w_y w" "w_y w \<le> 270000"
    using assms by (simp_all add: valid_wall_def c_def)
  define n where "n = day_number (w_y w) (w_mo w) (w_d w)"
  define r where "r = make_time (w_h w) (w_mi w) (w_s w) 0"
  have u: "wall_utc w = n * MS_DAY + r" by (simp add: wall_utc_def time_of_def n_def r_def)
  have r: "0 \<le> r" "r < MS_DAY" "r mod 1000 = 0"
    using v by (simp_all add: valid_time_def c_def r_def make_time_def MS_DAY_def)
  have d: "1 \<le> w_d w" "w_d w \<le> 31" "1 \<le> w_mo w" "w_mo w \<le> 12"
    using v valid_date_bounds [of "w_y w" "w_mo w" "w_d w"] by (auto simp: valid_time_def c_def)
  have m: "0 \<le> month_start (leap (w_y w)) (w_mo w)" "month_start (leap (w_y w)) (w_mo w) \<le> 366"
    using month_start_le [OF d(3,4), of "leap (w_y w)"] by (cases rule: month_cases [OF d(3,4)], simp_all)+
  have lo: "day_number 101 1 1 \<le> n"
    using year_start_mono [OF y(1)] m d y by (simp add: n_def day_number_def)
  have hi: "n \<le> 98000000"
    using year_start_bounds(2) [of "w_y w"] m d y by (simp add: n_def day_number_def)
  show "day_number 101 1 1 * MS_DAY \<le> wall_utc w"
    using lo r(1) unfolding u MS_DAY_def by linarith
  show up: "wall_utc w \<le> 8500000000000000"
    using hi r(2) unfolding u MS_DAY_def by linarith
  show "wall_utc w mod 1000 = 0"
    using r(3) unfolding u by (simp add: MS_DAY_def mod_add_eq [symmetric] mod_mult_eq)
  have "time_clip (wall_utc w) = Some (wall_utc w)"
    using lo r up unfolding time_clip_def u MS_DAY_def by (simp add: day_number_def year_start_def)
  then show "date_UTC (w_y w) (w_mo w - 1) (w_d w) (w_h w) (w_mi w) (w_s w) = Some (wall_utc w)"
    using date_UTC_valid [OF v] y by (simp add: c_def wall_utc_def)
qed

lemma near_years:
  assumes "day_number 101 1 1 * MS_DAY \<le> u" "\<bar>t - u\<bar> \<le> 3 * MS_DAY"
  shows "100 \<le> c_y (civil_time_of t)"
proof (rule c_y_ge)
  have "day_number 100 1 1 + 365 \<le> day_number 101 1 1"
    by (simp add: day_number_def year_start_def)
  then show "day_number 100 1 1 * MS_DAY \<le> t"
    using assms unfolding MS_DAY_def by linarith
qed

lemma mod_1000_add: "a mod 1000 = 0 \<Longrightarrow> b mod 1000 = 0 \<Longrightarrow> (a + b) mod 1000 = (0::int)"
  by (simp add: mod_add_eq [symmetric])

lemma mod_1000_diff: "a mod 1000 = 0 \<Longrightarrow> b mod 1000 = 0 \<Longrightarrow> (a - b) mod 1000 = (0::int)"
  by (simp add: mod_diff_eq [symmetric])

text \<open>What such a zone offers near the entry.\<close>

lemma one_changeD:
  assumes "one_change z u T a b" "\<bar>t - u\<bar> \<le> 3 * MS_DAY"
  shows "z t = (if t < T then a else b)" "z t mod 1000 = 0" "\<bar>z t\<bar> \<le> MS_DAY"
  using assms by (simp_all add: one_change_def)

lemma entry_tz:
  assumes w: "valid_wall w" and z: "one_change z (wall_utc w) T a b"
    and t: "\<bar>t - wall_utc w\<bar> \<le> 2 * MS_DAY" "t mod 1000 = 0"
  shows "tzOffsetMs z t = Inr (Some (z t))"
proof (rule tz_offset)
  note u = wall_utc_bounds [OF w]
  have n: "\<bar>t - wall_utc w\<bar> \<le> 3 * MS_DAY" using t(1) by (simp add: MS_DAY_def)
  note zt = one_changeD [OF z n]
  have n': "\<bar>t + z t - wall_utc w\<bar> \<le> 3 * MS_DAY" using t(1) zt(3) unfolding MS_DAY_def by linarith
  show "100 \<le> c_y (civil_time_of (t + z t))" using near_years [OF u(1) n'] .
  show "(t + z t) mod 1000 = 0" using mod_1000_add [OF t(2) zt(2)] .
  have "day_number 101 1 1 = - 682638" by (simp add: day_number_def year_start_def)
  then show "\<bar>t\<bar> \<le> 8640000000000000" "\<bar>t + z t\<bar> \<le> 8640000000000000"
    using u(1,2) n n' unfolding MS_DAY_def by linarith+
qed

lemma wall_in_iff:
  assumes w: "valid_wall w" and ce: "0 < c_y (civil_time_of (t + z t))"
  shows "wall_in z t = w \<longleftrightarrow> t + z t - (t + z t) mod 1000 = wall_utc w"
proof -
  define c where "c = civil_time_of (t + z t)"
  define v where "v = \<lparr>c_y = w_y w, c_mo = w_mo w, c_d = w_d w, c_h = w_h w, c_mi = w_mi w, c_s = w_s w, c_ms = 0\<rparr>"
  have vv: "valid_time v" and u: "wall_utc w = time_of v"
    using w by (simp_all add: valid_wall_def wall_utc_def v_def)
  have eq: "wall_in z t = w \<longleftrightarrow> c\<lparr>c_ms := 0\<rparr> = v"
    using ce unfolding wall_in_def Let_def c_def [symmetric] v_def
    by (cases c; cases w) (auto simp: era_year_def)
  have "valid_time (c\<lparr>c_ms := 0\<rparr>)"
    using valid_civil_time_of [of "t + z t"] by (simp add: c_def valid_time_def)
  then have "c\<lparr>c_ms := 0\<rparr> = v \<longleftrightarrow> time_of (c\<lparr>c_ms := 0\<rparr>) = time_of v"
    using civil_time_of_time_of vv by metis
  moreover have "time_of (c\<lparr>c_ms := 0\<rparr>) = time_of c - c_ms c"
    by (simp add: time_of_def make_time_def)
  ultimately show ?thesis
    using eq mod_time [of "t + z t"] by (simp add: c_def u)
qed

lemma shown_near:
  assumes w: "valid_wall w" and z: "one_change z (wall_utc w) T a b"
    and t: "\<bar>t - wall_utc w\<bar> \<le> 2 * MS_DAY" "t mod 1000 = 0"
  shows "wall_in z t = w \<longleftrightarrow> t + z t = wall_utc w"
proof -
  have n: "\<bar>t - wall_utc w\<bar> \<le> 3 * MS_DAY" using t(1) by (simp add: MS_DAY_def)
  note zt = one_changeD [OF z n]
  have "\<bar>t + z t - wall_utc w\<bar> \<le> 3 * MS_DAY" using t(1) zt(3) unfolding MS_DAY_def by linarith
  then have "0 < c_y (civil_time_of (t + z t))" using near_years [OF wall_utc_bounds(1) [OF w]] by force
  then show ?thesis using wall_in_iff [OF w] mod_1000_add [OF t(2) zt(2)] by simp
qed

lemma entry_formula:
  assumes w: "valid_wall w" and z: "one_change z (wall_utc w) T a b"
  shows "zonedPartsToIso read z w = Inr (map_option toISOString (entered_instant (wall_utc w) T a b))"
proof -
  define u where "u = wall_utc w"
  note ub = wall_utc_bounds [OF w, folded u_def]
  have ab: "\<bar>a\<bar> \<le> MS_DAY" "\<bar>b\<bar> \<le> MS_DAY" "a mod 1000 = 0" "b mod 1000 = 0"
    using z by (simp_all add: one_change_def)
  have zu: "z u = (if u < T then a else b)" "\<bar>z u\<bar> \<le> MS_DAY" "z u mod 1000 = 0"
    using one_changeD [OF z, of u] by (simp_all add: u_def MS_DAY_def)
  have n1: "\<bar>u - z u - u\<bar> \<le> 2 * MS_DAY" using zu(2) by (simp add: MS_DAY_def)
  have z1: "z (u - z u) = (if u - z u < T then a else b)"
    using one_changeD(1) [OF z, of "u - z u"] zu(2) by (simp add: u_def MS_DAY_def)
  define y where "y = z (u - z u)"
  have y: "\<bar>y\<bar> \<le> MS_DAY" "y mod 1000 = 0" using ab by (simp_all add: y_def z1)
  have n2: "\<bar>u - y - u\<bar> \<le> 2 * MS_DAY" using y(1) by (simp add: MS_DAY_def)
  have m: "(u - z u) mod 1000 = 0" "(u - y) mod 1000 = 0"
    using mod_1000_diff [OF ub(3)] zu(3) y(2) by simp_all
  have r: "zonedPartsToIso read z w = Inr (entry_result z w (u - y))"
    using entry_core [OF ub(4), where read = read and x = "z u" and y = y]
      entry_tz [OF w z, of u] entry_tz [OF w z, of "u - z u"] n1 m(1) ub(3)
    by (simp add: u_def y_def MS_DAY_def)
  have zy: "z (u - y) = (if u - y < T then a else b)"
    using one_changeD(1) [OF z, of "u - y"] y(1) by (simp add: u_def MS_DAY_def)
  have "day_number 101 1 1 = - 682638" by (simp add: day_number_def year_start_def)
  then have c: "time_clip (u - y) = Some (u - y)"
    using ub(1,2) y(1) unfolding time_clip_def MS_DAY_def by (simp only: if_True) (auto simp: abs_le_iff)
  have e: "entry_result z w (u - y) = (if u - y + z (u - y) = u then Some (toISOString (u - y)) else None)"
    using shown_near [OF w z, of "u - y"] n2 m(2) c by (simp add: entry_result_def u_def)
  have yv: "y = (if u - z u < T then a else b)" by (simp only: y_def z1)
  show ?thesis
    unfolding r e zy unfolding yv zu(1) entered_instant_def u_def [symmetric] by auto
qed

text \<open>The instants that show the wall clock, and which of them the entry stands for.\<close>

lemma instants_of_wall:
  assumes w: "valid_wall w" and z: "one_change z (wall_utc w) T a b"
    and ce: "0 < c_y (civil_time_of (t + z t))" and s: "wall_in z t = w"
  shows "wall_utc w - a < T \<or> T \<le> wall_utc w - b"
proof -
  have e: "t + z t - (t + z t) mod 1000 = wall_utc w" using wall_in_iff [OF w, of t z] ce s by simp
  have "\<bar>z t\<bar> \<le> MS_DAY" using z by (simp add: one_change_def)
  then have n: "\<bar>t - wall_utc w\<bar> \<le> 3 * MS_DAY"
    using e pos_mod_bound [of 1000 "t + z t"] pos_mod_sign [of 1000 "t + z t"] unfolding MS_DAY_def by linarith
  note zt = one_changeD [OF z n]
  have "(t + z t) mod 1000 = t mod 1000" using zt(2) by (simp add: mod_add_right_eq [symmetric])
  then have t: "wall_utc w - z t = 1000 * (t div 1000)" using e by (simp add: minus_mod_eq_mult_div [symmetric])
  have T: "T = 1000 * (T div 1000)" using z by (auto simp: one_change_def)
  show ?thesis
  proof (cases "t < T")
    case True
    then show ?thesis using t zt(1) div_bounds [of 1000 t] by simp
  next
    case False
    then have "T div 1000 \<le> t div 1000" by (simp add: zdiv_mono1)
    then show ?thesis using t T zt(1) False by simp
  qed
qed

text \<open>C33: The one correction pass is enough. In a zone whose offset changes at most once around the
  entered wall clock, the entry is accepted exactly when some instant shows that wall clock: a
  wall clock skipped by the change (the spring gap) is refused, every other one is stored, and nothing
  throws.\<close>

theorem entry_complete:
  assumes "valid_wall w" "one_change z (wall_utc w) T a b"
  shows "case zonedPartsToIso read z w of
      Inl _ \<Rightarrow> False
    | Inr (Some ts) \<Rightarrow> isoToZonedParts read z ts = Some w
    | Inr None \<Rightarrow> \<forall>t. 0 < c_y (civil_time_of (t + z t)) \<longrightarrow> wall_in z t \<noteq> w"
proof (cases "entered_instant (wall_utc w) T a b")
  case None
  then have "\<not> (wall_utc w - a < T \<or> T \<le> wall_utc w - b)"
    by (auto simp: entered_instant_def split: if_splits)
  then have "\<forall>t. 0 < c_y (civil_time_of (t + z t)) \<longrightarrow> wall_in z t \<noteq> w"
    using instants_of_wall [OF assms] by blast
  then show ?thesis using entry_formula [OF assms, of read] None by simp
next
  case (Some t)
  then show ?thesis
    using entry_formula [OF assms, of read] entry_shows_what_was_entered [of read z w] by simp
qed

text \<open>Paris around the end of summer time in 2025: 02:30 happens twice.\<close>

definition paris_2025 :: zone where
  "paris_2025 t = (if t < 1761440400000 then 7200000 else 3600000)"

definition half_past_two :: wall where
  "half_past_two = \<lparr>w_y = 2025, w_mo = 10, w_d = 26, w_h = 2, w_mi = 30, w_s = 0\<rparr>"

lemma half_past_two:
  "valid_wall half_past_two" "wall_utc half_past_two = 1761445800000"
  "one_change paris_2025 1761445800000 1761440400000 7200000 3600000"
  by (simp_all add: valid_wall_def wall_utc_def half_past_two_def valid_time_def valid_date_def
      month_days_def leap_def time_of_def day_number_def year_start_def make_time_def MS_DAY_def
      one_change_def paris_2025_def)

theorem entry_complete_witness:
  "case zonedPartsToIso (\<lambda>_. None) paris_2025 half_past_two of
      Inl _ \<Rightarrow> False
    | Inr (Some ts) \<Rightarrow> isoToZonedParts (\<lambda>_. None) paris_2025 ts = Some half_past_two
    | Inr None \<Rightarrow> \<forall>t. 0 < c_y (civil_time_of (t + paris_2025 t)) \<longrightarrow> wall_in paris_2025 t \<noteq> half_past_two"
  by (rule entry_complete [where T = 1761440400000 and a = 7200000 and b = 3600000])
    (simp_all add: half_past_two)

text \<open>A wall clock that happens twice (the autumn change, \<open>b < a\<close>) is stored as its first
  occurrence where the clock read as UTC lies before the change, which is west of Greenwich, and as its
  second occurrence otherwise: the other one cannot be entered, and showing that other instant and
  storing what is shown moves the timestamp by the size of the change.\<close>

theorem repeated_hour_is_moved:
  assumes "valid_wall w" "one_change z (wall_utc w) T a b"
    and "wall_utc w - a < T" "T \<le> wall_utc w - b"
    and "t = (if wall_utc w < T then wall_utc w - b else wall_utc w - a)"
  shows "isoToZonedParts read z (toISOString t) = Some w \<and>
    zonedPartsToIso read z w = Inr (Some (toISOString (if wall_utc w < T then t - (a - b) else t + (a - b))))"
proof -
  define u where "u = wall_utc w"
  note ub = wall_utc_bounds [OF assms(1), folded u_def]
  have ab: "\<bar>a\<bar> \<le> MS_DAY" "\<bar>b\<bar> \<le> MS_DAY" "a mod 1000 = 0" "b mod 1000 = 0"
    using assms(2) by (simp_all add: one_change_def)
  have n: "\<bar>t - u\<bar> \<le> 2 * MS_DAY" using ab assms(5) by (auto simp: u_def MS_DAY_def)
  have m: "t mod 1000 = 0" using mod_1000_diff [OF ub(3)] ab assms(5) by (auto simp: u_def)
  have "t + z t = u"
    using one_changeD(1) [OF assms(2), of t] n assms(3-5) by (auto simp: u_def MS_DAY_def split: if_splits)
  then have s: "wall_in z t = w" using shown_near [OF assms(1,2)] n m by (simp add: u_def)
  have "day_number 101 1 1 = - 682638" by (simp add: day_number_def year_start_def)
  then have "\<bar>t\<bar> \<le> 8640000000000000" using ub(1,2) n unfolding MS_DAY_def by linarith
  then have "isoToZonedParts read z (toISOString t) = Some w"
    using s by (simp add: isoToZonedParts_toISOString time_clip_def)
  moreover have "entered_instant u T a b = Some (if u < T then t - (a - b) else t + (a - b))"
    using assms(3-5) by (auto simp: entered_instant_def u_def)
  ultimately show ?thesis
    using entry_formula [OF assms(1,2), of read] by (simp add: u_def)
qed

end
