(* ===== verification/Date_Picker.thy ===== *)
theory Date_Picker
  imports Date_Time
begin

text \<open>
  \<^verbatim>\<open>frontend/src/components/LocalDateTimePicker.jsx\<close>: the date and time entry of every form. The
  component's hooks are the fields of \<open>picker\<close>, its props and surroundings those of \<open>picker_env\<close>; a
  handler returns the new state and what it passes to \<open>onChange\<close>, if it calls it. Drawing, focus and
  the placement of the popup are not modelled.
\<close>

record picker_env =
  fenrirTz :: string
  tzdata :: "string \<Rightarrow> zone"
  readDate :: reader
  clock_now :: int
  pk_value :: string
  pk_utc :: bool
  pk_disabled :: bool
  pk_clearable :: bool

record picker =
  pk_open :: bool
  pk_zone :: string
  pk_parts :: "wall option"
  pk_view :: "(int \<times> int) option"
  wheelAcc :: int

definition tz :: "picker_env \<Rightarrow> string" where
  "tz e = (if pk_utc e then ''UTC'' else fenrirTz e)"

definition init_picker :: "picker_env \<Rightarrow> picker" where
  "init_picker e = \<lparr>pk_open = False, pk_zone = tz e, pk_parts = None, pk_view = None, wheelAcc = 0\<rparr>"

subsection \<open>Calendar helpers\<close>

text \<open>\<open>((v % max) + max) % max\<close> with JS's remainder, which takes the sign of \<open>v\<close>.\<close>

definition js_rem :: "int \<Rightarrow> int \<Rightarrow> int" where
  "js_rem a b = (if a < 0 then - (\<bar>a\<bar> mod \<bar>b\<bar>) else \<bar>a\<bar> mod \<bar>b\<bar>)"

definition wrap :: "int \<Rightarrow> int \<Rightarrow> int" where
  "wrap v n = js_rem (js_rem v n + n) n"

definition daysInMonth :: "int \<Rightarrow> int \<Rightarrow> int" where
  "daysInMonth y mo = (case date_UTC y mo 0 0 0 0 of Some t \<Rightarrow> c_d (civil_time_of t) | None \<Rightarrow> 0)"

text \<open>\<open>getUTCDay\<close> counts from Sunday; 1970-01-01 was a Thursday.\<close>

definition getUTCDay :: "int \<Rightarrow> int" where
  "getUTCDay t = (t div MS_DAY + 4) mod 7"

definition firstWeekday :: "int \<Rightarrow> int \<Rightarrow> int" where
  "firstWeekday y mo = (case date_UTC y (mo - 1) 1 0 0 0 of Some t \<Rightarrow> (getUTCDay t + 6) mod 7 | None \<Rightarrow> 0)"

definition addDays :: "int \<Rightarrow> int \<Rightarrow> int \<Rightarrow> int \<Rightarrow> (int \<times> int \<times> int) option" where
  "addDays y mo d n = map_option (\<lambda>t. let c = civil_time_of t in (c_y c, c_mo c, c_d c))
     (date_UTC y (mo - 1) (d + n) 0 0 0)"

definition cells :: "int \<times> int \<Rightarrow> int option list" where
  "cells v = (let out = replicate (nat (firstWeekday (fst v) (snd v))) None
       @ map Some [1..daysInMonth (fst v) (snd v)]
     in out @ replicate (42 - length out) None)"

subsection \<open>The handlers\<close>

datatype unit_key = HH | MM | SS

fun unit_max :: "unit_key \<Rightarrow> int" where
  "unit_max HH = 24"
| "unit_max MM = 60"
| "unit_max SS = 60"

fun unit_get :: "unit_key \<Rightarrow> wall \<Rightarrow> int" where
  "unit_get HH w = w_h w"
| "unit_get MM w = w_mi w"
| "unit_get SS w = w_s w"

fun unit_put :: "unit_key \<Rightarrow> int \<Rightarrow> wall \<Rightarrow> wall" where
  "unit_put HH v w = w\<lparr>w_h := v\<rparr>"
| "unit_put MM v w = w\<lparr>w_mi := v\<rparr>"
| "unit_put SS v w = w\<lparr>w_s := v\<rparr>"

definition nowIn :: "picker_env \<Rightarrow> string \<Rightarrow> wall option" where
  "nowIn e z = isoToZonedParts (readDate e) (tzdata e z) (toISOString (clock_now e))"

definition show_parts :: "wall \<Rightarrow> picker \<Rightarrow> picker" where
  "show_parts w st = st\<lparr>pk_parts := Some w, pk_view := Some (w_y w, w_mo w)\<rparr>"

definition openPopup :: "picker_env \<Rightarrow> picker \<Rightarrow> picker" where
  "openPopup e st =
     (let p = (case isoToZonedParts (readDate e) (tzdata e (tz e)) (pk_value e) of
                 Some p \<Rightarrow> Some p | None \<Rightarrow> nowIn e (tz e)) in
      case p of None \<Rightarrow> st
      | Some w \<Rightarrow> (show_parts w st)\<lparr>pk_zone := tz e, pk_open := True\<rparr>)"

definition trigger_click :: "picker_env \<Rightarrow> picker \<Rightarrow> picker" where
  "trigger_click e st =
     (if pk_disabled e then st else if pk_open st then st\<lparr>pk_open := False\<rparr> else openPopup e st)"

text \<open>\<open>draftIso\<close>: the staged wall clock as a timestamp; \<open>None\<close> disables Apply and shows the error.\<close>

definition draftIso :: "picker_env \<Rightarrow> picker \<Rightarrow> string option" where
  "draftIso e st = (case pk_parts st of
       Some w \<Rightarrow> if pk_open st
         then (case zonedPartsToIso (readDate e) (tzdata e (pk_zone st)) w of Inr r \<Rightarrow> r | Inl _ \<Rightarrow> None)
         else None
     | None \<Rightarrow> None)"

definition cancel_popup :: "picker \<Rightarrow> picker" where
  "cancel_popup st = st\<lparr>pk_open := False\<rparr>"

definition apply_entry :: "picker_env \<Rightarrow> picker \<Rightarrow> picker \<times> string option" where
  "apply_entry e st = (case draftIso e st of
       None \<Rightarrow> (st, None)
     | Some ts \<Rightarrow> (st\<lparr>pk_open := False\<rparr>, Some ts))"

definition clear :: "picker \<Rightarrow> picker \<times> string option" where
  "clear st = (st\<lparr>pk_open := False\<rparr>, Some [])"

definition setUnit :: "unit_key \<Rightarrow> int \<Rightarrow> picker \<Rightarrow> picker" where
  "setUnit k v st = st\<lparr>pk_parts := map_option (unit_put k v) (pk_parts st)\<rparr>"

definition stepUnit :: "unit_key \<Rightarrow> int \<Rightarrow> picker \<Rightarrow> picker" where
  "stepUnit k delta st =
     st\<lparr>pk_parts := map_option (\<lambda>w. unit_put k (wrap (unit_get k w + delta) (unit_max k)) w) (pk_parts st)\<rparr>"

text \<open>The wheel over a drum: \<open>px\<close> is the turn in pixels; the part below one step is kept.\<close>

definition WHEEL_STEP_PX :: int where "WHEEL_STEP_PX = 40"

definition trunc_div :: "int \<Rightarrow> int \<Rightarrow> int" where
  "trunc_div a b = (if a < 0 then - (- a div b) else a div b)"

definition onWheel :: "unit_key \<Rightarrow> bool \<Rightarrow> int \<Rightarrow> picker \<Rightarrow> picker" where
  "onWheel k line_mode deltaY st =
     (let acc = wheelAcc st + (if line_mode then deltaY * 16 else deltaY);
          steps = trunc_div acc WHEEL_STEP_PX; st = st\<lparr>wheelAcc := acc\<rparr> in
      if steps \<noteq> 0 then stepUnit k steps (st\<lparr>wheelAcc := acc - steps * WHEEL_STEP_PX\<rparr>) else st)"

definition stepMonth :: "int \<Rightarrow> picker \<Rightarrow> picker" where
  "stepMonth delta st = st\<lparr>pk_view := map_option (\<lambda>(y, m).
     let mo = m + delta;
         (mo, y) = (if mo < 1 then (12, y - 1) else (mo, y));
         (mo, y) = (if mo > 12 then (1, y + 1) else (mo, y)) in (y, mo)) (pk_view st)\<rparr>"

definition pickDay :: "int \<Rightarrow> picker \<Rightarrow> picker" where
  "pickDay d st = (case pk_view st of None \<Rightarrow> st
     | Some (y, mo) \<Rightarrow> st\<lparr>pk_parts := map_option (\<lambda>w. w\<lparr>w_y := y, w_mo := mo, w_d := d\<rparr>) (pk_parts st)\<rparr>)"

definition onDayKey :: "int \<Rightarrow> int \<Rightarrow> picker \<Rightarrow> picker" where
  "onDayKey d delta st = (case pk_view st of None \<Rightarrow> st
     | Some (y, mo) \<Rightarrow> (case addDays y mo d delta of None \<Rightarrow> st
       | Some (y, mo, d) \<Rightarrow>
           st\<lparr>pk_parts := map_option (\<lambda>w. w\<lparr>w_y := y, w_mo := mo, w_d := d\<rparr>) (pk_parts st),
              pk_view := Some (y, mo)\<rparr>))"

definition switchZone :: "picker_env \<Rightarrow> string \<Rightarrow> picker \<Rightarrow> picker" where
  "switchZone e z st = (if z = pk_zone st then st
     else case pk_parts st of None \<Rightarrow> st
     | Some w \<Rightarrow>
       (case zonedPartsToIso (readDate e) (tzdata e (pk_zone st)) w of Inl _ \<Rightarrow> st
        | Inr ts \<Rightarrow>
          (case (case ts of Some s \<Rightarrow> isoToZonedParts (readDate e) (tzdata e z) s | None \<Rightarrow> Some w) of
             None \<Rightarrow> st
           | Some p \<Rightarrow> (show_parts p st)\<lparr>pk_zone := z\<rparr>)))"

definition setNow :: "picker_env \<Rightarrow> picker \<Rightarrow> picker" where
  "setNow e st = (case nowIn e (pk_zone st) of None \<Rightarrow> st | Some w \<Rightarrow> show_parts w st)"

definition startOfDay :: "picker \<Rightarrow> picker" where
  "startOfDay st = st\<lparr>pk_parts := map_option (\<lambda>w. w\<lparr>w_h := 0, w_mi := 0, w_s := 0\<rparr>) (pk_parts st)\<rparr>"

text \<open>What the analyst can do: the controls of the popup exist while it is open.\<close>

datatype day_key = ArrowLeft | ArrowRight | ArrowUp | ArrowDown

fun day_delta :: "day_key \<Rightarrow> int" where
  "day_delta ArrowLeft = -1"
| "day_delta ArrowRight = 1"
| "day_delta ArrowUp = -7"
| "day_delta ArrowDown = 7"

datatype drum_key = Up | Down | PageUp | PageDown | Home | End

fun onDrumKey :: "unit_key \<Rightarrow> drum_key \<Rightarrow> picker \<Rightarrow> picker" where
  "onDrumKey u Up st = stepUnit u (-1) st"
| "onDrumKey u Down st = stepUnit u 1 st"
| "onDrumKey u PageUp st = stepUnit u (-10) st"
| "onDrumKey u PageDown st = stepUnit u 10 st"
| "onDrumKey u Home st = setUnit u 0 st"
| "onDrumKey u End st = setUnit u (unit_max u - 1) st"

datatype act =
    Trigger | Dismiss | Apply | Clear
  | DrumStep unit_key bool | DrumRow unit_key int | DrumKey unit_key drum_key | Wheel unit_key bool int
  | Month bool | Day int | DayKey int day_key | Zone bool | Now | StartOfDay

definition DRUM_OFFSETS :: "int list" where
  "DRUM_OFFSETS = [-2, -1, 0, 1, 2]"

text \<open>
  A drum row shows \<open>wrap (sel + k)\<close> and sets that value; a day button exists for the days in
  \<open>cells\<close>; the zone buttons exist when the stored zone is not UTC.
\<close>

definition day_shown :: "picker \<Rightarrow> int \<Rightarrow> bool" where
  "day_shown st d = (case pk_view st of Some v \<Rightarrow> Some d \<in> set (cells v) | None \<Rightarrow> False)"

fun in_popup :: "picker_env \<Rightarrow> act \<Rightarrow> picker \<Rightarrow> picker \<times> string option" where
  "in_popup e Apply st = apply_entry e st"
| "in_popup e Clear st = (if pk_clearable e then clear st else (st, None))"
| "in_popup e Dismiss st = (cancel_popup st, None)"
| "in_popup e Trigger st = (st, None)"
| "in_popup e (DrumStep u forward) st = (stepUnit u (if forward then 1 else -1) st, None)"
| "in_popup e (DrumRow u k) st =
     ((if k \<in> set DRUM_OFFSETS
       then (case pk_parts st of Some w \<Rightarrow> setUnit u (wrap (unit_get u w + k) (unit_max u)) st | None \<Rightarrow> st)
       else st), None)"
| "in_popup e (DrumKey u k) st = (onDrumKey u k st, None)"
| "in_popup e (Wheel u lines dy) st = (onWheel u lines dy st, None)"
| "in_popup e (Month forward) st = (stepMonth (if forward then 1 else -1) st, None)"
| "in_popup e (Day d) st = ((if day_shown st d then pickDay d st else st), None)"
| "in_popup e (DayKey d k) st = ((if day_shown st d then onDayKey d (day_delta k) st else st), None)"
| "in_popup e (Zone utc) st =
     ((if fenrirTz e \<noteq> ''UTC'' then switchZone e (if utc then ''UTC'' else fenrirTz e) st else st), None)"
| "in_popup e Now st = (setNow e st, None)"
| "in_popup e StartOfDay st = (startOfDay st, None)"

definition act_on :: "picker_env \<Rightarrow> act \<Rightarrow> picker \<Rightarrow> picker \<times> string option" where
  "act_on e a st =
     (if a = Trigger then (trigger_click e st, None)
      else if pk_open st \<and> pk_parts st \<noteq> None \<and> pk_view st \<noteq> None then in_popup e a st
      else (st, None))"

subsection \<open>The drums and the calendar\<close>

lemma wrap_mod:
  assumes "0 < n"
  shows "wrap v n = v mod n"
proof -
  have r: "js_rem v n mod n = v mod n" "- n < js_rem v n"
  proof -
    have "\<bar>v\<bar> mod n < n" "0 \<le> \<bar>v\<bar> mod n" using assms by simp_all
    then show "- n < js_rem v n"
      using assms pos_mod_sign [of n v] by (auto simp: js_rem_def simp del: pos_mod_sign)
    show "js_rem v n mod n = v mod n"
      using assms by (auto simp: js_rem_def mod_minus_eq)
  qed
  then have "0 \<le> js_rem v n + n" by simp
  then have "wrap v n = (js_rem v n + n) mod n" using assms by (simp add: wrap_def js_rem_def)
  then show ?thesis using r(1) by simp
qed

lemma unit_max_pos: "0 < unit_max k"
  by (cases k) simp_all

lemma wrap_range: "0 \<le> wrap v (unit_max k) \<and> wrap v (unit_max k) < unit_max k"
  using unit_max_pos [of k] by (simp add: wrap_mod)

definition wall_ranges :: "wall \<Rightarrow> bool" where
  "wall_ranges w \<longleftrightarrow> 1 \<le> w_mo w \<and> w_mo w \<le> 12 \<and> 1 \<le> w_d w \<and> w_d w \<le> 31 \<and>
     0 \<le> w_h w \<and> w_h w < 24 \<and> 0 \<le> w_mi w \<and> w_mi w < 60 \<and> 0 \<le> w_s w \<and> w_s w < 60"

text \<open>What holds whatever the analyst did so far.\<close>

definition picker_ok :: "string \<Rightarrow> picker \<Rightarrow> bool" where
  "picker_ok f st \<longleftrightarrow> pk_zone st \<in> {''UTC'', f} \<and>
     (\<forall>w. pk_parts st = Some w \<longrightarrow> wall_ranges w) \<and>
     (\<forall>y mo. pk_view st = Some (y, mo) \<longrightarrow> 1 \<le> mo \<and> mo \<le> 12) \<and>
     (pk_open st \<longrightarrow> pk_parts st \<noteq> None \<and> pk_view st \<noteq> None) \<and> \<bar>wheelAcc st\<bar> < WHEEL_STEP_PX"

inductive reachable :: "string \<Rightarrow> picker \<Rightarrow> bool" for f where
  start: "fenrirTz e = f \<Longrightarrow> reachable f (init_picker e)"
| step: "reachable f st \<Longrightarrow> fenrirTz e = f \<Longrightarrow> reachable f (fst (act_on e a st))"

lemma wall_ranges_shown: "isoToZonedParts read z ts = Some w \<Longrightarrow> wall_ranges w"
proof -
  assume a: "isoToZonedParts read z ts = Some w"
  then obtain t where t: "w = wall_in z t"
    by (auto simp: isoToZonedParts_def get_parts Let_def wall_in_def split: option.splits if_splits)
  have v: "valid_time (civil_time_of (t + z t))" by (rule valid_civil_time_of)
  then have "valid_date (c_y (civil_time_of (t + z t))) (c_mo (civil_time_of (t + z t))) (c_d (civil_time_of (t + z t)))"
    by (simp add: valid_time_def)
  from v valid_date_bounds [OF this] show "wall_ranges w"
    by (simp add: wall_ranges_def t wall_in_def Let_def valid_time_def)
qed

lemma addDays_ranges: "addDays y mo d n = Some (y', mo', d') \<Longrightarrow> 1 \<le> mo' \<and> mo' \<le> 12 \<and> 1 \<le> d' \<and> d' \<le> 31"
proof -
  assume "addDays y mo d n = Some (y', mo', d')"
  then obtain t where t: "y' = c_y (civil_time_of t)" "mo' = c_mo (civil_time_of t)" "d' = c_d (civil_time_of t)"
    by (auto simp: addDays_def Let_def)
  have "valid_date y' mo' d'" using valid_civil_time_of [of t] by (simp add: valid_time_def t)
  then show ?thesis by (rule valid_date_bounds)
qed

lemma unit_put_ranges:
  "wall_ranges w \<Longrightarrow> 0 \<le> v \<Longrightarrow> v < unit_max k \<Longrightarrow> wall_ranges (unit_put k v w)"
  by (cases k) (simp_all add: wall_ranges_def)

lemma day_shown_range:
  assumes "day_shown st d"
  shows "1 \<le> d \<and> d \<le> 31"
proof -
  obtain v where v: "Some d \<in> set (cells v)"
    using assms by (auto simp: day_shown_def split: option.splits)
  then have d: "1 \<le> d" "d \<le> daysInMonth (fst v) (snd v)" by (auto simp: cells_def Let_def)
  have "c_d (civil_time_of t) \<le> 31" for t
    using valid_civil_time_of [of t] valid_date_bounds by (auto simp: valid_time_def)
  then have "daysInMonth (fst v) (snd v) \<le> 31" by (simp add: daysInMonth_def split: option.split)
  with d show ?thesis by simp
qed

lemma trunc_rest: "0 < b \<Longrightarrow> \<bar>a - trunc_div a b * b\<bar> < b"
  using div_bounds [of b a] div_bounds [of b "- a"] by (auto simp: trunc_div_def abs_less_iff algebra_simps)

lemma stepUnit_ok: "picker_ok f st \<Longrightarrow> picker_ok f (stepUnit k n st)"
  using wrap_range by (auto simp: picker_ok_def stepUnit_def intro!: unit_put_ranges)

lemma setUnit_ok: "picker_ok f st \<Longrightarrow> 0 \<le> v \<Longrightarrow> v < unit_max k \<Longrightarrow> picker_ok f (setUnit k v st)"
  by (auto simp: picker_ok_def setUnit_def intro!: unit_put_ranges)

lemma show_parts_ok: "picker_ok f st \<Longrightarrow> wall_ranges w \<Longrightarrow> picker_ok f (show_parts w st)"
  by (auto simp: picker_ok_def show_parts_def wall_ranges_def)

lemma pickDay_ok: "picker_ok f st \<Longrightarrow> day_shown st d \<Longrightarrow> picker_ok f (pickDay d st)"
  using day_shown_range [of st d]
  by (auto simp: picker_ok_def pickDay_def wall_ranges_def split: option.splits)

lemma onDayKey_ok: "picker_ok f st \<Longrightarrow> picker_ok f (onDayKey d n st)"
  by (auto simp: picker_ok_def onDayKey_def wall_ranges_def dest!: addDays_ranges split: option.splits)

lemma stepMonth_ok: "picker_ok f st \<Longrightarrow> n = 1 \<or> n = -1 \<Longrightarrow> picker_ok f (stepMonth n st)"
  by (auto simp: picker_ok_def stepMonth_def Let_def split: if_splits)

lemma onWheel_ok: "picker_ok f st \<Longrightarrow> picker_ok f (onWheel k l dy st)"
proof -
  assume ok: "picker_ok f st"
  define acc where "acc = wheelAcc st + (if l then dy * 16 else dy)"
  have r: "\<bar>acc - trunc_div acc WHEEL_STEP_PX * WHEEL_STEP_PX\<bar> < WHEEL_STEP_PX"
    by (rule trunc_rest) (simp add: WHEEL_STEP_PX_def)
  have "picker_ok f (st\<lparr>wheelAcc := acc - trunc_div acc WHEEL_STEP_PX * WHEEL_STEP_PX\<rparr>)"
    using ok r by (simp add: picker_ok_def)
  then show ?thesis
    by (auto simp: onWheel_def Let_def acc_def [symmetric] intro: stepUnit_ok)
qed

lemma startOfDay_ok: "picker_ok f st \<Longrightarrow> picker_ok f (startOfDay st)"
  by (auto simp: picker_ok_def startOfDay_def wall_ranges_def)

lemma setNow_ok: "picker_ok f st \<Longrightarrow> picker_ok f (setNow e st)"
  by (auto simp: setNow_def nowIn_def dest: wall_ranges_shown intro: show_parts_ok split: option.splits)

lemma switchZone_cases:
  "switchZone e z st = st \<or>
   (\<exists>p. switchZone e z st = (show_parts p st)\<lparr>pk_zone := z\<rparr> \<and>
      (pk_parts st = Some p \<or> (\<exists>ts. isoToZonedParts (readDate e) (tzdata e z) ts = Some p)))"
proof (cases "pk_parts st")
  case (Some w)
  show ?thesis
  proof (cases "zonedPartsToIso (readDate e) (tzdata e (pk_zone st)) w")
    case (Inr r)
    with Some show ?thesis
      by (cases r; cases "isoToZonedParts (readDate e) (tzdata e z) (the r)") (auto simp: switchZone_def)
  qed (simp add: switchZone_def Some)
qed (simp add: switchZone_def)

lemma switchZone_ok:
  assumes "picker_ok f st" "z \<in> {''UTC'', f}"
  shows "picker_ok f (switchZone e z st)"
proof -
  have s: "picker_ok f ((show_parts p st)\<lparr>pk_zone := z\<rparr>)" if "wall_ranges p" for p
    using show_parts_ok [OF assms(1) that] assms(2) by (simp add: picker_ok_def)
  have "wall_ranges p" if "pk_parts st = Some p" for p using that assms(1) by (simp add: picker_ok_def)
  then show ?thesis
    using switchZone_cases [of e z st] s wall_ranges_shown assms(1) by metis
qed

lemma closed_ok: "picker_ok f st \<Longrightarrow> picker_ok f (st\<lparr>pk_open := False\<rparr>)"
  by (simp add: picker_ok_def)

lemma openPopup_ok:
  assumes "picker_ok f st" "fenrirTz e = f"
  shows "picker_ok f (openPopup e st)"
proof -
  have "picker_ok f ((show_parts p st)\<lparr>pk_zone := tz e, pk_open := True\<rparr>)" if "wall_ranges p" for p
    using show_parts_ok [OF assms(1) that] assms(2) by (auto simp: picker_ok_def show_parts_def tz_def)
  then show ?thesis
    using assms(1) by (auto simp: openPopup_def nowIn_def Let_def dest: wall_ranges_shown split: option.splits)
qed

lemma onDrumKey_ok: "picker_ok f st \<Longrightarrow> picker_ok f (onDrumKey u k st)"
  using unit_max_pos [of u] by (cases k) (auto intro: stepUnit_ok setUnit_ok)

lemmas picker_oks = stepUnit_ok setUnit_ok pickDay_ok onDayKey_ok stepMonth_ok onWheel_ok startOfDay_ok
  setNow_ok switchZone_ok closed_ok onDrumKey_ok

lemma in_popup_ok:
  assumes "picker_ok f st" "fenrirTz e = f"
  shows "picker_ok f (fst (in_popup e a st))"
  using assms wrap_range
  by (cases a) (auto simp: apply_entry_def clear_def cancel_popup_def split: option.splits intro!: picker_oks)

text \<open>C35: Whatever the analyst does, the staged time of an open picker exists and its components, the
  month shown and the wheel remainder stay in range, and the zone is UTC or the stored one.\<close>

theorem picker_invariant:
  assumes "reachable f st"
  shows "picker_ok f st"
  using assms
proof (induction rule: reachable.induct)
  case (start e)
  then show ?case by (auto simp: picker_ok_def init_picker_def tz_def WHEEL_STEP_PX_def)
next
  case (step st e a)
  then show ?case
    by (auto simp: act_on_def trigger_click_def intro: in_popup_ok openPopup_ok closed_ok)
qed

text \<open>C34: The field changes only on Apply, to a timestamp that reads back in the zone of the popup as
  exactly the time staged there, or on Clear, to the empty value; either closes the popup. Cancel,
  Escape and a click outside hand out nothing.\<close>

theorem picker_hands_out_what_is_staged:
  assumes "snd (act_on e a st) = Some ts"
  shows "pk_open st \<and> \<not> pk_open (fst (act_on e a st)) \<and>
    (a = Clear \<and> pk_clearable e \<and> ts = [] \<or>
     a = Apply \<and> (\<exists>w. pk_parts st = Some w \<and> isoToZonedParts (readDate e) (tzdata e (pk_zone st)) ts = Some w))"
proof -
  have o: "pk_open st" and i: "a \<noteq> Trigger" and p: "act_on e a st = in_popup e a st"
    using assms by (auto simp: act_on_def split: if_splits)
  have "a = Clear \<or> a = Apply" using assms unfolding p by (cases a) simp_all
  then show ?thesis
  proof
    assume "a = Clear"
    then show ?thesis using assms o unfolding p by (auto simp: clear_def split: if_splits)
  next
    assume a: "a = Apply"
    then have d: "draftIso e st = Some ts"
      using assms unfolding p by (auto simp: apply_entry_def split: option.splits)
    then obtain w where "pk_parts st = Some w"
      "zonedPartsToIso (readDate e) (tzdata e (pk_zone st)) w = Inr (Some ts)"
      by (auto simp: draftIso_def split: option.splits sum.splits if_splits)
    then show ?thesis using a o d unfolding p
      by (simp add: apply_entry_def entry_shows_what_was_entered)
  qed
qed

text \<open>Opening a picker on a stored timestamp stages what the zone shows of it.\<close>

lemma open_stages_value:
  assumes "\<not> pk_disabled e" "\<not> pk_open st"
    "isoToZonedParts (readDate e) (tzdata e (tz e)) (pk_value e) = Some w"
  shows "act_on e Trigger st =
    (st\<lparr>pk_parts := Some w, pk_view := Some (w_y w, w_mo w), pk_zone := tz e, pk_open := True\<rparr>, None)"
  using assms by (simp add: act_on_def trigger_click_def openPopup_def show_parts_def)

lemma apply_draft:
  assumes "pk_open st" "pk_parts st = Some w" "pk_view st \<noteq> None"
    "zonedPartsToIso (readDate e) (tzdata e (pk_zone st)) w = Inr (Some ts)"
  shows "act_on e Apply st = (st\<lparr>pk_open := False\<rparr>, Some ts)"
  using assms by (simp add: act_on_def apply_entry_def draftIso_def)

text \<open>C32: Opening the picker on a stored timestamp of the repeated hour and applying it unedited stores
  another instant: the timestamp moves by the size of the clock change.\<close>

theorem unedited_apply_moves_repeated_hour:
  assumes "valid_wall w" "one_change (tzdata e (tz e)) (wall_utc w) T a b"
    and "b < a" "wall_utc w - a < T" "T \<le> wall_utc w - b"
    and "t = (if wall_utc w < T then wall_utc w - b else wall_utc w - a)"
    and "\<not> pk_disabled e" "\<not> pk_open st" "pk_value e = toISOString t"
  shows "\<exists>t'. snd (act_on e Apply (fst (act_on e Trigger st))) = Some (toISOString t') \<and> \<bar>t' - t\<bar> = a - b"
proof -
  define t' where "t' = (if wall_utc w < T then t - (a - b) else t + (a - b))"
  note r = repeated_hour_is_moved [OF assms(1,2,4,5,6), of "readDate e"]
  have "act_on e Trigger st =
      (st\<lparr>pk_parts := Some w, pk_view := Some (w_y w, w_mo w), pk_zone := tz e, pk_open := True\<rparr>, None)"
    using open_stages_value [OF assms(7,8)] r assms(9) by simp
  then have "snd (act_on e Apply (fst (act_on e Trigger st))) = Some (toISOString t')"
    using r by (subst apply_draft [where w = w and ts = "toISOString t'"]) (simp_all add: t'_def)
  then show ?thesis using assms(3) by (intro exI [of _ t']) (auto simp: t'_def)
qed

definition paris_env :: picker_env where
  "paris_env = \<lparr>fenrirTz = ''Europe/Paris'', tzdata = (\<lambda>z. if z = ''UTC'' then (\<lambda>_. 0) else paris_2025),
     readDate = (\<lambda>_. None), clock_now = 1761440400000, pk_value = toISOString 1761438600000,
     pk_utc = False, pk_disabled = False, pk_clearable = True\<rparr>"

lemma paris_env [simp]:
  "tzdata paris_env (tz paris_env) = paris_2025" "\<not> pk_disabled paris_env"
  "pk_value paris_env = toISOString 1761438600000" "\<not> pk_open (init_picker paris_env)"
  by (simp_all add: paris_env_def tz_def init_picker_def)

theorem unedited_apply_witness:
  "\<exists>t'. snd (act_on paris_env Apply (fst (act_on paris_env Trigger (init_picker paris_env))))
      = Some (toISOString t') \<and> \<bar>t' - 1761438600000\<bar> = 3600000"
proof -
  have n: "3600000 < (7200000::int)" "1761445800000 - 7200000 < (1761440400000::int)"
    "1761440400000 \<le> 1761445800000 - (3600000::int)"
    "(1761438600000::int) = (if 1761445800000 < (1761440400000::int) then 1761445800000 - 3600000
        else 1761445800000 - 7200000)" by simp_all
  show ?thesis
    using unedited_apply_moves_repeated_hour [where e = paris_env and st = "init_picker paris_env",
        OF half_past_two(1), unfolded half_past_two(2) paris_env(1), OF half_past_two(3) n paris_env(2,4,3)]
    by simp
qed

theorem picker_invariant_witness: "picker_ok ''Europe/Paris'' (init_picker paris_env)"
  by (intro picker_invariant reachable.start) (simp add: paris_env_def)

definition paris_open :: picker where
  "paris_open = \<lparr>pk_open = True, pk_zone = ''Europe/Paris'', pk_parts = Some half_past_two,
     pk_view = Some (2025, 10), wheelAcc = 0\<rparr>"

theorem picker_hands_out_witness: "\<not> pk_open (fst (act_on paris_env Clear paris_open))"
  using picker_hands_out_what_is_staged [where e = paris_env and a = Clear and st = paris_open and ts = "[]"]
  by (simp add: act_on_def paris_open_def clear_def paris_env_def)

subsection \<open>The zone switch\<close>

lemma one_change_utc: "one_change (\<lambda>_. 0) u 0 0 0"
  by (simp add: one_change_def MS_DAY_def)

lemma utc_entry:
  assumes "t mod 1000 = 0" "valid_wall (wall_in (\<lambda>_. 0) t)" "0 < c_y (civil_time_of t)"
  shows "zonedPartsToIso read (\<lambda>_. 0) (wall_in (\<lambda>_. 0) t) = Inr (Some (toISOString t))"
proof -
  have "wall_utc (wall_in (\<lambda>_. 0) t) = t"
    using wall_in_iff [OF assms(2), of t "\<lambda>_. 0"] assms(1,3) by simp
  then show ?thesis
    using entry_formula [OF assms(2) one_change_utc, of read] by (simp add: entered_instant_def)
qed

text \<open>Switching the popup to UTC keeps the staged instant: the same timestamp is handed out on
  Apply.\<close>

theorem switch_to_utc_keeps_instant:
  assumes "tzdata e ''UTC'' = (\<lambda>_. 0)" "pk_zone st \<noteq> ''UTC''"
    and "draftIso e st = Some (toISOString t)" "time_clip t = Some t" "t mod 1000 = 0"
    and "valid_wall (wall_in (\<lambda>_. 0) t)" "0 < c_y (civil_time_of t)"
  shows "draftIso e (switchZone e ''UTC'' st) = Some (toISOString t)"
proof -
  obtain w where w: "pk_open st" "pk_parts st = Some w"
    "zonedPartsToIso (readDate e) (tzdata e (pk_zone st)) w = Inr (Some (toISOString t))"
    using assms(3) by (auto simp: draftIso_def split: option.splits sum.splits if_splits)
  have "switchZone e ''UTC'' st = (show_parts (wall_in (\<lambda>_. 0) t) st)\<lparr>pk_zone := ''UTC''\<rparr>"
    using assms(1,2,4) w by (simp add: switchZone_def isoToZonedParts_toISOString)
  then show ?thesis
    using assms(1) w(1) utc_entry [OF assms(5-7), of "readDate e"]
    by (simp add: draftIso_def show_parts_def)
qed

subsection \<open>The month grid\<close>

definition weekday :: "int \<Rightarrow> int" where
  "weekday n = (n + 3) mod 7"

lemma day_in_range:
  assumes "100 \<le> y" "y \<le> 270000" "1 \<le> mo" "mo \<le> 13" "\<bar>k\<bar> \<le> 1"
  shows "time_clip ((day_number y mo 1 + k) * MS_DAY) = Some ((day_number y mo 1 + k) * MS_DAY)"
proof -
  have m: "0 \<le> month_start (leap y) mo" "month_start (leap y) mo \<le> 366"
    by (simp_all add: month_start_def)
  have "year_start 100 \<le> year_start y" using year_start_mono [OF assms(1)] assms(1) by simp
  then have lo: "- 700000 \<le> day_number y mo 1" using m by (simp add: day_number_def year_start_def)
  have hi: "day_number y mo 1 \<le> 98000000"
    using year_start_bounds(2) [of y] m assms(2) by (simp add: day_number_def)
  show ?thesis using lo hi assms(5) unfolding time_clip_def MS_DAY_def by (auto simp: abs_le_iff)
qed

lemma firstWeekday_eq:
  assumes "100 \<le> y" "y \<le> 270000" "1 \<le> mo" "mo \<le> 12"
  shows "firstWeekday y mo = weekday (day_number y mo 1)"
proof -
  have "make_day (full_year y) (mo - 1) 1 = day_number y mo 1"
    using assms by (simp add: make_day_def full_year_def)
  then have "date_UTC y (mo - 1) 1 0 0 0 = Some (day_number y mo 1 * MS_DAY)"
    using day_in_range [OF assms(1-3), of 0] assms(4) by (simp add: date_UTC_def make_time_def)
  moreover have "((day_number y mo 1 + 4) mod 7 + 6) mod 7 = (day_number y mo 1 + 3) mod 7"
  proof -
    have "((n + 4) mod 7 + 6) mod 7 = (n + 3 + 7) mod 7" for n :: int
      by (subst mod_add_left_eq) (simp add: add.assoc)
    then show ?thesis by (simp only: mod_add_self2)
  qed
  ultimately show ?thesis
    by (simp add: firstWeekday_def getUTCDay_def weekday_def MS_DAY_def)
qed

lemma daysInMonth_eq:
  assumes "100 \<le> y" "y < 270000" "1 \<le> mo" "mo \<le> 12"
  shows "daysInMonth y mo = month_days y mo"
proof -
  have d: "make_day (full_year y) mo 0 = day_number y (mo + 1) 1 + (-1)"
  proof (cases "mo = 12")
    case True
    then show ?thesis using assms year_start_Suc [of y]
      by (simp add: make_day_def full_year_def day_number_def year_days_def month_start_def)
  next
    case False
    then show ?thesis using assms by (simp add: make_day_def full_year_def)
  qed
  have v: "valid_date y mo (month_days y mo)"
    using assms(3,4) by (cases rule: month_cases [OF assms(3,4)]) (simp_all add: valid_date_def month_days_def)
  have e: "day_number y (mo + 1) 1 + (-1) = day_number y mo (month_days y mo)"
    by (simp add: day_number_def month_days_def)
  have "date_UTC y mo 0 0 0 0 = Some (day_number y mo (month_days y mo) * MS_DAY)"
    using day_in_range [of y "mo + 1" "-1"] assms unfolding d date_UTC_def e by (simp add: make_time_def)
  then show ?thesis
    using civil_day_number [OF v]
    by (simp add: daysInMonth_def civil_time_of_def Let_def MS_DAY_def)
qed

lemma padded_nth:
  assumes "i < a + length xs + b" "(replicate a None @ map Some xs @ replicate b None) ! i = Some d"
  shows "a \<le> i \<and> i < a + length xs \<and> xs ! (i - a) = d"
proof (cases "i < a")
  case False
  show ?thesis
  proof (cases "i < a + length xs")
    case True
    then have "i - a < length xs" using False by simp
    then show ?thesis using True False assms(2) by (simp add: nth_append)
  next
    case past: False
    then have "\<not> i - a < length xs" "i - a - length xs < b" using assms(1) False by simp_all
    then show ?thesis using assms(2) False by (simp add: nth_append)
  qed
qed (use assms(2) in \<open>simp add: nth_append\<close>)

text \<open>The month grid has six weeks; it holds every day of the month shown, no other, and each in the
  column of its weekday.\<close>

theorem month_grid:
  assumes "100 \<le> y" "y < 270000" "1 \<le> mo" "mo \<le> 12"
  shows "length (cells (y, mo)) = 42 \<and> (\<forall>d. Some d \<in> set (cells (y, mo)) \<longleftrightarrow> valid_date y mo d) \<and>
    (\<forall>i d. i < 42 \<longrightarrow> cells (y, mo) ! i = Some d \<longrightarrow> int i mod 7 = weekday (day_number y mo d))"
proof -
  define k where "k = weekday (day_number y mo 1)"
  have k: "0 \<le> k" "k < 7" by (simp_all add: k_def weekday_def)
  have n: "28 \<le> month_days y mo" "month_days y mo \<le> 31"
    by (cases rule: month_cases [OF assms(3,4)], simp_all add: month_days_def)+
  have c: "cells (y, mo) = replicate (nat k) None @ map Some [1..month_days y mo]
      @ replicate (42 - (nat k + nat (month_days y mo))) None"
    using assms firstWeekday_eq [of y mo] daysInMonth_eq [of y mo] by (simp add: cells_def k_def Let_def)
  have l: "length (cells (y, mo)) = 42" using k n unfolding c by simp
  have s: "Some d \<in> set (cells (y, mo)) \<longleftrightarrow> valid_date y mo d" for d
    using assms(3,4) unfolding c by (auto simp: valid_date_def)
  have w: "int i mod 7 = weekday (day_number y mo d)" if "i < 42" "cells (y, mo) ! i = Some d" for i d
  proof -
    have "i < nat k + length [1..month_days y mo] + (42 - (nat k + nat (month_days y mo)))"
      using that(1) k n by simp
    then have "nat k \<le> i \<and> i < nat k + length [1..month_days y mo] \<and> [1..month_days y mo] ! (i - nat k) = d"
      by (rule padded_nth) (use that(2) in \<open>simp only: c\<close>)
    then have "nat k \<le> i \<and> d = int i - k + 1" using k n by auto
    then have "int i = k + (d - 1)" by simp
    then have "int i mod 7 = (day_number y mo 1 + 3 + (d - 1)) mod 7"
      by (simp add: k_def weekday_def mod_add_left_eq)
    then show ?thesis by (simp add: weekday_def day_number_def algebra_simps)
  qed
  show ?thesis using l s w by blast
qed

theorem month_grid_witness:
  "length (cells (2025, 10)) = 42 \<and> Some 26 \<in> set (cells (2025, 10))"
  using month_grid [of 2025 10] by (simp add: valid_date_def month_days_def leap_def)

end
