(* ===== verification/Report_Html.thy ===== *)
theory Report_Html
  imports Date_Time Vocabulary Mitre
begin

text \<open>
  \<^verbatim>\<open>frontend/src/lib/reportTemplates.js\<close>, the utilities: the JavaScript operators the templates
  use on the report data, HTML escaping, labels and colours, and the tokenizer that says which markup a
  piece of HTML has. The report data is a JSON value whose fields have the types of the API's schema: a
  field the code treats as a list is a list or absent, one it calls a string method on is a string.
\<close>

subsection \<open>Operators\<close>

definition nl :: string where "nl = [CHR 0x0A]"
definition sq :: string where "sq = [CHR 0x27]"
definition dq :: string where "dq = [CHR 0x22]"
definition en_dash :: string where "en_dash = [CHR 0xE2, CHR 0x80, CHR 0x93]"
definition check_mark :: string where "check_mark = [CHR 0xE2, CHR 0x9C, CHR 0x93]"
definition cross_mark :: string where "cross_mark = [CHR 0xE2, CHR 0x9C, CHR 0x97]"
definition warning_sign :: string where "warning_sign = [CHR 0xE2, CHR 0x9A, CHR 0xA0]"
definition times_sign :: string where "times_sign = [CHR 0xC3, CHR 0x97]"
definition circle_sign :: string where "circle_sign = [CHR 0xE2, CHR 0x97, CHR 0x8B]"
definition half_circle :: string where "half_circle = [CHR 0xE2, CHR 0x97, CHR 0x91]"
definition left_arrow :: string where "left_arrow = [CHR 0xE2, CHR 0x86, CHR 0x90]"

lemmas sign_defs = nl_def sq_def dq_def en_dash_def check_mark_def cross_mark_def warning_sign_def times_sign_def
  circle_sign_def half_circle_def left_arrow_def em_dash_def section_sign_def minus_sign_def middle_dot_def
  right_arrow_def

text \<open>\<open>a || b\<close>, \<open>a && b\<close>, \<open>a ?? b\<close>; a list field; a numeric field; \<open>x.length\<close>.\<close>

definition jor :: "jsval \<Rightarrow> jsval \<Rightarrow> jsval" where "jor a b = (if truthy a then a else b)"
definition jand :: "jsval \<Rightarrow> jsval \<Rightarrow> jsval" where "jand a b = (if truthy a then b else a)"
definition jnullor :: "jsval \<Rightarrow> jsval \<Rightarrow> jsval" where "jnullor a b = (if nullish a then b else a)"
definition or_str :: "string \<Rightarrow> string \<Rightarrow> string" where "or_str a b = (if a = [] then b else a)"

fun arr :: "jsval \<Rightarrow> jsval list" where
  "arr (JArr xs) = xs"
| "arr _ = []"

fun jnum :: "jsval \<Rightarrow> int" where
  "jnum (JNum n) = n"
| "jnum _ = 0"

fun jlen :: "jsval \<Rightarrow> int" where
  "jlen (JArr xs) = int (length xs)"
| "jlen (JStr s) = int (length s)"
| "jlen _ = 0"

definition us_space :: "string \<Rightarrow> string" where
  "us_space s = replace_char (CHR ''_'') '' '' s"

definition upper_char :: "char \<Rightarrow> char" where
  "upper_char c = (if 97 \<le> code_of c \<and> code_of c \<le> 122 then char_of (code_of c - 32) else c)"

definition to_upper :: "string \<Rightarrow> string" where
  "to_upper s = map upper_char s"

text \<open>\<open>[...new Set(xs)]\<close>: the first occurrences.\<close>

definition nub :: "'a list \<Rightarrow> 'a list" where
  "nub xs = rev (remdups (rev xs))"

lemma set_nub [simp]: "set (nub xs) = set xs"
  by (simp add: nub_def)

text \<open>\<open>indexOf\<close>; \<open>None\<close> is \<open>-1\<close>.\<close>

fun index_of :: "'a \<Rightarrow> 'a list \<Rightarrow> nat option" where
  "index_of x [] = None"
| "index_of x (y # ys) = (if x = y then Some 0 else map_option Suc (index_of x ys))"

subsection \<open>Numbers: IEEE binary64 where a quotient is rounded twice\<close>

text \<open>
  A non-negative double is \<open>m / 2 ^ k\<close>. \<open>f64 a b\<close> is the double nearest to \<open>a / b\<close>, ties to even.
\<close>

fun bits :: "nat \<Rightarrow> nat" where
  "bits n = (if n = 0 then 0 else Suc (bits (n div 2)))"

declare bits.simps [simp del]

definition rne :: "nat \<Rightarrow> nat \<Rightarrow> nat" where
  "rne a b = (let q = a div b; r = a mod b in if 2 * r < b \<or> 2 * r = b \<and> even q then q else q + 1)"

definition f64 :: "nat \<Rightarrow> nat \<Rightarrow> nat \<times> nat" where
  "f64 a b = (let k = 52 + bits b - bits a; k = (if a * 2 ^ k < 2 ^ 52 * b then k + 1 else k)
     in (rne (a * 2 ^ k) b, k))"

definition f64_mult :: "nat \<times> nat \<Rightarrow> nat \<Rightarrow> nat \<times> nat" where
  "f64_mult x n = f64 (fst x * n) (2 ^ snd x)"

definition f64_add :: "nat \<times> nat \<Rightarrow> nat \<Rightarrow> nat \<times> nat" where
  "f64_add x n = f64 (fst x + n * 2 ^ snd x) (2 ^ snd x)"

text \<open>\<open>Math.round\<close> and \<open>toFixed(d)\<close>.\<close>

definition f64_round :: "nat \<times> nat \<Rightarrow> nat" where
  "f64_round x = round_div (fst x) (2 ^ snd x)"

definition show_fixed :: "nat \<Rightarrow> nat \<Rightarrow> string" where
  "show_fixed d n = show_nat (n div 10 ^ d) @ ''.'' @ pad_start d (CHR ''0'') (show_nat (n mod 10 ^ d))"

definition to_fixed :: "nat \<Rightarrow> nat \<times> nat \<Rightarrow> string" where
  "to_fixed d x = show_fixed d (round_div (fst x * 10 ^ d) (2 ^ snd x))"

definition pct :: "int \<Rightarrow> int \<Rightarrow> int" where
  "pct n tot = (if tot \<noteq> 0 then int (f64_round (f64_mult (f64 (nat n) (nat tot)) 100)) else 0)"

lemma rne_bound: "0 < b \<Longrightarrow> a \<le> n * b \<Longrightarrow> rne a b \<le> n"
proof -
  assume b: "0 < b" and a: "a \<le> n * b"
  have q: "a div b \<le> n" using a b by (metis div_le_mono nonzero_mult_div_cancel_right order_less_irrefl)
  show "rne a b \<le> n"
  proof (cases "a div b = n")
    case True
    then have "a = n * b" using a div_mult_mod_eq [of a b] by (metis add.right_neutral le_add1 le_antisym)
    then show ?thesis using b by (simp add: rne_def)
  next
    case False
    with q have "a div b < n" by simp
    then show ?thesis by (simp add: rne_def Let_def)
  qed
qed

lemma f64_bound: "0 < b \<Longrightarrow> a \<le> n * b \<Longrightarrow> fst (f64 a b) \<le> n * 2 ^ snd (f64 a b)"
  by (auto simp: f64_def Let_def intro!: rne_bound)

text \<open>A percentage is between 0 and 100.\<close>

theorem pct_bounds:
  assumes "0 \<le> n" "n \<le> tot"
  shows "0 \<le> pct n tot \<and> pct n tot \<le> 100"
proof (cases "tot = 0")
  case False
  define x where "x = f64 (nat n) (nat tot)"
  have "fst x \<le> 1 * 2 ^ snd x"
    unfolding x_def by (rule f64_bound) (use assms False in \<open>simp_all add: nat_le_eq_zle\<close>)
  then have "fst (f64_mult x 100) \<le> 100 * 2 ^ snd (f64_mult x 100)"
    unfolding f64_mult_def by (intro f64_bound) simp_all
  then have "f64_round (f64_mult x 100) \<le> 100"
    unfolding f64_round_def by (intro round_div_bound) simp_all
  then show ?thesis using False by (simp add: pct_def x_def)
qed (simp add: pct_def)

subsection \<open>Escaping\<close>

definition esc_str :: "string \<Rightarrow> string" where
  "esc_str s = replace_char CHR 0x22 ''&quot;'' (replace_char (CHR ''>'') ''&gt;''
     (replace_char (CHR ''<'') ''&lt;'' (replace_char (CHR ''&'') ''&amp;'' s)))"

definition esc :: "jsval \<Rightarrow> string" where
  "esc v = (if nullish v then [] else esc_str (js_string v))"

text \<open>What the report reads besides the data: the clock, the zone, the Markdown renderer
  (\<open>react-markdown\<close>), the locale's number format and its string comparison.\<close>

record renv =
  r_read :: reader
  r_zone :: zone
  r_now :: string
  r_markdown :: "string \<Rightarrow> string"
  r_number :: "int \<Rightarrow> string"
  r_compare :: "string \<Rightarrow> string \<Rightarrow> int"

definition fmtTs :: "renv \<Rightarrow> jsval \<Rightarrow> string" where
  "fmtTs E v = (if truthy v then formatLocal (r_read E) (r_zone E) (js_string v) else em_dash)"

definition offsetText :: "renv \<Rightarrow> jsval \<Rightarrow> string" where
  "offsetText E e =
     (if \<not> truthy (jget e ''recorded_event_time'') \<or> nullish (jget e ''clock_offset_seconds'') then []
      else let s = jnum (jget e ''clock_offset_seconds'');
        off = (if s = 0 then ''0 s''
               else (if s > 0 then ''+'' else minus_sign) @ show_int \<bar>s\<bar> @ '' s'')
      in esc_str (''offset-corrected ('' @ off @ ''); recorded '' @ fmtTs E (jget e ''recorded_event_time'')))"

definition SEV_HEX :: "(string \<times> string) list" where
  \<open>SEV_HEX = [(''critical'', ''#ef4444''),
     (''high'', ''#f97316''),
     (''medium'', ''#f59e0b''),
     (''low'', ''#22c55e'')]\<close>

definition TLP_HEX :: "(string \<times> string) list" where
  \<open>TLP_HEX = [(''red'', ''#ef4444''),
     (''amber'', ''#f59e0b''),
     (''amber+strict'', ''#f97316''),
     (''green'', ''#22c55e''),
     (''clear'', ''#94a3b8'')]\<close>

definition PHASE_LABEL :: "(string \<times> string) list" where
  \<open>PHASE_LABEL = [(''preparation'', ''Preparation''),
     (''detection_and_analysis'', ''Detection & Analysis''),
     (''containment_eradication_recovery'', ''Containment, Eradication & Recovery''),
     (''post_incident'', ''Post-Incident Activity'')]\<close>

definition hex_of :: "(string \<times> string) list \<Rightarrow> string \<Rightarrow> string \<Rightarrow> string" where
  "hex_of table d k = (case map_of table k of Some c \<Rightarrow> c | None \<Rightarrow> d)"

definition sevHex :: "string \<Rightarrow> string" where "sevHex s = hex_of SEV_HEX ''#64748b'' s"
definition tlpHex :: "string \<Rightarrow> string" where "tlpHex t = hex_of TLP_HEX ''#64748b'' t"

definition phaseLabel :: "jsval \<Rightarrow> string" where
  "phaseLabel p = (case map_of PHASE_LABEL (js_string p) of
     Some l \<Rightarrow> l | None \<Rightarrow> if truthy p then js_string p else em_dash)"

text \<open>
  \<open>split(/\n\s*\n/)\<close>: at each line break the match runs to the last line break of the white space
  that follows; \<open>blank_run\<close> is the text after it.
\<close>

fun blank_run :: "string \<Rightarrow> string option" where
  "blank_run [] = None"
| "blank_run (c # s) = (if is_space c
     then (case blank_run s of Some r \<Rightarrow> Some r | None \<Rightarrow> if c = CHR 0x0A then Some s else None)
     else None)"

lemma blank_run_length: "blank_run s = Some r \<Longrightarrow> length r < length s"
  by (induction s) (auto split: if_splits option.splits)

function paragraphs :: "string \<Rightarrow> string list" where
  "paragraphs [] = [[]]"
| "paragraphs (c # s) =
     (case (if c = CHR 0x0A then blank_run s else None) of
        Some r \<Rightarrow> [] # paragraphs r
      | None \<Rightarrow> (case paragraphs s of [] \<Rightarrow> [[c]] | w # ws \<Rightarrow> (c # w) # ws))"
  by pat_completeness auto
termination
  by (relation "measure length") (auto dest: blank_run_length split: if_splits)

definition narrativeToHtml :: "jsval \<Rightarrow> string" where
  "narrativeToHtml v =
     (if \<not> truthy v then []
      else let trimmed = trim (js_string v) in
        if trimmed = [] then []
        else concat (map (\<lambda>p. ''<p class='' @ dq @ ''narrative'' @ dq @ ''>'' @ replace_char CHR 0x0A ''<br>'' (esc_str p) @ ''</p>'')
          (paragraphs trimmed)))"

definition DETECTION_LABEL :: "(string \<times> string) list" where
  "DETECTION_LABEL = map (\<lambda>r. (vr_value r, vr_label r)) DETECTION_METHOD"

definition SYSTEM_TYPE_LABEL :: "(string \<times> string) list" where
  "SYSTEM_TYPE_LABEL = map (\<lambda>r. (vr_value r, vr_label r)) SYSTEM_TYPE"

definition STAKEHOLDER_TYPE_LABEL :: "(string \<times> string) list" where
  \<open>STAKEHOLDER_TYPE_LABEL = [(''internal'', ''Internal''),
     (''legal'', ''Legal''),
     (''regulatory'', ''Regulatory''),
     (''law_enforcement'', ''Law Enforcement''),
     (''media_pr'', ''Media / PR''),
     (''vendor'', ''Vendor''),
     (''ir_firm'', ''IR Firm''),
     (''customer'', ''Customer''),
     (''insurer'', ''Insurer''),
     (''board'', ''Board''),
     (''other'', ''Other'')]\<close>

definition TACTIC_HEX :: "(string \<times> string) list" where
  \<open>TACTIC_HEX = [(''TA0043'', ''#64748b''),
     (''TA0042'', ''#a16207''),
     (''TA0001'', ''#ef4444''),
     (''TA0002'', ''#f97316''),
     (''TA0003'', ''#f59e0b''),
     (''TA0004'', ''#eab308''),
     (''TA0005'', ''#22c55e''),
     (''TA0006'', ''#14b8a6''),
     (''TA0007'', ''#06b6d4''),
     (''TA0008'', ''#3b82f6''),
     (''TA0009'', ''#8b5cf6''),
     (''TA0010'', ''#ec4899''),
     (''TA0011'', ''#f43f5e''),
     (''TA0040'', ''#94a3b8'')]\<close>

text \<open>A label table read at a field: \<open>TABLE[v]\<close>, \<open>undefined\<close> when it has no such key.\<close>

definition label_in :: "(string \<times> string) list \<Rightarrow> string \<Rightarrow> jsval" where
  "label_in table k = (case map_of table k of Some l \<Rightarrow> JStr l | None \<Rightarrow> JUndef)"

definition markdownToHtml :: "renv \<Rightarrow> jsval \<Rightarrow> string" where
  "markdownToHtml E v = (if \<not> truthy v \<or> trim (js_string v) = [] then [] else r_markdown E (js_string v))"

subsection \<open>The section table\<close>

record report_section =
  rs_key :: string
  rs_title :: string
  rs_fullOnly :: bool
  rs_ifPresent :: bool
  rs_csf :: "string list"

definition REPORT_SECTIONS :: "report_section list" where
  \<open>REPORT_SECTIONS =
    [\<lparr>rs_key = ''exec_summary'', rs_title = ''Executive Summary'', rs_fullOnly = False, rs_ifPresent = False,
      rs_csf = [''RS.CO-03'', ''RS.AN-03'']\<rparr>,
     \<lparr>rs_key = ''details'', rs_title = ''Incident Details'', rs_fullOnly = False, rs_ifPresent = False,
      rs_csf = [''DE.AE-08'', ''RS.MA-02'', ''RS.MA-03'']\<rparr>,
     \<lparr>rs_key = ''assignments'', rs_title = ''Assignments'', rs_fullOnly = False, rs_ifPresent = False,
      rs_csf = [''GV.RR-02'']\<rparr>,
     \<lparr>rs_key = ''stakeholders'', rs_title = ''Stakeholders'', rs_fullOnly = False, rs_ifPresent = False,
      rs_csf = [''RS.CO-02'', ''RS.CO-03'']\<rparr>,
     \<lparr>rs_key = ''detection'', rs_title = ''Detection & Identification'', rs_fullOnly = True, rs_ifPresent = False,
      rs_csf = [''DE.AE-02'', ''DE.AE-03'', ''DE.AE-07'']\<rparr>,
     \<lparr>rs_key = ''cer'', rs_title = ''Containment, Eradication & Recovery'', rs_fullOnly = True, rs_ifPresent = False,
      rs_csf = [''RS.MI-01'', ''RS.MI-02'', ''RC.RP-02'']\<rparr>,
     \<lparr>rs_key = ''recovery'', rs_title = ''Recovery Validation'', rs_fullOnly = True, rs_ifPresent = False,
      rs_csf = [''RC.RP-02'', ''RC.RP-03'', ''RC.RP-05'']\<rparr>,
     \<lparr>rs_key = ''decisions'', rs_title = ''Decisions Log'', rs_fullOnly = False, rs_ifPresent = False,
      rs_csf = [''RS.AN-06'', ''RS.MA-04'']\<rparr>,
     \<lparr>rs_key = ''impact'', rs_title = ''Impact Assessment'', rs_fullOnly = False, rs_ifPresent = False,
      rs_csf = [''RS.AN-08'', ''DE.AE-04'']\<rparr>,
     \<lparr>rs_key = ''legal'', rs_title = ''Legal & Regulatory Deadlines'', rs_fullOnly = False, rs_ifPresent = False,
      rs_csf = [''GV.OC-03'', ''RS.CO-02'']\<rparr>,
     \<lparr>rs_key = ''comms_log'', rs_title = ''Communications & Notification Log'', rs_fullOnly = True, rs_ifPresent = False,
      rs_csf = [''RS.CO-02'', ''RS.CO-03'']\<rparr>,
     \<lparr>rs_key = ''root_cause'', rs_title = ''Root Cause Analysis'', rs_fullOnly = False, rs_ifPresent = False,
      rs_csf = [''RS.AN-03'']\<rparr>,
     \<lparr>rs_key = ''attack_chain'', rs_title = ''Attack Chain'', rs_fullOnly = False, rs_ifPresent = True,
      rs_csf = [''RS.AN-03'', ''DE.AE-02'']\<rparr>,
     \<lparr>rs_key = ''attribution'', rs_title = ''Threat Actor Attribution'', rs_fullOnly = False, rs_ifPresent = False,
      rs_csf = [''ID.RA-03'', ''DE.AE-07'']\<rparr>,
     \<lparr>rs_key = ''entities'', rs_title = ''Entities & Attack Path'', rs_fullOnly = False, rs_ifPresent = False,
      rs_csf = [''RS.AN-08'', ''ID.AM-05'']\<rparr>,
     \<lparr>rs_key = ''evidence'', rs_title = ''Evidence & Artifacts'', rs_fullOnly = True, rs_ifPresent = False,
      rs_csf = [''RS.AN-07'']\<rparr>,
     \<lparr>rs_key = ''attachments'', rs_title = ''Figures'', rs_fullOnly = False, rs_ifPresent = True,
      rs_csf = [''RS.AN-06'']\<rparr>,
     \<lparr>rs_key = ''playbook'', rs_title = ''Playbook'', rs_fullOnly = True, rs_ifPresent = False,
      rs_csf = [''RS.MA-01'']\<rparr>,
     \<lparr>rs_key = ''closure'', rs_title = ''Closure Checklist Completion'', rs_fullOnly = False, rs_ifPresent = False,
      rs_csf = [''RC.RP-06'']\<rparr>,
     \<lparr>rs_key = ''lessons'', rs_title = ''Lessons Learned & Recommendations'', rs_fullOnly = False, rs_ifPresent = False,
      rs_csf = [''ID.IM-03'', ''ID.IM-04'']\<rparr>,
     \<lparr>rs_key = ''remediation'', rs_title = ''Remediation Plan'', rs_fullOnly = False, rs_ifPresent = False,
      rs_csf = [''ID.IM-03'', ''ID.RA-06'']\<rparr>,
     \<lparr>rs_key = ''costs'', rs_title = ''Cost Tracking'', rs_fullOnly = False, rs_ifPresent = False,
      rs_csf = [''RS.AN-08'', ''RC.RP-06'']\<rparr>,
     \<lparr>rs_key = ''sign_off'', rs_title = ''Approval & Sign-off'', rs_fullOnly = False, rs_ifPresent = False,
      rs_csf = [''RC.RP-06'', ''GV.RR-02'']\<rparr>]\<close>

definition SECTION_BY_KEY :: "string \<Rightarrow> report_section option" where
  "SECTION_BY_KEY k = map_of (map (\<lambda>s. (rs_key s, s)) REPORT_SECTIONS) k"

definition APPENDIX_CSF :: "(string \<times> string list) list" where
  \<open>APPENDIX_CSF = [(''Affected Systems'', [''RS.AN-08'', ''ID.AM-05'']),
     (''Incident Timeline'', [''RS.AN-03'', ''RS.AN-06'']),
     (''Case Notes'', [''RS.AN-06'', ''RS.AN-07''])]\<close>

definition ncissLabel :: "jsval \<Rightarrow> string" where
  "ncissLabel v = (case v of JStr (c # s) \<Rightarrow> upper_char c # s | _ \<Rightarrow> em_dash)"

definition NCISS_TITLE :: string where
  "NCISS_TITLE = ''NCISS (mapped from internal severity)''"

definition csfLine :: "string list \<Rightarrow> string" where
  \<open>csfLine ids = (if ids \<noteq> [] then
     ''<div class="csf-line">NIST CSF 2.0: '' @ join '' '' (map (\<lambda>x. ''<span class="csf-id">'' @ esc_str x @ ''</span>'') ids)
       @ ''</div>'' else [])\<close>

definition REPORT_SECTION_OPTIONS :: "(string \<times> string) list" where
  "REPORT_SECTION_OPTIONS = (''kpis'', ''Key metrics strip (cover)'') # map (\<lambda>s. (rs_key s, rs_title s)) REPORT_SECTIONS"

subsection \<open>Themes\<close>

record theme =
  th_fonts :: string
  th_vars :: "(string \<times> string) list"
  th_cover_gradient :: string
  th_prose_color :: string

definition THEME_tactical :: theme where
  \<open>THEME_tactical =
    \<lparr>th_fonts = (''@import url('' @ sq @ ''https://fonts.googleapis.com/css2?family=Inter:wght@300;400;500;600;700;800&family=JetBrains+Mono:wght@400;500&display=swap'' @ sq @ '');''),
     th_vars = [(''bg'', ''#070710''),
       (''bg-card'', ''#0e0e1a''),
       (''bg-section'', ''#0b0b16''),
       (''border'', ''#1e1e30''),
       (''border-light'', ''#16162a''),
       (''text'', ''#e2e2f0''),
       (''text-muted'', ''#8888aa''),
       (''text-dim'', ''#555570''),
       (''text-strong'', ''#ffffff''),
       (''th-bg'', ''#0a0a18''),
       (''th-color'', ''#8888aa''),
       (''tr-hover'', ''#0f0f1e''),
       (''enrich-bg'', ''#1e2a1e''),
       (''enrich-fg'', ''#4ade80''),
       (''task-done'', ''#4ade80''),
       (''green'', ''#16a34a''),
       (''amber'', ''#d97706''),
       (''blue'', ''#2563eb''),
       (''font'', (sq @ ''Inter'' @ sq @ '', sans-serif'')),
       (''mono'', (sq @ ''JetBrains Mono'' @ sq @ '', monospace''))],
     th_cover_gradient = ''linear-gradient(135deg, #07070f 0%, #140008 50%, #070710 100%)'',
     th_prose_color = ''#c8c8e0''\<rparr>\<close>

definition THEME_executive :: theme where
  \<open>THEME_executive =
    \<lparr>th_fonts = (''@import url('' @ sq @ ''https://fonts.googleapis.com/css2?family=Source+Serif+Pro:wght@400;600;700&family=Inter:wght@400;500;600;700&display=swap'' @ sq @ '');''),
     th_vars = [(''bg'', ''#ffffff''),
       (''bg-card'', ''#f8fafc''),
       (''bg-section'', ''#f1f5f9''),
       (''border'', ''#cbd5e1''),
       (''border-light'', ''#e2e8f0''),
       (''text'', ''#0f172a''),
       (''text-muted'', ''#475569''),
       (''text-dim'', ''#64748b''),
       (''text-strong'', ''#0f172a''),
       (''th-bg'', ''#1e293b''),
       (''th-color'', ''#ffffff''),
       (''tr-hover'', ''#f1f5f9''),
       (''enrich-bg'', ''#dcfce7''),
       (''enrich-fg'', ''#15803d''),
       (''task-done'', ''#15803d''),
       (''green'', ''#15803d''),
       (''amber'', ''#b45309''),
       (''blue'', ''#1e40af''),
       (''font'', (sq @ ''Source Serif Pro'' @ sq @ '', Georgia, serif'')),
       (''mono'', (sq @ ''Inter'' @ sq @ '', sans-serif''))],
     th_cover_gradient = ''linear-gradient(135deg, #f8fafc 0%, #e0e7ff 50%, #f1f5f9 100%)'',
     th_prose_color = ''#1e293b''\<rparr>\<close>

definition THEME_print :: theme where
  \<open>THEME_print =
    \<lparr>th_fonts = (''@import url('' @ sq @ ''https://fonts.googleapis.com/css2?family=Source+Serif+Pro:wght@400;600;700&family=Source+Code+Pro:wght@400;600&display=swap'' @ sq @ '');''),
     th_vars = [(''bg'', ''#ffffff''),
       (''bg-card'', ''#ffffff''),
       (''bg-section'', ''#fafafa''),
       (''border'', ''#000000''),
       (''border-light'', ''#666666''),
       (''text'', ''#000000''),
       (''text-muted'', ''#333333''),
       (''text-dim'', ''#555555''),
       (''text-strong'', ''#000000''),
       (''th-bg'', ''#000000''),
       (''th-color'', ''#ffffff''),
       (''tr-hover'', ''#f5f5f5''),
       (''enrich-bg'', ''#eeeeee''),
       (''enrich-fg'', ''#000000''),
       (''task-done'', ''#000000''),
       (''green'', ''#000000''),
       (''amber'', ''#000000''),
       (''blue'', ''#000000''),
       (''font'', (sq @ ''Source Serif Pro'' @ sq @ '', Georgia, serif'')),
       (''mono'', (sq @ ''Source Code Pro'' @ sq @ '', monospace''))],
     th_cover_gradient = ''#ffffff'',
     th_prose_color = ''#000000''\<rparr>\<close>

definition THEME_forensic :: theme where
  \<open>THEME_forensic =
    \<lparr>th_fonts = (''@import url('' @ sq @ ''https://fonts.googleapis.com/css2?family=Roboto:wght@400;500;700&family=Roboto+Mono:wght@400;500&display=swap'' @ sq @ '');''),
     th_vars = [(''bg'', ''#fafbfc''),
       (''bg-card'', ''#ffffff''),
       (''bg-section'', ''#f0f4f8''),
       (''border'', ''#94a3b8''),
       (''border-light'', ''#cbd5e1''),
       (''text'', ''#1e293b''),
       (''text-muted'', ''#475569''),
       (''text-dim'', ''#64748b''),
       (''text-strong'', ''#0c4a6e''),
       (''th-bg'', ''#e0f2fe''),
       (''th-color'', ''#0c4a6e''),
       (''tr-hover'', ''#f0f9ff''),
       (''enrich-bg'', ''#dbeafe''),
       (''enrich-fg'', ''#1e40af''),
       (''task-done'', ''#0369a1''),
       (''green'', ''#15803d''),
       (''amber'', ''#b45309''),
       (''blue'', ''#0c4a6e''),
       (''font'', (sq @ ''Roboto'' @ sq @ '', Arial, sans-serif'')),
       (''mono'', (sq @ ''Roboto Mono'' @ sq @ '', monospace''))],
     th_cover_gradient = ''linear-gradient(135deg, #f0f4f8 0%, #dbeafe 50%, #f0f9ff 100%)'',
     th_prose_color = ''#1e293b''\<rparr>\<close>

definition PRO_THEMES :: "(string \<times> theme) list" where
  "PRO_THEMES = [(''tactical'', THEME_tactical), (''executive'', THEME_executive), (''print'', THEME_print), (''forensic'', THEME_forensic)]"

definition renderProCssVars :: "theme \<Rightarrow> string \<Rightarrow> string \<Rightarrow> string" where
  "renderProCssVars th sevColor tlpColor =
     (let decl = (\<lambda>(k, v). ''  --'' @ k @ '': '' @ v @ '';'') in
      '':root {'' @ nl @ join nl (map decl (th_vars th) @ [''  --red: '' @ sevColor @ '';'', ''  --tlp: '' @ tlpColor @ '';''])
      @ nl @ ''}'')"

definition TLP_MESSAGES :: "(string \<times> string) list" where
  \<open>TLP_MESSAGES = [(''RED'', ''This information may not be shared outside your organization''),
     (''AMBER'', (''Limited disclosure '' @ em_dash @ '' recipients only'')),
     (''GREEN'', ''Community sharing permitted''),
     (''WHITE'', ''Unlimited public disclosure''),
     (''CLEAR'', ''Unlimited public disclosure'')]\<close>

end
