(* ===== verification/Report_Parts.thy ===== *)
theory Report_Parts
  imports Report_Html Js_Regex
begin

text \<open>
  \<^verbatim>\<open>frontend/src/lib/reportTemplates.js\<close>, the renderers of the report's tables: one definition per
  function or constant of the file, with its template literals written out. \<open>E\<close> is the environment, \<open>D\<close>
  the report data, \<open>Q\<close> the options. Object keys are visited in insertion order: none of the
  keys used (types, phases, tactics, currencies) is a number. Amounts are integers.
\<close>

definition date_ms :: "renv \<Rightarrow> jsval \<Rightarrow> int option" where
  "date_ms E v = (case v of JStr s \<Rightarrow> new_Date (r_read E) s | JNum n \<Rightarrow> Some n | JNull \<Rightarrow> Some 0 | _ \<Rightarrow> None)"

text \<open>\<open>new Date(a) > new Date(b)\<close>; a comparison with \<open>NaN\<close> is false.\<close>

definition date_after :: "renv \<Rightarrow> jsval \<Rightarrow> jsval \<Rightarrow> bool" where
  "date_after E a b = (case (date_ms E a, date_ms E b) of (Some x, Some y) \<Rightarrow> x > y | _ \<Rightarrow> False)"

definition label_of :: "string \<Rightarrow> jsval \<Rightarrow> jsval" where
  "label_of g v = (case v of JStr s \<Rightarrow> JStr (labelOf g s) | _ \<Rightarrow> v)"

definition fmtLate :: "int \<Rightarrow> string" where
  "fmtLate hours = (if hours \<ge> 48 then show_nat (round_div (nat hours) 24) @ ''d'' else show_int hours @ ''h'')"

definition fmtSize :: "jsval \<Rightarrow> string" where
  "fmtSize v =
     (if nullish v then em_dash
      else let n = jnum v in
        if n < 1024 then show_int n @ '' B''
        else if n < 1024 * 1024 then to_fixed 1 (f64 (nat n) 1024) @ '' KiB''
        else to_fixed 2 (f64 (nat n) (1024 * 1024)) @ '' MiB'')"

definition CER_COLS :: string where
  \<open>CER_COLS = ''<colgroup><col style="width:19%"><col style="width:22%"><col style="width:10%"><col style="width:15%"><col style="width:22%"><col style="width:12%"></colgroup>''\<close>

definition proIocRows :: "jsval list \<Rightarrow> string" where
  \<open>proIocRows iocs =
    ((concat (map (\<lambda>i. (let statusHtml = (if ((jget i ''malicious'') = (JBool True)) then (''<span class="status-bad">'' @ warning_sign @ '' Malicious</span>'') else (if ((jget i ''malicious'') = (JBool False)) then (''<span class="status-ok">'' @ check_mark @ '' Clean</span>'') else ''<span class="status-unk">? Unknown</span>'')) in
      let enrichBits = (if (truthy (jget i ''ti_matched'')) then [(''<span class="enrich-badge">TI: ''
      @ esc (jor (jget i ''ti_match_source'') (JStr ''matched'')) @ ''</span>'')] else [])
      @ (if (truthy (jget i ''lolbin_hit'')) then [(''<span class="enrich-badge" style="background:#fef3c7;color:#92400e">LOL: ''
      @ esc (jor (jget i ''lolbin_name'') (JStr [])) @ ''</span>'')] else [])
      @ (if (truthy (jget i ''source'')) then [(''<span class="tiny" style="color:var(--text-dim)">src: '' @ esc (jget i ''source'')
      @ ''</span>'')] else []) in
      let enrich = (if (enrichBits \<noteq> []) then (join '' '' enrichBits) else em_dash) in
      let tags = (if ((truthy (jget i ''tags'')) \<and> ((jlen (jget i ''tags'')) \<noteq> 0)) then (join '' '' (map (\<lambda>t. (''<span class="tag">'' @ esc t @ ''</span>'')) (take 3 (arr (jget i ''tags''))))) else em_dash) in
      (''<tr>'' @ nl @ ''      <td><span class="tag">''
      @ esc_str (us_space (js_string (jget i ''type''))) @ ''</span></td>'' @ nl
      @ ''      <td class="mono small">'' @ esc (jget i ''value'') @ ''</td>'' @ nl
      @ ''      <td>'' @ statusHtml @ ''</td>'' @ nl @ ''      <td>''
      @ js_string (jnullor (jget i ''confidence'') (JNum 50)) @ ''%</td>'' @ nl @ ''      <td>''
      @ enrich @ ''</td>'' @ nl @ ''      <td class="small">'' @ tags @ ''</td>'' @ nl
      @ ''    </tr>''))) iocs)))\<close>

definition proCERSubsection :: "renv \<Rightarrow> jsval list \<Rightarrow> string \<Rightarrow> string \<Rightarrow> string" where
  \<open>proCERSubsection E actions category title =
    (let subset = (filter (\<lambda>a. ((to_lower (js_string (jor (jget a ''category'') (JStr [])))) = category)) actions) in
      (if (subset = []) then (''<h3>'' @ title @ ''</h3><div class="placeholder-box"><strong>[ NO '' @ to_upper title
      @ '' ACTIONS RECORDED ]</strong></div>'')
     else let rows = (concat (map (\<lambda>a. (''<tr>'' @ nl @ ''    <td>'' @ esc (jor (jget a ''title'') (JStr [])) @ ''</td>'' @ nl
      @ ''    <td class="small">'' @ esc (jor (jget a ''description'') (JStr em_dash)) @ ''</td>''
      @ nl @ ''    <td>'' @ esc_str (us_space (js_string (jor (jget a ''status'') (JStr []))))
      @ ''</td>'' @ nl @ ''    <td class="mono small">''
      @ (if (truthy (jget a ''occurred_at'')) then (esc_str (fmtTs E (jget a ''occurred_at''))) else em_dash)
      @ ''</td>'' @ nl @ ''    <td class="small">'' @ esc (jor (jget a ''notes'') (JStr em_dash))
      @ ''</td>'' @ nl @ ''    <td class="mono small">''
      @ esc (jor (jget a ''performed_by'') (JStr em_dash)) @ ''</td>'' @ nl @ ''  </tr>'')) subset)) in
      (''<h3>'' @ title @ ''</h3>'' @ nl
      @ ''    <div class="table-wrap"><table class="table-fixed">'' @ CER_COLS @ nl
      @ ''      <thead><tr><th>Action</th><th>Description</th><th>Status</th><th>Occurred At</th><th>Notes</th><th>By</th></tr></thead>''
      @ nl @ ''      <tbody>'' @ rows @ ''</tbody>'' @ nl @ ''    </table></div>'')))\<close>

definition SN_STATUS :: "(string \<times> string) list" where
  \<open>SN_STATUS = [(''pending'', ''Pending''), (''notified'', ''Notified''), (''not_required'', ''Not required'')]\<close>

definition SN_CHANNEL :: "(string \<times> string) list" where
  \<open>SN_CHANNEL = [(''phone'', ''Phone''), (''email'', ''Email''), (''in_person'', ''In person''), (''oob'', ''Out-of-band''), (''other'', ''Other'')]\<close>

definition proNotificationsSection :: "renv \<Rightarrow> jsval \<Rightarrow> string" where
  \<open>proNotificationsSection E sn =
    (let items = (arr (jand sn (jget sn ''items''))) in
      let s = (jor (jand sn (jget sn ''summary'')) (JObj [])) in
      (if (items = []) then []
     else let rows = (concat (map (\<lambda>x. (let late = ((((jget x ''status'') = (JStr ''notified'')) \<and> (truthy (jget x ''notified_at''))) \<and> (date_after E (jget x ''notified_at'') (jget x ''due_at''))) in
      (''<tr>'' @ nl @ ''    <td style="font-weight:600">'' @ esc (jget x ''role'')
      @ ''<div class="small">'' @ esc (jget x ''category'')
      @ (if (truthy (jget x ''required'')) then [] else ('' '' @ middle_dot @ '' advisory''))
      @ (if (truthy (jget x ''superseded'')) then ('' '' @ middle_dot @ '' superseded (''
      @ esc_str (us_space (js_string (jor (jget x ''superseded_reason'') (JStr [])))) @ '')'') else [])
      @ ''</div></td>'' @ nl @ ''    <td style="text-transform:capitalize">''
      @ esc (jget x ''severity'') @ ''</td>'' @ nl @ ''    <td class="mono small">''
      @ esc_str (fmtTs E (jget x ''clock_start_at'')) @ ''</td>'' @ nl
      @ ''    <td class="mono small">'' @ esc_str (fmtTs E (jget x ''due_at'')) @ ''</td>'' @ nl
      @ ''    <td>''
      @ esc (jor (label_in SN_STATUS (js_string (jget x ''status''))) (jget x ''status''))
      @ (if (truthy (jget x ''overdue'')) then '' <strong>(overdue)</strong>'' else [])
      @ (if late then '' <strong>(late)</strong>'' else [])
      @ (if (truthy (jget x ''not_required_reason'')) then (''<div class="small">'' @ esc (jget x ''not_required_reason'') @ ''</div>'') else [])
      @ ''</td>'' @ nl @ ''    <td class="mono small">''
      @ (if (truthy (jget x ''notified_at'')) then (esc_str (fmtTs E (jget x ''notified_at'')) @ ''<div class="small">''
      @ esc (jor (jor (label_in SN_CHANNEL (js_string (jget x ''channel''))) (jget x ''channel'')) (JStr []))
      @ (if (truthy (jget x ''notified_by_username'')) then ('' '' @ middle_dot @ '' '' @ esc (jget x ''notified_by_username'')) else [])
      @ (if (truthy (jget x ''stakeholder_name'')) then ('' '' @ middle_dot @ '' to '' @ esc (jget x ''stakeholder_name'')) else [])
      @ ''</div>'') else em_dash)
      @ ''</td>'' @ nl @ ''  </tr>''))) items)) in
      (''<h3 style="margin:0 0 8px">Stakeholder notifications (stakeholder matrix)</h3>'' @ nl
      @ ''    <p>'' @ js_string (jor (jget s ''notified'') (JNum 0)) @ '' of ''
      @ js_string (jor (jget s ''required_total'') (JNum 0))
      @ '' required notification(s) recorded''
      @ (if (truthy (jget s ''overdue'')) then ('', '' @ js_string (jget s ''overdue'') @ '' overdue'') else [])
      @ (if (truthy (jget s ''not_required'')) then ('', '' @ js_string (jget s ''not_required'') @ '' recorded as not required'') else [])
      @ ''. Each countdown starts when the incident first reached the rule'' @ sq
      @ ''s severity.</p>'' @ nl @ ''    <div class="table-wrap"><table>'' @ nl
      @ ''      <thead><tr><th>Stakeholder</th><th>Severity</th><th>Clock start</th><th>Due</th><th>Status</th><th>Notified</th></tr></thead>''
      @ nl @ ''      <tbody>'' @ rows @ ''</tbody>'' @ nl @ ''    </table></div>'')))\<close>

definition RECOVERY_STATE :: "(string \<times> string) list" where
  \<open>RECOVERY_STATE = [(''not_started'', ''Not started''), (''restoring'', ''Restoring''), (''restored'', ''Restored''), (''validated'', ''Validated''), (''not_required'', ''Not required'')]\<close>

definition proRecoverySection :: "renv \<Rightarrow> jsval \<Rightarrow> string" where
  \<open>proRecoverySection E rec1 =
    (let items = (arr (jand rec1 (jget rec1 ''items''))) in
      let s = (jor (jand rec1 (jget rec1 ''summary'')) (JObj [])) in
      (if (items = []) then ''<div class="placeholder-box"><strong>[ NO COMPROMISED SYSTEMS IN SCOPE ]</strong></div>''
     else let who = (\<lambda>at by1. (if (truthy at) then (esc_str (fmtTs E at)
      @ (if (truthy by1) then (''<div class="small">'' @ esc by1 @ ''</div>'') else [])) else em_dash)) in
      let rows = (concat (map (\<lambda>x. (''<tr>'' @ nl @ ''    <td class="mono">'' @ esc (jget x ''entity_value'')
      @ ''<div class="small">''
      @ esc_str (us_space (js_string (jor (jget x ''entity_type'') (JStr [])))) @ ''</div></td>''
      @ nl @ ''    <td>''
      @ esc (jor (label_in RECOVERY_STATE (js_string (jget x ''state''))) (jget x ''state''))
      @ (if (truthy (jget x ''not_required_reason'')) then (''<div class="small">'' @ esc (jget x ''not_required_reason'') @ ''</div>'') else [])
      @ ''</td>'' @ nl @ ''    <td class="small">''
      @ esc (jor (jget x ''restore_point_ref'') (JStr em_dash))
      @ (if (truthy (jget x ''restore_point_at'')) then (''<div class="mono small">'' @ esc_str (fmtTs E (jget x ''restore_point_at''))
      @ ''</div>'') else [])
      @ ''</td>'' @ nl @ ''    <td class="mono small">''
      @ (who (jget x ''restored_at'') (jget x ''restored_by_username'')) @ ''</td>'' @ nl
      @ ''    <td class="mono small">''
      @ (who (jget x ''validated_at'') (jget x ''validated_by_username''))
      @ (if (truthy (jget x ''same_person_validation'')) then ''<div class="small"><strong>Same person restored and validated</strong></div>'' else [])
      @ ''</td>'' @ nl @ ''    <td class="small">''
      @ esc (jor (jget x ''validation_method'') (JStr em_dash))
      @ (if ((arr (jget x ''validation_checklist'')) \<noteq> []) then (''<div class="small">''
      @ show_int (int (length (filter (\<lambda>c. (truthy (jget c ''done''))) (arr (jget x ''validation_checklist'')))))
      @ ''/'' @ show_int (jlen (jget x ''validation_checklist'')) @ '' checks done</div>'') else [])
      @ ''</td>'' @ nl @ ''    <td class="mono small">''
      @ (if ((truthy (jget x ''monitoring_start'')) \<or> (truthy (jget x ''monitoring_end''))) then ((if (truthy (jget x ''monitoring_start'')) then (esc_str (fmtTs E (jget x ''monitoring_start''))) else em_dash)
      @ '' '' @ right_arrow @ '' ''
      @ (if (truthy (jget x ''monitoring_end'')) then (esc_str (fmtTs E (jget x ''monitoring_end''))) else ''open'')) else em_dash)
      @ ''</td>'' @ nl @ ''  </tr>'')) items)) in
      (''<p>'' @ js_string (jor (jget s ''validated'') (JNum 0)) @ '' of ''
      @ show_int ((jnum (jor (jget s ''total'') (JNum 0))) - (jnum (jor (jget s ''not_required'') (JNum 0))))
      @ '' system(s) validated clean''
      @ (if (truthy (jget s ''not_required'')) then ('', '' @ js_string (jget s ''not_required'') @ '' not requiring restore'') else [])
      @ (if (truthy (jget s ''complete'')) then ('' '' @ em_dash @ '' recovery of every system in scope is validated.'') else ('' '' @ em_dash @ '' ''
      @ show_int (((jnum (jor (jget s ''not_started'') (JNum 0))) + (jnum (jor (jget s ''restoring'') (JNum 0)))) + (jnum (jor (jget s ''restored'') (JNum 0))))
      @ '' still open.''))
      @ (if (truthy (jget s ''same_person_validations'')) then ('' '' @ js_string (jget s ''same_person_validations'')
      @ '' validation(s) by the person who restored the system.'') else [])
      @ ''</p>'' @ nl @ ''    <div class="table-wrap"><table>'' @ nl
      @ ''      <thead><tr><th>System</th><th>State</th><th>Restore point</th><th>Restored</th><th>Validated</th><th>Method</th><th>Monitoring window</th></tr></thead>''
      @ nl @ ''      <tbody>'' @ rows @ ''</tbody>'' @ nl @ ''    </table></div>'')))\<close>

definition proRemBucket :: "jsval list \<Rightarrow> string \<Rightarrow> string" where
  \<open>proRemBucket items color =
    (let rows = (concat (map (\<lambda>ai1. (''<tr><td>'' @ esc (jor (jget ai1 ''action'') (JStr [])) @ ''</td><td>''
      @ esc (jor (jget ai1 ''owner'') (JStr em_dash)) @ ''</td><td class="mono small">''
      @ esc (jor (jget ai1 ''due_date'') (JStr em_dash))
      @ ''</td><td style="text-transform:capitalize">''
      @ esc (jor (jget ai1 ''priority'') (JStr [])) @ ''</td><td>''
      @ esc_str (us_space (js_string (jor (jget ai1 ''status'') (JStr [])))) @ ''</td></tr>'')) items)) in
      (''<div class="table-wrap" style="border-left:3px solid '' @ color @ ''">'' @ nl
      @ ''      <table>'' @ nl
      @ ''        <thead><tr><th>Action</th><th>Owner</th><th>Due</th><th>Priority</th><th>Status</th></tr></thead>''
      @ nl @ ''        <tbody>'' @ rows @ ''</tbody>'' @ nl @ ''      </table>'' @ nl
      @ ''    </div>''))\<close>

definition proRemSection :: "jsval \<Rightarrow> jsval list \<Rightarrow> string \<Rightarrow> string \<Rightarrow> string" where
  \<open>proRemSection narrative items label color =
    (let narrativeHtml = (narrativeToHtml narrative) in
      (if ((narrativeHtml = []) \<and> (items = [])) then (''<h3>'' @ esc_str label @ ''</h3><div class="placeholder-box"><strong>[ NO ''
      @ esc_str (to_upper label) @ '' ITEMS ]</strong></div>'')
     else (((''<h3>'' @ esc_str label @ ''</h3>'') @ (if (narrativeHtml \<noteq> []) then (''<div style="border-left:3px solid '' @ color @ '';padding:6px 12px;margin-bottom:8px">''
      @ narrativeHtml @ ''</div>'') else [])) @ (if (items \<noteq> []) then (proRemBucket items color) else []))))\<close>

definition proNarrativeAndList :: "jsval \<Rightarrow> string \<Rightarrow> string" where
  \<open>proNarrativeAndList narrative structuredHtml =
    (let narrativeHtml = (narrativeToHtml narrative) in
      (if ((narrativeHtml = []) \<and> (structuredHtml = [])) then ''<div class="placeholder-box"><strong>[ PLACEHOLDER ]</strong></div>''
     else (narrativeHtml @ structuredHtml)))\<close>

definition proComplianceHtml :: "jsval \<Rightarrow> string" where
  \<open>proComplianceHtml d =
    ((if ((jget d ''compliance'') = (JStr ''met'')) then (''<span class="status-ok">'' @ check_mark @ '' Met</span>'')
     else (if ((jget d ''compliance'') = (JStr ''waived'')) then ''<span class="status-unk">Waived</span>''
     else (if ((jget d ''compliance'') = (JStr ''pending'')) then ''<span style="color:var(--amber);font-weight:600">Pending</span>''
     else let how = (if ((jget d ''status'') = (JStr ''completed'')) then (''completed '' @ (fmtLate (jnum (jor (jget d ''hours_late'') (JNum 0)))) @ '' late'') else (''overdue by '' @ (fmtLate (jnum (jor (jget d ''hours_late'') (JNum 0)))))) in
      (''<span class="status-bad">'' @ cross_mark
      @ '' Violated</span><div class="tiny" style="color:var(--text-dim)">'' @ esc_str how
      @ ''</div>'')))))\<close>

subsection \<open>The attack chain\<close>

definition chain_chips :: "string \<Rightarrow> (string \<times> int) list \<Rightarrow> string" where
  \<open>chain_chips color techs =
    (concat (map (\<lambda>(t, n). (''<span class="ac-chip" style="border-color:'' @ color @ ''66;color:'' @ color @ ''">''
      @ esc_str t @ (if (n > 1) then ('' '' @ times_sign @ show_int n) else []) @ ''</span>'')) techs))\<close>

text \<open>\<open>Math.min\<close>/\<open>Math.max\<close> over the times; an unreadable time counts as the epoch here.\<close>

definition event_ms :: "renv \<Rightarrow> jsval \<Rightarrow> int" where
  "event_ms E e = (case date_ms E (jget e ''event_time'') of Some t \<Rightarrow> t | None \<Rightarrow> 0)"

definition chain_left :: "int \<Rightarrow> int \<Rightarrow> int \<Rightarrow> string" where
  "chain_left t0 span t = to_fixed 2 (f64_add (f64_mult (f64 (nat (t - t0)) (nat span)) 94) 3)"

definition chain_dots :: "renv \<Rightarrow> string \<Rightarrow> int \<Rightarrow> int \<Rightarrow> jsval list \<Rightarrow> string" where
  \<open>chain_dots E color t0 span inLane =
    (concat (map (\<lambda>e. (''<span class="ac-dot" style="left:'' @ (chain_left t0 span (event_ms E e))
      @ ''%;background:'' @ color @ ''" title="'' @ esc_str (fmtTs E (jget e ''event_time''))
      @ '' '' @ em_dash @ '' ''
      @ esc_str (join '' '' (map js_string (filter truthy [(jget e ''mitre_technique_id''), (jget e ''description'')])))
      @ ''"></span>'')) inLane))\<close>

definition tactic_name :: "jsval list \<Rightarrow> string \<Rightarrow> string" where
  "tactic_name tagged k = (case map_of MITRE_TACTICS k of Some n \<Rightarrow> n
     | None \<Rightarrow> (case find (\<lambda>e. jget e ''mitre_tactic_id'' = JStr k) tagged of
         Some e \<Rightarrow> if truthy (jget e ''mitre_tactic_name'') then js_string (jget e ''mitre_tactic_name'') else k
       | None \<Rightarrow> k))"

text \<open>Counting the techniques of a lane: an object from technique to count, in insertion order.\<close>

fun count_in :: "string \<Rightarrow> (string \<times> int) list \<Rightarrow> (string \<times> int) list" where
  "count_in k [] = [(k, 1)]"
| "count_in k ((a, n) # ms) = (if a = k then (a, n + 1) # ms else (a, n) # count_in k ms)"

definition lane_techs :: "jsval list \<Rightarrow> (string \<times> int) list" where
  "lane_techs inLane = fold (\<lambda>e ms. if truthy (jget e ''mitre_technique_id'')
     then count_in (js_string (jget e ''mitre_technique_id'')) ms else ms) inLane []"

definition chain_lane :: "string \<Rightarrow> string \<Rightarrow> string \<Rightarrow> jsval list \<Rightarrow> string \<Rightarrow> string \<Rightarrow> string" where
  \<open>chain_lane color id1 name inLane chips dots =
    (''<div class="ac-lane">'' @ nl @ ''      <div class="ac-label">'' @ nl
      @ ''        <div class="ac-name" style="color:'' @ color @ ''">'' @ esc_str name
      @ ''</div>'' @ nl @ ''        <div class="ac-meta">'' @ esc_str id1 @ '' '' @ middle_dot
      @ '' '' @ show_int (int (length inLane)) @ '' event''
      @ (if ((int (length inLane)) \<noteq> 1) then ''s'' else []) @ ''</div>'' @ nl
      @ ''        <div>'' @ chips @ ''</div>'' @ nl @ ''      </div>'' @ nl
      @ ''      <div class="ac-track"><span class="ac-line"></span>'' @ dots @ ''</div>'' @ nl
      @ ''    </div>'')\<close>

definition chain_page :: "renv \<Rightarrow> jsval list \<Rightarrow> int \<Rightarrow> string \<Rightarrow> jsval \<Rightarrow> jsval \<Rightarrow> string" where
  \<open>chain_page E tagged n_lanes lanes first last1 =
    (''<p class="small" style="color:var(--text-muted);margin-bottom:12px">''
      @ show_int (int (length tagged)) @ '' MITRE-tagged event''
      @ (if ((int (length tagged)) \<noteq> 1) then ''s'' else []) @ '' across ''
      @ show_int n_lanes @ '' tactic'' @ (if (n_lanes \<noteq> 1) then ''s'' else [])
      @ '', in ATT&amp;CK kill-chain order. Each dot is one timeline event, placed by time (left = earliest).</p>''
      @ nl @ ''  <div class="ac-wrap">'' @ lanes @ nl @ ''    <div class="ac-axis"><span>''
      @ esc_str (fmtTs E first) @ ''</span><span>'' @ esc_str (fmtTs E last1) @ ''</span></div>''
      @ nl @ ''  </div>'')\<close>

definition tactic_rank :: "string \<Rightarrow> int" where
  "tactic_rank k = (case index_of k (map fst MITRE_TACTICS) of Some i \<Rightarrow> int i | None \<Rightarrow> int (length MITRE_TACTICS))"

definition tagged_events :: "renv \<Rightarrow> jsval list \<Rightarrow> jsval list" where
  "tagged_events E evs = sort_by (\<lambda>a b. event_ms E a - event_ms E b) (filter (\<lambda>e. truthy (jget e ''mitre_tactic_id'')) evs)"

definition lane_ids :: "jsval list \<Rightarrow> string list" where
  "lane_ids tagged = sort_by (\<lambda>a b. tactic_rank a - tactic_rank b) (nub (map (\<lambda>e. js_string (jget e ''mitre_tactic_id'')) tagged))"

definition in_lane :: "string \<Rightarrow> jsval list \<Rightarrow> jsval list" where
  "in_lane k tagged = filter (\<lambda>e. jget e ''mitre_tactic_id'' = JStr k) tagged"

definition proAttackChain :: "renv \<Rightarrow> jsval list \<Rightarrow> string" where
  "proAttackChain E evs = (let tagged = tagged_events E evs in
     if tagged = [] then []
     else let laneIds = lane_ids tagged;
       times = map (event_ms E) tagged;
       t0 = fold min times (hd times); span = max 1 (fold max times (hd times) - t0);
       lanes = concat (map (\<lambda>k.
         let color = hex_of TACTIC_HEX ''#6b7280'' k; inLane = in_lane k tagged in
         chain_lane color k (tactic_name tagged k) inLane (chain_chips color (lane_techs inLane))
           (chain_dots E color t0 span inLane)) laneIds)
     in chain_page E tagged (int (length laneIds)) lanes
          (jget (hd tagged) ''event_time'') (jget (last tagged) ''event_time''))"

subsection \<open>The appendices\<close>

definition event_local :: "renv \<Rightarrow> jsval \<Rightarrow> string" where
  "event_local E v = (if truthy v then formatLocal (r_read E) (r_zone E) (js_string v) else [])"

definition timeline_card :: "renv \<Rightarrow> string \<Rightarrow> string \<Rightarrow> string \<Rightarrow> jsval \<Rightarrow> jsval \<Rightarrow> string" where
  \<open>timeline_card E side color timeLabel mitreLabel ev =
    (nl @ ''      <div class="atl-item '' @ side @ ''">'' @ nl
      @ ''        <div class="atl-dot" style="background:'' @ color @ '';box-shadow:0 0 6px ''
      @ color @ ''55"></div>'' @ nl
      @ ''        <div class="atl-card" style="border-left:3px solid '' @ color @ ''">'' @ nl
      @ ''          <div class="atl-header">'' @ nl @ ''            <span class="atl-time">''
      @ esc_str timeLabel @ ''</span>'' @ nl @ ''            ''
      @ (if (truthy (jget ev ''event_type'')) then (''<span class="atl-pill" style="background:'' @ color @ ''22;color:'' @ color
      @ '';border-color:'' @ color @ ''55">'' @ esc (jget ev ''event_type'') @ ''</span>'') else [])
      @ nl @ ''            ''
      @ (if (truthy (jget ev ''hostname'')) then (''<span class="atl-host">'' @ esc (jget ev ''hostname'') @ ''</span>'') else [])
      @ nl @ ''          </div>'' @ nl @ ''          <div class="atl-desc">''
      @ esc (jor (jget ev ''description'') (JStr [])) @ ''</div>'' @ nl @ ''          ''
      @ (if ((offsetText E ev) \<noteq> []) then (''<div class="atl-meta">'' @ offsetText E ev @ ''</div>'') else [])
      @ nl @ ''          ''
      @ (if (truthy mitreLabel) then (''<div class="atl-mitre" style="color:'' @ color @ '';border-color:'' @ color
      @ ''55;background:'' @ color @ ''1a">'' @ esc mitreLabel @ ''</div>'') else [])
      @ nl @ ''          ''
      @ (if (truthy (jget ev ''source'')) then (''<div class="atl-meta">source: '' @ esc (jget ev ''source'') @ ''</div>'') else [])
      @ nl @ ''        </div>'' @ nl @ ''      </div>'')\<close>

fun timeline_rows :: "renv \<Rightarrow> nat \<Rightarrow> string option \<Rightarrow> jsval list \<Rightarrow> string list" where
  "timeline_rows E i prevDate [] = []"
| \<open>timeline_rows E i prevDate (ev # evs) =
     (let loc = event_local E (jget ev ''event_time''); dateLabel = take 10 loc; timeLabel = drop 11 loc;
        date_row = (if Some dateLabel \<noteq> prevDate
          then [''<div class="atl-date"><span>'' @ esc_str dateLabel @ ''</span></div>''] else []);
        color = hex_of TACTIC_HEX ''#6b7280'' (js_string (jget ev ''mitre_tactic_id''));
        mitreLabel = jor (jor (JStr (join '' '' (map js_string (filter truthy
            [jget ev ''mitre_technique_id'', jget ev ''mitre_technique_name'']))))
          (jget ev ''mitre_tactic_name'')) (JStr [])
      in date_row @ timeline_card E (if even i then ''left'' else ''right'') color timeLabel mitreLabel ev
           # timeline_rows E (i + 1) (Some dateLabel) evs)\<close>

definition proTimelineAppendix :: "renv \<Rightarrow> jsval list \<Rightarrow> string" where
  \<open>proTimelineAppendix E evs =
     (if evs = [] then ''<div class="placeholder-box"><strong>[ NO TIMELINE EVENTS ]</strong></div>''
      else ''<div class="atl-wrap"><div class="atl-spine">'' @ join nl (timeline_rows E 0 None evs) @ ''</div></div>'')\<close>

text \<open>Case notes: the first revision of each note (the last one written, as \<open>fromEntries\<close> keeps it), the current
  revisions in the order the notes were first written.\<close>

definition note_root :: "jsval \<Rightarrow> string" where
  "note_root n = js_string (jor (jget n ''root_id'') (jget n ''id''))"

definition first_revisions :: "jsval list \<Rightarrow> (string \<times> jsval) list" where
  "first_revisions entries = rev (map (\<lambda>n. (note_root n, n))
     (filter (\<lambda>n. jor (jget n ''revision'') (JNum 1) = JNum 1) entries))"

definition first_written :: "(string \<times> jsval) list \<Rightarrow> jsval \<Rightarrow> string" where
  "first_written first n = (case map_of first (note_root n) of
     Some r \<Rightarrow> js_string (jor (jget r ''created_at'') (jget n ''created_at''))
   | None \<Rightarrow> js_string (jget n ''created_at''))"

definition current_notes :: "renv \<Rightarrow> (string \<times> jsval) list \<Rightarrow> jsval list \<Rightarrow> jsval list" where
  "current_notes E first entries = sort_by (\<lambda>a b. r_compare E (first_written first a) (first_written first b))
     (filter (\<lambda>n. \<not> truthy (jget n ''corrected_by_id'')) entries)"

definition note_links :: "jsval \<Rightarrow> string" where
  "note_links l = or_str (join '', '' (map (\<lambda>(k, w). js_string (jget l k) @ '' '' @ w
       @ (if jget l k \<noteq> JNum 1 then ''s'' else []))
     (filter (\<lambda>(k, w). truthy l \<and> truthy (jget l k))
       [(''evidence'', ''exhibit''), (''entities'', ''entity''), (''iocs'', ''IOC''), (''timeline_events'', ''event'')]))) em_dash"

definition note_signer :: "jsval \<Rightarrow> string" where
  \<open>note_signer n =
    (if ((jnum (jget n ''hash_v'')) \<ge> 2) then (esc (jor (jget n ''signed_name'') (JStr em_dash))
      @ (if ((truthy (jget n ''author_username'')) \<and> ((jget n ''author_username'') \<noteq> (jget n ''signed_name''))) then ('' <span class="tiny">('' @ esc (jget n ''author_username'') @ '')</span>'') else [])
      @ ''<div class="tiny mono">''
      @ esc_str (join '', '' (split_at (CHR '','') (js_string (jor (jget n ''signed_as'') (JStr [])))))
      @ ''</div>'') else (esc (jor (jget n ''author_username'') (JStr em_dash))
      @ ''<div class="tiny">unsigned</div>''))\<close>

definition note_row :: "renv \<Rightarrow> int \<Rightarrow> jsval \<Rightarrow> jsval \<Rightarrow> string" where
  \<open>note_row E i n r1 =
    (''<tr>'' @ nl @ ''      <td class="mono small">'' @ show_int (i + 1) @ ''</td>'' @ nl
      @ ''      <td class="mono small">'' @ esc_str (fmtTs E (jget r1 ''created_at''))
      @ (if ((jnum (jor (jget n ''revision'') (JNum 1))) > 1) then (''<div class="tiny">revision '' @ js_string (jget n ''revision'') @ '' saved ''
      @ esc_str (fmtTs E (jget n ''created_at'')) @ ''</div>'') else [])
      @ ''</td>'' @ nl @ ''      <td class="small">'' @ (note_signer n)
      @ (if (((jnum (jor (jget n ''revision'') (JNum 1))) > 1) \<and> ((jget r1 ''author_username'') \<noteq> (jget n ''author_username''))) then (''<div class="tiny">note by '' @ esc (jor (jget r1 ''author_username'') (JStr em_dash))
      @ ''</div>'') else [])
      @ ''</td>'' @ nl @ ''      <td><div style="white-space:pre-wrap">'' @ esc (jget n ''body'')
      @ ''</div></td>'' @ nl @ ''      <td class="small">''
      @ esc_str (note_links (jget n ''links'')) @ ''</td>'' @ nl
      @ ''      <td class="mono tiny" style="word-break:break-all">''
      @ esc (jor (jget n ''content_sha256'') (JStr [])) @ ''</td>'' @ nl @ ''    </tr>'')\<close>

definition notes_page :: "jsval list \<Rightarrow> string \<Rightarrow> string" where
  \<open>notes_page notes rows =
    (''<p class="small" style="color:var(--text-muted);margin-bottom:16px">''
      @ show_int (int (length notes)) @ '' note''
      @ (if ((int (length notes)) \<noteq> 1) then ''s'' else []) @ '' '' @ middle_dot
      @ '' in the order first written '' @ middle_dot
      @ '' each shows its current revision, signed by whoever saved it. Saved revisions are never changed; every earlier revision is kept in the Case notes history and the LE package.</p>''
      @ nl @ ''  <div class="table-wrap"><table class="table-fixed">'' @ nl
      @ ''    <colgroup><col style="width:5%"><col style="width:17%"><col style="width:14%"><col style="width:38%"><col style="width:10%"><col style="width:16%"></colgroup>''
      @ nl
      @ ''    <thead><tr><th>#</th><th>Time</th><th>Signed by</th><th>Note</th><th>Links</th><th>SHA-256</th></tr></thead>''
      @ nl @ ''    <tbody>'' @ rows @ ''</tbody>'' @ nl @ ''  </table></div>'')\<close>

definition proCaseNotesAppendix :: "renv \<Rightarrow> jsval list \<Rightarrow> string" where
  \<open>proCaseNotesAppendix E entries =
     (let first = first_revisions entries; notes = current_notes E first entries in
      if notes = [] then ''<div class="placeholder-box"><strong>[ NO CASE NOTES ]</strong></div>''
      else notes_page notes (concat (map (\<lambda>(i, n).
        note_row E (int i) n (case map_of first (note_root n) of Some r \<Rightarrow> r | None \<Rightarrow> n)) (enumerate 0 notes))))\<close>

end
