(* ===== verification/Report_Body.thy ===== *)
theory Report_Body
  imports Report_Parts
begin

text \<open>
  \<^verbatim>\<open>frontend/src/lib/reportTemplates.js\<close>, \<open>generateProReport\<close>: what it derives from the data and the
  options, then one definition per table and section body, in the file's order. \<open>E\<close> is the environment,
  \<open>D\<close> the report data, \<open>Q\<close> the options.
\<close>

record report_opts =
  o_templateId :: string
  o_mode :: string
  o_logo :: jsval
  o_footer :: jsval
  o_classification :: jsval
  o_audience :: jsval
  o_includeTimelineAppendix :: bool
  o_includeInternalEvents :: bool
  o_sections :: jsval
  o_figures :: jsval

subsection \<open>Derived values\<close>

definition included :: "report_opts \<Rightarrow> string \<Rightarrow> bool" where
  "included Q key \<longleftrightarrow> jget (o_sections Q) key \<noteq> JBool False"

definition is_exec :: "report_opts \<Rightarrow> bool" where
  "is_exec Q \<longleftrightarrow> o_mode Q = ''executive''"

definition list_of :: "jsval \<Rightarrow> string \<Rightarrow> jsval list" where
  "list_of D f = arr (jor (jget D f) (JArr []))"

definition inc_of :: "jsval \<Rightarrow> jsval" where
  "inc_of D = jor (jand D (jget D ''incident'')) (JObj [])"

definition ll_of :: "jsval \<Rightarrow> jsval" where
  "ll_of D = jget D ''lessons_learned''"

definition bia_of :: "jsval \<Rightarrow> jsval" where
  "bia_of D = jget D ''business_impact''"

definition ev_of :: "jsval \<Rightarrow> jsval" where
  "ev_of D = jor (jget D ''evidence_summary'') (JObj [])"

definition closure_of :: "jsval \<Rightarrow> jsval" where
  "closure_of D = jor (jget D ''closure'') (JObj [])"

definition theme_of :: "report_opts \<Rightarrow> theme" where
  "theme_of Q = (case map_of PRO_THEMES (o_templateId Q) of Some t \<Rightarrow> t | None \<Rightarrow> THEME_executive)"

definition sev_of :: "jsval \<Rightarrow> string" where
  "sev_of D = to_lower (js_string (jor (jget (inc_of D) ''severity'') (JStr ''medium'')))"

definition tlp_of :: "jsval \<Rightarrow> string" where
  "tlp_of D = to_lower (js_string (jor (jget (inc_of D) ''tlp'') (JStr ''amber'')))"

definition css_vars :: "jsval \<Rightarrow> report_opts \<Rightarrow> string" where
  "css_vars D Q = renderProCssVars (theme_of Q) (sevHex (sev_of D)) (tlpHex (tlp_of D))"

definition generated_at :: "renv \<Rightarrow> jsval \<Rightarrow> string" where
  "generated_at E D = fmtTs E (jor (jget D ''generated_at'') (JStr (r_now E)))"

definition figures_of :: "jsval \<Rightarrow> report_opts \<Rightarrow> jsval list" where
  "figures_of D Q = (if truthy (o_figures Q) then arr (o_figures Q)
     else map (\<lambda>(i, f). case f of JObj kvs \<Rightarrow>
         JObj ([(''n'', JNum (int i + 1)), (''src'', JNull), (''note'', JStr ''Image not embedded.'')] @ kvs) | _ \<Rightarrow> f)
       (enumerate 0 (list_of D ''report_files'')))"

definition malicious_iocs :: "jsval \<Rightarrow> int" where
  "malicious_iocs D = int (length (filter (\<lambda>i. jget i ''malicious'' = JBool True) (list_of D ''iocs'')))"

definition task_pct :: "jsval \<Rightarrow> int" where
  "task_pct D = (let tasks = list_of D ''playbook_tasks'' in
     pct (int (length (filter (\<lambda>t. jget t ''status'' = JStr ''done'') tasks))) (int (length tasks)))"

definition ioc_types :: "jsval \<Rightarrow> (string \<times> int) list" where
  "ioc_types D = fold (\<lambda>i. count_in (js_string (jget i ''type''))) (list_of D ''iocs'') []"

definition tlp_upper :: "jsval \<Rightarrow> string" where
  "tlp_upper D = to_upper (tlp_of D)"

definition tlp_message :: "jsval \<Rightarrow> string" where
  "tlp_message D = (case map_of TLP_MESSAGES (tlp_upper D) of Some m \<Rightarrow> m | None \<Rightarrow> ''Handle according to TLP guidelines'')"

definition class_display :: "jsval \<Rightarrow> report_opts \<Rightarrow> string" where
  "class_display D Q = (if truthy (o_classification Q) then js_string (o_classification Q) else ''TLP:'' @ tlp_upper D)"

definition not_closed :: string where
  \<open>not_closed = ''<span style="color:#d97706">Not closed</span>''\<close>

definition pending_mark :: string where
  \<open>pending_mark = ''<span style="color:#d97706">Pending</span>''\<close>

text \<open>The remediation terms are measured from the close time, or the report's time while the incident is open.\<close>

definition DAY :: int where "DAY = 86400000"

definition anchor_iso :: "renv \<Rightarrow> jsval \<Rightarrow> jsval" where
  "anchor_iso E D = jor (jor (jget (inc_of D) ''closed_at'') (jget D ''generated_at'')) (JStr (r_now E))"

definition bucket_of :: "renv \<Rightarrow> jsval \<Rightarrow> jsval \<Rightarrow> string" where
  "bucket_of E D it =
     (case (if truthy (jget it ''due_date'') then date_ms E (jget it ''due_date'') else None) of
        None \<Rightarrow> ''none''
      | Some due \<Rightarrow> if due = 0 then ''none''
          else (case date_ms E (anchor_iso E D) of
              None \<Rightarrow> ''long''
            | Some anchor \<Rightarrow> if due - anchor \<le> 30 * DAY then ''short''
                else if due - anchor \<le> 90 * DAY then ''medium'' else ''long''))"

definition action_items :: "jsval \<Rightarrow> jsval list" where
  "action_items D = arr (jget (ll_of D) ''action_items'')"

definition bucket :: "string \<Rightarrow> renv \<Rightarrow> jsval \<Rightarrow> jsval list" where
  "bucket b E D = filter (\<lambda>it. bucket_of E D it = b) (action_items D)"

text \<open>Costs are added per currency, never across; within one, per category.\<close>

definition cost_amount :: "jsval \<Rightarrow> int" where
  "cost_amount c = jnum (jget c ''amount'')"

fun add_in :: "string \<Rightarrow> int \<Rightarrow> (string \<times> int) list \<Rightarrow> (string \<times> int) list" where
  "add_in k x [] = [(k, x)]"
| "add_in k x ((a, n) # ms) = (if a = k then (a, n + x) # ms else (a, n) # add_in k x ms)"

definition cost_by_cur :: "jsval \<Rightarrow> (string \<times> int) list" where
  "cost_by_cur D = fold (\<lambda>c. add_in (js_string (jget c ''currency'')) (cost_amount c)) (list_of D ''costs'') []"

definition cost_by_cat :: "string \<Rightarrow> jsval \<Rightarrow> (string \<times> int) list" where
  "cost_by_cat cur D = fold (\<lambda>c. add_in (js_string (jget c ''category'')) (cost_amount c))
     (filter (\<lambda>c. js_string (jget c ''currency'') = cur) (list_of D ''costs'')) []"

fun str_cmp :: "string \<Rightarrow> string \<Rightarrow> int" where
  "str_cmp [] [] = 0"
| "str_cmp [] (_ # _) = -1"
| "str_cmp (_ # _) [] = 1"
| "str_cmp (a # s) (b # t) = (if code_of a < code_of b then -1 else if code_of b < code_of a then 1 else str_cmp s t)"

definition cost_curs :: "jsval \<Rightarrow> string list" where
  "cost_curs D = sort_by str_cmp (map fst (cost_by_cur D))"

definition cost_money :: "renv \<Rightarrow> string \<Rightarrow> int \<Rightarrow> string" where
  "cost_money E cur n = cur @ '' '' @ r_number E n"

definition cost_totals :: "renv \<Rightarrow> jsval \<Rightarrow> string" where
  "cost_totals E D = join ('' '' @ middle_dot @ '' '')
     (map (\<lambda>cur. cost_money E cur (case map_of (cost_by_cur D) cur of Some n \<Rightarrow> n | None \<Rightarrow> 0)) (cost_curs D))"

subsection \<open>Tables\<close>

definition ioc_type_badges :: "jsval \<Rightarrow> string" where
  \<open>ioc_type_badges D =
    (concat (map (\<lambda>(t, n). (''<span class="ioc-type-badge">'' @ esc_str (us_space t) @ '': <strong>'' @ show_int n
      @ ''</strong></span>'')) (ioc_types D)))\<close>

definition mitre_rows :: "renv \<Rightarrow> jsval \<Rightarrow> string" where
  \<open>mitre_rows E D =
    (concat (map (\<lambda>e. (''<tr>'' @ nl @ ''    <td class="mono small">''
      @ esc_str (fmtTs E (jget e ''event_time'')) @ ''</td>'' @ nl
      @ ''    <td class="mono small">'' @ esc (jget e ''mitre_technique_id'') @ '': ''
      @ esc (jor (jget e ''mitre_technique_name'') (JStr [])) @ ''</td>'' @ nl @ ''    <td>''
      @ esc (jor (jget e ''description'') (JStr [])) @ ''</td>'' @ nl @ ''  </tr>'')) (filter (\<lambda>e. (truthy (jget e ''mitre_technique_id''))) (list_of D ''timeline_events''))))\<close>

definition entity_rows :: "jsval \<Rightarrow> string" where
  \<open>entity_rows D =
    (concat (map (\<lambda>e. (''<tr>'' @ nl @ ''    <td><span class="tag">'' @ esc (jor (jget e ''type'') (JStr []))
      @ ''</span></td>'' @ nl @ ''    <td class="mono">''
      @ esc (jor (jor (jget e ''name'') (jget e ''value'')) (JStr [])) @ ''</td>'' @ nl
      @ ''    <td><span style="color:'' @ sevHex (js_string (jget e ''criticality''))
      @ '';text-transform:capitalize">'' @ esc (jor (jget e ''criticality'') (JStr []))
      @ ''</span></td>'' @ nl @ ''    <td>''
      @ (if (truthy (jget e ''compromised'')) then ''<span class="status-bad">COMPROMISED</span>'' else ''<span class="status-ok">Not compromised</span>'')
      @ ''</td>'' @ nl @ ''    <td class="small">''
      @ esc (jor (jget e ''description'') (JStr em_dash)) @ ''</td>'' @ nl @ ''  </tr>'')) (list_of D ''entities'')))\<close>

definition evidence_rows :: "jsval \<Rightarrow> string" where
  \<open>evidence_rows D =
    (concat (map (\<lambda>e. (''<tr>'' @ nl @ ''    <td class="mono">'' @ esc (jor (jget e ''identifier'') (JStr []))
      @ ''</td>'' @ nl @ ''    <td>'' @ esc (jor (jget e ''name'') (JStr [])) @ ''</td>'' @ nl
      @ ''    <td>''
      @ (if ((jget e ''kind'') = (JStr ''physical_item'')) then ''Physical'' else ''Digital'')
      @ ''</td>'' @ nl @ ''    <td>''
      @ (if ((jget e ''status'') = (JStr ''verify_failed'')) then ''<span class="status-bad">Verify failed</span>'' else (''<span style="text-transform:capitalize">''
      @ esc_str (us_space (js_string (jor (jget e ''status'') (JStr [])))) @ ''</span>''))
      @ ''</td>'' @ nl @ ''    <td class="mono tiny" style="word-break:break-all">''
      @ (if (truthy (jget e ''sha256'')) then (esc (jget e ''sha256'')) else (if ((jget e ''kind'') = (JStr ''physical_item'')) then (em_dash @ '' (physical item, no hash)'') else em_dash))
      @ ''</td>'' @ nl @ ''  </tr>'')) (list_of D ''evidence_items'')))\<close>

definition closure_items :: "jsval \<Rightarrow> string" where
  \<open>closure_items D =
    (if ((list_of D ''closure_checklist'') \<noteq> []) then (''<div class="progress-outer"><div class="progress-inner" style="width:''
      @ show_int (pct (int (length (filter (\<lambda>c. (truthy (jget c ''checked''))) (list_of D ''closure_checklist'')))) (int (length (list_of D ''closure_checklist''))))
      @ ''%"></div></div>'' @ nl @ ''       <div class="progress-label">''
      @ show_int (int (length (filter (\<lambda>c. (truthy (jget c ''checked''))) (list_of D ''closure_checklist''))))
      @ '' / '' @ show_int (int (length (list_of D ''closure_checklist'')))
      @ '' closure items complete</div>'' @ nl
      @ ''       <ul style="margin-top:12px;padding-left:0;list-style:none">''
      @ concat (map (\<lambda>c. (''<li class="task-row ''
      @ (if (truthy (jget c ''checked'')) then ''task-done'' else ''task-pending'')
      @ ''"><span class="task-icon">''
      @ (if (truthy (jget c ''checked'')) then check_mark else circle_sign)
      @ ''</span><span class="task-title">'' @ esc (jget c ''label'') @ ''</span>''
      @ (if (truthy (jget c ''assigned_to'')) then (''<span class="task-time">'' @ esc (jget c ''assigned_to'') @ ''</span>'') else [])
      @ ''</li>'')) (list_of D ''closure_checklist''))
      @ ''</ul>'') else [])\<close>

definition assignments_html :: "renv \<Rightarrow> jsval \<Rightarrow> string" where
  \<open>assignments_html E D =
    (if ((list_of D ''assignments'') \<noteq> []) then (''<div class="table-wrap"><table>'' @ nl
      @ ''        <thead><tr><th>Role</th><th>Analyst</th><th>Assigned by</th><th>Assigned at</th><th>Notes</th></tr></thead>''
      @ nl @ ''        <tbody>''
      @ concat (map (\<lambda>a. (''<tr>'' @ nl @ ''          <td style="font-weight:600">'' @ esc (jget a ''role_label'')
      @ ''</td>'' @ nl @ ''          <td class="mono">'' @ esc (jget a ''username'') @ ''</td>''
      @ nl @ ''          <td class="mono small">''
      @ esc (jor (jget a ''assigned_by_username'') (JStr em_dash)) @ ''</td>'' @ nl
      @ ''          <td class="mono small">'' @ esc_str (fmtTs E (jget a ''assigned_at''))
      @ ''</td>'' @ nl @ ''          <td class="small">''
      @ esc (jor (jget a ''notes'') (JStr em_dash)) @ ''</td>'' @ nl @ ''        </tr>'')) (list_of D ''assignments''))
      @ ''</tbody>'' @ nl @ ''      </table></div>'') else ''<div class="placeholder-box"><strong>[ NO ASSIGNMENTS RECORDED ]</strong></div>'')\<close>

definition stakeholders_html :: "jsval \<Rightarrow> string" where
  \<open>stakeholders_html D =
    (if ((list_of D ''stakeholders'') \<noteq> []) then (''<div class="table-wrap"><table>'' @ nl
      @ ''        <thead><tr><th>Name</th><th>Title</th><th>Organization</th><th>Type</th></tr></thead>''
      @ nl @ ''        <tbody>''
      @ concat (map (\<lambda>s. (''<tr>'' @ nl @ ''          <td style="font-weight:600">'' @ esc (jget s ''name'')
      @ ''</td>'' @ nl @ ''          <td>'' @ esc (jor (jget s ''title'') (JStr em_dash))
      @ ''</td>'' @ nl @ ''          <td>'' @ esc (jor (jget s ''organization'') (JStr em_dash))
      @ ''</td>'' @ nl @ ''          <td><span class="tag">''
      @ esc (jor (jor (label_in STAKEHOLDER_TYPE_LABEL (js_string (jget s ''type''))) (jget s ''type'')) (JStr em_dash))
      @ ''</span></td>'' @ nl @ ''        </tr>'')) (list_of D ''stakeholders''))
      @ ''</tbody>'' @ nl @ ''      </table></div>'') else ''<div class="placeholder-box"><strong>[ NO STAKEHOLDERS RECORDED ]</strong></div>'')\<close>

definition decisions_html :: "renv \<Rightarrow> jsval \<Rightarrow> string" where
  \<open>decisions_html E D =
    (if ((list_of D ''decisions'') \<noteq> []) then (''<div class="table-wrap"><table>'' @ nl
      @ ''        <thead><tr><th>Decision</th><th>Outcome</th><th>Rationale</th><th>Decided By</th><th>Decided At</th></tr></thead>''
      @ nl @ ''        <tbody>''
      @ concat (map (\<lambda>d. (''<tr>'' @ nl @ ''          <td>'' @ esc (jor (jget d ''summary'') (JStr [])) @ ''</td>''
      @ nl @ ''          <td style="text-transform:capitalize">''
      @ esc (jor (jget d ''outcome'') (JStr [])) @ ''</td>'' @ nl
      @ ''          <td class="small">'' @ esc (jor (jget d ''rationale'') (JStr em_dash))
      @ ''</td>'' @ nl @ ''          <td class="mono small">''
      @ esc (jor (jget d ''decided_by_username'') (JStr em_dash)) @ ''</td>'' @ nl
      @ ''          <td class="mono small">''
      @ (if (truthy (jget d ''decided_at'')) then (esc_str (fmtTs E (jget d ''decided_at''))) else em_dash)
      @ ''</td>'' @ nl @ ''        </tr>'')) (list_of D ''decisions''))
      @ ''</tbody>'' @ nl @ ''      </table></div>'') else ''<div class="placeholder-box"><strong>[ NO DECISIONS RECORDED ]</strong></div>'')\<close>

definition deadlines_html :: "renv \<Rightarrow> jsval \<Rightarrow> string" where
  \<open>deadlines_html E D =
    (if ((list_of D ''regulatory_deadlines'') \<noteq> []) then (''<div class="table-wrap"><table>'' @ nl
      @ ''        <thead><tr><th>Regulation</th><th>Obligation</th><th>Recipient</th><th>Deadline</th><th>Status</th><th>Completed</th><th>Compliance</th></tr></thead>''
      @ nl @ ''        <tbody>''
      @ concat (map (\<lambda>d. (''<tr>'' @ nl @ ''          <td style="font-weight:600;white-space:nowrap">''
      @ esc_str (us_space (js_string (jor (jget d ''regulation'') (JStr []))))
      @ (if (truthy (jget d ''article'')) then (''<div class="tiny" style="color:var(--text-dim);font-weight:400">''
      @ esc (jget d ''article'') @ ''</div>'') else [])
      @ (if (truthy (jget d ''is_mandatory'')) then [] else ''<div class="tiny" style="color:var(--text-dim);font-weight:400">optional</div>'')
      @ ''</td>'' @ nl @ ''          <td class="small">''
      @ esc (jor (jget d ''obligation'') (JStr [])) @ ''</td>'' @ nl
      @ ''          <td class="small">'' @ esc (jor (jget d ''recipient'') (JStr em_dash))
      @ ''</td>'' @ nl @ ''          <td class="mono small">''
      @ esc_str (fmtTs E (jget d ''deadline_at'')) @ ''</td>'' @ nl
      @ ''          <td style="text-transform:capitalize">''
      @ esc_str (us_space (js_string (jor (jget d ''status'') (JStr [])))) @ ''</td>'' @ nl
      @ ''          <td class="mono small">''
      @ (if (truthy (jget d ''completed_at'')) then (esc_str (fmtTs E (jget d ''completed_at''))) else em_dash)
      @ ''</td>'' @ nl @ ''          <td>'' @ proComplianceHtml d @ ''</td>'' @ nl
      @ ''        </tr>'')) (list_of D ''regulatory_deadlines''))
      @ ''</tbody>'' @ nl @ ''      </table></div>'') else ''<div class="placeholder-box"><strong>[ NO REGULATORY DEADLINES INITIALIZED ]</strong></div>'')\<close>

definition legal_obligations :: "jsval \<Rightarrow> string" where
  "legal_obligations D = join ('' '' @ middle_dot @ '' '') (nub (map (\<lambda>d. join '' '' (map js_string (filter truthy
     [JStr (us_space (js_string (jor (jget d ''regulation'') (JStr [])))), jget d ''article'']))) (list_of D ''regulatory_deadlines'')))"

definition legal_card :: "jsval \<Rightarrow> string" where
  \<open>legal_card D =
    (if (\<not> ((list_of D ''regulatory_deadlines'') \<noteq> [])) then em_dash else (if ((truthy (bia_of D)) \<and> (truthy (jget (bia_of D) ''legal''))) then (esc (jget (bia_of D) ''legal'')
      @ ''<div class="small" style="margin-top:6px;color:var(--text-muted);font-weight:400">''
      @ esc_str (legal_obligations D) @ ''</div>'') else (esc_str (legal_obligations D))))\<close>

definition CONF_HEX :: "(string \<times> string) list" where
  \<open>CONF_HEX = [(''confirmed'', ''#dc2626''), (''probable'', ''#d97706''), (''possible'', ''#2563eb'')]\<close>

definition attribution_html :: "renv \<Rightarrow> jsval \<Rightarrow> string" where
  \<open>attribution_html E D =
    (if ((list_of D ''attributions'') \<noteq> []) then (''<div class="table-wrap"><table>'' @ nl
      @ ''        <thead><tr><th>Threat Actor</th><th>Confidence</th><th>Score</th><th>Motivation</th><th>Supporting Evidence</th><th>Analyst Notes</th><th>Attributed</th></tr></thead>''
      @ nl @ ''        <tbody>''
      @ concat (map (\<lambda>a. (''<tr>'' @ nl @ ''          <td style="font-weight:600">''
      @ esc (jor (jget a ''actor_name'') (JStr em_dash))
      @ (if ((truthy (jget a ''actor_mitre_id'')) \<or> (truthy (jget a ''actor_country''))) then (''<div class="tiny mono" style="color:var(--text-dim);font-weight:400">''
      @ esc_str (join ('' '' @ middle_dot @ '' '') (map js_string (filter truthy [(jget a ''actor_mitre_id''), (jget a ''actor_country'')])))
      @ ''</div>'') else [])
      @ ''</td>'' @ nl @ ''          <td><span style="color:''
      @ js_string (jor (label_in CONF_HEX (js_string (jget a ''confidence''))) (JStr ''var(--text)''))
      @ '';font-weight:600;text-transform:capitalize">''
      @ esc (jor (jget a ''confidence'') (JStr [])) @ ''</span></td>'' @ nl
      @ ''          <td class="mono">''
      @ (if (\<not> nullish (jget a ''score'')) then (esc (jget a ''score'')) else em_dash)
      @ ''</td>'' @ nl @ ''          <td style="text-transform:capitalize">''
      @ esc (jor (jget a ''actor_motivation'') (JStr em_dash)) @ ''</td>'' @ nl
      @ ''          <td class="small">'' @ js_string (jget a ''supporting_ioc_count'') @ '' IOC''
      @ (if ((jget a ''supporting_ioc_count'') \<noteq> (JNum 1)) then ''s'' else []) @ '' ''
      @ middle_dot @ '' '' @ js_string (jget a ''supporting_timeline_count'') @ '' event''
      @ (if ((jget a ''supporting_timeline_count'') \<noteq> (JNum 1)) then ''s'' else [])
      @ ''</td>'' @ nl @ ''          <td class="small">''
      @ esc (jor (jget a ''analyst_notes'') (JStr em_dash)) @ ''</td>'' @ nl
      @ ''          <td class="mono small">''
      @ esc (jor (jget a ''created_by_username'') (JStr em_dash)) @ ''<div>''
      @ (if (truthy (jget a ''created_at'')) then (esc_str (fmtTs E (jget a ''created_at''))) else [])
      @ ''</div></td>'' @ nl @ ''        </tr>'')) (list_of D ''attributions''))
      @ ''</tbody>'' @ nl @ ''      </table></div>'') else ''<div class="placeholder-box"><strong>[ NO THREAT ACTOR ATTRIBUTION RECORDED ]</strong></div>'')\<close>

definition affected_html :: "renv \<Rightarrow> jsval \<Rightarrow> string" where
  \<open>affected_html E D =
    (if ((list_of D ''affected_systems'') \<noteq> []) then (''<div class="table-wrap"><table>'' @ nl
      @ ''        <thead><tr><th>System</th><th>Type</th><th>Notes</th><th>Added By</th><th>Added At</th></tr></thead>''
      @ nl @ ''        <tbody>''
      @ concat (map (\<lambda>s. (''<tr>'' @ nl @ ''          <td class="mono" style="font-weight:600">''
      @ esc (jget s ''name'') @ ''</td>'' @ nl @ ''          <td>''
      @ esc (jor (jor (jor (label_in SYSTEM_TYPE_LABEL (js_string (jget s ''system_type''))) (jget s ''system_type'')) (label_of ''entity_type'' (jget s ''entity_type''))) (JStr em_dash))
      @ ''</td>'' @ nl @ ''          <td class="small">''
      @ esc (jor (jget s ''notes'') (JStr em_dash)) @ ''</td>'' @ nl
      @ ''          <td class="mono small">''
      @ esc (jor (jget s ''created_by_username'') (JStr em_dash)) @ ''</td>'' @ nl
      @ ''          <td class="mono small">''
      @ (if (truthy (jget s ''created_at'')) then (esc_str (fmtTs E (jget s ''created_at''))) else em_dash)
      @ ''</td>'' @ nl @ ''        </tr>'')) (list_of D ''affected_systems''))
      @ ''</tbody>'' @ nl @ ''      </table></div>'') else ''<div class="placeholder-box"><strong>[ NO AFFECTED SYSTEMS RECORDED ]</strong></div>'')\<close>

definition STATUS_ICON :: "(string \<times> string) list" where
  \<open>STATUS_ICON = [(''done'', check_mark), (''in_progress'', half_circle), (''open'', circle_sign), (''skipped'', em_dash)]\<close>

definition task_rows :: "jsval list \<Rightarrow> string" where
  \<open>task_rows ts =
    (concat (map (\<lambda>t. (((((''<li class="task-row ''
      @ (if ((jget t ''status'') = (JStr ''done'')) then ''task-done'' else ''task-pending'')
      @ ''">'') @ (''<span class="task-icon">''
      @ js_string (jor (label_in STATUS_ICON (js_string (jget t ''status''))) (JStr circle_sign))
      @ ''</span>'')) @ (''<span class="task-title">'' @ esc (jget t ''title'') @ ''</span>'')) @ (if (truthy (jget t ''assignee_username'')) then (''<span class="task-time">'' @ esc (jget t ''assignee_username'') @ ''</span>'') else [])) @ ''</li>'')) ts))\<close>

definition phase_block :: "string \<Rightarrow> int \<Rightarrow> jsval list \<Rightarrow> string" where
  \<open>phase_block phase n_done ts =
    (((''<h3>'' @ esc_str (phaseLabel (JStr phase)) @ '' '' @ em_dash @ '' '' @ show_int n_done
      @ ''/'' @ show_int (int (length ts)) @ '' complete</h3>'') @ (''<div class="progress-outer"><div class="progress-inner" style="width:''
      @ show_int (pct n_done (int (length ts))) @ ''%"></div></div>'')) @ (''<ul style="margin-top:8px;padding-left:0;list-style:none">'' @ (task_rows ts)
      @ ''</ul>''))\<close>

definition task_phases :: "jsval \<Rightarrow> string list" where
  "task_phases D = nub (map (\<lambda>t. js_string (jget t ''phase'')) (list_of D ''playbook_tasks''))"

definition playbook_sections :: "jsval \<Rightarrow> string" where
  "playbook_sections D = concat (map (\<lambda>phase.
     let ts = filter (\<lambda>t. js_string (jget t ''phase'') = phase) (list_of D ''playbook_tasks'') in
     phase_block phase (int (length (filter (\<lambda>t. jget t ''status'' = JStr ''done'') ts))) ts) (task_phases D))"

definition cost_card :: "renv \<Rightarrow> string \<Rightarrow> string \<Rightarrow> int \<Rightarrow> string" where
  \<open>cost_card E cur cat n =
    (''<div class="info-card"><div class="label">'' @ esc_str (us_space cat)
      @ ''</div><div class="value mono">'' @ esc_str (cost_money E cur n) @ ''</div></div>'')\<close>

definition cost_cards :: "renv \<Rightarrow> jsval \<Rightarrow> string" where
  "cost_cards E D = concat (concat (map (\<lambda>cur. map (\<lambda>(cat, n). cost_card E cur cat n)
     (sort_by (\<lambda>a b. snd b - snd a) (cost_by_cat cur D))) (cost_curs D)))"

definition logo_html :: "report_opts \<Rightarrow> string" where
  \<open>logo_html Q =
    (if (truthy (o_logo Q)) then (''<img class="logo-image" src="'' @ esc (o_logo Q) @ ''" alt="Company logo">'') else ''<div class="logo-placeholder">[ COMPANY LOGO ]</div>'')\<close>

definition audience_note :: "report_opts \<Rightarrow> string" where
  \<open>audience_note Q =
    (if (truthy (o_audience Q)) then (''<div style="margin-bottom:16px;padding:10px 16px;background:var(--bg-card);border:1px solid var(--border);border-radius:6px;font-size:12px;color:var(--text-muted);font-family:var(--mono)">Prepared for: ''
      @ esc (o_audience Q) @ ''</div>'') else [])\<close>

definition comms_log_html :: "renv \<Rightarrow> jsval \<Rightarrow> string" where
  \<open>comms_log_html E D =
    (if ((list_of D ''oob_log'') \<noteq> []) then (''<p class="small" style="color:var(--text-muted);margin-bottom:12px">Contacts logged out of band (Comms &amp; stakeholders ''
      @ right_arrow
      @ '' Out-of-band). Contact details and the verification passphrase are not printed.</p>''
      @ nl @ ''      <div class="table-wrap"><table>'' @ nl
      @ ''        <thead><tr><th>Time</th><th>Direction</th><th>Channel</th><th>Stakeholder</th><th>Summary</th><th>Identity verified</th><th>Logged by</th></tr></thead>''
      @ nl @ ''        <tbody>''
      @ concat (map (\<lambda>o1. (''<tr>'' @ nl @ ''          <td class="mono small">''
      @ esc_str (fmtTs E (jget o1 ''created_at'')) @ ''</td>'' @ nl
      @ ''          <td style="text-transform:capitalize">''
      @ esc (jor (jget o1 ''direction'') (JStr [])) @ ''</td>'' @ nl
      @ ''          <td style="text-transform:capitalize">''
      @ esc_str (us_space (js_string (jor (jget o1 ''channel'') (JStr [])))) @ ''</td>'' @ nl
      @ ''          <td style="font-weight:600">''
      @ esc (jor (jget o1 ''stakeholder_name'') (JStr [])) @ ''</td>'' @ nl
      @ ''          <td class="small">'' @ esc (jor (jget o1 ''summary'') (JStr [])) @ ''</td>''
      @ nl @ ''          <td>''
      @ (if (truthy (jget o1 ''verified'')) then (''<span class="status-ok">'' @ check_mark @ '' Yes</span>''
      @ (if (truthy (jget o1 ''verification_method'')) then (''<div class="tiny" style="color:var(--text-dim)">''
      @ esc (jget o1 ''verification_method'') @ ''</div>'') else [])) else ''<span class="status-unk">No</span>'')
      @ ''</td>'' @ nl @ ''          <td class="mono small">''
      @ esc (jor (jget o1 ''created_by_username'') (JStr em_dash)) @ ''</td>'' @ nl
      @ ''        </tr>'')) (list_of D ''oob_log''))
      @ ''</tbody>'' @ nl @ ''      </table></div>'') else ''<div class="placeholder-box"><strong>[ NO OUT-OF-BAND COMMUNICATIONS LOGGED ]</strong></div>'')\<close>

definition RASTER_BODY :: rx where
  "RASTER_BODY = seqs [lit ''data:image/'', alts [lit ''png'', lit ''jpeg'', lit ''gif'', lit ''webp''], lit '';base64,'',
     plus1 (Cls (\<lambda>c. is_alpha c \<or> is_digit c \<or> c = CHR ''+'' \<or> c = CHR ''/'')), star (lit ''='')]"

definition RASTER_DATA_URI :: rx where
  "RASTER_DATA_URI = Seq Bos (Seq RASTER_BODY Eos)"

definition figure_src :: "jsval \<Rightarrow> jsval" where
  "figure_src f = (if truthy (jget f ''src'') \<and> rx_test RASTER_DATA_URI (js_string (jget f ''src'')) then jget f ''src'' else JNull)"

definition figure_html :: "jsval \<Rightarrow> jsval \<Rightarrow> jsval \<Rightarrow> string" where
  \<open>figure_html src title f =
    (''<figure class="fig">'' @ nl @ ''      ''
      @ (if (truthy src) then (''<img src="'' @ js_string src @ ''" alt="Figure '' @ js_string (jget f ''n'') @ '': ''
      @ esc title @ ''">'') else (''<div class="placeholder-box"><strong>[ FIGURE '' @ js_string (jget f ''n'')
      @ '' NOT EMBEDDED ]</strong>'' @ esc (jor (jget f ''note'') (JStr [])) @ ''</div>''))
      @ nl @ ''      <figcaption><strong>Figure '' @ js_string (jget f ''n'') @ ''.</strong> ''
      @ esc title @ nl @ ''        <div class="fig-meta">'' @ esc (jget f ''name'') @ '' ''
      @ middle_dot @ '' '' @ esc (jor (jget f ''mime'') (JStr ''unknown type'')) @ '' ''
      @ middle_dot @ '' '' @ esc_str (fmtSize (jget f ''size'')) @ '' '' @ middle_dot
      @ '' SHA-256 ''
      @ (if ((jget f ''integrity'') = (JStr ''failed'')) then ''<strong class="fig-integrity-failed">integrity check failed</strong>'' else (if (truthy (jget f ''sha256'')) then (''<span class="fig-sha">'' @ esc (jget f ''sha256'') @ ''</span>'') else ''not available''))
      @ ''</div>'' @ nl @ ''        ''
      @ (if ((truthy src) \<and> (truthy (jget f ''note''))) then (''<div class="fig-meta">'' @ esc (jget f ''note'') @ ''</div>'') else [])
      @ nl @ ''      </figcaption>'' @ nl @ ''    </figure>'')\<close>

definition figures_html :: "jsval \<Rightarrow> report_opts \<Rightarrow> string" where
  \<open>figures_html D Q =
    (if ((figures_of D Q) \<noteq> []) then (''<p class="small" style="color:var(--text-muted);margin-bottom:16px">Screenshots picked in Supporting documents. Each SHA-256 is of the original file as stored in FENRIR.</p>'' @ (concat (map (\<lambda>f. figure_html (figure_src f) (jor (jget f ''caption'') (jget f ''name'')) f) (figures_of D Q)))) else [])\<close>

definition sign_off_html :: "renv \<Rightarrow> jsval \<Rightarrow> string" where
  \<open>sign_off_html E D =
    (nl @ ''  <div class="two-col" style="margin-bottom:24px">'' @ nl
      @ ''    <div class="info-card"><div class="label">Closed by</div><div class="value">''
      @ (if (truthy (jget (closure_of D) ''closed'')) then (esc (jor (jget (closure_of D) ''closed_by'') (JStr ''Not recorded''))) else not_closed)
      @ ''</div></div>'' @ nl
      @ ''    <div class="info-card"><div class="label">Closed at</div><div class="value mono">''
      @ (if (truthy (jget (closure_of D) ''closed_at'')) then (esc_str (fmtTs E (jget (closure_of D) ''closed_at''))) else not_closed)
      @ ''</div></div>'' @ nl @ ''  </div>'' @ nl @ ''  <h3>Close sign-off statement</h3>'' @ nl
      @ ''  ''
      @ (if (truthy (jget (closure_of D) ''reason'')) then (''<div class="prose" style="white-space:pre-wrap">''
      @ esc (jget (closure_of D) ''reason'') @ ''</div>'') else (''<div class="placeholder-box"><strong>[ ''
      @ (if (truthy (jget (closure_of D) ''closed'')) then ''NO SIGN-OFF STATEMENT RECORDED'' else (''NOT CLOSED '' @ em_dash @ '' NO SIGN-OFF STATEMENT YET''))
      @ '' ]</strong></div>''))
      @ nl @ ''  <h3>Signatures</h3>'' @ nl
      @ ''  <div class="table-wrap"><table class="table-fixed">'' @ nl
      @ ''    <colgroup><col style="width:26%"><col style="width:26%"><col style="width:30%"><col style="width:18%"></colgroup>''
      @ nl
      @ ''    <thead><tr><th>Role</th><th>Name</th><th>Signature</th><th>Date</th></tr></thead>''
      @ nl @ ''    <tbody>''
      @ concat (map (\<lambda>r. (concat (map (\<lambda>a. (''<tr class="sig-row">'' @ nl @ ''      <td style="font-weight:600">''
      @ esc (jget r ''role_label'') @ ''</td>'' @ nl @ ''      <td>''
      @ (if (truthy a) then (esc (jget a ''name'')
      @ (if ((jget a ''name'') \<noteq> (jget a ''username'')) then (''<div class="tiny mono" style="color:var(--text-dim)">'' @ esc (jget a ''username'')
      @ ''</div>'') else [])) else ''<span class="status-unk">Not assigned</span>'')
      @ ''</td>'' @ nl @ ''      <td><span class="sig-line"></span></td>'' @ nl
      @ ''      <td><span class="sig-line"></span></td>'' @ nl @ ''    </tr>'')) (if ((truthy (jget r ''assignees'')) \<and> ((jlen (jget r ''assignees'')) \<noteq> 0)) then (arr (jget r ''assignees'')) else [JNull])))) (list_of D ''sign_offs''))
      @ ''</tbody>'' @ nl @ ''  </table></div>'' @ nl @ ''  <h3>Recorded gate sign-offs</h3>''
      @ nl @ ''  ''
      @ (if ((list_of D ''gate_sign_offs'') \<noteq> []) then (''<div class="table-wrap"><table class="table-fixed">'' @ nl
      @ ''    <colgroup><col style="width:18%"><col style="width:20%"><col style="width:16%"><col style="width:46%"></colgroup>''
      @ nl @ ''    <thead><tr><th>Gate</th><th>Role '' @ middle_dot
      @ '' signer</th><th>Signed at</th><th>Statement '' @ middle_dot
      @ '' gate-state SHA-256</th></tr></thead>'' @ nl @ ''    <tbody>''
      @ concat (map (\<lambda>g. (''<tr>'' @ nl @ ''      <td class="small">'' @ esc (jget g ''gate_label'') @ ''</td>''
      @ nl @ ''      <td class="small"><strong>'' @ esc (jget g ''role_label'')
      @ ''</strong><div>'' @ esc (jget g ''username'') @ '' <span class="tiny mono">(''
      @ esc (jget g ''signed_as'') @ '')</span></div>''
      @ (if (truthy (jget g ''current'')) then [] else ''<div class="tiny">before a re-open; no longer counts</div>'')
      @ ''</td>'' @ nl @ ''      <td class="mono small">''
      @ esc_str (fmtTs E (jget g ''signed_at'')) @ ''</td>'' @ nl
      @ ''      <td class="small"><div style="white-space:pre-wrap">''
      @ esc (jget g ''statement'') @ ''</div><div class="tiny mono">''
      @ esc (jget g ''state_sha256'') @ ''</div></td>'' @ nl @ ''    </tr>'')) (list_of D ''gate_sign_offs''))
      @ ''</tbody>'' @ nl @ ''  </table></div>'') else ''<div class="placeholder-box"><strong>[ NO GATE SIGN-OFF RECORDED ]</strong></div>''))\<close>

subsection \<open>Section bodies\<close>

definition body_exec_summary :: "renv \<Rightarrow> jsval \<Rightarrow> report_opts \<Rightarrow> string" where
  \<open>body_exec_summary E D Q =
    (nl @ ''  '' @ (audience_note Q) @ nl @ ''  ''
      @ or_str (narrativeToHtml (jand (ll_of D) (jget (ll_of D) ''incident_narrative''))) (''<div class="placeholder-box"><strong>[ PLACEHOLDER '' @ em_dash @ '' EXECUTIVE SUMMARY ]</strong>On [DATE], [ORGANIZATION] identified a security incident with [SEVERITY] severity. The response team achieved initial containment by [TIME]. This report details the full findings and recommended remediation actions.</div>''))\<close>

definition body_details :: "renv \<Rightarrow> jsval \<Rightarrow> report_opts \<Rightarrow> string" where
  \<open>body_details E D Q =
    (nl @ ''  <div class="two-col" style="margin-bottom:24px">'' @ nl
      @ ''    <div class="info-card"><div class="label">Incident Type</div><div class="value">''
      @ esc_str (if (truthy (jget (inc_of D) ''incident_type'')) then (us_space (js_string (jget (inc_of D) ''incident_type''))) else ''[Not specified]'')
      @ ''</div></div>'' @ nl
      @ ''    <div class="info-card"><div class="label">Severity</div><div class="value" style="color:''
      @ sevHex (sev_of D) @ ''">'' @ esc_str (to_upper (sev_of D))
      @ ''</div><div class="small nciss" style="color:var(--text-muted);margin-top:4px">''
      @ NCISS_TITLE @ '': <strong>'' @ esc_str (ncissLabel (jget (inc_of D) ''nciss_severity''))
      @ ''</strong></div></div>'' @ nl
      @ ''    <div class="info-card"><div class="label">TLP Classification</div><div class="value" style="color:''
      @ (tlpHex (tlp_of D)) @ ''">TLP:'' @ (tlp_upper D) @ ''</div></div>'' @ nl
      @ ''    <div class="info-card"><div class="label">Current Phase</div><div class="value">''
      @ esc_str (phaseLabel (jget (inc_of D) ''phase'')) @ ''</div></div>'' @ nl
      @ ''    <div class="info-card"><div class="label">Triage State</div><div class="value">''
      @ esc (jor (jget (inc_of D) ''triage_state'') (JStr em_dash)) @ ''</div></div>'' @ nl
      @ ''    <div class="info-card"><div class="label">Reporter</div><div class="value">''
      @ esc (jor (jget (inc_of D) ''reporter'') (JStr em_dash)) @ ''</div></div>'' @ nl
      @ ''    <div class="info-card"><div class="label">Occurred At</div><div class="value mono">''
      @ (if (truthy (jget (inc_of D) ''occurred_at'')) then (esc_str (fmtTs E (jget (inc_of D) ''occurred_at''))) else em_dash)
      @ ''</div></div>'' @ nl
      @ ''    <div class="info-card"><div class="label">Detected At</div><div class="value mono">''
      @ (if (truthy (jget (inc_of D) ''detected_at'')) then (esc_str (fmtTs E (jget (inc_of D) ''detected_at''))) else em_dash)
      @ ''</div></div>'' @ nl
      @ ''    <div class="info-card"><div class="label">Contained At</div><div class="value mono">''
      @ (if (truthy (jget (inc_of D) ''contained_at'')) then (esc_str (fmtTs E (jget (inc_of D) ''contained_at''))) else pending_mark)
      @ ''</div></div>'' @ nl
      @ ''    <div class="info-card"><div class="label">Eradicated At</div><div class="value mono">''
      @ (if (truthy (jget (inc_of D) ''eradicated_at'')) then (esc_str (fmtTs E (jget (inc_of D) ''eradicated_at''))) else pending_mark)
      @ ''</div></div>'' @ nl
      @ ''    <div class="info-card"><div class="label">Recovered At</div><div class="value mono">''
      @ (if (truthy (jget (inc_of D) ''recovered_at'')) then (esc_str (fmtTs E (jget (inc_of D) ''recovered_at''))) else pending_mark)
      @ ''</div></div>'' @ nl
      @ ''    <div class="info-card"><div class="label">Closed At</div><div class="value mono">''
      @ (if (truthy (jget (inc_of D) ''closed_at'')) then (esc_str (fmtTs E (jget (inc_of D) ''closed_at''))) else not_closed)
      @ ''</div></div>'' @ nl @ ''  </div>'' @ nl @ ''  <h3>Incident Description</h3>'' @ nl
      @ ''  ''
      @ (if ((markdownToHtml E (jget (inc_of D) ''description'')) \<noteq> []) then (''<div class="prose md">'' @ (markdownToHtml E (jget (inc_of D) ''description''))
      @ ''</div>'') else (''<div class="placeholder-box"><strong>[ PLACEHOLDER '' @ em_dash @ '' DESCRIPTION ]</strong></div>''))
      @ nl @ ''  ''
      @ (if ((truthy (jget (inc_of D) ''tags'')) \<and> ((jlen (jget (inc_of D) ''tags'')) \<noteq> 0)) then (''<h3>Tags</h3><div>''
      @ concat (map (\<lambda>t. (''<span class="tag" style="margin-right:6px">'' @ esc t @ ''</span>'')) (arr (jget (inc_of D) ''tags'')))
      @ ''</div>'') else []))\<close>

definition body_detection :: "renv \<Rightarrow> jsval \<Rightarrow> report_opts \<Rightarrow> string" where
  \<open>body_detection E D Q =
    (nl @ ''  <h3>Detection Method</h3>'' @ nl @ ''  ''
      @ (if (truthy (jget (inc_of D) ''detection_method'')) then (''<div class="prose" style="white-space:pre-wrap">''
      @ esc (jor (label_in DETECTION_LABEL (js_string (jget (inc_of D) ''detection_method''))) (jget (inc_of D) ''detection_method''))
      @ ''</div>'') else (''<div class="placeholder-box"><strong>[ PLACEHOLDER '' @ em_dash @ '' DETECTION METHOD ]</strong></div>''))
      @ nl @ ''  <h3>Timeline of Key Events</h3>'' @ nl @ ''  ''
      @ (if ((list_of D ''timeline_events'') \<noteq> []) then (''<div class="table-wrap"><table>'' @ nl
      @ ''        <thead><tr><th>Timestamp</th><th>Hostname</th><th>Event Type</th><th>Description</th><th>MITRE Technique</th></tr></thead>''
      @ nl @ ''        <tbody>''
      @ concat (map (\<lambda>e. (''<tr>'' @ nl @ ''          <td class="mono small">''
      @ esc_str (fmtTs E (jget e ''event_time''))
      @ (if ((offsetText E e) \<noteq> []) then (''<div class="small">'' @ offsetText E e @ ''</div>'') else [])
      @ ''</td>'' @ nl @ ''          <td class="mono">''
      @ esc (jor (jget e ''hostname'') (JStr em_dash)) @ ''</td>'' @ nl
      @ ''          <td><span class="tag">'' @ esc (jor (jget e ''event_type'') (JStr em_dash))
      @ ''</span></td>'' @ nl @ ''          <td>'' @ esc (jor (jget e ''description'') (JStr []))
      @ ''</td>'' @ nl @ ''          <td class="mono small">''
      @ (if (truthy (jget e ''mitre_technique_id'')) then (esc (jget e ''mitre_technique_id'') @ '': ''
      @ esc (jor (jget e ''mitre_technique_name'') (JStr []))) else em_dash)
      @ ''</td>'' @ nl @ ''        </tr>'')) (list_of D ''timeline_events''))
      @ ''</tbody>'' @ nl @ ''      </table></div>'') else ''<div class="placeholder-box"><strong>[ NO TIMELINE EVENTS ]</strong></div>'')
      @ nl @ ''  <h3>IOCs Summary</h3>'' @ nl @ ''  ''
      @ (if ((list_of D ''iocs'') \<noteq> []) then (''<div style="margin-bottom:14px">'' @ (ioc_type_badges D) @ ''</div>'' @ nl
      @ ''       <div class="table-wrap"><table>'' @ nl
      @ ''         <thead><tr><th>Type</th><th>Value</th><th>Status</th><th>Confidence</th><th>Enrichment</th><th>Tags</th></tr></thead>''
      @ nl @ ''         <tbody>'' @ proIocRows (list_of D ''iocs'') @ ''</tbody>'' @ nl
      @ ''       </table></div>'') else ''<div class="placeholder-box"><strong>[ NO IOCs RECORDED ]</strong></div>''))\<close>

definition body_cer :: "renv \<Rightarrow> jsval \<Rightarrow> report_opts \<Rightarrow> string" where
  \<open>body_cer E D Q =
    (nl @ ''  ''
      @ proCERSubsection E (list_of D ''respond_actions'') ''containment'' ''Containment Actions''
      @ nl @ ''  ''
      @ proCERSubsection E (list_of D ''respond_actions'') ''eradication'' ''Eradication Actions''
      @ nl @ ''  ''
      @ proCERSubsection E (list_of D ''respond_actions'') ''recovery'' ''Recovery Actions'')\<close>

definition body_recovery :: "renv \<Rightarrow> jsval \<Rightarrow> report_opts \<Rightarrow> string" where
  \<open>body_recovery E D Q =
    (proRecoverySection E (jget D ''recovery''))\<close>

definition body_impact :: "renv \<Rightarrow> jsval \<Rightarrow> report_opts \<Rightarrow> string" where
  \<open>body_impact E D Q =
    (nl @ ''  <div class="two-col" style="margin-bottom:24px">'' @ nl
      @ ''    <div class="info-card"><div class="label">Financial Impact</div><div class="value">''
      @ (if ((truthy (bia_of D)) \<and> (truthy (jget (bia_of D) ''financial''))) then (esc (jget (bia_of D) ''financial'')) else ''[ To be assessed ]'')
      @ ''</div></div>'' @ nl
      @ ''    <div class="info-card"><div class="label">Operational Downtime</div><div class="value">''
      @ (if ((truthy (bia_of D)) \<and> (truthy (jget (bia_of D) ''operational''))) then (esc (jget (bia_of D) ''operational'')) else ''[ To be assessed ]'')
      @ ''</div></div>'' @ nl
      @ ''    <div class="info-card"><div class="label">Data Exposure</div><div class="value">''
      @ (if ((truthy (bia_of D)) \<and> (truthy (jget (bia_of D) ''data_exposure''))) then (esc (jget (bia_of D) ''data_exposure'')) else ''[ To be assessed ]'')
      @ ''</div></div>'' @ nl
      @ ''    <div class="info-card"><div class="label">Reputational Impact</div><div class="value">''
      @ (if ((truthy (bia_of D)) \<and> (truthy (jget (bia_of D) ''reputational''))) then (esc (jget (bia_of D) ''reputational'')) else ''[ To be assessed ]'')
      @ ''</div></div>'' @ nl
      @ ''    <div class="info-card"><div class="label">Regulatory Risk</div><div class="value">''
      @ (if ((truthy (bia_of D)) \<and> (truthy (jget (bia_of D) ''regulatory''))) then (esc (jget (bia_of D) ''regulatory'')) else ''[ To be assessed ]'')
      @ ''</div></div>'' @ nl
      @ ''    <div class="info-card"><div class="label">Legal Obligations</div><div class="value">''
      @ legal_card D @ ''</div></div>'' @ nl @ ''  </div>'' @ nl @ ''  ''
      @ (if ((truthy (bia_of D)) \<and> (truthy (jget (bia_of D) ''notes''))) then (''<div class="prose" style="white-space:pre-wrap;margin-top:16px;padding:16px;background:var(--bg-card);border-radius:6px;border-left:3px solid #d97706">''
      @ esc (jget (bia_of D) ''notes'') @ ''</div>'') else []))\<close>

definition body_comms_log :: "renv \<Rightarrow> jsval \<Rightarrow> report_opts \<Rightarrow> string" where
  \<open>body_comms_log E D Q =
    ((proNotificationsSection E (jget D ''stakeholder_notifications'')) @ (comms_log_html E D))\<close>

definition body_root_cause :: "renv \<Rightarrow> jsval \<Rightarrow> report_opts \<Rightarrow> string" where
  \<open>body_root_cause E D Q =
    (nl @ ''  <h3>Initial Attack Vector / Root Cause Category</h3>'' @ nl @ ''  ''
      @ (if ((truthy (ll_of D)) \<and> (truthy (jget (ll_of D) ''root_cause_category''))) then (''<div class="prose" style="white-space:pre-wrap"><strong>''
      @ esc_str (to_upper (us_space (js_string (jget (ll_of D) ''root_cause_category''))))
      @ ''</strong>''
      @ (if (truthy (jget (ll_of D) ''root_cause_description'')) then (('' '' @ em_dash @ '' '') @ (esc (jget (ll_of D) ''root_cause_description''))) else [])
      @ ''</div>'') else (''<div class="placeholder-box"><strong>[ PLACEHOLDER '' @ em_dash @ '' INITIAL ACCESS ]</strong></div>''))
      @ nl @ ''  <h3>Contributing Factors</h3>'' @ nl @ ''  ''
      @ (if (((truthy (ll_of D)) \<and> (truthy (jget (ll_of D) ''contributing_factors''))) \<and> ((jlen (jget (ll_of D) ''contributing_factors'')) \<noteq> 0)) then (''<ul style="padding-left:20px">''
      @ concat (map (\<lambda>f. (''<li>'' @ esc f @ ''</li>'')) (arr (jget (ll_of D) ''contributing_factors'')))
      @ ''</ul>'') else ''<div class="placeholder-box"><strong>[ PLACEHOLDER ]</strong></div>'')
      @ nl @ ''  <h3>Attack Chain (MITRE ATT&amp;CK)</h3>'' @ nl @ ''  ''
      @ (if ((mitre_rows E D) \<noteq> []) then (''<div class="table-wrap"><table>'' @ nl
      @ ''         <thead><tr><th>Timestamp</th><th>Technique</th><th>Description</th></tr></thead>''
      @ nl @ ''         <tbody>'' @ (mitre_rows E D) @ ''</tbody>'' @ nl
      @ ''       </table></div>'') else ''<div class="placeholder-box"><strong>[ NO MITRE TECHNIQUES MAPPED ]</strong></div>''))\<close>

definition body_attack_chain :: "renv \<Rightarrow> jsval \<Rightarrow> report_opts \<Rightarrow> string" where
  \<open>body_attack_chain E D Q =
    (proAttackChain E (list_of D ''timeline_events''))\<close>

definition body_entities :: "renv \<Rightarrow> jsval \<Rightarrow> report_opts \<Rightarrow> string" where
  \<open>body_entities E D Q =
    (if ((list_of D ''entities'') \<noteq> []) then (''<div class="table-wrap"><table>'' @ nl
      @ ''         <thead><tr><th>Type</th><th>Name / Value</th><th>Criticality</th><th>Status</th><th>Notes</th></tr></thead>''
      @ nl @ ''         <tbody>'' @ (entity_rows D) @ ''</tbody>'' @ nl
      @ ''       </table></div>'') else ''<div class="placeholder-box"><strong>[ NO ENTITIES RECORDED ]</strong></div>'')\<close>

definition body_evidence :: "renv \<Rightarrow> jsval \<Rightarrow> report_opts \<Rightarrow> string" where
  \<open>body_evidence E D Q =
    (if (truthy (jget (ev_of D) ''total'')) then (''<div class="two-col" style="margin-bottom:24px">'' @ nl
      @ ''         <div class="info-card"><div class="label">Total Items</div><div class="value">''
      @ js_string (jget (ev_of D) ''total'') @ ''</div></div>'' @ nl
      @ ''         <div class="info-card"><div class="label">Active</div><div class="value">''
      @ js_string (jor (jget (ev_of D) ''active'') (JNum 0)) @ ''</div></div>'' @ nl
      @ ''         <div class="info-card"><div class="label">Digital Files</div><div class="value">''
      @ js_string (jor (jget (ev_of D) ''digital'') (JNum 0)) @ ''</div></div>'' @ nl
      @ ''         <div class="info-card"><div class="label">Physical Items</div><div class="value">''
      @ js_string (jor (jget (ev_of D) ''physical'') (JNum 0)) @ ''</div></div>'' @ nl
      @ ''       </div>'' @ nl @ ''       ''
      @ (if ((list_of D ''evidence_items'') \<noteq> []) then (''<h3>Exhibits</h3>'' @ nl @ ''       <div class="table-wrap"><table>'' @ nl
      @ ''         <thead><tr><th>Identifier</th><th>Name</th><th>Type</th><th>Status</th><th>SHA-256</th></tr></thead>''
      @ nl @ ''         <tbody>'' @ (evidence_rows D) @ ''</tbody>'' @ nl
      @ ''       </table></div>'') else [])) else ''<div class="placeholder-box"><strong>[ NO EVIDENCE ITEMS COLLECTED ]</strong></div>'')\<close>

definition body_playbook :: "renv \<Rightarrow> jsval \<Rightarrow> report_opts \<Rightarrow> string" where
  \<open>body_playbook E D Q =
    (or_str (playbook_sections D) ''<div class="placeholder-box"><strong>[ NO PLAYBOOK TASKS RECORDED ]</strong></div>'')\<close>

definition body_closure :: "renv \<Rightarrow> jsval \<Rightarrow> report_opts \<Rightarrow> string" where
  \<open>body_closure E D Q =
    (or_str (closure_items D) ''<div class="placeholder-box"><strong>[ NO CLOSURE CHECKLIST ITEMS ]</strong></div>'')\<close>

definition body_lessons :: "renv \<Rightarrow> jsval \<Rightarrow> report_opts \<Rightarrow> string" where
  \<open>body_lessons E D Q =
    (nl @ ''  <h3>What Worked Well</h3>'' @ nl @ ''  ''
      @ proNarrativeAndList (jand (ll_of D) (jget (ll_of D) ''report_what_worked_well'')) (if (((truthy (ll_of D)) \<and> (truthy (jget (ll_of D) ''what_went_well''))) \<and> ((jlen (jget (ll_of D) ''what_went_well'')) \<noteq> 0)) then (''<ul style="padding-left:20px">''
      @ concat (map (\<lambda>s. (''<li>'' @ esc s @ ''</li>'')) (arr (jget (ll_of D) ''what_went_well'')))
      @ ''</ul>'') else [])
      @ nl @ ''  <h3>What Could Be Improved</h3>'' @ nl @ ''  ''
      @ proNarrativeAndList (jand (ll_of D) (jget (ll_of D) ''report_what_could_improve'')) (if (((truthy (ll_of D)) \<and> (truthy (jget (ll_of D) ''friction_points''))) \<and> ((jlen (jget (ll_of D) ''friction_points'')) \<noteq> 0)) then (''<ul style="padding-left:20px">''
      @ concat (map (\<lambda>s. (''<li>'' @ esc s @ ''</li>'')) (arr (jget (ll_of D) ''friction_points'')))
      @ ''</ul>'') else [])
      @ nl @ ''  <h3>Security Recommendations / Control Improvements</h3>'' @ nl @ ''  ''
      @ proNarrativeAndList (jand (ll_of D) (jget (ll_of D) ''report_security_recommendations'')) (if (((truthy (ll_of D)) \<and> (truthy (jget (ll_of D) ''control_improvements''))) \<and> ((jlen (jget (ll_of D) ''control_improvements'')) \<noteq> 0)) then (''<div class="table-wrap"><table>'' @ nl
      @ ''             <thead><tr><th>Recommendation</th><th>Category</th><th>Priority</th></tr></thead>''
      @ nl @ ''             <tbody>''
      @ concat (map (\<lambda>ci. (''<tr><td>'' @ esc (jor (jget ci ''recommendation'') (JStr []))
      @ ''</td><td style="text-transform:capitalize">''
      @ esc (jor (jget ci ''category'') (JStr []))
      @ ''</td><td style="text-transform:capitalize">''
      @ esc (jor (jget ci ''priority'') (JStr [])) @ ''</td></tr>'')) (arr (jget (ll_of D) ''control_improvements'')))
      @ ''</tbody>'' @ nl @ ''           </table></div>'') else [])
      @ nl @ ''  ''
      @ (if (((\<not> (is_exec Q)) \<and> (truthy (ll_of D))) \<and> (truthy (jget (ll_of D) ''meeting_minutes''))) then (''<h3>Review Meeting Minutes</h3>'' @ narrativeToHtml (jget (ll_of D) ''meeting_minutes'')) else []))\<close>

definition body_remediation :: "renv \<Rightarrow> jsval \<Rightarrow> report_opts \<Rightarrow> string" where
  \<open>body_remediation E D Q =
    (nl
      @ ''  <p class="small" style="color:var(--text-muted);margin-bottom:8px">Terms are measured from ''
      @ (if (truthy (jget (inc_of D) ''closed_at'')) then ''the incident close time'' else ''the report generation time (incident still open)'')
      @ '': '' @ esc_str (fmtTs E (anchor_iso E D)) @ ''.</p>'' @ nl @ ''  ''
      @ proRemSection (jand (ll_of D) (jget (ll_of D) ''report_remediation_short'')) (bucket ''short'' E D) (''Short-Term (0'' @ en_dash @ ''30 days)'') ''#dc2626''
      @ nl @ ''  ''
      @ proRemSection (jand (ll_of D) (jget (ll_of D) ''report_remediation_medium'')) (bucket ''medium'' E D) (''Medium-Term (30'' @ en_dash @ ''90 days)'') ''#ea580c''
      @ nl @ ''  ''
      @ proRemSection (jand (ll_of D) (jget (ll_of D) ''report_remediation_long'')) (bucket ''long'' E D) ''Long-Term (90+ days)'' ''#2563eb''
      @ nl @ ''  ''
      @ (if ((bucket ''none'' E D) \<noteq> []) then (proRemSection JNull (bucket ''none'' E D) ''Unscheduled (no due date)'' ''#6b7280'') else []))\<close>

definition body_costs :: "renv \<Rightarrow> jsval \<Rightarrow> report_opts \<Rightarrow> string" where
  \<open>body_costs E D Q =
    (nl @ ''  ''
      @ (if ((truthy (bia_of D)) \<and> (truthy (jget (bia_of D) ''financial''))) then (''<h3>Financial Impact Narrative</h3><div class="prose" style="white-space:pre-wrap">''
      @ esc (jget (bia_of D) ''financial'') @ ''</div>'') else [])
      @ nl @ ''  ''
      @ (if ((list_of D ''costs'') \<noteq> []) then (''<h3>Cost Summary '' @ em_dash @ '' Total: <span class="mono">''
      @ esc_str (cost_totals E D) @ ''</span></h3>'' @ nl
      @ ''       <div class="two-col" style="margin-bottom:16px">'' @ nl @ ''         ''
      @ cost_cards E D @ nl @ ''       </div>'' @ nl @ ''       <h3>Itemised Costs</h3>'' @ nl
      @ ''       <div class="table-wrap"><table>'' @ nl
      @ ''         <thead><tr><th>Category</th><th>Description</th><th style="text-align:right">Amount</th><th>Phase</th></tr></thead>''
      @ nl @ ''         <tbody>''
      @ concat (map (\<lambda>c. (''<tr>'' @ nl @ ''           <td style="text-transform:capitalize">''
      @ esc_str (us_space (js_string (jor (jget c ''category'') (JStr [])))) @ ''</td>'' @ nl
      @ ''           <td>'' @ esc (jor (jget c ''description'') (JStr [])) @ ''</td>'' @ nl
      @ ''           <td class="mono" style="text-align:right">''
      @ esc_str (cost_money E (js_string (jget c ''currency'')) (jnum (jget c ''amount'')))
      @ ''</td>'' @ nl @ ''           <td>''
      @ esc_str (if (truthy (jget c ''ir_phase'')) then (phaseLabel (jget c ''ir_phase'')) else [])
      @ ''</td>'' @ nl @ ''         </tr>'')) (list_of D ''costs''))
      @ ''</tbody>'' @ nl @ ''       </table></div>'') else (if ((truthy (bia_of D)) \<and> (truthy (jget (bia_of D) ''financial''))) then [] else ''<div class="placeholder-box"><strong>[ NO COSTS RECORDED ]</strong></div>'')))\<close>

end
