(* ===== verification/Report_Doc.thy ===== *)
theory Report_Doc
  imports Report_Body
begin

text \<open>
  \<^verbatim>\<open>frontend/src/lib/reportTemplates.js\<close>: the report put together (the sections in the order of
  \<open>REPORT_SECTIONS\<close>, numbered, the appendices lettered, the page and its style sheet) and the entry point
  \<open>generateReport\<close>.
\<close>

subsection \<open>Sections and appendices\<close>

definition section_bodies :: "renv \<Rightarrow> jsval \<Rightarrow> report_opts \<Rightarrow> (string \<times> string) list" where
  "section_bodies E D Q =
     [(''exec_summary'', body_exec_summary E D Q), (''details'', body_details E D Q),
      (''assignments'', assignments_html E D), (''stakeholders'', stakeholders_html D),
      (''detection'', body_detection E D Q), (''cer'', body_cer E D Q), (''recovery'', body_recovery E D Q),
      (''decisions'', decisions_html E D), (''impact'', body_impact E D Q), (''legal'', deadlines_html E D),
      (''comms_log'', body_comms_log E D Q), (''root_cause'', body_root_cause E D Q),
      (''attack_chain'', body_attack_chain E D Q), (''attribution'', attribution_html E D),
      (''entities'', body_entities E D Q), (''evidence'', body_evidence E D Q),
      (''attachments'', figures_html D Q), (''playbook'', body_playbook E D Q),
      (''closure'', body_closure E D Q), (''lessons'', body_lessons E D Q),
      (''remediation'', body_remediation E D Q), (''costs'', body_costs E D Q),
      (''sign_off'', sign_off_html E D)]"

definition section_row :: "string \<Rightarrow> report_section" where
  "section_row key = (case SECTION_BY_KEY key of Some s \<Rightarrow> s
     | None \<Rightarrow> \<lparr>rs_key = key, rs_title = [], rs_fullOnly = False, rs_ifPresent = False, rs_csf = []\<rparr>)"

definition section_rank :: "report_section \<times> string \<Rightarrow> int" where
  "section_rank s = (case index_of (fst s) REPORT_SECTIONS of Some i \<Rightarrow> int i | None \<Rightarrow> -1)"

definition report_sections :: "renv \<Rightarrow> jsval \<Rightarrow> report_opts \<Rightarrow> (report_section \<times> string) list" where
  "report_sections E D Q =
     filter (\<lambda>(s, body). \<not> (is_exec Q \<and> rs_fullOnly s) \<and> included Q (rs_key s) \<and> body \<noteq> [])
       (sort_by (\<lambda>a b. section_rank a - section_rank b)
         (map (\<lambda>(key, body). (section_row key, body)) (section_bodies E D Q)))"

text \<open>Numbers and letters follow print order.\<close>

definition pad2_num :: "nat \<Rightarrow> string" where
  "pad2_num n = pad_start 2 (CHR ''0'') (show_nat n)"

definition letter :: "nat \<Rightarrow> string" where
  "letter i = [char_of (65 + i)]"

definition section_html :: "nat \<Rightarrow> report_section \<Rightarrow> string \<Rightarrow> string" where
  \<open>section_html i s body =
    (nl @ ''<div class="section'' @ (if odd i then '' section-alt'' else [])
      @ ''" data-section="'' @ esc_str (rs_key s) @ ''">'' @ nl
      @ ''  <div class="section-header"><span class="section-number">'' @ section_sign @ '' ''
      @ (pad2_num (i + 1)) @ ''</span><h2>'' @ esc_str (rs_title s) @ ''</h2></div>'' @ nl
      @ ''  '' @ (csfLine (rs_csf s)) @ nl @ ''  '' @ body @ nl @ ''</div>'')\<close>

definition sections_html :: "renv \<Rightarrow> jsval \<Rightarrow> report_opts \<Rightarrow> string" where
  "sections_html E D Q = join nl (map (\<lambda>(i, s, body). section_html i s body) (enumerate 0 (report_sections E D Q)))"

definition timeline_body :: "renv \<Rightarrow> jsval \<Rightarrow> string" where
  \<open>timeline_body E D =
    (nl @ ''  <p style="font-size:12px;color:var(--text-muted);margin-bottom:24px">''
      @ show_int (int (length (list_of D ''timeline_events''))) @ '' event''
      @ (if ((int (length (list_of D ''timeline_events''))) \<noteq> 1) then ''s'' else [])
      @ '' '' @ middle_dot @ '' chronological '' @ middle_dot @ '' all phases</p>'' @ nl @ ''  ''
      @ proTimelineAppendix E (list_of D ''timeline_events''))\<close>

definition report_appendices :: "renv \<Rightarrow> jsval \<Rightarrow> report_opts \<Rightarrow> (string \<times> string) list" where
  "report_appendices E D Q =
     (if included Q ''appendix_affected'' then [(''Affected Systems'', affected_html E D)] else [])
     @ (if o_includeTimelineAppendix Q then [(''Incident Timeline'', timeline_body E D)] else [])
     @ (if \<not> is_exec Q \<and> included Q ''appendix_case_notes''
        then [(''Case Notes'', proCaseNotesAppendix E (list_of D ''case_notes''))] else [])"

definition appendix_csf :: "string \<Rightarrow> string list" where
  "appendix_csf title = (case map_of APPENDIX_CSF title of Some ids \<Rightarrow> ids | None \<Rightarrow> [])"

definition appendix_html :: "nat \<Rightarrow> string \<Rightarrow> string \<Rightarrow> string" where
  \<open>appendix_html i title body =
    (nl @ ''<div class="section" style="page-break-before:always">'' @ nl
      @ ''  <div class="section-header">'' @ nl
      @ ''    <span class="section-number" style="letter-spacing:1px">'' @ (letter i)
      @ ''</span>'' @ nl @ ''    <h2>Appendix '' @ (letter i) @ '' '' @ em_dash @ '' ''
      @ esc_str title @ ''</h2>'' @ nl @ ''  </div>'' @ nl @ ''  ''
      @ (csfLine (appendix_csf title)) @ nl @ ''  '' @ body @ nl @ ''</div>'')\<close>

definition appendices_html :: "renv \<Rightarrow> jsval \<Rightarrow> report_opts \<Rightarrow> string" where
  "appendices_html E D Q = join nl (map (\<lambda>(i, title, body). appendix_html i title body) (enumerate 0 (report_appendices E D Q)))"

subsection \<open>The page\<close>

definition REPORT_SHA256_PLACEHOLDER :: string where
  "REPORT_SHA256_PLACEHOLDER = ''___FENRIR_REPORT_SHA256_PLACEHOLDER___''"

definition page_head :: "renv \<Rightarrow> jsval \<Rightarrow> report_opts \<Rightarrow> string" where
  \<open>page_head E D Q =
    (nl @ ''<div class="tlp-banner">TLP:'' @ (tlp_upper D) @ '' '' @ em_dash @ '' ''
      @ esc_str (tlp_message D) @ ''</div>'' @ nl @ nl @ ''<div class="cover">'' @ nl
      @ ''  <div class="cover-inner">'' @ nl @ ''    '' @ (logo_html Q) @ nl
      @ ''    <div class="cover-eyebrow">Incident Response Report // DFIR-FENRIR v2</div>'' @ nl
      @ ''    <div class="cover-title">'' @ esc (jor (jget (inc_of D) ''title'') (JStr []))
      @ ''</div>'' @ nl
      @ ''    <div class="cover-subtitle">Post-Incident Analysis &amp; Forensic Report</div>''
      @ nl @ ''    <div class="cover-badges">'' @ nl @ ''      <span class="badge badge-sev">''
      @ esc_str (to_upper (sev_of D)) @ '' SEVERITY</span>'' @ nl
      @ ''      <span class="badge badge-tlp">TLP:'' @ (tlp_upper D) @ ''</span>'' @ nl
      @ ''      <span class="badge badge-phase">''
      @ esc_str (phaseLabel (jget (inc_of D) ''phase'')) @ ''</span>'' @ nl @ ''      ''
      @ (if ((jget (inc_of D) ''status'') = (JStr ''closed'')) then ''<span class="badge" style="background:#1a1a2e;color:#dc2626;border:1px solid #dc2626">CLOSED</span>'' else ''<span class="badge" style="background:#1a1a0a;color:#ca8a04;border:1px solid #ca8a04">ACTIVE</span>'')
      @ nl @ ''    </div>'' @ nl @ ''    <div class="cover-meta">'' @ nl
      @ ''      <div class="cover-meta-item"><strong>Incident ID</strong>''
      @ esc (jor (jget (inc_of D) ''ref'') (JStr (to_upper (take 8 (js_string (jor (jget (inc_of D) ''id'') (JStr [])))) @ ''...'')))
      @ ''</div>'' @ nl @ ''      <div class="cover-meta-item"><strong>Opened</strong>''
      @ esc_str (fmtTs E (jget (inc_of D) ''created_at'')) @ ''</div>'' @ nl
      @ ''      <div class="cover-meta-item"><strong>Closed</strong>''
      @ (if (truthy (jget (inc_of D) ''closed_at'')) then (esc_str (fmtTs E (jget (inc_of D) ''closed_at''))) else ''Not closed'')
      @ ''</div>'' @ nl @ ''      <div class="cover-meta-item"><strong>Generated</strong>''
      @ esc_str (generated_at E D) @ ''</div>'' @ nl @ ''    </div>'' @ nl @ ''  </div>'' @ nl
      @ ''</div>'' @ nl @ nl @ ''<div class="doc-control">'' @ nl
      @ ''  <div class="doc-control-item"><div class="label">Classification</div><div class="value">''
      @ esc_str (class_display D Q) @ ''</div></div>'' @ nl
      @ ''  <div class="doc-control-item"><div class="label">Severity</div><div class="value" style="color:''
      @ sevHex (sev_of D) @ ''">'' @ esc_str (to_upper (sev_of D)) @ ''</div></div>'' @ nl
      @ ''  <div class="doc-control-item"><div class="label">'' @ NCISS_TITLE
      @ ''</div><div class="value nciss">''
      @ esc_str (ncissLabel (jget (inc_of D) ''nciss_severity'')) @ ''</div></div>'' @ nl
      @ ''  <div class="doc-control-item"><div class="label">IR Phase</div><div class="value">''
      @ esc_str (phaseLabel (jget (inc_of D) ''phase'')) @ ''</div></div>'' @ nl
      @ ''  <div class="doc-control-item"><div class="label">Timeline Events</div><div class="value">''
      @ show_int (int (length (list_of D ''timeline_events''))) @ ''</div></div>'' @ nl
      @ ''  <div class="doc-control-item"><div class="label">IOCs</div><div class="value">''
      @ show_int (int (length (list_of D ''iocs''))) @ '' ('' @ show_int (malicious_iocs D)
      @ '' malicious)</div></div>'' @ nl
      @ ''  <div class="doc-control-item"><div class="label">Report Type</div><div class="value">''
      @ (if (is_exec Q) then ''Exec'' else ''Full'') @ ''</div></div>'' @ nl @ ''</div>'' @ nl
      @ nl
      @ (if (included Q ''kpis'') then (''<div class="stats-bar">'' @ nl @ ''  <div class="stat"><div class="stat-value">''
      @ show_int (int (length (list_of D ''timeline_events'')))
      @ ''</div><div class="stat-label">Timeline Events</div></div>'' @ nl
      @ ''  <div class="stat"><div class="stat-value">''
      @ show_int (int (length (list_of D ''iocs'')))
      @ ''</div><div class="stat-label">IOCs</div></div>'' @ nl
      @ ''  <div class="stat"><div class="stat-value" style="color:#dc2626">''
      @ show_int (malicious_iocs D) @ ''</div><div class="stat-label">Malicious IOCs</div></div>''
      @ nl @ ''  <div class="stat"><div class="stat-value">''
      @ show_int (int (length (list_of D ''entities'')))
      @ ''</div><div class="stat-label">Entities</div></div>'' @ nl
      @ ''  <div class="stat"><div class="stat-value">''
      @ js_string (jor (jget (ev_of D) ''total'') (JNum 0))
      @ ''</div><div class="stat-label">Evidence Items</div></div>'' @ nl
      @ ''  <div class="stat"><div class="stat-value" style="color:''
      @ (if ((task_pct D) = 100) then ''#16a34a'' else ''#d97706'') @ ''">''
      @ show_int (task_pct D) @ ''%</div><div class="stat-label">Playbook Done</div></div>'' @ nl
      @ ''</div>'') else [])
      @ nl @ nl)\<close>

definition page_footer :: "renv \<Rightarrow> jsval \<Rightarrow> report_opts \<Rightarrow> string" where
  \<open>page_footer E D Q =
    (nl @ nl @ ''<div class="footer">'' @ nl @ ''  <div>'' @ nl
      @ ''    <div style="margin-bottom:4px">DFIR-FENRIR v2 Incident Response Platform // Generated Report</div>''
      @ nl @ ''    <div style="color:var(--text-dim)">Incident ID: ''
      @ esc (jor (jget (inc_of D) ''id'') (JStr [])) @ '' // Generated: ''
      @ esc_str (generated_at E D) @ ''</div>'' @ nl @ ''    ''
      @ (if (truthy (o_footer Q)) then (''<div style="margin-top:4px;color:var(--text-dim)">'' @ esc (o_footer Q) @ ''</div>'') else [])
      @ nl @ ''  </div>'' @ nl @ ''  <div class="footer-tlp">TLP:'' @ (tlp_upper D) @ ''</div>''
      @ nl @ ''  <div style="text-align:right;font-size:10px;color:var(--text-dim)">'' @ nl
      @ ''    <div>Integrity (SHA-256)</div>'' @ nl
      @ ''    <div class="report-sha256" style="user-select:all;color:var(--text);word-break:break-all;max-width:280px">''
      @ REPORT_SHA256_PLACEHOLDER @ ''</div>'' @ nl @ ''  </div>'' @ nl @ ''</div>'')\<close>

definition page_body :: "renv \<Rightarrow> jsval \<Rightarrow> report_opts \<Rightarrow> string" where
  \<open>page_body E D Q =
    ((page_head E D Q) @ (sections_html E D Q) @ nl @ nl @ (appendices_html E D Q)
      @ (page_footer E D Q))\<close>

definition css_1 :: "jsval \<Rightarrow> report_opts \<Rightarrow> string" where
  \<open>css_1 D Q =
    (nl @ ''  '' @ (th_fonts (theme_of Q)) @ nl @ ''  '' @ (css_vars D Q) @ nl
      @ ''  * { box-sizing: border-box; margin: 0; padding: 0; }'' @ nl
      @ ''  body { font-family: var(--font); background: var(--bg); color: var(--text); font-size: 14px; line-height: 1.6; }''
      @ nl @ ''  a { color: var(--blue); }'' @ nl @ ''  .cover { background: ''
      @ (th_cover_gradient (theme_of Q))
      @ ''; padding: 0; min-height: 360px; position: relative; overflow: hidden; border-bottom: 3px solid ''
      @ sevHex (sev_of D) @ ''; }'' @ nl
      @ ''  .cover-inner { padding: 60px 64px 48px; position: relative; z-index: 2; }'' @ nl
      @ ''  .cover::before { content: '' @ sq @ sq
      @ ''; position: absolute; top: -100px; right: -100px; width: 500px; height: 500px; border-radius: 50%; background: radial-gradient(circle, ''
      @ sevHex (sev_of D) @ ''18 0%, transparent 70%); z-index: 1; }'' @ nl
      @ ''  .logo-placeholder { width: 160px; height: 56px; border: 2px dashed var(--border); border-radius: 6px; display: flex; align-items: center; justify-content: center; color: var(--text-dim); font-size: 11px; letter-spacing: 1px; margin-bottom: 36px; font-family: var(--mono); }''
      @ nl
      @ ''  .logo-image { max-width: 240px; max-height: 80px; width: auto; height: auto; margin-bottom: 36px; display: block; }''
      @ nl
      @ ''  .cover-eyebrow { font-size: 11px; color: var(--text-dim); letter-spacing: 3px; text-transform: uppercase; margin-bottom: 12px; font-family: var(--mono); }''
      @ nl
      @ ''  .cover-title { font-size: 38px; font-weight: 800; color: var(--text-strong); line-height: 1.15; max-width: 700px; letter-spacing: -0.5px; }''
      @ nl
      @ ''  .cover-subtitle { font-size: 16px; color: var(--text-muted); margin-top: 10px; font-weight: 400; }''
      @ nl @ ''  .cover-badges { display: flex; gap: 10px; margin-top: 24px; flex-wrap: wrap; }''
      @ nl
      @ ''  .badge { padding: 5px 14px; border-radius: 4px; font-size: 12px; font-weight: 700; letter-spacing: 1.5px; text-transform: uppercase; }''
      @ nl @ ''  .badge-sev { background: '' @ sevHex (sev_of D) @ ''; color: #fff; }'' @ nl
      @ ''  .badge-tlp { background: transparent; border: 2px solid '' @ (tlpHex (tlp_of D))
      @ ''; color: '' @ (tlpHex (tlp_of D)) @ ''; }'' @ nl
      @ ''  .badge-phase { background: var(--bg-card); border: 1px solid var(--border); color: var(--text-muted); letter-spacing: 1px; }''
      @ nl @ ''  .cover-meta { margin-top: 32px; display: flex; gap: 32px; flex-wrap: wrap; }''
      @ nl
      @ ''  .cover-meta-item { font-size: 12px; color: var(--text-dim); font-family: var(--mono); }''
      @ nl
      @ ''  .cover-meta-item strong { color: var(--text-muted); display: block; margin-bottom: 2px; }''
      @ nl @ ''  .tlp-banner { background: '' @ (tlpHex (tlp_of D))
      @ ''22; border-bottom: 1px solid '' @ (tlpHex (tlp_of D))
      @ ''44; padding: 8px 64px; font-size: 11px; font-weight: 700; letter-spacing: 2px; color: ''
      @ (tlpHex (tlp_of D)) @ ''; text-align: center; font-family: var(--mono); }'' @ nl
      @ ''  .doc-control { background: var(--bg-card); border-bottom: 1px solid var(--border); padding: 20px 64px; display: flex; justify-content: space-between; flex-wrap: wrap; gap: 12px; }''
      @ nl @ ''  .doc-control-item { font-size: 12px; }'' @ nl
      @ ''  .doc-control-item .label { color: var(--text-dim); font-family: var(--mono); letter-spacing: 1px; font-size: 10px; text-transform: uppercase; }''
      @ nl
      @ ''  .doc-control-item .value { color: var(--text); font-weight: 600; margin-top: 2px; }''
      @ nl
      @ ''  .stats-bar { display: grid; grid-template-columns: repeat(auto-fit, minmax(120px, 1fr)); background: var(--bg-card); border-bottom: 1px solid var(--border); padding: 0; }''
      @ nl
      @ ''  .stat { padding: 20px 24px; border-right: 1px solid var(--border); text-align: center; }''
      @ nl @ ''  .stat:last-child { border-right: none; }'' @ nl)\<close>

definition css_2 :: "jsval \<Rightarrow> report_opts \<Rightarrow> string" where
  \<open>css_2 D Q =
    (''  .stat-value { font-size: 28px; font-weight: 800; color: var(--text-strong); line-height: 1; }''
      @ nl
      @ ''  .stat-label { font-size: 10px; color: var(--text-dim); letter-spacing: 1.5px; text-transform: uppercase; margin-top: 4px; font-family: var(--mono); }''
      @ nl @ ''  .section { padding: 48px 64px; border-bottom: 1px solid var(--border-light); }''
      @ nl @ ''  .section-alt { background: var(--bg-section); }'' @ nl
      @ ''  .section-header { display: flex; align-items: center; gap: 14px; margin-bottom: 28px; }''
      @ nl
      @ ''  .section-number { font-size: 11px; font-family: var(--mono); color: var(--red); border: 1px solid var(--red); padding: 2px 8px; border-radius: 3px; letter-spacing: 2px; flex-shrink: 0; }''
      @ nl @ ''  .section h2 { font-size: 20px; font-weight: 700; color: var(--text-strong); }''
      @ nl
      @ ''  .section h3 { font-size: 14px; font-weight: 600; color: var(--text-muted); text-transform: uppercase; letter-spacing: 1px; margin: 28px 0 12px; }''
      @ nl @ ''  .prose { color: '' @ (th_prose_color (theme_of Q))
      @ ''; line-height: 1.8; font-size: 14px; }'' @ nl
      @ ''  .placeholder-box { border: 2px dashed var(--border); border-radius: 8px; padding: 24px; color: var(--text-dim); font-style: italic; font-size: 13px; line-height: 1.7; background: var(--bg-card); }''
      @ nl
      @ ''  .placeholder-box strong { color: var(--text-muted); font-style: normal; display: block; margin-bottom: 8px; font-family: var(--mono); font-size: 11px; letter-spacing: 1px; }''
      @ nl
      @ ''  .table-wrap { overflow-x: auto; border-radius: 8px; border: 1px solid var(--border); margin-bottom: 12px; }''
      @ nl @ ''  table { width: 100%; border-collapse: collapse; font-size: 13px; }'' @ nl
      @ ''  th { background: var(--th-bg); color: var(--th-color); padding: 10px 14px; text-align: left; font-size: 10px; letter-spacing: 1.5px; text-transform: uppercase; font-family: var(--mono); border-bottom: 1px solid var(--border); white-space: nowrap; }''
      @ nl
      @ ''  td { padding: 10px 14px; border-bottom: 1px solid var(--border-light); vertical-align: top; }''
      @ nl @ ''  tr:last-child td { border-bottom: none; }'' @ nl
      @ ''  tr:hover td { background: var(--tr-hover); }'' @ nl
      @ ''  .mono { font-family: var(--mono); }'' @ nl @ ''  .small { font-size: 12px; }'' @ nl
      @ ''  .tiny { font-size: 11px; }'' @ nl
      @ ''  .tag { display: inline-block; padding: 2px 8px; border-radius: 3px; font-size: 11px; font-weight: 600; background: var(--bg-card); border: 1px solid var(--border); color: var(--text-muted); letter-spacing: 0.5px; font-family: var(--mono); }''
      @ nl @ ''  .status-ok { color: var(--green); font-weight: 600; }'' @ nl
      @ ''  .status-bad { color: #dc2626; font-weight: 600; }'' @ nl
      @ ''  .status-unk { color: var(--text-dim); }'' @ nl
      @ ''  .enrich-badge { display: inline-block; padding: 1px 6px; border-radius: 3px; font-size: 10px; font-weight: 700; background: var(--enrich-bg); color: var(--enrich-fg); margin-right: 3px; font-family: var(--mono); }''
      @ nl
      @ ''  .ioc-type-badge { display: inline-block; padding: 4px 12px; border-radius: 4px; font-size: 12px; background: var(--bg-card); border: 1px solid var(--border); color: var(--text-muted); margin: 3px; font-family: var(--mono); }''
      @ nl
      @ ''  .progress-outer { background: var(--border); border-radius: 6px; height: 10px; margin: 12px 0; overflow: hidden; }''
      @ nl
      @ ''  .progress-inner { height: 10px; border-radius: 6px; background: linear-gradient(90deg, ''
      @ sevHex (sev_of D) @ '', '' @ sevHex (sev_of D) @ ''99); width: 0%; }'' @ nl
      @ ''  .progress-label { font-size: 12px; color: var(--text-muted); margin-top: 4px; font-family: var(--mono); }''
      @ nl
      @ ''  .task-row { display: flex; align-items: baseline; gap: 10px; padding: 5px 0; font-size: 13px; list-style: none; }''
      @ nl)\<close>

definition css_3 :: "jsval \<Rightarrow> report_opts \<Rightarrow> string" where
  \<open>css_3 D Q =
    (''  .task-done { color: var(--task-done); }'' @ nl
      @ ''  .task-pending { color: var(--text-dim); }'' @ nl
      @ ''  .task-icon { font-family: var(--mono); font-size: 12px; flex-shrink: 0; width: 14px; }''
      @ nl @ ''  .task-title { flex: 1; }'' @ nl
      @ ''  .task-time { color: var(--text-dim); font-family: var(--mono); font-size: 10px; margin-left: auto; white-space: nowrap; }''
      @ nl @ ''  .two-col { display: grid; grid-template-columns: 1fr 1fr; gap: 20px; }'' @ nl
      @ ''  .info-card { background: var(--bg-card); border: 1px solid var(--border); border-radius: 8px; padding: 20px; }''
      @ nl
      @ ''  .info-card .label { font-size: 10px; color: var(--text-dim); letter-spacing: 1.5px; text-transform: uppercase; font-family: var(--mono); margin-bottom: 6px; }''
      @ nl @ ''  .info-card .value { font-size: 15px; font-weight: 600; color: var(--text); }''
      @ nl
      @ ''  .footer { padding: 24px 64px; display: flex; justify-content: space-between; align-items: flex-start; color: var(--text-dim); font-size: 11px; background: var(--bg-card); border-top: 1px solid var(--border); font-family: var(--mono); gap: 12px; flex-wrap: wrap; }''
      @ nl @ ''  .footer-tlp { color: '' @ (tlpHex (tlp_of D))
      @ ''; font-weight: 700; letter-spacing: 1px; }'' @ nl
      @ ''  .csf-line { margin: -18px 0 24px; font-size: 11px; color: var(--text-dim); font-family: var(--mono); letter-spacing: 0.5px; }''
      @ nl
      @ ''  .csf-id { display: inline-block; padding: 1px 6px; border: 1px solid var(--border); border-radius: 3px; color: var(--text-muted); background: var(--bg-card); }''
      @ nl @ ''  .fig { margin: 0 0 32px; page-break-inside: avoid; }'' @ nl
      @ ''  .fig img { display: block; max-width: 100%; height: auto; border: 1px solid var(--border); border-radius: 6px; }''
      @ nl @ ''  .fig figcaption { margin-top: 8px; font-size: 13px; color: var(--text); }'' @ nl
      @ ''  .fig-meta { margin-top: 4px; font-family: var(--mono); font-size: 11px; color: var(--text-dim); overflow-wrap: anywhere; }''
      @ nl @ ''  .sig-row td { height: 56px; vertical-align: bottom; }'' @ nl
      @ ''  .sig-line { display: block; border-bottom: 1px solid var(--text-muted); height: 24px; }''
      @ nl @ ''  .table-fixed { table-layout: fixed; }'' @ nl
      @ ''  .table-fixed th { white-space: normal; }'' @ nl
      @ ''  .table-fixed td { overflow-wrap: anywhere; }'' @ nl @ ''  .md { line-height: 1.7; }''
      @ nl @ ''  .md p, .md ul, .md ol, .md pre, .md blockquote { margin: 0 0 10px; }'' @ nl
      @ ''  .md ul, .md ol { padding-left: 22px; }'' @ nl @ ''  .md li { margin-bottom: 4px; }''
      @ nl
      @ ''  .section .md h1, .section .md h2, .section .md h3, .section .md h4 { font-size: 15px; font-weight: 700; color: var(--text-strong); text-transform: none; letter-spacing: 0; margin: 16px 0 8px; }''
      @ nl @ ''  .section .md h1 { font-size: 18px; }'' @ nl
      @ ''  .section .md h2 { font-size: 16px; }'' @ nl
      @ ''  .md code { font-family: var(--mono); font-size: 12px; background: var(--bg-card); border: 1px solid var(--border); border-radius: 3px; padding: 0 4px; }''
      @ nl)\<close>

definition css_4 :: "jsval \<Rightarrow> report_opts \<Rightarrow> string" where
  \<open>css_4 D Q =
    (''  .md pre { background: var(--bg-card); border: 1px solid var(--border); border-radius: 6px; padding: 10px 12px; overflow-x: auto; }''
      @ nl @ ''  .md pre code { border: none; padding: 0; }'' @ nl
      @ ''  .md blockquote { border-left: 3px solid var(--border); padding-left: 12px; color: var(--text-muted); }''
      @ nl @ ''  .md a { color: var(--blue); }'' @ nl
      @ ''  .ac-wrap { border: 1px solid var(--border); border-radius: 8px; overflow: hidden; background: var(--bg-card); }''
      @ nl
      @ ''  .ac-lane { display: flex; min-height: 58px; border-bottom: 1px solid var(--border-light); }''
      @ nl
      @ ''  .ac-label { width: 220px; flex-shrink: 0; padding: 8px 12px; border-right: 1px solid var(--border); }''
      @ nl @ ''  .ac-name { font-size: 12px; font-weight: 700; }'' @ nl
      @ ''  .ac-meta { font-size: 10px; color: var(--text-dim); font-family: var(--mono); margin: 2px 0 4px; }''
      @ nl
      @ ''  .ac-chip { display: inline-block; font-family: var(--mono); font-size: 9px; padding: 0 5px; border: 1px solid; border-radius: 3px; margin: 0 3px 3px 0; }''
      @ nl @ ''  .ac-track { position: relative; flex: 1; }'' @ nl
      @ ''  .ac-line { position: absolute; left: 0; right: 0; top: 50%; border-top: 1px dashed var(--border); }''
      @ nl
      @ ''  .ac-dot { position: absolute; top: 50%; width: 12px; height: 12px; border-radius: 50%; transform: translate(-50%, -50%); border: 2px solid var(--bg-card); -webkit-print-color-adjust: exact; print-color-adjust: exact; }''
      @ nl
      @ ''  .ac-axis { display: flex; justify-content: space-between; margin-left: 220px; padding: 6px 12px; font-family: var(--mono); font-size: 10px; color: var(--text-dim); }''
      @ nl @ ''  @media print { .section { padding: 32px 48px; } table { font-size: 11px; } }''
      @ nl @ ''  .atl-wrap{position:relative}'' @ nl
      @ ''  .atl-spine{position:relative;padding:8px 0}'' @ nl @ ''  .atl-spine::before{content:''
      @ sq @ sq
      @ '';position:absolute;left:50%;top:0;bottom:0;width:2px;background:var(--border);transform:translateX(-50%)}''
      @ nl @ ''  .atl-date{text-align:center;position:relative;margin:18px 0 10px;z-index:2}''
      @ nl
      @ ''  .atl-date span{display:inline-block;background:var(--bg);border:1px solid var(--border);padding:3px 12px;border-radius:20px;font-family:var(--mono);font-size:10px;color:var(--text-dim);letter-spacing:.06em}''
      @ nl @ ''  .atl-item{display:flex;width:50%;position:relative;margin-bottom:12px}'' @ nl
      @ ''  .atl-item.left{padding-right:26px;justify-content:flex-end}'' @ nl
      @ ''  .atl-item.right{padding-left:26px;margin-left:50%}'' @ nl
      @ ''  .atl-dot{position:absolute;width:10px;height:10px;border-radius:50%;top:13px;z-index:3;border:2px solid var(--bg)}''
      @ nl @ ''  .atl-item.left .atl-dot{right:-6px}'' @ nl
      @ ''  .atl-item.right .atl-dot{left:-6px}'' @ nl
      @ ''  .atl-card{background:var(--bg-card);border:1px solid var(--border);border-radius:5px;padding:9px 11px;width:100%}''
      @ nl
      @ ''  .atl-header{display:flex;flex-wrap:wrap;gap:4px 6px;align-items:center;margin-bottom:5px}''
      @ nl
      @ ''  .atl-time{font-family:var(--mono);font-size:10px;font-weight:600;color:var(--text-muted);flex-shrink:0}''
      @ nl
      @ ''  .atl-host{font-family:var(--mono);font-size:9px;color:var(--text-dim);margin-left:auto}''
      @ nl)\<close>

definition css_5 :: "jsval \<Rightarrow> report_opts \<Rightarrow> string" where
  \<open>css_5 D Q =
    (''  .atl-pill{font-size:9px;font-weight:700;padding:1px 6px;border-radius:3px;letter-spacing:.03em;white-space:nowrap;border:1px solid}''
      @ nl
      @ ''  .atl-desc{font-size:12px;color:var(--text);line-height:1.45;word-break:break-word}''
      @ nl
      @ ''  .atl-mitre{display:inline-block;font-family:var(--mono);font-size:9px;font-weight:600;padding:1px 6px;border-radius:3px;border:1px solid;margin-top:3px}''
      @ nl @ ''  .atl-meta{font-size:10px;color:var(--text-dim);margin-top:3px}'' @ nl
      @ ''  @media(max-width:768px){.atl-spine::before{left:14px}.atl-item,.atl-item.right{width:100%;margin-left:0;padding-left:28px;padding-right:0;justify-content:flex-start}.atl-item.left .atl-dot,.atl-item.right .atl-dot{left:9px;right:auto}}''
      @ nl
      @ ''  @media print{.atl-spine::before{background:#ccc}.atl-card{background:#fff;border-color:#ccc}.atl-date span{background:#fff}}'')\<close>

definition page_css :: "jsval \<Rightarrow> report_opts \<Rightarrow> string" where
  "page_css D Q = css_1 D Q @ css_2 D Q @ css_3 D Q @ css_4 D Q @ css_5 D Q"

definition generateProReport :: "renv \<Rightarrow> jsval \<Rightarrow> report_opts \<Rightarrow> string" where
  \<open>generateProReport E D Q =
    (''<!DOCTYPE html>'' @ nl @ ''<html lang="en">'' @ nl @ ''<head>'' @ nl
      @ ''<meta charset="UTF-8">'' @ nl
      @ ''<meta name="viewport" content="width=device-width, initial-scale=1">'' @ nl
      @ ''<title>IR Report '' @ em_dash @ '' ''
      @ esc (jor (jget (inc_of D) ''title'') (JStr ''Incident'')) @ ''</title>'' @ nl
      @ ''<style>'' @ (page_css D Q) @ ''</style>'' @ nl @ ''</head>'' @ nl @ ''<body>''
      @ (page_body E D Q) @ ''</body>'' @ nl @ ''</html>'')\<close>

text \<open>The entry point: a retired template id falls back to its successor, and the executive report keeps
  only the events that may leave the house.\<close>

definition LEGACY_TEMPLATE_MAP :: "(string \<times> string) list" where
  "LEGACY_TEMPLATE_MAP = [(''mission_control'', ''tactical''), (''nordic'', ''executive''), (''compact'', ''print'')]"

definition resolved_id :: "string \<Rightarrow> string" where
  "resolved_id k = (if map_of PRO_THEMES k \<noteq> None then k
     else case map_of LEGACY_TEMPLATE_MAP k of Some t \<Rightarrow> t | None \<Rightarrow> ''executive'')"

definition external_events :: "jsval \<Rightarrow> jsval list" where
  "external_events D = filter (\<lambda>e. jget e ''external_safe'' \<noteq> JBool False) (list_of D ''timeline_events'')"

definition filtered_data :: "jsval \<Rightarrow> report_opts \<Rightarrow> jsval" where
  "filtered_data D Q = (if is_exec Q \<and> \<not> o_includeInternalEvents Q
     then (case D of JObj kvs \<Rightarrow> JObj (obj_set kvs ''timeline_events'' (JArr (external_events D))) | _ \<Rightarrow> D) else D)"

definition generateReport :: "renv \<Rightarrow> jsval \<Rightarrow> report_opts \<Rightarrow> string" where
  "generateReport E D Q = generateProReport E (filtered_data D Q) (Q\<lparr>o_templateId := resolved_id (o_templateId Q)\<rparr>)"

end
