(* ===== verification/Report_Preview.thy ===== *)
theory Report_Preview
  imports Report_Doc
begin

text \<open>
  \<^verbatim>\<open>frontend/src/lib/reportTemplates.js\<close>, the structure preview (\<open>generateSkeleton\<close>): the sections and
  appendices the report will have, with the source of every field. The preview is a description of the
  report that does not look at the incident; the report is proved to follow it.
\<close>

subsection \<open>Pieces\<close>

definition skeleton_css_1 :: string where
  \<open>skeleton_css_1 =
    (nl
      @ ''  body { background: #0b0b16; color: #e2e2f0; font: 14px/1.55 -apple-system, BlinkMacSystemFont, ''
      @ sq @ ''Segoe UI'' @ sq
      @ '', Inter, sans-serif; padding: 32px 48px; max-width: 920px; margin: 0 auto; }'' @ nl
      @ ''  h1 { font-size: 22px; margin: 0 0 4px; letter-spacing: 0.02em; }'' @ nl
      @ ''  h2 { font-size: 14px; margin: 24px 0 8px; color: #93c5fd; text-transform: uppercase; letter-spacing: 0.1em; font-weight: 700; }''
      @ nl @ ''  h3 { font-size: 13px; margin: 12px 0 6px; color: #c8c8e0; font-weight: 600; }''
      @ nl @ ''  p, li { color: #b8b8d0; }'' @ nl @ ''  ul { margin: 0; padding-left: 18px; }''
      @ nl @ ''  li { margin: 4px 0; }'' @ nl
      @ ''  .sk-banner { background: #1e3a5f; border: 1px solid #60a5fa55; color: #93c5fd; padding: 10px 14px; border-radius: 6px; margin-bottom: 24px; font-size: 13px; }''
      @ nl
      @ ''  .sk-section { background: #0e0e1a; border: 1px solid #1e1e30; border-radius: 8px; padding: 16px 20px; margin-bottom: 14px; position: relative; }''
      @ nl
      @ ''  .sk-section.excluded { opacity: 0.55; border-color: #7f1d1d; background: #1a0a0a; }''
      @ nl @ ''  .sk-section.excluded h3 { text-decoration: line-through; color: #fca5a5; }'' @ nl
      @ ''  .sk-section.excluded ul { text-decoration: line-through; }'' @ nl
      @ ''  .sk-section .excluded-badge { position: absolute; top: 12px; right: 16px; font-size: 10px; font-weight: 800; letter-spacing: 0.12em; text-transform: uppercase; color: #fff; background: #b91c1c; padding: 3px 8px; border-radius: 3px; font-family: ''
      @ sq @ ''JetBrains Mono'' @ sq @ '', monospace; }'' @ nl
      @ ''  .ph { display: inline-block; padding: 1px 8px; background: #1e3a5f33; color: #93c5fd; border: 1px solid #60a5fa55; border-radius: 4px; font-family: ''
      @ sq @ ''JetBrains Mono'' @ sq
      @ '', Consolas, monospace; font-size: 11px; font-weight: 600; letter-spacing: 0.02em; }''
      @ nl @ ''  .ph-auto { color: #86efac; background: #14532d33; border-color: #4ade8055; }''
      @ nl @ ''  .ph-user { color: #fbbf24; background: #78350f33; border-color: #f59e0b55; }''
      @ nl)\<close>

definition skeleton_css_2 :: string where
  \<open>skeleton_css_2 =
    (''  .static { color: #c8c8e0; }'' @ nl @ ''  .where { color: #8888aa; font-size: 12px; }''
      @ nl
      @ ''  .sk-num { display: inline-block; min-width: 38px; margin-right: 8px; padding: 1px 6px; border: 1px solid #f8717155; border-radius: 3px; color: #f87171; font: 700 10px ''
      @ sq @ ''JetBrains Mono'' @ sq
      @ '', Consolas, monospace; letter-spacing: 0.1em; text-align: center; }'' @ nl
      @ ''  .sk-tag { margin-left: 8px; padding: 1px 6px; border-radius: 3px; background: #1e1e30; color: #8888aa; font-size: 10px; font-weight: 600; }''
      @ nl
      @ ''  .sk-cond { margin: 0 0 6px; color: #fbbf24; font-size: 12px; font-style: italic; }''
      @ nl @ ''  .sk-csf { margin: 0 0 6px; color: #8888aa; font: 600 11px '' @ sq
      @ ''JetBrains Mono'' @ sq @ '', Consolas, monospace; letter-spacing: 0.04em; }'' @ nl
      @ ''  .legend { display: flex; gap: 10px; margin-bottom: 24px; font-size: 11px; color: #8888aa; flex-wrap: wrap; }''
      @ nl @ ''  .legend > span { display: inline-flex; align-items: center; gap: 6px; }'' @ nl
      @ ''  .meta { font-size: 11px; color: #555570; font-family: '' @ sq @ ''JetBrains Mono''
      @ sq
      @ '', Consolas, monospace; margin-top: 32px; padding-top: 16px; border-top: 1px solid #1e1e30; }''
      @ nl)\<close>

definition SKELETON_CSS :: string where
  "SKELETON_CSS = skeleton_css_1 @ skeleton_css_2"

definition ph :: "string \<Rightarrow> string \<Rightarrow> string" where
  \<open>ph label kind = ''<span class="'' @ (if kind = ''auto'' then ''ph ph-auto'' else if kind = ''user'' then ''ph ph-user'' else ''ph'')
     @ ''">'' @ esc_str label @ ''</span>''\<close>

definition where_in :: "string \<Rightarrow> string" where
  \<open>where_in s = ''<span class="where">'' @ left_arrow @ '' '' @ esc_str s @ ''</span>''\<close>

subsection \<open>Sections and appendices\<close>

record preview_section =
  ps_key :: string
  ps_conditional :: string
  ps_items :: "string list"

definition preview_exec_summary :: preview_section where
  \<open>preview_exec_summary = \<lparr>ps_key = ''exec_summary'', ps_conditional = [],
    ps_items =
      [(''Audience note (when set): ''
      @ (ph (''Advanced options '' @ right_arrow @ '' Audience'') ''user'')),
       (''Narrative: '' @ (ph ''lessons_learned.incident_narrative'' ''auto'') @ '' ''
      @ (where_in (''Post-Incident '' @ right_arrow @ '' Lessons Learned '' @ right_arrow @ '' Incident Narrative (shown on Details '' @ right_arrow @ '' Resolution summary)'')))]\<rparr>\<close>

definition preview_details :: preview_section where
  \<open>preview_details = \<lparr>ps_key = ''details'', ps_conditional = [],
    ps_items =
      [(''Type '' @ middle_dot @ '' Severity '' @ middle_dot @ '' TLP '' @ middle_dot
      @ '' Triage state '' @ middle_dot @ '' Reporter: ''
      @ (ph ''incident.incident_type / severity / tlp / triage_state / reporter'' ''auto'')
      @ '' '' @ (where_in (''Details '' @ right_arrow @ '' Classification''))),
       (NCISS_TITLE @ '', next to the severity: '' @ (ph ''incident.nciss_severity'' ''auto'')
      @ '' <span class="static">'' @ em_dash @ '' critical '' @ right_arrow
      @ '' Emergency, high '' @ right_arrow @ '' Severe, medium '' @ right_arrow
      @ '' Medium, low '' @ right_arrow @ '' Low</span>''),
       (''Current phase: '' @ (ph ''incident.phase'' ''auto'') @ '' ''
      @ (where_in ''phase stepper in the incident header'')),
       (''Occurred '' @ middle_dot @ '' Detected at: ''
      @ (ph ''incident.occurred_at / detected_at'' ''auto'') @ '' ''
      @ (where_in (''Details '' @ right_arrow @ '' Classification''))),
       (''Contained '' @ middle_dot @ '' Eradicated '' @ middle_dot @ '' Recovered at: ''
      @ (ph ''incident.contained_at / eradicated_at / recovered_at'' ''auto'') @ '' ''
      @ (where_in (''Declare '' @ ellipsis @ '' in the incident header, or Details '' @ right_arrow @ '' Classification''))
      @ '' <span class="static">'' @ em_dash @ '' "Pending" until declared</span>''),
       (''Closed at: '' @ (ph ''incident.closed_at'' ''auto'') @ '' ''
      @ (where_in ''set when the incident is closed'') @ '' <span class="static">'' @ em_dash
      @ '' "Not closed" while open</span>''),
       (''Incident description (rendered as Markdown): '' @ (ph ''incident.description'' ''auto'')
      @ '' '' @ (where_in (''Details '' @ right_arrow @ '' Description''))),
       (''Tags (when set): '' @ (ph ''incident.tags[]'' ''auto'') @ '' ''
      @ (where_in (''Details '' @ right_arrow @ '' Snapshot '' @ right_arrow @ '' Tags'')))]\<rparr>\<close>

definition preview_assignments :: preview_section where
  \<open>preview_assignments = \<lparr>ps_key = ''assignments'', ps_conditional = [],
    ps_items =
      [(''Table: ''
      @ (ph ''assignments[*] (role, analyst, assigned by, assigned at, notes)'' ''auto'') @ '' ''
      @ (where_in ''Team''))]\<rparr>\<close>

definition preview_stakeholders :: preview_section where
  \<open>preview_stakeholders = \<lparr>ps_key = ''stakeholders'', ps_conditional = [],
    ps_items =
      [(''Table: '' @ (ph ''stakeholders[*] (name, title, organization, type)'' ''auto'') @ '' ''
      @ (where_in (''Comms & stakeholders '' @ right_arrow @ '' Stakeholders''))),
       ''<span class="static">Contact methods and notes are never printed.</span>'']\<rparr>\<close>

definition preview_detection :: preview_section where
  \<open>preview_detection = \<lparr>ps_key = ''detection'', ps_conditional = [],
    ps_items =
      [(''Detection method (friendly label): '' @ (ph ''incident.detection_method'' ''auto'')
      @ '' '' @ (where_in (''Details '' @ right_arrow @ '' Classification''))),
       (''Timeline of key events: ''
      @ (ph ''timeline_events[*] (time, hostname, event type, description, MITRE technique)'' ''auto'')
      @ '' '' @ (where_in ''Timeline tab'')),
       (''IOCs summary: ''
      @ (ph ''iocs[*] (type, value, malicious, confidence, TI match / source, tags)'' ''auto'')
      @ '' '' @ (where_in ''IOCs''))]\<rparr>\<close>

definition preview_cer :: preview_section where
  \<open>preview_cer = \<lparr>ps_key = ''cer'', ps_conditional = [],
    ps_items =
      [(''Containment / Eradication / Recovery tables (aligned columns): ''
      @ (ph ''respond_actions[*] (title, description, status, occurred at, notes, assignee = "By")'' ''auto'')
      @ '' '' @ (where_in (''Respond '' @ right_arrow @ '' actions'')))]\<rparr>\<close>

definition preview_recovery :: preview_section where
  \<open>preview_recovery = \<lparr>ps_key = ''recovery'', ps_conditional = [],
    ps_items =
      [(''Roll-up: ''
      @ (ph ''recovery.summary (validated of in scope, not required, open, same-person validations)'' ''auto'')
      @ '' '' @ (where_in ''Recovery'')),
       (''Table: ''
      @ (ph ''recovery.items[*] (system, state, restore point, restored at/by, validated at/by, method + checklist, monitoring window)'' ''auto'')
      @ '' '' @ (where_in ''Recovery''))]\<rparr>\<close>

definition preview_decisions :: preview_section where
  \<open>preview_decisions = \<lparr>ps_key = ''decisions'', ps_conditional = [],
    ps_items =
      [(''Table: ''
      @ (ph ''decisions[*] (summary, outcome, rationale, decided by, decided at)'' ''auto'')
      @ '' '' @ (where_in (''Respond '' @ right_arrow @ '' Decisions'')))]\<rparr>\<close>

definition preview_impact :: preview_section where
  \<open>preview_impact = \<lparr>ps_key = ''impact'', ps_conditional = [],
    ps_items =
      [(''Financial '' @ middle_dot @ '' Operational '' @ middle_dot @ '' Data exposure ''
      @ middle_dot @ '' Reputational '' @ middle_dot @ '' Regulatory '' @ middle_dot
      @ '' Notes: '' @ (ph ''business_impact.*'' ''auto'') @ '' ''
      @ (where_in (''Post-Incident '' @ right_arrow @ '' Costs & Impact '' @ right_arrow @ '' Business Impact Assessment''))),
       (''Legal obligations: '' @ (ph ''regulatory_deadlines[*] regulation + article'' ''auto'')
      @ '' + '' @ (ph ''business_impact.legal'' ''auto'') @ '' <span class="static">'' @ em_dash
      @ '' empty ("'' @ em_dash @ ''") unless legal deadlines have been initialized</span> ''
      @ (where_in (''Legal & regulatory '' @ right_arrow @ '' Initialize deadlines'')))]\<rparr>\<close>

definition preview_legal :: preview_section where
  \<open>preview_legal = \<lparr>ps_key = ''legal'', ps_conditional = [],
    ps_items =
      [(''Table: ''
      @ (ph ''regulatory_deadlines[*] (regulation, article, obligation, recipient, deadline, status, completed)'' ''auto'')
      @ '' '' @ (where_in ''Legal & regulatory'')),
       (''Compliance: '' @ (ph ''met / violated (late or overdue) / pending / waived'' ''auto'')
      @ '' <span class="static">'' @ em_dash @ '' computed by the server</span>'')]\<rparr>\<close>

definition preview_comms_log :: preview_section where
  \<open>preview_comms_log = \<lparr>ps_key = ''comms_log'', ps_conditional = [],
    ps_items =
      [(''Notifications: ''
      @ (ph ''stakeholder_notifications (summary + items: role, severity, clock start, due, status, notified at/by/channel)'' ''auto'')
      @ '' '' @ (where_in (''Comms & stakeholders '' @ right_arrow @ '' Notifications''))),
       (''Table: ''
      @ (ph ''oob_log[*] (time, direction, channel, stakeholder, summary, identity verified + method, logged by)'' ''auto'')
      @ '' '' @ (where_in (''Comms & stakeholders '' @ right_arrow @ '' Out-of-band''))),
       ''<span class="static">Contact details and the verification passphrase are never printed.</span>'']\<rparr>\<close>

definition preview_root_cause :: preview_section where
  \<open>preview_root_cause = \<lparr>ps_key = ''root_cause'', ps_conditional = [],
    ps_items =
      [(''Root cause category + description '' @ middle_dot @ '' Contributing factors: ''
      @ (ph ''lessons_learned.root_cause_*, contributing_factors[]'' ''auto'') @ '' ''
      @ (where_in (''Post-Incident '' @ right_arrow @ '' Lessons Learned '' @ right_arrow @ '' Root Cause Analysis''))),
       (''MITRE ATT&CK table: '' @ (ph ''timeline_events[*] with a MITRE technique'' ''auto'')
      @ '' '' @ (where_in ''Timeline tab''))]\<rparr>\<close>

definition preview_attack_chain :: preview_section where
  \<open>preview_attack_chain = \<lparr>ps_key = ''attack_chain'', ps_conditional = (''Only when at least one timeline event carries a MITRE tactic '' @ em_dash @ '' otherwise omitted and the sections below move up one number.''),
    ps_items =
      [(''Swimlane per tactic (ATT&amp;CK kill-chain order), one dot per event by time: ''
      @ (ph ''timeline_events[*] (mitre_tactic_id, technique, event_time)'' ''auto'') @ '' ''
      @ (where_in (''Timeline tab '' @ right_arrow @ '' MITRE tactic / technique'')))]\<rparr>\<close>

definition preview_attribution :: preview_section where
  \<open>preview_attribution = \<lparr>ps_key = ''attribution'', ps_conditional = [],
    ps_items =
      [(''Table: ''
      @ (ph ''attributions[*] (actor, MITRE ID, country, confidence, score, motivation, supporting IOCs/events, notes, attributed by/at)'' ''auto'')
      @ '' '' @ (where_in (''ATT&CK & attribution '' @ right_arrow @ '' Attribution'')))]\<rparr>\<close>

definition preview_entities :: preview_section where
  \<open>preview_entities = \<lparr>ps_key = ''entities'', ps_conditional = [],
    ps_items =
      [(''Table: ''
      @ (ph ''entities[*] (type, name / value, criticality, compromised, description)'' ''auto'')
      @ '' '' @ (where_in ''Entities tab (compromised: entity drawer)''))]\<rparr>\<close>

definition preview_evidence :: preview_section where
  \<open>preview_evidence = \<lparr>ps_key = ''evidence'', ps_conditional = [],
    ps_items =
      [(''Counts: '' @ (ph ''evidence_summary (total, active, digital, physical)'' ''auto'')
      @ '' '' @ (where_in ''Evidence tab'')),
       (''Exhibits table, in collection order: ''
      @ (ph ''evidence_items[*] (identifier, name, type, status, SHA-256)'' ''auto'') @ '' ''
      @ (where_in ''Evidence tab'') @ '' <span class="static">'' @ em_dash
      @ '' physical items have no hash; "Verify failed" is flagged</span>'')]\<rparr>\<close>

definition preview_attachments :: preview_section where
  \<open>preview_attachments = \<lparr>ps_key = ''attachments'', ps_conditional = (''Only when at least one file is ticked "Include in report" in Supporting documents '' @ em_dash @ '' otherwise omitted and the sections below move up one number.''),
    ps_items =
      [(''Numbered figures (Figure 1, 2 '' @ ellipsis @ ''), oldest first: image + ''
      @ (ph ''report_files[*].caption (or file name)'' ''auto'') @ '' ''
      @ (where_in (''Supporting documents '' @ right_arrow @ '' Include in report''))),
       (''Under each: file name '' @ middle_dot @ '' type '' @ middle_dot @ '' size ''
      @ middle_dot @ '' '' @ (ph ''SHA-256 of the original file'' ''auto'')
      @ '' <span class="static">(computed in the browser from the downloaded original; checked against the server''
      @ sq @ ''s)</span>''),
       ''<span class="static">Images over 1.5 MB are downscaled to at most 1920 px (JPEG) for the report. Embedded images are capped at 7 MiB in total; you are warned before saving and figures over the cap are listed without the image.</span>'']\<rparr>\<close>

definition preview_playbook :: preview_section where
  \<open>preview_playbook = \<lparr>ps_key = ''playbook'', ps_conditional = [],
    ps_items =
      [(''Per-phase tasks + progress: ''
      @ (ph ''playbook_tasks[*] (title, phase, status)'' ''auto'') @ '' ''
      @ (where_in ''Playbook tab''))]\<rparr>\<close>

definition preview_closure :: preview_section where
  \<open>preview_closure = \<lparr>ps_key = ''closure'', ps_conditional = [],
    ps_items =
      [(''Progress + items: '' @ (ph ''closure_checklist[*] (label, checked, owner)'' ''auto'')
      @ '' '' @ (where_in (''Post-Incident '' @ right_arrow @ '' Closure Checklist'')))]\<rparr>\<close>

definition preview_lessons :: preview_section where
  \<open>preview_lessons = \<lparr>ps_key = ''lessons'', ps_conditional = [],
    ps_items =
      [''Each sub-heading prints the report text first, then the structured Lessons Learned entries:'',
       (''What worked well: '' @ (ph ''report_what_worked_well'' ''auto'') @ '' + ''
      @ (ph ''what_went_well[]'' ''auto'')),
       (''What could be improved: '' @ (ph ''report_what_could_improve'' ''auto'') @ '' + ''
      @ (ph ''friction_points[]'' ''auto'')),
       (''Security recommendations: '' @ (ph ''report_security_recommendations'' ''auto'')
      @ '' + '' @ (ph ''control_improvements[]'' ''auto'')),
       (''Review meeting minutes (full report only, when recorded): ''
      @ (ph ''meeting_minutes'' ''auto'')),
       (where_in (''Post-Incident '' @ right_arrow @ '' Lessons Learned (Report Text, lists, Review Details)''))]\<rparr>\<close>

definition preview_remediation :: preview_section where
  \<open>preview_remediation = \<lparr>ps_key = ''remediation'', ps_conditional = [],
    ps_items =
      [(''Short (0'' @ en_dash @ ''30 d) '' @ middle_dot @ '' Medium (30'' @ en_dash @ ''90 d) ''
      @ middle_dot @ '' Long (90+ d): ''
      @ (ph ''report_remediation_short / medium / long'' ''auto'') @ '' text, then ''
      @ (ph ''action_items[] by due date'' ''auto'')),
       (''<span class="static">Terms are measured from the incident'' @ sq
      @ ''s close time (report time while open), so regenerating never moves items. Undated items go under "Unscheduled".</span>''),
       (where_in (''text: Post-Incident '' @ right_arrow @ '' Lessons Learned '' @ right_arrow @ '' Remediation Plan '' @ middle_dot @ '' action items: Post-Incident '' @ right_arrow @ '' Lessons Learned '' @ right_arrow @ '' Action Items''))]\<rparr>\<close>

definition preview_costs :: preview_section where
  \<open>preview_costs = \<lparr>ps_key = ''costs'', ps_conditional = [],
    ps_items =
      [(''Financial impact narrative: '' @ (ph ''business_impact.financial'' ''auto'') @ '' ''
      @ (where_in (''Post-Incident '' @ right_arrow @ '' Costs & Impact '' @ right_arrow @ '' Business Impact Assessment''))),
       (''Totals per currency and by category + itemised costs: ''
      @ (ph ''costs[*] (category, description, amount, currency)'' ''auto'') @ '' ''
      @ (where_in (''Post-Incident '' @ right_arrow @ '' Costs & Impact '' @ right_arrow @ '' Cost Tracking'')))]\<rparr>\<close>

definition preview_sign_off :: preview_section where
  \<open>preview_sign_off = \<lparr>ps_key = ''sign_off'', ps_conditional = [],
    ps_items =
      [(''Closed by '' @ middle_dot @ '' Closed at: ''
      @ (ph ''closure.closed_by / closed_at'' ''auto'') @ '' ''
      @ (where_in ''Close (Post-Incident) in the incident header'') @ '' <span class="static">''
      @ em_dash @ '' "Not closed" while open</span>''),
       (''Close sign-off statement: '' @ (ph ''closure.reason'' ''auto'')
      @ '' <span class="static">'' @ em_dash @ '' the reason given at Close</span>''),
       (''Signature line per role: ''
      @ (ph (''sign_offs[*] (Incident Commander, Deputy, Legal Liaison, DPO '' @ right_arrow @ '' assignees)'') ''auto'')
      @ '' '' @ (where_in ''Team'') @ '' <span class="static">'' @ em_dash
      @ '' "Not assigned" when the role is empty; signature and date are left blank for ink</span>''),
       (''Recorded gate sign-offs: ''
      @ (ph ''gate_sign_offs[*] (gate, role, signer, signed at, statement, gate-state SHA-256)'' ''auto'')
      @ '' '' @ (where_in ''the Resolve / Close gate panel'') @ '' <span class="static">''
      @ em_dash @ '' append-only; ones made before a re-open are marked</span>'')]\<rparr>\<close>

definition preview_list :: "preview_section list" where
  "preview_list = [
     preview_exec_summary,
     preview_details,
     preview_assignments,
     preview_stakeholders,
     preview_detection,
     preview_cer,
     preview_recovery,
     preview_decisions,
     preview_impact,
     preview_legal,
     preview_comms_log,
     preview_root_cause,
     preview_attack_chain,
     preview_attribution,
     preview_entities,
     preview_evidence,
     preview_attachments,
     preview_playbook,
     preview_closure,
     preview_lessons,
     preview_remediation,
     preview_costs,
     preview_sign_off]"

text \<open>The section table says the order, the titles and the rules; the list above adds the fields.\<close>

definition preview_of :: "report_section \<Rightarrow> preview_section" where
  "preview_of s = (case map_of (map (\<lambda>p. (ps_key p, p)) preview_list) (rs_key s) of
     Some p \<Rightarrow> p | None \<Rightarrow> \<lparr>ps_key = rs_key s, ps_conditional = [], ps_items = []\<rparr>)"

definition skeletonSections :: "(report_section \<times> preview_section) list" where
  "skeletonSections = map (\<lambda>s. (s, preview_of s)) REPORT_SECTIONS"

record preview_appendix =
  pa_title :: string
  pa_included :: bool
  pa_hint :: string
  pa_items :: "string list"

definition appendix_list :: "report_opts \<Rightarrow> preview_appendix list" where
  \<open>appendix_list Q =
    [\<lparr>pa_title = ''Affected Systems'', pa_included = (included Q ''appendix_affected''), pa_hint = (''Untick "Affected Systems" under Sections '' @ right_arrow @ '' Appendices to leave it out.''),
      pa_items = [(''Table: ''
      @ (ph ''affected_systems[*] (name, type, notes, added by, added at)'' ''auto'') @ '' ''
      @ (where_in (''Details '' @ right_arrow @ '' Affected systems'')))]\<rparr>,
     \<lparr>pa_title = ''Incident Timeline'', pa_included = (o_includeTimelineAppendix Q), pa_hint = (''Optional '' @ em_dash @ '' tick "Incident Timeline" under Sections '' @ right_arrow @ '' Appendices.''),
      pa_items = [(''Zig-zag timeline of every event: '' @ (ph ''timeline_events[*]'' ''auto'') @ '' ''
      @ (where_in ''Timeline tab''))]\<rparr>,
     \<lparr>pa_title = ''Case Notes'', pa_included = (\<not> is_exec Q \<and> included Q ''appendix_case_notes''), pa_hint = ''Full Technical Report only.'',
      pa_items = [(''Table: ''
      @ (ph (''case_notes[*] (each note'' @ sq @ ''s current revision: time first written, signature, text, links, SHA-256)'') ''auto'')
      @ '' '' @ (where_in ''Case notes''))]\<rparr>]\<close>

fun with_letters :: "nat \<Rightarrow> preview_appendix list \<Rightarrow> (preview_appendix \<times> string) list" where
  "with_letters n [] = []"
| "with_letters n (a # as) = (if pa_included a then (a, letter n) # with_letters (Suc n) as else (a, []) # with_letters n as)"

definition skeletonAppendices :: "report_opts \<Rightarrow> (preview_appendix \<times> string) list" where
  "skeletonAppendices Q = with_letters 0 (appendix_list Q)"

subsection \<open>The page\<close>

definition preview_shown :: "report_opts \<Rightarrow> (report_section \<times> preview_section) list" where
  "preview_shown Q = filter (\<lambda>(s, p). \<not> (is_exec Q \<and> rs_fullOnly s)) skeletonSections"

definition preview_omitted :: "report_opts \<Rightarrow> string list" where
  "preview_omitted Q = map (rs_title \<circ> fst) (filter (\<lambda>(s, p). is_exec Q \<and> rs_fullOnly s) skeletonSections)"

definition preview_unticked :: "report_opts \<Rightarrow> string list" where
  "preview_unticked Q = map (rs_title \<circ> fst) (filter (\<lambda>(s, p). \<not> included Q (rs_key s)) (preview_shown Q))"

definition preview_summary :: "report_opts \<Rightarrow> string" where
  \<open>preview_summary Q =
    (nl @ ''    <div class="sk-banner">'' @ nl @ ''      Structure preview '' @ middle_dot
      @ '' <strong>''
      @ esc_str (if (is_exec Q) then ''Executive Summary'' else ''Full Technical Report'')
      @ ''</strong>'' @ nl @ ''      ''
      @ (if (truthy (o_classification Q)) then ('' '' @ middle_dot @ '' '' @ esc (o_classification Q)) else [])
      @ nl @ ''      ''
      @ (if (truthy (o_audience Q)) then ('' '' @ middle_dot @ '' for '' @ esc (o_audience Q)) else [])
      @ nl @ ''      ''
      @ (if (is_exec Q) then (''<div style="margin-top:6px">Left out of the executive report: ''
      @ join ('' '' @ middle_dot @ '' '') (map esc_str (preview_omitted Q)) @ ''.</div>'') else [])
      @ nl @ ''      ''
      @ (if (preview_unticked Q \<noteq> []) then (''<div style="margin-top:6px">Unticked under "Sections": ''
      @ join ('' '' @ middle_dot @ '' '') (map esc_str (preview_unticked Q)) @ ''.</div>'') else [])
      @ nl @ ''      ''
      @ (if ((is_exec Q) \<and> (\<not> (o_includeInternalEvents Q))) then (''<div style="margin-top:6px">'' @ warning_sign @ '' Timeline-based parts only use events flagged <code>external_safe</code> (tick "Include internal-only events" to override).</div>'') else [])
      @ nl @ ''    </div>'' @ nl @ ''    <div class="legend">'' @ nl @ ''      <span>''
      @ (ph ''auto from incident data'' ''auto'') @ ''</span>'' @ nl @ ''      <span>''
      @ (ph ''your input on this page'' ''user'') @ ''</span>'' @ nl @ ''      <span>''
      @ (where_in ''where it is entered'') @ ''</span>'' @ nl @ ''    </div>'')\<close>

definition preview_cover :: "report_opts \<Rightarrow> string" where
  \<open>preview_cover Q =
    (nl @ ''    <div class="sk-section">'' @ nl @ ''      <h3>Cover '' @ middle_dot
      @ '' document control '' @ middle_dot @ '' stats bar</h3>'' @ nl @ ''      <ul>'' @ nl
      @ ''        <li>Title '' @ middle_dot @ '' severity '' @ middle_dot @ '' TLP '' @ middle_dot
      @ '' phase '' @ middle_dot @ '' status badges: ''
      @ (ph ''incident.title / severity / tlp / phase / status'' ''auto'') @ ''</li>'' @ nl
      @ ''        <li>Document control: classification '' @ middle_dot @ '' severity ''
      @ middle_dot @ '' '' @ (ph ''incident.nciss_severity'' ''auto'') @ '' ('' @ NCISS_TITLE
      @ '') '' @ middle_dot @ '' phase '' @ middle_dot @ '' counts '' @ middle_dot
      @ '' report type</li>'' @ nl @ ''        <li>Logo: ''
      @ (ph (''Branding '' @ right_arrow @ '' Company logo'') ''user'') @ ''</li>'' @ nl
      @ ''        <li>Incident ID: '' @ (ph ''incident.ref (e.g. INC-2026-00009)'' ''auto'')
      @ '' '' @ middle_dot @ '' Opened: '' @ (ph ''incident.created_at'' ''auto'') @ '' ''
      @ middle_dot @ '' Closed: '' @ (ph ''incident.closed_at'' ''auto'')
      @ '' <span class="static">("Not closed" while open)</span> '' @ middle_dot
      @ '' Generated: '' @ (ph ''report time'' ''auto'') @ ''</li>'' @ nl
      @ ''        <li>Classification: ''
      @ (ph (''Advanced options '' @ right_arrow @ '' Classification marking'') ''user'')
      @ '' or fallback '' @ (ph ''incident.tlp'' ''auto'') @ ''</li>'' @ nl
      @ ''        <li>Counts''
      @ (if (included Q ''kpis'') then [] else ('' <span class="sk-tag">unticked '' @ em_dash @ '' not printed</span>''))
      @ '': ''
      @ (ph (''timeline events '' @ middle_dot @ '' IOCs (malicious) '' @ middle_dot @ '' entities '' @ middle_dot @ '' evidence items '' @ middle_dot @ '' playbook %'') ''auto'')
      @ ''</li>'' @ nl @ ''      </ul>'' @ nl @ ''    </div>'')\<close>

definition preview_section_html :: "nat \<Rightarrow> report_section \<Rightarrow> preview_section \<Rightarrow> string" where
  \<open>preview_section_html n s p =
    (nl @ ''      <div class="sk-section">'' @ nl @ ''        <h3><span class="sk-num">''
      @ section_sign @ '' '' @ (pad2_num n) @ ''</span>'' @ esc_str (rs_title s)
      @ (if (rs_fullOnly s) then ''<span class="sk-tag">full report only</span>'' else [])
      @ ''</h3>'' @ nl @ ''        <p class="sk-csf">NIST CSF 2.0: ''
      @ join ('' '' @ middle_dot @ '' '') (map esc_str (rs_csf s)) @ ''</p>'' @ nl @ ''        ''
      @ (if ((ps_conditional p) \<noteq> []) then (''<p class="sk-cond">'' @ esc_str (ps_conditional p) @ ''</p>'') else [])
      @ nl @ ''        <ul>''
      @ concat (map (\<lambda>item. ''<li>'' @ item @ ''</li>'') (filter (\<lambda>x. x \<noteq> []) (ps_items p)))
      @ ''</ul>'' @ nl @ ''      </div>'')\<close>

definition preview_excluded_html :: "report_section \<Rightarrow> string" where
  \<open>preview_excluded_html s =
    (nl @ ''      <div class="sk-section excluded">'' @ nl
      @ ''        <span class="excluded-badge">Not included</span>'' @ nl @ ''        <h3>''
      @ esc_str (rs_title s) @ ''</h3>'' @ nl
      @ ''        <p class="sk-cond">Unticked under Sections.</p>'' @ nl @ ''      </div>'')\<close>

fun preview_rows :: "(string \<Rightarrow> bool) \<Rightarrow> nat \<Rightarrow> (report_section \<times> preview_section) list \<Rightarrow> (nat option \<times> report_section \<times> preview_section) list" where
  "preview_rows inc n [] = []"
| "preview_rows inc n ((s, p) # ss) =
     (if inc (rs_key s) then (Some (n + 1), s, p) # preview_rows inc (n + 1) ss else (None, s, p) # preview_rows inc n ss)"

definition preview_row_html :: "nat option \<times> report_section \<times> preview_section \<Rightarrow> string" where
  "preview_row_html r = (case r of (Some n, s, p) \<Rightarrow> preview_section_html n s p | (None, s, p) \<Rightarrow> preview_excluded_html s)"

definition preview_sections :: "report_opts \<Rightarrow> string" where
  "preview_sections Q = concat (map preview_row_html (preview_rows (included Q) 0 (preview_shown Q)))"

definition preview_appendix_html :: "preview_appendix \<Rightarrow> string \<Rightarrow> string" where
  \<open>preview_appendix_html a x =
    (nl @ ''      <div class="sk-section'' @ (if (pa_included a) then [] else '' excluded'')
      @ ''">'' @ nl @ ''        ''
      @ (if (pa_included a) then [] else ''<span class="excluded-badge">Not included</span>'')
      @ nl @ ''        <h3>''
      @ (if (pa_included a) then (''<span class="sk-num">'' @ x @ ''</span>Appendix '' @ x @ '' '' @ em_dash
      @ '' '') else (''Appendix '' @ em_dash @ '' ''))
      @ esc_str (pa_title a) @ ''</h3>'' @ nl @ ''        <p class="sk-csf">NIST CSF 2.0: ''
      @ join ('' '' @ middle_dot @ '' '') (map esc_str (appendix_csf (pa_title a))) @ ''</p>''
      @ nl @ ''        ''
      @ (if ((pa_hint a) \<noteq> []) then (''<p class="sk-cond">'' @ esc_str (pa_hint a) @ ''</p>'') else [])
      @ nl @ ''        <ul>''
      @ concat (map (\<lambda>item. ''<li>'' @ item @ ''</li>'') (pa_items a)) @ ''</ul>'' @ nl
      @ ''      </div>'')\<close>

definition preview_appendices :: "report_opts \<Rightarrow> string" where
  "preview_appendices Q = concat (map (\<lambda>(a, x). preview_appendix_html a x) (skeletonAppendices Q))"

definition generateSkeleton :: "report_opts \<Rightarrow> string" where
  \<open>generateSkeleton Q =
    (''<!DOCTYPE html>'' @ nl @ ''<html lang="en"><head><meta charset="utf-8">'' @ nl
      @ ''<title>Report structure preview</title>'' @ nl @ ''<style>'' @ SKELETON_CSS
      @ ''</style>'' @ nl @ ''</head><body>'' @ nl @ ''<h1>Report Structure</h1>'' @ nl
      @ ''<p style="color:#8888aa;font-size:12px;margin-top:0">What the analyst sees on Preview / Download ''
      @ em_dash @ '' every coloured pill is a field the system fills in for you.</p>'' @ nl
      @ (preview_summary Q) @ nl @ (preview_cover Q) @ nl @ (preview_sections Q) @ nl
      @ (preview_appendices Q) @ nl @ ''<div class="meta">Footer: ''
      @ (if (truthy (o_footer Q)) then (''<span class="static">"'' @ esc (o_footer Q) @ ''"</span>'') else (ph (''Branding '' @ right_arrow @ '' Footer text'') ''user''))
      @ '' '' @ middle_dot @ '' incident UUID '' @ middle_dot @ '' generation time '' @ middle_dot
      @ '' TLP '' @ middle_dot @ '' SHA-256 integrity hash</div>'' @ nl @ ''</body></html>'')\<close>

end
