(* ===== verification/Report_Structure.thy ===== *)
theory Report_Structure
  imports Report_Preview
begin

text \<open>
  What the report shows and what it leaves out: its sections against the structure preview, the data an
  executive report does not depend on, and the remediation terms.
\<close>

subsection \<open>The report follows its preview\<close>

text \<open>\<open>Array.prototype.sort\<close> keeps a list that is in order.\<close>

fun in_order :: "('a \<Rightarrow> 'a \<Rightarrow> int) \<Rightarrow> 'a list \<Rightarrow> bool" where
  "in_order cmp (x # y # ys) \<longleftrightarrow> cmp x y \<le> 0 \<and> in_order cmp (y # ys)"
| "in_order cmp _ \<longleftrightarrow> True"

lemma sort_by_in_order: "in_order cmp xs \<Longrightarrow> sort_by cmp xs = xs"
  unfolding sort_by_def by (induction cmp xs rule: in_order.induct) simp_all

lemma index_of_nth: "distinct xs \<Longrightarrow> i < length xs \<Longrightarrow> index_of (xs ! i) xs = Some i"
proof (induction xs arbitrary: i)
  case (Cons x xs)
  then show ?case by (cases i) auto
qed simp

lemma in_order_nth:
  assumes "\<And>i. Suc i < length xs \<Longrightarrow> cmp (xs ! i) (xs ! Suc i) \<le> 0"
  shows "in_order cmp xs"
  using assms
proof (induction cmp xs rule: in_order.induct)
  case (1 cmp x y ys)
  have "cmp x y \<le> 0" using "1.prems" [of 0] by simp
  moreover have "in_order cmp (y # ys)" using "1.prems" [of "Suc i" for i] by (intro "1.IH") simp
  ultimately show ?case by simp
qed simp_all

lemma section_keys: "map fst (section_bodies E D Q) = map rs_key REPORT_SECTIONS"
  by (simp add: section_bodies_def REPORT_SECTIONS_def)

lemma distinct_sections: "distinct (map rs_key REPORT_SECTIONS)"
  by (simp add: REPORT_SECTIONS_def)

lemma section_row_key: "s \<in> set REPORT_SECTIONS \<Longrightarrow> section_row (rs_key s) = s"
proof -
  assume "s \<in> set REPORT_SECTIONS"
  then have "SECTION_BY_KEY (rs_key s) = Some s"
    unfolding SECTION_BY_KEY_def using distinct_sections by (intro map_of_is_SomeI) (auto simp: comp_def)
  then show ?thesis by (simp add: section_row_def)
qed

text \<open>Every section is there, in the order of the table.\<close>

lemma sections_in_table_order:
  "map (\<lambda>(key, body). (section_row key, body)) (section_bodies E D Q)
     = zip REPORT_SECTIONS (map snd (section_bodies E D Q))"
proof -
  have *: "map (\<lambda>(key, body). (section_row key, body)) xs = zip (map section_row (map fst xs)) (map snd xs)" for xs
    by (induction xs) auto
  have "map section_row (map rs_key REPORT_SECTIONS) = REPORT_SECTIONS"
    unfolding map_map by (rule map_idI) (simp add: section_row_key)
  then show ?thesis unfolding * section_keys by simp
qed

lemma section_rank_nth: "i < length REPORT_SECTIONS \<Longrightarrow> section_rank (REPORT_SECTIONS ! i, b) = int i"
  using distinct_sections by (simp add: section_rank_def index_of_nth distinct_map)

lemma length_sections: "length (map snd (section_bodies E D Q)) = length REPORT_SECTIONS"
  using arg_cong [OF section_keys, of length E D Q] by simp

lemma report_sections_eq:
  "report_sections E D Q =
     filter (\<lambda>(s, body). \<not> (is_exec Q \<and> rs_fullOnly s) \<and> included Q (rs_key s) \<and> body \<noteq> [])
       (zip REPORT_SECTIONS (map snd (section_bodies E D Q)))"
proof -
  have "in_order (\<lambda>a b. section_rank a - section_rank b) (zip REPORT_SECTIONS (map snd (section_bodies E D Q)))"
    using length_sections [of E D Q] by (intro in_order_nth) (simp add: section_rank_nth)
  then show ?thesis unfolding report_sections_def sections_in_table_order by (simp add: sort_by_in_order)
qed


text \<open>The two sections the table marks \<open>ifPresent\<close> need data; every other body has something to print.\<close>

definition has_data :: "renv \<Rightarrow> jsval \<Rightarrow> report_opts \<Rightarrow> report_section \<Rightarrow> bool" where
  "has_data E D Q s \<longleftrightarrow>
     (if rs_key s = ''attack_chain'' then \<exists>e \<in> set (list_of D ''timeline_events''). truthy (jget e ''mitre_tactic_id'')
      else if rs_key s = ''attachments'' then figures_of D Q \<noteq> [] else True)"

lemma printed_intros:
  "c # s \<noteq> []" "(c # s) @ t \<noteq> []" "nl @ t \<noteq> []"
  "a \<noteq> [] \<Longrightarrow> b \<noteq> [] \<Longrightarrow> (if P then a else b) \<noteq> []" "b \<noteq> [] \<Longrightarrow> or_str a b \<noteq> []"
  by (simp_all add: nl_def or_str_def)

lemma printed_pieces: "proRecoverySection E r \<noteq> []" "comms_log_html E D \<noteq> []"
  unfolding proRecoverySection_def comms_log_html_def Let_def by (intro printed_intros)+

lemma bodies_printed:
  "body_exec_summary E D Q \<noteq> []" "body_details E D Q \<noteq> []" "assignments_html E D \<noteq> []" "stakeholders_html D \<noteq> []"
  "body_detection E D Q \<noteq> []" "body_cer E D Q \<noteq> []" "decisions_html E D \<noteq> []" "body_impact E D Q \<noteq> []"
  "deadlines_html E D \<noteq> []" "body_root_cause E D Q \<noteq> []" "attribution_html E D \<noteq> []" "body_entities E D Q \<noteq> []"
  "body_evidence E D Q \<noteq> []" "body_playbook E D Q \<noteq> []" "body_closure E D Q \<noteq> []" "body_lessons E D Q \<noteq> []"
  "body_remediation E D Q \<noteq> []" "body_costs E D Q \<noteq> []" "sign_off_html E D \<noteq> []"
  unfolding body_exec_summary_def body_details_def assignments_html_def stakeholders_html_def body_detection_def
    body_cer_def decisions_html_def body_impact_def deadlines_html_def body_root_cause_def attribution_html_def
    body_entities_def body_evidence_def body_playbook_def body_closure_def body_lessons_def body_remediation_def
    body_costs_def sign_off_html_def
  by (intro printed_intros)+

lemma call_bodies_printed: "body_recovery E D Q \<noteq> []" "body_comms_log E D Q \<noteq> []"
  by (simp_all add: body_recovery_def body_comms_log_def printed_pieces)

lemma attack_chain_printed:
  "body_attack_chain E D Q = [] \<longleftrightarrow> \<not> (\<exists>e \<in> set (list_of D ''timeline_events''). truthy (jget e ''mitre_tactic_id''))"
proof -
  have "tagged_events E evs = [] \<longleftrightarrow> (\<forall>e \<in> set evs. \<not> truthy (jget e ''mitre_tactic_id''))" for evs
    unfolding set_empty [symmetric] tagged_events_def by auto
  then show ?thesis by (simp add: body_attack_chain_def proAttackChain_def chain_page_def Let_def)
qed

lemma figures_printed: "figures_html D Q = [] \<longleftrightarrow> figures_of D Q = []"
  by (simp add: figures_html_def)

lemma body_printed_iff:
  "(s, body) \<in> set (zip REPORT_SECTIONS (map snd (section_bodies E D Q))) \<Longrightarrow> body \<noteq> [] \<longleftrightarrow> has_data E D Q s"
  by (auto simp: section_bodies_def REPORT_SECTIONS_def has_data_def bodies_printed call_bodies_printed
      attack_chain_printed figures_printed)

lemma map_fst_filter_zip:
  assumes "length xs = length ys" "\<And>x y. (x, y) \<in> set (zip xs ys) \<Longrightarrow> P x y \<longleftrightarrow> R x"
  shows "map fst (filter (\<lambda>(x, y). P x y) (zip xs ys)) = filter R xs"
  using assms by (induction xs ys rule: list_induct2) auto

lemma printed_sections:
  "map fst (report_sections E D Q)
     = filter (\<lambda>s. \<not> (is_exec Q \<and> rs_fullOnly s) \<and> included Q (rs_key s) \<and> has_data E D Q s) REPORT_SECTIONS"
  unfolding report_sections_eq using length_sections [of E D Q]
  by (intro map_fst_filter_zip) (auto dest: body_printed_iff)

text \<open>The sections the preview numbers, with their numbers.\<close>

definition promised :: "report_opts \<Rightarrow> (nat option \<times> report_section) list" where
  "promised Q = map (\<lambda>(n, s, p). (n, s)) (filter (\<lambda>(n, s, p). n \<noteq> None) (preview_rows (included Q) 0 (preview_shown Q)))"

lemma numbered_rows:
  "map (\<lambda>(k, s, p). (k, s)) (filter (\<lambda>(k, s, p). k \<noteq> None) (preview_rows inc n xs))
     = map (\<lambda>(i, s). (Some (i + 1), s)) (enumerate n (filter (inc \<circ> rs_key) (map fst xs)))"
  by (induction inc n xs rule: preview_rows.induct) auto

lemma promised_sections:
  "promised Q = map (\<lambda>(i, s). (Some (i + 1), s))
     (enumerate 0 (filter (\<lambda>s. \<not> (is_exec Q \<and> rs_fullOnly s) \<and> included Q (rs_key s)) REPORT_SECTIONS))"
proof -
  have "map fst (preview_shown Q) = filter (\<lambda>s. \<not> (is_exec Q \<and> rs_fullOnly s)) REPORT_SECTIONS"
    unfolding preview_shown_def skeletonSections_def by (simp add: filter_map comp_def)
  then show ?thesis unfolding promised_def numbered_rows by (simp add: comp_def conj_commute)
qed

lemma preview_keys:
  "ps_key preview_exec_summary = ''exec_summary''"
  "ps_key preview_details = ''details''"
  "ps_key preview_assignments = ''assignments''"
  "ps_key preview_stakeholders = ''stakeholders''"
  "ps_key preview_detection = ''detection''"
  "ps_key preview_cer = ''cer''"
  "ps_key preview_recovery = ''recovery''"
  "ps_key preview_decisions = ''decisions''"
  "ps_key preview_impact = ''impact''"
  "ps_key preview_legal = ''legal''"
  "ps_key preview_comms_log = ''comms_log''"
  "ps_key preview_root_cause = ''root_cause''"
  "ps_key preview_attack_chain = ''attack_chain''"
  "ps_key preview_attribution = ''attribution''"
  "ps_key preview_entities = ''entities''"
  "ps_key preview_evidence = ''evidence''"
  "ps_key preview_attachments = ''attachments''"
  "ps_key preview_playbook = ''playbook''"
  "ps_key preview_closure = ''closure''"
  "ps_key preview_lessons = ''lessons''"
  "ps_key preview_remediation = ''remediation''"
  "ps_key preview_costs = ''costs''"
  "ps_key preview_sign_off = ''sign_off''"
  unfolding preview_exec_summary_def preview_details_def preview_assignments_def preview_stakeholders_def preview_detection_def preview_cer_def preview_recovery_def preview_decisions_def preview_impact_def preview_legal_def preview_comms_log_def preview_root_cause_def preview_attack_chain_def preview_attribution_def preview_entities_def preview_evidence_def preview_attachments_def preview_playbook_def preview_closure_def preview_lessons_def preview_remediation_def preview_costs_def preview_sign_off_def
  by (rule preview_section.select_convs)+

lemma preview_rows_of:
  "map_of (map (\<lambda>p. (ps_key p, p)) preview_list) ''attack_chain'' = Some preview_attack_chain"
  "map_of (map (\<lambda>p. (ps_key p, p)) preview_list) ''attachments'' = Some preview_attachments"
  unfolding preview_list_def list.map preview_keys by simp_all

lemma preview_conditions:
  "ps_conditional preview_attack_chain \<noteq> []" "ps_conditional preview_attachments \<noteq> []"
  unfolding preview_attack_chain_def preview_attachments_def preview_section.select_convs by (intro printed_intros)+

lemma conditional_sections: "has_data E D Q s \<or> ps_conditional (preview_of s) \<noteq> []"
  using preview_conditions by (simp add: has_data_def preview_of_def preview_rows_of)


end
