(* ===== verification/Report_Privacy.thy ===== *)
theory Report_Privacy
  imports Report_Structure "HOL-Library.Multiset"
begin

text \<open>
  What the executive report does not depend on, the terms of the remediation plan and the cost totals.
\<close>

subsection \<open>Data an executive report does not print\<close>

text \<open>The fields only sections outside the executive report read.\<close>

definition full_only_fields :: "string list" where
  "full_only_fields = [''case_notes'', ''oob_log'', ''stakeholder_notifications'', ''respond_actions'', ''recovery'',
     ''evidence_items'']"

text \<open>Of the indicators only their number is printed, of the playbook only its progress, of the review
  everything but the minutes of its meeting.\<close>

definition partly_printed :: "string list" where
  "partly_printed = [''timeline_events'', ''iocs'', ''lessons_learned'']"

definition same_review :: "jsval \<Rightarrow> jsval \<Rightarrow> bool" where
  "same_review r r' \<longleftrightarrow> r = r' \<or> truthy r \<and> truthy r' \<and> (\<forall>f. f \<noteq> ''meeting_minutes'' \<longrightarrow> jget r f = jget r' f)"

definition same_for_executives :: "jsval \<Rightarrow> jsval \<Rightarrow> bool" where
  "same_for_executives D D' \<longleftrightarrow>
     (\<forall>f. f \<notin> set full_only_fields \<and> f \<notin> set partly_printed \<longrightarrow> jget D f = jget D' f)
     \<and> truthy D = truthy D'
     \<and> list_of D ''timeline_events'' = list_of D' ''timeline_events''
     \<and> length (list_of D ''iocs'') = length (list_of D' ''iocs'') \<and> malicious_iocs D = malicious_iocs D'
     \<and> same_review (ll_of D) (ll_of D')"

lemma same_fields:
  assumes "same_for_executives D D'"
  shows "inc_of D = inc_of D'" "bia_of D = bia_of D'" "ev_of D = ev_of D'" "closure_of D = closure_of D'"
    "jget D ''generated_at'' = jget D' ''generated_at''"
    "list_of D ''timeline_events'' = list_of D' ''timeline_events''" "length (list_of D ''iocs'') = length (list_of D' ''iocs'')"
    "malicious_iocs D = malicious_iocs D'"
    "list_of D ''affected_systems'' = list_of D' ''affected_systems''" "list_of D ''assignments'' = list_of D' ''assignments''"
    "list_of D ''attributions'' = list_of D' ''attributions''" "list_of D ''closure_checklist'' = list_of D' ''closure_checklist''"
    "list_of D ''costs'' = list_of D' ''costs''" "list_of D ''decisions'' = list_of D' ''decisions''"
    "list_of D ''entities'' = list_of D' ''entities''" "list_of D ''gate_sign_offs'' = list_of D' ''gate_sign_offs''"
    "list_of D ''playbook_tasks'' = list_of D' ''playbook_tasks''"
    "list_of D ''regulatory_deadlines'' = list_of D' ''regulatory_deadlines''"
    "list_of D ''report_files'' = list_of D' ''report_files''" "list_of D ''sign_offs'' = list_of D' ''sign_offs''"
    "list_of D ''stakeholders'' = list_of D' ''stakeholders''"
proof -
  have f: "jget D f = jget D' f" if "f \<notin> set full_only_fields" "f \<notin> set partly_printed" for f
    using assms that by (simp add: same_for_executives_def)
  have l: "list_of D f = list_of D' f" if "f \<notin> set full_only_fields" "f \<notin> set partly_printed" for f
    using f [OF that] by (simp add: list_of_def)
  have t: "truthy D = truthy D'" using assms by (simp add: same_for_executives_def)
  show "inc_of D = inc_of D'"
    using t f [of "''incident''"] by (auto simp: inc_of_def jand_def jor_def full_only_fields_def partly_printed_def)
  show "bia_of D = bia_of D'" "ev_of D = ev_of D'" "closure_of D = closure_of D'"
    "jget D ''generated_at'' = jget D' ''generated_at''"
    by (simp_all add: bia_of_def ev_of_def closure_of_def f full_only_fields_def partly_printed_def)
  show "list_of D ''affected_systems'' = list_of D' ''affected_systems''" "list_of D ''assignments'' = list_of D' ''assignments''"
    "list_of D ''attributions'' = list_of D' ''attributions''" "list_of D ''closure_checklist'' = list_of D' ''closure_checklist''"
    "list_of D ''costs'' = list_of D' ''costs''" "list_of D ''decisions'' = list_of D' ''decisions''"
    "list_of D ''entities'' = list_of D' ''entities''" "list_of D ''gate_sign_offs'' = list_of D' ''gate_sign_offs''"
    "list_of D ''playbook_tasks'' = list_of D' ''playbook_tasks''"
    "list_of D ''regulatory_deadlines'' = list_of D' ''regulatory_deadlines''"
    "list_of D ''report_files'' = list_of D' ''report_files''" "list_of D ''sign_offs'' = list_of D' ''sign_offs''"
    "list_of D ''stakeholders'' = list_of D' ''stakeholders''"
    by (rule l; simp add: full_only_fields_def partly_printed_def)+
qed (use assms in \<open>simp_all add: same_for_executives_def\<close>)

lemma same_review_fields:
  assumes "same_for_executives D D'"
  shows "truthy (ll_of D) = truthy (ll_of D')" "jand (ll_of D) x = jand (ll_of D') x"
    "jget (ll_of D) ''action_items'' = jget (ll_of D') ''action_items''"
    "jget (ll_of D) ''contributing_factors'' = jget (ll_of D') ''contributing_factors''"
    "jget (ll_of D) ''control_improvements'' = jget (ll_of D') ''control_improvements''"
    "jget (ll_of D) ''friction_points'' = jget (ll_of D') ''friction_points''"
    "jget (ll_of D) ''incident_narrative'' = jget (ll_of D') ''incident_narrative''"
    "jget (ll_of D) ''report_remediation_long'' = jget (ll_of D') ''report_remediation_long''"
    "jget (ll_of D) ''report_remediation_medium'' = jget (ll_of D') ''report_remediation_medium''"
    "jget (ll_of D) ''report_remediation_short'' = jget (ll_of D') ''report_remediation_short''"
    "jget (ll_of D) ''report_security_recommendations'' = jget (ll_of D') ''report_security_recommendations''"
    "jget (ll_of D) ''report_what_could_improve'' = jget (ll_of D') ''report_what_could_improve''"
    "jget (ll_of D) ''report_what_worked_well'' = jget (ll_of D') ''report_what_worked_well''"
    "jget (ll_of D) ''root_cause_category'' = jget (ll_of D') ''root_cause_category''"
    "jget (ll_of D) ''root_cause_description'' = jget (ll_of D') ''root_cause_description''"
    "jget (ll_of D) ''what_went_well'' = jget (ll_of D') ''what_went_well''"
  using assms by (auto simp: same_for_executives_def same_review_def jand_def)

lemma same_derived:
  assumes "same_for_executives D D'"
  shows "sev_of D = sev_of D'" "tlp_of D = tlp_of D'" "tlp_upper D = tlp_upper D'" "tlp_message D = tlp_message D'"
    "class_display D Q = class_display D' Q" "generated_at E D = generated_at E D'" "anchor_iso E D = anchor_iso E D'"
    "figures_of D Q = figures_of D' Q" "task_pct D = task_pct D'" "bucket b E D = bucket b E D'"
    "mitre_rows E D = mitre_rows E D'" "entity_rows D = entity_rows D'" "closure_items D = closure_items D'"
    "legal_card D = legal_card D'" "cost_totals E D = cost_totals E D'" "cost_cards E D = cost_cards E D'"
  by (simp_all only: sev_of_def tlp_of_def tlp_upper_def tlp_message_def class_display_def generated_at_def anchor_iso_def
      figures_of_def task_pct_def bucket_def bucket_of_def action_items_def mitre_rows_def entity_rows_def
      closure_items_def legal_card_def legal_obligations_def cost_totals_def cost_cards_def cost_curs_def cost_by_cur_def
      cost_by_cat_def same_fields [OF assms] same_review_fields [OF assms])

lemma same_bodies:
  assumes "same_for_executives D D'"
  shows "body_exec_summary E D Q = body_exec_summary E D' Q" "body_details E D Q = body_details E D' Q"
    "assignments_html E D = assignments_html E D'" "stakeholders_html D = stakeholders_html D'"
    "decisions_html E D = decisions_html E D'" "body_impact E D Q = body_impact E D' Q"
    "deadlines_html E D = deadlines_html E D'" "body_root_cause E D Q = body_root_cause E D' Q"
    "body_attack_chain E D Q = body_attack_chain E D' Q" "attribution_html E D = attribution_html E D'"
    "body_entities E D Q = body_entities E D' Q" "figures_html D Q = figures_html D' Q"
    "body_closure E D Q = body_closure E D' Q" "body_remediation E D Q = body_remediation E D' Q"
    "body_costs E D Q = body_costs E D' Q" "sign_off_html E D = sign_off_html E D'"
    "affected_html E D = affected_html E D'" "timeline_body E D = timeline_body E D'"
  unfolding body_exec_summary_def body_details_def assignments_html_def stakeholders_html_def decisions_html_def
    body_impact_def deadlines_html_def body_root_cause_def body_attack_chain_def attribution_html_def body_entities_def
    figures_html_def body_closure_def body_remediation_def body_costs_def sign_off_html_def affected_html_def timeline_body_def
    same_fields [OF assms] same_review_fields [OF assms] same_derived [OF assms]
  by (rule refl)+

lemma same_lessons:
  assumes "same_for_executives D D'" "is_exec Q"
  shows "body_lessons E D Q = body_lessons E D' Q"
  unfolding body_lessons_def same_fields [OF assms(1)] same_review_fields [OF assms(1)]
  using assms(2) by simp

lemma executive_sections:
  assumes "same_for_executives D D'" "is_exec Q"
  shows "report_sections E D Q = report_sections E D' Q"
proof -
  define kept where "kept x = filter (\<lambda>(s, body). \<not> rs_fullOnly s) (zip REPORT_SECTIONS (map snd (section_bodies E x Q)))" for x
  have *: "report_sections E x Q = filter (\<lambda>(s, body). included Q (rs_key s) \<and> body \<noteq> []) (kept x)" for x
    unfolding report_sections_eq kept_def filter_filter using assms(2) by (intro arg_cong2 [where f = filter]) auto
  have "kept D = kept D'"
    unfolding kept_def section_bodies_def REPORT_SECTIONS_def
    by (simp add: same_bodies [OF assms(1)] same_lessons [OF assms])
  then show ?thesis unfolding * by simp
qed

lemma executive_appendices:
  assumes "same_for_executives D D'" "is_exec Q"
  shows "report_appendices E D Q = report_appendices E D' Q"
  using assms(2) by (simp add: report_appendices_def same_bodies [OF assms(1)])

lemma executive_page:
  assumes "same_for_executives D D'" "is_exec Q"
  shows "generateProReport E D Q = generateProReport E D' Q"
proof -
  have "page_css D Q = page_css D' Q"
    unfolding page_css_def css_1_def css_2_def css_3_def css_4_def css_5_def css_vars_def same_derived [OF assms(1)] by (rule refl)
  moreover have "page_head E D Q = page_head E D' Q" "page_footer E D Q = page_footer E D' Q"
    unfolding page_head_def page_footer_def same_derived [OF assms(1)] same_fields [OF assms(1)] by (rule refl)+
  moreover have "sections_html E D Q = sections_html E D' Q" "appendices_html E D Q = appendices_html E D' Q"
    unfolding sections_html_def appendices_html_def by (simp_all only: executive_sections [OF assms] executive_appendices [OF assms])
  ultimately show ?thesis
    unfolding generateProReport_def page_body_def same_fields [OF assms(1)] by simp
qed

lemma list_of_filtered:
  "list_of (JObj (obj_set kvs ''timeline_events'' (JArr evs))) f = (if f = ''timeline_events'' then evs else list_of (JObj kvs) f)"
  by (simp add: list_of_def jor_def)

text \<open>C12: An executive report without internal events never shows what belongs to the full report only. Two
  incidents that differ only in case notes, the out-of-band log, stakeholder notifications, response actions,
  recovery, exhibits, review minutes, internal-only events and the contents of the indicators give the same
  document, letter for letter.\<close>

theorem executive_report_hides:
  assumes "o_mode Q = ''executive''" "\<not> o_includeInternalEvents Q" "D = JObj kvs" "D' = JObj kvs'"
    and "\<forall>f. f \<notin> set full_only_fields \<and> f \<notin> set partly_printed \<longrightarrow> jget D f = jget D' f"
    and "external_events D = external_events D'"
    and "length (list_of D ''iocs'') = length (list_of D' ''iocs'')" "malicious_iocs D = malicious_iocs D'"
    and "same_review (ll_of D) (ll_of D')"
  shows "generateReport E D Q = generateReport E D' Q"
proof -
  have exec: "is_exec Q" "is_exec (Q\<lparr>o_templateId := t\<rparr>)" for t using assms(1) by (simp_all add: is_exec_def)
  have filtered: "filtered_data D Q = JObj (obj_set kvs ''timeline_events'' (JArr (external_events D)))"
    "filtered_data D' Q = JObj (obj_set kvs' ''timeline_events'' (JArr (external_events D')))"
    using assms(2-4) exec by (simp_all add: filtered_data_def)
  have "same_for_executives (filtered_data D Q) (filtered_data D' Q)"
    unfolding filtered same_for_executives_def ll_of_def malicious_iocs_def list_of_filtered
    using assms(3-9) by (simp add: ll_of_def malicious_iocs_def partly_printed_def)
  then show ?thesis unfolding generateReport_def by (rule executive_page) (rule exec)
qed

definition exec_opts :: report_opts where
  "exec_opts = \<lparr>o_templateId = ''executive'', o_mode = ''executive'', o_logo = JNull, o_footer = JStr [], o_classification = JStr [],
     o_audience = JStr [], o_includeTimelineAppendix = True, o_includeInternalEvents = False, o_sections = JObj [], o_figures = JNull\<rparr>"

definition quiet_incident :: jsval where
  "quiet_incident = JObj [(''incident'', JObj [(''title'', JStr ''Phish'')]),
     (''timeline_events'', JArr [JObj [(''description'', JStr ''Mail opened'')]])]"

definition noted_incident :: jsval where
  "noted_incident = JObj [(''incident'', JObj [(''title'', JStr ''Phish'')]),
     (''timeline_events'', JArr [JObj [(''description'', JStr ''Source named us'' ), (''external_safe'', JBool False)],
        JObj [(''description'', JStr ''Mail opened'')]]),
     (''case_notes'', JArr [JObj [(''body'', JStr ''Suspect: J. Doe'')]]),
     (''oob_log'', JArr [JObj [(''summary'', JStr ''Called the CFO'')]])]"

lemma executive_report_hides_witness:
  "quiet_incident \<noteq> noted_incident \<and> (\<forall>E. generateReport E quiet_incident exec_opts = generateReport E noted_incident exec_opts)"
proof -
  have "external_events quiet_incident = external_events noted_incident"
    by (simp add: external_events_def list_of_def jor_def quiet_incident_def noted_incident_def)
  moreover have "\<forall>f. f \<notin> set full_only_fields \<and> f \<notin> set partly_printed \<longrightarrow> jget quiet_incident f = jget noted_incident f"
    by (simp add: quiet_incident_def noted_incident_def full_only_fields_def partly_printed_def)
  ultimately have "generateReport E quiet_incident exec_opts = generateReport E noted_incident exec_opts" for E
    by (intro executive_report_hides [OF _ _ quiet_incident_def noted_incident_def])
      (simp_all add: exec_opts_def quiet_incident_def noted_incident_def list_of_def jor_def malicious_iocs_def ll_of_def same_review_def)
  then show ?thesis by (simp add: quiet_incident_def noted_incident_def)
qed

subsection \<open>The remediation terms\<close>

definition terms :: "string list" where
  "terms = [''short'', ''medium'', ''long'', ''none'']"

lemma bucket_of_terms: "bucket_of E D it \<in> set terms"
  by (auto simp: bucket_of_def terms_def Let_def split: option.splits)

lemma mset_class_Cons:
  "distinct ks \<Longrightarrow> mset (concat (map (\<lambda>k. if f x = k then x # g k else g k) ks))
     = mset (concat (map g ks)) + (if f x \<in> set ks then {#x#} else {#})"
  by (induction ks) auto

lemma mset_filter_classes:
  "distinct ks \<Longrightarrow> (\<And>x. x \<in> set xs \<Longrightarrow> f x \<in> set ks) \<Longrightarrow> mset (concat (map (\<lambda>k. filter (\<lambda>x. f x = k) xs) ks)) = mset xs"
  by (induction xs) (simp_all add: mset_class_Cons [where f = f])

text \<open>The remediation plan lists every action item under exactly one term, in the order of the review; and the
  terms of a closed incident never change: they do not depend on when the report is made.\<close>

theorem remediation_terms_stable:
  assumes "D = JObj kvs" "truthy (jget (inc_of D) ''closed_at'')"
  shows "mset (concat (map (\<lambda>t. bucket t E D) terms)) = mset (action_items D)
    \<and> bucket t (E\<lparr>r_now := now\<rparr>) D = bucket t E D
    \<and> bucket t E (JObj (obj_set kvs ''generated_at'' g)) = bucket t E D"
proof (intro conjI)
  show "mset (concat (map (\<lambda>t. bucket t E D) terms)) = mset (action_items D)"
    unfolding bucket_def
  proof (rule mset_filter_classes)
    show "distinct terms" by (simp add: terms_def)
  qed (rule bucket_of_terms)
  have anchor: "anchor_iso E' D' = jget (inc_of D) ''closed_at''" if "inc_of D' = inc_of D" for E' D'
    using assms(2) that by (simp add: anchor_iso_def jor_def)
  have "date_ms (E\<lparr>r_now := now\<rparr>) v = date_ms E v" for v by (cases v) (simp_all add: date_ms_def)
  then show "bucket t (E\<lparr>r_now := now\<rparr>) D = bucket t E D"
    by (simp only: bucket_def bucket_of_def anchor)
  have "inc_of (JObj (obj_set kvs ''generated_at'' g)) = inc_of D" "ll_of (JObj (obj_set kvs ''generated_at'' g)) = ll_of D"
    using assms(1) by (simp_all add: inc_of_def ll_of_def jand_def)
  then show "bucket t E (JObj (obj_set kvs ''generated_at'' g)) = bucket t E D"
    by (simp only: bucket_def bucket_of_def anchor action_items_def)
qed

definition reviewed_incident :: "(string \<times> jsval) list" where
  "reviewed_incident = [(''incident'', JObj [(''closed_at'', JStr ''2025-03-01T00:00:00Z'')]),
     (''lessons_learned'', JObj [(''action_items'', JArr [JObj [(''title'', JStr ''Patch''), (''due_date'', JStr ''2025-03-11'')],
        JObj [(''title'', JStr ''Train'')]])])]"

lemma remediation_terms_stable_witness:
  "\<forall>E g. bucket ''short'' E (JObj (obj_set reviewed_incident ''generated_at'' g)) = bucket ''short'' E (JObj reviewed_incident)
     \<and> action_items (JObj reviewed_incident) \<noteq> []"
proof (intro allI conjI)
  fix E g
  have "truthy (jget (inc_of (JObj reviewed_incident)) ''closed_at'')"
    by (simp add: inc_of_def reviewed_incident_def jand_def jor_def)
  from remediation_terms_stable [OF refl this, of E "''short''" "[]" g]
  show "bucket ''short'' E (JObj (obj_set reviewed_incident ''generated_at'' g)) = bucket ''short'' E (JObj reviewed_incident)"
    by (rule conjunct2 [THEN conjunct2])
qed (simp add: action_items_def ll_of_def reviewed_incident_def)

subsection \<open>Cost totals\<close>

text \<open>Adding amounts by key: each key's sum, in order of first appearance.\<close>

lemma map_of_add_in: "map_of (add_in k x ms) c = (if c = k then Some (x + (case map_of ms k of Some n \<Rightarrow> n | None \<Rightarrow> 0)) else map_of ms c)"
  by (induction k x ms rule: add_in.induct) auto

lemma keys_add_in: "set (map fst (add_in k x ms)) = insert k (set (map fst ms))" "distinct (map fst ms) \<Longrightarrow> distinct (map fst (add_in k x ms))"
  by (induction k x ms rule: add_in.induct) auto

lemma sum_add_in: "sum_list (map snd (add_in k x ms)) = x + sum_list (map snd ms)"
  by (induction k x ms rule: add_in.induct) auto

lemma fold_add_in:
  "sum_list (map snd (fold (\<lambda>c. add_in (key c) (amt c)) cs ms)) = sum_list (map amt cs) + sum_list (map snd ms)"
  "(case map_of (fold (\<lambda>c. add_in (key c) (amt c)) cs ms) k of Some n \<Rightarrow> n | None \<Rightarrow> 0)
     = sum_list (map amt (filter (\<lambda>c. key c = k) cs)) + (case map_of ms k of Some n \<Rightarrow> n | None \<Rightarrow> 0)"
  "distinct (map fst ms) \<Longrightarrow> distinct (map fst (fold (\<lambda>c. add_in (key c) (amt c)) cs ms))"
  by (induction cs arbitrary: ms) (auto simp: sum_add_in map_of_add_in keys_add_in split: option.splits)

text \<open>The cost summary never adds amounts of different currencies. The total printed for a currency is the sum of
  the costs in it, and so is the sum of its categories.\<close>

lemma cost_totals_by_currency:
  "distinct (map fst (cost_by_cur D))
   \<and> (case map_of (cost_by_cur D) cur of Some n \<Rightarrow> n | None \<Rightarrow> 0)
       = sum_list (map cost_amount (filter (\<lambda>c. js_string (jget c ''currency'') = cur) (list_of D ''costs'')))
   \<and> sum_list (map snd (cost_by_cat cur D))
       = sum_list (map cost_amount (filter (\<lambda>c. js_string (jget c ''currency'') = cur) (list_of D ''costs'')))"
  unfolding cost_by_cur_def cost_by_cat_def by (simp add: fold_add_in)

subsection \<open>The classification marking\<close>

definition marked :: "string \<Rightarrow> jsval" where
  "marked t = JObj [(''incident'', JObj [(''tlp'', JStr t)])]"

text \<open>Of the markings an incident can carry, exactly \<open>amber_strict\<close>, the second strictest, has neither a colour nor a
  handling rule in the report: the tables know it as \<open>amber+strict\<close> and not at all.\<close>

theorem amber_strict_unmarked:
  "filter (\<lambda>t. map_of TLP_HEX (tlp_of (marked t)) = None) (map vr_value TLP) = [''amber_strict'']
   \<and> filter (\<lambda>t. tlp_message (marked t) = ''Handle according to TLP guidelines'') (map vr_value TLP) = [''amber_strict'']"
  by code_simp

end
