(* ===== verification/Report_Safety.thy ===== *)
theory Report_Safety
  imports Report_Structure
begin

text \<open>
  Which markup a report has. A scanner reads HTML as the tokenizer of the standard does inside the body: text, tags and
  double-quoted attribute values. It refuses every tag that is not in an explicit list, where attribute values are left
  out; the report is accepted, whatever the incident contains.
\<close>

subsection \<open>The scanner\<close>

text \<open>The tags of the templates, and those \<open>react-markdown\<close> renders a description to.\<close>

definition TEMPLATE_TAGS :: "string list" where
  "TEMPLATE_TAGS =
    [''!DOCTYPE html'', ''/body'', ''/colgroup'', ''/div'', ''/figcaption'', ''/figure'', ''/h2'', ''/h3'', ''/head'',
     ''/html'', ''/li'', ''/p'', ''/span'', ''/strong'', ''/style'', ''/table'', ''/tbody'', ''/td'', ''/th'',
     ''/thead'', ''/title'', ''/tr'', ''/ul'', ''body'', ''br'', ''col style='', ''colgroup'', ''div'',
     ''div class='', ''div class= data-section='', ''div class= style='', ''div style='', ''figcaption'',
     ''figure class='', ''h2'', ''h3'', ''h3 style='', ''head'', ''html lang='', ''img class= src= alt='',
     ''img src= alt='', ''li'', ''li class='', ''meta charset='', ''meta name= content='', ''p'', ''p class='',
     ''p class= style='', ''p style='', ''span'', ''span class='', ''span class= style='',
     ''span class= style= title='', ''span style='', ''strong'', ''strong class='', ''style'', ''table'',
     ''table class='', ''tbody'', ''td'', ''td class='', ''td class= style='', ''td style='', ''th'', ''th style='',
     ''thead'', ''title'', ''tr'', ''tr class='', ''ul style='']"

definition MARKDOWN_TAGS :: "string list" where
  "MARKDOWN_TAGS =
    [''h1'', ''/h1'', ''h4'', ''/h4'', ''h5'', ''/h5'', ''h6'', ''/h6'', ''em'', ''/em'', ''code'', ''/code'',
     ''code class='', ''pre'', ''/pre'', ''blockquote'', ''/blockquote'', ''ul'', ''ol'', ''/ol'', ''ol start='',
     ''a href='', ''a href= title='', ''/a'', ''br/'', ''hr/'', ''img src= alt=/'', ''img src= alt= title=/'']"

text \<open>A state keeps the tag read so far, backwards, without its values; the value of a \<open>class\<close> that is the first
  attribute of a \<open>span\<close> is kept too. Outside a value a tag has no \<open><\<close>, and inside one neither.\<close>

datatype scan_state = Text | Tag string | Val string "string option" | Bad

definition accepted :: "string \<Rightarrow> bool" where
  "accepted b \<longleftrightarrow> rev b \<in> set TEMPLATE_TAGS \<or> rev b \<in> set MARKDOWN_TAGS"

definition span_class :: string where
  "span_class = rev ''span class=''"

fun scan_char :: "scan_state \<Rightarrow> char \<Rightarrow> scan_state" where
  "scan_char Text c = (if c = CHR ''<'' then Tag [] else Text)"
| "scan_char (Tag b) c =
     (if c = CHR ''>'' then (if accepted b then Text else Bad)
      else if c = CHR ''<'' then Bad
      else if c = CHR 0x22 then Val b (if b = span_class then Some [] else None)
      else Tag (c # b))"
| "scan_char (Val b v) c =
     (if c = CHR 0x22 then (if v = Some (rev ''report-sha256'') then Bad else Tag b)
      else if c = CHR ''<'' then Bad
      else Val b (map_option ((#) c) v))"
| "scan_char Bad c = Bad"

definition scan :: "scan_state \<Rightarrow> string \<Rightarrow> scan_state" where
  "scan st s = foldl scan_char st s"

named_theorems html \<open>what the scanner makes of a piece of HTML\<close>

lemma scan_append [html]: "scan st (a @ b) = scan (scan st a) b"
  by (simp add: scan_def)

lemma scan_Nil [html]: "scan st [] = st"
  by (simp add: scan_def)

lemma scan_if [html]: "scan st (if P then a else b) = (if P then scan st a else scan st b)"
  by simp

lemma scan_Bad [simp]: "scan Bad s = Bad"
  by (induction s) (simp_all add: scan_def)

lemma accepted_tags:
  "accepted ''lmth EPYTCOD!''"
  "accepted ''ydob/''"
  "accepted ''puorgloc/''"
  "accepted ''vid/''"
  "accepted ''noitpacgif/''"
  "accepted ''erugif/''"
  "accepted ''2h/''"
  "accepted ''3h/''"
  "accepted ''daeh/''"
  "accepted ''lmth/''"
  "accepted ''il/''"
  "accepted ''p/''"
  "accepted ''naps/''"
  "accepted ''gnorts/''"
  "accepted ''elyts/''"
  "accepted ''elbat/''"
  "accepted ''ydobt/''"
  "accepted ''dt/''"
  "accepted ''ht/''"
  "accepted ''daeht/''"
  "accepted ''eltit/''"
  "accepted ''rt/''"
  "accepted ''lu/''"
  "accepted ''ydob''"
  "accepted ''rb''"
  "accepted ''=elyts loc''"
  "accepted ''puorgloc''"
  "accepted ''vid''"
  "accepted ''=ssalc vid''"
  "accepted ''=noitces-atad =ssalc vid''"
  "accepted ''=elyts =ssalc vid''"
  "accepted ''=elyts vid''"
  "accepted ''noitpacgif''"
  "accepted ''=ssalc erugif''"
  "accepted ''2h''"
  "accepted ''3h''"
  "accepted ''=elyts 3h''"
  "accepted ''daeh''"
  "accepted ''=gnal lmth''"
  "accepted ''=tla =crs =ssalc gmi''"
  "accepted ''=tla =crs gmi''"
  "accepted ''il''"
  "accepted ''=ssalc il''"
  "accepted ''=tesrahc atem''"
  "accepted ''=tnetnoc =eman atem''"
  "accepted ''p''"
  "accepted ''=ssalc p''"
  "accepted ''=elyts =ssalc p''"
  "accepted ''=elyts p''"
  "accepted ''naps''"
  "accepted ''=ssalc naps''"
  "accepted ''=elyts =ssalc naps''"
  "accepted ''=eltit =elyts =ssalc naps''"
  "accepted ''=elyts naps''"
  "accepted ''gnorts''"
  "accepted ''=ssalc gnorts''"
  "accepted ''elyts''"
  "accepted ''elbat''"
  "accepted ''=ssalc elbat''"
  "accepted ''ydobt''"
  "accepted ''dt''"
  "accepted ''=ssalc dt''"
  "accepted ''=elyts =ssalc dt''"
  "accepted ''=elyts dt''"
  "accepted ''ht''"
  "accepted ''=elyts ht''"
  "accepted ''daeht''"
  "accepted ''eltit''"
  "accepted ''rt''"
  "accepted ''=ssalc rt''"
  "accepted ''=elyts lu''"
  "accepted ''1h''"
  "accepted ''1h/''"
  "accepted ''4h''"
  "accepted ''4h/''"
  "accepted ''5h''"
  "accepted ''5h/''"
  "accepted ''6h''"
  "accepted ''6h/''"
  "accepted ''me''"
  "accepted ''me/''"
  "accepted ''edoc''"
  "accepted ''edoc/''"
  "accepted ''=ssalc edoc''"
  "accepted ''erp''"
  "accepted ''erp/''"
  "accepted ''etouqkcolb''"
  "accepted ''etouqkcolb/''"
  "accepted ''lu''"
  "accepted ''lo''"
  "accepted ''lo/''"
  "accepted ''=trats lo''"
  "accepted ''=ferh a''"
  "accepted ''=eltit =ferh a''"
  "accepted ''a/''"
  "accepted ''/rb''"
  "accepted ''/rh''"
  "accepted ''/=tla =crs gmi''"
  "accepted ''/=eltit =tla =crs gmi''"
  by (simp_all only: accepted_def TEMPLATE_TAGS_def MARKDOWN_TAGS_def rev.simps append.simps list.set insert_iff simp_thms)

lemma scan_Cons: "scan st (c # s) = scan (scan_char st c) s"
  by (simp add: scan_def)

subsection \<open>Text without markup\<close>

definition no_markup :: "string \<Rightarrow> bool" where
  "no_markup s \<longleftrightarrow> list_all (\<lambda>c. c \<noteq> CHR ''<'' \<and> c \<noteq> CHR ''>'' \<and> c \<noteq> CHR 0x22) s"

lemma scan_plain: "no_markup s \<Longrightarrow> scan Text s = Text" "no_markup s \<Longrightarrow> scan (Val b None) s = Val b None"
  by (induction s) (simp_all add: no_markup_def scan_Nil scan_Cons)

lemma plain_parts:
  "no_markup []" "no_markup (s @ t) \<longleftrightarrow> no_markup s \<and> no_markup t" "no_markup s \<Longrightarrow> no_markup (take n s)"
  "no_markup (c # s) \<longleftrightarrow> c \<noteq> CHR ''<'' \<and> c \<noteq> CHR ''>'' \<and> c \<noteq> CHR 0x22 \<and> no_markup s"
  by (auto simp: no_markup_def list_all_iff dest: in_set_takeD)

lemma plain_digits: "\<forall>c \<in> set s. is_digit c \<Longrightarrow> no_markup s"
  by (auto simp: no_markup_def list_all_iff is_digit_def)

lemma plain_show: "no_markup (show_nat n)" "no_markup (show_int z)" "no_markup (pad_start n (CHR ''0'') (show_nat m))"
  using show_nat_digits by (auto simp: show_int_def pad_start_def plain_parts intro: plain_digits)
    (simp add: no_markup_def list_all_iff)

lemma plain_to_fixed: "no_markup (to_fixed d x)"
  by (simp add: to_fixed_def show_fixed_def plain_parts plain_show)

lemma set_replace_char: "set (replace_char c r s) \<subseteq> (set s - {c}) \<union> set r"
  by (induction s) auto

lemma plain_esc_str: "no_markup (esc_str s)"
proof -
  define a where "a = replace_char (CHR ''&'') ''&amp;'' s"
  define b where "b = replace_char (CHR ''<'') ''&lt;'' a"
  define d where "d = replace_char (CHR ''>'') ''&gt;'' b"
  have "CHR ''<'' \<notin> set b" using set_replace_char [of "CHR ''<''" "''&lt;''" a] by (auto simp: b_def)
  then have d: "CHR ''<'' \<notin> set d" "CHR ''>'' \<notin> set d"
    using set_replace_char [of "CHR ''>''" "''&gt;''" b] by (auto simp: d_def)
  have "set (replace_char CHR 0x22 ''&quot;'' d) \<subseteq> (set d - {CHR 0x22}) \<union> set ''&quot;''" by (rule set_replace_char)
  with d show ?thesis by (auto simp: esc_str_def no_markup_def list_all_iff a_def b_def d_def)
qed

lemma plain_esc: "no_markup (esc v)"
  by (simp add: esc_def plain_esc_str plain_parts)

lemma plain_hex_of: "no_markup d \<Longrightarrow> list_all (\<lambda>(k, v). no_markup v) table \<Longrightarrow> no_markup (hex_of table d k)"
  by (auto simp: hex_of_def list_all_iff split: option.splits dest!: map_of_SomeD)

lemma plain_label_in:
  "no_markup d \<Longrightarrow> list_all (\<lambda>(k, v). no_markup v) table \<Longrightarrow> no_markup (js_string (jor (label_in table k) (JStr d)))"
  by (auto simp: label_in_def jor_def list_all_iff split: option.splits dest!: map_of_SomeD)

lemma plain_signs:
  "no_markup nl" "no_markup sq" "no_markup en_dash" "no_markup em_dash" "no_markup check_mark" "no_markup cross_mark" "no_markup warning_sign"
  "no_markup times_sign" "no_markup circle_sign" "no_markup half_circle" "no_markup left_arrow" "no_markup section_sign" "no_markup minus_sign"
  "no_markup middle_dot" "no_markup right_arrow"
  by (simp_all add: no_markup_def sign_defs)

lemma plain_colors: "no_markup (sevHex k)" "no_markup (tlpHex k)" "no_markup (hex_of TACTIC_HEX ''#6b7280'' k)"
  unfolding sevHex_def tlpHex_def
  by (intro plain_hex_of; simp add: no_markup_def SEV_HEX_def TLP_HEX_def TACTIC_HEX_def)+

text \<open>A numeric field.\<close>

fun numeric :: "jsval \<Rightarrow> bool" where
  "numeric (JNum n) = True"
| "numeric JNull = True"
| "numeric JUndef = True"
| "numeric _ = False"

lemma plain_numeric: "numeric v \<Longrightarrow> no_markup (js_string v)" "numeric v \<Longrightarrow> no_markup (js_string (jor v (JNum n)))"
  "numeric v \<Longrightarrow> no_markup (js_string (jnullor v (JNum n)))"
  by (cases v; simp add: plain_show jor_def jnullor_def no_markup_def [of "''undefined''"] no_markup_def [of "''null''"])+

lemmas plain_rules = plain_show plain_to_fixed plain_esc_str plain_esc plain_signs plain_colors

lemmas [html] = plain_rules [THEN scan_plain(1)] plain_rules [THEN scan_plain(2)]
  plain_numeric [THEN scan_plain(1)] plain_numeric [THEN scan_plain(2)]

subsection \<open>Rules\<close>

lemma scan_concat [html]: "(\<And>x. x \<in> set xs \<Longrightarrow> scan Text (f x) = Text) \<Longrightarrow> scan Text (concat (map f xs)) = Text"
  by (induction xs) (simp_all add: html)

lemma scan_join:
  assumes "scan Text sep = Text" "\<forall>w \<in> set ws. scan Text w = Text"
  shows "scan Text (join sep ws) = Text"
  using assms by (induction sep ws rule: join.induct) (simp_all add: html)

lemma scan_or_str [html]: "scan Text a = Text \<Longrightarrow> scan Text b = Text \<Longrightarrow> scan Text (or_str a b) = Text"
  by (simp add: or_str_def)

text \<open>The scanner on the templates: one rule per character of text and values, one per tag, one per opening of a tag with
  attributes.\<close>

lemma scan_text_chars:
  "scan Text ((CHR '' '') # s) = scan Text s" "scan Text ((CHR ''!'') # s) = scan Text s" "scan Text ((CHR ''#'') # s) = scan Text s"
  "scan Text ((CHR ''$'') # s) = scan Text s" "scan Text ((CHR ''%'') # s) = scan Text s" "scan Text ((CHR ''&'') # s) = scan Text s"
  "scan Text ((CHR ''('') # s) = scan Text s" "scan Text ((CHR '')'') # s) = scan Text s" "scan Text ((CHR ''*'') # s) = scan Text s"
  "scan Text ((CHR ''+'') # s) = scan Text s" "scan Text ((CHR '','') # s) = scan Text s" "scan Text ((CHR ''-'') # s) = scan Text s"
  "scan Text ((CHR ''.'') # s) = scan Text s" "scan Text ((CHR ''/'') # s) = scan Text s" "scan Text ((CHR ''0'') # s) = scan Text s"
  "scan Text ((CHR ''1'') # s) = scan Text s" "scan Text ((CHR ''2'') # s) = scan Text s" "scan Text ((CHR ''3'') # s) = scan Text s"
  "scan Text ((CHR ''4'') # s) = scan Text s" "scan Text ((CHR ''5'') # s) = scan Text s" "scan Text ((CHR ''6'') # s) = scan Text s"
  "scan Text ((CHR ''7'') # s) = scan Text s" "scan Text ((CHR ''8'') # s) = scan Text s" "scan Text ((CHR ''9'') # s) = scan Text s"
  "scan Text ((CHR '':'') # s) = scan Text s" "scan Text ((CHR '';'') # s) = scan Text s" "scan Text ((CHR ''='') # s) = scan Text s"
  "scan Text ((CHR ''?'') # s) = scan Text s" "scan Text ((CHR ''@'') # s) = scan Text s" "scan Text ((CHR ''A'') # s) = scan Text s"
  "scan Text ((CHR ''B'') # s) = scan Text s" "scan Text ((CHR ''C'') # s) = scan Text s" "scan Text ((CHR ''D'') # s) = scan Text s"
  "scan Text ((CHR ''E'') # s) = scan Text s" "scan Text ((CHR ''F'') # s) = scan Text s" "scan Text ((CHR ''G'') # s) = scan Text s"
  "scan Text ((CHR ''H'') # s) = scan Text s" "scan Text ((CHR ''I'') # s) = scan Text s" "scan Text ((CHR ''J'') # s) = scan Text s"
  "scan Text ((CHR ''K'') # s) = scan Text s" "scan Text ((CHR ''L'') # s) = scan Text s" "scan Text ((CHR ''M'') # s) = scan Text s"
  "scan Text ((CHR ''N'') # s) = scan Text s" "scan Text ((CHR ''O'') # s) = scan Text s" "scan Text ((CHR ''P'') # s) = scan Text s"
  "scan Text ((CHR ''Q'') # s) = scan Text s" "scan Text ((CHR ''R'') # s) = scan Text s" "scan Text ((CHR ''S'') # s) = scan Text s"
  "scan Text ((CHR ''T'') # s) = scan Text s" "scan Text ((CHR ''U'') # s) = scan Text s" "scan Text ((CHR ''V'') # s) = scan Text s"
  "scan Text ((CHR ''W'') # s) = scan Text s" "scan Text ((CHR ''X'') # s) = scan Text s" "scan Text ((CHR ''Y'') # s) = scan Text s"
  "scan Text ((CHR ''Z'') # s) = scan Text s" "scan Text ((CHR ''['') # s) = scan Text s" "scan Text ((CHR '']'') # s) = scan Text s"
  "scan Text ((CHR ''^'') # s) = scan Text s" "scan Text ((CHR ''_'') # s) = scan Text s" "scan Text ((CHR ''`'') # s) = scan Text s"
  "scan Text ((CHR ''a'') # s) = scan Text s" "scan Text ((CHR ''b'') # s) = scan Text s" "scan Text ((CHR ''c'') # s) = scan Text s"
  "scan Text ((CHR ''d'') # s) = scan Text s" "scan Text ((CHR ''e'') # s) = scan Text s" "scan Text ((CHR ''f'') # s) = scan Text s"
  "scan Text ((CHR ''g'') # s) = scan Text s" "scan Text ((CHR ''h'') # s) = scan Text s" "scan Text ((CHR ''i'') # s) = scan Text s"
  "scan Text ((CHR ''j'') # s) = scan Text s" "scan Text ((CHR ''k'') # s) = scan Text s" "scan Text ((CHR ''l'') # s) = scan Text s"
  "scan Text ((CHR ''m'') # s) = scan Text s" "scan Text ((CHR ''n'') # s) = scan Text s" "scan Text ((CHR ''o'') # s) = scan Text s"
  "scan Text ((CHR ''p'') # s) = scan Text s" "scan Text ((CHR ''q'') # s) = scan Text s" "scan Text ((CHR ''r'') # s) = scan Text s"
  "scan Text ((CHR ''s'') # s) = scan Text s" "scan Text ((CHR ''t'') # s) = scan Text s" "scan Text ((CHR ''u'') # s) = scan Text s"
  "scan Text ((CHR ''v'') # s) = scan Text s" "scan Text ((CHR ''w'') # s) = scan Text s" "scan Text ((CHR ''x'') # s) = scan Text s"
  "scan Text ((CHR ''y'') # s) = scan Text s" "scan Text ((CHR ''z'') # s) = scan Text s" "scan Text ((CHR ''{'') # s) = scan Text s"
  "scan Text ((CHR ''|'') # s) = scan Text s" "scan Text ((CHR ''}'') # s) = scan Text s" "scan Text ((CHR ''~'') # s) = scan Text s"
  by (simp_all add: scan_Cons)

lemma scan_value_chars:
  "scan (Val b None) ((CHR '' '') # s) = scan (Val b None) s" "scan (Val b None) ((CHR ''!'') # s) = scan (Val b None) s"
  "scan (Val b None) ((CHR ''#'') # s) = scan (Val b None) s" "scan (Val b None) ((CHR ''$'') # s) = scan (Val b None) s"
  "scan (Val b None) ((CHR ''%'') # s) = scan (Val b None) s" "scan (Val b None) ((CHR ''&'') # s) = scan (Val b None) s"
  "scan (Val b None) ((CHR ''('') # s) = scan (Val b None) s" "scan (Val b None) ((CHR '')'') # s) = scan (Val b None) s"
  "scan (Val b None) ((CHR ''*'') # s) = scan (Val b None) s" "scan (Val b None) ((CHR ''+'') # s) = scan (Val b None) s"
  "scan (Val b None) ((CHR '','') # s) = scan (Val b None) s" "scan (Val b None) ((CHR ''-'') # s) = scan (Val b None) s"
  "scan (Val b None) ((CHR ''.'') # s) = scan (Val b None) s" "scan (Val b None) ((CHR ''/'') # s) = scan (Val b None) s"
  "scan (Val b None) ((CHR ''0'') # s) = scan (Val b None) s" "scan (Val b None) ((CHR ''1'') # s) = scan (Val b None) s"
  "scan (Val b None) ((CHR ''2'') # s) = scan (Val b None) s" "scan (Val b None) ((CHR ''3'') # s) = scan (Val b None) s"
  "scan (Val b None) ((CHR ''4'') # s) = scan (Val b None) s" "scan (Val b None) ((CHR ''5'') # s) = scan (Val b None) s"
  "scan (Val b None) ((CHR ''6'') # s) = scan (Val b None) s" "scan (Val b None) ((CHR ''7'') # s) = scan (Val b None) s"
  "scan (Val b None) ((CHR ''8'') # s) = scan (Val b None) s" "scan (Val b None) ((CHR ''9'') # s) = scan (Val b None) s"
  "scan (Val b None) ((CHR '':'') # s) = scan (Val b None) s" "scan (Val b None) ((CHR '';'') # s) = scan (Val b None) s"
  "scan (Val b None) ((CHR ''='') # s) = scan (Val b None) s" "scan (Val b None) ((CHR ''?'') # s) = scan (Val b None) s"
  "scan (Val b None) ((CHR ''@'') # s) = scan (Val b None) s" "scan (Val b None) ((CHR ''A'') # s) = scan (Val b None) s"
  "scan (Val b None) ((CHR ''B'') # s) = scan (Val b None) s" "scan (Val b None) ((CHR ''C'') # s) = scan (Val b None) s"
  "scan (Val b None) ((CHR ''D'') # s) = scan (Val b None) s" "scan (Val b None) ((CHR ''E'') # s) = scan (Val b None) s"
  "scan (Val b None) ((CHR ''F'') # s) = scan (Val b None) s" "scan (Val b None) ((CHR ''G'') # s) = scan (Val b None) s"
  "scan (Val b None) ((CHR ''H'') # s) = scan (Val b None) s" "scan (Val b None) ((CHR ''I'') # s) = scan (Val b None) s"
  "scan (Val b None) ((CHR ''J'') # s) = scan (Val b None) s" "scan (Val b None) ((CHR ''K'') # s) = scan (Val b None) s"
  "scan (Val b None) ((CHR ''L'') # s) = scan (Val b None) s" "scan (Val b None) ((CHR ''M'') # s) = scan (Val b None) s"
  "scan (Val b None) ((CHR ''N'') # s) = scan (Val b None) s" "scan (Val b None) ((CHR ''O'') # s) = scan (Val b None) s"
  "scan (Val b None) ((CHR ''P'') # s) = scan (Val b None) s" "scan (Val b None) ((CHR ''Q'') # s) = scan (Val b None) s"
  "scan (Val b None) ((CHR ''R'') # s) = scan (Val b None) s" "scan (Val b None) ((CHR ''S'') # s) = scan (Val b None) s"
  "scan (Val b None) ((CHR ''T'') # s) = scan (Val b None) s" "scan (Val b None) ((CHR ''U'') # s) = scan (Val b None) s"
  "scan (Val b None) ((CHR ''V'') # s) = scan (Val b None) s" "scan (Val b None) ((CHR ''W'') # s) = scan (Val b None) s"
  "scan (Val b None) ((CHR ''X'') # s) = scan (Val b None) s" "scan (Val b None) ((CHR ''Y'') # s) = scan (Val b None) s"
  "scan (Val b None) ((CHR ''Z'') # s) = scan (Val b None) s" "scan (Val b None) ((CHR ''['') # s) = scan (Val b None) s"
  "scan (Val b None) ((CHR '']'') # s) = scan (Val b None) s" "scan (Val b None) ((CHR ''^'') # s) = scan (Val b None) s"
  "scan (Val b None) ((CHR ''_'') # s) = scan (Val b None) s" "scan (Val b None) ((CHR ''`'') # s) = scan (Val b None) s"
  "scan (Val b None) ((CHR ''a'') # s) = scan (Val b None) s" "scan (Val b None) ((CHR ''b'') # s) = scan (Val b None) s"
  "scan (Val b None) ((CHR ''c'') # s) = scan (Val b None) s" "scan (Val b None) ((CHR ''d'') # s) = scan (Val b None) s"
  "scan (Val b None) ((CHR ''e'') # s) = scan (Val b None) s" "scan (Val b None) ((CHR ''f'') # s) = scan (Val b None) s"
  "scan (Val b None) ((CHR ''g'') # s) = scan (Val b None) s" "scan (Val b None) ((CHR ''h'') # s) = scan (Val b None) s"
  "scan (Val b None) ((CHR ''i'') # s) = scan (Val b None) s" "scan (Val b None) ((CHR ''j'') # s) = scan (Val b None) s"
  "scan (Val b None) ((CHR ''k'') # s) = scan (Val b None) s" "scan (Val b None) ((CHR ''l'') # s) = scan (Val b None) s"
  "scan (Val b None) ((CHR ''m'') # s) = scan (Val b None) s" "scan (Val b None) ((CHR ''n'') # s) = scan (Val b None) s"
  "scan (Val b None) ((CHR ''o'') # s) = scan (Val b None) s" "scan (Val b None) ((CHR ''p'') # s) = scan (Val b None) s"
  "scan (Val b None) ((CHR ''q'') # s) = scan (Val b None) s" "scan (Val b None) ((CHR ''r'') # s) = scan (Val b None) s"
  "scan (Val b None) ((CHR ''s'') # s) = scan (Val b None) s" "scan (Val b None) ((CHR ''t'') # s) = scan (Val b None) s"
  "scan (Val b None) ((CHR ''u'') # s) = scan (Val b None) s" "scan (Val b None) ((CHR ''v'') # s) = scan (Val b None) s"
  "scan (Val b None) ((CHR ''w'') # s) = scan (Val b None) s" "scan (Val b None) ((CHR ''x'') # s) = scan (Val b None) s"
  "scan (Val b None) ((CHR ''y'') # s) = scan (Val b None) s" "scan (Val b None) ((CHR ''z'') # s) = scan (Val b None) s"
  "scan (Val b None) ((CHR ''{'') # s) = scan (Val b None) s" "scan (Val b None) ((CHR ''|'') # s) = scan (Val b None) s"
  "scan (Val b None) ((CHR ''}'') # s) = scan (Val b None) s" "scan (Val b None) ((CHR ''~'') # s) = scan (Val b None) s"
  by (simp_all add: scan_Cons)

lemma scan_class_chars:
  "scan (Val b (Some v)) ((CHR '' '') # s) = scan (Val b (Some ((CHR '' '') # v))) s" "scan (Val b (Some v)) ((CHR ''!'') # s) = scan (Val b (Some ((CHR ''!'') # v))) s"
  "scan (Val b (Some v)) ((CHR ''#'') # s) = scan (Val b (Some ((CHR ''#'') # v))) s" "scan (Val b (Some v)) ((CHR ''$'') # s) = scan (Val b (Some ((CHR ''$'') # v))) s"
  "scan (Val b (Some v)) ((CHR ''%'') # s) = scan (Val b (Some ((CHR ''%'') # v))) s" "scan (Val b (Some v)) ((CHR ''&'') # s) = scan (Val b (Some ((CHR ''&'') # v))) s"
  "scan (Val b (Some v)) ((CHR ''('') # s) = scan (Val b (Some ((CHR ''('') # v))) s" "scan (Val b (Some v)) ((CHR '')'') # s) = scan (Val b (Some ((CHR '')'') # v))) s"
  "scan (Val b (Some v)) ((CHR ''*'') # s) = scan (Val b (Some ((CHR ''*'') # v))) s" "scan (Val b (Some v)) ((CHR ''+'') # s) = scan (Val b (Some ((CHR ''+'') # v))) s"
  "scan (Val b (Some v)) ((CHR '','') # s) = scan (Val b (Some ((CHR '','') # v))) s" "scan (Val b (Some v)) ((CHR ''-'') # s) = scan (Val b (Some ((CHR ''-'') # v))) s"
  "scan (Val b (Some v)) ((CHR ''.'') # s) = scan (Val b (Some ((CHR ''.'') # v))) s" "scan (Val b (Some v)) ((CHR ''/'') # s) = scan (Val b (Some ((CHR ''/'') # v))) s"
  "scan (Val b (Some v)) ((CHR ''0'') # s) = scan (Val b (Some ((CHR ''0'') # v))) s" "scan (Val b (Some v)) ((CHR ''1'') # s) = scan (Val b (Some ((CHR ''1'') # v))) s"
  "scan (Val b (Some v)) ((CHR ''2'') # s) = scan (Val b (Some ((CHR ''2'') # v))) s" "scan (Val b (Some v)) ((CHR ''3'') # s) = scan (Val b (Some ((CHR ''3'') # v))) s"
  "scan (Val b (Some v)) ((CHR ''4'') # s) = scan (Val b (Some ((CHR ''4'') # v))) s" "scan (Val b (Some v)) ((CHR ''5'') # s) = scan (Val b (Some ((CHR ''5'') # v))) s"
  "scan (Val b (Some v)) ((CHR ''6'') # s) = scan (Val b (Some ((CHR ''6'') # v))) s" "scan (Val b (Some v)) ((CHR ''7'') # s) = scan (Val b (Some ((CHR ''7'') # v))) s"
  "scan (Val b (Some v)) ((CHR ''8'') # s) = scan (Val b (Some ((CHR ''8'') # v))) s" "scan (Val b (Some v)) ((CHR ''9'') # s) = scan (Val b (Some ((CHR ''9'') # v))) s"
  "scan (Val b (Some v)) ((CHR '':'') # s) = scan (Val b (Some ((CHR '':'') # v))) s" "scan (Val b (Some v)) ((CHR '';'') # s) = scan (Val b (Some ((CHR '';'') # v))) s"
  "scan (Val b (Some v)) ((CHR ''='') # s) = scan (Val b (Some ((CHR ''='') # v))) s" "scan (Val b (Some v)) ((CHR ''?'') # s) = scan (Val b (Some ((CHR ''?'') # v))) s"
  "scan (Val b (Some v)) ((CHR ''@'') # s) = scan (Val b (Some ((CHR ''@'') # v))) s" "scan (Val b (Some v)) ((CHR ''A'') # s) = scan (Val b (Some ((CHR ''A'') # v))) s"
  "scan (Val b (Some v)) ((CHR ''B'') # s) = scan (Val b (Some ((CHR ''B'') # v))) s" "scan (Val b (Some v)) ((CHR ''C'') # s) = scan (Val b (Some ((CHR ''C'') # v))) s"
  "scan (Val b (Some v)) ((CHR ''D'') # s) = scan (Val b (Some ((CHR ''D'') # v))) s" "scan (Val b (Some v)) ((CHR ''E'') # s) = scan (Val b (Some ((CHR ''E'') # v))) s"
  "scan (Val b (Some v)) ((CHR ''F'') # s) = scan (Val b (Some ((CHR ''F'') # v))) s" "scan (Val b (Some v)) ((CHR ''G'') # s) = scan (Val b (Some ((CHR ''G'') # v))) s"
  "scan (Val b (Some v)) ((CHR ''H'') # s) = scan (Val b (Some ((CHR ''H'') # v))) s" "scan (Val b (Some v)) ((CHR ''I'') # s) = scan (Val b (Some ((CHR ''I'') # v))) s"
  "scan (Val b (Some v)) ((CHR ''J'') # s) = scan (Val b (Some ((CHR ''J'') # v))) s" "scan (Val b (Some v)) ((CHR ''K'') # s) = scan (Val b (Some ((CHR ''K'') # v))) s"
  "scan (Val b (Some v)) ((CHR ''L'') # s) = scan (Val b (Some ((CHR ''L'') # v))) s" "scan (Val b (Some v)) ((CHR ''M'') # s) = scan (Val b (Some ((CHR ''M'') # v))) s"
  "scan (Val b (Some v)) ((CHR ''N'') # s) = scan (Val b (Some ((CHR ''N'') # v))) s" "scan (Val b (Some v)) ((CHR ''O'') # s) = scan (Val b (Some ((CHR ''O'') # v))) s"
  "scan (Val b (Some v)) ((CHR ''P'') # s) = scan (Val b (Some ((CHR ''P'') # v))) s" "scan (Val b (Some v)) ((CHR ''Q'') # s) = scan (Val b (Some ((CHR ''Q'') # v))) s"
  "scan (Val b (Some v)) ((CHR ''R'') # s) = scan (Val b (Some ((CHR ''R'') # v))) s" "scan (Val b (Some v)) ((CHR ''S'') # s) = scan (Val b (Some ((CHR ''S'') # v))) s"
  "scan (Val b (Some v)) ((CHR ''T'') # s) = scan (Val b (Some ((CHR ''T'') # v))) s" "scan (Val b (Some v)) ((CHR ''U'') # s) = scan (Val b (Some ((CHR ''U'') # v))) s"
  "scan (Val b (Some v)) ((CHR ''V'') # s) = scan (Val b (Some ((CHR ''V'') # v))) s" "scan (Val b (Some v)) ((CHR ''W'') # s) = scan (Val b (Some ((CHR ''W'') # v))) s"
  "scan (Val b (Some v)) ((CHR ''X'') # s) = scan (Val b (Some ((CHR ''X'') # v))) s" "scan (Val b (Some v)) ((CHR ''Y'') # s) = scan (Val b (Some ((CHR ''Y'') # v))) s"
  "scan (Val b (Some v)) ((CHR ''Z'') # s) = scan (Val b (Some ((CHR ''Z'') # v))) s" "scan (Val b (Some v)) ((CHR ''['') # s) = scan (Val b (Some ((CHR ''['') # v))) s"
  "scan (Val b (Some v)) ((CHR '']'') # s) = scan (Val b (Some ((CHR '']'') # v))) s" "scan (Val b (Some v)) ((CHR ''^'') # s) = scan (Val b (Some ((CHR ''^'') # v))) s"
  "scan (Val b (Some v)) ((CHR ''_'') # s) = scan (Val b (Some ((CHR ''_'') # v))) s" "scan (Val b (Some v)) ((CHR ''`'') # s) = scan (Val b (Some ((CHR ''`'') # v))) s"
  "scan (Val b (Some v)) ((CHR ''a'') # s) = scan (Val b (Some ((CHR ''a'') # v))) s" "scan (Val b (Some v)) ((CHR ''b'') # s) = scan (Val b (Some ((CHR ''b'') # v))) s"
  "scan (Val b (Some v)) ((CHR ''c'') # s) = scan (Val b (Some ((CHR ''c'') # v))) s" "scan (Val b (Some v)) ((CHR ''d'') # s) = scan (Val b (Some ((CHR ''d'') # v))) s"
  "scan (Val b (Some v)) ((CHR ''e'') # s) = scan (Val b (Some ((CHR ''e'') # v))) s" "scan (Val b (Some v)) ((CHR ''f'') # s) = scan (Val b (Some ((CHR ''f'') # v))) s"
  "scan (Val b (Some v)) ((CHR ''g'') # s) = scan (Val b (Some ((CHR ''g'') # v))) s" "scan (Val b (Some v)) ((CHR ''h'') # s) = scan (Val b (Some ((CHR ''h'') # v))) s"
  "scan (Val b (Some v)) ((CHR ''i'') # s) = scan (Val b (Some ((CHR ''i'') # v))) s" "scan (Val b (Some v)) ((CHR ''j'') # s) = scan (Val b (Some ((CHR ''j'') # v))) s"
  "scan (Val b (Some v)) ((CHR ''k'') # s) = scan (Val b (Some ((CHR ''k'') # v))) s" "scan (Val b (Some v)) ((CHR ''l'') # s) = scan (Val b (Some ((CHR ''l'') # v))) s"
  "scan (Val b (Some v)) ((CHR ''m'') # s) = scan (Val b (Some ((CHR ''m'') # v))) s" "scan (Val b (Some v)) ((CHR ''n'') # s) = scan (Val b (Some ((CHR ''n'') # v))) s"
  "scan (Val b (Some v)) ((CHR ''o'') # s) = scan (Val b (Some ((CHR ''o'') # v))) s" "scan (Val b (Some v)) ((CHR ''p'') # s) = scan (Val b (Some ((CHR ''p'') # v))) s"
  "scan (Val b (Some v)) ((CHR ''q'') # s) = scan (Val b (Some ((CHR ''q'') # v))) s" "scan (Val b (Some v)) ((CHR ''r'') # s) = scan (Val b (Some ((CHR ''r'') # v))) s"
  "scan (Val b (Some v)) ((CHR ''s'') # s) = scan (Val b (Some ((CHR ''s'') # v))) s" "scan (Val b (Some v)) ((CHR ''t'') # s) = scan (Val b (Some ((CHR ''t'') # v))) s"
  "scan (Val b (Some v)) ((CHR ''u'') # s) = scan (Val b (Some ((CHR ''u'') # v))) s" "scan (Val b (Some v)) ((CHR ''v'') # s) = scan (Val b (Some ((CHR ''v'') # v))) s"
  "scan (Val b (Some v)) ((CHR ''w'') # s) = scan (Val b (Some ((CHR ''w'') # v))) s" "scan (Val b (Some v)) ((CHR ''x'') # s) = scan (Val b (Some ((CHR ''x'') # v))) s"
  "scan (Val b (Some v)) ((CHR ''y'') # s) = scan (Val b (Some ((CHR ''y'') # v))) s" "scan (Val b (Some v)) ((CHR ''z'') # s) = scan (Val b (Some ((CHR ''z'') # v))) s"
  "scan (Val b (Some v)) ((CHR ''{'') # s) = scan (Val b (Some ((CHR ''{'') # v))) s" "scan (Val b (Some v)) ((CHR ''|'') # s) = scan (Val b (Some ((CHR ''|'') # v))) s"
  "scan (Val b (Some v)) ((CHR ''}'') # s) = scan (Val b (Some ((CHR ''}'') # v))) s" "scan (Val b (Some v)) ((CHR ''~'') # s) = scan (Val b (Some ((CHR ''~'') # v))) s"
  by (simp_all add: scan_Cons)

lemma scan_tag_chars:
  "scan (Tag b) ((CHR '' '') # s) = scan (Tag ((CHR '' '') # b)) s" "scan (Tag b) ((CHR ''!'') # s) = scan (Tag ((CHR ''!'') # b)) s"
  "scan (Tag b) ((CHR ''#'') # s) = scan (Tag ((CHR ''#'') # b)) s" "scan (Tag b) ((CHR ''$'') # s) = scan (Tag ((CHR ''$'') # b)) s"
  "scan (Tag b) ((CHR ''%'') # s) = scan (Tag ((CHR ''%'') # b)) s" "scan (Tag b) ((CHR ''&'') # s) = scan (Tag ((CHR ''&'') # b)) s"
  "scan (Tag b) ((CHR ''('') # s) = scan (Tag ((CHR ''('') # b)) s" "scan (Tag b) ((CHR '')'') # s) = scan (Tag ((CHR '')'') # b)) s"
  "scan (Tag b) ((CHR ''*'') # s) = scan (Tag ((CHR ''*'') # b)) s" "scan (Tag b) ((CHR ''+'') # s) = scan (Tag ((CHR ''+'') # b)) s"
  "scan (Tag b) ((CHR '','') # s) = scan (Tag ((CHR '','') # b)) s" "scan (Tag b) ((CHR ''-'') # s) = scan (Tag ((CHR ''-'') # b)) s"
  "scan (Tag b) ((CHR ''.'') # s) = scan (Tag ((CHR ''.'') # b)) s" "scan (Tag b) ((CHR ''/'') # s) = scan (Tag ((CHR ''/'') # b)) s"
  "scan (Tag b) ((CHR ''0'') # s) = scan (Tag ((CHR ''0'') # b)) s" "scan (Tag b) ((CHR ''1'') # s) = scan (Tag ((CHR ''1'') # b)) s"
  "scan (Tag b) ((CHR ''2'') # s) = scan (Tag ((CHR ''2'') # b)) s" "scan (Tag b) ((CHR ''3'') # s) = scan (Tag ((CHR ''3'') # b)) s"
  "scan (Tag b) ((CHR ''4'') # s) = scan (Tag ((CHR ''4'') # b)) s" "scan (Tag b) ((CHR ''5'') # s) = scan (Tag ((CHR ''5'') # b)) s"
  "scan (Tag b) ((CHR ''6'') # s) = scan (Tag ((CHR ''6'') # b)) s" "scan (Tag b) ((CHR ''7'') # s) = scan (Tag ((CHR ''7'') # b)) s"
  "scan (Tag b) ((CHR ''8'') # s) = scan (Tag ((CHR ''8'') # b)) s" "scan (Tag b) ((CHR ''9'') # s) = scan (Tag ((CHR ''9'') # b)) s"
  "scan (Tag b) ((CHR '':'') # s) = scan (Tag ((CHR '':'') # b)) s" "scan (Tag b) ((CHR '';'') # s) = scan (Tag ((CHR '';'') # b)) s"
  "scan (Tag b) ((CHR ''='') # s) = scan (Tag ((CHR ''='') # b)) s" "scan (Tag b) ((CHR ''?'') # s) = scan (Tag ((CHR ''?'') # b)) s"
  "scan (Tag b) ((CHR ''@'') # s) = scan (Tag ((CHR ''@'') # b)) s" "scan (Tag b) ((CHR ''A'') # s) = scan (Tag ((CHR ''A'') # b)) s"
  "scan (Tag b) ((CHR ''B'') # s) = scan (Tag ((CHR ''B'') # b)) s" "scan (Tag b) ((CHR ''C'') # s) = scan (Tag ((CHR ''C'') # b)) s"
  "scan (Tag b) ((CHR ''D'') # s) = scan (Tag ((CHR ''D'') # b)) s" "scan (Tag b) ((CHR ''E'') # s) = scan (Tag ((CHR ''E'') # b)) s"
  "scan (Tag b) ((CHR ''F'') # s) = scan (Tag ((CHR ''F'') # b)) s" "scan (Tag b) ((CHR ''G'') # s) = scan (Tag ((CHR ''G'') # b)) s"
  "scan (Tag b) ((CHR ''H'') # s) = scan (Tag ((CHR ''H'') # b)) s" "scan (Tag b) ((CHR ''I'') # s) = scan (Tag ((CHR ''I'') # b)) s"
  "scan (Tag b) ((CHR ''J'') # s) = scan (Tag ((CHR ''J'') # b)) s" "scan (Tag b) ((CHR ''K'') # s) = scan (Tag ((CHR ''K'') # b)) s"
  "scan (Tag b) ((CHR ''L'') # s) = scan (Tag ((CHR ''L'') # b)) s" "scan (Tag b) ((CHR ''M'') # s) = scan (Tag ((CHR ''M'') # b)) s"
  "scan (Tag b) ((CHR ''N'') # s) = scan (Tag ((CHR ''N'') # b)) s" "scan (Tag b) ((CHR ''O'') # s) = scan (Tag ((CHR ''O'') # b)) s"
  "scan (Tag b) ((CHR ''P'') # s) = scan (Tag ((CHR ''P'') # b)) s" "scan (Tag b) ((CHR ''Q'') # s) = scan (Tag ((CHR ''Q'') # b)) s"
  "scan (Tag b) ((CHR ''R'') # s) = scan (Tag ((CHR ''R'') # b)) s" "scan (Tag b) ((CHR ''S'') # s) = scan (Tag ((CHR ''S'') # b)) s"
  "scan (Tag b) ((CHR ''T'') # s) = scan (Tag ((CHR ''T'') # b)) s" "scan (Tag b) ((CHR ''U'') # s) = scan (Tag ((CHR ''U'') # b)) s"
  "scan (Tag b) ((CHR ''V'') # s) = scan (Tag ((CHR ''V'') # b)) s" "scan (Tag b) ((CHR ''W'') # s) = scan (Tag ((CHR ''W'') # b)) s"
  "scan (Tag b) ((CHR ''X'') # s) = scan (Tag ((CHR ''X'') # b)) s" "scan (Tag b) ((CHR ''Y'') # s) = scan (Tag ((CHR ''Y'') # b)) s"
  "scan (Tag b) ((CHR ''Z'') # s) = scan (Tag ((CHR ''Z'') # b)) s" "scan (Tag b) ((CHR ''['') # s) = scan (Tag ((CHR ''['') # b)) s"
  "scan (Tag b) ((CHR '']'') # s) = scan (Tag ((CHR '']'') # b)) s" "scan (Tag b) ((CHR ''^'') # s) = scan (Tag ((CHR ''^'') # b)) s"
  "scan (Tag b) ((CHR ''_'') # s) = scan (Tag ((CHR ''_'') # b)) s" "scan (Tag b) ((CHR ''`'') # s) = scan (Tag ((CHR ''`'') # b)) s"
  "scan (Tag b) ((CHR ''a'') # s) = scan (Tag ((CHR ''a'') # b)) s" "scan (Tag b) ((CHR ''b'') # s) = scan (Tag ((CHR ''b'') # b)) s"
  "scan (Tag b) ((CHR ''c'') # s) = scan (Tag ((CHR ''c'') # b)) s" "scan (Tag b) ((CHR ''d'') # s) = scan (Tag ((CHR ''d'') # b)) s"
  "scan (Tag b) ((CHR ''e'') # s) = scan (Tag ((CHR ''e'') # b)) s" "scan (Tag b) ((CHR ''f'') # s) = scan (Tag ((CHR ''f'') # b)) s"
  "scan (Tag b) ((CHR ''g'') # s) = scan (Tag ((CHR ''g'') # b)) s" "scan (Tag b) ((CHR ''h'') # s) = scan (Tag ((CHR ''h'') # b)) s"
  "scan (Tag b) ((CHR ''i'') # s) = scan (Tag ((CHR ''i'') # b)) s" "scan (Tag b) ((CHR ''j'') # s) = scan (Tag ((CHR ''j'') # b)) s"
  "scan (Tag b) ((CHR ''k'') # s) = scan (Tag ((CHR ''k'') # b)) s" "scan (Tag b) ((CHR ''l'') # s) = scan (Tag ((CHR ''l'') # b)) s"
  "scan (Tag b) ((CHR ''m'') # s) = scan (Tag ((CHR ''m'') # b)) s" "scan (Tag b) ((CHR ''n'') # s) = scan (Tag ((CHR ''n'') # b)) s"
  "scan (Tag b) ((CHR ''o'') # s) = scan (Tag ((CHR ''o'') # b)) s" "scan (Tag b) ((CHR ''p'') # s) = scan (Tag ((CHR ''p'') # b)) s"
  "scan (Tag b) ((CHR ''q'') # s) = scan (Tag ((CHR ''q'') # b)) s" "scan (Tag b) ((CHR ''r'') # s) = scan (Tag ((CHR ''r'') # b)) s"
  "scan (Tag b) ((CHR ''s'') # s) = scan (Tag ((CHR ''s'') # b)) s" "scan (Tag b) ((CHR ''t'') # s) = scan (Tag ((CHR ''t'') # b)) s"
  "scan (Tag b) ((CHR ''u'') # s) = scan (Tag ((CHR ''u'') # b)) s" "scan (Tag b) ((CHR ''v'') # s) = scan (Tag ((CHR ''v'') # b)) s"
  "scan (Tag b) ((CHR ''w'') # s) = scan (Tag ((CHR ''w'') # b)) s" "scan (Tag b) ((CHR ''x'') # s) = scan (Tag ((CHR ''x'') # b)) s"
  "scan (Tag b) ((CHR ''y'') # s) = scan (Tag ((CHR ''y'') # b)) s" "scan (Tag b) ((CHR ''z'') # s) = scan (Tag ((CHR ''z'') # b)) s"
  "scan (Tag b) ((CHR ''{'') # s) = scan (Tag ((CHR ''{'') # b)) s" "scan (Tag b) ((CHR ''|'') # s) = scan (Tag ((CHR ''|'') # b)) s"
  "scan (Tag b) ((CHR ''}'') # s) = scan (Tag ((CHR ''}'') # b)) s" "scan (Tag b) ((CHR ''~'') # s) = scan (Tag ((CHR ''~'') # b)) s"
  by (simp_all add: scan_Cons)

lemma scan_markup_chars:
  "scan Text (CHR ''>'' # s) = scan Text s" "scan Text (CHR 0x22 # s) = scan Text s"
  "scan (Tag b) (CHR ''>'' # s) = scan (if accepted b then Text else Bad) s"
  "scan (Tag b) (CHR 0x22 # s) = scan (Val b (if b = span_class then Some [] else None)) s"
  "scan (Val b None) (CHR 0x22 # s) = scan (Tag b) s"
  "scan (Val b (Some v)) (CHR 0x22 # s) = scan (if v = rev ''report-sha256'' then Bad else Tag b) s"
  "scan (Val b None) (CHR ''>'' # s) = scan (Val b None) s"
  by (simp_all add: scan_Cons)

lemma scan_tags:
  "scan Text (''<!DOCTYPE html>'' @ s) = scan Text s"
  "scan Text (''</body>'' @ s) = scan Text s"
  "scan Text (''</colgroup>'' @ s) = scan Text s"
  "scan Text (''</div>'' @ s) = scan Text s"
  "scan Text (''</figcaption>'' @ s) = scan Text s"
  "scan Text (''</figure>'' @ s) = scan Text s"
  "scan Text (''</h2>'' @ s) = scan Text s"
  "scan Text (''</h3>'' @ s) = scan Text s"
  "scan Text (''</head>'' @ s) = scan Text s"
  "scan Text (''</html>'' @ s) = scan Text s"
  "scan Text (''</li>'' @ s) = scan Text s"
  "scan Text (''</p>'' @ s) = scan Text s"
  "scan Text (''</span>'' @ s) = scan Text s"
  "scan Text (''</strong>'' @ s) = scan Text s"
  "scan Text (''</style>'' @ s) = scan Text s"
  "scan Text (''</table>'' @ s) = scan Text s"
  "scan Text (''</tbody>'' @ s) = scan Text s"
  "scan Text (''</td>'' @ s) = scan Text s"
  "scan Text (''</th>'' @ s) = scan Text s"
  "scan Text (''</thead>'' @ s) = scan Text s"
  "scan Text (''</title>'' @ s) = scan Text s"
  "scan Text (''</tr>'' @ s) = scan Text s"
  "scan Text (''</ul>'' @ s) = scan Text s"
  "scan Text (''<body>'' @ s) = scan Text s"
  "scan Text (''<br>'' @ s) = scan Text s"
  "scan Text (''<colgroup>'' @ s) = scan Text s"
  "scan Text (''<div>'' @ s) = scan Text s"
  "scan Text (''<figcaption>'' @ s) = scan Text s"
  "scan Text (''<h2>'' @ s) = scan Text s"
  "scan Text (''<h3>'' @ s) = scan Text s"
  "scan Text (''<head>'' @ s) = scan Text s"
  "scan Text (''<li>'' @ s) = scan Text s"
  "scan Text (''<p>'' @ s) = scan Text s"
  "scan Text (''<span>'' @ s) = scan Text s"
  "scan Text (''<strong>'' @ s) = scan Text s"
  "scan Text (''<style>'' @ s) = scan Text s"
  "scan Text (''<table>'' @ s) = scan Text s"
  "scan Text (''<tbody>'' @ s) = scan Text s"
  "scan Text (''<td>'' @ s) = scan Text s"
  "scan Text (''<th>'' @ s) = scan Text s"
  "scan Text (''<thead>'' @ s) = scan Text s"
  "scan Text (''<title>'' @ s) = scan Text s"
  "scan Text (''<tr>'' @ s) = scan Text s"
  by (simp_all add: scan_Cons accepted_tags)

lemma scan_openings:
  \<open>scan Text (''<col style="'' @ s) = scan (Val ''=elyts loc'' None) s\<close>
  \<open>scan Text (''<div class="'' @ s) = scan (Val ''=ssalc vid'' None) s\<close>
  \<open>scan Text (''<div style="'' @ s) = scan (Val ''=elyts vid'' None) s\<close>
  \<open>scan Text (''<figure class="'' @ s) = scan (Val ''=ssalc erugif'' None) s\<close>
  \<open>scan Text (''<h3 style="'' @ s) = scan (Val ''=elyts 3h'' None) s\<close>
  \<open>scan Text (''<html lang="'' @ s) = scan (Val ''=gnal lmth'' None) s\<close>
  \<open>scan Text (''<img class="'' @ s) = scan (Val ''=ssalc gmi'' None) s\<close>
  \<open>scan Text (''<img src="'' @ s) = scan (Val ''=crs gmi'' None) s\<close>
  \<open>scan Text (''<li class="'' @ s) = scan (Val ''=ssalc il'' None) s\<close>
  \<open>scan Text (''<meta charset="'' @ s) = scan (Val ''=tesrahc atem'' None) s\<close>
  \<open>scan Text (''<meta name="'' @ s) = scan (Val ''=eman atem'' None) s\<close>
  \<open>scan Text (''<p class="'' @ s) = scan (Val ''=ssalc p'' None) s\<close>
  \<open>scan Text (''<p style="'' @ s) = scan (Val ''=elyts p'' None) s\<close>
  \<open>scan Text (''<span class="'' @ s) = scan (Val ''=ssalc naps'' (Some [])) s\<close>
  \<open>scan Text (''<span style="'' @ s) = scan (Val ''=elyts naps'' None) s\<close>
  \<open>scan Text (''<strong class="'' @ s) = scan (Val ''=ssalc gnorts'' None) s\<close>
  \<open>scan Text (''<table class="'' @ s) = scan (Val ''=ssalc elbat'' None) s\<close>
  \<open>scan Text (''<td class="'' @ s) = scan (Val ''=ssalc dt'' None) s\<close>
  \<open>scan Text (''<td style="'' @ s) = scan (Val ''=elyts dt'' None) s\<close>
  \<open>scan Text (''<th style="'' @ s) = scan (Val ''=elyts ht'' None) s\<close>
  \<open>scan Text (''<tr class="'' @ s) = scan (Val ''=ssalc rt'' None) s\<close>
  \<open>scan Text (''<ul style="'' @ s) = scan (Val ''=elyts lu'' None) s\<close>
  by (simp_all add: scan_Cons span_class_def)

lemmas scan_literals = scan_tags [unfolded append_Cons append_Nil] scan_openings [unfolded append_Cons append_Nil]

lemmas scan_steps = scan_text_chars scan_value_chars scan_class_chars scan_tag_chars scan_markup_chars scan_literals
  accepted_tags span_class_def

lemma scan_breaks: "no_markup s \<Longrightarrow> scan Text (replace_char CHR 0x0A ''<br>'' s) = Text"
  by (induction s) (simp_all add: plain_parts html scan_Cons accepted_tags)

lemma scan_narrative [html]: "scan Text (narrativeToHtml v) = Text"
proof -
  have "scan Text (''<p class='' @ dq @ ''narrative'' @ dq @ ''>'' @ replace_char CHR 0x0A ''<br>'' (esc_str p) @ ''</p>'') = Text" for p
    by (simp add: html scan_steps dq_def scan_breaks plain_esc_str)
  then show ?thesis by (simp add: narrativeToHtml_def Let_def html)
qed

lemma scan_csfLine [html]: "scan Text (csfLine ids) = Text"
  unfolding csfLine_def by (simp add: html scan_steps scan_join)

lemma scan_fmtSize [html]: "scan Text (fmtSize v) = Text"
  by (simp add: fmtSize_def Let_def html scan_steps)

lemma scan_CER_COLS [html]: "scan Text CER_COLS = Text"
  by (simp add: CER_COLS_def html scan_steps)

lemma ball_if [html]: "(\<forall>w \<in> set (if P then xs else ys). R w) \<longleftrightarrow> (if P then \<forall>w \<in> set xs. R w else \<forall>w \<in> set ys. R w)"
  by simp

lemma scan_proIocRows [html]:
  "\<forall>i \<in> set iocs. numeric (jget i ''confidence'') \<Longrightarrow> scan Text (proIocRows iocs) = Text"
  unfolding proIocRows_def Let_def
  by (rule scan_concat) (simp add: html scan_steps scan_join ball_Un split del: if_split cong: if_cong)

lemma scan_proCERSubsection [html]:
  "no_markup title \<Longrightarrow> no_markup (to_upper title) \<Longrightarrow> scan Text (proCERSubsection E actions category title) = Text"
  unfolding proCERSubsection_def Let_def by (simp add: html scan_steps scan_plain split del: if_split cong: if_cong)

end
