(* ===== verification/Report_Markup.thy ===== *)
theory Report_Markup
  imports Report_Safety
begin

text \<open>
  Every part of the report leaves the scanner in text, whatever the data: the data is escaped, a number, or read
  from a table of the templates.
\<close>

lemmas scan_rules = scan_steps scan_join ball_Un plain_parts list.set ball_simps

subsection \<open>Tables\<close>

definition summary_of :: "jsval \<Rightarrow> jsval" where
  "summary_of v = jor (jand v (jget v ''summary'')) (JObj [])"

definition numeric_fields :: "string list \<Rightarrow> jsval \<Rightarrow> bool" where
  "numeric_fields fs v \<longleftrightarrow> list_all (\<lambda>f. numeric (jget v f)) fs"

lemma scan_fmtLate [html]: "no_markup (fmtLate h)"
  by (simp add: fmtLate_def plain_parts plain_show)

lemma scan_proNotificationsSection [html]:
  assumes "numeric_fields [''notified'', ''required_total'', ''overdue'', ''not_required''] (summary_of sn)"
  shows "scan Text (proNotificationsSection E sn) = Text"
  using assms
  unfolding proNotificationsSection_def Let_def summary_of_def [symmetric] numeric_fields_def list.pred_inject
  by (simp add: html scan_rules split del: if_split cong: if_cong)

lemma scan_proRecoverySection [html]:
  assumes "numeric_fields [''validated'', ''not_required'', ''same_person_validations''] (summary_of r)"
  shows "scan Text (proRecoverySection E r) = Text"
  using assms
  unfolding proRecoverySection_def Let_def summary_of_def [symmetric] numeric_fields_def list.pred_inject
  by (simp add: html scan_rules split del: if_split cong: if_cong)

lemma scan_proRemBucket [html]: "no_markup color \<Longrightarrow> scan Text (proRemBucket items color) = Text"
  unfolding proRemBucket_def Let_def
  by (simp add: html scan_rules scan_plain [of color] split del: if_split cong: if_cong)

lemma scan_proRemSection [html]: "no_markup color \<Longrightarrow> scan Text (proRemSection narrative items label color) = Text"
  unfolding proRemSection_def Let_def
  by (simp add: html scan_rules scan_plain [of color] split del: if_split cong: if_cong)

lemma scan_proNarrativeAndList [html]:
  "scan Text l = Text \<Longrightarrow> scan Text (proNarrativeAndList narrative l) = Text"
  unfolding proNarrativeAndList_def Let_def
  by (simp add: html scan_rules split del: if_split cong: if_cong)

lemma scan_proComplianceHtml [html]: "scan Text (proComplianceHtml d) = Text"
  unfolding proComplianceHtml_def Let_def
  by (simp add: html scan_rules split del: if_split cong: if_cong)

lemma scan_chain_chips [html]: "no_markup color \<Longrightarrow> scan Text (chain_chips color techs) = Text"
  unfolding chain_chips_def
  by (rule scan_concat) (simp add: html scan_rules scan_plain [of color] split del: if_split cong: if_cong split: prod.split)

lemma scan_chain_left [html]: "no_markup (chain_left t0 span t)"
  by (simp add: chain_left_def plain_to_fixed)

lemma scan_chain_dots [html]: "no_markup color \<Longrightarrow> scan Text (chain_dots E color t0 span es) = Text"
  unfolding chain_dots_def
  by (rule scan_concat)
    (simp add: html scan_rules scan_plain [of color] scan_plain [OF scan_chain_left] split del: if_split cong: if_cong)

lemma scan_chain_lane [html]:
  "no_markup color \<Longrightarrow> scan Text chips = Text \<Longrightarrow> scan Text dots = Text \<Longrightarrow> scan Text (chain_lane color k name es chips dots) = Text"
  unfolding chain_lane_def
  by (simp add: html scan_rules scan_plain [of color] split del: if_split cong: if_cong)

lemma scan_chain_page [html]: "scan Text lanes = Text \<Longrightarrow> scan Text (chain_page E tagged n lanes a b) = Text"
  unfolding chain_page_def by (simp add: html scan_rules split del: if_split cong: if_cong)

lemma scan_proAttackChain [html]: "scan Text (proAttackChain E evs) = Text"
  unfolding proAttackChain_def Let_def by (simp add: html plain_colors)

subsection \<open>The appendices\<close>

lemma scan_offsetText [html]: "scan Text (offsetText E e) = Text"
  by (simp add: offsetText_def Let_def html)

lemma scan_timeline_card [html]:
  "no_markup side \<Longrightarrow> no_markup color \<Longrightarrow> scan Text (timeline_card E side color t m ev) = Text"
  unfolding timeline_card_def
  by (simp add: html scan_rules scan_plain [of color] scan_plain [of side] split del: if_split cong: if_cong)

lemma scan_timeline_rows: "\<forall>w \<in> set (timeline_rows E i d evs). scan Text w = Text"
  by (induction E i d evs rule: timeline_rows.induct)
    (simp_all add: Let_def html scan_rules plain_colors)

lemma scan_proTimelineAppendix [html]: "scan Text (proTimelineAppendix E evs) = Text"
  unfolding proTimelineAppendix_def
  by (simp add: html scan_rules scan_timeline_rows split del: if_split cong: if_cong)

lemma scan_note_signer [html]: "scan Text (note_signer n) = Text"
  unfolding note_signer_def Let_def by (simp add: html scan_rules split del: if_split cong: if_cong)

lemma scan_note_row [html]: "numeric (jget n ''revision'') \<Longrightarrow> scan Text (note_row E i n r1) = Text"
  unfolding note_row_def Let_def by (simp add: html scan_rules split del: if_split cong: if_cong)

lemma scan_notes_page [html]: "scan Text rows = Text \<Longrightarrow> scan Text (notes_page notes rows) = Text"
  unfolding notes_page_def Let_def by (simp add: html scan_rules split del: if_split cong: if_cong)

lemma scan_proCaseNotesAppendix [html]:
  assumes "\<forall>n \<in> set entries. numeric (jget n ''revision'')"
  shows "scan Text (proCaseNotesAppendix E entries) = Text"
proof -
  define first where "first = first_revisions entries"
  define shown where "shown = current_notes E first entries"
  have "set shown \<subseteq> set entries" by (auto simp: shown_def current_notes_def)
  then have "numeric (jget n ''revision'')" if "(i, n) \<in> set (enumerate 0 shown)" for i n
    using that assms nth_mem [of i shown] by (auto simp: in_set_enumerate_eq)
  then have "scan Text (concat (map (\<lambda>(i, n). note_row E (int i) n
      (case map_of first (note_root n) of Some r \<Rightarrow> r | None \<Rightarrow> n)) (enumerate 0 shown))) = Text"
    by (intro scan_concat) (auto simp: scan_note_row)
  then show ?thesis
    unfolding proCaseNotesAppendix_def Let_def first_def [symmetric] shown_def [symmetric]
    by (simp add: scan_notes_page) (simp add: html scan_rules)
qed

subsection \<open>The tables of the page\<close>

lemma scan_marks [html]: "scan Text not_closed = Text" "scan Text pending_mark = Text"
  by (simp_all add: not_closed_def pending_mark_def html scan_rules)

lemma scan_ioc_type_badges [html]: "scan Text (ioc_type_badges D) = Text"
  unfolding ioc_type_badges_def Let_def by (rule scan_concat) (simp add: html scan_rules split del: if_split cong: if_cong split: prod.split)

lemma scan_mitre_rows [html]: "scan Text (mitre_rows E D) = Text"
  unfolding mitre_rows_def Let_def by (rule scan_concat) (simp add: html scan_rules split del: if_split cong: if_cong split: prod.split)

lemma scan_entity_rows [html]: "scan Text (entity_rows D) = Text"
  unfolding entity_rows_def Let_def by (rule scan_concat) (simp add: html scan_rules split del: if_split cong: if_cong split: prod.split)

lemma scan_evidence_rows [html]: "scan Text (evidence_rows D) = Text"
  unfolding evidence_rows_def Let_def by (rule scan_concat) (simp add: html scan_rules split del: if_split cong: if_cong split: prod.split)

lemma scan_closure_items [html]: "scan Text (closure_items D) = Text"
  unfolding closure_items_def Let_def by (simp add: html scan_rules split del: if_split cong: if_cong)

lemma scan_assignments_html [html]: "scan Text (assignments_html E D) = Text"
  unfolding assignments_html_def Let_def by (simp add: html scan_rules split del: if_split cong: if_cong)

lemma scan_stakeholders_html [html]: "scan Text (stakeholders_html D) = Text"
  unfolding stakeholders_html_def Let_def by (simp add: html scan_rules split del: if_split cong: if_cong)

lemma scan_decisions_html [html]: "scan Text (decisions_html E D) = Text"
  unfolding decisions_html_def Let_def by (simp add: html scan_rules split del: if_split cong: if_cong)

lemma scan_deadlines_html [html]: "scan Text (deadlines_html E D) = Text"
  unfolding deadlines_html_def Let_def by (simp add: html scan_rules split del: if_split cong: if_cong)

lemma scan_legal_card [html]: "scan Text (legal_card D) = Text"
  unfolding legal_card_def Let_def by (simp add: html scan_rules split del: if_split cong: if_cong)

lemma plain_confidence [html]: "no_markup (js_string (jor (label_in CONF_HEX k) (JStr ''var(--text)'')))"
  by (rule plain_label_in) (simp_all add: CONF_HEX_def no_markup_def)

lemma scan_attribution_html [html]:
  assumes "\<forall>a \<in> set (list_of D ''attributions''). numeric_fields [''supporting_ioc_count'', ''supporting_timeline_count''] a"
  shows "scan Text (attribution_html E D) = Text"
  using assms unfolding attribution_html_def numeric_fields_def list.pred_inject
  by (simp add: html scan_rules scan_plain [OF plain_confidence] split del: if_split cong: if_cong)

lemma scan_affected_html [html]: "scan Text (affected_html E D) = Text"
  unfolding affected_html_def Let_def by (simp add: html scan_rules split del: if_split cong: if_cong)

lemma plain_task_icon: "no_markup (js_string (jor (label_in STATUS_ICON k) (JStr circle_sign)))"
  by (rule plain_label_in) (simp_all add: STATUS_ICON_def plain_signs)

lemma scan_task_rows [html]: "scan Text (task_rows ts) = Text"
  unfolding task_rows_def Let_def by (rule scan_concat) (simp add: html scan_rules scan_plain [OF plain_task_icon] split del: if_split cong: if_cong split: prod.split)

lemma scan_phase_block [html]: "scan Text (phase_block phase n ts) = Text"
  unfolding phase_block_def Let_def by (simp add: html scan_rules split del: if_split cong: if_cong)

lemma scan_playbook_sections [html]: "scan Text (playbook_sections D) = Text"
  unfolding playbook_sections_def Let_def by (simp add: html scan_rules split del: if_split cong: if_cong)

lemma scan_cost_card [html]: "scan Text (cost_card E cur cat n) = Text"
  unfolding cost_card_def Let_def by (simp add: html scan_rules split del: if_split cong: if_cong)

lemma scan_concat_all: "\<forall>w \<in> set ws. scan Text w = Text \<Longrightarrow> scan Text (concat ws) = Text"
  using scan_concat [of ws "\<lambda>w. w"] by simp

lemma scan_cost_cards [html]: "scan Text (cost_cards E D) = Text"
  unfolding cost_cards_def by (rule scan_concat_all) (auto simp: scan_cost_card)

lemma scan_logo_html [html]: "scan Text (logo_html Q) = Text"
  unfolding logo_html_def Let_def by (simp add: html scan_rules split del: if_split cong: if_cong)

lemma scan_audience_note [html]: "scan Text (audience_note Q) = Text"
  unfolding audience_note_def Let_def by (simp add: html scan_rules split del: if_split cong: if_cong)

lemma scan_comms_log_html [html]: "scan Text (comms_log_html E D) = Text"
  unfolding comms_log_html_def Let_def by (simp add: html scan_rules split del: if_split cong: if_cong)

lemma scan_sign_off_html [html]: "scan Text (sign_off_html E D) = Text"
  unfolding sign_off_html_def Let_def by (simp add: html scan_rules split del: if_split cong: if_cong)

end
