(* ===== verification/Report_Inert.thy ===== *)
theory Report_Inert
  imports Report_Markup
begin

text \<open>
  The whole report through the scanner: data never becomes markup.
\<close>

subsection \<open>Figures\<close>

text \<open>Only a raster \<open>data:\<close> URI is embedded, and such a URI has no character that could leave its attribute.\<close>

lemma raster_plain: "rx_test RASTER_DATA_URI s \<Longrightarrow> no_markup s"
proof -
  have pow: "no_markup w" if "w \<in> lang_pow {''=''} n" for w n
    using that by (induction n arbitrary: w) (auto simp: mem_conc plain_parts)
  have base64: "no_markup w" if "list_all (\<lambda>c. is_alpha c \<or> is_digit c \<or> c = CHR ''+'' \<or> c = CHR ''/'') w" for w
    using that by (induction w) (auto simp: plain_parts is_alpha_def is_digit_def)
  have star: "w \<in> rx_lang (star (lit ''='')) \<longleftrightarrow> (\<exists>n. w \<in> lang_pow {''=''} n)" for w
    unfolding rx_lang.simps(5) rx_lang_lit by simp
  assume "rx_test RASTER_DATA_URI s"
  moreover have "Js_Regex.plain RASTER_BODY" by (simp add: RASTER_BODY_def lit_def)
  ultimately have "s \<in> rx_lang RASTER_BODY" unfolding RASTER_DATA_URI_def by (simp add: rx_test_whole)
  then show ?thesis
    unfolding RASTER_BODY_def rx_lang_seqs_Cons seqs.simps(2) rx_lang_lit rx_lang_alts rx_lang_plus_cls
    by (auto simp: mem_conc star plain_parts base64 pow simp del: rx_lang.simps)
qed

lemma scan_figure_src [html]: "truthy (figure_src f) \<Longrightarrow> scan (Val b None) (js_string (figure_src f)) = Val b None"
  by (auto simp: figure_src_def dest!: raster_plain split: if_splits intro: scan_plain)

lemma scan_figure_html [html]: "numeric (jget f ''n'') \<Longrightarrow> scan Text (figure_html (figure_src f) title f) = Text"
  unfolding figure_html_def
  by (simp add: html scan_rules split del: if_split cong: if_cong)

lemma scan_figures_html [html]: "\<forall>f \<in> set (figures_of D Q). numeric (jget f ''n'') \<Longrightarrow> scan Text (figures_html D Q) = Text"
  unfolding figures_html_def Let_def
  by (simp add: html scan_rules split del: if_split cong: if_cong)

subsection \<open>Section bodies\<close>

text \<open>What the report relies on: the numbers it prints as they are, are numbers, and the classification is one of the
  vocabulary.\<close>

definition typed_report :: "jsval \<Rightarrow> bool" where
  "typed_report D \<longleftrightarrow>
     (\<forall>i \<in> set (list_of D ''iocs''). numeric (jget i ''confidence''))
     \<and> (\<forall>a \<in> set (list_of D ''attributions''). numeric_fields [''supporting_ioc_count'', ''supporting_timeline_count''] a)
     \<and> numeric_fields [''notified'', ''required_total'', ''overdue'', ''not_required''] (summary_of (jget D ''stakeholder_notifications''))
     \<and> numeric_fields [''validated'', ''not_required'', ''same_person_validations''] (summary_of (jget D ''recovery''))
     \<and> numeric_fields [''total'', ''active'', ''digital'', ''physical''] (ev_of D)
     \<and> (\<forall>n \<in> set (list_of D ''case_notes''). numeric (jget n ''revision''))
     \<and> tlp_of D \<in> set (map vr_value TLP)"

lemma upper_char_markup:
  "upper_char c = CHR ''<'' \<longleftrightarrow> c = CHR ''<''" "upper_char c = CHR ''>'' \<longleftrightarrow> c = CHR ''>''"
  "upper_char c = CHR 0x22 \<longleftrightarrow> c = CHR 0x22"
  by (auto simp: upper_char_def code_of_def dest!: arg_cong [where f = "of_char :: char \<Rightarrow> nat"])

lemma plain_to_upper: "no_markup s \<Longrightarrow> no_markup (to_upper s)"
  by (induction s) (simp_all add: to_upper_def plain_parts upper_char_markup)

lemma tlp_plain: "typed_report D \<Longrightarrow> no_markup (tlp_upper D)"
proof -
  have "\<forall>v \<in> set (map vr_value TLP). no_markup v" by (simp add: TLP_def plain_parts)
  then show "typed_report D \<Longrightarrow> no_markup (tlp_upper D)" by (auto simp: typed_report_def tlp_upper_def intro: plain_to_upper)
qed

lemma scan_markdown [html]: "(\<And>s. scan Text (r_markdown E s) = Text) \<Longrightarrow> scan Text (markdownToHtml E v) = Text"
  by (simp add: markdownToHtml_def html)

lemma scan_body_exec_summary [html]: "scan Text (body_exec_summary E D Q) = Text"
  unfolding body_exec_summary_def Let_def
  by (simp add: html scan_rules split del: if_split cong: if_cong)

lemma scan_body_details [html]:
  assumes "typed_report D" "\<And>s. scan Text (r_markdown E s) = Text"
  shows "scan Text (body_details E D Q) = Text"
  unfolding body_details_def
  by (simp add: html scan_rules assms scan_plain [OF tlp_plain [OF assms(1)]] NCISS_TITLE_def split del: if_split cong: if_cong)

lemma scan_body_detection [html]: "typed_report D \<Longrightarrow> scan Text (body_detection E D Q) = Text"
  unfolding body_detection_def typed_report_def
  by (simp add: html scan_rules split del: if_split cong: if_cong)

lemma scan_body_cer [html]: "scan Text (body_cer E D Q) = Text"
  unfolding body_cer_def
  by (simp add: html scan_rules scan_proCERSubsection plain_to_upper split del: if_split cong: if_cong)

lemma scan_body_recovery [html]: "typed_report D \<Longrightarrow> scan Text (body_recovery E D Q) = Text"
  by (simp add: body_recovery_def typed_report_def scan_proRecoverySection)

lemma scan_body_comms_log [html]: "typed_report D \<Longrightarrow> scan Text (body_comms_log E D Q) = Text"
  by (simp add: body_comms_log_def typed_report_def scan_append scan_proNotificationsSection scan_comms_log_html)

lemma scan_body_impact [html]: "scan Text (body_impact E D Q) = Text"
  unfolding body_impact_def Let_def
  by (simp add: html scan_rules split del: if_split cong: if_cong)

lemma scan_body_root_cause [html]: "scan Text (body_root_cause E D Q) = Text"
  unfolding body_root_cause_def Let_def
  by (simp add: html scan_rules split del: if_split cong: if_cong)

lemma scan_body_attack_chain [html]: "scan Text (body_attack_chain E D Q) = Text"
  unfolding body_attack_chain_def Let_def
  by (simp add: html scan_rules split del: if_split cong: if_cong)

lemma scan_body_entities [html]: "scan Text (body_entities E D Q) = Text"
  unfolding body_entities_def Let_def
  by (simp add: html scan_rules split del: if_split cong: if_cong)

lemma scan_body_evidence [html]: "typed_report D \<Longrightarrow> scan Text (body_evidence E D Q) = Text"
  unfolding body_evidence_def typed_report_def numeric_fields_def list.pred_inject
  by (simp add: html scan_rules split del: if_split cong: if_cong)

lemma scan_body_playbook [html]: "scan Text (body_playbook E D Q) = Text"
  unfolding body_playbook_def Let_def
  by (simp add: html scan_rules split del: if_split cong: if_cong)

lemma scan_body_closure [html]: "scan Text (body_closure E D Q) = Text"
  unfolding body_closure_def Let_def
  by (simp add: html scan_rules split del: if_split cong: if_cong)

lemma scan_body_lessons [html]: "scan Text (body_lessons E D Q) = Text"
  unfolding body_lessons_def Let_def
  by (simp add: html scan_rules split del: if_split cong: if_cong)

lemma scan_body_remediation [html]: "scan Text (body_remediation E D Q) = Text"
  unfolding body_remediation_def Let_def
  by (simp add: html scan_rules split del: if_split cong: if_cong)

lemma scan_body_costs [html]: "scan Text (body_costs E D Q) = Text"
  unfolding body_costs_def Let_def
  by (simp add: html scan_rules split del: if_split cong: if_cong)

lemma scan_attributions: "typed_report D \<Longrightarrow> scan Text (attribution_html E D) = Text"
  by (rule scan_attribution_html) (simp add: typed_report_def)

lemma scan_section_bodies:
  assumes "typed_report D" "\<And>s. scan Text (r_markdown E s) = Text" "\<forall>f \<in> set (figures_of D Q). numeric (jget f ''n'')"
  shows "\<forall>(key, body) \<in> set (section_bodies E D Q). scan Text body = Text"
  unfolding section_bodies_def
  by (simp add: assms scan_attributions html)

subsection \<open>The page\<close>

lemma scan_section_html: "scan Text body = Text \<Longrightarrow> scan Text (section_html i s body) = Text"
  unfolding section_html_def
  by (simp add: html scan_rules pad2_num_def split del: if_split cong: if_cong)

lemma scan_sections_html:
  assumes "typed_report D" "\<And>s. scan Text (r_markdown E s) = Text" "\<forall>f \<in> set (figures_of D Q). numeric (jget f ''n'')"
  shows "scan Text (sections_html E D Q) = Text"
proof -
  have "scan Text body = Text" if "(s, body) \<in> set (report_sections E D Q)" for s body
  proof -
    from that have "body \<in> set (map snd (section_bodies E D Q))"
      unfolding report_sections_eq by (auto dest: set_zip_rightD)
    then show ?thesis using scan_section_bodies [OF assms] by auto
  qed
  then have "scan Text (section_html i s body) = Text" if "(i, s, body) \<in> set (enumerate 0 (report_sections E D Q))" for i s body
    using that nth_mem [of i "report_sections E D Q"] by (intro scan_section_html) (auto simp: in_set_enumerate_eq)
  then show ?thesis unfolding sections_html_def by (intro scan_join) (auto simp: html)
qed

lemma scan_timeline_body [html]: "scan Text (timeline_body E D) = Text"
  unfolding timeline_body_def by (simp add: html scan_rules split del: if_split cong: if_cong)

lemma scan_appendix_html: "i < 3 \<Longrightarrow> scan Text body = Text \<Longrightarrow> scan Text (appendix_html i title body) = Text"
proof -
  assume i: "i < 3" and body: "scan Text body = Text"
  have "no_markup (letter i)" using i by (auto simp: letter_def plain_parts code_of_def dest!: arg_cong [where f = code_of])
  from scan_plain [OF this] body show ?thesis
    unfolding appendix_html_def by (simp add: html scan_rules split del: if_split cong: if_cong)
qed

lemma scan_appendices_html:
  assumes "typed_report D"
  shows "scan Text (appendices_html E D Q) = Text"
proof -
  have "scan Text body = Text" if "(title, body) \<in> set (report_appendices E D Q)" for title body
    using that assms by (auto simp: report_appendices_def html typed_report_def split: if_splits)
  moreover have "length (report_appendices E D Q) \<le> 3" by (simp add: report_appendices_def)
  ultimately have "scan Text (appendix_html i title body) = Text"
    if "(i, title, body) \<in> set (enumerate 0 (report_appendices E D Q))" for i title body
    using that nth_mem [of i "report_appendices E D Q"] by (intro scan_appendix_html) (auto simp: in_set_enumerate_eq)
  then show ?thesis unfolding appendices_html_def by (intro scan_join) (auto simp: html)
qed

lemma scan_page_head:
  assumes "typed_report D"
  shows "scan Text (page_head E D Q) = Text"
  using assms unfolding page_head_def typed_report_def numeric_fields_def list.pred_inject
  by (simp add: html scan_rules scan_plain [OF tlp_plain [OF assms]] NCISS_TITLE_def split del: if_split cong: if_cong)

lemma scan_page_footer:
  assumes "typed_report D"
  shows "scan Text (page_footer E D Q) = Text"
  unfolding page_footer_def REPORT_SHA256_PLACEHOLDER_def
  by (simp add: html scan_rules scan_plain [OF tlp_plain [OF assms]] split del: if_split cong: if_cong)

text \<open>The style sheet has no markup at all.\<close>

lemma themes: "theme_of Q \<in> {THEME_tactical, THEME_executive, THEME_print, THEME_forensic}"
  by (auto simp: theme_of_def PRO_THEMES_def split: option.splits dest!: map_of_SomeD)

lemma plain_fonts: "no_markup (th_fonts (theme_of Q))"
  using themes [of Q]
  by (auto simp: THEME_tactical_def THEME_executive_def THEME_print_def THEME_forensic_def plain_parts plain_signs)

lemma plain_theme: "no_markup (th_cover_gradient (theme_of Q))" "no_markup (th_prose_color (theme_of Q))"
  using themes [of Q]
  by (auto simp: THEME_tactical_def THEME_executive_def THEME_print_def THEME_forensic_def plain_parts plain_signs)

lemma plain_theme_vars: "list_all (\<lambda>(k, v). no_markup k \<and> no_markup v) (th_vars (theme_of Q))"
  using themes [of Q]
  by (auto simp: THEME_tactical_def THEME_executive_def THEME_print_def THEME_forensic_def plain_parts plain_signs)

lemma plain_join: "no_markup sep \<Longrightarrow> \<forall>w \<in> set ws. no_markup w \<Longrightarrow> no_markup (join sep ws)"
  by (induction sep ws rule: join.induct) (simp_all add: plain_parts)

lemma plain_css_vars: "no_markup (css_vars D Q)"
proof -
  have "no_markup (join nl (map (\<lambda>(k, v). ''  --'' @ k @ '': '' @ v @ '';'') (th_vars (theme_of Q)) @ [''  --red: '' @ sevHex (sev_of D) @ '';'', ''  --tlp: '' @ tlpHex (tlp_of D) @ '';'']))"
    using plain_theme_vars [of Q] by (intro plain_join) (auto simp: plain_parts plain_rules list_all_iff)
  then show ?thesis by (simp add: css_vars_def renderProCssVars_def Let_def plain_parts plain_signs)
qed

lemma plain_css: "no_markup (css_1 D Q)" "no_markup (css_2 D Q)" "no_markup (css_3 D Q)" "no_markup (css_4 D Q)" "no_markup (css_5 D Q)"
  unfolding css_1_def css_2_def css_3_def css_4_def css_5_def
  by (simp_all add: plain_parts plain_rules plain_fonts plain_theme plain_css_vars)

text \<open>The entry point only replaces the list of events.\<close>

lemma filtered_fields:
  "f \<noteq> ''timeline_events'' \<Longrightarrow> jget (filtered_data D Q) f = jget D f" "truthy (filtered_data D Q) = truthy D"
  by (simp_all add: filtered_data_def split: jsval.split)

lemma filtered_lists: "f \<noteq> ''timeline_events'' \<Longrightarrow> list_of (filtered_data D Q) f = list_of D f"
  by (simp add: list_of_def filtered_fields)

lemma filtered_records: "inc_of (filtered_data D Q) = inc_of D" "ev_of (filtered_data D Q) = ev_of D"
  by (simp_all add: inc_of_def ev_of_def jand_def jor_def filtered_fields)

lemma typed_filtered: "typed_report D \<Longrightarrow> typed_report (filtered_data D Q)"
  by (simp add: typed_report_def filtered_lists filtered_records filtered_fields tlp_of_def)

lemma scan_report:
  assumes "typed_report D" "\<forall>s. scan Text (r_markdown E s) = Text" "\<forall>f \<in> set (figures_of D Q). numeric (jget f ''n'')"
  shows "scan Text (generateReport E D Q) = Text"
proof -
  define F where "F = filtered_data D Q"
  define P where "P = Q\<lparr>o_templateId := resolved_id (o_templateId Q)\<rparr>"
  have typed: "typed_report F" using assms(1) by (simp add: F_def typed_filtered)
  have figures: "\<forall>f \<in> set (figures_of F P). numeric (jget f ''n'')"
    using assms(3) by (simp add: figures_of_def F_def P_def filtered_lists)
  have "scan Text (page_body E F P) = Text"
    using assms(2) unfolding page_body_def
    by (simp add: scan_append scan_page_head scan_sections_html scan_appendices_html scan_page_footer typed figures
        plain_signs [THEN scan_plain(1)])
  then show ?thesis
    unfolding generateReport_def F_def [symmetric] P_def [symmetric] generateProReport_def page_css_def
    by (simp add: html scan_rules plain_css [THEN scan_plain(1)])
qed

lemma tags_harmless:
  "\<forall>t \<in> set (TEMPLATE_TAGS @ MARKDOWN_TAGS). \<not> str_includes t '' on''
     \<and> takeWhile (\<lambda>c. c \<noteq> CHR '' '') t \<notin> {''script'', ''iframe'', ''form'', ''object'', ''embed'', ''svg'', ''base'', ''link''}"
  by code_simp


definition hostile_incident :: jsval where
  "hostile_incident = JObj [(''incident'', JObj [(''title'', JStr ''<script>alert(1)</script>''), (''tlp'', JStr ''red''),
      (''description'', JStr ''<img src=x onerror=alert(1)>'')]),
     (''iocs'', JArr [JObj [(''type'', JStr ''url''), (''value'', JStr ''\" onload=x''), (''confidence'', JNum 80)]])]"

definition demo_env :: renv where
  "demo_env = \<lparr>r_read = (\<lambda>s. None), r_zone = (\<lambda>t. 0), r_now = ''2025-01-01T00:00:00.000Z'',
     r_markdown = (\<lambda>s. ''<p>'' @ esc_str s @ ''</p>''), r_number = show_int, r_compare = str_cmp\<rparr>"

definition demo_opts :: report_opts where
  "demo_opts = \<lparr>o_templateId = ''tactical'', o_mode = ''full'', o_logo = JNull, o_footer = JStr [], o_classification = JStr [],
     o_audience = JStr [], o_includeTimelineAppendix = True, o_includeInternalEvents = True, o_sections = JObj [], o_figures = JNull\<rparr>"

lemma hostile_typed: "typed_report hostile_incident"
  by (simp add: typed_report_def hostile_incident_def list_of_def jor_def jand_def numeric_fields_def summary_of_def ev_of_def
      tlp_of_def inc_of_def to_lower_def lower_char_def code_of_def TLP_def)

lemma demo_env_inert: "\<forall>s. scan Text (r_markdown demo_env s) = Text"
  by (simp add: demo_env_def html scan_rules)

lemma demo_figures: "\<forall>f \<in> set (figures_of hostile_incident demo_opts). numeric (jget f ''n'')"
  by (simp add: figures_of_def demo_opts_def hostile_incident_def list_of_def jor_def)


end
