(* ===== verification/Report_Seal.thy ===== *)
theory Report_Seal
  imports Report_Inert "HOL-Library.Word"
begin

text \<open>
  \<^verbatim>\<open>frontend/src/lib/reportTemplates.js\<close>, the self-hash of a report: \<open>injectReportSha256\<close> puts the digest of the
  document in the place of its placeholder, \<open>verifyReportSha256\<close> looks for it and computes it again. The digest
  (\<open>crypto.subtle.digest\<close>) is a parameter: a function from texts to bytes.
\<close>

subsection \<open>The code\<close>

text \<open>\<open>s.replace(w, r)\<close> with a string \<open>w\<close>: the first occurrence.\<close>

fun replace_first :: "string \<Rightarrow> string \<Rightarrow> string \<Rightarrow> string" where
  "replace_first w r [] = (if w = [] then r else [])"
| "replace_first w r (c # s) = (if prefix w (c # s) then r @ drop (length w) (c # s) else c # replace_first w r s)"

text \<open>\<open>Array.from(bytes).map(b => b.toString(16).padStart(2, '0')).join('')\<close>.\<close>

definition hex_digit :: "nat \<Rightarrow> char" where
  "hex_digit n = (if n < 10 then char_of (48 + n) else char_of (87 + n))"

definition hex_pair :: "8 word \<Rightarrow> string" where
  "hex_pair b = [hex_digit (unat b div 16), hex_digit (unat b mod 16)]"

definition to_hex :: "8 word list \<Rightarrow> string" where
  "to_hex bs = concat (map hex_pair bs)"

definition injectReportSha256 :: "(string \<Rightarrow> 8 word list) \<Rightarrow> string \<Rightarrow> string" where
  "injectReportSha256 sha256 html =
     (if \<not> str_includes html REPORT_SHA256_PLACEHOLDER then html
      else replace_first REPORT_SHA256_PLACEHOLDER (to_hex (sha256 html)) html)"

text \<open>The marker \<open>/<span class="report-sha256">([0-9a-f]{64})<\/span>/\<close>: its capture at the first match.\<close>

definition MARKER_OPEN :: string where
  \<open>MARKER_OPEN = ''<span class="report-sha256">''\<close>

definition MARKER_CLOSE :: string where
  "MARKER_CLOSE = ''</span>''"

definition is_lower_hex :: "char \<Rightarrow> bool" where
  "is_lower_hex c \<longleftrightarrow> is_digit c \<or> (97 \<le> code_of c \<and> code_of c \<le> 102)"

definition marker_at :: "string \<Rightarrow> string option" where
  "marker_at s =
     (let hex = take 64 (drop (length MARKER_OPEN) s) in
      if prefix MARKER_OPEN s \<and> length hex = 64 \<and> list_all is_lower_hex hex
         \<and> prefix MARKER_CLOSE (drop 64 (drop (length MARKER_OPEN) s))
      then Some hex else None)"

fun find_marker :: "string \<Rightarrow> string option" where
  "find_marker [] = None"
| "find_marker (c # s) = (case marker_at (c # s) of Some hex \<Rightarrow> Some hex | None \<Rightarrow> find_marker s)"

datatype verdict_sha = NoMarker | Checked (sha_ok: bool) (sha_claimed: string) (sha_computed: string)

definition verifyReportSha256 :: "(string \<Rightarrow> 8 word list) \<Rightarrow> string \<Rightarrow> verdict_sha" where
  "verifyReportSha256 sha256 html =
     (case find_marker html of
        None \<Rightarrow> NoMarker
      | Some claimed \<Rightarrow>
          let hex = to_hex (sha256 (replace_first claimed REPORT_SHA256_PLACEHOLDER html))
          in Checked (hex = claimed) claimed hex)"

subsection \<open>Facts about the parts\<close>

lemma lower_hex_digit: "n < 16 \<Longrightarrow> is_lower_hex (hex_digit n)"
  by (auto simp: is_lower_hex_def hex_digit_def is_digit_def)

lemma to_hex_hex: "list_all is_lower_hex (to_hex bs)"
proof (induction bs)
  case (Cons b bs)
  have "unat b < 256" using unsigned_less [of b] by simp
  then show ?case using Cons by (simp add: to_hex_def hex_pair_def lower_hex_digit)
qed (simp add: to_hex_def)

lemma length_to_hex: "length (to_hex bs) = 2 * length bs"
  by (induction bs) (simp_all add: to_hex_def hex_pair_def)

text \<open>A word without a character \<open>x\<close> lies on one side of an \<open>x\<close>.\<close>

lemma sublist_split: "x \<notin> set w \<Longrightarrow> sublist w (a @ x # b) \<Longrightarrow> sublist w a \<or> sublist w b"
proof -
  assume x: "x \<notin> set w" and "sublist w (a @ x # b)"
  then obtain u v where "a @ x # b = u @ w @ v" by (auto simp: sublist_def)
  then obtain z where "u = a @ z \<and> x # b = z @ w @ v \<or> a = u @ z \<and> z @ x # b = w @ v"
    by (auto simp: append_eq_append_conv2)
  then show ?thesis
  proof (elim disjE conjE)
    assume "x # b = z @ w @ v"
    with x show ?thesis by (cases z; cases w) (auto simp: sublist_def)
  next
    assume a: "a = u @ z" and "z @ x # b = w @ v"
    then obtain y where "z = w @ y \<and> y @ x # b = v \<or> z @ y = w \<and> x # b = y @ v" by (auto simp: append_eq_append_conv2)
    with a x have "\<exists>t. a = u @ w @ t" by (cases y) auto
    then show ?thesis unfolding sublist_def by blast
  qed
qed

lemma replace_first_here: "w \<noteq> [] \<Longrightarrow> replace_first w r (w @ b) = r @ b"
  by (cases w) simp_all

lemma prefix_over:
  assumes "x \<notin> set w" "prefix w (a @ x # b)"
  shows "prefix w a"
proof (rule ccontr)
  assume "\<not> prefix w a"
  with assms(2) obtain t where "w = a @ t" "prefix t (x # b)" "t \<noteq> []"
    unfolding prefix_append by (metis append_Nil2 prefix_order.order_refl)
  then show False using assms(1) by (cases t) auto
qed

lemma replace_first_after:
  "x \<notin> set w \<Longrightarrow> w \<noteq> [] \<Longrightarrow> \<not> sublist w a \<Longrightarrow> replace_first w r (a @ x # b) = a @ x # replace_first w r b"
proof (induction a)
  case Nil
  then show ?case by (cases w) auto
next
  case (Cons c a)
  then have "\<not> prefix w (c # a @ x # b)" using prefix_over [of x w "c # a" b] prefix_imp_sublist by auto
  with Cons show ?case by (auto simp: sublist_Cons_right)
qed

lemma replace_first_prefix: "c # s = w @ t \<Longrightarrow> replace_first w r (c # s) = r @ t"
  by (metis prefixI replace_first.simps(2) append_eq_conv_conj)

lemma replace_first_append: "sublist w a \<Longrightarrow> replace_first w r (a @ b) = replace_first w r a @ b"
proof (induction a)
  case Nil
  then show ?case by (cases b) auto
next
  case (Cons c a)
  show ?case
  proof (cases "prefix w (c # a)")
    case True
    then obtain t where t: "c # a = w @ t" by (auto simp: prefix_def)
    then have t': "c # (a @ b) = w @ t @ b" by (metis append_Cons append_assoc)
    show ?thesis using replace_first_prefix [OF t] replace_first_prefix [OF t'] by simp
  next
    case False
    then have "sublist w a" using Cons.prems by (auto simp: sublist_Cons_right)
    then have "length w \<le> length a" by (rule sublist_length_le)
    then have "\<not> prefix w (c # a @ b)" using False
      by (metis append_Cons length_Cons le_SucI prefix_length_prefix prefixI)
    with False Cons.IH \<open>sublist w a\<close> show ?thesis by simp
  qed
qed

lemma replace_first_sublist: "sublist w s \<Longrightarrow> \<exists>a b. s = a @ w @ b \<and> replace_first w r s = a @ r @ b"
proof (induction s)
  case (Cons c s)
  show ?case
  proof (cases "prefix w (c # s)")
    case True
    then obtain t where "c # s = w @ t" by (auto simp: prefix_def)
    then have "c # s = [] @ w @ t \<and> replace_first w r (c # s) = [] @ r @ t" using replace_first_prefix by simp
    then show ?thesis by blast
  next
    case False
    with Cons obtain a b where "s = a @ w @ b" "replace_first w r s = a @ r @ b" by (auto simp: sublist_Cons_right)
    with False have "c # s = (c # a) @ w @ b \<and> replace_first w r (c # s) = (c # a) @ r @ b" by simp
    then show ?thesis by blast
  qed
qed (auto intro: exI [of _ "[]"])

lemma find_marker_None: "\<not> sublist MARKER_OPEN s \<Longrightarrow> find_marker s = None"
proof (induction s)
  case (Cons c s)
  then have "\<not> prefix MARKER_OPEN (c # s)" "\<not> sublist MARKER_OPEN s"
    by (auto simp: sublist_Cons_right)
  with Cons.IH show ?case by (simp add: marker_at_def Let_def)
qed simp

text \<open>No document the scanner accepts has a marker.\<close>

lemma scan_marker: "scan st MARKER_OPEN = Bad"
  by (cases st rule: scan_state.exhaust)
    (simp_all add: MARKER_OPEN_def scan_Cons scan_Nil span_class_def accepted_tags)

lemma inert_no_marker: "scan Text s = Text \<Longrightarrow> \<not> sublist MARKER_OPEN s"
  by (auto simp: sublist_def scan_append scan_marker)

subsection \<open>Sealing\<close>

text \<open>The marker is \<open><\<close>, a middle without \<open><\<close>, \<open>>\<close>.\<close>

definition MARKER_MIDDLE :: string where
  \<open>MARKER_MIDDLE = ''span class="report-sha256"''\<close>

lemma marker_open: "MARKER_OPEN = CHR ''<'' # MARKER_MIDDLE @ [CHR ''>'']" "CHR ''<'' \<notin> set MARKER_MIDDLE"
  "length MARKER_MIDDLE = 26"
  by (simp_all add: MARKER_OPEN_def MARKER_MIDDLE_def)

lemma placeholder_chars:
  "CHR ''<'' \<notin> set REPORT_SHA256_PLACEHOLDER" "CHR ''>'' \<notin> set REPORT_SHA256_PLACEHOLDER"
  "26 < length REPORT_SHA256_PLACEHOLDER"
  by (simp_all add: REPORT_SHA256_PLACEHOLDER_def)

lemma hex_chars:
  assumes "list_all is_lower_hex h"
  shows "CHR ''<'' \<notin> set h" "CHR ''>'' \<notin> set h"
  using assms by (auto simp: list_all_iff is_lower_hex_def is_digit_def code_of_def)

text \<open>A long word without \<open><\<close> and \<open>>\<close> is replaced at the marker when it does not occur before it.\<close>

lemma replace_at_marker:
  assumes "CHR ''<'' \<notin> set w" "CHR ''>'' \<notin> set w" "26 < length w" "\<not> sublist w a"
  shows "replace_first w r (a @ MARKER_OPEN @ w @ b) = a @ MARKER_OPEN @ r @ b"
proof -
  have "\<not> sublist w MARKER_MIDDLE" using assms(3) marker_open(3) sublist_length_le by fastforce
  then have "\<not> sublist w (a @ CHR ''<'' # MARKER_MIDDLE)" using assms(1,4) sublist_split by metis
  moreover have w: "w \<noteq> []" using assms(3) by auto
  ultimately have "replace_first w r ((a @ CHR ''<'' # MARKER_MIDDLE) @ CHR ''>'' # (w @ b))
      = (a @ CHR ''<'' # MARKER_MIDDLE) @ CHR ''>'' # replace_first w r (w @ b)"
    using assms(2) by (intro replace_first_after)
  then show ?thesis by (simp add: marker_open(1) replace_first_here [OF w])
qed

lemma find_marker_at:
  assumes "\<not> sublist MARKER_OPEN a" "list_all is_lower_hex h" "length h = 64"
  shows "find_marker (a @ MARKER_OPEN @ h @ MARKER_CLOSE @ b) = Some h"
  using assms(1)
proof (induction a)
  case Nil
  obtain c s where cs: "MARKER_OPEN @ h @ MARKER_CLOSE @ b = c # s" by (cases "MARKER_OPEN @ h @ MARKER_CLOSE @ b") (auto simp: MARKER_OPEN_def)
  have "marker_at (MARKER_OPEN @ h @ MARKER_CLOSE @ b) = Some h" using assms(2,3) by (simp add: marker_at_def Let_def)
  then show ?case unfolding append_Nil cs by simp
next
  case (Cons c a)
  have "\<not> prefix MARKER_OPEN (c # a @ MARKER_OPEN @ h @ MARKER_CLOSE @ b)"
  proof
    assume "prefix MARKER_OPEN (c # a @ MARKER_OPEN @ h @ MARKER_CLOSE @ b)"
    then have c: "c = CHR ''<''" "prefix (MARKER_MIDDLE @ [CHR ''>'']) (a @ CHR ''<'' # MARKER_MIDDLE @ [CHR ''>''] @ h @ MARKER_CLOSE @ b)"
      by (auto simp: marker_open(1))
    have "CHR ''<'' \<notin> set (MARKER_MIDDLE @ [CHR ''>''])" using marker_open(2) by simp
    then have "prefix (MARKER_MIDDLE @ [CHR ''>'']) a" using c(2) by (rule prefix_over)
    then have "prefix MARKER_OPEN (c # a)" using c(1) by (simp add: marker_open(1))
    then show False using Cons.prems prefix_imp_sublist by blast
  qed
  moreover have "\<not> sublist MARKER_OPEN a" using Cons.prems by (auto simp: sublist_Cons_right)
  ultimately show ?case using Cons.IH by (simp add: marker_at_def Let_def)
qed

text \<open>A document with the marker the verifier looks for is sealed so that it verifies: the digest is found again, the
  placeholder is put back in its place and the same digest comes out.\<close>

theorem seal_verifies:
  assumes "\<forall>x. length (sha256 x) = 32"
    and "html = a @ MARKER_OPEN @ REPORT_SHA256_PLACEHOLDER @ MARKER_CLOSE @ b"
    and "\<not> sublist REPORT_SHA256_PLACEHOLDER a" "\<not> sublist MARKER_OPEN a" "\<not> sublist (to_hex (sha256 html)) a"
  shows "verifyReportSha256 sha256 (injectReportSha256 sha256 html) = Checked True (to_hex (sha256 html)) (to_hex (sha256 html))"
proof -
  define h where "h = to_hex (sha256 html)"
  have h: "list_all is_lower_hex h" "length h = 64" using assms(1) by (simp_all add: h_def to_hex_hex length_to_hex)
  have "sublist REPORT_SHA256_PLACEHOLDER html" unfolding assms(2) sublist_def by (metis append_assoc)
  then have sealed: "injectReportSha256 sha256 html = a @ MARKER_OPEN @ h @ MARKER_CLOSE @ b"
    unfolding injectReportSha256_def h_def str_includes_iff_sublist
    using replace_at_marker [OF placeholder_chars assms(3)] by (simp add: assms(2))
  have "find_marker (a @ MARKER_OPEN @ h @ MARKER_CLOSE @ b) = Some h" using assms(4) h by (rule find_marker_at)
  moreover have "replace_first h REPORT_SHA256_PLACEHOLDER (a @ MARKER_OPEN @ h @ MARKER_CLOSE @ b) = html"
  proof -
    have "\<not> sublist h a" using assms(5) by (simp add: h_def)
    then show ?thesis using replace_at_marker [OF hex_chars [OF h(1)]] h(2) by (simp add: assms(2))
  qed
  ultimately show ?thesis unfolding sealed verifyReportSha256_def by (simp add: h_def [symmetric] Let_def)
qed

definition demo_sha :: "string \<Rightarrow> 8 word list" where
  "demo_sha s = replicate 32 (word_of_nat (length s))"

lemma seal_verifies_witness:
  "sha_ok (verifyReportSha256 demo_sha (injectReportSha256 demo_sha (MARKER_OPEN @ REPORT_SHA256_PLACEHOLDER @ MARKER_CLOSE)))"
  using seal_verifies [of demo_sha "MARKER_OPEN @ REPORT_SHA256_PLACEHOLDER @ MARKER_CLOSE" "[]" "[]"]
  by (simp add: demo_sha_def MARKER_OPEN_def REPORT_SHA256_PLACEHOLDER_def to_hex_def hex_pair_def)

text \<open>A marker in a text where a long hexadecimal word was put in was there before.\<close>

lemma marker_not_in_hex:
  assumes "sublist MARKER_OPEN (a @ h @ b)" "CHR ''<'' \<notin> set h" "CHR ''>'' \<notin> set h" "28 \<le> length h"
  shows "sublist MARKER_OPEN a \<or> sublist MARKER_OPEN b"
proof -
  from assms(1) obtain x y where e: "a @ h @ b = x @ MARKER_OPEN @ y" by (auto simp: sublist_def)
  obtain z where "a = x @ z \<and> z @ h @ b = MARKER_OPEN @ y \<or> x = a @ z \<and> h @ b = z @ MARKER_OPEN @ y"
    using append_eq_append_conv2 [THEN iffD1, OF e] by metis
  then show ?thesis
  proof (elim disjE conjE)
    assume a: "a = x @ z" and zy: "z @ h @ b = MARKER_OPEN @ y"
    obtain u where "z = MARKER_OPEN @ u \<or> MARKER_OPEN = z @ u \<and> h @ b = u @ y"
      using append_eq_append_conv2 [THEN iffD1, OF zy] by metis
    then show ?thesis
    proof (elim disjE conjE)
      assume "z = MARKER_OPEN @ u"
      then show ?thesis using a by (auto simp: sublist_def)
    next
      assume m: "MARKER_OPEN = z @ u" and u: "h @ b = u @ y"
      have "length u \<le> 28" using arg_cong [OF m, of length] by (simp add: marker_open)
      then have "prefix u h" using u assms(4) by (metis append_eq_append_conv_if le_trans prefixI append_take_drop_id)
      then have "CHR ''>'' \<notin> set u" using assms(3) set_mono_prefix by blast
      moreover have "last (z @ u) = CHR ''>''" unfolding m [symmetric] by (simp add: marker_open(1))
      ultimately have "u = []" by (metis last_appendR last_in_set)
      then have "a = x @ MARKER_OPEN @ []" using a m by simp
      then show ?thesis unfolding sublist_def by blast
    qed
  next
    assume hb: "h @ b = z @ MARKER_OPEN @ y"
    obtain u where "h = z @ u \<and> u @ b = MARKER_OPEN @ y \<or> z = h @ u \<and> b = u @ MARKER_OPEN @ y"
      using append_eq_append_conv2 [THEN iffD1, OF hb] by metis
    then show ?thesis
    proof (elim disjE conjE)
      assume h: "h = z @ u" and u: "u @ b = MARKER_OPEN @ y"
      then have "u = []" using assms(2) by (cases u) (auto simp: marker_open(1))
      then have "b = [] @ MARKER_OPEN @ y" using u by simp
      then show ?thesis unfolding sublist_def by blast
    next
      assume "b = u @ MARKER_OPEN @ y"
      then show ?thesis by (auto simp: sublist_def)
    qed
  qed
qed




end
