(* ===== verification/Api_Tables.thy ===== *)
theory Api_Tables
  imports Api_Endpoint
begin

text \<open>
  The entries of the \<open>api\<close> object of \<^verbatim>\<open>frontend/src/api/client.js\<close> that are one call of \<open>request\<close>, in the file's
  order: one table per comment section of the source, one \<open>ep\<close> line per arrow function. The entries that
  do more than one request (uploads, exports, paging) are in \<open>Api_Flows\<close> and \<open>Api_Pages\<close>.
\<close>

definition API_HEALTH :: "endpoint list" where
  "API_HEALTH =
     [ep ''health'' ''GET'' [W ''api'', W ''health''] NoQuery NoBody []]"

definition API_FIRST_RUN_GATE_POLICY :: "endpoint list" where
  "API_FIRST_RUN_GATE_POLICY =
     [ep ''setupCheck'' ''GET'' [W ''api'', W ''auth'', W ''setup-check''] NoQuery NoBody [],
      ep ''authPolicy'' ''GET'' [W ''api'', W ''auth'', W ''policy''] NoQuery NoBody [],
      ep ''setup'' ''POST'' [W ''api'', W ''auth'', W ''setup''] NoQuery (Whole ''payload'') []]"

definition API_LOGIN :: "endpoint list" where
  "API_LOGIN =
     [ep ''login'' ''POST'' [W ''api'', W ''auth'', W ''login''] NoQuery (Whole ''payload'') [],
      ep ''totpVerify'' ''POST'' [W ''api'', W ''auth'', W ''totp'', W ''verify''] NoQuery (Fields [(''code'', X ''code'')]) [],
      ep ''logout'' ''POST'' [W ''api'', W ''auth'', W ''logout''] NoQuery NoBody []]"

definition API_CURRENT_USER :: "endpoint list" where
  "API_CURRENT_USER =
     [ep ''me'' ''GET'' [W ''api'', W ''users'', W ''me''] NoQuery NoBody []]"

definition API_TOTP_ENROL :: "endpoint list" where
  "API_TOTP_ENROL =
     [ep ''totpSetup'' ''POST'' [W ''api'', W ''auth'', W ''totp'', W ''setup''] NoQuery NoBody [],
      ep ''totpEnable'' ''POST'' [W ''api'', W ''auth'', W ''totp'', W ''enable''] NoQuery (Fields [(''code'', X ''code'')]) [],
      ep ''totpDisable'' ''POST'' [W ''api'', W ''auth'', W ''totp'', W ''disable''] NoQuery (Whole ''payload'') []]"

definition API_ACCOUNT_SELF_SERVICE :: "endpoint list" where
  "API_ACCOUNT_SELF_SERVICE =
     [ep ''changePassword'' ''POST'' [W ''api'', W ''auth'', W ''change-password''] NoQuery (Whole ''payload'') []]"

definition API_SESSIONS :: "endpoint list" where
  "API_SESSIONS =
     [ep ''listSessions'' ''GET'' [W ''api'', W ''sessions''] NoQuery NoBody [],
      ep ''revokeSession'' ''DELETE'' [W ''api'', W ''sessions'', V ''id''] NoQuery NoBody [],
      ep ''revokeOtherSessions'' ''POST'' [W ''api'', W ''sessions'', W ''revoke-others''] NoQuery NoBody [],
      ep ''labelSession'' ''PATCH'' [W ''api'', W ''sessions'', V ''id'', W ''label''] NoQuery (Fields [(''label'', X ''label'')]) [],
      ep ''getCurrentSession'' ''GET'' [W ''api'', W ''sessions'', W ''current''] NoQuery NoBody [],
      ep ''sessionHeartbeat'' ''POST'' [W ''api'', W ''sessions'', W ''current'', W ''heartbeats''] NoQuery NoBody []]"

definition API_SESSIONS_2 :: "endpoint list" where
  "API_SESSIONS_2 =
     [ep ''listAdminSessions'' ''GET'' [W ''api'', W ''admin'', W ''sessions''] NoQuery NoBody [],
      ep ''adminRevokeSession'' ''DELETE'' [W ''api'', W ''admin'', W ''sessions'', V ''id''] NoQuery NoBody []]"

definition API_API_TOKENS :: "endpoint list" where
  "API_API_TOKENS =
     [ep ''listApiTokens'' ''GET'' [W ''api'', W ''tokens''] NoQuery NoBody [],
      ep ''createApiToken'' ''POST'' [W ''api'', W ''tokens''] NoQuery (Whole ''payload'') [],
      ep ''revokeApiToken'' ''DELETE'' [W ''api'', W ''tokens'', V ''id''] NoQuery NoBody [],
      ep ''listAllApiTokens'' ''GET'' [W ''api'', W ''admin'', W ''tokens''] NoQuery NoBody [],
      ep ''adminRevokeApiToken'' ''DELETE'' [W ''api'', W ''admin'', W ''tokens'', V ''id''] NoQuery NoBody []]"

definition API_TEAMS :: "endpoint list" where
  "API_TEAMS =
     [ep ''listTeams'' ''GET'' [W ''api'', W ''teams''] NoQuery NoBody [],
      ep ''createTeam'' ''POST'' [W ''api'', W ''teams''] NoQuery (Whole ''payload'') [],
      ep ''updateTeam'' ''PATCH'' [W ''api'', W ''teams'', V ''id''] NoQuery (Whole ''payload'') [],
      ep ''deleteTeam'' ''DELETE'' [W ''api'', W ''teams'', V ''id''] NoQuery NoBody [],
      ep ''listTeamMembers'' ''GET'' [W ''api'', W ''teams'', V ''teamId'', W ''members''] NoQuery NoBody [],
      ep ''addTeamMember'' ''POST'' [W ''api'', W ''teams'', V ''teamId'', W ''members'', V ''userId''] NoQuery NoBody [],
      ep ''removeTeamMember'' ''DELETE'' [W ''api'', W ''teams'', V ''teamId'', W ''members'', V ''userId''] NoQuery NoBody []]"

definition API_OPERATIONAL_ROLES :: "endpoint list" where
  "API_OPERATIONAL_ROLES =
     [ep ''listOperationalRoles'' ''GET'' [W ''api'', W ''operational-roles''] (Flag ''includeInactive'' ''include_inactive=true'') NoBody [(''includeInactive'', JBool False)],
      ep ''createOperationalRole'' ''POST'' [W ''api'', W ''operational-roles''] NoQuery (Whole ''payload'') [],
      ep ''updateOperationalRole'' ''PATCH'' [W ''api'', W ''operational-roles'', V ''id''] NoQuery (Whole ''payload'') [],
      ep ''deleteOperationalRole'' ''DELETE'' [W ''api'', W ''operational-roles'', V ''id''] NoQuery NoBody []]"

definition API_USERS :: "endpoint list" where
  "API_USERS =
     [ep ''listUsers'' ''GET'' [W ''api'', W ''users''] NoQuery NoBody [],
      ep ''createUser'' ''POST'' [W ''api'', W ''users''] NoQuery (Whole ''payload'') [],
      ep ''getUser'' ''GET'' [W ''api'', W ''users'', V ''id''] NoQuery NoBody [],
      ep ''updateUser'' ''PATCH'' [W ''api'', W ''users'', V ''id''] NoQuery (Whole ''payload'') [],
      ep ''deleteUser'' ''DELETE'' [W ''api'', W ''users'', V ''id''] NoQuery NoBody []]"

definition API_VALIDATED_TOOLS_REGISTRY :: "endpoint list" where
  "API_VALIDATED_TOOLS_REGISTRY =
     [ep ''listValidatedTools'' ''GET'' [W ''api'', W ''validated-tools''] (NonEmpty ''params'') NoBody [],
      ep ''createValidatedTool'' ''POST'' [W ''api'', W ''validated-tools''] NoQuery (Whole ''payload'') [],
      ep ''updateValidatedTool'' ''PATCH'' [W ''api'', W ''validated-tools'', V ''id''] NoQuery (Whole ''payload'') [],
      ep ''deleteValidatedTool'' ''DELETE'' [W ''api'', W ''validated-tools'', V ''id''] NoQuery NoBody [],
      ep ''resetPassword'' ''POST'' [W ''api'', W ''users'', V ''id'', W ''reset-password''] NoQuery (Whole ''payload'') [],
      ep ''getUserSessions'' ''GET'' [W ''api'', W ''users'', V ''id'', W ''sessions''] NoQuery NoBody [],
      ep ''revokeUserSession'' ''DELETE'' [W ''api'', W ''users'', V ''id'', W ''sessions'', V ''sessionId''] NoQuery NoBody [],
      ep ''revokeUserAllSessions'' ''POST'' [W ''api'', W ''users'', V ''id'', W ''sessions'', W ''revoke-all''] NoQuery NoBody [],
      ep ''unlockUser'' ''POST'' [W ''api'', W ''users'', V ''id'', W ''unlock''] NoQuery NoBody [],
      ep ''getUserActivity'' ''GET'' [W ''api'', W ''users'', V ''id'', W ''activity''] NoQuery NoBody [],
      ep ''getUserTeams'' ''GET'' [W ''api'', W ''users'', V ''id'', W ''teams''] NoQuery NoBody []]"

definition API_INCIDENTS :: "endpoint list" where
  "API_INCIDENTS =
     [ep ''listIncidents'' ''GET'' [W ''api'', W ''incidents''] (NonEmpty ''params'') NoBody [],
      ep ''getIncident'' ''GET'' [W ''api'', W ''incidents'', V ''id''] NoQuery NoBody [],
      ep ''getIncidentSnapshot'' ''GET'' [W ''api'', W ''incidents'', V ''id'', W ''snapshot''] NoQuery NoBody [],
      ep ''getIncidentPhaseHistory'' ''GET'' [W ''api'', W ''incidents'', V ''id'', W ''phase-history''] NoQuery NoBody [],
      ep ''createIncident'' ''POST'' [W ''api'', W ''incidents''] NoQuery (Whole ''payload'') [],
      ep ''updateIncident'' ''PATCH'' [W ''api'', W ''incidents'', V ''id''] NoQuery (Whole ''body'') [],
      ep ''getIncidentGates'' ''GET'' [W ''api'', W ''incidents'', V ''id'', W ''gates''] NoQuery NoBody [],
      ep ''signOffGate'' ''POST'' [W ''api'', W ''incidents'', V ''id'', W ''gates'', V ''gate'', W ''sign-off''] NoQuery (Whole ''payload'') [],
      ep ''getIncidentStartChecks'' ''GET'' [W ''api'', W ''incidents'', V ''id'', W ''start-checks''] NoQuery NoBody [],
      ep ''getIncidentAccess'' ''GET'' [W ''api'', W ''incidents'', V ''id'', W ''access''] NoQuery NoBody [],
      ep ''closeIncident'' ''POST'' [W ''api'', W ''incidents'', V ''id'', W ''close''] NoQuery (Fields [(''reason'', X ''reason''), (''override_gate'', When ''overrideGate'' (JBool True))]) [(''overrideGate'', JBool False)],
      ep ''reopenIncident'' ''POST'' [W ''api'', W ''incidents'', V ''id'', W ''reopen''] NoQuery (Fields [(''reason'', X ''reason''), (''phase'', X ''phase''), (''override_gate'', When ''overrideGate'' (JBool True))]) [(''overrideGate'', JBool False)]]"

definition API_CORRELATIONS :: "endpoint list" where
  "API_CORRELATIONS =
     [ep ''listIocCorrelations'' ''GET'' [W ''api'', W ''incidents'', V ''incidentId'', W ''iocs'', W ''correlations''] NoQuery NoBody [],
      ep ''listCorrelatedIocs'' ''GET'' [W ''api'', W ''correlations'', W ''iocs''] (NonEmpty ''params'') NoBody [],
      ep ''listCorrelatedEntities'' ''GET'' [W ''api'', W ''correlations'', W ''entities''] (NonEmpty ''params'') NoBody [],
      ep ''correlateLookup'' ''POST'' [W ''api'', W ''correlations'', W ''lookup''] NoQuery (Whole ''payload'') []]"

definition API_IOCS :: "endpoint list" where
  "API_IOCS =
     [ep ''listIocs'' ''GET'' [W ''api'', W ''incidents'', V ''incidentId'', W ''iocs''] (NonEmpty ''params'') NoBody [],
      ep ''createIoc'' ''POST'' [W ''api'', W ''incidents'', V ''incidentId'', W ''iocs''] NoQuery (Whole ''payload'') [],
      ep ''batchCreateIocs'' ''POST'' [W ''api'', W ''incidents'', V ''incidentId'', W ''iocs'', W ''batch''] NoQuery (Whole ''payload'') [],
      ep ''updateIoc'' ''PATCH'' [W ''api'', W ''incidents'', V ''incidentId'', W ''iocs'', V ''iocId''] NoQuery (Whole ''payload'') [],
      ep ''deleteIoc'' ''DELETE'' [W ''api'', W ''incidents'', V ''incidentId'', W ''iocs'', V ''iocId''] NoQuery NoBody [],
      ep ''scanIocsTi'' ''POST'' [W ''api'', W ''incidents'', V ''incidentId'', W ''iocs'', W ''scan-ti''] NoQuery NoBody [],
      ep ''listIocTimelineLinks'' ''GET'' [W ''api'', W ''incidents'', V ''incidentId'', W ''iocs'', V ''iocId'', W ''timeline-links''] NoQuery NoBody [],
      ep ''linkIocTimelineEvent'' ''POST'' [W ''api'', W ''incidents'', V ''incidentId'', W ''iocs'', V ''iocId'', W ''timeline-links''] NoQuery (Fields [(''event_id'', X ''eventId'')]) [],
      ep ''unlinkIocTimelineEvent'' ''DELETE'' [W ''api'', W ''incidents'', V ''incidentId'', W ''iocs'', V ''iocId'', W ''timeline-links'', V ''eventId''] NoQuery NoBody []]"

definition API_THREAT_INTEL_FEEDS :: "endpoint list" where
  "API_THREAT_INTEL_FEEDS =
     [ep ''listTiFeeds'' ''GET'' [W ''api'', W ''threat-intel'', W ''feeds''] NoQuery NoBody [],
      ep ''initTiFeeds'' ''POST'' [W ''api'', W ''threat-intel'', W ''feeds'', W ''init''] NoQuery NoBody [],
      ep ''createTiFeed'' ''POST'' [W ''api'', W ''threat-intel'', W ''feeds''] NoQuery (Whole ''payload'') [],
      ep ''updateTiFeed'' ''PATCH'' [W ''api'', W ''threat-intel'', W ''feeds'', V ''id''] NoQuery (Whole ''payload'') [],
      ep ''deleteTiFeed'' ''DELETE'' [W ''api'', W ''threat-intel'', W ''feeds'', V ''id''] NoQuery NoBody [],
      ep ''pullTiFeed'' ''POST'' [W ''api'', W ''threat-intel'', W ''feeds'', V ''id'', W ''pull''] NoQuery NoBody [],
      ep ''pullAllTiFeeds'' ''POST'' [W ''api'', W ''threat-intel'', W ''feeds'', W ''pull-all''] NoQuery NoBody [],
      ep ''listTiIocs'' ''GET'' [W ''api'', W ''threat-intel'', W ''iocs''] (NonEmpty ''params'') NoBody [],
      ep ''getTiSummary'' ''GET'' [W ''api'', W ''threat-intel'', W ''summary''] NoQuery NoBody [],
      ep ''getTiIncidentMatches'' ''GET'' [W ''api'', W ''threat-intel'', W ''incident-matches''] (NonEmpty ''params'') NoBody []]"

definition API_ENTITIES :: "endpoint list" where
  "API_ENTITIES =
     [ep ''listEntities'' ''GET'' [W ''api'', W ''incidents'', V ''incidentId'', W ''entities''] (NonEmpty ''params'') NoBody []]"

definition API_ENTITIES_2 :: "endpoint list" where
  "API_ENTITIES_2 =
     [ep ''createEntity'' ''POST'' [W ''api'', W ''incidents'', V ''incidentId'', W ''entities''] NoQuery (Whole ''payload'') [],
      ep ''updateEntity'' ''PATCH'' [W ''api'', W ''incidents'', V ''incidentId'', W ''entities'', V ''entityId''] NoQuery (Whole ''payload'') [],
      ep ''deleteEntity'' ''DELETE'' [W ''api'', W ''incidents'', V ''incidentId'', W ''entities'', V ''entityId''] NoQuery NoBody [],
      ep ''listEntityRelations'' ''GET'' [W ''api'', W ''incidents'', V ''incidentId'', W ''entity-relations''] NoQuery NoBody [],
      ep ''createEntityRelation'' ''POST'' [W ''api'', W ''incidents'', V ''incidentId'', W ''entity-relations''] NoQuery (Whole ''payload'') [],
      ep ''deleteEntityRelation'' ''DELETE'' [W ''api'', W ''incidents'', V ''incidentId'', W ''entity-relations'', V ''relationId''] NoQuery NoBody []]"

definition API_ENTITY_ASSET_LOG :: "endpoint list" where
  "API_ENTITY_ASSET_LOG =
     [ep ''listEntityEvents'' ''GET'' [W ''api'', W ''incidents'', V ''incidentId'', W ''entities'', V ''entityId'', W ''asset-log''] NoQuery NoBody [],
      ep ''createEntityEvent'' ''POST'' [W ''api'', W ''incidents'', V ''incidentId'', W ''entities'', V ''entityId'', W ''asset-log''] NoQuery (Whole ''payload'') [],
      ep ''deleteEntityEvent'' ''DELETE'' [W ''api'', W ''incidents'', V ''incidentId'', W ''entities'', V ''entityId'', W ''asset-log'', V ''eventId''] NoQuery NoBody []]"

definition API_ENTITY_FILES :: "endpoint list" where
  "API_ENTITY_FILES =
     [ep ''listEntityFiles'' ''GET'' [W ''api'', W ''incidents'', V ''incidentId'', W ''entities'', V ''entityId'', W ''files''] NoQuery NoBody [],
      ep ''deleteEntityFile'' ''DELETE'' [W ''api'', W ''incidents'', V ''incidentId'', W ''entities'', V ''entityId'', W ''files'', V ''fileId''] NoQuery (Fields [(''reason'', X ''reason'')]) []]"

definition API_INCIDENT_FILE_STORE :: "endpoint list" where
  "API_INCIDENT_FILE_STORE =
     [ep ''listIncidentFiles'' ''GET'' [W ''api'', W ''incidents'', V ''incidentId'', W ''files''] (Truthy ''params'') NoBody [],
      ep ''updateIncidentFile'' ''PATCH'' [W ''api'', W ''incidents'', V ''incidentId'', W ''files'', V ''fileId''] NoQuery (Whole ''payload'') [],
      ep ''deleteIncidentFile'' ''DELETE'' [W ''api'', W ''incidents'', V ''incidentId'', W ''files'', V ''fileId''] NoQuery (Fields [(''reason'', X ''reason'')]) [],
      ep ''registerFileExhibit'' ''POST'' [W ''api'', W ''incidents'', V ''incidentId'', W ''files'', V ''fileId'', W ''register-exhibit''] NoQuery NoBody [],
      ep ''fileExhibitPrefill'' ''GET'' [W ''api'', W ''incidents'', V ''incidentId'', W ''files'', V ''fileId'', W ''exhibit-prefill''] NoQuery NoBody [],
      ep ''linkIncidentFile'' ''POST'' [W ''api'', W ''incidents'', V ''incidentId'', W ''files'', V ''fileId'', W ''links''] NoQuery (Whole ''payload'') [],
      ep ''unlinkIncidentFile'' ''DELETE'' [W ''api'', W ''incidents'', V ''incidentId'', W ''files'', V ''fileId'', W ''links'', V ''linkId''] NoQuery NoBody []]"

definition API_EVIDENCE :: "endpoint list" where
  "API_EVIDENCE =
     [ep ''listEvidence'' ''GET'' [W ''api'', W ''incidents'', V ''incidentId'', W ''evidence''] (NonEmpty ''params'') NoBody [],
      ep ''getEvidence'' ''GET'' [W ''api'', W ''incidents'', V ''incidentId'', W ''evidence'', V ''evidenceId''] NoQuery NoBody [],
      ep ''updateEvidence'' ''PATCH'' [W ''api'', W ''incidents'', V ''incidentId'', W ''evidence'', V ''evidenceId''] NoQuery (Whole ''payload'') []]"

definition API_COLLECT :: "endpoint list" where
  "API_COLLECT =
     [ep ''cancelUpload'' ''DELETE'' [W ''api'', W ''incidents'', V ''incidentId'', W ''uploads'', V ''uploadId''] NoQuery NoBody [],
      ep ''collectPhysical'' ''POST'' [W ''api'', W ''incidents'', V ''incidentId'', W ''evidence'', W ''physical''] NoQuery (Whole ''payload'') [],
      ep ''nextEvidenceIdentifier'' ''GET'' [W ''api'', W ''incidents'', V ''incidentId'', W ''evidence'', W ''next-identifier''] NoQuery NoBody [],
      ep ''transferEvidence'' ''POST'' [W ''api'', W ''incidents'', V ''incidentId'', W ''evidence'', V ''evidenceId'', W ''transfer''] NoQuery (Whole ''payload'') [],
      ep ''acceptEvidenceTransfer'' ''POST'' [W ''api'', W ''incidents'', V ''incidentId'', W ''evidence'', V ''evidenceId'', W ''transfer'', W ''accept''] NoQuery (Whole ''payload'') [],
      ep ''declineEvidenceTransfer'' ''POST'' [W ''api'', W ''incidents'', V ''incidentId'', W ''evidence'', V ''evidenceId'', W ''transfer'', W ''decline''] NoQuery (Whole ''payload'') [],
      ep ''examineEvidence'' ''POST'' [W ''api'', W ''incidents'', V ''incidentId'', W ''evidence'', V ''evidenceId'', W ''examine''] NoQuery (Whole ''payload'') [],
      ep ''verifyEvidence'' ''POST'' [W ''api'', W ''incidents'', V ''incidentId'', W ''evidence'', V ''evidenceId'', W ''verify''] NoQuery NoBody [],
      ep ''disposeEvidence'' ''POST'' [W ''api'', W ''incidents'', V ''incidentId'', W ''evidence'', V ''evidenceId'', W ''dispose''] NoQuery (Whole ''payload'') []]"

definition API_U8 :: "endpoint list" where
  "API_U8 =
     [ep ''analyzeEmailFromEvidence'' ''POST'' [W ''api'', W ''incidents'', V ''incidentId'', W ''email'', W ''from-evidence'', V ''evidenceId''] NoQuery NoBody []]"

definition API_U8_2 :: "endpoint list" where
  "API_U8_2 =
     [ep ''listEmailAnalyses'' ''GET'' [W ''api'', W ''incidents'', V ''incidentId'', W ''email''] NoQuery NoBody [],
      ep ''getEmailAnalysis'' ''GET'' [W ''api'', W ''incidents'', V ''incidentId'', W ''email'', V ''aid''] NoQuery NoBody [],
      ep ''getEmailSeenBefore'' ''GET'' [W ''api'', W ''incidents'', V ''incidentId'', W ''email'', V ''aid'', W ''seen-before''] NoQuery NoBody [],
      ep ''getEmailHuntingQueries'' ''GET'' [W ''api'', W ''incidents'', V ''incidentId'', W ''email'', V ''aid'', W ''hunting-queries''] (Literal [(''lookback_days'', V ''lookbackDays'')]) NoBody [],
      ep ''getEmailContainmentPlan'' ''GET'' [W ''api'', W ''incidents'', V ''incidentId'', W ''email'', V ''aid'', W ''containment-plan''] NoQuery NoBody [],
      ep ''containEmail'' ''POST'' [W ''api'', W ''incidents'', V ''incidentId'', W ''email'', V ''aid'', W ''containment''] NoQuery (Fields [(''items'', X ''items''), (''assignee_id'', X ''assigneeId'')]) [(''assigneeId'', JNull)],
      ep ''promoteEmailIocs'' ''POST'' [W ''api'', W ''incidents'', V ''incidentId'', W ''email'', V ''aid'', W ''promote-iocs''] NoQuery (Fields [(''iocs'', X ''iocs'')]) [],
      ep ''extractEmailAttachment'' ''POST'' [W ''api'', W ''incidents'', V ''incidentId'', W ''email'', V ''aid'', W ''attachments'', V ''idx'', W ''extract''] NoQuery NoBody [],
      ep ''importEmailHops'' ''POST'' [W ''api'', W ''incidents'', V ''incidentId'', W ''email'', V ''aid'', W ''import-hops''] (Literal [(''link_entities'', V ''linkEntities'')]) NoBody [(''linkEntities'', JBool True)],
      ep ''mintEmailEvidence'' ''POST'' [W ''api'', W ''incidents'', V ''incidentId'', W ''email'', V ''aid'', W ''mint-evidence''] NoQuery NoBody [],
      ep ''checkEmailDomain'' ''GET'' [W ''api'', W ''incidents'', V ''incidentId'', W ''email'', W ''domain-check''] (PicksAfter (''domain'', X ''domain'') [(''selector'', X ''selector''), (''confirm_outbound'', When ''confirmOutbound'' (JStr ''true''))]) NoBody [(''confirmOutbound'', JBool False)]]"

definition API_G3 :: "endpoint list" where
  "API_G3 =
     [ep ''updateAcquisitionRecord'' ''PATCH'' [W ''api'', W ''incidents'', V ''incidentId'', W ''evidence'', V ''evidenceId'', W ''acquisition-record''] NoQuery (Whole ''payload'') []]"

definition API_WIZARD_A :: "endpoint list" where
  "API_WIZARD_A =
     [ep ''sealEvidence'' ''POST'' [W ''api'', W ''incidents'', V ''incidentId'', W ''evidence'', V ''evidenceId'', W ''seal''] NoQuery (Fields [(''confirm'', K (JBool True))]) [],
      ep ''evidenceSealRecord'' ''GET'' [W ''api'', W ''incidents'', V ''incidentId'', W ''evidence'', V ''evidenceId'', W ''seal-record''] NoQuery NoBody [],
      ep ''evidenceManifest'' ''GET'' [W ''api'', W ''incidents'', V ''incidentId'', W ''evidence'', V ''evidenceId'', W ''manifest''] (Picks [(''limit'', X ''limit''), (''cursor'', X ''cursor''), (''q'', X ''q'')]) NoBody []]"

definition API_WIZARD_A_2 :: "endpoint list" where
  "API_WIZARD_A_2 =
     [ep ''rebuildEvidenceManifest'' ''POST'' [W ''api'', W ''incidents'', V ''incidentId'', W ''evidence'', V ''evidenceId'', W ''manifest'', W ''rebuild''] NoQuery NoBody []]"

definition API_WIZARD_B :: "endpoint list" where
  "API_WIZARD_B =
     [ep ''examinationSession'' ''POST'' [W ''api'', W ''incidents'', V ''incidentId'', W ''evidence'', V ''evidenceId'', W ''examination-session''] NoQuery (Whole ''payload'') []]"

definition API_SERVER_SIDE_PROVENANCE_SCORE :: "endpoint list" where
  "API_SERVER_SIDE_PROVENANCE_SCORE =
     [ep ''evidenceProvenance'' ''GET'' [W ''api'', W ''incidents'', V ''incidentId'', W ''evidence'', V ''evidenceId'', W ''provenance''] NoQuery NoBody [],
      ep ''custodyLog'' ''GET'' [W ''api'', W ''incidents'', V ''incidentId'', W ''evidence'', V ''evidenceId'', W ''custody''] NoQuery NoBody []]"

definition API_WORKING_COPY_LEDGER :: "endpoint list" where
  "API_WORKING_COPY_LEDGER =
     [ep ''listWorkingCopies'' ''GET'' [W ''api'', W ''incidents'', V ''incidentId'', W ''evidence'', V ''evidenceId'', W ''working-copies''] NoQuery NoBody [],
      ep ''mintWorkingCopy'' ''POST'' [W ''api'', W ''incidents'', V ''incidentId'', W ''evidence'', V ''evidenceId'', W ''working-copy''] NoQuery (Whole ''payload'') [],
      ep ''issueWorkingCopy'' ''POST'' [W ''api'', W ''incidents'', V ''incidentId'', W ''evidence'', V ''evidenceId'', W ''working-copies''] NoQuery (Whole ''payload'') [],
      ep ''setLegalHold'' ''PUT'' [W ''api'', W ''incidents'', V ''incidentId'', W ''evidence'', V ''evidenceId'', W ''legal-hold''] NoQuery (Whole ''payload'') [],
      ep ''incidentCustodyLog'' ''GET'' [W ''api'', W ''incidents'', V ''incidentId'', W ''evidence'', W ''custody-log''] NoQuery NoBody [],
      ep ''verifyCustodyChain'' ''POST'' [W ''api'', W ''incidents'', V ''incidentId'', W ''evidence'', W ''custody-log'', W ''verify''] NoQuery NoBody []]"

definition API_INCIDENT_AUDIT_LOG :: "endpoint list" where
  "API_INCIDENT_AUDIT_LOG =
     [ep ''incidentAuditLog'' ''GET'' [W ''api'', W ''incidents'', V ''incidentId'', W ''audit-log''] (All ''params'') NoBody []]"

definition API_GLOBAL_AUDIT_LOG :: "endpoint list" where
  "API_GLOBAL_AUDIT_LOG =
     [ep ''globalAuditLog'' ''GET'' [W ''api'', W ''admin'', W ''audit-log''] (NonEmpty ''params'') NoBody []]"

definition API_SIGNED_AUDIT_LOG_EXPORTS :: "endpoint list" where
  "API_SIGNED_AUDIT_LOG_EXPORTS =
     [ep ''createGlobalAuditExport'' ''POST'' [W ''api'', W ''admin'', W ''audit-log'', W ''exports''] NoQuery (Whole ''payload'') [],
      ep ''listGlobalAuditExports'' ''GET'' [W ''api'', W ''admin'', W ''audit-log'', W ''exports''] (NonEmpty ''params'') NoBody [],
      ep ''createIncidentAuditExport'' ''POST'' [W ''api'', W ''incidents'', V ''incidentId'', W ''audit-log'', W ''exports''] NoQuery (Whole ''payload'') [],
      ep ''listIncidentAuditExports'' ''GET'' [W ''api'', W ''incidents'', V ''incidentId'', W ''audit-log'', W ''exports''] NoQuery NoBody []]"

definition API_ED25519_PUBLIC_KEY_FINGERPRINT :: "endpoint list" where
  "API_ED25519_PUBLIC_KEY_FINGERPRINT =
     [ep ''getVersion'' ''GET'' [W ''api'', W ''version''] NoQuery NoBody []]"

definition API_ADMIN :: "endpoint list" where
  "API_ADMIN =
     [ep ''listBackups'' ''GET'' [W ''api'', W ''admin'', W ''backups''] NoQuery NoBody [],
      ep ''runBackup'' ''POST'' [W ''api'', W ''admin'', W ''backups'', W ''run''] NoQuery NoBody []]"

definition API_PLAYBOOK_TEMPLATES :: "endpoint list" where
  "API_PLAYBOOK_TEMPLATES =
     [ep ''listPlaybookTemplates'' ''GET'' [W ''api'', W ''playbook-templates''] (IfE ''incident_type'' (P ''params'' ''incident_type'')) NoBody [],
      ep ''getPlaybookTemplate'' ''GET'' [W ''api'', W ''playbook-templates'', V ''id''] NoQuery NoBody [],
      ep ''createPlaybookTemplate'' ''POST'' [W ''api'', W ''playbook-templates''] NoQuery (Whole ''payload'') [],
      ep ''updatePlaybookTemplate'' ''PATCH'' [W ''api'', W ''playbook-templates'', V ''id''] NoQuery (Whole ''payload'') [],
      ep ''deletePlaybookTemplate'' ''DELETE'' [W ''api'', W ''playbook-templates'', V ''id''] NoQuery NoBody [],
      ep ''reviewPlaybookTemplate'' ''POST'' [W ''api'', W ''playbook-templates'', V ''id'', W ''review''] NoQuery NoBody []]"

definition API_PLAYBOOK_TASKS :: "endpoint list" where
  "API_PLAYBOOK_TASKS =
     [ep ''listPlaybookTasks'' ''GET'' [W ''api'', W ''incidents'', V ''incidentId'', W ''playbook'', W ''tasks''] (Flag ''includeArchived'' ''include_archived=true'') NoBody [(''includeArchived'', JBool False)],
      ep ''createPlaybookTask'' ''POST'' [W ''api'', W ''incidents'', V ''incidentId'', W ''playbook'', W ''tasks''] NoQuery (Whole ''payload'') [],
      ep ''updatePlaybookTask'' ''PATCH'' [W ''api'', W ''incidents'', V ''incidentId'', W ''playbook'', W ''tasks'', V ''taskId''] NoQuery (Whole ''payload'') [],
      ep ''deletePlaybookTask'' ''DELETE'' [W ''api'', W ''incidents'', V ''incidentId'', W ''playbook'', W ''tasks'', V ''taskId''] NoQuery NoBody [],
      ep ''instantiatePlaybook'' ''POST'' [W ''api'', W ''incidents'', V ''incidentId'', W ''playbook'', W ''instantiate''] NoQuery (Whole ''payload'') []]"

definition API_RESPOND :: "endpoint list" where
  "API_RESPOND =
     [ep ''listRespondActions'' ''GET'' [W ''api'', W ''incidents'', V ''incidentId'', W ''respond'', W ''actions''] (NonEmpty ''params'') NoBody [],
      ep ''createRespondAction'' ''POST'' [W ''api'', W ''incidents'', V ''incidentId'', W ''respond'', W ''actions''] NoQuery (Whole ''payload'') [],
      ep ''updateRespondAction'' ''PATCH'' [W ''api'', W ''incidents'', V ''incidentId'', W ''respond'', W ''actions'', V ''actionId''] NoQuery (Whole ''payload'') [],
      ep ''revertRespondAction'' ''POST'' [W ''api'', W ''incidents'', V ''incidentId'', W ''respond'', W ''actions'', V ''actionId'', W ''revert''] NoQuery (Whole ''payload'') [],
      ep ''deleteRespondAction'' ''DELETE'' [W ''api'', W ''incidents'', V ''incidentId'', W ''respond'', W ''actions'', V ''actionId''] NoQuery NoBody []]"

definition API_RESPOND_2 :: "endpoint list" where
  "API_RESPOND_2 =
     [ep ''listDecisions'' ''GET'' [W ''api'', W ''incidents'', V ''incidentId'', W ''respond'', W ''decisions''] (NonEmpty ''params'') NoBody [],
      ep ''createDecision'' ''POST'' [W ''api'', W ''incidents'', V ''incidentId'', W ''respond'', W ''decisions''] NoQuery (Whole ''payload'') [],
      ep ''updateDecision'' ''PATCH'' [W ''api'', W ''incidents'', V ''incidentId'', W ''respond'', W ''decisions'', V ''decisionId''] NoQuery (Whole ''payload'') [],
      ep ''deleteDecision'' ''DELETE'' [W ''api'', W ''incidents'', V ''incidentId'', W ''respond'', W ''decisions'', V ''decisionId''] NoQuery NoBody []]"

definition API_COMMS :: "endpoint list" where
  "API_COMMS =
     [ep ''listComments'' ''GET'' [W ''api'', W ''incidents'', V ''incidentId'', W ''comments''] (NonEmpty ''params'') NoBody [],
      ep ''createComment'' ''POST'' [W ''api'', W ''incidents'', V ''incidentId'', W ''comments''] NoQuery (Whole ''payload'') [],
      ep ''updateComment'' ''PATCH'' [W ''api'', W ''incidents'', V ''incidentId'', W ''comments'', V ''commentId''] NoQuery (Whole ''payload'') [],
      ep ''deleteComment'' ''DELETE'' [W ''api'', W ''incidents'', V ''incidentId'', W ''comments'', V ''commentId''] NoQuery NoBody []]"

definition API_LEGACY_SCRATCHPADS :: "endpoint list" where
  "API_LEGACY_SCRATCHPADS =
     [ep ''listNotes'' ''GET'' [W ''api'', W ''incidents'', V ''incidentId'', W ''notes''] NoQuery NoBody [],
      ep ''listNoteVersions'' ''GET'' [W ''api'', W ''incidents'', V ''incidentId'', W ''notes'', V ''noteId'', W ''versions''] NoQuery NoBody []]"

definition API_CASE_NOTES :: "endpoint list" where
  "API_CASE_NOTES =
     [ep ''listCaseNotes'' ''GET'' [W ''api'', W ''incidents'', V ''incidentId'', W ''case-notes''] (NonEmpty ''params'') NoBody [],
      ep ''createCaseNote'' ''POST'' [W ''api'', W ''incidents'', V ''incidentId'', W ''case-notes''] NoQuery (Whole ''payload'') [],
      ep ''listCaseNoteRevisions'' ''GET'' [W ''api'', W ''incidents'', V ''incidentId'', W ''case-notes'', V ''noteId'', W ''revisions''] (All ''params'') NoBody []]"

definition API_RECOVERY_TRACKER :: "endpoint list" where
  "API_RECOVERY_TRACKER =
     [ep ''listRecovery'' ''GET'' [W ''api'', W ''incidents'', V ''incidentId'', W ''recovery''] (NonEmpty ''params'') NoBody [],
      ep ''updateRecovery'' ''PATCH'' [W ''api'', W ''incidents'', V ''incidentId'', W ''recovery'', V ''entityId''] NoQuery (Whole ''payload'') []]"

definition API_STAKEHOLDER_NOTIFICATION_TRACKER :: "endpoint list" where
  "API_STAKEHOLDER_NOTIFICATION_TRACKER =
     [ep ''listStakeholderNotifications'' ''GET'' [W ''api'', W ''incidents'', V ''incidentId'', W ''stakeholder-notifications''] (NonEmpty ''params'') NoBody [],
      ep ''updateStakeholderNotification'' ''PATCH'' [W ''api'', W ''incidents'', V ''incidentId'', W ''stakeholder-notifications'', V ''notificationId''] NoQuery (Whole ''payload'') []]"

definition API_COMMS_2 :: "endpoint list" where
  "API_COMMS_2 =
     [ep ''getPassphrase'' ''GET'' [W ''api'', W ''incidents'', V ''incidentId'', W ''oob'', W ''passphrase''] NoQuery NoBody [],
      ep ''regeneratePassphrase'' ''POST'' [W ''api'', W ''incidents'', V ''incidentId'', W ''oob'', W ''passphrase'', W ''regenerate''] NoQuery NoBody [],
      ep ''toggleDarkOperation'' ''PATCH'' [W ''api'', W ''incidents'', V ''incidentId'', W ''oob'', W ''dark-operation''] NoQuery (Fields [(''enabled'', X ''enabled'')]) []]"

definition API_COMMS_3 :: "endpoint list" where
  "API_COMMS_3 =
     [ep ''listOOBLog'' ''GET'' [W ''api'', W ''incidents'', V ''incidentId'', W ''oob'', W ''log''] NoQuery NoBody [],
      ep ''createOOBLog'' ''POST'' [W ''api'', W ''incidents'', V ''incidentId'', W ''oob'', W ''log''] NoQuery (Whole ''payload'') [],
      ep ''deleteOOBLog'' ''DELETE'' [W ''api'', W ''incidents'', V ''incidentId'', W ''oob'', W ''log'', V ''logId''] NoQuery NoBody []]"

definition API_STAKEHOLDER_CONTACTS :: "endpoint list" where
  "API_STAKEHOLDER_CONTACTS =
     [ep ''listStakeholders'' ''GET'' [W ''api'', W ''incidents'', V ''incidentId'', W ''stakeholders''] (All ''params'') NoBody [],
      ep ''createStakeholder'' ''POST'' [W ''api'', W ''incidents'', V ''incidentId'', W ''stakeholders''] NoQuery (Whole ''payload'') [],
      ep ''updateStakeholder'' ''PATCH'' [W ''api'', W ''incidents'', V ''incidentId'', W ''stakeholders'', V ''stakeholderId''] NoQuery (Whole ''payload'') [],
      ep ''deleteStakeholder'' ''DELETE'' [W ''api'', W ''incidents'', V ''incidentId'', W ''stakeholders'', V ''stakeholderId''] NoQuery NoBody [],
      ep ''bulkCreateStakeholders'' ''POST'' [W ''api'', W ''incidents'', V ''incidentId'', W ''stakeholders'', W ''bulk''] NoQuery (Whole ''payload'') []]"

definition API_INCIDENT_ASSIGNMENTS :: "endpoint list" where
  "API_INCIDENT_ASSIGNMENTS =
     [ep ''listAssignments'' ''GET'' [W ''api'', W ''incidents'', V ''incidentId'', W ''assignments''] NoQuery NoBody [],
      ep ''createAssignment'' ''POST'' [W ''api'', W ''incidents'', V ''incidentId'', W ''assignments''] NoQuery (Whole ''payload'') [],
      ep ''deleteAssignment'' ''DELETE'' [W ''api'', W ''incidents'', V ''incidentId'', W ''assignments'', V ''assignmentId''] NoQuery NoBody []]"

definition API_TIMELINE :: "endpoint list" where
  "API_TIMELINE =
     [ep ''listTimelineEvents'' ''GET'' [W ''api'', W ''incidents'', V ''incidentId'', W ''timeline''] (NonEmpty ''params'') NoBody []]"

definition API_TIMELINE_2 :: "endpoint list" where
  "API_TIMELINE_2 =
     [ep ''createTimelineEvent'' ''POST'' [W ''api'', W ''incidents'', V ''incidentId'', W ''timeline''] NoQuery (Whole ''payload'') [],
      ep ''updateTimelineEvent'' ''PATCH'' [W ''api'', W ''incidents'', V ''incidentId'', W ''timeline'', V ''eventId''] NoQuery (Whole ''payload'') [],
      ep ''deleteTimelineEvent'' ''DELETE'' [W ''api'', W ''incidents'', V ''incidentId'', W ''timeline'', V ''eventId''] NoQuery NoBody [],
      ep ''linkTimelineEntity'' ''POST'' [W ''api'', W ''incidents'', V ''incidentId'', W ''timeline'', W ''entity-links''] NoQuery (Whole ''payload'') [],
      ep ''batchCreateTimelineEvents'' ''POST'' [W ''api'', W ''incidents'', V ''incidentId'', W ''timeline'', W ''batch''] NoQuery (Whole ''payload'') []]"

definition API_FORENSIC_TIMELINE_IMPORTS :: "endpoint list" where
  "API_FORENSIC_TIMELINE_IMPORTS =
     [ep ''listForensicImports'' ''GET'' [W ''api'', W ''incidents'', V ''incidentId'', W ''forensic'', W ''timeline-import'', W ''imports''] NoQuery NoBody [],
      ep ''getForensicImport'' ''GET'' [W ''api'', W ''incidents'', V ''incidentId'', W ''forensic'', W ''timeline-import'', W ''imports'', V ''importId''] NoQuery NoBody [],
      ep ''deleteForensicImport'' ''DELETE'' [W ''api'', W ''incidents'', V ''incidentId'', W ''forensic'', W ''timeline-import'', W ''imports'', V ''importId''] NoQuery NoBody [],
      ep ''importForensicFromEvidence'' ''POST'' [W ''api'', W ''incidents'', V ''incidentId'', W ''forensic'', W ''timeline-import'', W ''from-evidence'', V ''evidenceId''] NoQuery (Whole ''payload'') [],
      ep ''promoteForensicImport'' ''POST'' [W ''api'', W ''incidents'', V ''incidentId'', W ''forensic'', W ''timeline-import'', W ''imports'', V ''importId'', W ''promote''] NoQuery (Whole ''payload'') []]"

definition API_MITRE_ATT_CK_COVERAGE :: "endpoint list" where
  "API_MITRE_ATT_CK_COVERAGE =
     [ep ''getMitreCoverage'' ''GET'' [W ''api'', W ''incidents'', V ''incidentId'', W ''mitre'', W ''coverage''] NoQuery NoBody [],
      ep ''getGlobalMitreCoverage'' ''GET'' [W ''api'', W ''mitre'', W ''coverage''] NoQuery NoBody []]"

definition API_QUARANTINE_ARTIFACTS :: "endpoint list" where
  "API_QUARANTINE_ARTIFACTS =
     [ep ''listArtifacts'' ''GET'' [W ''api'', W ''incidents'', V ''incidentId'', W ''artifacts''] NoQuery NoBody [],
      ep ''getArtifact'' ''GET'' [W ''api'', W ''incidents'', V ''incidentId'', W ''artifacts'', V ''artifactId''] NoQuery NoBody [],
      ep ''deleteArtifact'' ''DELETE'' [W ''api'', W ''incidents'', V ''incidentId'', W ''artifacts'', V ''artifactId''] NoQuery (Fields [(''reason'', X ''reason'')]) [],
      ep ''promoteArtifactHashIocs'' ''POST'' [W ''api'', W ''incidents'', V ''incidentId'', W ''artifacts'', V ''artifactId'', W ''hash-iocs''] NoQuery NoBody []]"

definition API_QUARANTINE_ARTIFACTS_2 :: "endpoint list" where
  "API_QUARANTINE_ARTIFACTS_2 =
     [ep ''analyzeArtifact'' ''POST'' [W ''api'', W ''incidents'', V ''incidentId'', W ''artifacts'', V ''artifactId'', W ''analyze'', V ''tool''] (All ''params'') NoBody []]"

definition API_FORENSIC_TIMELINE_IMPORT_FROM :: "endpoint list" where
  "API_FORENSIC_TIMELINE_IMPORT_FROM =
     [ep ''importForensicFromArtifact'' ''POST'' [W ''api'', W ''incidents'', V ''incidentId'', W ''forensic'', W ''timeline-import'', W ''from-artifact'', V ''artifactId''] NoQuery NoBody []]"

definition API_COLLECTION_PACKAGES :: "endpoint list" where
  "API_COLLECTION_PACKAGES =
     [ep ''listCollectionProfiles'' ''GET'' [W ''api'', W ''incidents'', V ''incidentId'', W ''collections'', W ''profiles''] NoQuery NoBody [],
      ep ''listCollections'' ''GET'' [W ''api'', W ''incidents'', V ''incidentId'', W ''collections''] NoQuery NoBody [],
      ep ''generateCollection'' ''POST'' [W ''api'', W ''incidents'', V ''incidentId'', W ''collections''] NoQuery (Whole ''payload'') [],
      ep ''deleteCollection'' ''DELETE'' [W ''api'', W ''incidents'', V ''incidentId'', W ''collections'', V ''cid''] NoQuery NoBody [],
      ep ''cleanupCollections'' ''POST'' [W ''api'', W ''admin'', W ''collections'', W ''cleanup''] NoQuery NoBody []]"

definition API_LOLBINS_TIMELINE_CORRELATION :: "endpoint list" where
  "API_LOLBINS_TIMELINE_CORRELATION =
     [ep ''lolbinsTimelineScan'' ''GET'' [W ''api'', W ''incidents'', V ''incidentId'', W ''timeline'', W ''lolbin-scan''] NoQuery NoBody []]"

definition API_IOC_ENRICHMENT :: "endpoint list" where
  "API_IOC_ENRICHMENT =
     [ep ''enrichAllIocs'' ''POST'' [W ''api'', W ''incidents'', V ''incidentId'', W ''iocs'', W ''enrich-all''] NoQuery (Whole ''payload'') [],
      ep ''enrichIoc'' ''POST'' [W ''api'', W ''incidents'', V ''incidentId'', W ''iocs'', V ''iocId'', W ''enrich''] (Flag ''confirmOutbound'' ''confirm_outbound=true'') NoBody [(''confirmOutbound'', JBool False)]]"

definition API_PLATFORM_SETTINGS :: "endpoint list" where
  "API_PLATFORM_SETTINGS =
     [ep ''listApiKeyServices'' ''GET'' [W ''api'', W ''settings'', W ''api-keys''] NoQuery NoBody [],
      ep ''setApiKey'' ''PUT'' [W ''api'', W ''settings'', W ''api-keys'', V ''service''] NoQuery (Fields [(''value'', X ''value'')]) [],
      ep ''deleteApiKey'' ''DELETE'' [W ''api'', W ''settings'', W ''api-keys'', V ''service''] NoQuery NoBody [],
      ep ''getIncidentRefSettings'' ''GET'' [W ''api'', W ''settings'', W ''incident-ref''] NoQuery NoBody [],
      ep ''updateIncidentRefSettings'' ''PATCH'' [W ''api'', W ''settings'', W ''incident-ref''] NoQuery (Fields [(''prefix'', X ''prefix'')]) [],
      ep ''getEvidenceIdentifierSettings'' ''GET'' [W ''api'', W ''settings'', W ''evidence-identifier''] NoQuery NoBody [],
      ep ''updateEvidenceIdentifierSettings'' ''PATCH'' [W ''api'', W ''settings'', W ''evidence-identifier''] NoQuery (Fields [(''template'', X ''template'')]) []]"

definition API_BROWSER_HISTORY :: "endpoint list" where
  "API_BROWSER_HISTORY =
     [ep ''webHistoryFromEvidence'' ''POST'' [W ''api'', W ''incidents'', V ''incidentId'', W ''webhistory'', W ''from-evidence'', V ''evidenceId''] NoQuery (Whole ''payload'') [],
      ep ''promoteWebHistory'' ''POST'' [W ''api'', W ''incidents'', V ''incidentId'', W ''webhistory'', W ''promote''] NoQuery (Whole ''payload'') []]"

definition API_BROWSER_HISTORY_2 :: "endpoint list" where
  "API_BROWSER_HISTORY_2 =
     [ep ''listDefenderPdfImports'' ''GET'' [W ''api'', W ''incidents'', V ''incidentId'', W ''forensic'', W ''defender-pdf'', W ''imports''] NoQuery NoBody [],
      ep ''getDefenderPdfImport'' ''GET'' [W ''api'', W ''incidents'', V ''incidentId'', W ''forensic'', W ''defender-pdf'', W ''imports'', V ''importId''] NoQuery NoBody [],
      ep ''deleteDefenderPdfImport'' ''DELETE'' [W ''api'', W ''incidents'', V ''incidentId'', W ''forensic'', W ''defender-pdf'', W ''imports'', V ''importId''] NoQuery NoBody [],
      ep ''importDefenderPdfFromEvidence'' ''POST'' [W ''api'', W ''incidents'', V ''incidentId'', W ''forensic'', W ''defender-pdf'', W ''from-evidence'', V ''evidenceId''] NoQuery NoBody [],
      ep ''promoteDefenderPdfImport'' ''POST'' [W ''api'', W ''incidents'', V ''incidentId'', W ''forensic'', W ''defender-pdf'', W ''imports'', V ''importId'', W ''promote''] NoQuery (Whole ''payload'') [],
      ep ''listWebHistoryUploads'' ''GET'' [W ''api'', W ''incidents'', V ''incidentId'', W ''webhistory''] NoQuery NoBody [],
      ep ''deleteWebHistoryUpload'' ''DELETE'' [W ''api'', W ''incidents'', V ''incidentId'', W ''webhistory'', V ''uploadId''] NoQuery NoBody [],
      ep ''mintWebHistoryEvidence'' ''POST'' [W ''api'', W ''incidents'', V ''incidentId'', W ''webhistory'', V ''uploadId'', W ''mint-evidence''] NoQuery NoBody [],
      ep ''listWebHistoryVisits'' ''GET'' [W ''api'', W ''incidents'', V ''incidentId'', W ''webhistory'', W ''visits''] (NonEmpty ''params'') NoBody [],
      ep ''listWebHistorySearchTerms'' ''GET'' [W ''api'', W ''incidents'', V ''incidentId'', W ''webhistory'', W ''search-terms''] (NonEmpty ''params'') NoBody [],
      ep ''listWebHistoryDownloads'' ''GET'' [W ''api'', W ''incidents'', V ''incidentId'', W ''webhistory'', W ''downloads''] (NonEmpty ''params'') NoBody []]"

definition API_OSINT_ENRICHMENT :: "endpoint list" where
  "API_OSINT_ENRICHMENT =
     [ep ''osintSources'' ''GET'' [W ''api'', W ''osint'', W ''sources''] NoQuery NoBody [],
      ep ''osintEnrich'' ''POST'' [W ''api'', W ''osint'', W ''enrich''] NoQuery (Whole ''payload'') []]"

definition API_OSINT_SESSIONS :: "endpoint list" where
  "API_OSINT_SESSIONS =
     [ep ''listOsintSessions'' ''GET'' [W ''api'', W ''incidents'', V ''incidentId'', W ''osint'', W ''sessions''] NoQuery NoBody [],
      ep ''createOsintSession'' ''POST'' [W ''api'', W ''incidents'', V ''incidentId'', W ''osint'', W ''sessions''] NoQuery (Whole ''payload'') [],
      ep ''updateOsintSession'' ''PATCH'' [W ''api'', W ''incidents'', V ''incidentId'', W ''osint'', W ''sessions'', V ''sessionId''] NoQuery (Whole ''payload'') [],
      ep ''deleteOsintSession'' ''DELETE'' [W ''api'', W ''incidents'', V ''incidentId'', W ''osint'', W ''sessions'', V ''sessionId''] NoQuery NoBody []]"

definition API_LOLBINS_GTFOBINS_REFERENCE :: "endpoint list" where
  "API_LOLBINS_GTFOBINS_REFERENCE =
     [ep ''lolbinsStatus'' ''GET'' [W ''api'', W ''lolbins'', W ''status''] NoQuery NoBody [],
      ep ''lolbinsSync'' ''POST'' [W ''api'', W ''lolbins'', W ''sync''] NoQuery NoBody [],
      ep ''lolbinsSearch'' ''GET'' [W ''api'', W ''lolbins'', W ''search''] (Picks [(''q'', X ''q''), (''platform'', X ''platform'')]) NoBody [(''q'', JStr []), (''platform'', JStr [])],
      ep ''lolbinsCheckText'' ''GET'' [W ''api'', W ''lolbins'', W ''check-text''] (Literal [(''text'', E ''text'')]) NoBody []]"

definition API_CUSTODY_EXPORTS :: "endpoint list" where
  "API_CUSTODY_EXPORTS =
     [ep ''listExports'' ''GET'' [W ''api'', W ''incidents'', V ''incidentId'', W ''evidence'', W ''exports''] (NonEmpty ''params'') NoBody [],
      ep ''createDisclosure'' ''POST'' [W ''api'', W ''incidents'', V ''incidentId'', W ''disclosures''] NoQuery (Whole ''payload'') [],
      ep ''listDisclosures'' ''GET'' [W ''api'', W ''incidents'', V ''incidentId'', W ''disclosures''] (NonEmpty ''params'') NoBody [],
      ep ''getDisclosure'' ''GET'' [W ''api'', W ''incidents'', V ''incidentId'', W ''disclosures'', V ''id''] NoQuery NoBody [],
      ep ''manualAckLePackage'' ''POST'' [W ''api'', W ''incidents'', V ''incidentId'', W ''le-packages'', V ''lpId'', W ''manual-ack''] NoQuery (Whole ''payload'') []]"

definition API_PUBLIC_RECIPIENT_ACK_PAGE :: "endpoint list" where
  "API_PUBLIC_RECIPIENT_ACK_PAGE =
     [ep ''getLePackageByAck'' ''GET'' [W ''api'', W ''le-package-ack'', V ''token''] NoQuery NoBody [],
      ep ''acknowledgeLePackage'' ''POST'' [W ''api'', W ''le-package-ack'', V ''token''] NoQuery (Whole ''payload'') []]"

definition API_PCAP_ANALYSIS :: "endpoint list" where
  "API_PCAP_ANALYSIS =
     [ep ''listPcap'' ''GET'' [W ''api'', W ''incidents'', V ''incidentId'', W ''pcap''] NoQuery NoBody [],
      ep ''getPcap'' ''GET'' [W ''api'', W ''incidents'', V ''incidentId'', W ''pcap'', V ''resultId''] NoQuery NoBody [],
      ep ''deletePcap'' ''DELETE'' [W ''api'', W ''incidents'', V ''incidentId'', W ''pcap'', V ''resultId''] NoQuery NoBody [],
      ep ''importPcapIocs'' ''POST'' [W ''api'', W ''incidents'', V ''incidentId'', W ''pcap'', V ''resultId'', W ''import-iocs''] NoQuery (Whole ''payload'') [],
      ep ''getPcapDnsRecon'' ''GET'' [W ''api'', W ''incidents'', V ''incidentId'', W ''pcap'', V ''resultId'', W ''dns-recon''] NoQuery NoBody [],
      ep ''analyzePcapFromEvidence'' ''POST'' [W ''api'', W ''incidents'', V ''incidentId'', W ''pcap'', W ''from-evidence'', V ''evidenceId''] NoQuery NoBody [],
      ep ''promotePcap'' ''POST'' [W ''api'', W ''incidents'', V ''incidentId'', W ''pcap'', V ''resultId'', W ''promote''] NoQuery (Whole ''payload'') []]"

definition API_STAKEHOLDER_MATRIX :: "endpoint list" where
  "API_STAKEHOLDER_MATRIX =
     [ep ''listStakeholderMatrix'' ''GET'' [W ''api'', W ''stakeholder-matrix''] NoQuery NoBody [],
      ep ''createStakeholderRule'' ''POST'' [W ''api'', W ''stakeholder-matrix''] NoQuery (Whole ''payload'') [],
      ep ''updateStakeholderRule'' ''PATCH'' [W ''api'', W ''stakeholder-matrix'', V ''ruleId''] NoQuery (Whole ''payload'') [],
      ep ''deleteStakeholderRule'' ''DELETE'' [W ''api'', W ''stakeholder-matrix'', V ''ruleId''] NoQuery NoBody []]"

definition API_POST_INCIDENT :: "endpoint list" where
  "API_POST_INCIDENT =
     [ep ''listClosureChecklist'' ''GET'' [W ''api'', W ''incidents'', V ''incidentId'', W ''post-incident'', W ''checklist''] NoQuery NoBody [],
      ep ''createClosureItem'' ''POST'' [W ''api'', W ''incidents'', V ''incidentId'', W ''post-incident'', W ''checklist''] NoQuery (Fields [(''label'', X ''label'')]) [],
      ep ''deleteClosureItem'' ''DELETE'' [W ''api'', W ''incidents'', V ''incidentId'', W ''post-incident'', W ''checklist'', V ''itemId''] NoQuery NoBody [],
      ep ''toggleClosureItem'' ''PATCH'' [W ''api'', W ''incidents'', V ''incidentId'', W ''post-incident'', W ''checklist'', V ''itemId''] NoQuery (Fields [(''checked'', X ''checked'')]) [],
      ep ''setClosureItemNa'' ''PATCH'' [W ''api'', W ''incidents'', V ''incidentId'', W ''post-incident'', W ''checklist'', V ''itemId''] NoQuery (Whole ''payload'') [],
      ep ''patchChecklistMeta'' ''PATCH'' [W ''api'', W ''incidents'', V ''incidentId'', W ''post-incident'', W ''checklist'', V ''itemId'', W ''meta''] NoQuery (Whole ''payload'') [],
      ep ''getLessonsLearned'' ''GET'' [W ''api'', W ''incidents'', V ''incidentId'', W ''post-incident'', W ''lessons''] NoQuery NoBody [],
      ep ''saveLessonsLearned'' ''PATCH'' [W ''api'', W ''incidents'', V ''incidentId'', W ''post-incident'', W ''lessons''] NoQuery (Whole ''payload'') []]"

definition API_POST_INCIDENT_2 :: "endpoint list" where
  "API_POST_INCIDENT_2 =
     [ep ''getMitreSummary'' ''GET'' [W ''api'', W ''incidents'', V ''incidentId'', W ''post-incident'', W ''mitre-summary''] NoQuery NoBody [],
      ep ''listAssignableUsers'' ''GET'' [W ''api'', W ''users'', W ''assignable''] (Picks [(''incident_id'', X ''incidentId''), (''writers_only'', When ''writersOnly'' (JStr ''true''))]) NoBody [(''writersOnly'', JBool False)]]"

definition API_YARA_RULE_LIBRARY :: "endpoint list" where
  "API_YARA_RULE_LIBRARY =
     [ep ''listYaraRules'' ''GET'' [W ''api'', W ''yara''] NoQuery NoBody [],
      ep ''createYaraRule'' ''POST'' [W ''api'', W ''yara''] NoQuery (Whole ''payload'') [],
      ep ''updateYaraRule'' ''PATCH'' [W ''api'', W ''yara'', V ''id''] NoQuery (Whole ''payload'') [],
      ep ''deleteYaraRule'' ''DELETE'' [W ''api'', W ''yara'', V ''id''] NoQuery NoBody []]"

definition API_YARA_PER_INCIDENT_SCAN :: "endpoint list" where
  "API_YARA_PER_INCIDENT_SCAN =
     [ep ''yaraRunScan'' ''POST'' [W ''api'', W ''incidents'', V ''incidentId'', W ''yara'', W ''scan''] NoQuery NoBody [],
      ep ''listYaraMatches'' ''GET'' [W ''api'', W ''incidents'', V ''incidentId'', W ''yara'', W ''matches''] NoQuery NoBody [],
      ep ''clearYaraMatches'' ''DELETE'' [W ''api'', W ''incidents'', V ''incidentId'', W ''yara'', W ''matches''] NoQuery NoBody [],
      ep ''yaraMatchTimeline'' ''POST'' [W ''api'', W ''incidents'', V ''incidentId'', W ''yara'', W ''matches'', V ''matchId'', W ''to-timeline''] NoQuery NoBody [],
      ep ''yaraMatchIoc'' ''POST'' [W ''api'', W ''incidents'', V ''incidentId'', W ''yara'', W ''matches'', V ''matchId'', W ''to-ioc''] NoQuery NoBody []]"

definition API_DETECTION_QUERIES :: "endpoint list" where
  "API_DETECTION_QUERIES =
     [ep ''getDetections'' ''GET'' [W ''api'', W ''incidents'', V ''incidentId'', W ''detections''] NoQuery NoBody []]"

definition API_REPORTS :: "endpoint list" where
  "API_REPORTS =
     [ep ''getReportData'' ''GET'' [W ''api'', W ''incidents'', V ''incidentId'', W ''reports'', W ''data''] NoQuery NoBody [],
      ep ''saveReport'' ''POST'' [W ''api'', W ''incidents'', V ''incidentId'', W ''reports''] NoQuery (Whole ''payload'') [],
      ep ''listReportHistory'' ''GET'' [W ''api'', W ''incidents'', V ''incidentId'', W ''reports'', W ''history''] NoQuery NoBody []]"

definition API_DASHBOARD :: "endpoint list" where
  "API_DASHBOARD =
     [ep ''getDashboardSummary'' ''GET'' [W ''api'', W ''dashboard'', W ''summary''] (Literal [(''mine'', V ''mine'')]) NoBody [(''mine'', JBool False)],
      ep ''getDashboardActivity'' ''GET'' [W ''api'', W ''dashboard'', W ''activity''] (Literal [(''mine'', V ''mine''), (''limit'', V ''limit'')]) NoBody [(''mine'', JBool False), (''limit'', JNum 50)],
      ep ''getDashboardLegalSummary'' ''GET'' [W ''api'', W ''dashboard'', W ''legal-summary''] (Literal [(''mine'', V ''mine'')]) NoBody [(''mine'', JBool False)],
      ep ''getDashboardTrend'' ''GET'' [W ''api'', W ''dashboard'', W ''trend''] (Literal [(''days'', V ''days''), (''mine'', V ''mine'')]) NoBody [(''days'', JNum 30), (''mine'', JBool False)],
      ep ''getDashboardWorkload'' ''GET'' [W ''api'', W ''dashboard'', W ''workload''] NoQuery NoBody [],
      ep ''getDashboardTopTactics'' ''GET'' [W ''api'', W ''dashboard'', W ''top-tactics''] (Literal [(''limit'', V ''limit'')]) NoBody [(''limit'', JNum 8)],
      ep ''getDashboardTopTags'' ''GET'' [W ''api'', W ''dashboard'', W ''top-tags''] (Literal [(''scope'', V ''scope''), (''limit'', V ''limit'')]) NoBody [(''scope'', JStr ''incident''), (''limit'', JNum 8)]]"

definition API_PORTFOLIO_METRICS :: "endpoint list" where
  "API_PORTFOLIO_METRICS =
     [ep ''getMetrics'' ''GET'' [W ''api'', W ''metrics''] (Literal [(''window_days'', V ''window_days'')]) NoBody [(''window_days'', JNum 90)]]"

definition API_ORGANISATION_READINESS :: "endpoint list" where
  "API_ORGANISATION_READINESS =
     [ep ''getReadiness'' ''GET'' [W ''api'', W ''readiness''] NoQuery NoBody [],
      ep ''deferReadinessChecks'' ''POST'' [W ''api'', W ''readiness'', W ''deferrals''] NoQuery (Whole ''body'') [],
      ep ''removeReadinessDeferral'' ''DELETE'' [W ''api'', W ''readiness'', W ''deferrals'', E ''id''] NoQuery NoBody []]"

definition API_CONTACTS_DIRECTORY :: "endpoint list" where
  "API_CONTACTS_DIRECTORY =
     [ep ''listContacts'' ''GET'' [W ''api'', W ''contacts''] (Picks [(''q'', P ''params'' ''q''), (''type'', P ''params'' ''type''), (''limit'', P ''params'' ''limit''), (''cursor'', P ''params'' ''cursor'')]) NoBody [],
      ep ''createContact'' ''POST'' [W ''api'', W ''contacts''] NoQuery (Whole ''payload'') [],
      ep ''updateContact'' ''PATCH'' [W ''api'', W ''contacts'', V ''id''] NoQuery (Whole ''payload'') [],
      ep ''deleteContact'' ''DELETE'' [W ''api'', W ''contacts'', V ''id''] NoQuery NoBody []]"

definition API_LEGAL :: "endpoint list" where
  "API_LEGAL =
     [ep ''legalTemplates'' ''GET'' [W ''api'', W ''incidents'', V ''incidentId'', W ''legal'', W ''templates''] NoQuery NoBody [],
      ep ''listDeadlines'' ''GET'' [W ''api'', W ''incidents'', V ''incidentId'', W ''legal'', W ''deadlines''] NoQuery NoBody [],
      ep ''initializeDeadlines'' ''POST'' [W ''api'', W ''incidents'', V ''incidentId'', W ''legal'', W ''deadlines'', W ''initialize''] NoQuery (Whole ''payload'') [],
      ep ''createDeadline'' ''POST'' [W ''api'', W ''incidents'', V ''incidentId'', W ''legal'', W ''deadlines''] NoQuery (Whole ''payload'') [],
      ep ''updateDeadline'' ''PATCH'' [W ''api'', W ''incidents'', V ''incidentId'', W ''legal'', W ''deadlines'', V ''deadlineId''] NoQuery (Whole ''payload'') [],
      ep ''deleteDeadline'' ''DELETE'' [W ''api'', W ''incidents'', V ''incidentId'', W ''legal'', W ''deadlines'', V ''deadlineId''] NoQuery (Fields [(''reason'', X ''reason'')]) []]"

definition API_COSTS_BUSINESS_IMPACT_ASSESSMENT :: "endpoint list" where
  "API_COSTS_BUSINESS_IMPACT_ASSESSMENT =
     [ep ''getBusinessImpact'' ''GET'' [W ''api'', W ''incidents'', V ''incidentId'', W ''business-impact''] NoQuery NoBody [],
      ep ''updateBusinessImpact'' ''PATCH'' [W ''api'', W ''incidents'', V ''incidentId'', W ''business-impact''] NoQuery (Whole ''payload'') [],
      ep ''listCosts'' ''GET'' [W ''api'', W ''incidents'', V ''incidentId'', W ''costs''] NoQuery NoBody [],
      ep ''costSummary'' ''GET'' [W ''api'', W ''incidents'', V ''incidentId'', W ''costs'', W ''summary''] NoQuery NoBody [],
      ep ''createCost'' ''POST'' [W ''api'', W ''incidents'', V ''incidentId'', W ''costs''] NoQuery (Whole ''payload'') [],
      ep ''updateCost'' ''PATCH'' [W ''api'', W ''incidents'', V ''incidentId'', W ''costs'', V ''costId''] NoQuery (Whole ''payload'') [],
      ep ''deleteCost'' ''DELETE'' [W ''api'', W ''incidents'', V ''incidentId'', W ''costs'', V ''costId''] NoQuery NoBody []]"

definition API_WAR_ROOM_CHAT :: "endpoint list" where
  "API_WAR_ROOM_CHAT =
     [ep ''listWarRoomMessages'' ''GET'' [W ''api'', W ''incidents'', V ''incidentId'', W ''warroom'', W ''messages''] (IfE ''cursor'' (X ''cursor'')) NoBody [],
      ep ''sendWarRoomMessage'' ''POST'' [W ''api'', W ''incidents'', V ''incidentId'', W ''warroom'', W ''messages''] NoQuery (Fields [(''body'', X ''body'')]) [],
      ep ''warRoomOnline'' ''GET'' [W ''api'', W ''incidents'', V ''incidentId'', W ''warroom'', W ''online''] NoQuery NoBody []]"

definition API_NOTIFICATIONS :: "endpoint list" where
  "API_NOTIFICATIONS =
     [ep ''listNotifications'' ''GET'' [W ''api'', W ''notifications''] (Flag ''unreadOnly'' ''unread_only=true'') NoBody [(''unreadOnly'', JBool False)],
      ep ''markNotificationRead'' ''PATCH'' [W ''api'', W ''notifications'', V ''id'', W ''read''] NoQuery NoBody [],
      ep ''markAllNotificationsRead'' ''POST'' [W ''api'', W ''notifications'', W ''read-all''] NoQuery NoBody []]"

definition API_ANALYTICS :: "endpoint list" where
  "API_ANALYTICS =
     [ep ''getIncidentAnalytics'' ''GET'' [W ''api'', W ''incidents'', V ''incidentId'', W ''analytics''] NoQuery NoBody []]"

definition API_STORAGE_ADMIN :: "endpoint list" where
  "API_STORAGE_ADMIN =
     [ep ''getStorageStatus'' ''GET'' [W ''api'', W ''admin'', W ''storage''] NoQuery NoBody []]"

definition API_PRESENCE :: "endpoint list" where
  "API_PRESENCE =
     [ep ''listViewers'' ''GET'' [W ''api'', W ''incidents'', V ''incidentId'', W ''presence'', W ''viewers''] NoQuery NoBody []]"

definition API_ON_CALL_SCHEDULE :: "endpoint list" where
  "API_ON_CALL_SCHEDULE =
     [ep ''listOnCall'' ''GET'' [W ''api'', W ''on-call''] (Flag ''includePast'' ''include_past=true'') NoBody [(''includePast'', JBool False)],
      ep ''getCurrentOnCall'' ''GET'' [W ''api'', W ''on-call'', W ''current''] NoQuery NoBody [],
      ep ''createOnCall'' ''POST'' [W ''api'', W ''on-call''] NoQuery (Whole ''payload'') [],
      ep ''updateOnCall'' ''PATCH'' [W ''api'', W ''on-call'', V ''id''] NoQuery (Whole ''payload'') [],
      ep ''deleteOnCall'' ''DELETE'' [W ''api'', W ''on-call'', V ''id''] NoQuery NoBody []]"

definition API_HANDOFFS :: "endpoint list" where
  "API_HANDOFFS =
     [ep ''listHandoffs'' ''GET'' [W ''api'', W ''incidents'', V ''incidentId'', W ''handoffs''] NoQuery NoBody [],
      ep ''createHandoff'' ''POST'' [W ''api'', W ''incidents'', V ''incidentId'', W ''handoffs''] NoQuery (Whole ''payload'') [],
      ep ''getHandoffPrefill'' ''GET'' [W ''api'', W ''incidents'', V ''incidentId'', W ''handoffs'', W ''prefill''] NoQuery NoBody [],
      ep ''promoteMessage'' ''POST'' [W ''api'', W ''incidents'', V ''incidentId'', W ''promote''] NoQuery (Whole ''payload'') [],
      ep ''acknowledgeHandoff'' ''PATCH'' [W ''api'', W ''incidents'', V ''incidentId'', W ''handoffs'', V ''handoffId'', W ''acknowledge''] NoQuery (Whole ''payload'') [],
      ep ''listPendingHandoffs'' ''GET'' [W ''api'', W ''handoffs'', W ''pending''] NoQuery NoBody []]"

definition API_INTEGRATIONS :: "endpoint list" where
  "API_INTEGRATIONS =
     [ep ''getSmtpConfig'' ''GET'' [W ''api'', W ''integrations'', W ''smtp''] NoQuery NoBody [],
      ep ''saveSmtpConfig'' ''PUT'' [W ''api'', W ''integrations'', W ''smtp''] NoQuery (Whole ''payload'') [],
      ep ''testEmail'' ''POST'' [W ''api'', W ''integrations'', W ''smtp'', W ''test''] NoQuery NoBody [],
      ep ''getWebhookConfig'' ''GET'' [W ''api'', W ''integrations'', W ''webhooks''] NoQuery NoBody [],
      ep ''saveWebhookConfig'' ''PUT'' [W ''api'', W ''integrations'', W ''webhooks''] NoQuery (Whole ''payload'') [],
      ep ''getSiemKey'' ''GET'' [W ''api'', W ''integrations'', W ''siem-key''] NoQuery NoBody [],
      ep ''generateSiemKey'' ''POST'' [W ''api'', W ''integrations'', W ''siem-key'', W ''generate''] NoQuery NoBody [],
      ep ''deleteSiemKey'' ''DELETE'' [W ''api'', W ''integrations'', W ''siem-key''] NoQuery NoBody [],
      ep ''getSyslogConfig'' ''GET'' [W ''api'', W ''integrations'', W ''syslog''] NoQuery NoBody [],
      ep ''saveSyslogConfig'' ''PUT'' [W ''api'', W ''integrations'', W ''syslog''] NoQuery (Whole ''payload'') [],
      ep ''testSyslog'' ''POST'' [W ''api'', W ''integrations'', W ''syslog'', W ''test''] NoQuery NoBody []]"

definition API_THREAT_ACTORS :: "endpoint list" where
  "API_THREAT_ACTORS =
     [ep ''listThreatActors'' ''GET'' [W ''api'', W ''threat-actors''] (Picks [(''q'', X ''q''), (''motivation'', X ''motivation'')]) NoBody [],
      ep ''getThreatActor'' ''GET'' [W ''api'', W ''threat-actors'', V ''actorId''] NoQuery NoBody [],
      ep ''createThreatActor'' ''POST'' [W ''api'', W ''threat-actors''] NoQuery (Whole ''payload'') [],
      ep ''updateThreatActor'' ''PATCH'' [W ''api'', W ''threat-actors'', V ''actorId''] NoQuery (Whole ''payload'') [],
      ep ''deleteThreatActor'' ''DELETE'' [W ''api'', W ''threat-actors'', V ''actorId''] NoQuery NoBody [],
      ep ''listActorAttributions'' ''GET'' [W ''api'', W ''threat-actors'', V ''actorId'', W ''attributions''] NoQuery NoBody [],
      ep ''triggerActorSync'' ''POST'' [W ''api'', W ''threat-actors'', W ''sync''] (Literal [(''force'', V ''force'')]) NoBody [(''force'', JBool False)],
      ep ''actorSyncStatus'' ''GET'' [W ''api'', W ''threat-actors'', W ''sync-status''] NoQuery NoBody []]"

definition API_INCIDENT_ATTRIBUTIONS :: "endpoint list" where
  "API_INCIDENT_ATTRIBUTIONS =
     [ep ''listAttributions'' ''GET'' [W ''api'', W ''incidents'', V ''incidentId'', W ''attributions''] NoQuery NoBody [],
      ep ''createAttribution'' ''POST'' [W ''api'', W ''incidents'', V ''incidentId'', W ''attributions''] NoQuery (Whole ''payload'') [],
      ep ''updateAttribution'' ''PATCH'' [W ''api'', W ''incidents'', V ''incidentId'', W ''attributions'', V ''id''] NoQuery (Whole ''payload'') [],
      ep ''deleteAttribution'' ''DELETE'' [W ''api'', W ''incidents'', V ''incidentId'', W ''attributions'', V ''id''] NoQuery NoBody [],
      ep ''suggestAttributions'' ''GET'' [W ''api'', W ''incidents'', V ''incidentId'', W ''attributions'', W ''suggest''] NoQuery NoBody []]"

definition API_GLOBAL_SEARCH :: "endpoint list" where
  "API_GLOBAL_SEARCH =
     [ep ''globalSearch'' ''GET'' [W ''api'', W ''search''] (Literal [(''q'', E ''q'')]) NoBody []]"

definition API_IR_ROSTER :: "endpoint list" where
  "API_IR_ROSTER =
     [ep ''listRoster'' ''GET'' [W ''api'', W ''roster''] (Picks [(''availability'', P ''params'' ''availability''), (''q'', P ''params'' ''q'')]) NoBody [],
      ep ''updateRosterProfile'' ''PATCH'' [W ''api'', W ''roster'', V ''userId''] NoQuery (Whole ''payload'') [],
      ep ''getRosterCoverage'' ''GET'' [W ''api'', W ''incidents'', V ''incidentId'', W ''roster'', W ''coverage''] NoQuery NoBody []]"

definition API :: "endpoint list" where
  "API = concat
     [API_HEALTH, API_FIRST_RUN_GATE_POLICY, API_LOGIN, API_CURRENT_USER,
      API_TOTP_ENROL, API_ACCOUNT_SELF_SERVICE, API_SESSIONS, API_SESSIONS_2,
      API_API_TOKENS, API_TEAMS, API_OPERATIONAL_ROLES, API_USERS,
      API_VALIDATED_TOOLS_REGISTRY, API_INCIDENTS, API_CORRELATIONS, API_IOCS,
      API_THREAT_INTEL_FEEDS, API_ENTITIES, API_ENTITIES_2, API_ENTITY_ASSET_LOG,
      API_ENTITY_FILES, API_INCIDENT_FILE_STORE, API_EVIDENCE, API_COLLECT,
      API_U8, API_U8_2, API_G3, API_WIZARD_A,
      API_WIZARD_A_2, API_WIZARD_B, API_SERVER_SIDE_PROVENANCE_SCORE, API_WORKING_COPY_LEDGER,
      API_INCIDENT_AUDIT_LOG, API_GLOBAL_AUDIT_LOG, API_SIGNED_AUDIT_LOG_EXPORTS, API_ED25519_PUBLIC_KEY_FINGERPRINT,
      API_ADMIN, API_PLAYBOOK_TEMPLATES, API_PLAYBOOK_TASKS, API_RESPOND,
      API_RESPOND_2, API_COMMS, API_LEGACY_SCRATCHPADS, API_CASE_NOTES,
      API_RECOVERY_TRACKER, API_STAKEHOLDER_NOTIFICATION_TRACKER, API_COMMS_2, API_COMMS_3,
      API_STAKEHOLDER_CONTACTS, API_INCIDENT_ASSIGNMENTS, API_TIMELINE, API_TIMELINE_2,
      API_FORENSIC_TIMELINE_IMPORTS, API_MITRE_ATT_CK_COVERAGE, API_QUARANTINE_ARTIFACTS, API_QUARANTINE_ARTIFACTS_2,
      API_FORENSIC_TIMELINE_IMPORT_FROM, API_COLLECTION_PACKAGES, API_LOLBINS_TIMELINE_CORRELATION, API_IOC_ENRICHMENT,
      API_PLATFORM_SETTINGS, API_BROWSER_HISTORY, API_BROWSER_HISTORY_2, API_OSINT_ENRICHMENT,
      API_OSINT_SESSIONS, API_LOLBINS_GTFOBINS_REFERENCE, API_CUSTODY_EXPORTS, API_PUBLIC_RECIPIENT_ACK_PAGE,
      API_PCAP_ANALYSIS, API_STAKEHOLDER_MATRIX, API_POST_INCIDENT, API_POST_INCIDENT_2,
      API_YARA_RULE_LIBRARY, API_YARA_PER_INCIDENT_SCAN, API_DETECTION_QUERIES, API_REPORTS,
      API_DASHBOARD, API_PORTFOLIO_METRICS, API_ORGANISATION_READINESS, API_CONTACTS_DIRECTORY,
      API_LEGAL, API_COSTS_BUSINESS_IMPACT_ASSESSMENT, API_WAR_ROOM_CHAT, API_NOTIFICATIONS,
      API_ANALYTICS, API_STORAGE_ADMIN, API_PRESENCE, API_ON_CALL_SCHEDULE,
      API_HANDOFFS, API_INTEGRATIONS, API_THREAT_ACTORS, API_INCIDENT_ATTRIBUTIONS,
      API_GLOBAL_SEARCH, API_IR_ROSTER]"

lemmas api_tables =
  API_HEALTH_def API_FIRST_RUN_GATE_POLICY_def API_LOGIN_def API_CURRENT_USER_def
  API_TOTP_ENROL_def API_ACCOUNT_SELF_SERVICE_def API_SESSIONS_def API_SESSIONS_2_def
  API_API_TOKENS_def API_TEAMS_def API_OPERATIONAL_ROLES_def API_USERS_def
  API_VALIDATED_TOOLS_REGISTRY_def API_INCIDENTS_def API_CORRELATIONS_def API_IOCS_def
  API_THREAT_INTEL_FEEDS_def API_ENTITIES_def API_ENTITIES_2_def API_ENTITY_ASSET_LOG_def
  API_ENTITY_FILES_def API_INCIDENT_FILE_STORE_def API_EVIDENCE_def API_COLLECT_def
  API_U8_def API_U8_2_def API_G3_def API_WIZARD_A_def
  API_WIZARD_A_2_def API_WIZARD_B_def API_SERVER_SIDE_PROVENANCE_SCORE_def API_WORKING_COPY_LEDGER_def
  API_INCIDENT_AUDIT_LOG_def API_GLOBAL_AUDIT_LOG_def API_SIGNED_AUDIT_LOG_EXPORTS_def API_ED25519_PUBLIC_KEY_FINGERPRINT_def
  API_ADMIN_def API_PLAYBOOK_TEMPLATES_def API_PLAYBOOK_TASKS_def API_RESPOND_def
  API_RESPOND_2_def API_COMMS_def API_LEGACY_SCRATCHPADS_def API_CASE_NOTES_def
  API_RECOVERY_TRACKER_def API_STAKEHOLDER_NOTIFICATION_TRACKER_def API_COMMS_2_def API_COMMS_3_def
  API_STAKEHOLDER_CONTACTS_def API_INCIDENT_ASSIGNMENTS_def API_TIMELINE_def API_TIMELINE_2_def
  API_FORENSIC_TIMELINE_IMPORTS_def API_MITRE_ATT_CK_COVERAGE_def API_QUARANTINE_ARTIFACTS_def API_QUARANTINE_ARTIFACTS_2_def
  API_FORENSIC_TIMELINE_IMPORT_FROM_def API_COLLECTION_PACKAGES_def API_LOLBINS_TIMELINE_CORRELATION_def API_IOC_ENRICHMENT_def
  API_PLATFORM_SETTINGS_def API_BROWSER_HISTORY_def API_BROWSER_HISTORY_2_def API_OSINT_ENRICHMENT_def
  API_OSINT_SESSIONS_def API_LOLBINS_GTFOBINS_REFERENCE_def API_CUSTODY_EXPORTS_def API_PUBLIC_RECIPIENT_ACK_PAGE_def
  API_PCAP_ANALYSIS_def API_STAKEHOLDER_MATRIX_def API_POST_INCIDENT_def API_POST_INCIDENT_2_def
  API_YARA_RULE_LIBRARY_def API_YARA_PER_INCIDENT_SCAN_def API_DETECTION_QUERIES_def API_REPORTS_def
  API_DASHBOARD_def API_PORTFOLIO_METRICS_def API_ORGANISATION_READINESS_def API_CONTACTS_DIRECTORY_def
  API_LEGAL_def API_COSTS_BUSINESS_IMPACT_ASSESSMENT_def API_WAR_ROOM_CHAT_def API_NOTIFICATIONS_def
  API_ANALYTICS_def API_STORAGE_ADMIN_def API_PRESENCE_def API_ON_CALL_SCHEDULE_def
  API_HANDOFFS_def API_INTEGRATIONS_def API_THREAT_ACTORS_def API_INCIDENT_ATTRIBUTIONS_def
  API_GLOBAL_SEARCH_def API_IR_ROSTER_def

end
