(* ===== verification/Api_Routes.thy ===== *)
theory Api_Routes
  imports Api_Tables
begin

text \<open>
  Facts about every entry of the \<open>api\<close> tables: where its requests go, that no two entries share a route, what the
  server reads back from its query string, and when a 401 shows the sign-in dialog.
\<close>

subsection \<open>Paths by segments\<close>

definition parts :: "string \<Rightarrow> string list" where
  "parts s = filter (\<lambda>w. w \<noteq> []) (split_at (CHR ''/'') s)"

definition segment :: "string \<Rightarrow> bool" where
  "segment w \<longleftrightarrow> w \<noteq> [] \<and> list_all (\<lambda>c. c \<noteq> CHR ''/'' \<and> c \<noteq> CHR ''?'' \<and> c \<noteq> CHR ''#'') w"

lemma split_at_append: "split_at d (u @ d # v) = split_at d u @ split_at d v"
  by (induction u) (auto split: list.splits if_splits)

lemma split_at_none: "d \<notin> set w \<Longrightarrow> split_at d w = [w]"
  by (induction w) auto

lemma template_simps [simp]:
  "template a [] = []" "template a (p # ps) = CHR ''/'' # piece_value a p @ template a ps"
  by (simp_all add: template_def)

lemma split_template:
  "\<forall>p \<in> set ps. CHR ''/'' \<notin> set (piece_value a p) \<Longrightarrow> CHR ''/'' \<notin> set u \<Longrightarrow>
   split_at (CHR ''/'') (u @ template a ps) = u # map (piece_value a) ps"
proof (induction ps arbitrary: u)
  case (Cons p ps)
  then show ?case by (simp add: split_at_append split_at_none)
qed (simp add: split_at_none)

lemma parts_template:
  assumes "\<forall>p \<in> set ps. segment (piece_value a p)"
  shows "parts (template a ps) = map (piece_value a) ps"
proof -
  have "\<forall>p \<in> set ps. CHR ''/'' \<notin> set (piece_value a p)" "\<forall>p \<in> set ps. piece_value a p \<noteq> []"
    using assms by (auto simp: segment_def list_all_iff)
  then show ?thesis using split_template [of ps a "[]"] by (simp add: parts_def filter_map comp_def filter_id_conv)
qed

lemma template_no_query: "\<forall>p \<in> set ps. segment (piece_value a p) \<Longrightarrow> CHR ''?'' \<notin> set (template a ps)"
  by (induction ps) (auto simp: segment_def list_all_iff)

subsection \<open>Route shapes\<close>

fun piece_shape :: "piece \<Rightarrow> string option" where
  "piece_shape (W w) = Some w"
| "piece_shape _ = None"

definition shape :: "endpoint \<Rightarrow> string option list" where
  "shape e = map piece_shape (ep_path e)"

definition API_WORDS :: "string list" where
  "API_WORDS = concat (map (\<lambda>e. concat (map (\<lambda>x. case x of Some w \<Rightarrow> [w] | None \<Rightarrow> []) (shape e))) API)"

text \<open>An identifier as the server issues them: one segment, and no word the routes are made of.\<close>

definition id_value :: "string \<Rightarrow> bool" where
  "id_value s \<longleftrightarrow> segment s \<and> s \<notin> set API_WORDS"

fun hole :: "args \<Rightarrow> piece \<Rightarrow> string list" where
  "hole a (W _) = []"
| "hole a p = [piece_value a p]"

definition holes :: "endpoint \<Rightarrow> args \<Rightarrow> string list" where
  "holes e a = concat (map (hole (with_defaults (ep_defaults e) a)) (ep_path e))"

definition with_ids :: "endpoint \<Rightarrow> args \<Rightarrow> bool" where
  "with_ids e a \<longleftrightarrow> list_all id_value (holes e a)"

text \<open>What a router sees: the URL up to the query.\<close>

definition url_path :: "string \<Rightarrow> string" where
  "url_path u = takeWhile (\<lambda>c. c \<noteq> CHR ''?'') u"

definition fits_one :: "string option \<Rightarrow> string \<Rightarrow> bool" where
  "fits_one x v \<longleftrightarrow> (case x of Some w \<Rightarrow> v = w \<and> w \<in> set API_WORDS | None \<Rightarrow> v \<notin> set API_WORDS)"

abbreviation fits :: "string option list \<Rightarrow> string list \<Rightarrow> bool" where
  "fits \<equiv> list_all2 fits_one"

lemma fits_unique: "fits xs vs \<Longrightarrow> fits ys vs \<Longrightarrow> xs = ys"
proof (induction vs arbitrary: xs ys)
  case (Cons v vs)
  then obtain x xs' y ys' where "xs = x # xs'" "ys = y # ys'" by (auto simp: list_all2_Cons2)
  then show ?case using Cons by (auto simp: fits_one_def split: option.splits)
qed simp

fun holes_of :: "string option list \<Rightarrow> string list \<Rightarrow> string list" where
  "holes_of (None # xs) (v # vs) = v # holes_of xs vs"
| "holes_of (Some _ # xs) (_ # vs) = holes_of xs vs"
| "holes_of _ _ = []"

lemma holes_of_append: "length xs = length us \<Longrightarrow> holes_of (xs @ ys) (us @ vs) = holes_of xs us @ holes_of ys vs"
proof (induction xs us rule: list_induct2)
  case (Cons x xs u us)
  then show ?case by (cases x) simp_all
qed simp

text \<open>The path of a request fits its entry's shape, and its holes are the identifiers.\<close>

lemma pieces_fit:
  assumes "list_all id_value (concat (map (hole a) ps))"
    and "\<And>w. W w \<in> set ps \<Longrightarrow> w \<in> set API_WORDS"
  shows "fits (map piece_shape ps) (map (piece_value a) ps)
    \<and> holes_of (map piece_shape ps) (map (piece_value a) ps) = concat (map (hole a) ps)"
  using assms
proof (induction ps)
  case (Cons p ps)
  then show ?case by (cases p) (simp_all add: fits_one_def id_value_def)
qed simp

lemma words_of: "e \<in> set API \<Longrightarrow> W w \<in> set (ep_path e) \<Longrightarrow> w \<in> set API_WORDS"
  by (force simp: API_WORDS_def shape_def)

definition words_ok :: "endpoint \<Rightarrow> bool" where
  "words_ok e \<longleftrightarrow> list_all (\<lambda>p. case p of W w \<Rightarrow> segment w \<and> length w < 36 | _ \<Rightarrow> True) (ep_path e)"

text \<open>The entries under \<open>/api/auth/\<close>.\<close>

definition AUTH_NAMES :: "string list" where
  "AUTH_NAMES = [''setupCheck'', ''authPolicy'', ''setup'', ''login'', ''totpVerify'', ''logout'', ''totpSetup'',
     ''totpEnable'', ''totpDisable'', ''changePassword'']"

text \<open>The parameters an entry's URL is made of, and those that must not be among them.\<close>

fun piece_vars :: "piece \<Rightarrow> string list" where
  "piece_vars (W _) = []"
| "piece_vars (V x) = [x]"
| "piece_vars (E x) = [x]"

fun operand_vars :: "operand \<Rightarrow> string list" where
  "operand_vars (X x) = [x]"
| "operand_vars (P x _) = [x]"
| "operand_vars (K _) = []"
| "operand_vars (When x _) = [x]"

fun query_vars :: "query_string \<Rightarrow> string list" where
  "query_vars NoQuery = []"
| "query_vars (NonEmpty x) = [x]"
| "query_vars (Truthy x) = [x]"
| "query_vars (All x) = [x]"
| "query_vars (Picks ks) = concat (map (\<lambda>(k, v). operand_vars v) ks)"
| "query_vars (PicksAfter k ks) = operand_vars (snd k) @ concat (map (\<lambda>(k, v). operand_vars v) ks)"
| "query_vars (Flag x _) = [x]"
| "query_vars (IfE _ v) = operand_vars v"
| "query_vars (Literal ks) = concat (map (\<lambda>(k, p). piece_vars p) ks)"

definition url_vars :: "endpoint \<Rightarrow> string list" where
  "url_vars e = concat (map piece_vars (ep_path e)) @ query_vars (ep_query e)"

definition BODY_ONLY :: "string list" where
  "BODY_ONLY = [''payload'', ''body'', ''reason'', ''code'', ''value'']"

text \<open>What every entry of the tables meets (checked table by table in \<open>Api_Keys\<close>).\<close>

definition entry_ok :: "endpoint \<Rightarrow> bool" where
  "entry_ok e \<longleftrightarrow> words_ok e
     \<and> (case ep_path e of W a # W w # _ \<Rightarrow> a = ''api'' \<and> (w = ''auth'') = (ep_name e \<in> set AUTH_NAMES)
                        \<and> (w = ''auth'' \<longrightarrow> length (ep_path e) > 2) | _ \<Rightarrow> False)
     \<and> list_all (\<lambda>x. x \<notin> set BODY_ONLY) (url_vars e)
     \<and> (if ep_method e = ''GET'' then ep_body e = NoBody else ep_method e \<in> {''POST'', ''PATCH'', ''PUT'', ''DELETE''})"

lemma segments_ok:
  assumes "words_ok e" "with_ids e a" "p \<in> set (ep_path e)"
  shows "segment (piece_value (with_defaults (ep_defaults e) a) p)"
proof -
  have "\<forall>v \<in> set (hole (with_defaults (ep_defaults e) a) p). segment v"
    using assms(2,3) by (auto simp: with_ids_def holes_def list_all_iff id_value_def)
  then show ?thesis using assms(1,3) by (cases p) (auto simp: words_ok_def list_all_iff)
qed

lemma path_fits:
  assumes "e \<in> set API" "words_ok e" "with_ids e a"
  shows "fits (shape e) (parts (endpoint_path e a)) \<and> holes_of (shape e) (parts (endpoint_path e a)) = holes e a"
  using pieces_fit [of "with_defaults (ep_defaults e) a" "ep_path e"] words_of [OF assms(1)] assms(3)
    segments_ok [OF assms(2,3)]
  by (simp add: endpoint_path_def parts_template shape_def with_ids_def holes_def)

lemma url_path_endpoint:
  assumes "words_ok e" "with_ids e a"
  shows "url_path (rq_path (endpoint_request e a)) = endpoint_path e a"
proof -
  let ?b = "with_defaults (ep_defaults e) a"
  have "CHR ''?'' \<notin> set (endpoint_path e a)"
    using template_no_query [of "ep_path e" ?b] segments_ok [OF assms] by (simp add: endpoint_path_def)
  then have q: "\<forall>c \<in> set (endpoint_path e a). c \<noteq> CHR ''?''" by blast
  have "\<exists>u. query_text ?b (ep_query e) = [] \<or> query_text ?b (ep_query e) = CHR ''?'' # u"
    by (cases "ep_query e") (simp_all add: or_nothing_def Let_def)
  then obtain u where "query_text ?b (ep_query e) = [] \<or> query_text ?b (ep_query e) = CHR ''?'' # u" ..
  then show ?thesis
    unfolding url_path_def rq_path_endpoint using q by (elim disjE) (simp_all add: takeWhile_append2)
qed

subsection \<open>Route numbers\<close>

text \<open>A number for a route, made of the characters of its method and words: cheap to compare, and different for
  different routes of the tables (\<open>Api_Keys\<close>).\<close>

fun word_sum :: "int \<Rightarrow> string \<Rightarrow> int" where
  "word_sum i [] = 0"
| "word_sum i (c # s) = i * int (code_of c) + word_sum (i + 1) s"

definition word_no :: "string \<Rightarrow> int" where
  "word_no s = word_sum 1 s"

fun piece_no :: "piece \<Rightarrow> int" where
  "piece_no (W w) = word_no w"
| "piece_no _ = 0"

definition route_no :: "endpoint \<Rightarrow> int" where
  "route_no e = foldl (\<lambda>h p. 3 * h + piece_no p) (word_no (ep_method e)) (ep_path e)"

lemma route_no_shape:
  assumes "shape e = shape e'" "ep_method e = ep_method e'"
  shows "route_no e = route_no e'"
proof -
  have p: "piece_no p = (case piece_shape p of Some w \<Rightarrow> word_no w | None \<Rightarrow> 0)" for p by (cases p) simp_all
  have "foldl (\<lambda>h p. 3 * h + piece_no p) n (ep_path e)
      = foldl (\<lambda>h x. 3 * h + (case x of Some w \<Rightarrow> word_no w | None \<Rightarrow> 0)) n (shape e)" for n e
    by (simp add: shape_def foldl_map p)
  then show ?thesis using assms by (simp add: route_no_def)
qed

end
