(* ===== verification/Api_Keys.thy ===== *)
theory Api_Keys
  imports Api_Routes
begin

text \<open>
  The words and route keys of the \<open>api\<close> tables, evaluated table by table.
\<close>

lemma segment_words [simp]:
  "segment ''accept''"
  "segment ''access''"
  "segment ''acknowledge''"
  "segment ''acquisition-record''"
  "segment ''actions''"
  "segment ''activity''"
  "segment ''admin''"
  "segment ''analytics''"
  "segment ''analyze''"
  "segment ''api''"
  "segment ''api-keys''"
  "segment ''artifacts''"
  "segment ''asset-log''"
  "segment ''assignable''"
  "segment ''assignments''"
  "segment ''attachments''"
  "segment ''attributions''"
  "segment ''audit-log''"
  "segment ''auth''"
  "segment ''backups''"
  "segment ''batch''"
  "segment ''bulk''"
  "segment ''business-impact''"
  "segment ''case-notes''"
  "segment ''change-password''"
  "segment ''check-text''"
  "segment ''checklist''"
  "segment ''cleanup''"
  "segment ''close''"
  "segment ''collections''"
  "segment ''comments''"
  "segment ''contacts''"
  "segment ''containment''"
  "segment ''containment-plan''"
  "segment ''correlations''"
  "segment ''costs''"
  "segment ''coverage''"
  "segment ''current''"
  "segment ''custody''"
  "segment ''custody-log''"
  "segment ''dark-operation''"
  "segment ''dashboard''"
  "segment ''data''"
  "segment ''deadlines''"
  "segment ''decisions''"
  "segment ''decline''"
  "segment ''defender-pdf''"
  "segment ''deferrals''"
  "segment ''detections''"
  "segment ''disable''"
  "segment ''disclosures''"
  "segment ''dispose''"
  "segment ''dns-recon''"
  "segment ''domain-check''"
  "segment ''downloads''"
  "segment ''email''"
  "segment ''enable''"
  "segment ''enrich''"
  "segment ''enrich-all''"
  "segment ''entities''"
  "segment ''entity-links''"
  "segment ''entity-relations''"
  "segment ''evidence''"
  "segment ''evidence-identifier''"
  "segment ''examination-session''"
  "segment ''examine''"
  "segment ''exhibit-prefill''"
  "segment ''exports''"
  "segment ''extract''"
  "segment ''feeds''"
  "segment ''files''"
  "segment ''forensic''"
  "segment ''from-artifact''"
  "segment ''from-evidence''"
  "segment ''gates''"
  "segment ''generate''"
  "segment ''handoffs''"
  "segment ''hash-iocs''"
  "segment ''health''"
  "segment ''heartbeats''"
  "segment ''history''"
  "segment ''hunting-queries''"
  "segment ''import-hops''"
  "segment ''import-iocs''"
  "segment ''imports''"
  "segment ''incident-matches''"
  "segment ''incident-ref''"
  "segment ''incidents''"
  "segment ''init''"
  "segment ''initialize''"
  "segment ''instantiate''"
  "segment ''integrations''"
  "segment ''iocs''"
  "segment ''label''"
  "segment ''le-package-ack''"
  "segment ''le-packages''"
  "segment ''legal''"
  "segment ''legal-hold''"
  "segment ''legal-summary''"
  "segment ''lessons''"
  "segment ''links''"
  "segment ''log''"
  "segment ''login''"
  "segment ''logout''"
  "segment ''lolbin-scan''"
  "segment ''lolbins''"
  "segment ''lookup''"
  "segment ''manifest''"
  "segment ''manual-ack''"
  "segment ''matches''"
  "segment ''me''"
  "segment ''members''"
  "segment ''messages''"
  "segment ''meta''"
  "segment ''metrics''"
  "segment ''mint-evidence''"
  "segment ''mitre''"
  "segment ''mitre-summary''"
  "segment ''next-identifier''"
  "segment ''notes''"
  "segment ''notifications''"
  "segment ''on-call''"
  "segment ''online''"
  "segment ''oob''"
  "segment ''operational-roles''"
  "segment ''osint''"
  "segment ''passphrase''"
  "segment ''pcap''"
  "segment ''pending''"
  "segment ''phase-history''"
  "segment ''physical''"
  "segment ''playbook''"
  "segment ''playbook-templates''"
  "segment ''policy''"
  "segment ''post-incident''"
  "segment ''prefill''"
  "segment ''presence''"
  "segment ''profiles''"
  "segment ''promote''"
  "segment ''promote-iocs''"
  "segment ''provenance''"
  "segment ''pull''"
  "segment ''pull-all''"
  "segment ''read''"
  "segment ''read-all''"
  "segment ''readiness''"
  "segment ''rebuild''"
  "segment ''recovery''"
  "segment ''regenerate''"
  "segment ''register-exhibit''"
  "segment ''reopen''"
  "segment ''reports''"
  "segment ''reset-password''"
  "segment ''respond''"
  "segment ''revert''"
  "segment ''review''"
  "segment ''revisions''"
  "segment ''revoke-all''"
  "segment ''revoke-others''"
  "segment ''roster''"
  "segment ''run''"
  "segment ''scan''"
  "segment ''scan-ti''"
  "segment ''seal''"
  "segment ''seal-record''"
  "segment ''search''"
  "segment ''search-terms''"
  "segment ''seen-before''"
  "segment ''sessions''"
  "segment ''settings''"
  "segment ''setup''"
  "segment ''setup-check''"
  "segment ''siem-key''"
  "segment ''sign-off''"
  "segment ''smtp''"
  "segment ''snapshot''"
  "segment ''sources''"
  "segment ''stakeholder-matrix''"
  "segment ''stakeholder-notifications''"
  "segment ''stakeholders''"
  "segment ''start-checks''"
  "segment ''status''"
  "segment ''storage''"
  "segment ''suggest''"
  "segment ''summary''"
  "segment ''sync''"
  "segment ''sync-status''"
  "segment ''syslog''"
  "segment ''tasks''"
  "segment ''teams''"
  "segment ''templates''"
  "segment ''test''"
  "segment ''threat-actors''"
  "segment ''threat-intel''"
  "segment ''timeline''"
  "segment ''timeline-import''"
  "segment ''timeline-links''"
  "segment ''to-ioc''"
  "segment ''to-timeline''"
  "segment ''tokens''"
  "segment ''top-tactics''"
  "segment ''top-tags''"
  "segment ''totp''"
  "segment ''transfer''"
  "segment ''trend''"
  "segment ''unlock''"
  "segment ''uploads''"
  "segment ''users''"
  "segment ''validated-tools''"
  "segment ''verify''"
  "segment ''version''"
  "segment ''versions''"
  "segment ''viewers''"
  "segment ''visits''"
  "segment ''warroom''"
  "segment ''webhistory''"
  "segment ''webhooks''"
  "segment ''working-copies''"
  "segment ''working-copy''"
  "segment ''workload''"
  "segment ''yara''"
  by (simp_all add: segment_def)

lemma word_numbers [simp]:
  "word_no ''accept'' = 2252"
  "word_no ''access'' = 2261"
  "word_no ''acknowledge'' = 6930"
  "word_no ''acquisition-record'' = 17680"
  "word_no ''actions'' = 3083"
  "word_no ''activity'' = 4063"
  "word_no ''admin'' = 1594"
  "word_no ''analytics'' = 4903"
  "word_no ''analyze'' = 3084"
  "word_no ''api'' = 636"
  "word_no ''api-keys'' = 3724"
  "word_no ''artifacts'' = 4841"
  "word_no ''asset-log'' = 4497"
  "word_no ''assignable'' = 5712"
  "word_no ''assignments'' = 7253"
  "word_no ''attachments'' = 7170"
  "word_no ''attributions'' = 8638"
  "word_no ''audit-log'' = 4472"
  "word_no ''auth'' = 1095"
  "word_no ''backups'' = 3079"
  "word_no ''batch'' = 1556"
  "word_no ''bulk'' = 1084"
  "word_no ''business-impact'' = 12363"
  "word_no ''case-notes'' = 5691"
  "word_no ''change-password'' = 12625"
  "word_no ''check-text'' = 5671"
  "word_no ''checklist'' = 4888"
  "word_no ''cleanup'' = 3042"
  "word_no ''close'' = 1613"
  "word_no ''collections'' = 7192"
  "word_no ''comments'' = 3981"
  "word_no ''contacts'' = 3926"
  "word_no ''containment'' = 7157"
  "word_no ''containment-plan'' = 13880"
  "word_no ''correlations'' = 8524"
  "word_no ''costs'' = 1705"
  "word_no ''coverage'' = 3760"
  "word_no ''current'' = 3108"
  "word_no ''custody'' = 3144"
  "word_no ''custody-log'' = 6719"
  "word_no ''dark-operation'' = 11062"
  "word_no ''dashboard'' = 4702"
  "word_no ''data'' = 1030"
  "word_no ''deadlines'' = 4776"
  "word_no ''decisions'' = 4916"
  "word_no ''decline'' = 2923"
  "word_no ''defender-pdf'' = 7630"
  "word_no ''deferrals'' = 4844"
  "word_no ''detections'' = 6008"
  "word_no ''disable'' = 2888"
  "word_no ''disclosures'' = 7299"
  "word_no ''dispose'' = 3055"
  "word_no ''dns-recon'' = 4592"
  "word_no ''domain-check'' = 7648"
  "word_no ''downloads'' = 4839"
  "word_no ''email'' = 1570"
  "word_no ''enable'' = 2150"
  "word_no ''enrich'' = 2202"
  "word_no ''enrich-all'' = 5345"
  "word_no ''entities'' = 3926"
  "word_no ''entity-links'' = 8176"
  "word_no ''entity-relations'' = 14479"
  "word_no ''evidence'' = 3718"
  "word_no ''evidence-identifier'' = 19515"
  "word_no ''examination-session'' = 20012"
  "word_no ''examine'' = 2960"
  "word_no ''exhibit-prefill'' = 12345"
  "word_no ''exports'' = 3192"
  "word_no ''extract'' = 3036"
  "word_no ''feeds'' = 1582"
  "word_no ''files'' = 1615"
  "word_no ''forensic'' = 3837"
  "word_no ''from-artifact'' = 9360"
  "word_no ''from-evidence'' = 9217"
  "word_no ''gates'' = 1624"
  "word_no ''generate'' = 3811"
  "word_no ''handoffs'' = 3829"
  "word_no ''hash-iocs'' = 4518"
  "word_no ''health'' = 2233"
  "word_no ''heartbeats'' = 5898"
  "word_no ''history'' = 3209"
  "word_no ''hunting-queries'' = 12568"
  "word_no ''import-hops'' = 6900"
  "word_no ''import-iocs'' = 6778"
  "word_no ''imports'' = 3174"
  "word_no ''incident-matches'' = 13898"
  "word_no ''incident-ref'' = 7726"
  "word_no ''incidents'' = 4881"
  "word_no ''init'' = 1104"
  "word_no ''initialize'' = 5915"
  "word_no ''instantiate'' = 7075"
  "word_no ''integrations'' = 8528"
  "word_no ''iocs'' = 1084"
  "word_no ''label'' = 1540"
  "word_no ''le-package-ack'' = 9878"
  "word_no ''le-packages'' = 6699"
  "word_no ''legal'' = 1547"
  "word_no ''legal-hold'' = 5405"
  "word_no ''legal-summary'' = 9637"
  "word_no ''lessons'' = 3135"
  "word_no ''links'' = 1651"
  "word_no ''log'' = 639"
  "word_no ''login'' = 1609"
  "word_no ''logout'' = 2364"
  "word_no ''lolbin-scan'' = 6537"
  "word_no ''lolbins'' = 3036"
  "word_no ''lookup'' = 2348"
  "word_no ''manifest'' = 3902"
  "word_no ''manual-ack'' = 5286"
  "word_no ''matches'' = 2978"
  "word_no ''me'' = 311"
  "word_no ''members'' = 3024"
  "word_no ''messages'' = 3846"
  "word_no ''meta'' = 1047"
  "word_no ''metrics'' = 3039"
  "word_no ''mint-evidence'' = 9231"
  "word_no ''mitre'' = 1628"
  "word_no ''mitre-summary'' = 9718"
  "word_no ''next-identifier'' = 12517"
  "word_no ''notes'' = 1659"
  "word_no ''notifications'' = 9839"
  "word_no ''on-call'' = 2751"
  "word_no ''online'' = 2231"
  "word_no ''oob'' = 627"
  "word_no ''operational-roles'' = 15813"
  "word_no ''osint'' = 1676"
  "word_no ''passphrase'' = 5914"
  "word_no ''pcap'' = 1049"
  "word_no ''pending'' = 2950"
  "word_no ''phase-history'' = 9771"
  "word_no ''physical'' = 3805"
  "word_no ''playbook'' = 3892"
  "word_no ''playbook-templates'' = 17942"
  "word_no ''policy'' = 2299"
  "word_no ''post-incident'' = 9444"
  "word_no ''prefill'' = 2980"
  "word_no ''presence'' = 3769"
  "word_no ''profiles'' = 3881"
  "word_no ''promote'' = 3067"
  "word_no ''promote-iocs'' = 7951"
  "word_no ''provenance'' = 5770"
  "word_no ''pull'' = 1102"
  "word_no ''pull-all'' = 3529"
  "word_no ''read'' = 1007"
  "word_no ''read-all'' = 3434"
  "word_no ''readiness'' = 4854"
  "word_no ''rebuild'' = 2951"
  "word_no ''recovery'' = 4019"
  "word_no ''regenerate'' = 5813"
  "word_no ''register-exhibit'' = 14086"
  "word_no ''reopen'' = 2262"
  "word_no ''reports'' = 3167"
  "word_no ''reset-password'' = 11183"
  "word_no ''respond'' = 3024"
  "word_no ''revert'' = 2340"
  "word_no ''review'' = 2309"
  "word_no ''revisions'' = 4987"
  "word_no ''revoke-all'' = 5398"
  "word_no ''revoke-others'' = 9516"
  "word_no ''roster'' = 2334"
  "word_no ''run'' = 678"
  "word_no ''scan'' = 1044"
  "word_no ''scan-ti'' = 2700"
  "word_no ''seal'' = 1040"
  "word_no ''seal-record'' = 6687"
  "word_no ''search'' = 2183"
  "word_no ''search-terms'' = 8054"
  "word_no ''seen-before'' = 6646"
  "word_no ''sessions'' = 4003"
  "word_no ''settings'' = 3955"
  "word_no ''setup'' = 1693"
  "word_no ''setup-check'' = 6564"
  "word_no ''siem-key'' = 3606"
  "word_no ''sign-off'' = 3495"
  "word_no ''smtp'' = 1129"
  "word_no ''snapshot'' = 3978"
  "word_no ''sources'' = 3050"
  "word_no ''stakeholder-matrix'' = 17824"
  "word_no ''stakeholder-notifications'' = 34203"
  "word_no ''stakeholders'' = 8380"
  "word_no ''start-checks'' = 7925"
  "word_no ''status'' = 2377"
  "word_no ''storage'' = 2946"
  "word_no ''suggest'' = 3077"
  "word_no ''summary'' = 3128"
  "word_no ''sync'' = 1083"
  "word_no ''sync-status'' = 7065"
  "word_no ''syslog'' = 2307"
  "word_no ''tasks'' = 1658"
  "word_no ''teams'' = 1620"
  "word_no ''templates'' = 4870"
  "word_no ''test'' = 1127"
  "word_no ''threat-actors'' = 9477"
  "word_no ''threat-intel'' = 7963"
  "word_no ''timeline'' = 3805"
  "word_no ''timeline-import'' = 12582"
  "word_no ''timeline-links'' = 10766"
  "word_no ''to-ioc'' = 2042"
  "word_no ''to-timeline'' = 6843"
  "word_no ''tokens'' = 2303"
  "word_no ''top-tactics'' = 6837"
  "word_no ''top-tags'' = 3657"
  "word_no ''totp'' = 1134"
  "word_no ''transfer'' = 3881"
  "word_no ''trend'' = 1587"
  "word_no ''unlock'' = 2242"
  "word_no ''uploads'' = 2999"
  "word_no ''users'' = 1681"
  "word_no ''validated-tools'' = 12396"
  "word_no ''verify'' = 2318"
  "word_no ''version'' = 3083"
  "word_no ''versions'' = 4003"
  "word_no ''viewers'' = 3101"
  "word_no ''visits'' = 2363"
  "word_no ''warroom'' = 3095"
  "word_no ''webhistory'' = 6182"
  "word_no ''webhooks'' = 3921"
  "word_no ''working-copies'' = 10793"
  "word_no ''working-copy'' = 8062"
  "word_no ''workload'' = 3796"
  "word_no ''yara'' = 1045"
  "word_no ''GET'' = 461"
  "word_no ''POST'' = 823"
  "word_no ''PATCH'' = 1090"
  "word_no ''DELETE'' = 1544"
  "word_no ''PUT'' = 502"
  by (simp_all add: word_no_def)

lemma keys_API_HEALTH:
  "map route_no API_HEALTH =
     [8290]"
  "list_all entry_ok API_HEALTH"
  by (simp_all add: API_HEALTH_def route_no_def entry_ok_def words_ok_def AUTH_NAMES_def url_vars_def BODY_ONLY_def)

lemma keys_API_FIRST_RUN_GATE_POLICY:
  "map route_no API_FIRST_RUN_GATE_POLICY =
     [28020, 23755, 32923]"
  "list_all entry_ok API_FIRST_RUN_GATE_POLICY"
  by (simp_all add: API_FIRST_RUN_GATE_POLICY_def route_no_def entry_ok_def words_ok_def AUTH_NAMES_def url_vars_def BODY_ONLY_def)

lemma keys_API_LOGIN:
  "map route_no API_LOGIN =
     [32839, 99410, 33594]"
  "list_all entry_ok API_LOGIN"
  by (simp_all add: API_LOGIN_def route_no_def entry_ok_def words_ok_def AUTH_NAMES_def url_vars_def BODY_ONLY_def)

lemma keys_API_CURRENT_USER:
  "map route_no API_CURRENT_USER =
     [23525]"
  "list_all entry_ok API_CURRENT_USER"
  by (simp_all add: API_CURRENT_USER_def route_no_def entry_ok_def words_ok_def AUTH_NAMES_def url_vars_def BODY_ONLY_def)

lemma keys_API_TOTP_ENROL:
  "map route_no API_TOTP_ENROL =
     [98785, 99242, 99980]"
  "list_all entry_ok API_TOTP_ENROL"
  by (simp_all add: API_TOTP_ENROL_def route_no_def entry_ok_def words_ok_def AUTH_NAMES_def url_vars_def BODY_ONLY_def)

lemma keys_API_ACCOUNT_SELF_SERVICE:
  "map route_no API_ACCOUNT_SELF_SERVICE =
     [43855]"
  "list_all entry_ok API_ACCOUNT_SELF_SERVICE"
  by (simp_all add: API_ACCOUNT_SELF_SERVICE_def route_no_def entry_ok_def words_ok_def AUTH_NAMES_def url_vars_def BODY_ONLY_def)

lemma keys_API_SESSIONS:
  "map route_no API_SESSIONS =
     [10060, 59421, 49470, 143029, 33288, 135084]"
  "list_all entry_ok API_SESSIONS"
  by (simp_all add: API_SESSIONS_def route_no_def entry_ok_def words_ok_def AUTH_NAMES_def url_vars_def BODY_ONLY_def)

lemma keys_API_SESSIONS_2:
  "map route_no API_SESSIONS_2 =
     [26956, 168591]"
  "list_all entry_ok API_SESSIONS_2"
  by (simp_all add: API_SESSIONS_2_def route_no_def entry_ok_def words_ok_def AUTH_NAMES_def url_vars_def BODY_ONLY_def)

lemma keys_API_API_TOKENS:
  "map route_no API_API_TOKENS =
     [8360, 11618, 54321, 25256, 163491]"
  "list_all entry_ok API_API_TOKENS"
  by (simp_all add: API_API_TOKENS_def route_no_def entry_ok_def words_ok_def AUTH_NAMES_def url_vars_def BODY_ONLY_def)

lemma keys_API_TEAMS:
  "map route_no API_TEAMS =
     [7677, 10935, 40014, 52272, 72117, 304317, 479520]"
  "list_all entry_ok API_TEAMS"
  by (simp_all add: API_TEAMS_def route_no_def entry_ok_def words_ok_def AUTH_NAMES_def url_vars_def BODY_ONLY_def)

lemma keys_API_OPERATIONAL_ROLES:
  "map route_no API_OPERATIONAL_ROLES =
     [21870, 25128, 82593, 94851]"
  "list_all entry_ok API_OPERATIONAL_ROLES"
  by (simp_all add: API_OPERATIONAL_ROLES_def route_no_def entry_ok_def words_ok_def AUTH_NAMES_def url_vars_def BODY_ONLY_def)

lemma keys_API_USERS:
  "map route_no API_USERS =
     [7738, 10996, 23214, 40197, 52455]"
  "list_all entry_ok API_USERS"
  by (simp_all add: API_USERS_def route_no_def entry_ok_def words_ok_def AUTH_NAMES_def url_vars_def BODY_ONLY_def)

lemma keys_API_VALIDATED_TOOLS_REGISTRY:
  "map route_no API_VALIDATED_TOOLS_REGISTRY =
     [18453, 21711, 72342, 84600, 110147, 73645, 484104, 314299, 101206, 73705, 71262]"
  "list_all entry_ok API_VALIDATED_TOOLS_REGISTRY"
  by (simp_all add: API_VALIDATED_TOOLS_REGISTRY_def route_no_def entry_ok_def words_ok_def AUTH_NAMES_def url_vars_def BODY_ONLY_def)

lemma keys_API_INCIDENTS:
  "map route_no API_INCIDENTS =
     [10938, 32814, 102420, 108213, 14196, 49797, 100066, 1167987, 106367, 100703, 129377, 130026]"
  "list_all entry_ok API_INCIDENTS"
  by (simp_all add: API_INCIDENTS_def route_no_def entry_ok_def words_ok_def AUTH_NAMES_def url_vars_def BODY_ONLY_def)

lemma keys_API_CORRELATIONS:
  "map route_no API_CORRELATIONS =
     [307102, 44827, 47669, 55865]"
  "list_all entry_ok API_CORRELATIONS"
  by (simp_all add: API_CORRELATIONS_def route_no_def entry_ok_def words_ok_def AUTH_NAMES_def url_vars_def BODY_ONLY_def)

lemma keys_API_IOCS:
  "map route_no API_IOCS =
     [99526, 128848, 388100, 451425, 561747, 389244, 906500, 1170398, 5088021]"
  "list_all entry_ok API_IOCS"
  by (simp_all add: API_IOCS_def route_no_def entry_ok_def words_ok_def AUTH_NAMES_def url_vars_def BODY_ONLY_def)

lemma keys_API_THREAT_INTEL_FEEDS:
  "map route_no API_THREAT_INTEL_FEEDS =
     [43642, 161352, 53416, 181875, 218649, 481846, 163777, 43144, 45188, 55958]"
  "list_all entry_ok API_THREAT_INTEL_FEEDS"
  by (simp_all add: API_THREAT_INTEL_FEEDS_def route_no_def entry_ok_def words_ok_def AUTH_NAMES_def url_vars_def BODY_ONLY_def)

lemma keys_API_ENTITIES:
  "map route_no API_ENTITIES =
     [102368]"
  "list_all entry_ok API_ENTITIES"
  by (simp_all add: API_ENTITIES_def route_no_def entry_ok_def words_ok_def AUTH_NAMES_def url_vars_def BODY_ONLY_def)

lemma keys_API_ENTITIES_2:
  "map route_no API_ENTITIES_2 =
     [131690, 459951, 570273, 112921, 142243, 601932]"
  "list_all entry_ok API_ENTITIES_2"
  by (simp_all add: API_ENTITIES_2_def route_no_def entry_ok_def words_ok_def AUTH_NAMES_def url_vars_def BODY_ONLY_def)

lemma keys_API_ENTITY_ASSET_LOG:
  "map route_no API_ENTITY_ASSET_LOG =
     [925809, 1189707, 5145948]"
  "list_all entry_ok API_ENTITY_ASSET_LOG"
  by (simp_all add: API_ENTITY_ASSET_LOG_def route_no_def entry_ok_def words_ok_def AUTH_NAMES_def url_vars_def BODY_ONLY_def)

lemma keys_API_ENTITY_FILES:
  "map route_no API_ENTITY_FILES =
     [922927, 5137302]"
  "list_all entry_ok API_ENTITY_FILES"
  by (simp_all add: API_ENTITY_FILES_def route_no_def entry_ok_def words_ok_def AUTH_NAMES_def url_vars_def BODY_ONLY_def)

lemma keys_API_INCIDENT_FILE_STORE:
  "map route_no API_INCIDENT_FILE_STORE =
     [100057, 453018, 563340, 1178497, 912858, 1166062, 5075013]"
  "list_all entry_ok API_INCIDENT_FILE_STORE"
  by (simp_all add: API_INCIDENT_FILE_STORE_def route_no_def entry_ok_def words_ok_def AUTH_NAMES_def url_vars_def BODY_ONLY_def)

lemma keys_API_EVIDENCE:
  "map route_no API_EVIDENCE =
     [102160, 306480, 459327]"
  "list_all entry_ok API_EVIDENCE"
  by (simp_all add: API_EVIDENCE_def route_no_def entry_ok_def words_ok_def AUTH_NAMES_def url_vars_def BODY_ONLY_def)

lemma keys_API_COLLECT:
  "map route_no API_COLLECT =
     [567492, 398251, 318997, 1187219, 3563909, 3564580, 1186298, 1185656, 1186393]"
  "list_all entry_ok API_COLLECT"
  by (simp_all add: API_COLLECT_def route_no_def entry_ok_def words_ok_def AUTH_NAMES_def url_vars_def BODY_ONLY_def)

lemma keys_API_U8:
  "map route_no API_U8 =
     [1191657]"
  "list_all entry_ok API_U8"
  by (simp_all add: API_U8_def route_no_def entry_ok_def words_ok_def AUTH_NAMES_def url_vars_def BODY_ONLY_def)

lemma keys_API_U8_2:
  "map route_no API_U8_2 =
     [100012, 300036, 906754, 912676, 913988, 1171163, 1171957, 10543620, 1170906, 1173237, 307684]"
  "list_all entry_ok API_U8_2"
  by (simp_all add: API_U8_2_def route_no_def entry_ok_def words_ok_def AUTH_NAMES_def url_vars_def BODY_ONLY_def)

lemma keys_API_G3:
  "map route_no API_G3 =
     [1395661]"
  "list_all entry_ok API_G3"
  by (simp_all add: API_G3_def route_no_def entry_ok_def words_ok_def AUTH_NAMES_def url_vars_def BODY_ONLY_def)

lemma keys_API_WIZARD_A:
  "map route_no API_WIZARD_A =
     [1184378, 926127, 923342]"
  "list_all entry_ok API_WIZARD_A"
  by (simp_all add: API_WIZARD_A_def route_no_def entry_ok_def words_ok_def AUTH_NAMES_def url_vars_def BODY_ONLY_def)

lemma keys_API_WIZARD_A_2:
  "map route_no API_WIZARD_A_2 =
     [3564671]"
  "list_all entry_ok API_WIZARD_A_2"
  by (simp_all add: API_WIZARD_A_2_def route_no_def entry_ok_def words_ok_def AUTH_NAMES_def url_vars_def BODY_ONLY_def)

lemma keys_API_WIZARD_B:
  "map route_no API_WIZARD_B =
     [1203350]"
  "list_all entry_ok API_WIZARD_B"
  by (simp_all add: API_WIZARD_B_def route_no_def entry_ok_def words_ok_def AUTH_NAMES_def url_vars_def BODY_ONLY_def)

lemma keys_API_SERVER_SIDE_PROVENANCE_SCORE:
  "map route_no API_SERVER_SIDE_PROVENANCE_SCORE =
     [925210, 922584]"
  "list_all entry_ok API_SERVER_SIDE_PROVENANCE_SCORE"
  by (simp_all add: API_SERVER_SIDE_PROVENANCE_SCORE_def route_no_def entry_ok_def words_ok_def AUTH_NAMES_def url_vars_def BODY_ONLY_def)

lemma keys_API_WORKING_COPY_LEDGER:
  "map route_no API_WORKING_COPY_LEDGER =
     [930233, 1191400, 1194131, 954734, 313199, 1205813]"
  "list_all entry_ok API_WORKING_COPY_LEDGER"
  by (simp_all add: API_WORKING_COPY_LEDGER_def route_no_def entry_ok_def words_ok_def AUTH_NAMES_def url_vars_def BODY_ONLY_def)

lemma keys_API_INCIDENT_AUDIT_LOG:
  "map route_no API_INCIDENT_AUDIT_LOG =
     [102914]"
  "list_all entry_ok API_INCIDENT_AUDIT_LOG"
  by (simp_all add: API_INCIDENT_AUDIT_LOG_def route_no_def entry_ok_def words_ok_def AUTH_NAMES_def url_vars_def BODY_ONLY_def)

lemma keys_API_GLOBAL_AUDIT_LOG:
  "map route_no API_GLOBAL_AUDIT_LOG =
     [27425]"
  "list_all entry_ok API_GLOBAL_AUDIT_LOG"
  by (simp_all add: API_GLOBAL_AUDIT_LOG_def route_no_def entry_ok_def words_ok_def AUTH_NAMES_def url_vars_def BODY_ONLY_def)

lemma keys_API_SIGNED_AUDIT_LOG_EXPORTS:
  "map route_no API_SIGNED_AUDIT_LOG_EXPORTS =
     [114789, 85467, 399900, 311934]"
  "list_all entry_ok API_SIGNED_AUDIT_LOG_EXPORTS"
  by (simp_all add: API_SIGNED_AUDIT_LOG_EXPORTS_def route_no_def entry_ok_def words_ok_def AUTH_NAMES_def url_vars_def BODY_ONLY_def)

lemma keys_API_ED25519_PUBLIC_KEY_FINGERPRINT:
  "map route_no API_ED25519_PUBLIC_KEY_FINGERPRINT =
     [9140]"
  "list_all entry_ok API_ED25519_PUBLIC_KEY_FINGERPRINT"
  by (simp_all add: API_ED25519_PUBLIC_KEY_FINGERPRINT_def route_no_def entry_ok_def words_ok_def AUTH_NAMES_def url_vars_def BODY_ONLY_def)

lemma keys_API_ADMIN:
  "map route_no API_ADMIN =
     [26032, 108096]"
  "list_all entry_ok API_ADMIN"
  by (simp_all add: API_ADMIN_def route_no_def entry_ok_def words_ok_def AUTH_NAMES_def url_vars_def BODY_ONLY_def)

lemma keys_API_PLAYBOOK_TEMPLATES:
  "map route_no API_PLAYBOOK_TEMPLATES =
     [23999, 71997, 27257, 88980, 101238, 247622]"
  "list_all entry_ok API_PLAYBOOK_TEMPLATES"
  by (simp_all add: API_PLAYBOOK_TEMPLATES_def route_no_def entry_ok_def words_ok_def AUTH_NAMES_def url_vars_def BODY_ONLY_def)

lemma keys_API_PLAYBOOK_TASKS:
  "map route_no API_PLAYBOOK_TASKS =
     [308660, 396626, 1384521, 1715487, 402043]"
  "list_all entry_ok API_PLAYBOOK_TASKS"
  by (simp_all add: API_PLAYBOOK_TASKS_def route_no_def entry_ok_def words_ok_def AUTH_NAMES_def url_vars_def BODY_ONLY_def)

lemma keys_API_RESPOND:
  "map route_no API_RESPOND =
     [307481, 395447, 1380984, 3561363, 1711950]"
  "list_all entry_ok API_RESPOND"
  by (simp_all add: API_RESPOND_def route_no_def entry_ok_def words_ok_def AUTH_NAMES_def url_vars_def BODY_ONLY_def)

lemma keys_API_RESPOND_2:
  "map route_no API_RESPOND_2 =
     [309314, 397280, 1386483, 1717449]"
  "list_all entry_ok API_RESPOND_2"
  by (simp_all add: API_RESPOND_2_def route_no_def entry_ok_def words_ok_def AUTH_NAMES_def url_vars_def BODY_ONLY_def)

lemma keys_API_COMMS:
  "map route_no API_COMMS =
     [102423, 131745, 460116, 570438]"
  "list_all entry_ok API_COMMS"
  by (simp_all add: API_COMMS_def route_no_def entry_ok_def words_ok_def AUTH_NAMES_def url_vars_def BODY_ONLY_def)

lemma keys_API_LEGACY_SCRATCHPADS:
  "map route_no API_LEGACY_SCRATCHPADS =
     [100101, 904912]"
  "list_all entry_ok API_LEGACY_SCRATCHPADS"
  by (simp_all add: API_LEGACY_SCRATCHPADS_def route_no_def entry_ok_def words_ok_def AUTH_NAMES_def url_vars_def BODY_ONLY_def)

lemma keys_API_CASE_NOTES:
  "map route_no API_CASE_NOTES =
     [104133, 133455, 942184]"
  "list_all entry_ok API_CASE_NOTES"
  by (simp_all add: API_CASE_NOTES_def route_no_def entry_ok_def words_ok_def AUTH_NAMES_def url_vars_def BODY_ONLY_def)

lemma keys_API_RECOVERY_TRACKER:
  "map route_no API_RECOVERY_TRACKER =
     [102461, 460230]"
  "list_all entry_ok API_RECOVERY_TRACKER"
  by (simp_all add: API_RECOVERY_TRACKER_def route_no_def entry_ok_def words_ok_def AUTH_NAMES_def url_vars_def BODY_ONLY_def)

lemma keys_API_STAKEHOLDER_NOTIFICATION_TRACKER:
  "map route_no API_STAKEHOLDER_NOTIFICATION_TRACKER =
     [132645, 550782]"
  "list_all entry_ok API_STAKEHOLDER_NOTIFICATION_TRACKER"
  by (simp_all add: API_STAKEHOLDER_NOTIFICATION_TRACKER_def route_no_def entry_ok_def words_ok_def AUTH_NAMES_def url_vars_def BODY_ONLY_def)

lemma keys_API_COMMS_2:
  "map route_no API_COMMS_2 =
     [303121, 1179074, 461116]"
  "list_all entry_ok API_COMMS_2"
  by (simp_all add: API_COMMS_2_def route_no_def entry_ok_def words_ok_def AUTH_NAMES_def url_vars_def BODY_ONLY_def)

lemma keys_API_COMMS_3:
  "map route_no API_COMMS_3 =
     [297846, 385812, 1683045]"
  "list_all entry_ok API_COMMS_3"
  by (simp_all add: API_COMMS_3_def route_no_def entry_ok_def words_ok_def AUTH_NAMES_def url_vars_def BODY_ONLY_def)

lemma keys_API_STAKEHOLDER_CONTACTS:
  "map route_no API_STAKEHOLDER_CONTACTS =
     [106822, 136144, 473313, 583635, 409516]"
  "list_all entry_ok API_STAKEHOLDER_CONTACTS"
  by (simp_all add: API_STAKEHOLDER_CONTACTS_def route_no_def entry_ok_def words_ok_def AUTH_NAMES_def url_vars_def BODY_ONLY_def)

lemma keys_API_INCIDENT_ASSIGNMENTS:
  "map route_no API_INCIDENT_ASSIGNMENTS =
     [105695, 135017, 580254]"
  "list_all entry_ok API_INCIDENT_ASSIGNMENTS"
  by (simp_all add: API_INCIDENT_ASSIGNMENTS_def route_no_def entry_ok_def words_ok_def AUTH_NAMES_def url_vars_def BODY_ONLY_def)

lemma keys_API_TIMELINE:
  "map route_no API_TIMELINE =
     [102247]"
  "list_all entry_ok API_TIMELINE"
  by (simp_all add: API_TIMELINE_def route_no_def entry_ok_def words_ok_def AUTH_NAMES_def url_vars_def BODY_ONLY_def)

lemma keys_API_TIMELINE_2:
  "map route_no API_TIMELINE_2 =
     [131569, 459588, 569910, 402883, 396263]"
  "list_all entry_ok API_TIMELINE_2"
  by (simp_all add: API_TIMELINE_2_def route_no_def entry_ok_def words_ok_def AUTH_NAMES_def url_vars_def BODY_ONLY_def)

lemma keys_API_FORENSIC_TIMELINE_IMPORTS:
  "map route_no API_FORENSIC_TIMELINE_IMPORTS =
     [961431, 2884293, 5252814, 3694116, 11031028]"
  "list_all entry_ok API_FORENSIC_TIMELINE_IMPORTS"
  by (simp_all add: API_FORENSIC_TIMELINE_IMPORTS_def route_no_def entry_ok_def words_ok_def AUTH_NAMES_def url_vars_def BODY_ONLY_def)

lemma keys_API_MITRE_ATT_CK_COVERAGE:
  "map route_no API_MITRE_ATT_CK_COVERAGE =
     [303970, 26815]"
  "list_all entry_ok API_MITRE_ATT_CK_COVERAGE"
  by (simp_all add: API_MITRE_ATT_CK_COVERAGE_def route_no_def entry_ok_def words_ok_def AUTH_NAMES_def url_vars_def BODY_ONLY_def)

lemma keys_API_QUARANTINE_ARTIFACTS:
  "map route_no API_QUARANTINE_ARTIFACTS =
     [103283, 309849, 573018, 1197963]"
  "list_all entry_ok API_QUARANTINE_ARTIFACTS"
  by (simp_all add: API_QUARANTINE_ARTIFACTS_def route_no_def entry_ok_def words_ok_def AUTH_NAMES_def url_vars_def BODY_ONLY_def)

lemma keys_API_QUARANTINE_ARTIFACTS_2:
  "map route_no API_QUARANTINE_ARTIFACTS_2 =
     [3589587]"
  "list_all entry_ok API_QUARANTINE_ARTIFACTS_2"
  by (simp_all add: API_QUARANTINE_ARTIFACTS_2_def route_no_def entry_ok_def words_ok_def AUTH_NAMES_def url_vars_def BODY_ONLY_def)

lemma keys_API_FORENSIC_TIMELINE_IMPORT_FROM:
  "map route_no API_FORENSIC_TIMELINE_IMPORT_FROM =
     [3694545]"
  "list_all entry_ok API_FORENSIC_TIMELINE_IMPORT_FROM"
  by (simp_all add: API_FORENSIC_TIMELINE_IMPORT_FROM_def route_no_def entry_ok_def words_ok_def AUTH_NAMES_def url_vars_def BODY_ONLY_def)

lemma keys_API_COLLECTION_PACKAGES:
  "map route_no API_COLLECTION_PACKAGES =
     [320783, 105634, 134956, 580071, 122799]"
  "list_all entry_ok API_COLLECTION_PACKAGES"
  by (simp_all add: API_COLLECTION_PACKAGES_def route_no_def entry_ok_def words_ok_def AUTH_NAMES_def url_vars_def BODY_ONLY_def)

lemma keys_API_LOLBINS_TIMELINE_CORRELATION:
  "map route_no API_LOLBINS_TIMELINE_CORRELATION =
     [313278]"
  "list_all entry_ok API_LOLBINS_TIMELINE_CORRELATION"
  by (simp_all add: API_LOLBINS_TIMELINE_CORRELATION_def route_no_def entry_ok_def words_ok_def AUTH_NAMES_def url_vars_def BODY_ONLY_def)

lemma keys_API_IOC_ENRICHMENT:
  "map route_no API_IOC_ENRICHMENT =
     [391889, 1161834]"
  "list_all entry_ok API_IOC_ENRICHMENT"
  by (simp_all add: API_IOC_ENRICHMENT_def route_no_def entry_ok_def words_ok_def AUTH_NAMES_def url_vars_def BODY_ONLY_def)

lemma keys_API_PLATFORM_SETTINGS:
  "map route_no API_PLATFORM_SETTINGS =
     [33760, 104601, 189003, 37762, 54745, 49551, 66534]"
  "list_all entry_ok API_PLATFORM_SETTINGS"
  by (simp_all add: API_PLATFORM_SETTINGS_def route_no_def entry_ok_def words_ok_def AUTH_NAMES_def url_vars_def BODY_ONLY_def)

lemma keys_API_BROWSER_HISTORY:
  "map route_no API_BROWSER_HISTORY =
     [1233165, 404905]"
  "list_all entry_ok API_BROWSER_HISTORY"
  by (simp_all add: API_BROWSER_HISTORY_def route_no_def entry_ok_def words_ok_def AUTH_NAMES_def url_vars_def BODY_ONLY_def)

lemma keys_API_BROWSER_HISTORY_2:
  "map route_no API_BROWSER_HISTORY_2 =
     [946575, 2839725, 5208246, 3649548, 10897324, 104624, 577041, 1214745, 316235, 321926, 318711]"
  "list_all entry_ok API_BROWSER_HISTORY_2"
  by (simp_all add: API_BROWSER_HISTORY_2_def route_no_def entry_ok_def words_ok_def AUTH_NAMES_def url_vars_def BODY_ONLY_def)

lemma keys_API_OSINT_ENRICHMENT:
  "map route_no API_OSINT_ENRICHMENT =
     [26249, 35175]"
  "list_all entry_ok API_OSINT_ENRICHMENT"
  by (simp_all add: API_OSINT_ENRICHMENT_def route_no_def entry_ok_def words_ok_def AUTH_NAMES_def url_vars_def BODY_ONLY_def)

lemma keys_API_OSINT_SESSIONS:
  "map route_no API_OSINT_SESSIONS =
     [304357, 392323, 1371612, 1702578]"
  "list_all entry_ok API_OSINT_SESSIONS"
  by (simp_all add: API_OSINT_SESSIONS_def route_no_def entry_ok_def words_ok_def AUTH_NAMES_def url_vars_def BODY_ONLY_def)

lemma keys_API_LOLBINS_GTFOBINS_REFERENCE:
  "map route_no API_LOLBINS_GTFOBINS_REFERENCE =
     [29656, 38136, 29462, 32950]"
  "list_all entry_ok API_LOLBINS_GTFOBINS_REFERENCE"
  by (simp_all add: API_LOLBINS_GTFOBINS_REFERENCE_def route_no_def entry_ok_def words_ok_def AUTH_NAMES_def url_vars_def BODY_ONLY_def)

lemma keys_API_CUSTODY_EXPORTS:
  "map route_no API_CUSTODY_EXPORTS =
     [309672, 135063, 105741, 317223, 1215453]"
  "list_all entry_ok API_CUSTODY_EXPORTS"
  by (simp_all add: API_CUSTODY_EXPORTS_def route_no_def entry_ok_def words_ok_def AUTH_NAMES_def url_vars_def BODY_ONLY_def)

lemma keys_API_PUBLIC_RECIPIENT_ACK_PAGE:
  "map route_no API_PUBLIC_RECIPIENT_ACK_PAGE =
     [47805, 57579]"
  "list_all entry_ok API_PUBLIC_RECIPIENT_ACK_PAGE"
  by (simp_all add: API_PUBLIC_RECIPIENT_ACK_PAGE_def route_no_def entry_ok_def words_ok_def AUTH_NAMES_def url_vars_def BODY_ONLY_def)

lemma keys_API_PCAP_ANALYSIS:
  "map route_no API_PCAP_ANALYSIS =
     [99491, 298473, 561642, 1166095, 900011, 1186968, 1162384]"
  "list_all entry_ok API_PCAP_ANALYSIS"
  by (simp_all add: API_PCAP_ANALYSIS_def route_no_def entry_ok_def words_ok_def AUTH_NAMES_def url_vars_def BODY_ONLY_def)

lemma keys_API_STAKEHOLDER_MATRIX:
  "map route_no API_STAKEHOLDER_MATRIX =
     [23881, 27139, 88626, 100884]"
  "list_all entry_ok API_STAKEHOLDER_MATRIX"
  by (simp_all add: API_STAKEHOLDER_MATRIX_def route_no_def entry_ok_def words_ok_def AUTH_NAMES_def url_vars_def BODY_ONLY_def)

lemma keys_API_POST_INCIDENT:
  "map route_no API_POST_INCIDENT =
     [328546, 416512, 1775145, 1444179, 1444179, 4333584, 326793, 479640]"
  "list_all entry_ok API_POST_INCIDENT"
  by (simp_all add: API_POST_INCIDENT_def route_no_def entry_ok_def words_ok_def AUTH_NAMES_def url_vars_def BODY_ONLY_def)

lemma keys_API_POST_INCIDENT_2:
  "map route_no API_POST_INCIDENT_2 =
     [333376, 28926]"
  "list_all entry_ok API_POST_INCIDENT_2"
  by (simp_all add: API_POST_INCIDENT_2_def route_no_def entry_ok_def words_ok_def AUTH_NAMES_def url_vars_def BODY_ONLY_def)

lemma keys_API_YARA_RULE_LIBRARY:
  "map route_no API_YARA_RULE_LIBRARY =
     [7102, 10360, 38289, 50547]"
  "list_all entry_ok API_YARA_RULE_LIBRARY"
  by (simp_all add: API_YARA_RULE_LIBRARY_def route_no_def entry_ok_def words_ok_def AUTH_NAMES_def url_vars_def BODY_ONLY_def)

lemma keys_API_YARA_PER_INCIDENT_SCAN:
  "map route_no API_YARA_PER_INCIDENT_SCAN =
     [387471, 301439, 564608, 3511488, 3506687]"
  "list_all entry_ok API_YARA_PER_INCIDENT_SCAN"
  by (simp_all add: API_YARA_PER_INCIDENT_SCAN_def route_no_def entry_ok_def words_ok_def AUTH_NAMES_def url_vars_def BODY_ONLY_def)

lemma keys_API_DETECTION_QUERIES:
  "map route_no API_DETECTION_QUERIES =
     [104450]"
  "list_all entry_ok API_DETECTION_QUERIES"
  by (simp_all add: API_DETECTION_QUERIES_def route_no_def entry_ok_def words_ok_def AUTH_NAMES_def url_vars_def BODY_ONLY_def)

lemma keys_API_REPORTS:
  "map route_no API_REPORTS =
     [305857, 130931, 308036]"
  "list_all entry_ok API_REPORTS"
  by (simp_all add: API_REPORTS_def route_no_def entry_ok_def words_ok_def AUTH_NAMES_def url_vars_def BODY_ONLY_def)

lemma keys_API_DASHBOARD:
  "map route_no API_DASHBOARD =
     [35405, 36340, 41914, 33864, 36073, 39114, 35934]"
  "list_all entry_ok API_DASHBOARD"
  by (simp_all add: API_DASHBOARD_def route_no_def entry_ok_def words_ok_def AUTH_NAMES_def url_vars_def BODY_ONLY_def)

lemma keys_API_PORTFOLIO_METRICS:
  "map route_no API_PORTFOLIO_METRICS =
     [9096]"
  "list_all entry_ok API_PORTFOLIO_METRICS"
  by (simp_all add: API_PORTFOLIO_METRICS_def route_no_def entry_ok_def words_ok_def AUTH_NAMES_def url_vars_def BODY_ONLY_def)

lemma keys_API_ORGANISATION_READINESS:
  "map route_no API_ORGANISATION_READINESS =
     [10911, 47351, 200454]"
  "list_all entry_ok API_ORGANISATION_READINESS"
  by (simp_all add: API_ORGANISATION_READINESS_def route_no_def entry_ok_def words_ok_def AUTH_NAMES_def url_vars_def BODY_ONLY_def)

lemma keys_API_CONTACTS_DIRECTORY:
  "map route_no API_CONTACTS_DIRECTORY =
     [9983, 13241, 46932, 59190]"
  "list_all entry_ok API_CONTACTS_DIRECTORY"
  by (simp_all add: API_CONTACTS_DIRECTORY_def route_no_def entry_ok_def words_ok_def AUTH_NAMES_def url_vars_def BODY_ONLY_def)

lemma keys_API_LEGAL:
  "map route_no API_LEGAL =
     [304837, 304743, 1184042, 392709, 1372770, 1703736]"
  "list_all entry_ok API_LEGAL"
  by (simp_all add: API_LEGAL_def route_no_def entry_ok_def words_ok_def AUTH_NAMES_def url_vars_def BODY_ONLY_def)

lemma keys_API_COSTS_BUSINESS_IMPACT_ASSESSMENT:
  "map route_no API_COSTS_BUSINESS_IMPACT_ASSESSMENT =
     [110805, 161754, 100147, 303569, 129469, 453288, 563610]"
  "list_all entry_ok API_COSTS_BUSINESS_IMPACT_ASSESSMENT"
  by (simp_all add: API_COSTS_BUSINESS_IMPACT_ASSESSMENT_def route_no_def entry_ok_def words_ok_def AUTH_NAMES_def url_vars_def BODY_ONLY_def)

lemma keys_API_WAR_ROOM_CHAT:
  "map route_no API_WAR_ROOM_CHAT =
     [308457, 396423, 306842]"
  "list_all entry_ok API_WAR_ROOM_CHAT"
  by (simp_all add: API_WAR_ROOM_CHAT_def route_no_def entry_ok_def words_ok_def AUTH_NAMES_def url_vars_def BODY_ONLY_def)

lemma keys_API_NOTIFICATIONS:
  "map route_no API_NOTIFICATIONS =
     [15896, 195020, 60896]"
  "list_all entry_ok API_NOTIFICATIONS"
  by (simp_all add: API_NOTIFICATIONS_def route_no_def entry_ok_def words_ok_def AUTH_NAMES_def url_vars_def BODY_ONLY_def)

lemma keys_API_ANALYTICS:
  "map route_no API_ANALYTICS =
     [103345]"
  "list_all entry_ok API_ANALYTICS"
  by (simp_all add: API_ANALYTICS_def route_no_def entry_ok_def words_ok_def AUTH_NAMES_def url_vars_def BODY_ONLY_def)

lemma keys_API_STORAGE_ADMIN:
  "map route_no API_STORAGE_ADMIN =
     [25899]"
  "list_all entry_ok API_STORAGE_ADMIN"
  by (simp_all add: API_STORAGE_ADMIN_def route_no_def entry_ok_def words_ok_def AUTH_NAMES_def url_vars_def BODY_ONLY_def)

lemma keys_API_PRESENCE:
  "map route_no API_PRESENCE =
     [309734]"
  "list_all entry_ok API_PRESENCE"
  by (simp_all add: API_PRESENCE_def route_no_def entry_ok_def words_ok_def AUTH_NAMES_def url_vars_def BODY_ONLY_def)

lemma keys_API_ON_CALL_SCHEDULE:
  "map route_no API_ON_CALL_SCHEDULE =
     [8808, 29532, 12066, 43407, 55665]"
  "list_all entry_ok API_ON_CALL_SCHEDULE"
  by (simp_all add: API_ON_CALL_SCHEDULE_def route_no_def entry_ok_def words_ok_def AUTH_NAMES_def url_vars_def BODY_ONLY_def)

lemma keys_API_HANDOFFS:
  "map route_no API_HANDOFFS =
     [102271, 131593, 309793, 130831, 1385910, 32608]"
  "list_all entry_ok API_HANDOFFS"
  by (simp_all add: API_HANDOFFS_def route_no_def entry_ok_def words_ok_def AUTH_NAMES_def url_vars_def BODY_ONLY_def)

lemma keys_API_INTEGRATIONS:
  "map route_no API_INTEGRATIONS =
     [44884, 45991, 165101, 47676, 48783, 47361, 175216, 76602, 46062, 47169, 168635]"
  "list_all entry_ok API_INTEGRATIONS"
  by (simp_all add: API_INTEGRATIONS_def route_no_def entry_ok_def words_ok_def AUTH_NAMES_def url_vars_def BODY_ONLY_def)

lemma keys_API_THREAT_ACTORS:
  "map route_no API_THREAT_ACTORS =
     [15534, 46602, 18792, 63585, 75843, 148444, 57459, 53667]"
  "list_all entry_ok API_THREAT_ACTORS"
  by (simp_all add: API_THREAT_ACTORS_def route_no_def entry_ok_def words_ok_def AUTH_NAMES_def url_vars_def BODY_ONLY_def)

lemma keys_API_INCIDENT_ATTRIBUTIONS:
  "map route_no API_INCIDENT_ATTRIBUTIONS =
     [107080, 136402, 474087, 584409, 324317]"
  "list_all entry_ok API_INCIDENT_ATTRIBUTIONS"
  by (simp_all add: API_INCIDENT_ATTRIBUTIONS_def route_no_def entry_ok_def words_ok_def AUTH_NAMES_def url_vars_def BODY_ONLY_def)

lemma keys_API_GLOBAL_SEARCH:
  "map route_no API_GLOBAL_SEARCH =
     [8240]"
  "list_all entry_ok API_GLOBAL_SEARCH"
  by (simp_all add: API_GLOBAL_SEARCH_def route_no_def entry_ok_def words_ok_def AUTH_NAMES_def url_vars_def BODY_ONLY_def)

lemma keys_API_IR_ROSTER:
  "map route_no API_IR_ROSTER =
     [8391, 42156, 306088]"
  "list_all entry_ok API_IR_ROSTER"
  by (simp_all add: API_IR_ROSTER_def route_no_def entry_ok_def words_ok_def AUTH_NAMES_def url_vars_def BODY_ONLY_def)

lemmas keys_all =
  keys_API_HEALTH keys_API_FIRST_RUN_GATE_POLICY keys_API_LOGIN keys_API_CURRENT_USER
  keys_API_TOTP_ENROL keys_API_ACCOUNT_SELF_SERVICE keys_API_SESSIONS keys_API_SESSIONS_2
  keys_API_API_TOKENS keys_API_TEAMS keys_API_OPERATIONAL_ROLES keys_API_USERS
  keys_API_VALIDATED_TOOLS_REGISTRY keys_API_INCIDENTS keys_API_CORRELATIONS keys_API_IOCS
  keys_API_THREAT_INTEL_FEEDS keys_API_ENTITIES keys_API_ENTITIES_2 keys_API_ENTITY_ASSET_LOG
  keys_API_ENTITY_FILES keys_API_INCIDENT_FILE_STORE keys_API_EVIDENCE keys_API_COLLECT
  keys_API_U8 keys_API_U8_2 keys_API_G3 keys_API_WIZARD_A
  keys_API_WIZARD_A_2 keys_API_WIZARD_B keys_API_SERVER_SIDE_PROVENANCE_SCORE keys_API_WORKING_COPY_LEDGER
  keys_API_INCIDENT_AUDIT_LOG keys_API_GLOBAL_AUDIT_LOG keys_API_SIGNED_AUDIT_LOG_EXPORTS keys_API_ED25519_PUBLIC_KEY_FINGERPRINT
  keys_API_ADMIN keys_API_PLAYBOOK_TEMPLATES keys_API_PLAYBOOK_TASKS keys_API_RESPOND
  keys_API_RESPOND_2 keys_API_COMMS keys_API_LEGACY_SCRATCHPADS keys_API_CASE_NOTES
  keys_API_RECOVERY_TRACKER keys_API_STAKEHOLDER_NOTIFICATION_TRACKER keys_API_COMMS_2 keys_API_COMMS_3
  keys_API_STAKEHOLDER_CONTACTS keys_API_INCIDENT_ASSIGNMENTS keys_API_TIMELINE keys_API_TIMELINE_2
  keys_API_FORENSIC_TIMELINE_IMPORTS keys_API_MITRE_ATT_CK_COVERAGE keys_API_QUARANTINE_ARTIFACTS keys_API_QUARANTINE_ARTIFACTS_2
  keys_API_FORENSIC_TIMELINE_IMPORT_FROM keys_API_COLLECTION_PACKAGES keys_API_LOLBINS_TIMELINE_CORRELATION keys_API_IOC_ENRICHMENT
  keys_API_PLATFORM_SETTINGS keys_API_BROWSER_HISTORY keys_API_BROWSER_HISTORY_2 keys_API_OSINT_ENRICHMENT
  keys_API_OSINT_SESSIONS keys_API_LOLBINS_GTFOBINS_REFERENCE keys_API_CUSTODY_EXPORTS keys_API_PUBLIC_RECIPIENT_ACK_PAGE
  keys_API_PCAP_ANALYSIS keys_API_STAKEHOLDER_MATRIX keys_API_POST_INCIDENT keys_API_POST_INCIDENT_2
  keys_API_YARA_RULE_LIBRARY keys_API_YARA_PER_INCIDENT_SCAN keys_API_DETECTION_QUERIES keys_API_REPORTS
  keys_API_DASHBOARD keys_API_PORTFOLIO_METRICS keys_API_ORGANISATION_READINESS keys_API_CONTACTS_DIRECTORY
  keys_API_LEGAL keys_API_COSTS_BUSINESS_IMPACT_ASSESSMENT keys_API_WAR_ROOM_CHAT keys_API_NOTIFICATIONS
  keys_API_ANALYTICS keys_API_STORAGE_ADMIN keys_API_PRESENCE keys_API_ON_CALL_SCHEDULE
  keys_API_HANDOFFS keys_API_INTEGRATIONS keys_API_THREAT_ACTORS keys_API_INCIDENT_ATTRIBUTIONS
  keys_API_GLOBAL_SEARCH keys_API_IR_ROSTER

end
