(* ===== verification/Api_Laws.thy ===== *)
theory Api_Laws
  imports Api_Keys
begin

text \<open>
  What every entry of the \<open>api\<close> tables promises: well-formed same-origin requests, one route per operation, query
  strings the server reads back as they were meant, and the session rule by entry.
\<close>

lemma api_entries_ok: "e \<in> set API \<Longrightarrow> entry_ok e"
proof -
  have "list_all entry_ok API"
    unfolding API_def by (simp add: keys_all)
  then show "e \<in> set API \<Longrightarrow> entry_ok e" by (simp add: list_all_iff)
qed

lemma entry_words: "entry_ok e \<Longrightarrow> words_ok e"
  by (simp add: entry_ok_def)

lemma entry_path:
  assumes "entry_ok e"
  obtains w ps where "ep_path e = W ''api'' # W w # ps" "(w = ''auth'') = (ep_name e \<in> set AUTH_NAMES)"
    "segment w" "w = ''auth'' \<longrightarrow> ps \<noteq> []"
proof (cases "ep_path e")
  case (Cons p qs)
  show thesis
  proof (cases qs)
    case (Cons q ps)
    obtain x y where "p = W x" "q = W y"
      using assms \<open>ep_path e = p # qs\<close> Cons by (cases p; cases q) (simp_all add: entry_ok_def)
    then show thesis
      using that [of y ps] assms \<open>ep_path e = p # qs\<close> Cons by (simp add: entry_ok_def words_ok_def)
  qed (use assms Cons in \<open>cases p, simp_all add: entry_ok_def\<close>)
qed (use assms in \<open>simp add: entry_ok_def\<close>)

lemma path_start: "ep_path e = W v # W w # ps \<Longrightarrow>
    endpoint_path e a = CHR ''/'' # v @ CHR ''/'' # w @ template (with_defaults (ep_defaults e) a) ps"
  by (simp add: endpoint_path_def)

text \<open>C15: every request of the tables goes to the API of the page's own origin: whatever the arguments, its URL starts
  with \<open>/api/\<close>; a GET carries no body (\<open>fetch\<close> would refuse it), and every other method is one the API has.\<close>

theorem api_requests_same_origin:
  assumes "e \<in> set API"
  shows "starts_with (rq_path (endpoint_request e a)) ''/api/''
    \<and> (if rq_method (endpoint_request e a) = ''GET'' then rq_body (endpoint_request e a) = None
       else rq_method (endpoint_request e a) \<in> {''POST'', ''PATCH'', ''PUT'', ''DELETE''})"
proof -
  have ok: "entry_ok e" using assms by (rule api_entries_ok)
  then obtain w ps where "ep_path e = W ''api'' # W w # ps" by (rule entry_path)
  then have "starts_with (rq_path (endpoint_request e a)) ''/api/''"
    by (simp add: rq_path_endpoint path_start starts_with_def)
  moreover have "ep_body e = NoBody \<Longrightarrow> rq_body (endpoint_request e a) = None"
    by (simp add: endpoint_request_def json_request_def Let_def)
  ultimately show ?thesis using ok by (auto simp: entry_ok_def split: if_splits)
qed

definition no_args :: args where
  "no_args = (\<lambda>_. JUndef)"

lemma health_in_API: "ep ''health'' ''GET'' [W ''api'', W ''health''] NoQuery NoBody [] \<in> set API"
  by (simp add: API_def API_HEALTH_def)

lemma api_requests_same_origin_witness:
  "starts_with (rq_path (endpoint_request (ep ''health'' ''GET'' [W ''api'', W ''health''] NoQuery NoBody []) no_args)) ''/api/''"
  using api_requests_same_origin [OF health_in_API] by blast

subsection \<open>The session rule by entry\<close>

lemma auth_prefix:
  assumes "segment w" "w = ''auth'' \<longrightarrow> ps \<noteq> []"
  shows "starts_with (CHR ''/'' # ''api'' @ CHR ''/'' # w @ template b ps @ query_text b q) ''/api/auth/'' \<longleftrightarrow> w = ''auth''"
proof
  assume "w = ''auth''"
  with assms(2) show "starts_with (CHR ''/'' # ''api'' @ CHR ''/'' # w @ template b ps @ query_text b q) ''/api/auth/''"
    by (cases ps) (simp_all add: starts_with_def)
next
  let ?t = "template b ps @ query_text b q"
  have slash: "CHR ''/'' \<notin> set w" using assms(1) by (auto simp: segment_def list_all_iff)
  have t: "?t = [] \<or> hd ?t = CHR ''/'' \<or> hd ?t = CHR ''?''"
    by (cases ps; cases q) (simp_all add: or_nothing_def Let_def)
  assume "starts_with (CHR ''/'' # ''api'' @ CHR ''/'' # w @ ?t) ''/api/auth/''"
  then obtain r where r: "w @ ?t = ''auth/'' @ r" by (auto simp: starts_with_def prefix_def)
  have "takeWhile (\<lambda>c. c \<noteq> CHR ''/'') (w @ ?t) = w @ takeWhile (\<lambda>c. c \<noteq> CHR ''/'') ?t"
    by (rule takeWhile_append2) (use slash in auto)
  moreover have "takeWhile (\<lambda>c. c \<noteq> CHR ''/'') (w @ ?t) = ''auth''" unfolding r by simp
  ultimately have e: "''auth'' = w @ takeWhile (\<lambda>c. c \<noteq> CHR ''/'') ?t" by simp
  have "CHR ''?'' \<notin> set (takeWhile (\<lambda>c. c \<noteq> CHR ''/'') ?t)"
  proof
    assume "CHR ''?'' \<in> set (takeWhile (\<lambda>c. c \<noteq> CHR ''/'') ?t)"
    then have "CHR ''?'' \<in> set ''auth''" unfolding e by simp
    then show False by simp
  qed
  then have "takeWhile (\<lambda>c. c \<noteq> CHR ''/'') ?t = []" using t by (cases "?t") auto
  with e show "w = ''auth''" by simp
qed

text \<open>A 401 opens the sign-in dialog for every entry of the API, except exactly the ten under \<open>/api/auth/\<close>, whatever
  arguments it is called with: no argument can move a request in or out of the exempt group.\<close>

theorem session_rule_by_endpoint:
  assumes "e \<in> set API"
  shows "snd (call e a (Some ans)) \<longleftrightarrow> an_status ans = 401 \<and> ep_name e \<notin> set AUTH_NAMES"
proof -
  obtain w ps where w: "ep_path e = W ''api'' # W w # ps" "(w = ''auth'') = (ep_name e \<in> set AUTH_NAMES)"
    "segment w" "w = ''auth'' \<longrightarrow> ps \<noteq> []"
    using api_entries_ok [OF assms] by (rule entry_path)
  have "starts_with (rq_path (endpoint_request e a)) ''/api/auth/'' \<longleftrightarrow> w = ''auth''"
    using auth_prefix [OF w(3,4)] by (simp add: rq_path_endpoint path_start [OF w(1)])
  then show ?thesis using w(2) by (auto simp: call_def request_def Let_def an_ok_def)
qed

lemma session_rule_by_endpoint_witness:
  "snd (call (ep ''health'' ''GET'' [W ''api'', W ''health''] NoQuery NoBody []) no_args
     (Some \<lparr>an_status = 401, an_body = EmptyText, an_retry_after = 0\<rparr>))"
  using session_rule_by_endpoint [OF health_in_API] by (simp add: AUTH_NAMES_def)

subsection \<open>Routes\<close>

definition toggle_item :: endpoint where
  "toggle_item = ep ''toggleClosureItem'' ''PATCH'' [W ''api'', W ''incidents'', V ''incidentId'', W ''post-incident'',
     W ''checklist'', V ''itemId''] NoQuery (Fields [(''checked'', X ''checked'')]) []"

definition na_item :: endpoint where
  "na_item = ep ''setClosureItemNa'' ''PATCH'' [W ''api'', W ''incidents'', V ''incidentId'', W ''post-incident'',
     W ''checklist'', V ''itemId''] NoQuery (Whole ''payload'') []"

lemma item_no: "route_no toggle_item = 1444179" "route_no na_item = 1444179"
  by (simp_all add: toggle_item_def na_item_def route_no_def)

lemma routes_distinct: "distinct (remove1 1444179 (map route_no API))"
  unfolding API_def by (simp add: keys_all)

lemma shared_route: "length (filter (\<lambda>e. route_no e = 1444179) API) = 2"
proof -
  have "length (filter (\<lambda>x. x = 1444179) (map route_no API)) = 2"
    unfolding API_def by (simp add: keys_all)
  then show ?thesis by (simp add: filter_map comp_def)
qed

lemma items_in_API: "toggle_item \<in> set API" "na_item \<in> set API"
  by (simp_all add: API_def API_POST_INCIDENT_def toggle_item_def na_item_def)

lemma set_two: "length xs = 2 \<Longrightarrow> t \<in> set xs \<Longrightarrow> u \<in> set xs \<Longrightarrow> t \<noteq> u \<Longrightarrow> set xs = {t, u}"
  by (auto simp: numeral_2_eq_2 length_Suc_conv)

lemma distinct_map_remove1: "distinct (remove1 k (map f xs)) \<Longrightarrow> distinct (map f (filter (\<lambda>x. f x \<noteq> k) xs))"
proof -
  have "filter (\<lambda>y. y \<noteq> k) (remove1 k ys) = filter (\<lambda>y. y \<noteq> k) ys" for ys by (induction ys) auto
  moreover have "map f (filter (\<lambda>x. f x \<noteq> k) xs) = filter (\<lambda>y. y \<noteq> k) (map f xs)" by (simp add: filter_map comp_def)
  ultimately show "distinct (remove1 k (map f xs)) \<Longrightarrow> distinct (map f (filter (\<lambda>x. f x \<noteq> k) xs))"
    by (metis distinct_filter)
qed

lemma same_route_no:
  assumes "e \<in> set API" "e' \<in> set API" "route_no e = route_no e'"
  shows "e = e' \<or> {e, e'} \<subseteq> {toggle_item, na_item}"
proof (cases "route_no e = 1444179")
  case True
  have "toggle_item \<noteq> na_item" by (simp add: toggle_item_def na_item_def ep_def)
  then have "set (filter (\<lambda>e. route_no e = 1444179) API) = {toggle_item, na_item}"
    using shared_route items_in_API item_no by (intro set_two) simp_all
  then show ?thesis using True assms by auto
next
  case False
  have "inj_on route_no (set (filter (\<lambda>x. route_no x \<noteq> 1444179) API))"
    using distinct_map_remove1 [OF routes_distinct] by (simp add: distinct_map)
  then show ?thesis using assms False by (auto dest: inj_onD)
qed


text \<open>The UUIDs the server issues are identifiers in this sense: they are longer than every word of a route.\<close>

definition is_uuid :: "string \<Rightarrow> bool" where
  "is_uuid s \<longleftrightarrow> length s = 36 \<and> list_all (\<lambda>c. is_hex c \<or> c = CHR ''-'') s"

lemma words_short: "w \<in> set API_WORDS \<Longrightarrow> length w < 36"
proof -
  assume "w \<in> set API_WORDS"
  then obtain e where e: "e \<in> set API" "Some w \<in> set (shape e)" by (auto simp: API_WORDS_def split: option.splits)
  then obtain p where p: "p \<in> set (ep_path e)" "piece_shape p = Some w" by (force simp: shape_def)
  from p(2) have "p = W w" by (cases p) simp_all
  then show ?thesis
    using p(1) entry_words [OF api_entries_ok [OF e(1)]] by (auto simp: words_ok_def list_all_iff)
qed

lemma uuid_id_value: "is_uuid s \<Longrightarrow> id_value s"
  using words_short [of s] by (auto simp: is_uuid_def id_value_def segment_def list_all_iff is_hex_def is_digit_def)

definition two_ids :: args where
  "two_ids x = (if x = ''incidentId'' then JStr ''0f8fad5b-d9cb-469f-a165-70867728950e''
                else JStr ''7c9e6679-7425-40de-944b-e07fc1f90ae7'')"

lemma two_ids_ok: "holes na_item two_ids = [''0f8fad5b-d9cb-469f-a165-70867728950e'', ''7c9e6679-7425-40de-944b-e07fc1f90ae7'']"
  "with_ids na_item two_ids" "with_ids toggle_item two_ids"
proof -
  have "is_uuid ''0f8fad5b-d9cb-469f-a165-70867728950e''" "is_uuid ''7c9e6679-7425-40de-944b-e07fc1f90ae7''"
    by (simp_all add: is_uuid_def is_hex_def is_digit_def)
  then have "id_value ''0f8fad5b-d9cb-469f-a165-70867728950e''" "id_value ''7c9e6679-7425-40de-944b-e07fc1f90ae7''"
    by (simp_all only: uuid_id_value)
  then show "holes na_item two_ids = [''0f8fad5b-d9cb-469f-a165-70867728950e'', ''7c9e6679-7425-40de-944b-e07fc1f90ae7'']"
    "with_ids na_item two_ids" "with_ids toggle_item two_ids"
    by (simp_all add: holes_def na_item_def toggle_item_def with_defaults_def two_ids_def with_ids_def)
qed


subsection \<open>Query strings\<close>

fun by_search_params :: "query_string \<Rightarrow> bool" where
  "by_search_params (NonEmpty _) = True"
| "by_search_params (Truthy _) = True"
| "by_search_params (All _) = True"
| "by_search_params (Picks _) = True"
| "by_search_params (PicksAfter _ _) = True"
| "by_search_params _ = False"

definition url_query :: "string \<Rightarrow> string" where
  "url_query u = drop 1 (dropWhile (\<lambda>c. c \<noteq> CHR ''?'') u)"

lemma query_text_params: "by_search_params q \<Longrightarrow> query_text a q = or_nothing (search_params (query_params a q))"
  by (cases q) simp_all


definition list_tools :: endpoint where
  "list_tools = ep ''listValidatedTools'' ''GET'' [W ''api'', W ''validated-tools''] (NonEmpty ''params'') NoBody []"

lemma list_tools_in_API: "list_tools \<in> set API"
  by (simp add: API_def API_VALIDATED_TOOLS_REGISTRY_def list_tools_def)


subsection \<open>What stays out of the URL\<close>

lemma piece_value_cong: "\<forall>x \<in> set (piece_vars p). a x = b x \<Longrightarrow> piece_value a p = piece_value b p"
  by (cases p) simp_all

lemma operand_value_cong: "\<forall>x \<in> set (operand_vars v). a x = b x \<Longrightarrow> operand_value a v = operand_value b v"
  by (cases v) simp_all

lemma picked_cong: "\<forall>x \<in> set (concat (map (\<lambda>(k, v). operand_vars v) ks)). a x = b x \<Longrightarrow> picked a ks = picked b ks"
  by (auto simp: picked_def intro!: operand_value_cong)

lemma template_cong: "\<forall>x \<in> set (concat (map piece_vars ps)). a x = b x \<Longrightarrow> template a ps = template b ps"
  by (induction ps) (simp_all add: piece_value_cong)

lemma query_text_cong: "\<forall>x \<in> set (query_vars q). a x = b x \<Longrightarrow> query_text a q = query_text b q"
proof (cases q)
  case (PicksAfter k ks)
  moreover obtain n v where "k = (n, v)" by (cases k)
  moreover assume "\<forall>x \<in> set (query_vars q). a x = b x"
  ultimately show ?thesis
    using operand_value_cong [of v a b] picked_cong [of ks a b] by simp
next
  case (Literal ks)
  assume "\<forall>x \<in> set (query_vars q). a x = b x"
  then have "map (\<lambda>(k, p). k @ ''='' @ piece_value a p) ks = map (\<lambda>(k, p). k @ ''='' @ piece_value b p) ks"
    using Literal by (auto intro!: piece_value_cong)
  then show ?thesis unfolding Literal query_text.simps by (simp only:)
next
  case (Picks ks)
  assume "\<forall>x \<in> set (query_vars q). a x = b x"
  then have "picked a ks = picked b ks" using Picks by (intro picked_cong) simp
  then show ?thesis using Picks by simp
next
  case (IfE k v)
  assume "\<forall>x \<in> set (query_vars q). a x = b x"
  then have "operand_value a v = operand_value b v" using IfE by (intro operand_value_cong) simp
  then show ?thesis using IfE by (simp only: query_text.simps)
qed simp_all

text \<open>What is typed as a payload, a message, a reason, a code or a key value never appears in a URL (which lands in
  access logs): the URL of every entry is the same whatever those parameters are.\<close>

theorem typed_text_not_in_url:
  assumes "e \<in> set API" "\<And>x. x \<notin> {''payload'', ''body'', ''reason'', ''code'', ''value''} \<Longrightarrow> a x = b x"
  shows "rq_path (endpoint_request e a) = rq_path (endpoint_request e b)"
proof -
  have "\<forall>x \<in> set (url_vars e). x \<notin> set BODY_ONLY"
    using api_entries_ok [OF assms(1)] by (simp add: entry_ok_def list_all_iff)
  then have "\<forall>x \<in> set (url_vars e). with_defaults (ep_defaults e) a x = with_defaults (ep_defaults e) b x"
    using assms(2) by (auto simp: with_defaults_def BODY_ONLY_def)
  then have "template (with_defaults (ep_defaults e) a) (ep_path e) = template (with_defaults (ep_defaults e) b) (ep_path e)"
    "query_text (with_defaults (ep_defaults e) a) (ep_query e) = query_text (with_defaults (ep_defaults e) b) (ep_query e)"
    by (auto simp: url_vars_def intro!: template_cong query_text_cong)
  then show ?thesis by (simp add: rq_path_endpoint endpoint_path_def)
qed

lemma typed_text_not_in_url_witness:
  "rq_path (endpoint_request list_tools no_args) = rq_path (endpoint_request list_tools (no_args(''reason'' := JStr ''x'')))"
  by (rule typed_text_not_in_url [OF list_tools_in_API]) (simp add: no_args_def)

end
