(* ===== verification/Api_Pages.thy ===== *)
theory Api_Pages
  imports Transport
begin

text \<open>
  The paging loops of \<^verbatim>\<open>frontend/src/api/client.js\<close>: \<open>listAllPages\<close> (bounded, abortable) and
  \<open>listAllEntities\<close> (unbounded). The list endpoint is a parameter: a function of the state of the world
  and the cursor, which answers with a page or fails, and moves the world on.
\<close>

subsection \<open>Pages and the map by id\<close>

record 'i page =
  pg_items :: "'i list"
  pg_next :: "string option"

type_synonym ('s, 'i) list_fn = "'s \<Rightarrow> string option \<Rightarrow> (api_error + 'i page) \<times> 's"

definition set_items :: "('i \<Rightarrow> 'k) \<Rightarrow> ('k \<times> 'i) list \<Rightarrow> 'i list \<Rightarrow> ('k \<times> 'i) list" where
  "set_items key m xs = foldl (\<lambda>m x. map_set m (key x) x) m xs"

definition abort_error :: api_error where
  "abort_error = (js_error ''This operation was aborted'')\<lparr>ae_name := ''AbortError''\<rparr>"

subsection \<open>\<open>listAllPages\<close>\<close>

text \<open>\<open>left\<close> is \<open>maxPages - pages\<close>: the pages still allowed. The result is the items and \<open>truncated\<close>.\<close>

function pages_loop :: "('s, 'i) list_fn \<Rightarrow> ('s \<Rightarrow> bool) \<Rightarrow> ('i \<Rightarrow> 'k) \<Rightarrow> nat \<Rightarrow> string option \<Rightarrow> ('k \<times> 'i) list \<Rightarrow> 's
    \<Rightarrow> api_error + ('i list \<times> bool)" where
  "pages_loop listFn aborted key left cursor byId s =
     (if aborted s then Inl abort_error
      else case listFn s cursor of
          (Inl e, _) \<Rightarrow> Inl e
        | (Inr res, s') \<Rightarrow>
            if aborted s' then Inl abort_error
            else let byId' = set_items key byId (pg_items res) in
              if str_truthy (pg_next res) \<and> left > 1
              then pages_loop listFn aborted key (left - 1) (pg_next res) byId' s'
              else Inr (map snd byId', str_truthy (pg_next res)))"
  by pat_completeness auto

termination
  by (relation "measure (\<lambda>(_, _, _, left, _, _, _). left)") auto

definition listAllPages :: "('s, 'i) list_fn \<Rightarrow> ('s \<Rightarrow> bool) \<Rightarrow> ('i \<Rightarrow> 'k) \<Rightarrow> nat \<Rightarrow> 's \<Rightarrow> api_error + ('i list \<times> bool)" where
  "listAllPages listFn aborted key maxPages s = pages_loop listFn aborted key maxPages None [] s"

subsection \<open>\<open>listAllEntities\<close>\<close>

text \<open>No bound on the pages: \<open>None\<close> is a call that never returns.\<close>

partial_function (option) entities_loop :: "('s, 'i) list_fn \<Rightarrow> ('i \<Rightarrow> 'k) \<Rightarrow> string option \<Rightarrow> ('k \<times> 'i) list \<Rightarrow> 's
    \<Rightarrow> (api_error + 'i list) option" where
  "entities_loop listFn key cursor byId s =
     (case listFn s cursor of
        (Inl e, _) \<Rightarrow> Some (Inl e)
      | (Inr res, s') \<Rightarrow>
          (let byId' = set_items key byId (pg_items res) in
           if str_truthy (pg_next res) then entities_loop listFn key (pg_next res) byId' s'
           else Some (Inr (map snd byId'))))"

definition listAllEntities :: "('s, 'i) list_fn \<Rightarrow> ('i \<Rightarrow> 'k) \<Rightarrow> 's \<Rightarrow> (api_error + 'i list) option" where
  "listAllEntities listFn key s = entities_loop listFn key None [] s"

subsection \<open>What was fetched\<close>

text \<open>\<open>fetched fn c s pgs c' s'\<close>: from cursor \<open>c\<close> the pages \<open>pgs\<close> were fetched one after another, each with the cursor of
  the page before; the last page's cursor is \<open>c'\<close>.\<close>

inductive fetched :: "('s, 'i) list_fn \<Rightarrow> string option \<Rightarrow> 's \<Rightarrow> 'i page list \<Rightarrow> string option \<Rightarrow> 's \<Rightarrow> bool" for fn where
  one: "fn s c = (Inr pg, s') \<Longrightarrow> fetched fn c s [pg] (pg_next pg) s'"
| more: "fn s c = (Inr pg, s') \<Longrightarrow> str_truthy (pg_next pg) \<Longrightarrow> fetched fn (pg_next pg) s' pgs c' s'' \<Longrightarrow>
    fetched fn c s (pg # pgs) c' s''"

text \<open>The reference result: every id served, in the order of its first appearance, in the version served last.\<close>

fun first_keys :: "'k list \<Rightarrow> 'k list" where
  "first_keys [] = []"
| "first_keys (k # ks) = k # filter (\<lambda>x. x \<noteq> k) (first_keys ks)"

definition last_version :: "('i \<Rightarrow> 'k) \<Rightarrow> 'i list \<Rightarrow> 'k \<Rightarrow> 'i" where
  "last_version key xs k = last (filter (\<lambda>x. key x = k) xs)"

definition by_id :: "('i \<Rightarrow> 'k) \<Rightarrow> 'i list \<Rightarrow> 'i list" where
  "by_id key xs = map (last_version key xs) (first_keys (map key xs))"

lemma set_first_keys [simp]: "set (first_keys ks) = set ks"
  by (induction ks) auto

lemma distinct_first_keys [simp]: "distinct (first_keys ks)"
  by (induction ks) auto

lemma first_keys_snoc: "first_keys (ks @ [k]) = (if k \<in> set ks then first_keys ks else first_keys ks @ [k])"
  by (induction ks) auto

lemma map_set_old: "k \<in> set ks \<Longrightarrow> distinct ks \<Longrightarrow> map_set (map (\<lambda>x. (x, f x)) ks) k v = map (\<lambda>x. (x, (f(k := v)) x)) ks"
  by (induction ks) auto

lemma map_set_new: "k \<notin> set ks \<Longrightarrow> map_set (map (\<lambda>x. (x, f x)) ks) k v = map (\<lambda>x. (x, (f(k := v)) x)) (ks @ [k])"
  by (induction ks) auto

lemma last_version_snoc: "last_version key (xs @ [x]) = (last_version key xs)(key x := x)"
  by (auto simp: last_version_def fun_eq_iff)

lemma set_items_by_id:
  "set_items key [] xs = map (\<lambda>k. (k, last_version key xs k)) (first_keys (map key xs))"
proof (induction xs rule: rev_induct)
  case (snoc x xs)
  have "set_items key [] (xs @ [x]) = map_set (set_items key [] xs) (key x) x"
    by (simp add: set_items_def)
  also have "\<dots> = map (\<lambda>k. (k, last_version key (xs @ [x]) k)) (first_keys (map key (xs @ [x])))"
    unfolding snoc.IH last_version_snoc
    by (cases "key x \<in> key ` set xs") (simp_all add: map_set_old map_set_new first_keys_snoc)
  finally show ?case .
qed (simp add: set_items_def)

lemma set_items_append: "set_items key (set_items key m xs) ys = set_items key m (xs @ ys)"
  by (simp add: set_items_def)

lemma map_snd_by_id: "map snd (set_items key [] xs) = by_id key xs"
  by (simp add: set_items_by_id by_id_def comp_def)

definition served :: "'i page list \<Rightarrow> 'i list" where
  "served pgs = concat (map pg_items pgs)"

lemma served_simps [simp]: "served [] = []" "served (p # ps) = pg_items p @ served ps"
  by (simp_all add: served_def)

subsection \<open>The bounded loop\<close>

lemma pages_loop_fetched:
  "pages_loop fn aborted key left c (set_items key [] xs) s = Inr (items, tr) \<Longrightarrow>
   \<exists>pgs c' s'. fetched fn c s pgs c' s' \<and> items = by_id key (xs @ served pgs) \<and> tr = str_truthy c'
     \<and> length pgs \<le> max 1 left \<and> (tr \<longrightarrow> length pgs = max 1 left)"
proof (induction left arbitrary: c xs s rule: less_induct)
  case (less left)
  from less.prems obtain res s1 where fn: "fn s c = (Inr res, s1)" and na: "\<not> aborted s1"
    by (subst (asm) pages_loop.simps) (auto split: if_splits prod.splits sum.splits)
  let ?m = "set_items key [] (xs @ pg_items res)"
  have step: "pages_loop fn aborted key left c (set_items key [] xs) s
      = (if str_truthy (pg_next res) \<and> left > 1 then pages_loop fn aborted key (left - 1) (pg_next res) ?m s1
         else Inr (map snd ?m, str_truthy (pg_next res)))"
    using less.prems fn na by (subst pages_loop.simps, subst (asm) pages_loop.simps)
      (auto simp: set_items_append Let_def split: if_splits)
  show ?case
  proof (cases "str_truthy (pg_next res) \<and> left > 1")
    case True
    then have "pages_loop fn aborted key (left - 1) (pg_next res) ?m s1 = Inr (items, tr)" using less.prems step by simp
    from less.IH [OF _ this] True obtain pgs c' s' where
      "fetched fn (pg_next res) s1 pgs c' s'" "items = by_id key ((xs @ pg_items res) @ served pgs)" "tr = str_truthy c'"
      "length pgs \<le> max 1 (left - 1)" "tr \<longrightarrow> length pgs = max 1 (left - 1)" by auto
    moreover have "fetched fn c s (res # pgs) c' s'"
      using fetched.more [where fn = fn and s = s and c = c, OF fn] True \<open>fetched fn (pg_next res) s1 pgs c' s'\<close> by blast
    ultimately show ?thesis using True by (intro exI [of _ "res # pgs"] exI [of _ c'] exI [of _ s']) auto
  next
    case False
    then have "items = by_id key (xs @ pg_items res)" "tr = str_truthy (pg_next res)"
      using less.prems step by (auto simp: map_snd_by_id)
    moreover have "fetched fn c s [res] (pg_next res) s1" by (rule fetched.one [where fn = fn, OF fn])
    ultimately show ?thesis using False by (intro exI [of _ "[res]"] exI [of _ "pg_next res"] exI [of _ s1]) auto
  qed
qed

text \<open>C16: a list fetched page by page is the pages fetched: whatever the server answers and changes on the way,
  \<open>listAllPages\<close> returns every id served on the pages it fetched once, in the order of first appearance
  and in the version served last; it fetches at most \<open>maxPages\<close> pages, and \<open>truncated\<close> is set exactly
  when it stopped there with more to come.\<close>

theorem listAllPages_collects:
  assumes "listAllPages fn aborted key maxPages s = Inr (items, truncated)"
  shows "\<exists>pgs c' s'. fetched fn None s pgs c' s' \<and> items = by_id key (served pgs)
     \<and> distinct (map key items) \<and> key ` set items = key ` set (served pgs)
     \<and> length pgs \<le> max 1 maxPages \<and> truncated = str_truthy c' \<and> (truncated \<longrightarrow> length pgs = max 1 maxPages)"
proof -
  have k: "map key (by_id key xs) = first_keys (map key xs)" for xs
  proof -
    have "key (last_version key xs k) = k" if "k \<in> set (map key xs)" for k
    proof -
      have "filter (\<lambda>x. key x = k) xs \<noteq> []" using that by (auto simp: filter_empty_conv)
      then have "last_version key xs k \<in> set (filter (\<lambda>x. key x = k) xs)" unfolding last_version_def by (rule last_in_set)
      then show ?thesis by simp
    qed
    then show ?thesis by (auto simp: by_id_def comp_def intro!: map_idI)
  qed
  then have "distinct (map key (by_id key xs))" "key ` set (by_id key xs) = key ` set xs" for xs
    by (simp_all add: k flip: set_map)
  moreover have "pages_loop fn aborted key maxPages None (set_items key [] []) s = Inr (items, truncated)"
    using assms by (simp add: listAllPages_def set_items_def)
  from pages_loop_fetched [OF this] obtain pgs c' s' where "fetched fn None s pgs c' s'" "items = by_id key (served pgs)"
    "truncated = str_truthy c'" "length pgs \<le> max 1 maxPages" "truncated \<longrightarrow> length pgs = max 1 maxPages" by auto
  ultimately show ?thesis by metis
qed

definition two_pages :: "(unit, string) list_fn" where
  "two_pages s c = (Inr (if c = Some ''p2'' then \<lparr>pg_items = [''b'', ''c''], pg_next = None\<rparr>
                         else \<lparr>pg_items = [''a'', ''b''], pg_next = Some ''p2''\<rparr>), s)"

lemma listAllPages_collects_witness:
  "listAllPages two_pages (\<lambda>_. False) (\<lambda>x. x) 50 () = Inr ([''a'', ''b'', ''c''], False)
   \<and> distinct [''a'', ''b'', ''c'']"
proof -
  have r: "listAllPages two_pages (\<lambda>_. False) (\<lambda>x. x) 50 () = Inr ([''a'', ''b'', ''c''], False)"
    by (simp add: listAllPages_def two_pages_def set_items_def)
  from listAllPages_collects [OF r] r show ?thesis by (simp del: list.map)
qed

subsection \<open>The unbounded loop\<close>

lemma entities_loop_fetched:
  "fetched fn c s pgs c' s' \<Longrightarrow> \<not> str_truthy c' \<Longrightarrow>
   entities_loop fn key c (set_items key [] xs) s = Some (Inr (by_id key (xs @ served pgs)))"
proof (induction arbitrary: xs rule: fetched.induct)
  case (one s c pg s')
  then show ?case by (subst entities_loop.simps) (simp add: set_items_append map_snd_by_id)
next
  case (more s c pg s' pgs c' s'')
  then show ?case by (subst entities_loop.simps) (simp add: set_items_append)
qed

lemma entities_loop_complete:
  "entities_loop fn key c byId s = Some r \<Longrightarrow> \<forall>items xs. r = Inr items \<longrightarrow> byId = set_items key [] xs \<longrightarrow>
   (\<exists>pgs c' s'. fetched fn c s pgs c' s' \<and> \<not> str_truthy c' \<and> items = by_id key (xs @ served pgs))"
proof (erule entities_loop.raw_induct [where P = "\<lambda>fn key c byId s r. \<forall>items xs. r = Inr items \<longrightarrow> byId = set_items key [] xs \<longrightarrow>
   (\<exists>pgs c' s'. fetched fn c s pgs c' s' \<and> \<not> str_truthy c' \<and> items = by_id key (xs @ served pgs))", rotated],
   intro allI impI)
  fix loop and fn :: "('s, 'i) list_fn" and key :: "'i \<Rightarrow> 'k" and c byId s r items xs
  assume IH: "\<And>fn key c byId s r. loop fn key c byId s = Some r \<Longrightarrow> \<forall>items xs. r = Inr items \<longrightarrow> byId = set_items key [] xs \<longrightarrow>
      (\<exists>pgs c' s'. fetched fn c s pgs c' s' \<and> \<not> str_truthy c' \<and> items = by_id key (xs @ served pgs))"
    and body: "(case fn s c of (Inl e, _) \<Rightarrow> Some (Inl e)
      | (Inr res, s') \<Rightarrow> let byId' = set_items key byId (pg_items res) in
          if str_truthy (pg_next res) then loop fn key (pg_next res) byId' s' else Some (Inr (map snd byId'))) = Some r"
    and r: "r = Inr items" and b: "byId = set_items key [] xs"
  from body r obtain res s1 where fn: "fn s c = (Inr res, s1)" by (auto split: prod.splits sum.splits)
  show "\<exists>pgs c' s'. fetched fn c s pgs c' s' \<and> \<not> str_truthy c' \<and> items = by_id key (xs @ served pgs)"
  proof (cases "str_truthy (pg_next res)")
    case True
    then have "loop fn key (pg_next res) (set_items key [] (xs @ pg_items res)) s1 = Some r"
      using body fn b by (simp add: set_items_append)
    from IH [OF this] r obtain pgs c' s' where
      f: "fetched fn (pg_next res) s1 pgs c' s'" "\<not> str_truthy c'" "items = by_id key ((xs @ pg_items res) @ served pgs)"
      by blast
    have "fetched fn c s (res # pgs) c' s'" by (rule fetched.more [where fn = fn, OF fn True f(1)])
    then show ?thesis using f(2,3) by (intro exI [of _ "res # pgs"] exI [of _ c'] exI [of _ s']) simp
  next
    case False
    then have "items = by_id key (xs @ pg_items res)" using body fn b r by (auto simp: set_items_append map_snd_by_id)
    moreover have "fetched fn c s [res] (pg_next res) s1" by (rule fetched.one [where fn = fn, OF fn])
    ultimately show ?thesis using False by (intro exI [of _ "[res]"] exI [of _ "pg_next res"] exI [of _ s1]) simp
  qed
qed

text \<open>\<open>listAllEntities\<close> returns exactly when the server's cursors come to an end, and then with the same collection as
  the bounded loop: every id served once, in the version served last.\<close>

theorem listAllEntities_returns_iff:
  "listAllEntities fn key s = Some (Inr items) \<longleftrightarrow>
   (\<exists>pgs c' s'. fetched fn None s pgs c' s' \<and> \<not> str_truthy c' \<and> items = by_id key (served pgs))"
proof
  assume "listAllEntities fn key s = Some (Inr items)"
  then have "entities_loop fn key None (set_items key [] []) s = Some (Inr items)"
    by (simp add: listAllEntities_def set_items_def)
  from entities_loop_complete [OF this]
  show "\<exists>pgs c' s'. fetched fn None s pgs c' s' \<and> \<not> str_truthy c' \<and> items = by_id key (served pgs)" by (metis append_Nil)
next
  assume "\<exists>pgs c' s'. fetched fn None s pgs c' s' \<and> \<not> str_truthy c' \<and> items = by_id key (served pgs)"
  then obtain pgs c' s' where "fetched fn None s pgs c' s'" "\<not> str_truthy c'" "items = by_id key (served pgs)" by blast
  with entities_loop_fetched [of fn None s pgs c' s' key "[]"]
  show "listAllEntities fn key s = Some (Inr items)" by (simp add: listAllEntities_def set_items_def)
qed

lemma fetched_endless:
  "fetched fn c s pgs c' s' \<Longrightarrow> (\<And>s c pg s'. fn s c = (Inr pg, s') \<Longrightarrow> str_truthy (pg_next pg)) \<Longrightarrow> str_truthy c'"
  by (induction rule: fetched.induct) auto

lemma no_error:
  "entities_loop fn key c byId s = Some r \<Longrightarrow> (\<forall>s c. \<exists>pg s'. fn s c = (Inr pg, s')) \<longrightarrow> (\<exists>items. r = Inr items)"
proof (erule entities_loop.raw_induct [where P = "\<lambda>fn key c byId s r. (\<forall>s c. \<exists>pg s'. fn s c = (Inr pg, s'))
    \<longrightarrow> (\<exists>items. r = Inr items)", rotated], intro impI)
  fix loop and fn :: "('s, 'i) list_fn" and key :: "'i \<Rightarrow> 'k" and c byId s r
  assume IH: "\<And>fn key c byId s r. loop fn key c byId s = Some r \<Longrightarrow> (\<forall>s c. \<exists>pg s'. fn s c = (Inr pg, s'))
      \<longrightarrow> (\<exists>items. r = Inr items)"
    and body: "(case fn s c of (Inl e, _) \<Rightarrow> Some (Inl e)
      | (Inr res, s') \<Rightarrow> let byId' = set_items key byId (pg_items res) in
          if str_truthy (pg_next res) then loop fn key (pg_next res) byId' s' else Some (Inr (map snd byId'))) = Some r"
    and ok: "\<forall>s c. \<exists>pg s'. fn s c = (Inr pg, s')"
  from ok obtain pg s' where "fn s c = (Inr pg, s')" by blast
  with body show "\<exists>items. r = Inr items" using IH ok by (auto simp: Let_def split: if_splits)
qed

lemma pages_loop_total:
  "(\<And>s c. \<exists>pg s'. fn s c = (Inr pg, s')) \<Longrightarrow> \<exists>items tr. pages_loop fn (\<lambda>_. False) key left c byId s = Inr (items, tr)"
proof (induction left arbitrary: c byId s rule: less_induct)
  case (less left)
  from less.prems obtain pg s' where "fn s c = (Inr pg, s')" by blast
  then show ?case using less.IH [of "left - 1"] less.prems
    by (subst pages_loop.simps) (auto simp: Let_def)
qed

text \<open>C17: against a server whose pages never end (every answer has a next cursor, a repeated one for instance)
  \<open>listAllEntities\<close> never returns, while \<open>listAllPages\<close> stops at its bound and says \<open>truncated\<close>.\<close>

theorem endless_pages:
  assumes "\<And>s c. \<exists>pg s'. fn s c = (Inr pg, s') \<and> str_truthy (pg_next pg)"
  shows "listAllEntities fn key s = None
     \<and> (\<exists>items. listAllPages fn (\<lambda>_. False) key maxPages s = Inr (items, True))"
proof (intro conjI)
  have ok: "\<exists>pg s'. fn s c = (Inr pg, s')" for s c using assms by blast
  have nxt: "fn s c = (Inr pg, s') \<Longrightarrow> str_truthy (pg_next pg)" for s c pg s'
    using assms [of s c] by auto
  show "listAllEntities fn key s = None"
  proof (rule ccontr)
    assume "listAllEntities fn key s \<noteq> None"
    then obtain r where r: "listAllEntities fn key s = Some r" by blast
    then obtain items where "r = Inr items" using no_error [of fn key None "[]" s r] ok by (auto simp: listAllEntities_def)
    with r obtain pgs c' s' where "fetched fn None s pgs c' s'" "\<not> str_truthy c'"
      using entities_loop_complete [of fn key None "[]" s r] by (auto simp: listAllEntities_def set_items_def dest!: spec [of _ "[]"])
    with fetched_endless nxt show False by metis
  qed
  obtain items tr where p: "pages_loop fn (\<lambda>_. False) key maxPages None (set_items key [] []) s = Inr (items, tr)"
    using pages_loop_total [where fn = fn] ok by blast
  with pages_loop_fetched [OF p] fetched_endless nxt have "tr" by metis
  then show "\<exists>items. listAllPages fn (\<lambda>_. False) key maxPages s = Inr (items, True)"
    using p by (auto simp: listAllPages_def set_items_def)
qed

definition stuck_server :: "(unit, string) list_fn" where
  "stuck_server s c = (Inr \<lparr>pg_items = [''a''], pg_next = Some ''again''\<rparr>, s)"

lemma endless_pages_witness: "listAllEntities stuck_server (\<lambda>x. x) () = None"
  by (rule endless_pages [THEN conjunct1]) (simp add: stuck_server_def)

end
